(* ===== verification/Prelude.thy ===== *)
theory Prelude
  imports Main "HOL-Library.Word"
begin

text \<open>
  What every component shares: the strings of Go (byte strings) and the parts of its
  packages \<^verbatim>\<open>strings\<close> and \<^verbatim>\<open>strconv\<close> that the controller calls, the errors, the
  rows of a table updated in place, and the lemma collections of the development.
\<close>

named_theorems go_strings \<open>characteristic facts of the string functions\<close>
named_theorems op_defs \<open>the definitions of the storage operations\<close>

section \<open>Errors\<close>

text \<open>
  A Go \<^verbatim>\<open>error\<close>: a failure reported by the database driver, the sentinel
  \<^verbatim>\<open>sql.ErrNoRows\<close>, a text made by \<^verbatim>\<open>errors.New\<close> or \<^verbatim>\<open>fmt.Errorf\<close>, or a text
  wrapped around another error by the verb \<^verbatim>\<open>%w\<close>. A run-time panic, which ends the call as
  an error does, is \<open>GoPanic\<close>. A gRPC handler answers with a status (\<^verbatim>\<open>status.Errorf\<close>), the
  registration with a \<^verbatim>\<open>registrationAuthError\<close> (HTTP status, message, cause) or with the text of
  a \<^verbatim>\<open>RouteConflictError\<close>.
\<close>

datatype grpc_code = Unauthenticated | PermissionDenied | Internal

datatype err = DBError | ErrNoRows | ErrMsg string | ErrWrap string err | GoPanic string
  | GrpcStatus grpc_code string | RegistrationAuthError int string err | RouteConflict string

section \<open>Go strings\<close>

text \<open>\<^verbatim>\<open>%q\<close> of a text without characters to escape.\<close>

definition double_quoted :: "string \<Rightarrow> string" where
  "double_quoted s = [CHR 0x22] @ s @ [CHR 0x22]"

text \<open>
  \<^verbatim>\<open>strings.TrimSpace\<close> removes the code points of \<^verbatim>\<open>unicode.IsSpace\<close> at both ends.
  Strings are UTF-8 bytes: \<open>space_runes\<close> are the encodings of all those code points.
\<close>

definition space_runes :: "string list" where
  "space_runes =
     [[CHR 0x09], [CHR 0x0A], [CHR 0x0B], [CHR 0x0C], [CHR 0x0D], [CHR 0x20],
      [CHR 0xC2, CHR 0x85], [CHR 0xC2, CHR 0xA0], [CHR 0xE1, CHR 0x9A, CHR 0x80],
      [CHR 0xE2, CHR 0x80, CHR 0x80], [CHR 0xE2, CHR 0x80, CHR 0x81],
      [CHR 0xE2, CHR 0x80, CHR 0x82], [CHR 0xE2, CHR 0x80, CHR 0x83],
      [CHR 0xE2, CHR 0x80, CHR 0x84], [CHR 0xE2, CHR 0x80, CHR 0x85],
      [CHR 0xE2, CHR 0x80, CHR 0x86], [CHR 0xE2, CHR 0x80, CHR 0x87],
      [CHR 0xE2, CHR 0x80, CHR 0x88], [CHR 0xE2, CHR 0x80, CHR 0x89],
      [CHR 0xE2, CHR 0x80, CHR 0x8A], [CHR 0xE2, CHR 0x80, CHR 0xA8],
      [CHR 0xE2, CHR 0x80, CHR 0xA9], [CHR 0xE2, CHR 0x80, CHR 0xAF],
      [CHR 0xE2, CHR 0x81, CHR 0x9F], [CHR 0xE3, CHR 0x80, CHR 0x80]]"

text \<open>The length of the first of the given sequences that the list starts with, or 0.\<close>

definition head_len :: "'a list list \<Rightarrow> 'a list \<Rightarrow> nat" where
  "head_len rs s = (case find (\<lambda>r. take (length r) s = r) rs of None \<Rightarrow> 0 | Some r \<Rightarrow> length r)"

lemma head_len_le: "head_len rs s \<le> length s"
proof (cases "find (\<lambda>r. take (length r) s = r) rs")
  case (Some r)
  then have "take (length r) s = r" by (auto simp: find_Some_iff)
  then have "length (take (length r) s) = length r" by simp
  then show ?thesis using Some by (simp add: head_len_def)
qed (simp add: head_len_def)

function strip_head :: "'a list list \<Rightarrow> 'a list \<Rightarrow> 'a list" where
  "strip_head rs s = (if head_len rs s = 0 then s else strip_head rs (drop (head_len rs s) s))"
  by pat_completeness auto
termination
proof (relation "measure (\<lambda>(rs, s). length s)")
  fix rs s
  assume "head_len rs s \<noteq> 0"
  with head_len_le [of rs s] show "((rs, drop (head_len rs s) s), rs, s) \<in> measure (\<lambda>(rs, s). length s)"
    by simp
qed simp

declare strip_head.simps [simp del]

definition TrimSpace :: "string \<Rightarrow> string" where
  "TrimSpace s = rev (strip_head (map rev space_runes) (rev (strip_head space_runes s)))"

text \<open>
  \<^verbatim>\<open>strings.ToLower\<close> on the letters A to Z and on the two other code points whose lower
  case is an ASCII letter (U+0130 and U+212A). Other cased letters keep their bytes: their
  lower case is not ASCII, so no comparison with a constant of the program depends on it.
\<close>

definition ascii_lower :: "char \<Rightarrow> char" where
  "ascii_lower c = (let n = (of_char c :: nat) in if 65 \<le> n \<and> n \<le> 90 then char_of (n + 32) else c)"

fun ToLower :: "string \<Rightarrow> string" where
  "ToLower [] = []"
| "ToLower (c # cs) =
     (if c = CHR 0xC4 \<and> take 1 cs = [CHR 0xB0] then CHR ''i'' # ToLower (drop 1 cs)
      else if c = CHR 0xE2 \<and> take 2 cs = [CHR 0x84, CHR 0xAA] then CHR ''k'' # ToLower (drop 2 cs)
      else ascii_lower c # ToLower cs)"

text \<open>
  \<^verbatim>\<open>strings.EqualFold\<close> against an ASCII constant: simple case folding, where U+212A folds
  to k and U+017F folds to s.
\<close>

fun fold_ascii :: "string \<Rightarrow> string" where
  "fold_ascii [] = []"
| "fold_ascii (c # cs) =
     (if c = CHR 0xC5 \<and> take 1 cs = [CHR 0xBF] then CHR ''s'' # fold_ascii (drop 1 cs)
      else if c = CHR 0xE2 \<and> take 2 cs = [CHR 0x84, CHR 0xAA] then CHR ''k'' # fold_ascii (drop 2 cs)
      else ascii_lower c # fold_ascii cs)"

definition EqualFold :: "string \<Rightarrow> string \<Rightarrow> bool" where
  "EqualFold s t \<longleftrightarrow> fold_ascii s = fold_ascii t"

text \<open>\<^verbatim>\<open>strings.Split\<close> at a one-byte separator, \<^verbatim>\<open>strings.Index\<close> and \<^verbatim>\<open>strings.LastIndex\<close>.\<close>

fun Split :: "char \<Rightarrow> string \<Rightarrow> string list" where
  "Split sep [] = [[]]"
| "Split sep (c # cs) =
     (if c = sep then [] # Split sep cs
      else (case Split sep cs of [] \<Rightarrow> [[c]] | p # ps \<Rightarrow> (c # p) # ps))"

fun Index :: "char \<Rightarrow> string \<Rightarrow> nat option" where
  "Index x [] = None"
| "Index x (c # cs) = (if c = x then Some 0 else map_option Suc (Index x cs))"

definition LastIndex :: "char \<Rightarrow> string \<Rightarrow> nat option" where
  "LastIndex x s = map_option (\<lambda>i. length s - 1 - i) (Index x (rev s))"

definition Contains :: "string \<Rightarrow> char \<Rightarrow> bool" where
  "Contains s c \<longleftrightarrow> c \<in> set s"

text \<open>\<^verbatim>\<open>strings.Trim\<close> with a set of one-byte characters.\<close>

definition Trim :: "string \<Rightarrow> string \<Rightarrow> string" where
  "Trim s cutset = rev (dropWhile (\<lambda>c. c \<in> set cutset) (rev (dropWhile (\<lambda>c. c \<in> set cutset) s)))"

fun Join :: "string \<Rightarrow> string list \<Rightarrow> string" where
  "Join sep [] = []"
| "Join sep [x] = x"
| "Join sep (x # y # ys) = x @ sep @ Join sep (y # ys)"

subsection \<open>Facts about trimming\<close>

lemma head_len_zero_iff:
  assumes "[] \<notin> set rs"
  shows "head_len rs s = 0 \<longleftrightarrow> (\<forall>r \<in> set rs. take (length r) s \<noteq> r)"
proof (cases "find (\<lambda>r. take (length r) s = r) rs")
  case None
  then have "\<forall>r \<in> set rs. take (length r) s \<noteq> r" by (auto simp: find_None_iff)
  with None show ?thesis by (simp add: head_len_def)
next
  case (Some r)
  then have "r \<in> set rs" "take (length r) s = r" by (auto simp: find_Some_iff)
  with Some assms show ?thesis by (auto simp: head_len_def)
qed

lemma head_len_strip_head [simp]: "head_len rs (strip_head rs s) = 0"
  by (induction rs s rule: strip_head.induct) (subst strip_head.simps, simp)

lemma strip_head_id: "head_len rs s = 0 \<Longrightarrow> strip_head rs s = s"
  by (subst strip_head.simps) simp

lemma strip_head_suffix: "\<exists>n. strip_head rs s = drop n s"
proof (induction rs s rule: strip_head.induct)
  case (1 rs s)
  show ?case
  proof (cases "head_len rs s = 0")
    case True
    then have "strip_head rs s = drop 0 s" by (simp add: strip_head_id)
    then show ?thesis ..
  next
    case False
    with "1" obtain n where "strip_head rs (drop (head_len rs s) s) = drop n (drop (head_len rs s) s)"
      by blast
    with False show ?thesis by (auto simp: strip_head.simps [of rs s])
  qed
qed

text \<open>A list that starts with none of the sequences has no prefix that does.\<close>

lemma head_len_take:
  assumes "[] \<notin> set rs" and "head_len rs s = 0"
  shows "head_len rs (take n s) = 0"
  unfolding head_len_zero_iff [OF assms(1)]
proof
  fix r
  assume "r \<in> set rs"
  show "take (length r) (take n s) \<noteq> r"
  proof
    assume eq: "take (length r) (take n s) = r"
    then have "length (take (length r) (take n s)) = length r" by simp
    then have "length r \<le> n" by simp
    with eq have "take (length r) s = r" by (simp add: min_absorb1)
    with assms \<open>r \<in> set rs\<close> show False by (simp add: head_len_zero_iff)
  qed
qed

lemma space_runes_nonempty: "[] \<notin> set space_runes" "[] \<notin> set (map rev space_runes)"
  by (simp_all add: space_runes_def)

lemma TrimSpace_empty [simp]: "TrimSpace [] = []"
proof -
  have "head_len rs [] = 0" for rs :: "string list"
    using head_len_le [of rs "[]"] by simp
  then show ?thesis by (simp add: TrimSpace_def strip_head_id)
qed

lemma TrimSpace_idem [simp, go_strings]: "TrimSpace (TrimSpace s) = TrimSpace s"
proof -
  define l where "l = strip_head space_runes s"
  obtain n where n: "strip_head (map rev space_runes) (rev l) = drop n (rev l)"
    using strip_head_suffix by blast
  have t: "TrimSpace s = take (length l - n) l"
    by (simp add: TrimSpace_def l_def [symmetric] n rev_drop)
  have "head_len space_runes l = 0" by (simp add: l_def)
  then have "head_len space_runes (TrimSpace s) = 0"
    unfolding t by (rule head_len_take [OF space_runes_nonempty(1)])
  then have "strip_head space_runes (TrimSpace s) = TrimSpace s"
    by (rule strip_head_id)
  moreover have "strip_head (map rev space_runes) (rev (TrimSpace s)) = rev (TrimSpace s)"
    by (simp add: TrimSpace_def strip_head_id)
  ultimately show ?thesis by (simp add: TrimSpace_def [of "TrimSpace s"])
qed

text \<open>Trimming a string without any whitespace code point at its ends changes nothing.\<close>

lemma TrimSpace_id:
  assumes "head_len space_runes s = 0" and "head_len (map rev space_runes) (rev s) = 0"
  shows "TrimSpace s = s"
  using assms by (simp add: TrimSpace_def strip_head_id)

lemma TrimSpace_no_space:
  assumes "set s \<inter> \<Union> (set ` set space_runes) = {}"
  shows "TrimSpace s = s"
proof -
  have "head_len rs t = 0" if "set t = set s" "[] \<notin> set rs" "\<Union> (set ` set rs) = \<Union> (set ` set space_runes)" for rs t
    unfolding head_len_zero_iff [OF that(2)]
  proof
    fix r assume r: "r \<in> set rs"
    show "take (length r) t \<noteq> r"
    proof
      assume "take (length r) t = r"
      then have "set r \<subseteq> set s" using that(1) by (metis set_take_subset)
      moreover have "r \<noteq> []" using r that(2) by auto
      ultimately have "hd r \<in> set s" "hd r \<in> \<Union> (set ` set rs)" using r hd_in_set [of r] by blast+
      then show False using assms unfolding that(3) by blast
    qed
  qed
  from this [of s space_runes] this [of "rev s" "map rev space_runes"] show ?thesis
    using space_runes_nonempty by (intro TrimSpace_id) simp_all
qed

text \<open>A byte of no whitespace code point is never removed.\<close>

lemma head_len_take_set: "set (take (head_len rs s) s) \<subseteq> \<Union> (set ` set rs)"
proof (cases "find (\<lambda>r. take (length r) s = r) rs")
  case (Some r)
  then have "r \<in> set rs" "take (length r) s = r" by (auto simp: find_Some_iff)
  with Some show ?thesis by (auto simp: head_len_def)
qed (simp add: head_len_def)

lemma strip_head_keeps:
  "c \<in> set s \<Longrightarrow> c \<notin> \<Union> (set ` set rs) \<Longrightarrow> c \<in> set (strip_head rs s)"
proof (induction rs s rule: strip_head.induct)
  case (1 rs s)
  show ?case
  proof (cases "head_len rs s = 0")
    case True
    with "1.prems" show ?thesis by (simp add: strip_head_id)
  next
    case False
    have "set s = set (take (head_len rs s) s) \<union> set (drop (head_len rs s) s)"
      by (metis append_take_drop_id set_append)
    with "1.prems" head_len_take_set [of rs s] have "c \<in> set (drop (head_len rs s) s)" by blast
    with "1.IH" [OF False] "1.prems"(2) False show ?thesis by (subst strip_head.simps) simp
  qed
qed

lemma TrimSpace_keeps:
  assumes "c \<in> set s" and "c \<notin> \<Union> (set ` set space_runes)"
  shows "TrimSpace s \<noteq> []"
proof -
  have "c \<in> set (strip_head (map rev space_runes) (rev (strip_head space_runes s)))"
    using assms by (intro strip_head_keeps) (auto simp: strip_head_keeps)
  then show ?thesis by (auto simp: TrimSpace_def)
qed

section \<open>Decimal numbers\<close>

text \<open>\<^verbatim>\<open>strconv.Itoa\<close> and \<^verbatim>\<open>fmt.Sprintf("%d")\<close>, and \<^verbatim>\<open>strconv.Atoi\<close> with the range of a 64-bit \<^verbatim>\<open>int\<close>.\<close>

definition digit_char :: "nat \<Rightarrow> char" where
  "digit_char d = char_of (48 + d)"

definition char_digit :: "char \<Rightarrow> nat option" where
  "char_digit c = (let n = (of_char c :: nat) in if 48 \<le> n \<and> n \<le> 57 then Some (n - 48) else None)"

fun itoa_nat :: "nat \<Rightarrow> string" where
  "itoa_nat n = (if n < 10 then [digit_char n] else itoa_nat (n div 10) @ [digit_char (n mod 10)])"

declare itoa_nat.simps [simp del]

definition Itoa :: "int \<Rightarrow> string" where
  "Itoa i = (if i < 0 then CHR ''-'' # itoa_nat (nat (- i)) else itoa_nat (nat i))"

fun digits_value :: "nat \<Rightarrow> string \<Rightarrow> nat option" where
  "digits_value acc [] = Some acc"
| "digits_value acc (c # cs) =
     (case char_digit c of None \<Rightarrow> None | Some d \<Rightarrow> digits_value (acc * 10 + d) cs)"

definition parse_nat :: "string \<Rightarrow> nat option" where
  "parse_nat s = (if s = [] then None else digits_value 0 s)"

definition Atoi :: "string \<Rightarrow> int option" where
  "Atoi s =
     (let neg = (take 1 s = ''-''); body = (if take 1 s = ''-'' \<or> take 1 s = ''+'' then drop 1 s else s)
      in case parse_nat body of
           None \<Rightarrow> None
         | Some n \<Rightarrow>
             (let v = (if neg then - int n else int n)
              in if - (2 ^ 63) \<le> v \<and> v < 2 ^ 63 then Some v else None))"

lemma char_digit_digit_char: "d < 10 \<Longrightarrow> char_digit (digit_char d) = Some d"
  by (simp add: char_digit_def digit_char_def)

lemma digits_value_append:
  "digits_value acc (xs @ ys) =
     (case digits_value acc xs of None \<Rightarrow> None | Some a \<Rightarrow> digits_value a ys)"
  by (induction xs arbitrary: acc) (auto split: option.split)

lemma digits_value_itoa: "digits_value 0 (itoa_nat n) = Some n"
proof (induction n rule: itoa_nat.induct)
  case (1 n)
  show ?case
  proof (cases "n < 10")
    case True
    then show ?thesis by (simp add: itoa_nat.simps [of n] char_digit_digit_char)
  next
    case False
    with "1" show ?thesis
      by (simp add: itoa_nat.simps [of n] digits_value_append char_digit_digit_char)
  qed
qed

lemma itoa_nat_nonempty [simp]: "itoa_nat n \<noteq> []"
  by (subst itoa_nat.simps) simp

lemma parse_nat_itoa [simp]: "parse_nat (itoa_nat n) = Some n"
  by (simp add: parse_nat_def digits_value_itoa)

lemma itoa_nat_head: "\<exists>d < 10. take 1 (itoa_nat n) = [digit_char d]"
proof (induction n rule: itoa_nat.induct)
  case (1 n)
  show ?case
  proof (cases "n < 10")
    case True
    then show ?thesis by (auto simp: itoa_nat.simps [of n])
  next
    case False
    with "1" obtain d where "d < 10" "take 1 (itoa_nat (n div 10)) = [digit_char d]" by blast
    then show ?thesis using False
      by (cases "itoa_nat (n div 10)") (auto simp: itoa_nat.simps [of n])
  qed
qed

lemma digit_char_not_sign: "d < 10 \<Longrightarrow> digit_char d \<noteq> CHR ''-'' \<and> digit_char d \<noteq> CHR ''+''"
  using char_digit_digit_char [of d] by (auto simp: char_digit_def)

theorem Atoi_Itoa:
  assumes "- (2 ^ 63) \<le> i" and "i < 2 ^ 63"
  shows "Atoi (Itoa i) = Some i"
proof (cases "i < 0")
  case True
  with assms show ?thesis by (simp add: Itoa_def Atoi_def)
next
  case False
  obtain d where "d < 10" "take 1 (itoa_nat (nat i)) = [digit_char d]"
    using itoa_nat_head by blast
  with assms False digit_char_not_sign [of d] show ?thesis by (simp add: Itoa_def Atoi_def)
qed

section \<open>Rows of a table\<close>

text \<open>
  \<open>update_where P f rows\<close> is \<^verbatim>\<open>UPDATE ... SET f WHERE P\<close>; \<open>affected P rows\<close> is the
  number of rows it touches.
\<close>

definition update_where :: "('r \<Rightarrow> bool) \<Rightarrow> ('r \<Rightarrow> 'r) \<Rightarrow> 'r list \<Rightarrow> 'r list" where
  "update_where P f = map (\<lambda>r. if P r then f r else r)"

definition affected :: "('r \<Rightarrow> bool) \<Rightarrow> 'r list \<Rightarrow> nat" where
  "affected P rows = length (filter P rows)"

lemma set_update_where: "set (update_where P f rows) = (\<lambda>r. if P r then f r else r) ` set rows"
  by (simp add: update_where_def)

lemma update_whereE:
  assumes "r \<in> set (update_where P f rows)"
  obtains (updated) q where "q \<in> set rows" "P q" "r = f q" | (kept) "r \<in> set rows" "\<not> P r"
  using assms by (auto simp: set_update_where split: if_split_asm)

lemma length_update_where [simp]: "length (update_where P f rows) = length rows"
  by (simp add: update_where_def)

lemma update_where_none: "(\<And>r. r \<in> set rows \<Longrightarrow> \<not> P r) \<Longrightarrow> update_where P f rows = rows"
  by (induction rows) (auto simp: update_where_def)

lemma map_key_update_where: "(\<And>r. key (f r) = key r) \<Longrightarrow> map key (update_where P f rows) = map key rows"
  by (simp add: update_where_def)

lemma affected_zero_iff: "affected P rows = 0 \<longleftrightarrow> (\<forall>r \<in> set rows. \<not> P r)"
  by (auto simp: affected_def filter_empty_conv)

text \<open>
  Two versions of a table without deletions: the old rows are related one by one to a
  prefix of the new ones, and new rows come after them.
\<close>

definition rows_rel :: "('r \<Rightarrow> 'r \<Rightarrow> bool) \<Rightarrow> 'r list \<Rightarrow> 'r list \<Rightarrow> bool" where
  "rows_rel R xs ys \<longleftrightarrow> length xs \<le> length ys \<and> list_all2 R xs (take (length xs) ys)"

lemma rows_rel_nth: "rows_rel R xs ys \<longleftrightarrow> length xs \<le> length ys \<and> (\<forall>i < length xs. R (xs ! i) (ys ! i))"
  by (auto simp: rows_rel_def list_all2_conv_all_nth)

lemma rows_rel_refl: "(\<And>r. R r r) \<Longrightarrow> rows_rel R xs xs"
  by (simp add: rows_rel_nth)

lemma rows_rel_trans:
  assumes "\<And>a b c. R a b \<Longrightarrow> R b c \<Longrightarrow> R a c" and "rows_rel R xs ys" and "rows_rel R ys zs"
  shows "rows_rel R xs zs"
  using assms(2,3) unfolding rows_rel_nth by (auto intro: assms(1))

lemma rows_rel_update_where:
  "(\<And>r. R r r) \<Longrightarrow> (\<And>r. r \<in> set rows \<Longrightarrow> P r \<Longrightarrow> R r (f r)) \<Longrightarrow> rows_rel R rows (update_where P f rows)"
  by (auto simp: rows_rel_nth update_where_def)

lemma rows_rel_append: "(\<And>r. R r r) \<Longrightarrow> rows_rel R rows (rows @ new)"
  by (simp add: rows_rel_nth nth_append)

lemma find_update_where:
  "(\<And>r. P (f r) = P r) \<Longrightarrow>
     find P (update_where Q f rows) = map_option (\<lambda>r. if Q r then f r else r) (find P rows)"
  by (induction rows) (auto simp: update_where_def)

text \<open>In a table where a column is unique, at most one row is touched.\<close>

lemma affected_unique:
  assumes "distinct (map key rows)" and "\<And>r. Q r \<Longrightarrow> key r = k"
  shows "affected Q rows =
    (case find (\<lambda>r. key r = k) rows of None \<Rightarrow> 0 | Some r \<Rightarrow> if Q r then 1 else 0)"
  using assms(1)
proof (induction rows)
  case Nil
  then show ?case by (simp add: affected_def)
next
  case (Cons a rows)
  show ?case
  proof (cases "key a = k")
    case True
    with Cons.prems have "\<not> Q r" if "r \<in> set rows" for r
      using that assms(2) [of r] by (auto simp: image_iff)
    then have "filter Q rows = []" by (simp add: filter_empty_conv)
    with True show ?thesis by (simp add: affected_def)
  next
    case False
    with assms(2) have "\<not> Q a" by blast
    with False Cons show ?thesis by (simp add: affected_def)
  qed
qed

lemma find_append: "find P (xs @ ys) = (case find P xs of None \<Rightarrow> find P ys | Some x \<Rightarrow> Some x)"
  by (induction xs) auto

lemma find_None_affected: "find P rows = None \<longleftrightarrow> affected P rows = 0"
  by (auto simp: affected_zero_iff find_None_iff)

lemma find_SomeD: "find P rows = Some r \<Longrightarrow> r \<in> set rows \<and> P r"
  by (auto simp: find_Some_iff)

lemma find_unique_and:
  assumes "distinct (map key rows)" and "find (\<lambda>r. key r = k) rows = Some r"
  shows "find (\<lambda>r. Q r \<and> key r = k) rows = (if Q r then Some r else None)"
  using assms
proof (induction rows)
  case Nil
  then show ?case by simp
next
  case (Cons a rows)
  show ?case
  proof (cases "key a = k")
    case True
    then have "find (\<lambda>r. Q r \<and> key r = k) rows = None"
      using Cons.prems(1) by (auto simp: find_None_iff image_iff)
    with True Cons.prems(2) show ?thesis by auto
  next
    case False
    with Cons show ?thesis by auto
  qed
qed

lemma distinct_key_eq:
  "distinct (map key rows) \<Longrightarrow> r \<in> set rows \<Longrightarrow> r' \<in> set rows \<Longrightarrow> key r = key r' \<Longrightarrow> r = r'"
  by (auto simp: distinct_map inj_on_def)

text \<open>The first row of a stable sort is a row with the least key, the first such one of the list.\<close>

lemma hd_sort_key:
  assumes "sort_key f xs = r # rs"
  shows "r \<in> set xs" "x \<in> set xs \<Longrightarrow> f r \<le> f x"
proof -
  have "set xs = insert r (set rs)" using assms set_sort [of f xs] by simp
  moreover have "sorted (map f (r # rs))" using assms sorted_sort_key [of f xs] by simp
  ultimately show "r \<in> set xs" "x \<in> set xs \<Longrightarrow> f r \<le> f x" by auto
qed

text \<open>A stable sort of a sorted list orders by the two keys.\<close>

lemma hd_sort_key_twice:
  fixes f :: "'a \<Rightarrow> 'b::linorder" and g :: "'a \<Rightarrow> 'c::linorder"
  assumes "sort_key f (sort_key g xs) = r # rs" and "x \<in> set xs"
  shows "f r < f x \<or> f r = f x \<and> g r \<le> g x"
proof (cases "f x = f r")
  case True
  let ?ys = "filter (\<lambda>y. f y = f r) (sort_key g xs)"
  have "?ys = filter (\<lambda>y. f y = f r) (sort_key f (sort_key g xs))"
    by (simp add: sort_key_stable)
  then have ys: "?ys = r # filter (\<lambda>y. f y = f r) rs" by (simp add: assms(1))
  have "sorted (map g ?ys)" by (rule sorted_filter) simp
  moreover have "x \<in> set ?ys" using True assms(2) by simp
  ultimately have "g r \<le> g x" unfolding ys by auto
  with True show ?thesis by simp
next
  case False
  moreover have "f r \<le> f x"
    by (rule hd_sort_key(2) [OF assms(1)]) (simp add: assms(2))
  ultimately show ?thesis by simp
qed

end
