(* ===== verification/Storage_Model.thy ===== *)
theory Storage_Model
  imports Prelude
begin

text \<open>
  The storage the controller works on: the tables created by
  \<^verbatim>\<open>pkg/controllerstorage/postgres.go\<close> (\<^verbatim>\<open>Migrate\<close>) as lists of rows, the environment of a
  call (the clock of the database and of the process, the identifiers the database draws,
  the statements it refuses) and the operations a storage function is composed of: a
  statement, a transaction, sequencing with early return on an error.
\<close>

type_synonym uuid = string
type_synonym time = int

text \<open>Timestamps count microseconds; \<open>secs\<close> is \<^verbatim>\<open>make_interval(secs => n)\<close>.\<close>

definition secs :: "int \<Rightarrow> time" where
  "secs n = 1000000 * n"

definition uuid_Nil :: uuid where
  "uuid_Nil = ''00000000-0000-0000-0000-000000000000''"

text \<open>
  A dynamic value of a \<^verbatim>\<open>map[string]interface{}\<close>. \<open>VOther\<close> is any value that is neither
  nil nor a string nor a bool, given by what \<^verbatim>\<open>json.Marshal\<close> returns for it (\<open>None\<close> when it
  fails). A Go map is an association list with distinct keys.
\<close>

datatype "value" = VNil | VString string | VBool bool | VOther "string option"

type_synonym params = "(string \<times> value) list"
type_synonym string_map = "(string \<times> string) list"

text \<open>\<^verbatim>\<open>json.Marshal\<close> of a map fails when it fails on one of the values.\<close>

definition marshal_ok :: "params \<Rightarrow> bool" where
  "marshal_ok ps \<longleftrightarrow> list_all (\<lambda>(k, v). v \<noteq> VOther None) ps"

text \<open>\<^verbatim>\<open>m[k]\<close> on a \<^verbatim>\<open>map[string]string\<close>: the empty string for a missing key.\<close>

definition string_at :: "string_map \<Rightarrow> string \<Rightarrow> string" where
  "string_at m k = (case map_of m k of None \<Rightarrow> '''' | Some v \<Rightarrow> v)"

text \<open>SQL's \<^verbatim>\<open>COALESCE(x, d)\<close> and \<^verbatim>\<open>NULLIF(x, '')\<close>.\<close>

definition coalesce :: "'a option \<Rightarrow> 'a \<Rightarrow> 'a" where
  "coalesce x d = (case x of None \<Rightarrow> d | Some v \<Rightarrow> v)"

definition nullif_empty :: "string \<Rightarrow> string option" where
  "nullif_empty x = (if x = '''' then None else Some x)"

section \<open>Tables\<close>

record token_row =
  tok_id :: uuid
  tok_token :: string
  tok_tag :: "string option"
  tok_tenant_id :: "uuid option"
  tok_max_uses :: int
  tok_used_count :: int
  tok_expires_at :: time
  tok_created_at :: time
  tok_created_by :: "string option"
  tok_status :: string
  tok_last_used_at :: "time option"
  tok_last_used_by :: "string option"

record command_row =
  cmd_id :: uuid
  cmd_node_public_key :: string
  cmd_command :: string
  cmd_params :: params
  cmd_status :: string
  cmd_message :: "string option"
  cmd_priority :: int
  cmd_timeout_seconds :: int
  cmd_result :: string_map
  cmd_sent_at :: "time option"
  cmd_acknowledged_at :: "time option"
  cmd_completed_at :: "time option"
  cmd_created_at :: time
  cmd_updated_at :: time
  cmd_deadline_at :: "time option"

record delivery_row =
  pd_id :: uuid
  pd_tenant_id :: uuid
  pd_node_id :: uuid
  pd_policy_domain :: string
  pd_policy_ref :: string
  pd_policy_name :: "string option"
  pd_action :: string
  pd_command_id :: uuid
  pd_command_status :: string
  pd_last_error :: "string option"
  pd_metadata :: params
  pd_created_at :: time
  pd_updated_at :: time
  pd_completed_at :: "time option"

record control_state_row =
  ncs_node_id :: uuid
  ncs_tenant_id :: uuid
  ncs_desired_version :: "string option"
  ncs_desired_metadata :: params
  ncs_desired_updated_at :: "time option"
  ncs_applied_version :: "string option"
  ncs_applied_updated_at :: "time option"
  ncs_observed_state :: string
  ncs_observed_message :: "string option"
  ncs_observed_at :: "time option"
  ncs_last_sync_at :: "time option"
  ncs_last_sync_error :: "string option"
  ncs_created_at :: time
  ncs_updated_at :: time

record node_row =
  node_id :: uuid
  node_public_key :: string
  node_machine_id :: string
  node_tenant_id :: uuid
  node_endpoint :: string
  node_private_ip :: string
  node_public_ip :: string
  node_region :: string
  node_vpc_id :: string
  node_hostname :: string
  node_assigned_ip :: string
  node_ip_offset :: int
  node_last_seen :: int
  node_registered_at :: int
  node_role :: string
  node_runtime_mode :: "string option"
  node_kernel_version :: "string option"
  node_has_aesni :: "bool option"
  node_status :: "string option"
  node_offline_since :: "int option"
  node_advertised_routes :: "string list"
  node_enrolled_with_token :: "string option"
  node_runtime_token_version :: "int option"
  node_created_at :: time
  node_updated_at :: time

record tenant_row =
  tenant_id :: uuid
  tenant_name :: string
  tenant_code :: "string option"
  tenant_status :: "string option"
  tenant_resource_quota :: "string option"
  tenant_created_at :: time
  tenant_updated_at :: time

record user_row =
  user_id :: uuid
  user_username :: string
  user_password_hash :: string
  user_tenant_id :: "uuid option"
  user_role :: "string option"
  user_email :: "string option"
  user_must_change_password :: "bool option"
  user_token_version :: "int option"
  user_created_at :: time
  user_updated_at :: time

record certificate_row =
  cert_id :: uuid
  cert_tenant_id :: uuid
  cert_node_id :: uuid
  cert_serial_number :: string
  cert_pem :: string
  cert_ca_pem :: string
  cert_not_before :: time
  cert_not_after :: time
  cert_status :: string
  cert_issued_at :: time
  cert_revoked_at :: "time option"
  cert_revoke_reason :: "string option"
  cert_renewed_from :: "uuid option"
  cert_updated_at :: time

record alert_row =
  al_id :: uuid
  al_tenant_id :: uuid
  al_node_id :: "uuid option"
  al_type :: string
  al_severity :: string
  al_title :: string
  al_message :: "string option"
  al_context :: params
  al_status :: string
  al_created_at :: time
  al_resolved_at :: "time option"

record audit_row =
  ev_id :: uuid
  ev_tenant_id :: uuid
  ev_node_id :: "uuid option"
  ev_event_type :: string
  ev_actor :: string
  ev_summary :: string
  ev_detail :: params
  ev_created_at :: time

record role_row =
  role_id :: uuid
  role_tenant_id :: uuid
  role_name :: string
  role_description :: string
  role_is_system :: bool
  role_permissions :: "string list"
  role_created_at :: time
  role_updated_at :: time

text \<open>A value of type \<^verbatim>\<open>CIDR\<close> is given by the text the database prints for it.\<close>

record ip_group_row =
  grp_id :: uuid
  grp_tenant_id :: uuid
  grp_name :: string
  grp_description :: "string option"
  grp_kind :: string
  grp_created_by :: "uuid option"
  grp_created_at :: time
  grp_updated_at :: time

record ip_member_row =
  mem_id :: uuid
  mem_tenant_id :: uuid
  mem_group_id :: uuid
  mem_cidr :: string
  mem_note :: "string option"
  mem_created_at :: time

record acl_rule_row =
  ar_id :: uuid
  ar_tenant_id :: uuid
  ar_node_id :: uuid
  ar_name :: "string option"
  ar_action :: string
  ar_src_group_id :: "uuid option"
  ar_dst_group_id :: "uuid option"
  ar_src_cidr :: "string option"
  ar_dst_cidr :: "string option"
  ar_src_net :: string
  ar_dst_net :: string
  ar_dst_port :: "int option"
  ar_protocol :: int
  ar_min_port :: int
  ar_max_port :: int
  ar_direction :: "string option"
  ar_ports :: "string option"
  ar_priority :: int
  ar_enabled :: bool
  ar_description :: "string option"
  ar_created_at :: time
  ar_updated_at :: time

record qos_rule_row =
  qr_id :: uuid
  qr_tenant_id :: uuid
  qr_node_id :: uuid
  qr_group_id :: "uuid option"
  qr_src_cidr :: "string option"
  qr_dst_cidr :: "string option"
  qr_src_port :: "int option"
  qr_dst_port :: "int option"
  qr_protocol :: "int option"
  qr_bandwidth_mbps :: int
  qr_direction :: "string option"
  qr_rate_bps :: "int option"
  qr_burst_bytes :: "int option"
  qr_priority :: "int option"
  qr_mode :: "string option"
  qr_enabled :: bool
  qr_description :: "string option"
  qr_created_at :: time
  qr_updated_at :: time

record blacklist_row =
  br_id :: uuid
  br_tenant_id :: uuid
  br_node_id :: uuid
  br_scope :: string
  br_cidr :: "string option"
  br_port :: "int option"
  br_enabled :: bool
  br_description :: "string option"
  br_created_at :: time
  br_updated_at :: time

record ip_pool_row =
  pool_id :: nat
  pool_tenant_id :: uuid
  pool_cidr :: string
  pool_current_offset :: int
  pool_is_active :: bool

record ip_allocation_row =
  ipa_pool_id :: nat
  ipa_node_id :: uuid
  ipa_offset :: int

record device_config_row =
  dc_node_id :: uuid
  dc_version :: int
  dc_config_body :: params

record tunnel_link_row =
  tl_src_node_id :: uuid
  tl_dst_node_id :: uuid
  tl_link_type :: string
  tl_status :: string

text \<open>
  The \<^verbatim>\<open>stats\<close> of a node as JSON: a number is a float64, given by its bits.
\<close>

datatype json = JNumber "64 word" | JString string | JObject "(string \<times> json) list"

record policy_stats_row =
  nps_node_id :: uuid
  nps_tenant_id :: uuid
  nps_stats :: "(string \<times> json) list"
  nps_updated_at :: time

record tables =
  tokens :: "token_row list"
  agent_commands :: "command_row list"
  policy_deliveries :: "delivery_row list"
  node_control_states :: "control_state_row list"
  nodes :: "node_row list"
  tenants :: "tenant_row list"
  users :: "user_row list"
  node_certificates :: "certificate_row list"
  alerts :: "alert_row list"
  audit_events :: "audit_row list"
  roles :: "role_row list"
  ip_groups :: "ip_group_row list"
  ip_group_members :: "ip_member_row list"
  acl_rules :: "acl_rule_row list"
  qos_rules :: "qos_rule_row list"
  blacklist_rules :: "blacklist_row list"
  state_rows :: "(string \<times> int) list"
  ip_pools :: "ip_pool_row list"
  ip_allocations :: "ip_allocation_row list"
  device_configs :: "device_config_row list"
  tunnel_links :: "tunnel_link_row list"
  node_policy_stats :: "policy_stats_row list"

definition empty_tables :: tables where
  "empty_tables = \<lparr>tokens = [], agent_commands = [], policy_deliveries = [],
     node_control_states = [], nodes = [], tenants = [], users = [], node_certificates = [],
     alerts = [], audit_events = [], roles = [],
     ip_groups = [], ip_group_members = [], acl_rules = [], qos_rules = [], blacklist_rules = [],
     state_rows = [], ip_pools = [], ip_allocations = [], device_configs = [], tunnel_links = [],
     node_policy_stats = []\<rparr>"

section \<open>The environment of a call\<close>

text \<open>
  \<open>db_now\<close> is \<^verbatim>\<open>NOW()\<close>, which PostgreSQL fixes for a transaction; \<open>go_now\<close> is
  \<^verbatim>\<open>time.Now()\<close> of the controller. \<open>uuid_of\<close> is the sequence of identifiers that
  \<^verbatim>\<open>gen_random_uuid()\<close> draws, with no assumption on it: an identifier that is already taken
  makes the insert fail on the primary key. \<open>faults\<close> says for each statement to come whether
  the database refuses it (a lost connection, a serialization failure, a value the column
  does not take); an exhausted list refuses nothing.
\<close>

record db =
  db_now :: time
  go_now :: time
  faults :: "bool list"
  uuid_of :: "nat \<Rightarrow> uuid"
  uuid_ctr :: nat
  tab :: tables

type_synonym 'a op = "db \<Rightarrow> (err + 'a) \<times> db"

definition ret :: "'a \<Rightarrow> 'a op" where
  "ret x s = (Inr x, s)"

definition throw :: "err \<Rightarrow> 'a op" where
  "throw e s = (Inl e, s)"

text \<open>\<^verbatim>\<open>x, err := m; if err != nil { return err }\<close>, then \<open>f x\<close>.\<close>

definition bnd :: "'a op \<Rightarrow> ('a \<Rightarrow> 'b op) \<Rightarrow> 'b op" where
  "bnd m f s = (case m s of (Inl e, t) \<Rightarrow> (Inl e, t) | (Inr x, t) \<Rightarrow> f x t)"

text \<open>\<^verbatim>\<open>x, err := m\<close> where the code goes on after an error.\<close>

definition attempt :: "'a op \<Rightarrow> (err + 'a) op" where
  "attempt m s = (case m s of (r, t) \<Rightarrow> (Inr r, t))"

text \<open>The clock of the process.\<close>

definition time_Now :: "time op" where
  "time_Now s = (Inr (go_now s), s)"

definition stmt :: "'a op \<Rightarrow> 'a op" where
  "stmt f s = (case faults s of
       [] \<Rightarrow> f s
     | b # bs \<Rightarrow> (if b then (Inl DBError, s\<lparr>faults := bs\<rparr>) else f (s\<lparr>faults := bs\<rparr>)))"

text \<open>A \<^verbatim>\<open>SELECT\<close>, an \<^verbatim>\<open>UPDATE\<close> or \<^verbatim>\<open>DELETE\<close>, and an \<^verbatim>\<open>INSERT\<close> of a row with a drawn key.\<close>

definition select_op :: "(time \<Rightarrow> tables \<Rightarrow> 'a) \<Rightarrow> 'a op" where
  "select_op q = stmt (\<lambda>s. (Inr (q (db_now s) (tab s)), s))"

definition modify_op :: "(time \<Rightarrow> tables \<Rightarrow> tables \<times> 'a) \<Rightarrow> 'a op" where
  "modify_op f = stmt (\<lambda>s. (case f (db_now s) (tab s) of (t, x) \<Rightarrow> (Inr x, s\<lparr>tab := t\<rparr>)))"

definition insert_op :: "(uuid \<Rightarrow> time \<Rightarrow> tables \<Rightarrow> (tables \<times> 'a) option) \<Rightarrow> 'a op" where
  "insert_op f = stmt (\<lambda>s. (let s' = s\<lparr>uuid_ctr := Suc (uuid_ctr s)\<rparr> in
       case f (uuid_of s (uuid_ctr s)) (db_now s) (tab s) of
         None \<Rightarrow> (Inl DBError, s')
       | Some (t, x) \<Rightarrow> (Inr x, s'\<lparr>tab := t\<rparr>)))"

text \<open>A write that a constraint of the table may refuse, without a drawn key.\<close>

definition write_op :: "(time \<Rightarrow> tables \<Rightarrow> (tables \<times> 'a) option) \<Rightarrow> 'a op" where
  "write_op f = bnd (modify_op (\<lambda>now t. case f now t of None \<Rightarrow> (t, None) | Some (t', x) \<Rightarrow> (t', Some x)))
     (\<lambda>r. case r of None \<Rightarrow> throw DBError | Some x \<Rightarrow> ret x)"

text \<open>\<^verbatim>\<open>uuid.New()\<close> in the process draws from the same supply.\<close>

definition uuid_NewString :: "uuid op" where
  "uuid_NewString s = (Inr (uuid_of s (uuid_ctr s)), s\<lparr>uuid_ctr := Suc (uuid_ctr s)\<rparr>)"

text \<open>
  A further call on a result set or a result (\<^verbatim>\<open>RowsAffected\<close>, \<^verbatim>\<open>rows.Scan\<close>, \<^verbatim>\<open>rows.Err\<close>)
  may fail too.
\<close>

definition check_op :: "'a \<Rightarrow> 'a op" where
  "check_op x = stmt (ret x)"

text \<open>
  \<^verbatim>\<open>tx, err := s.db.Begin(); defer rollbackTx(tx, ...)\<close>: an error, or a return before
  \<^verbatim>\<open>tx.Commit()\<close> (\<open>TxReturn\<close>), leaves the tables as they were; so does a commit that the
  database refuses.
\<close>

datatype 'a tx = TxCommit 'a | TxReturn 'a

definition transaction :: "'a tx op \<Rightarrow> 'a op" where
  "transaction body = bnd (check_op ()) (\<lambda>_ s.
     (case body s of
        (Inl e, s') \<Rightarrow> (Inl e, s'\<lparr>tab := tab s\<rparr>)
      | (Inr (TxReturn x), s') \<Rightarrow> (Inr x, s'\<lparr>tab := tab s\<rparr>)
      | (Inr (TxCommit x), s') \<Rightarrow>
          (case check_op () s' of
             (Inl e, s'') \<Rightarrow> (Inl e, s''\<lparr>tab := tab s\<rparr>)
           | (Inr _, s'') \<Rightarrow> (Inr x, s''))))"

text \<open>A loop whose body may return an error.\<close>

fun for_each :: "('a \<Rightarrow> unit op) \<Rightarrow> 'a list \<Rightarrow> unit op" where
  "for_each f [] = ret ()"
| "for_each f (x # xs) = bnd (f x) (\<lambda>_. for_each f xs)"

text \<open>The same with the results appended to a list.\<close>

fun for_collect :: "('a \<Rightarrow> 'b op) \<Rightarrow> 'a list \<Rightarrow> 'b list op" where
  "for_collect f [] = ret []"
| "for_collect f (x # xs) = bnd (f x) (\<lambda>y. bnd (for_collect f xs) (\<lambda>ys. ret (y # ys)))"

text \<open>
  An \<^verbatim>\<open>INSERT\<close> of several rows in one statement: each row draws a key; one row that the
  database refuses undoes the whole statement.
\<close>

fun insert_loop :: "('x \<Rightarrow> uuid \<Rightarrow> time \<Rightarrow> tables \<Rightarrow> (tables \<times> 'b) option) \<Rightarrow> 'x list \<Rightarrow> 'b list op" where
  "insert_loop f [] s = (Inr [], s)"
| "insert_loop f (x # xs) s =
     (case f x (uuid_of s (uuid_ctr s)) (db_now s) (tab s) of
        None \<Rightarrow> (Inl DBError, s\<lparr>uuid_ctr := Suc (uuid_ctr s)\<rparr>)
      | Some (t, y) \<Rightarrow>
          (case insert_loop f xs (s\<lparr>uuid_ctr := Suc (uuid_ctr s), tab := t\<rparr>) of
             (Inl e, s') \<Rightarrow> (Inl e, s')
           | (Inr ys, s') \<Rightarrow> (Inr (y # ys), s')))"

definition insert_many_op :: "('x \<Rightarrow> uuid \<Rightarrow> time \<Rightarrow> tables \<Rightarrow> (tables \<times> 'b) option) \<Rightarrow> 'x list \<Rightarrow> 'b list op" where
  "insert_many_op f xs = stmt (\<lambda>s. case insert_loop f xs s of
       (Inl e, s') \<Rightarrow> (Inl e, s'\<lparr>tab := tab s\<rparr>)
     | (Inr ys, s') \<Rightarrow> (Inr ys, s'))"

end
