(* ===== verification/Messages.thy ===== *)
theory Messages
  imports Storage_Model
begin

text \<open>
  The texts that the alert and audit code of \<^verbatim>\<open>pkg/controllerstorage\<close> writes in Chinese, as
  the UTF-8 bytes of the Go string literals, and \<^verbatim>\<open>time.RFC3339\<close> in UTC.
\<close>

definition msg_node :: string where
  "msg_node = [CHR 0xE8, CHR 0x8A, CHR 0x82, CHR 0xE7, CHR 0x82, CHR 0xB9, CHR 0x20]"

definition msg_offline :: string where
  "msg_offline = [CHR 0x20, CHR 0xE7, CHR 0xA6, CHR 0xBB, CHR 0xE7, CHR 0xBA, CHR 0xBF]"

definition msg_alert_created_node :: string where
  "msg_alert_created_node = [CHR 0xE5, CHR 0x91, CHR 0x8A, CHR 0xE8, CHR 0xAD, CHR 0xA6, CHR 0xE5, CHR 0x88, CHR 0x9B,
     CHR 0xE5, CHR 0xBB, CHR 0xBA, CHR 0x3A, CHR 0x20, CHR 0xE8, CHR 0x8A, CHR 0x82, CHR 0xE7,
     CHR 0x82, CHR 0xB9, CHR 0x20]"

definition msg_offline_resolved :: string where
  "msg_offline_resolved = [CHR 0xE5, CHR 0x91, CHR 0x8A, CHR 0xE8, CHR 0xAD, CHR 0xA6, CHR 0xE8, CHR 0xA7, CHR 0xA3,
     CHR 0xE9, CHR 0x99, CHR 0xA4, CHR 0x3A, CHR 0x20, CHR 0xE8, CHR 0x8A, CHR 0x82, CHR 0xE7,
     CHR 0x82, CHR 0xB9, CHR 0xE7, CHR 0xA6, CHR 0xBB, CHR 0xE7, CHR 0xBA, CHR 0xBF, CHR 0xE5,
     CHR 0x91, CHR 0x8A, CHR 0xE8, CHR 0xAD, CHR 0xA6, CHR 0xE5, CHR 0xB7, CHR 0xB2, CHR 0xE8,
     CHR 0x87, CHR 0xAA, CHR 0xE5, CHR 0x8A, CHR 0xA8, CHR 0xE8, CHR 0xA7, CHR 0xA3, CHR 0xE9,
     CHR 0x99, CHR 0xA4]"

definition msg_command_failed :: string where
  "msg_command_failed = [CHR 0xE5, CHR 0x91, CHR 0xBD, CHR 0xE4, CHR 0xBB, CHR 0xA4, CHR 0xE6, CHR 0x89, CHR 0xA7,
     CHR 0xE8, CHR 0xA1, CHR 0x8C, CHR 0xE5, CHR 0xA4, CHR 0xB1, CHR 0xE8, CHR 0xB4, CHR 0xA5]"

definition msg_command_failed_of :: string where
  "msg_command_failed_of = [CHR 0xE5, CHR 0x91, CHR 0xBD, CHR 0xE4, CHR 0xBB, CHR 0xA4, CHR 0xE6, CHR 0x89, CHR 0xA7,
     CHR 0xE8, CHR 0xA1, CHR 0x8C, CHR 0xE5, CHR 0xA4, CHR 0xB1, CHR 0xE8, CHR 0xB4, CHR 0xA5,
     CHR 0x3A, CHR 0x20]"

definition msg_command_succeeded_of :: string where
  "msg_command_succeeded_of = [CHR 0xE5, CHR 0x91, CHR 0xBD, CHR 0xE4, CHR 0xBB, CHR 0xA4, CHR 0xE6, CHR 0x89, CHR 0xA7,
     CHR 0xE8, CHR 0xA1, CHR 0x8C, CHR 0xE6, CHR 0x88, CHR 0x90, CHR 0xE5, CHR 0x8A, CHR 0x9F,
     CHR 0x3A, CHR 0x20]"

definition msg_policy_failed :: string where
  "msg_policy_failed = [CHR 0xE7, CHR 0xAD, CHR 0x96, CHR 0xE7, CHR 0x95, CHR 0xA5, CHR 0xE4, CHR 0xB8, CHR 0x8B,
     CHR 0xE5, CHR 0x8F, CHR 0x91, CHR 0xE5, CHR 0xA4, CHR 0xB1, CHR 0xE8, CHR 0xB4, CHR 0xA5]"

definition msg_policy :: string where
  "msg_policy = [CHR 0xE7, CHR 0xAD, CHR 0x96, CHR 0xE7, CHR 0x95, CHR 0xA5, CHR 0x20]"

definition msg_delivery_failed :: string where
  "msg_delivery_failed = [CHR 0x20, CHR 0xE4, CHR 0xB8, CHR 0x8B, CHR 0xE5, CHR 0x8F, CHR 0x91, CHR 0xE5, CHR 0xA4,
     CHR 0xB1, CHR 0xE8, CHR 0xB4, CHR 0xA5, CHR 0x3A, CHR 0x20]"

definition msg_alert_command_failed :: string where
  "msg_alert_command_failed = [CHR 0xE5, CHR 0x91, CHR 0x8A, CHR 0xE8, CHR 0xAD, CHR 0xA6, CHR 0xE5, CHR 0x88, CHR 0x9B,
     CHR 0xE5, CHR 0xBB, CHR 0xBA, CHR 0x3A, CHR 0x20, CHR 0xE5, CHR 0x91, CHR 0xBD, CHR 0xE4,
     CHR 0xBB, CHR 0xA4, CHR 0xE6, CHR 0x89, CHR 0xA7, CHR 0xE8, CHR 0xA1, CHR 0x8C, CHR 0xE5,
     CHR 0xA4, CHR 0xB1, CHR 0xE8, CHR 0xB4, CHR 0xA5]"

definition msg_alert_policy_failed :: string where
  "msg_alert_policy_failed = [CHR 0xE5, CHR 0x91, CHR 0x8A, CHR 0xE8, CHR 0xAD, CHR 0xA6, CHR 0xE5, CHR 0x88, CHR 0x9B,
     CHR 0xE5, CHR 0xBB, CHR 0xBA, CHR 0x3A, CHR 0x20, CHR 0xE7, CHR 0xAD, CHR 0x96, CHR 0xE7,
     CHR 0x95, CHR 0xA5, CHR 0xE4, CHR 0xB8, CHR 0x8B, CHR 0xE5, CHR 0x8F, CHR 0x91, CHR 0xE5,
     CHR 0xA4, CHR 0xB1, CHR 0xE8, CHR 0xB4, CHR 0xA5]"

definition msg_policy_failed_of :: string where
  "msg_policy_failed_of = [CHR 0xE7, CHR 0xAD, CHR 0x96, CHR 0xE7, CHR 0x95, CHR 0xA5, CHR 0xE4, CHR 0xB8, CHR 0x8B,
     CHR 0xE5, CHR 0x8F, CHR 0x91, CHR 0xE5, CHR 0xA4, CHR 0xB1, CHR 0xE8, CHR 0xB4, CHR 0xA5,
     CHR 0x3A, CHR 0x20]"

definition msg_policy_delivered_of :: string where
  "msg_policy_delivered_of = [CHR 0xE7, CHR 0xAD, CHR 0x96, CHR 0xE7, CHR 0x95, CHR 0xA5, CHR 0xE4, CHR 0xB8, CHR 0x8B,
     CHR 0xE5, CHR 0x8F, CHR 0x91, CHR 0xE6, CHR 0x88, CHR 0x90, CHR 0xE5, CHR 0x8A, CHR 0x9F,
     CHR 0x3A, CHR 0x20]"

definition msg_cert_expiring :: string where
  "msg_cert_expiring = [CHR 0xE8, CHR 0x8A, CHR 0x82, CHR 0xE7, CHR 0x82, CHR 0xB9, CHR 0xE8, CHR 0xAF, CHR 0x81,
     CHR 0xE4, CHR 0xB9, CHR 0xA6, CHR 0xE5, CHR 0x8D, CHR 0xB3, CHR 0xE5, CHR 0xB0, CHR 0x86,
     CHR 0xE5, CHR 0x88, CHR 0xB0, CHR 0xE6, CHR 0x9C, CHR 0x9F]"

definition msg_cert_will :: string where
  "msg_cert_will = [CHR 0x20, CHR 0xE7, CHR 0x9A, CHR 0x84, CHR 0xE5, CHR 0xAE, CHR 0xA2, CHR 0xE6, CHR 0x88,
     CHR 0xB7, CHR 0xE7, CHR 0xAB, CHR 0xAF, CHR 0xE8, CHR 0xAF, CHR 0x81, CHR 0xE4, CHR 0xB9,
     CHR 0xA6, CHR 0xE5, CHR 0xB0, CHR 0x86, CHR 0xE5, CHR 0x9C, CHR 0xA8, CHR 0x20]"

definition msg_expire :: string where
  "msg_expire = [CHR 0x20, CHR 0xE8, CHR 0xBF, CHR 0x87, CHR 0xE6, CHR 0x9C, CHR 0x9F]"

definition msg_cert_expired :: string where
  "msg_cert_expired = [CHR 0xE8, CHR 0x8A, CHR 0x82, CHR 0xE7, CHR 0x82, CHR 0xB9, CHR 0xE8, CHR 0xAF, CHR 0x81,
     CHR 0xE4, CHR 0xB9, CHR 0xA6, CHR 0xE5, CHR 0xB7, CHR 0xB2, CHR 0xE8, CHR 0xBF, CHR 0x87,
     CHR 0xE6, CHR 0x9C, CHR 0x9F]"

definition msg_cert_was :: string where
  "msg_cert_was = [CHR 0x20, CHR 0xE7, CHR 0x9A, CHR 0x84, CHR 0xE5, CHR 0xAE, CHR 0xA2, CHR 0xE6, CHR 0x88,
     CHR 0xB7, CHR 0xE7, CHR 0xAB, CHR 0xAF, CHR 0xE8, CHR 0xAF, CHR 0x81, CHR 0xE4, CHR 0xB9,
     CHR 0xA6, CHR 0xE5, CHR 0xB7, CHR 0xB2, CHR 0xE4, CHR 0xBA, CHR 0x8E, CHR 0x20]"

definition msg_cert_renew_failed :: string where
  "msg_cert_renew_failed = [CHR 0xE8, CHR 0x8A, CHR 0x82, CHR 0xE7, CHR 0x82, CHR 0xB9, CHR 0xE8, CHR 0xAF, CHR 0x81,
     CHR 0xE4, CHR 0xB9, CHR 0xA6, CHR 0xE7, CHR 0xBB, CHR 0xAD, CHR 0xE7, CHR 0xAD, CHR 0xBE,
     CHR 0xE5, CHR 0xA4, CHR 0xB1, CHR 0xE8, CHR 0xB4, CHR 0xA5]"

definition msg_cert_renew_failed_of :: string where
  "msg_cert_renew_failed_of = [CHR 0x20, CHR 0xE7, CHR 0x9A, CHR 0x84, CHR 0xE5, CHR 0xAE, CHR 0xA2, CHR 0xE6, CHR 0x88,
     CHR 0xB7, CHR 0xE7, CHR 0xAB, CHR 0xAF, CHR 0xE8, CHR 0xAF, CHR 0x81, CHR 0xE4, CHR 0xB9,
     CHR 0xA6, CHR 0xE7, CHR 0xBB, CHR 0xAD, CHR 0xE7, CHR 0xAD, CHR 0xBE, CHR 0xE5, CHR 0xA4,
     CHR 0xB1, CHR 0xE8, CHR 0xB4, CHR 0xA5, CHR 0x3A, CHR 0x20]"

section \<open>RFC 3339\<close>

text \<open>Two and four digit fields, and the civil date of a day counted from 1 January 1970.\<close>

definition pad2 :: "int \<Rightarrow> string" where
  "pad2 n = (if n < 10 then ''0'' @ Itoa n else Itoa n)"

definition pad4 :: "int \<Rightarrow> string" where
  "pad4 n = (if n < 10 then ''000'' @ Itoa n else if n < 100 then ''00'' @ Itoa n
     else if n < 1000 then ''0'' @ Itoa n else Itoa n)"

definition civil_date :: "int \<Rightarrow> int \<times> int \<times> int" where
  "civil_date days =
     (let z = days + 719468; era = z div 146097; doe = z mod 146097;
          yoe = (doe - doe div 1460 + doe div 36524 - doe div 146096) div 365;
          doy = doe - (365 * yoe + yoe div 4 - yoe div 100);
          mp = (5 * doy + 2) div 153;
          d = doy - (153 * mp + 2) div 5 + 1;
          m = (if mp < 10 then mp + 3 else mp - 9);
          y = yoe + era * 400 + (if m \<le> 2 then 1 else 0)
      in (y, m, d))"

definition format_RFC3339 :: "time \<Rightarrow> string" where
  "format_RFC3339 t =
     (let sec = t div 1000000; days = sec div 86400; rest = sec mod 86400
      in case civil_date days of (y, m, d) \<Rightarrow>
        pad4 y @ ''-'' @ pad2 m @ ''-'' @ pad2 d @ ''T'' @ pad2 (rest div 3600) @ '':'' @
        pad2 (rest div 60 mod 60) @ '':'' @ pad2 (rest mod 60) @ ''Z'')"

lemma format_RFC3339_example: "format_RFC3339 (secs 1709211845) = ''2024-02-29T13:04:05Z''"
  by code_simp

end
