(* ===== verification/Storage_Logic.thy ===== *)
theory Storage_Logic
  imports Storage_Model
begin

text \<open>
  The rules by which the components reason about storage operations: the runs of an
  operation when the database refuses nothing, what a successful run says about the
  statements in it whatever the database refused, the atomicity of a transaction, and, as
  locales, what a relation between the tables before and after every statement gives for a
  whole operation.
\<close>

named_theorems run_simps \<open>runs without refused statements\<close>
named_theorems run_Inr \<open>what a successful run says of its statements\<close>
named_theorems maintains_rules \<open>a relation kept by an operation, by the operation's structure\<close>
named_theorems preserves_rules \<open>a relation kept by the runs of an operation that are not an error\<close>

section \<open>Runs without refused statements\<close>

lemma ret_run [run_simps]: "ret x s = (Inr x, s)"
  by (simp add: ret_def)

lemma throw_run [run_simps]: "throw e s = (Inl e, s)"
  by (simp add: throw_def)

lemma time_Now_run [run_simps]: "time_Now s = (Inr (go_now s), s)"
  by (simp add: time_Now_def)

lemma bnd_run [run_simps]:
  "m s = (Inr x, t) \<Longrightarrow> bnd m f s = f x t"
  "m s = (Inl e, t) \<Longrightarrow> bnd m f s = (Inl e, t)"
  by (simp_all add: bnd_def)

lemma attempt_run [run_simps]: "m s = (r, t) \<Longrightarrow> attempt m s = (Inr r, t)"
  by (simp add: attempt_def)

lemma stmt_run: "faults s = [] \<Longrightarrow> stmt f s = f s"
  by (simp add: stmt_def)

lemma select_run [run_simps]: "faults s = [] \<Longrightarrow> select_op q s = (Inr (q (db_now s) (tab s)), s)"
  by (simp add: select_op_def stmt_run)

lemma check_run [run_simps]: "faults s = [] \<Longrightarrow> check_op x s = (Inr x, s)"
  by (simp add: check_op_def stmt_run ret_run)

lemma modify_run [run_simps]:
  "faults s = [] \<Longrightarrow> modify_op f s = (Inr (snd (f (db_now s) (tab s))), s\<lparr>tab := fst (f (db_now s) (tab s))\<rparr>)"
  by (simp add: modify_op_def stmt_run split: prod.split)

lemma insert_run [run_simps]:
  "faults s = [] \<Longrightarrow> f (uuid_of s (uuid_ctr s)) (db_now s) (tab s) = Some (t, x) \<Longrightarrow>
     insert_op f s = (Inr x, s\<lparr>uuid_ctr := Suc (uuid_ctr s), tab := t\<rparr>)"
  "faults s = [] \<Longrightarrow> f (uuid_of s (uuid_ctr s)) (db_now s) (tab s) = None \<Longrightarrow>
     insert_op f s = (Inl DBError, s\<lparr>uuid_ctr := Suc (uuid_ctr s)\<rparr>)"
  by (simp_all add: insert_op_def stmt_run Let_def)

lemma write_run [run_simps]:
  "faults s = [] \<Longrightarrow> f (db_now s) (tab s) = Some (t, x) \<Longrightarrow> write_op f s = (Inr x, s\<lparr>tab := t\<rparr>)"
  "faults s = [] \<Longrightarrow> f (db_now s) (tab s) = None \<Longrightarrow> write_op f s = (Inl DBError, s)"
  by (simp_all add: write_op_def bnd_run(1) [OF modify_run] ret_run throw_run)

lemma uuid_NewString_run [run_simps]:
  "uuid_NewString s = (Inr (uuid_of s (uuid_ctr s)), s\<lparr>uuid_ctr := Suc (uuid_ctr s)\<rparr>)"
  by (simp add: uuid_NewString_def)

lemma transaction_commit_run [run_simps]:
  "faults s = [] \<Longrightarrow> body s = (Inr (TxCommit x), t) \<Longrightarrow> faults t = [] \<Longrightarrow> transaction body s = (Inr x, t)"
  by (simp add: transaction_def bnd_run(1) [OF check_run] check_run)

lemma transaction_return_run [run_simps]:
  "faults s = [] \<Longrightarrow> body s = (Inr (TxReturn x), t) \<Longrightarrow> transaction body s = (Inr x, t\<lparr>tab := tab s\<rparr>)"
  by (simp add: transaction_def bnd_run(1) [OF check_run])

lemma transaction_error_run [run_simps]:
  "faults s = [] \<Longrightarrow> body s = (Inl e, t) \<Longrightarrow> transaction body s = (Inl e, t\<lparr>tab := tab s\<rparr>)"
  by (simp add: transaction_def bnd_run(1) [OF check_run])

section \<open>Successful runs, whatever the database refused\<close>

text \<open>What no operation changes: the clocks and the sequence of drawn identifiers.\<close>

definition same_env :: "db \<Rightarrow> db \<Rightarrow> bool" where
  "same_env s t \<longleftrightarrow> db_now t = db_now s \<and> go_now t = go_now s \<and> uuid_of t = uuid_of s"

lemma same_env_refl [simp]: "same_env s s"
  by (simp add: same_env_def)

lemma same_env_trans: "same_env s t \<Longrightarrow> same_env t u \<Longrightarrow> same_env s u"
  by (simp add: same_env_def)

lemma ret_Inr [run_Inr]: "ret x s = (Inr y, t) \<longleftrightarrow> y = x \<and> t = s"
  by (auto simp: ret_def)

lemma throw_Inr [run_Inr]: "throw e s = (Inr y, t) \<longleftrightarrow> False"
  by (simp add: throw_def)

lemma bnd_Inr [run_Inr]:
  "bnd m f s = (Inr y, t) \<longleftrightarrow> (\<exists>x u. m s = (Inr x, u) \<and> f x u = (Inr y, t))"
  by (auto simp: bnd_def split: prod.split sum.split)

lemma attempt_Inr [run_Inr]: "attempt m s = (Inr x, t) \<longleftrightarrow> m s = (x, t)"
  by (auto simp: attempt_def split: prod.split)

lemma time_Now_Inr [run_Inr]: "time_Now s = (Inr y, t) \<longleftrightarrow> y = go_now s \<and> t = s"
  by (auto simp: time_Now_def)

lemma attempt_case_Inr:
  "bnd (attempt m) (\<lambda>r. case r of Inl e \<Rightarrow> f e | Inr x \<Rightarrow> g x) s = (Inr y, t) \<longleftrightarrow>
     (\<exists>e u. m s = (Inl e, u) \<and> f e u = (Inr y, t)) \<or> (\<exists>x u. m s = (Inr x, u) \<and> g x u = (Inr y, t))"
  by (auto simp: bnd_def attempt_def split: prod.split sum.split)

lemma bnd_throw_Inr: "bnd m (\<lambda>_. throw e) s = (Inr y, t) \<longleftrightarrow> False"
  by (simp add: bnd_Inr throw_Inr)

lemmas handled_Inr = attempt_case_Inr bnd_throw_Inr throw_Inr ret_Inr time_Now_Inr

lemma stmt_cases:
  assumes "stmt f s = (r, t)"
  obtains (refused) "r = Inl DBError" "same_env s t" "tab t = tab s" "uuid_ctr t = uuid_ctr s"
    | (served) u where "f u = (r, t)" "same_env s u" "tab u = tab s" "uuid_ctr u = uuid_ctr s"
proof (cases "faults s")
  case Nil
  with assms have "f s = (r, t)" by (simp add: stmt_def)
  then show ?thesis by (auto intro: that(2))
next
  case (Cons b bs)
  show ?thesis
  proof (cases b)
    case True
    with assms Cons show ?thesis by (auto simp: stmt_def same_env_def intro: that(1))
  next
    case False
    with assms Cons have "f (s\<lparr>faults := bs\<rparr>) = (r, t)" by (simp add: stmt_def)
    then show ?thesis by (rule that(2)) (simp_all add: same_env_def)
  qed
qed

lemma select_Inr:
  assumes "select_op q s = (Inr x, t)"
  shows "x = q (db_now s) (tab s)" "tab t = tab s" "same_env s t"
  using assms unfolding select_op_def by (auto elim!: stmt_cases simp: same_env_def)

lemma check_Inr:
  assumes "check_op x s = (Inr y, t)"
  shows "y = x" "tab t = tab s" "same_env s t"
  using assms unfolding check_op_def by (auto elim!: stmt_cases simp: same_env_def ret_def)

lemma modify_Inr:
  assumes "modify_op f s = (Inr x, t)"
  shows "f (db_now s) (tab s) = (tab t, x)" "same_env s t"
  using assms unfolding modify_op_def by (auto elim!: stmt_cases simp: same_env_def split: prod.splits)

lemma insert_Inr:
  assumes "insert_op f s = (Inr x, t)"
  shows "f (uuid_of s (uuid_ctr s)) (db_now s) (tab s) = Some (tab t, x)" "same_env s t"
  using assms unfolding insert_op_def
  by (auto elim!: stmt_cases simp: same_env_def Let_def split: option.splits prod.splits)

lemma write_Inr:
  assumes "write_op f s = (Inr x, t)"
  shows "f (db_now s) (tab s) = Some (tab t, x)" "same_env s t"
proof -
  from assms obtain r u where m: "modify_op (\<lambda>now t. case f now t of None \<Rightarrow> (t, None)
        | Some (t', x) \<Rightarrow> (t', Some x)) s = (Inr r, u)"
      and rest: "(case r of None \<Rightarrow> throw DBError | Some x \<Rightarrow> ret x) u = (Inr x, t)"
    unfolding write_op_def bnd_Inr by auto
  from rest have "r = Some x" "t = u"
    by (auto simp: ret_Inr throw_Inr split: option.splits)
  with modify_Inr [OF m] show "f (db_now s) (tab s) = Some (tab t, x)" "same_env s t"
    by (auto split: option.splits)
qed

lemma uuid_NewString_Inr:
  assumes "uuid_NewString s = (Inr x, t)"
  shows "x = uuid_of s (uuid_ctr s)" "tab t = tab s" "same_env s t"
  using assms by (auto simp: uuid_NewString_def same_env_def)

lemma select_InrD:
  "select_op q s = (Inr x, t) \<Longrightarrow> x = q (db_now s) (tab s) \<and> tab t = tab s \<and> same_env s t"
  by (intro conjI) (erule select_Inr)+

lemma select_InrD':
  "select_op q s = (Inr x, t) \<Longrightarrow> q (db_now s) (tab s) = x \<and> tab t = tab s \<and> same_env s t"
  using select_InrD [of q s x t] by simp

lemma check_InrD: "check_op x s = (Inr y, t) \<Longrightarrow> y = x \<and> tab t = tab s \<and> same_env s t"
  by (intro conjI) (erule check_Inr)+

lemma modify_InrD: "modify_op f s = (Inr x, t) \<Longrightarrow> f (db_now s) (tab s) = (tab t, x) \<and> same_env s t"
  by (intro conjI) (erule modify_Inr)+

lemma insert_InrD:
  "insert_op f s = (Inr x, t) \<Longrightarrow>
     f (uuid_of s (uuid_ctr s)) (db_now s) (tab s) = Some (tab t, x) \<and> same_env s t"
  by (intro conjI) (erule insert_Inr)+

lemma write_InrD: "write_op f s = (Inr x, t) \<Longrightarrow> f (db_now s) (tab s) = Some (tab t, x) \<and> same_env s t"
  by (intro conjI) (erule write_Inr)+

lemma uuid_NewString_InrD:
  "uuid_NewString s = (Inr x, t) \<Longrightarrow> x = uuid_of s (uuid_ctr s) \<and> tab t = tab s \<and> same_env s t"
  by (intro conjI) (erule uuid_NewString_Inr)+

lemmas InrD = select_InrD check_InrD modify_InrD insert_InrD write_InrD uuid_NewString_InrD

text \<open>From the evaluation of a concrete run to the equation it satisfies.\<close>

lemma run_succeeds:
  assumes "\<not> isl (fst p)"
  obtains x t where "p = (Inr x, t)"
  using assms by (cases p; cases "fst p") auto

text \<open>A transaction that ends without an error has committed its body or returned before the commit.\<close>

lemma transaction_Inr:
  assumes "transaction body s = (Inr x, t)"
  obtains (committed) u v where "body u = (Inr (TxCommit x), v)" "tab u = tab s" "same_env s u"
      "tab t = tab v" "same_env v t"
    | (returned) u v where "body u = (Inr (TxReturn x), v)" "tab u = tab s" "same_env s u"
      "tab t = tab s"
proof -
  from assms obtain u where b: "check_op () s = (Inr (), u)" and rest:
    "(case body u of
        (Inl e, s') \<Rightarrow> (Inl e, s'\<lparr>tab := tab u\<rparr>)
      | (Inr (TxReturn x), s') \<Rightarrow> (Inr x, s'\<lparr>tab := tab u\<rparr>)
      | (Inr (TxCommit x), s') \<Rightarrow>
          (case check_op () s' of
             (Inl e, s'') \<Rightarrow> (Inl e, s''\<lparr>tab := tab u\<rparr>)
           | (Inr _, s'') \<Rightarrow> (Inr x, s''))) = (Inr x, t)"
    unfolding transaction_def bnd_Inr by auto
  note u = check_Inr(2,3) [OF b]
  obtain r v where bv: "body u = (r, v)" by fastforce
  show ?thesis
  proof (cases r)
    case (Inl e)
    with rest bv show ?thesis by simp
  next
    case (Inr k)
    show ?thesis
    proof (cases k)
      case (TxReturn y)
      with rest bv Inr u show ?thesis by (auto intro: returned)
    next
      case (TxCommit y)
      obtain c w where c: "check_op () v = (c, w)" by fastforce
      with rest bv Inr TxCommit obtain z where "c = Inr z" "y = x" "w = t"
        by (auto split: sum.splits)
      with c check_Inr(2,3) [of "()" v z w] bv Inr TxCommit u show ?thesis
        by (auto intro: committed)
    qed
  qed
qed

text \<open>Every run of an insert or an update, refused or served.\<close>

lemma insert_cases:
  assumes "insert_op f s = (r, t)"
  obtains (unchanged) "tab t = tab s" "r = Inl DBError"
    | (inserted) i x where "f i (db_now s) (tab s) = Some (tab t, x)" "r = Inr x"
proof (cases r)
  case (Inl e)
  with assms have "tab t = tab s" "r = Inl DBError"
    unfolding insert_op_def
    by (auto elim!: stmt_cases simp: Let_def split: option.splits prod.splits)
  then show ?thesis by (rule unchanged)
next
  case (Inr x)
  with assms have "insert_op f s = (Inr x, t)" by simp
  from insert_Inr(1) [OF this] Inr show ?thesis by (rule inserted)
qed

lemma modify_cases:
  assumes "modify_op f s = (r, t)"
  obtains (unchanged) "tab t = tab s" "r = Inl DBError"
    | (modified) x where "f (db_now s) (tab s) = (tab t, x)" "r = Inr x"
proof (cases r)
  case (Inl e)
  with assms have "tab t = tab s" "r = Inl DBError"
    unfolding modify_op_def by (auto elim!: stmt_cases split: prod.splits)
  then show ?thesis by (rule unchanged)
next
  case (Inr x)
  with assms have "modify_op f s = (Inr x, t)" by simp
  from modify_Inr(1) [OF this] Inr show ?thesis by (rule modified)
qed

lemma select_cases:
  assumes "select_op q s = (r, t)"
  shows "tab t = tab s" "r = Inl DBError \<or> r = Inr (q (db_now s) (tab s))"
  using assms unfolding select_op_def by (auto elim!: stmt_cases simp: same_env_def)

section \<open>Atomicity\<close>

text \<open>An operation that reports an error and leaves every table as it was.\<close>

definition atomic_on_error :: "'a op \<Rightarrow> bool" where
  "atomic_on_error m \<longleftrightarrow> (\<forall>s e t. m s = (Inl e, t) \<longrightarrow> tab t = tab s)"

lemma check_Inl: "check_op x s = (Inl e, t) \<Longrightarrow> tab t = tab s"
  unfolding check_op_def by (erule stmt_cases) (auto simp: ret_def)

lemma transaction_atomic [intro]: "atomic_on_error (transaction body)"
  unfolding atomic_on_error_def
proof (intro allI impI)
  fix s e t
  assume run: "transaction body s = (Inl e, t)"
  obtain r u where b: "check_op () s = (r, u)" by fastforce
  show "tab t = tab s"
  proof (cases r)
    case (Inl e')
    with run b have "t = u" by (simp add: transaction_def bnd_def)
    with b Inl show ?thesis by (auto dest: check_Inl)
  next
    case (Inr z)
    have "tab u = tab s" using b Inr by (auto dest: check_Inr)
    with run b Inr show ?thesis
      by (auto simp: transaction_def bnd_def split: prod.splits sum.splits tx.splits)
  qed
qed

lemma transaction_throws:
  assumes "\<And>u. tab u = tab s \<Longrightarrow> \<exists>e v. body u = (Inl e, v)"
  shows "\<exists>e t. transaction body s = (Inl e, t) \<and> tab t = tab s"
proof -
  obtain r u where b: "check_op () s = (r, u)" by fastforce
  have "tab u = tab s" using b by (cases r) (auto dest: check_Inr check_Inl)
  with b assms [of u] have "\<exists>e t. transaction body s = (Inl e, t)"
    by (cases r) (auto simp: transaction_def bnd_def)
  then show ?thesis using transaction_atomic [of body] unfolding atomic_on_error_def by blast
qed

lemma atomic_select: "atomic_on_error (select_op q)"
  unfolding atomic_on_error_def select_op_def by (auto elim!: stmt_cases)

lemma atomic_modify: "atomic_on_error (modify_op f)"
  unfolding atomic_on_error_def modify_op_def by (auto elim!: stmt_cases split: prod.splits)

lemma atomic_insert: "atomic_on_error (insert_op f)"
  unfolding atomic_on_error_def insert_op_def
  by (auto elim!: stmt_cases simp: Let_def split: option.splits)

lemma atomic_throw: "atomic_on_error (throw e)"
  by (simp add: atomic_on_error_def throw_def)

section \<open>Relations kept by every operation\<close>

text \<open>\<open>maintains R m\<close>: the tables before and after any run of \<open>m\<close> are related, errors included.\<close>

definition maintains :: "(tables \<Rightarrow> tables \<Rightarrow> bool) \<Rightarrow> 'a op \<Rightarrow> bool" where
  "maintains R m \<longleftrightarrow> (\<forall>s. R (tab s) (tab (snd (m s))))"

lemma maintainsD: "maintains R m \<Longrightarrow> m s = (r, t) \<Longrightarrow> R (tab s) (tab t)"
  unfolding maintains_def by (metis snd_conv)

lemma maintains_mono: "maintains R m \<Longrightarrow> (\<And>t u. R t u \<Longrightarrow> Q t u) \<Longrightarrow> maintains Q m"
  by (simp add: maintains_def)

text \<open>The same for the runs without an error only, which is what a transaction needs of its body.\<close>

definition preserves :: "(tables \<Rightarrow> tables \<Rightarrow> bool) \<Rightarrow> 'a op \<Rightarrow> bool" where
  "preserves R m \<longleftrightarrow> (\<forall>s x t. m s = (Inr x, t) \<longrightarrow> R (tab s) (tab t))"

lemma preservesD: "preserves R m \<Longrightarrow> m s = (Inr x, t) \<Longrightarrow> R (tab s) (tab t)"
  by (simp add: preserves_def)

locale table_relation =
  fixes R :: "tables \<Rightarrow> tables \<Rightarrow> bool"
  assumes R_refl: "R t t"
    and R_trans: "R t u \<Longrightarrow> R u v \<Longrightarrow> R t v"
begin

lemma maintains_ret [maintains_rules]: "maintains R (ret x)"
  by (simp add: maintains_def ret_def R_refl)

lemma maintains_throw [maintains_rules]: "maintains R (throw e)"
  by (simp add: maintains_def throw_def R_refl)

lemma maintains_time_Now [maintains_rules]: "maintains R time_Now"
  by (simp add: maintains_def time_Now_def R_refl)

lemma maintains_stmt:
  assumes "\<And>s. R (tab s) (tab (snd (f s)))"
  shows "maintains R (stmt f)"
  unfolding maintains_def
proof
  fix s
  obtain r t where run: "stmt f s = (r, t)" by fastforce
  then show "R (tab s) (tab (snd (stmt f s)))"
  proof (cases rule: stmt_cases)
    case refused
    with run show ?thesis by (simp add: R_refl)
  next
    case (served u)
    with run assms [of u] show ?thesis by simp
  qed
qed

lemma maintains_select [maintains_rules]: "maintains R (select_op q)"
  unfolding select_op_def by (rule maintains_stmt) (simp add: R_refl)

text \<open>What follows a \<^verbatim>\<open>SELECT\<close> may use what the \<^verbatim>\<open>SELECT\<close> has seen.\<close>

lemma maintains_select_then:
  assumes "\<And>s. R (tab s) (tab (snd (f (q (db_now s) (tab s)) s)))"
  shows "maintains R (bnd (select_op q) f)"
  unfolding maintains_def
proof
  fix s
  obtain r t where m: "select_op q s = (r, t)" by fastforce
  show "R (tab s) (tab (snd (bnd (select_op q) f s)))"
  proof (cases r)
    case (Inl e)
    with m select_cases(1) [OF m] show ?thesis by (simp add: bnd_def R_refl)
  next
    case (Inr x)
    with m have "x = q (db_now t) (tab t)" "tab t = tab s"
      by (auto dest!: select_InrD simp: same_env_def)
    with assms [of t] m Inr show ?thesis by (simp add: bnd_def)
  qed
qed

lemma maintains_check [maintains_rules]: "maintains R (check_op x)"
  unfolding check_op_def by (rule maintains_stmt) (simp add: R_refl ret_def)

lemma maintains_modify [maintains_rules]:
  assumes "\<And>n t. R t (fst (f n t))"
  shows "maintains R (modify_op f)"
  unfolding modify_op_def
proof (rule maintains_stmt)
  fix s
  show "R (tab s) (tab (snd (case f (db_now s) (tab s) of (t, x) \<Rightarrow> (Inr x, s\<lparr>tab := t\<rparr>))))"
    using assms [of "tab s" "db_now s"] by (cases "f (db_now s) (tab s)") simp
qed

lemma maintains_insert [maintains_rules]:
  assumes "\<And>i n t t' x. f i n t = Some (t', x) \<Longrightarrow> R t t'"
  shows "maintains R (insert_op f)"
  unfolding insert_op_def
proof (rule maintains_stmt)
  fix s
  show "R (tab s) (tab (snd (let s' = s\<lparr>uuid_ctr := Suc (uuid_ctr s)\<rparr> in
       case f (uuid_of s (uuid_ctr s)) (db_now s) (tab s) of
         None \<Rightarrow> (Inl DBError, s')
       | Some (t, x) \<Rightarrow> (Inr x, s'\<lparr>tab := t\<rparr>))))"
    using assms [of "uuid_of s (uuid_ctr s)" "db_now s" "tab s"]
    by (auto simp: Let_def R_refl split: option.split prod.split)
qed

lemma maintains_uuid_NewString [maintains_rules]: "maintains R uuid_NewString"
  by (simp add: maintains_def uuid_NewString_def R_refl)

lemma insert_loop_related:
  assumes "\<And>x i n t t' y. f x i n t = Some (t', y) \<Longrightarrow> R t t'"
  shows "insert_loop f xs s = (r, s') \<Longrightarrow> R (tab s) (tab s')"
proof (induction xs arbitrary: s r s')
  case Nil
  then show ?case by (simp add: R_refl)
next
  case (Cons x xs)
  show ?case
  proof (cases "f x (uuid_of s (uuid_ctr s)) (db_now s) (tab s)")
    case None
    with Cons.prems show ?thesis by (auto simp: R_refl)
  next
    case (Some ty)
    obtain t y where ty: "ty = (t, y)" by fastforce
    obtain q u where run: "insert_loop f xs (s\<lparr>uuid_ctr := Suc (uuid_ctr s), tab := t\<rparr>) = (q, u)"
      by fastforce
    have "R (tab s) t" using assms Some ty by blast
    moreover have "R t (tab u)" using Cons.IH [OF run] by simp
    moreover have "s' = u" using Cons.prems Some ty run by (auto split: sum.splits)
    ultimately show ?thesis by (blast intro: R_trans)
  qed
qed

lemma maintains_insert_many [maintains_rules]:
  assumes "\<And>x i n t t' y. f x i n t = Some (t', y) \<Longrightarrow> R t t'"
  shows "maintains R (insert_many_op f xs)"
  unfolding insert_many_op_def
proof (rule maintains_stmt)
  fix s
  obtain r u where run: "insert_loop f xs s = (r, u)" by fastforce
  with insert_loop_related [OF assms run] show "R (tab s) (tab (snd (case insert_loop f xs s of
       (Inl e, s') \<Rightarrow> (Inl e, s'\<lparr>tab := tab s\<rparr>)
     | (Inr ys, s') \<Rightarrow> (Inr ys, s'))))"
    by (simp add: R_refl split: sum.split)
qed

lemma maintains_bnd [maintains_rules]:
  assumes "maintains R m" and "\<And>x. maintains R (f x)"
  shows "maintains R (bnd m f)"
  unfolding maintains_def
proof
  fix s
  obtain r t where m: "m s = (r, t)" by fastforce
  with assms(1) have "R (tab s) (tab t)" by (rule maintainsD)
  moreover have "R (tab t) (tab (snd (f x t)))" for x
    using assms(2) [of x] by (simp add: maintains_def)
  ultimately show "R (tab s) (tab (snd (bnd m f s)))"
    using m by (auto simp: bnd_def split: sum.split intro: R_trans)
qed

lemma maintains_write [maintains_rules]:
  assumes "\<And>n t t' x. f n t = Some (t', x) \<Longrightarrow> R t t'"
  shows "maintains R (write_op f)"
  unfolding write_op_def
  by (rule maintains_bnd, rule maintains_modify)
     (auto simp: R_refl maintains_ret maintains_throw split: option.split dest: assms)

text \<open>The same for one run, where what the earlier statements gave is known.\<close>

lemma related_run: "maintains R m \<Longrightarrow> R (tab s) (tab (snd (m s)))"
  by (simp add: maintains_def)

lemma related_modify:
  assumes "R (tab s) (fst (f (db_now s) (tab s)))"
  shows "R (tab s) (tab (snd (modify_op f s)))"
proof -
  obtain r t where run: "modify_op f s = (r, t)" by fastforce
  then show ?thesis
    by (cases rule: modify_cases) (use run assms in \<open>simp_all add: R_refl\<close>)
qed

lemma related_bnd:
  assumes "R (tab s) (tab (snd (m s)))" and "\<And>x t. m s = (Inr x, t) \<Longrightarrow> R (tab t) (tab (snd (f x t)))"
  shows "R (tab s) (tab (snd (bnd m f s)))"
proof -
  obtain r t where run: "m s = (r, t)" by fastforce
  then show ?thesis
    using assms by (cases r) (auto simp: bnd_def intro: R_trans)
qed

lemma maintains_attempt [maintains_rules]: "maintains R m \<Longrightarrow> maintains R (attempt m)"
  by (auto simp: maintains_def attempt_def split: prod.split) (metis snd_conv)

lemma maintains_transaction [maintains_rules]:
  assumes "maintains R body"
  shows "maintains R (transaction body)"
  unfolding transaction_def
proof (rule maintains_bnd)
  show "maintains R (check_op ())" by (rule maintains_check)
next
  fix u :: unit
  show "maintains R (\<lambda>s. case body s of
        (Inl e, s') \<Rightarrow> (Inl e, s'\<lparr>tab := tab s\<rparr>)
      | (Inr (TxReturn x), s') \<Rightarrow> (Inr x, s'\<lparr>tab := tab s\<rparr>)
      | (Inr (TxCommit x), s') \<Rightarrow>
          (case check_op () s' of
             (Inl e, s'') \<Rightarrow> (Inl e, s''\<lparr>tab := tab s\<rparr>)
           | (Inr _, s'') \<Rightarrow> (Inr x, s'')))"
    using assms
    by (auto simp: maintains_def R_refl split: prod.split sum.split tx.split)
       (metis check_Inr(2) snd_conv)
qed

lemma preserves_maintains: "maintains R m \<Longrightarrow> preserves R m"
  unfolding preserves_def by (blast intro: maintainsD)

lemma preserves_bnd [preserves_rules]:
  "preserves R m \<Longrightarrow> (\<And>x. preserves R (f x)) \<Longrightarrow> preserves R (bnd m f)"
  unfolding preserves_def bnd_Inr by (blast intro: R_trans)

lemma preserves_ret [preserves_rules]: "preserves R (ret x)"
  by (simp add: preserves_def ret_def R_refl)

lemma preserves_throw [preserves_rules]: "preserves R (throw e)"
  by (simp add: preserves_def throw_def)

lemma preserves_if [preserves_rules]:
  "(b \<Longrightarrow> preserves R m) \<Longrightarrow> (\<not> b \<Longrightarrow> preserves R n) \<Longrightarrow> preserves R (if b then m else n)"
  by simp

lemma preserves_case_option [preserves_rules]:
  "(x = None \<Longrightarrow> preserves R m) \<Longrightarrow> (\<And>y. x = Some y \<Longrightarrow> preserves R (f y)) \<Longrightarrow>
     preserves R (case x of None \<Rightarrow> m | Some y \<Rightarrow> f y)"
  by (cases x) auto

lemma preserves_case_prod [preserves_rules]:
  "(\<And>a b. x = (a, b) \<Longrightarrow> preserves R (f a b)) \<Longrightarrow> preserves R (case x of (a, b) \<Rightarrow> f a b)"
  by (cases x) auto

lemma preserves_let [preserves_rules]: "(\<And>x. x = a \<Longrightarrow> preserves R (f x)) \<Longrightarrow> preserves R (let x = a in f x)"
  by simp

lemma preserves_for_each [preserves_rules]:
  "(\<And>x. preserves R (f x)) \<Longrightarrow> preserves R (for_each f xs)"
  by (induction xs) (auto intro: preserves_ret preserves_bnd)

lemma preserves_for_collect [preserves_rules]:
  "(\<And>x. preserves R (f x)) \<Longrightarrow> preserves R (for_collect f xs)"
  by (induction xs) (auto intro: preserves_ret preserves_bnd)

lemma preserves_write [preserves_rules]:
  "(\<And>n t t' x. f n t = Some (t', x) \<Longrightarrow> R t t') \<Longrightarrow> preserves R (write_op f)"
  by (rule preserves_maintains) (rule maintains_write)

lemma preserves_select [preserves_rules]: "preserves R (select_op q)"
  by (rule preserves_maintains) (rule maintains_select)

lemma preserves_check [preserves_rules]: "preserves R (check_op x)"
  by (rule preserves_maintains) (rule maintains_check)

lemma preserves_modify [preserves_rules]: "(\<And>n t. R t (fst (f n t))) \<Longrightarrow> preserves R (modify_op f)"
  by (rule preserves_maintains) (rule maintains_modify)

lemma preserves_insert [preserves_rules]:
  "(\<And>i n t t' x. f i n t = Some (t', x) \<Longrightarrow> R t t') \<Longrightarrow> preserves R (insert_op f)"
  by (rule preserves_maintains) (rule maintains_insert)

text \<open>Only the committed runs of a transaction count.\<close>

lemma maintains_transaction_commit:
  assumes "\<And>s x t. body s = (Inr (TxCommit x), t) \<Longrightarrow> R (tab s) (tab t)"
  shows "maintains R (transaction body)"
  unfolding maintains_def
proof
  fix s
  obtain r t where run: "transaction body s = (r, t)" by fastforce
  show "R (tab s) (tab (snd (transaction body s)))"
  proof (cases r)
    case (Inl e)
    with run transaction_atomic [of body] have "tab t = tab s" unfolding atomic_on_error_def by blast
    with run show ?thesis by (simp add: R_refl)
  next
    case (Inr x)
    with run have "transaction body s = (Inr x, t)" by simp
    then show ?thesis
    proof (cases rule: transaction_Inr)
      case (committed u v)
      with assms [OF committed(1)] run show ?thesis by simp
    qed (use run in \<open>simp add: R_refl\<close>)
  qed
qed

lemma maintains_transaction_preserves:
  assumes "preserves R body"
  shows "maintains R (transaction (bnd body (\<lambda>x. ret (TxCommit x))))"
  by (rule maintains_transaction_commit) (use assms in \<open>auto simp: run_Inr dest: preservesD\<close>)

lemma maintains_for_each [maintains_rules]:
  "(\<And>x. maintains R (f x)) \<Longrightarrow> maintains R (for_each f xs)"
  by (induction xs) (auto intro: maintains_ret maintains_bnd)

lemma maintains_for_collect [maintains_rules]:
  "(\<And>x. maintains R (f x)) \<Longrightarrow> maintains R (for_collect f xs)"
  by (induction xs) (auto intro: maintains_ret maintains_bnd)

lemma maintains_if [maintains_rules]:
  "(b \<Longrightarrow> maintains R m) \<Longrightarrow> (\<not> b \<Longrightarrow> maintains R n) \<Longrightarrow> maintains R (if b then m else n)"
  by simp

lemma maintains_case_option [maintains_rules]:
  "(x = None \<Longrightarrow> maintains R m) \<Longrightarrow> (\<And>y. x = Some y \<Longrightarrow> maintains R (f y)) \<Longrightarrow>
     maintains R (case x of None \<Rightarrow> m | Some y \<Rightarrow> f y)"
  by (cases x) auto

lemma maintains_case_sum [maintains_rules]:
  "(\<And>e. x = Inl e \<Longrightarrow> maintains R (f e)) \<Longrightarrow> (\<And>y. x = Inr y \<Longrightarrow> maintains R (g y)) \<Longrightarrow>
     maintains R (case x of Inl e \<Rightarrow> f e | Inr y \<Rightarrow> g y)"
  by (cases x) auto

lemma maintains_case_list [maintains_rules]:
  "(xs = [] \<Longrightarrow> maintains R m) \<Longrightarrow> (\<And>y ys. xs = y # ys \<Longrightarrow> maintains R (f y ys)) \<Longrightarrow>
     maintains R (case xs of [] \<Rightarrow> m | y # ys \<Rightarrow> f y ys)"
  by (cases xs) auto

lemma maintains_case_prod [maintains_rules]:
  "(\<And>a b. x = (a, b) \<Longrightarrow> maintains R (f a b)) \<Longrightarrow> maintains R (case x of (a, b) \<Rightarrow> f a b)"
  by (cases x) auto

lemma maintains_let [maintains_rules]: "(\<And>x. x = a \<Longrightarrow> maintains R (f x)) \<Longrightarrow> maintains R (let x = a in f x)"
  by simp

end

text \<open>
  Three shapes of such a relation: a part of the tables that is not written, an invariant,
  and a table without deletions whose rows evolve one by one.
\<close>

definition keeps :: "(tables \<Rightarrow> 'b) \<Rightarrow> tables \<Rightarrow> tables \<Rightarrow> bool" where
  "keeps part t u \<longleftrightarrow> part u = part t"

lemma keeps_field: "keeps part t u \<Longrightarrow> (\<And>t. field (part t) = field t) \<Longrightarrow> field u = field t"
  unfolding keeps_def by metis

definition invar_rel :: "(tables \<Rightarrow> bool) \<Rightarrow> tables \<Rightarrow> tables \<Rightarrow> bool" where
  "invar_rel I t u \<longleftrightarrow> (I t \<longrightarrow> I u)"

definition evolves :: "(tables \<Rightarrow> 'r list) \<Rightarrow> ('r \<Rightarrow> 'r \<Rightarrow> bool) \<Rightarrow> tables \<Rightarrow> tables \<Rightarrow> bool" where
  "evolves col step t u \<longleftrightarrow> rows_rel step (col t) (col u)"

locale table_frame =
  fixes part :: "tables \<Rightarrow> 'b"
begin

sublocale table_relation "keeps part"
  by unfold_locales (simp_all add: keeps_def)

lemma frame_run: "maintains (keeps part) m \<Longrightarrow> m s = (r, t) \<Longrightarrow> part (tab t) = part (tab s)"
  by (drule (1) maintainsD) (simp add: keeps_def)

end

interpretation unchanged: table_frame "\<lambda>t :: tables. t" .

locale table_invariant =
  fixes I :: "tables \<Rightarrow> bool"
begin

sublocale table_relation "invar_rel I"
  by unfold_locales (simp_all add: invar_rel_def)

lemma invariant_run: "maintains (invar_rel I) m \<Longrightarrow> m s = (r, t) \<Longrightarrow> I (tab s) \<Longrightarrow> I (tab t)"
  by (drule (1) maintainsD) (simp add: invar_rel_def)

end

locale table_history =
  fixes col :: "tables \<Rightarrow> 'r list" and step :: "'r \<Rightarrow> 'r \<Rightarrow> bool"
  assumes step_refl: "step r r"
    and step_trans: "step a b \<Longrightarrow> step b c \<Longrightarrow> step a c"
begin

sublocale table_relation "evolves col step"
proof unfold_locales
  show "evolves col step t t" for t
    by (simp add: evolves_def rows_rel_refl step_refl)
  show "evolves col step t v" if "evolves col step t u" "evolves col step u v" for t u v
    using that unfolding evolves_def by (rule rows_rel_trans [of step, rotated]) (rule step_trans)
qed

lemma history_run:
  assumes "maintains (evolves col step) m" and "m s = (r, t)" and "i < length (col (tab s))"
  shows "i < length (col (tab t)) \<and> step (col (tab s) ! i) (col (tab t) ! i)"
  using maintainsD [OF assms(1,2)] assms(3) by (auto simp: evolves_def rows_rel_nth)

lemma evolves_unchanged: "col u = col t \<Longrightarrow> evolves col step t u"
  by (simp add: evolves_def rows_rel_refl step_refl)

lemma evolves_update:
  "col u = update_where P f (col t) \<Longrightarrow> (\<And>r. r \<in> set (col t) \<Longrightarrow> P r \<Longrightarrow> step r (f r)) \<Longrightarrow>
     evolves col step t u"
  by (simp add: evolves_def rows_rel_update_where step_refl)

lemma evolves_append: "col u = col t @ new \<Longrightarrow> evolves col step t u"
  by (simp add: evolves_def rows_rel_append step_refl)

end

text \<open>
  The rows of a table evolve one by one as long as an invariant holds, which every operation
  keeps.
\<close>

definition guarded :: "(tables \<Rightarrow> bool) \<Rightarrow> (tables \<Rightarrow> tables \<Rightarrow> bool) \<Rightarrow> tables \<Rightarrow> tables \<Rightarrow> bool" where
  "guarded I R t u \<longleftrightarrow> (I t \<longrightarrow> I u \<and> R t u)"

locale table_guarded = table_history +
  fixes I :: "tables \<Rightarrow> bool"
begin

sublocale grel: table_relation "guarded I (evolves col step)"
proof unfold_locales
  show "guarded I (evolves col step) t t" for t
    by (simp add: guarded_def R_refl)
  show "guarded I (evolves col step) t v"
    if "guarded I (evolves col step) t u" "guarded I (evolves col step) u v" for t u v
    using that unfolding guarded_def by (blast intro: R_trans)
qed

lemma guarded_run:
  assumes "maintains (guarded I (evolves col step)) m" and "m s = (r, t)" and "I (tab s)"
    and "i < length (col (tab s))"
  shows "I (tab t) \<and> i < length (col (tab t)) \<and> step (col (tab s) ! i) (col (tab t) ! i)"
  using maintainsD [OF assms(1,2)] assms(3,4) by (auto simp: guarded_def evolves_def rows_rel_nth)

end

section \<open>Evaluating a concrete run\<close>

text \<open>
  The definitions a run unfolds to, and the congruence rules that keep the simplifier out of
  the part of an operation that is still to run.
\<close>

lemmas eval_defs = bnd_def ret_def throw_def attempt_def time_Now_def stmt_def select_op_def
  modify_op_def insert_op_def write_op_def check_op_def transaction_def uuid_NewString_def
  update_where_def affected_def coalesce_def nullif_empty_def string_at_def empty_tables_def Let_def

lemma eval_congs:
  "s = s' \<Longrightarrow> bnd m f s = bnd m f s'"
  "s = s' \<Longrightarrow> attempt m s = attempt m s'"
  "s = s' \<Longrightarrow> stmt g s = stmt g s'"
  "s = s' \<Longrightarrow> select_op q s = select_op q s'"
  "s = s' \<Longrightarrow> modify_op u s = modify_op u s'"
  "s = s' \<Longrightarrow> insert_op i s = insert_op i s'"
  "s = s' \<Longrightarrow> write_op w s = write_op w s'"
  "s = s' \<Longrightarrow> transaction b s = transaction b s'"
  "x = x' \<Longrightarrow> Let x h = Let x' h"
  by simp_all

end
