(* ===== verification/Alerts.thy ===== *)
theory Alerts
  imports Messages Storage_Logic
begin

text \<open>
  Alerts and audit events (\<^verbatim>\<open>alerts.go\<close>, \<^verbatim>\<open>alert_generator.go\<close>, \<^verbatim>\<open>audit_events.go\<close> of
  \<^verbatim>\<open>pkg/controllerstorage\<close>): the rows, the queries over them, and the generators that raise
  and resolve an alert for a node. A logged error has no effect on the state, so the code
  that logs and goes on is an \<open>attempt\<close> whose result is dropped.
\<close>

section \<open>Audit events\<close>

record AuditEvent =
  ae_TenantID :: uuid
  ae_NodeID :: "uuid option"
  ae_EventType :: string
  ae_Actor :: string
  ae_Summary :: string
  ae_Detail :: params

definition audit_row_of :: "AuditEvent \<Rightarrow> uuid \<Rightarrow> time \<Rightarrow> audit_row" where
  "audit_row_of e i now = \<lparr>ev_id = i, ev_tenant_id = ae_TenantID e, ev_node_id = ae_NodeID e,
     ev_event_type = ae_EventType e, ev_actor = ae_Actor e, ev_summary = ae_Summary e,
     ev_detail = ae_Detail e, ev_created_at = now\<rparr>"

definition insert_audit_sql :: "AuditEvent \<Rightarrow> uuid \<Rightarrow> time \<Rightarrow> tables \<Rightarrow> (tables \<times> audit_row) option" where
  "insert_audit_sql e i now t =
     (if i \<in> ev_id ` set (audit_events t) then None
      else Some (t\<lparr>audit_events := audit_events t @ [audit_row_of e i now]\<rparr>, audit_row_of e i now))"

definition CreateAuditEvent :: "AuditEvent \<Rightarrow> audit_row op" where
  "CreateAuditEvent e =
     (if \<not> marshal_ok (ae_Detail e) then throw (ErrMsg ''failed to marshal audit event detail'')
      else insert_op (insert_audit_sql e))"

text \<open>\<^verbatim>\<open>CreateAuditEvents\<close>: one statement for all events; a nil event is skipped.\<close>

fun audit_args :: "AuditEvent option list \<Rightarrow> err + AuditEvent list" where
  "audit_args [] = Inr []"
| "audit_args (None # es) = audit_args es"
| "audit_args (Some e # es) =
     (if \<not> marshal_ok (ae_Detail e) then Inl (ErrMsg ''failed to marshal audit event detail'')
      else map_sum id (\<lambda>rest. e # rest) (audit_args es))"

definition CreateAuditEvents :: "AuditEvent option list \<Rightarrow> unit op" where
  "CreateAuditEvents events =
     (if events = [] then ret ()
      else case audit_args events of
          Inl e \<Rightarrow> throw e
        | Inr [] \<Rightarrow> ret ()
        | Inr es \<Rightarrow> bnd (insert_many_op insert_audit_sql es) (\<lambda>_. ret ()))"

record AuditEventFilter =
  aef_NodeID :: "uuid option"
  aef_EventType :: string
  aef_Since :: "time option"
  aef_Limit :: int
  aef_Offset :: int

text \<open>The bounds that the listing functions put on a page.\<close>

definition page_limit :: "int \<Rightarrow> int \<Rightarrow> int \<Rightarrow> int" where
  "page_limit default_limit max_limit n =
     (let n = (if n \<le> 0 then default_limit else n) in if n > max_limit then max_limit else n)"

definition page_offset :: "int \<Rightarrow> int" where
  "page_offset n = (if n < 0 then 0 else n)"

definition page :: "int \<Rightarrow> int \<Rightarrow> 'a list \<Rightarrow> 'a list" where
  "page limit offset xs = take (nat limit) (drop (nat offset) xs)"

definition audit_filter :: "uuid \<Rightarrow> AuditEventFilter \<Rightarrow> audit_row \<Rightarrow> bool" where
  "audit_filter tenant f r \<longleftrightarrow> ev_tenant_id r = tenant \<and>
     (aef_NodeID f \<noteq> None \<longrightarrow> ev_node_id r = aef_NodeID f) \<and>
     (aef_EventType f \<noteq> '''' \<longrightarrow> ev_event_type r = aef_EventType f) \<and>
     (case aef_Since f of None \<Rightarrow> True | Some since \<Rightarrow> ev_created_at r \<ge> since)"

definition ListAuditEvents :: "uuid \<Rightarrow> AuditEventFilter \<Rightarrow> (audit_row list \<times> nat) op" where
  "ListAuditEvents tenant f =
     (let limit = page_limit 50 200 (aef_Limit f); offset = page_offset (aef_Offset f)
      in bnd (select_op (\<lambda>_ t. length (filter (audit_filter tenant f) (audit_events t)))) (\<lambda>total.
         bnd (select_op (\<lambda>_ t. page limit offset
                (sort_key (\<lambda>r. - ev_created_at r) (filter (audit_filter tenant f) (audit_events t))))) (\<lambda>rows.
         check_op (rows, total))))"

section \<open>Alerts\<close>

record Alert =
  at_TenantID :: uuid
  at_NodeID :: "uuid option"
  at_AlertType :: string
  at_Severity :: string
  at_Title :: string
  at_Message :: string
  at_Context :: params

record AlertFilter =
  alf_Status :: string
  alf_AlertType :: string
  alf_NodeID :: "uuid option"
  alf_Limit :: int
  alf_Offset :: int

definition alert_row_of :: "Alert \<Rightarrow> uuid \<Rightarrow> time \<Rightarrow> alert_row" where
  "alert_row_of a i now = \<lparr>al_id = i, al_tenant_id = at_TenantID a, al_node_id = at_NodeID a,
     al_type = at_AlertType a, al_severity = at_Severity a, al_title = at_Title a,
     al_message = Some (at_Message a), al_context = at_Context a, al_status = ''active'',
     al_created_at = now, al_resolved_at = None\<rparr>"

definition CreateAlert :: "Alert \<Rightarrow> alert_row op" where
  "CreateAlert a =
     (if \<not> marshal_ok (at_Context a) then throw (ErrMsg ''failed to marshal alert context'')
      else insert_op (\<lambda>i now t.
        if i \<in> al_id ` set (alerts t) then None
        else Some (t\<lparr>alerts := alerts t @ [alert_row_of a i now]\<rparr>, alert_row_of a i now)))"

definition resolve_row :: "time \<Rightarrow> alert_row \<Rightarrow> alert_row" where
  "resolve_row now r = r\<lparr>al_status := ''resolved'', al_resolved_at := Some now\<rparr>"

definition resolve_sql :: "uuid \<Rightarrow> time \<Rightarrow> tables \<Rightarrow> tables \<times> alert_row option" where
  "resolve_sql i now t =
     (t\<lparr>alerts := update_where (\<lambda>r. al_id r = i \<and> al_status r = ''active'') (resolve_row now) (alerts t)\<rparr>,
      map_option (resolve_row now) (find (\<lambda>r. al_id r = i \<and> al_status r = ''active'') (alerts t)))"

definition ResolveAlert :: "uuid \<Rightarrow> alert_row op" where
  "ResolveAlert i = bnd (modify_op (resolve_sql i)) (\<lambda>r. case r of None \<Rightarrow> throw ErrNoRows | Some r \<Rightarrow> ret r)"

definition active_alert :: "uuid \<Rightarrow> uuid \<Rightarrow> string \<Rightarrow> alert_row \<Rightarrow> bool" where
  "active_alert tenant node ty r \<longleftrightarrow> al_tenant_id r = tenant \<and> al_node_id r = Some node \<and>
     al_type r = ty \<and> al_status r = ''active''"

definition GetActiveAlertByNodeAndType :: "uuid \<Rightarrow> uuid \<Rightarrow> string \<Rightarrow> alert_row option op" where
  "GetActiveAlertByNodeAndType tenant node ty = select_op (\<lambda>_ t. find (active_alert tenant node ty) (alerts t))"

definition alert_filter :: "uuid \<Rightarrow> AlertFilter \<Rightarrow> alert_row \<Rightarrow> bool" where
  "alert_filter tenant f r \<longleftrightarrow> al_tenant_id r = tenant \<and>
     (alf_Status f \<noteq> '''' \<and> alf_Status f \<noteq> ''all'' \<longrightarrow> al_status r = alf_Status f) \<and>
     (alf_AlertType f \<noteq> '''' \<longrightarrow> al_type r = alf_AlertType f) \<and>
     (alf_NodeID f \<noteq> None \<longrightarrow> al_node_id r = alf_NodeID f)"

definition ListAlerts :: "uuid \<Rightarrow> AlertFilter \<Rightarrow> (alert_row list \<times> nat) op" where
  "ListAlerts tenant f =
     (let limit = page_limit 50 200 (alf_Limit f); offset = page_offset (alf_Offset f)
      in bnd (select_op (\<lambda>_ t. length (filter (alert_filter tenant f) (alerts t)))) (\<lambda>total.
         bnd (select_op (\<lambda>_ t. page limit offset
                (sort_key (\<lambda>r. - al_created_at r) (filter (alert_filter tenant f) (alerts t))))) (\<lambda>rows.
         check_op (rows, total))))"

definition ListRecentNodeAlerts :: "uuid \<Rightarrow> uuid \<Rightarrow> string \<Rightarrow> int \<Rightarrow> alert_row list op" where
  "ListRecentNodeAlerts tenant node status limit =
     (let limit = page_limit 10 200 limit;
          status = (if TrimSpace status = '''' then ''active'' else TrimSpace status)
      in bnd (select_op (\<lambda>_ t. page limit 0 (sort_key (\<lambda>r. - al_created_at r)
                (filter (\<lambda>r. al_tenant_id r = tenant \<and> al_status r = status \<and> al_node_id r = Some node)
                   (alerts t))))) check_op)"

definition CountActiveAlerts :: "uuid \<Rightarrow> nat op" where
  "CountActiveAlerts tenant =
     select_op (\<lambda>_ t. length (filter (\<lambda>r. al_tenant_id r = tenant \<and> al_status r = ''active'') (alerts t)))"

section \<open>Alert generators\<close>

definition system_event :: "uuid \<Rightarrow> uuid \<Rightarrow> string \<Rightarrow> string \<Rightarrow> params \<Rightarrow> AuditEvent" where
  "system_event tenant node ty summary detail = \<lparr>ae_TenantID = tenant, ae_NodeID = Some node,
     ae_EventType = ty, ae_Actor = ''system'', ae_Summary = summary, ae_Detail = detail\<rparr>"

definition GenerateNodeOfflineAlert :: "uuid \<Rightarrow> uuid \<Rightarrow> string \<Rightarrow> unit op" where
  "GenerateNodeOfflineAlert tenant node hostname =
     bnd (attempt (GetActiveAlertByNodeAndType tenant node ''node_offline'')) (\<lambda>r. case r of
         Inl e \<Rightarrow> throw (ErrWrap ''failed to check existing alert'' e)
       | Inr (Some _) \<Rightarrow> ret ()
       | Inr None \<Rightarrow>
           bnd (attempt (CreateAlert \<lparr>at_TenantID = tenant, at_NodeID = Some node,
               at_AlertType = ''node_offline'', at_Severity = ''critical'',
               at_Title = msg_node @ hostname @ msg_offline, at_Message = '''',
               at_Context = [(''hostname'', VString hostname)]\<rparr>)) (\<lambda>c. case c of
             Inl e \<Rightarrow> throw (ErrWrap ''failed to create node_offline alert'' e)
           | Inr _ \<Rightarrow>
               bnd (attempt (CreateAuditEvent (system_event tenant node ''alert_created''
                     (msg_alert_created_node @ hostname @ msg_offline) []))) (\<lambda>_. ret ())))"

definition ResolveNodeOfflineAlert :: "uuid \<Rightarrow> uuid \<Rightarrow> unit op" where
  "ResolveNodeOfflineAlert tenant node =
     bnd (attempt (GetActiveAlertByNodeAndType tenant node ''node_offline'')) (\<lambda>r. case r of
         Inl e \<Rightarrow> throw (ErrWrap ''failed to find active node_offline alert'' e)
       | Inr None \<Rightarrow> ret ()
       | Inr (Some existing) \<Rightarrow>
           bnd (attempt (ResolveAlert (al_id existing))) (\<lambda>c. case c of
             Inl e \<Rightarrow> throw (ErrWrap (''failed to resolve node_offline alert '' @ al_id existing) e)
           | Inr _ \<Rightarrow>
               bnd (attempt (CreateAuditEvent (system_event tenant node ''alert_resolved''
                     msg_offline_resolved []))) (\<lambda>_. ret ())))"

text \<open>
  The two generators for failed commands and failed deliveries drop the error of the lookup
  (\<^verbatim>\<open>existing, _ := ...\<close>): a failed lookup counts as no alert.
\<close>

definition GenerateSyncFailedAlert :: "uuid \<Rightarrow> uuid \<Rightarrow> uuid \<Rightarrow> string \<Rightarrow> unit op" where
  "GenerateSyncFailedAlert tenant node commandID errorMsg =
     bnd (attempt (GetActiveAlertByNodeAndType tenant node ''sync_failed'')) (\<lambda>r. case r of
         Inr (Some _) \<Rightarrow> ret ()
       | _ \<Rightarrow>
           bnd (attempt (CreateAlert \<lparr>at_TenantID = tenant, at_NodeID = Some node,
               at_AlertType = ''sync_failed'', at_Severity = ''warning'',
               at_Title = msg_command_failed, at_Message = '''',
               at_Context = [(''command_id'', VString commandID), (''error'', VString errorMsg)]\<rparr>)) (\<lambda>c. case c of
             Inl e \<Rightarrow> throw (ErrWrap ''failed to create sync_failed alert'' e)
           | Inr _ \<Rightarrow>
               bnd (attempt (CreateAuditEvent (system_event tenant node ''alert_created''
                     msg_alert_command_failed []))) (\<lambda>_. ret ())))"

definition GeneratePolicyFailedAlert :: "uuid \<Rightarrow> uuid \<Rightarrow> string \<Rightarrow> string \<Rightarrow> uuid \<Rightarrow> string \<Rightarrow> unit op" where
  "GeneratePolicyFailedAlert tenant node domain ref commandID errorMsg =
     bnd (attempt (GetActiveAlertByNodeAndType tenant node ''policy_failed'')) (\<lambda>r. case r of
         Inr (Some _) \<Rightarrow> ret ()
       | _ \<Rightarrow>
           bnd (attempt (CreateAlert \<lparr>at_TenantID = tenant, at_NodeID = Some node,
               at_AlertType = ''policy_failed'', at_Severity = ''warning'',
               at_Title = msg_policy_failed,
               at_Message = msg_policy @ domain @ ''/'' @ ref @ msg_delivery_failed @ errorMsg,
               at_Context = [(''policy_domain'', VString domain), (''policy_ref'', VString ref),
                 (''command_id'', VString commandID), (''error'', VString errorMsg)]\<rparr>)) (\<lambda>c. case c of
             Inl e \<Rightarrow> throw (ErrWrap ''failed to create policy_failed alert'' e)
           | Inr _ \<Rightarrow>
               bnd (attempt (CreateAuditEvent (system_event tenant node ''alert_created''
                     msg_alert_policy_failed []))) (\<lambda>_. ret ())))"

text \<open>The alerts about certificates have the same shape and no audit event.\<close>

definition raise_once :: "uuid \<Rightarrow> uuid \<Rightarrow> string \<Rightarrow> string \<Rightarrow> string \<Rightarrow> string \<Rightarrow> params \<Rightarrow> unit op" where
  "raise_once tenant node ty severity title message context =
     bnd (attempt (GetActiveAlertByNodeAndType tenant node ty)) (\<lambda>r. case r of
         Inl e \<Rightarrow> throw (ErrWrap (''failed to check existing '' @ ty @ '' alert'') e)
       | Inr (Some _) \<Rightarrow> ret ()
       | Inr None \<Rightarrow>
           bnd (attempt (CreateAlert \<lparr>at_TenantID = tenant, at_NodeID = Some node, at_AlertType = ty,
               at_Severity = severity, at_Title = title, at_Message = message, at_Context = context\<rparr>)) (\<lambda>c. case c of
             Inl e \<Rightarrow> throw (ErrWrap (''failed to create '' @ ty @ '' alert'') e)
           | Inr _ \<Rightarrow> ret ()))"

definition resolve_once :: "uuid \<Rightarrow> uuid \<Rightarrow> string \<Rightarrow> unit op" where
  "resolve_once tenant node ty =
     bnd (attempt (GetActiveAlertByNodeAndType tenant node ty)) (\<lambda>r. case r of
         Inl e \<Rightarrow> throw (ErrWrap (''failed to find active '' @ ty @ '' alert'') e)
       | Inr None \<Rightarrow> ret ()
       | Inr (Some existing) \<Rightarrow>
           bnd (attempt (ResolveAlert (al_id existing))) (\<lambda>c. case c of
             Inl e \<Rightarrow> throw (ErrWrap (''failed to resolve '' @ ty @ '' alert '' @ al_id existing) e)
           | Inr _ \<Rightarrow> ret ()))"

definition GenerateCertificateExpiringAlert :: "uuid \<Rightarrow> uuid \<Rightarrow> string \<Rightarrow> time \<Rightarrow> unit op" where
  "GenerateCertificateExpiringAlert tenant node hostname notAfter =
     raise_once tenant node ''certificate_expiring'' ''warning'' msg_cert_expiring
       (msg_node @ hostname @ msg_cert_will @ format_RFC3339 notAfter @ msg_expire)
       [(''hostname'', VString hostname), (''not_after'', VString (format_RFC3339 notAfter))]"

definition ResolveCertificateExpiringAlert :: "uuid \<Rightarrow> uuid \<Rightarrow> unit op" where
  "ResolveCertificateExpiringAlert tenant node = resolve_once tenant node ''certificate_expiring''"

definition GenerateCertificateExpiredAlert :: "uuid \<Rightarrow> uuid \<Rightarrow> string \<Rightarrow> time \<Rightarrow> unit op" where
  "GenerateCertificateExpiredAlert tenant node hostname notAfter =
     raise_once tenant node ''certificate_expired'' ''critical'' msg_cert_expired
       (msg_node @ hostname @ msg_cert_was @ format_RFC3339 notAfter @ msg_expire)
       [(''hostname'', VString hostname), (''not_after'', VString (format_RFC3339 notAfter))]"

definition GenerateCertificateRenewFailedAlert :: "uuid \<Rightarrow> uuid \<Rightarrow> string \<Rightarrow> string \<Rightarrow> unit op" where
  "GenerateCertificateRenewFailedAlert tenant node hostname message =
     raise_once tenant node ''certificate_renew_failed'' ''warning'' msg_cert_renew_failed
       (msg_node @ hostname @ msg_cert_renew_failed_of @ message)
       [(''hostname'', VString hostname), (''error'', VString message)]"

definition ResolveCertificateRenewFailedAlert :: "uuid \<Rightarrow> uuid \<Rightarrow> unit op" where
  "ResolveCertificateRenewFailedAlert tenant node = resolve_once tenant node ''certificate_renew_failed''"

lemmas alert_generators = GenerateNodeOfflineAlert_def ResolveNodeOfflineAlert_def
  GenerateSyncFailedAlert_def GeneratePolicyFailedAlert_def raise_once_def resolve_once_def
  GenerateCertificateExpiringAlert_def ResolveCertificateExpiringAlert_def
  GenerateCertificateExpiredAlert_def GenerateCertificateRenewFailedAlert_def
  ResolveCertificateRenewFailedAlert_def

section \<open>What the operations write\<close>

text \<open>
  Audit events touch no other table; alert operations touch alerts and audit events only.
\<close>

definition without_audit :: "tables \<Rightarrow> tables" where
  "without_audit t = t\<lparr>audit_events := []\<rparr>"

definition without_alerts :: "tables \<Rightarrow> tables" where
  "without_alerts t = t\<lparr>audit_events := [], alerts := []\<rparr>"

interpretation audit_frame: table_frame without_audit .
interpretation alerts_frame: table_frame without_alerts .

lemma keeps_insert_audit:
  "insert_audit_sql e i now t = Some (t', x) \<Longrightarrow> keeps without_audit t t'"
  "insert_audit_sql e i now t = Some (t', x) \<Longrightarrow> keeps without_alerts t t'"
  by (auto simp: insert_audit_sql_def keeps_def without_audit_def without_alerts_def split: if_splits)

lemma maintains_CreateAuditEvent [maintains_rules]:
  "maintains (keeps without_audit) (CreateAuditEvent e)"
  "maintains (keeps without_alerts) (CreateAuditEvent e)"
  unfolding CreateAuditEvent_def by (intro maintains_rules; erule keeps_insert_audit)+

lemma maintains_CreateAlert [maintains_rules]: "maintains (keeps without_alerts) (CreateAlert a)"
  unfolding CreateAlert_def
  by (intro maintains_rules) (auto simp: keeps_def without_alerts_def split: if_splits)

lemma maintains_ResolveAlert [maintains_rules]: "maintains (keeps without_alerts) (ResolveAlert i)"
  unfolding ResolveAlert_def
  by (intro maintains_rules) (auto simp: keeps_def without_alerts_def resolve_sql_def)

lemma maintains_GetActiveAlert [maintains_rules]:
  "maintains (keeps without_alerts) (GetActiveAlertByNodeAndType tenant node ty)"
  unfolding GetActiveAlertByNodeAndType_def by (intro maintains_rules)

lemma maintains_GenerateSyncFailedAlert [maintains_rules]:
  "maintains (keeps without_alerts) (GenerateSyncFailedAlert tenant node c m)"
  unfolding GenerateSyncFailedAlert_def by (intro maintains_rules)

lemma maintains_GeneratePolicyFailedAlert [maintains_rules]:
  "maintains (keeps without_alerts) (GeneratePolicyFailedAlert tenant node d r c m)"
  unfolding GeneratePolicyFailedAlert_def by (intro maintains_rules)



section \<open>One active alert per node and kind\<close>

definition alerts_unique :: "tables \<Rightarrow> bool" where
  "alerts_unique t \<longleftrightarrow> (\<forall>tenant node ty. length (filter (active_alert tenant node ty) (alerts t)) \<le> 1)"

lemma alerts_unique_cong: "alerts u = alerts t \<Longrightarrow> alerts_unique t \<Longrightarrow> alerts_unique u"
  by (simp add: alerts_unique_def)

lemma audit_keeps_alerts:
  assumes "CreateAuditEvent e s = (r, t)"
  shows "alerts (tab t) = alerts (tab s)"
  using maintainsD [OF maintains_CreateAuditEvent(1) assms]
  by (rule keeps_field) (simp add: without_audit_def)

lemma CreateAlert_cases:
  assumes "CreateAlert a s = (r, t)"
  shows "alerts (tab t) = alerts (tab s) \<or>
    (\<exists>i now. alerts (tab t) = alerts (tab s) @ [alert_row_of a i now])"
  using assms unfolding CreateAlert_def
  by (auto simp: throw_def elim!: insert_cases split: if_splits)
     (metis tables.select_convs(9) tables.surjective tables.update_convs(9))+

lemma filter_active_new:
  "filter (active_alert tenant node ty) [alert_row_of a i now] =
     (if at_TenantID a = tenant \<and> at_NodeID a = Some node \<and> at_AlertType a = ty
      then [alert_row_of a i now] else [])"
  by (auto simp: active_alert_def alert_row_of_def)

lemma CreateAlert_unique:
  assumes "CreateAlert a s = (r, t)" and "alerts_unique (tab s)" and "at_NodeID a = Some node"
    and "find (active_alert (at_TenantID a) node (at_AlertType a)) (alerts (tab s)) = None"
  shows "alerts_unique (tab t)"
  using CreateAlert_cases [OF assms(1)]
proof
  assume "alerts (tab t) = alerts (tab s)"
  then show ?thesis using assms(2) by (rule alerts_unique_cong)
next
  assume "\<exists>i now. alerts (tab t) = alerts (tab s) @ [alert_row_of a i now]"
  then obtain i now where new: "alerts (tab t) = alerts (tab s) @ [alert_row_of a i now]" by blast
  have none: "filter (active_alert (at_TenantID a) node (at_AlertType a)) (alerts (tab s)) = []"
    using assms(4) by (auto simp: find_None_iff filter_empty_conv)
  show ?thesis
    unfolding alerts_unique_def new filter_append filter_active_new
    using assms(2,3) none by (auto simp: alerts_unique_def)
qed

lemma ResolveAlert_unique:
  assumes "ResolveAlert i s = (r, t)" and "alerts_unique (tab s)"
  shows "alerts_unique (tab t)"
proof -
  have sub: "length (filter P (update_where Q f rows)) \<le> length (filter P rows)"
    if "\<And>r. Q r \<Longrightarrow> \<not> P (f r)" for P Q f and rows :: "alert_row list"
    using that by (induction rows) (auto simp: update_where_def)
  have less: "length (filter (active_alert tenant node ty) (alerts (fst (resolve_sql i now (tab s)))))
    \<le> length (filter (active_alert tenant node ty) (alerts (tab s)))" for tenant node ty now
    unfolding resolve_sql_def by (simp, rule sub) (simp add: active_alert_def resolve_row_def)
  obtain q u where run: "modify_op (resolve_sql i) s = (q, u)" by fastforce
  have "tab t = tab u"
    using assms(1) run by (auto simp: ResolveAlert_def bnd_def throw_def ret_def split: sum.splits option.splits)
  moreover have "tab u = tab s \<or> tab u = fst (resolve_sql i (db_now s) (tab s))"
    using run by (cases rule: modify_cases) auto
  ultimately show ?thesis
    using assms(2) le_trans [OF less] unfolding alerts_unique_def by auto
qed

text \<open>The shape of a generator that stops when the lookup fails: look up, create, go on.\<close>

lemma raise_unique:
  assumes "alerts_unique (tab s)" and "at_NodeID a = Some node"
    and follow: "\<And>c u q v. g c u = (q, v) \<Longrightarrow> alerts (tab v) = alerts (tab u)"
    and run: "bnd (attempt (GetActiveAlertByNodeAndType (at_TenantID a) node (at_AlertType a))) (\<lambda>r. case r of
         Inl e \<Rightarrow> throw (f e)
       | Inr (Some _) \<Rightarrow> ret ()
       | Inr None \<Rightarrow> bnd (attempt (CreateAlert a)) g) s = (r, s')"
  shows "alerts_unique (tab s')"
proof -
  obtain q u where get: "GetActiveAlertByNodeAndType (at_TenantID a) node (at_AlertType a) s = (q, u)"
    by fastforce
  then have u: "tab u = tab s"
    "q = Inl DBError \<or> q = Inr (find (active_alert (at_TenantID a) node (at_AlertType a)) (alerts (tab s)))"
    unfolding GetActiveAlertByNodeAndType_def by (auto dest: select_cases)
  show ?thesis
  proof (cases "q = Inr None")
    case True
    obtain c v where create: "CreateAlert a u = (c, v)" by fastforce
    with True run get have "g c v = (r, s')" by (simp add: bnd_def attempt_def)
    then have "alerts (tab s') = alerts (tab v)" by (rule follow)
    moreover have "alerts_unique (tab v)"
      using create True u assms(1,2) by (intro CreateAlert_unique [OF create]) auto
    ultimately show ?thesis by (rule alerts_unique_cong)
  next
    case False
    with run get have "s' = u"
      by (auto simp: bnd_def attempt_def throw_def ret_def split: sum.splits option.splits)
    with u assms(1) show ?thesis by simp
  qed
qed

lemma resolve_unique:
  assumes "alerts_unique (tab s)"
    and follow: "\<And>i c u q v. g i c u = (q, v) \<Longrightarrow> alerts (tab v) = alerts (tab u)"
    and run: "bnd (attempt (GetActiveAlertByNodeAndType tenant node ty)) (\<lambda>r. case r of
         Inl e \<Rightarrow> throw (f e)
       | Inr None \<Rightarrow> ret ()
       | Inr (Some existing) \<Rightarrow> bnd (attempt (ResolveAlert (al_id existing))) (g (al_id existing))) s = (r, s')"
  shows "alerts_unique (tab s')"
proof -
  obtain q u where get: "GetActiveAlertByNodeAndType tenant node ty s = (q, u)" by fastforce
  then have u: "tab u = tab s"
    unfolding GetActiveAlertByNodeAndType_def by (auto dest: select_cases)
  show ?thesis
  proof (cases "\<exists>x. q = Inr (Some x)")
    case True
    then obtain x where x: "q = Inr (Some x)" by blast
    obtain c v where res: "ResolveAlert (al_id x) u = (c, v)" by fastforce
    with x run get have "g (al_id x) c v = (r, s')" by (simp add: bnd_def attempt_def)
    then have "alerts (tab s') = alerts (tab v)" by (rule follow)
    moreover have "alerts_unique (tab v)"
      using ResolveAlert_unique [OF res] u assms(1) by simp
    ultimately show ?thesis by (rule alerts_unique_cong)
  next
    case False
    with run get have "s' = u"
      by (auto simp: bnd_def attempt_def throw_def ret_def split: sum.splits option.splits)
    with u assms(1) show ?thesis by simp
  qed
qed

lemma audit_follow:
  "(case c of Inl e \<Rightarrow> throw (f e)
     | Inr _ \<Rightarrow> bnd (attempt (CreateAuditEvent ev)) (\<lambda>_. ret ())) u = (q, v) \<Longrightarrow> alerts (tab v) = alerts (tab u)"
  by (auto simp: bnd_def attempt_def throw_def ret_def split: sum.splits prod.splits dest: audit_keeps_alerts)

lemma no_follow:
  "(case c of Inl e \<Rightarrow> throw (f e) | Inr _ \<Rightarrow> ret ()) u = (q, v) \<Longrightarrow> alerts (tab v) = alerts (tab u)"
  by (auto simp: throw_def ret_def split: sum.splits)

lemma raise_once_unique:
  assumes "alerts_unique (tab s)" and "raise_once tenant node ty severity title message context s = (r, s')"
  shows "alerts_unique (tab s')"
  using assms(2) unfolding raise_once_def
  by (intro raise_unique [OF assms(1), where a = "\<lparr>at_TenantID = tenant, at_NodeID = Some node,
        at_AlertType = ty, at_Severity = severity, at_Title = title, at_Message = message,
        at_Context = context\<rparr>" and node = node]) (auto intro: no_follow)

lemma resolve_once_unique:
  assumes "alerts_unique (tab s)" and "resolve_once tenant node ty s = (r, s')"
  shows "alerts_unique (tab s')"
  using assms(2) unfolding resolve_once_def
  by (intro resolve_unique [OF assms(1)]) (auto intro: no_follow)

text \<open>
  Raising the alert that a node is offline, or that its certificate expires, has expired or
  could not be renewed, and resolving these, never leaves two active alerts of one kind for
  one node, whichever statements the database refuses.
\<close>

theorem alert_generators_unique:
  assumes "alerts_unique (tab s)"
    and "m \<in> {GenerateNodeOfflineAlert tenant node hostname, ResolveNodeOfflineAlert tenant node,
       GenerateCertificateExpiringAlert tenant node hostname notAfter,
       ResolveCertificateExpiringAlert tenant node,
       GenerateCertificateExpiredAlert tenant node hostname notAfter,
       GenerateCertificateRenewFailedAlert tenant node hostname message,
       ResolveCertificateRenewFailedAlert tenant node}"
    and "m s = (r, s')"
  shows "alerts_unique (tab s')"
proof -
  have offline: "alerts_unique (tab s')" if "GenerateNodeOfflineAlert tenant node hostname s = (r, s')"
    using that unfolding GenerateNodeOfflineAlert_def
    by (intro raise_unique [OF assms(1), where a = "\<lparr>at_TenantID = tenant, at_NodeID = Some node,
          at_AlertType = ''node_offline'', at_Severity = ''critical'',
          at_Title = msg_node @ hostname @ msg_offline, at_Message = '''',
          at_Context = [(''hostname'', VString hostname)]\<rparr>" and node = node]) (auto intro: audit_follow)
  have online: "alerts_unique (tab s')" if "ResolveNodeOfflineAlert tenant node s = (r, s')"
    using that unfolding ResolveNodeOfflineAlert_def
    by (intro resolve_unique [OF assms(1)]) (auto intro: audit_follow)
  show ?thesis
    using assms offline online
    by (auto simp: GenerateCertificateExpiringAlert_def ResolveCertificateExpiringAlert_def
        GenerateCertificateExpiredAlert_def GenerateCertificateRenewFailedAlert_def
        ResolveCertificateRenewFailedAlert_def intro: raise_once_unique resolve_once_unique)
qed

theorem alert_generators_unique_witness:
  "alerts_unique (tab (snd (GenerateNodeOfflineAlert ''t'' ''n'' ''h''
     \<lparr>db_now = 0, go_now = 0, faults = [], uuid_of = itoa_nat, uuid_ctr = 0, tab = empty_tables\<rparr>)))"
  by (rule alert_generators_unique [OF _ _ surjective_pairing,
        where m = "GenerateNodeOfflineAlert ''t'' ''n'' ''h''" and tenant = "''t''" and node = "''n''"
          and hostname = "''h''"])
     (simp_all add: alerts_unique_def empty_tables_def)

text \<open>
  The alert for a failed command is not idempotent when its lookup fails: the error of the
  lookup is dropped, and a second active alert of the same kind is created.
\<close>

theorem sync_failed_alert_duplicated:
  "\<exists>s. alerts_unique (tab s) \<and> fst (GenerateSyncFailedAlert tenant node command message s) = Inr () \<and>
     \<not> alerts_unique (tab (snd (GenerateSyncFailedAlert tenant node command message s)))"
proof -
  define a where "a = \<lparr>at_TenantID = tenant, at_NodeID = Some node, at_AlertType = ''sync_failed'',
    at_Severity = ''warning'', at_Title = msg_command_failed, at_Message = '''',
    at_Context = [(''command_id'', VString command), (''error'', VString message)]\<rparr>"
  define t where "t = empty_tables\<lparr>alerts := [alert_row_of a ''x'' 0]\<rparr>"
  define s where "s = \<lparr>db_now = 0, go_now = 0, faults = [True], uuid_of = (\<lambda>n. itoa_nat n), uuid_ctr = 0, tab = t\<rparr>"
  have "itoa_nat 0 \<noteq> ''x''" "itoa_nat (Suc 0) \<noteq> ''x''"
    by code_simp+
  then have run: "\<exists>s'. GenerateSyncFailedAlert tenant node command message s = (Inr (), s') \<and>
    alerts (tab s') = [alert_row_of a ''x'' 0, alert_row_of a (itoa_nat 0) 0]"
    by (simp add: GenerateSyncFailedAlert_def a_def [symmetric] s_def t_def bnd_def attempt_def
        GetActiveAlertByNodeAndType_def select_op_def stmt_def CreateAlert_def insert_op_def
        CreateAuditEvent_def insert_audit_sql_def system_event_def marshal_ok_def ret_def Let_def
        empty_tables_def alert_row_of_def)
      (simp add: a_def)
  have "alerts_unique (tab s)"
    by (simp add: alerts_unique_def s_def t_def)
  moreover have "active_alert tenant node ''sync_failed'' (alert_row_of a i now)" for i now
    by (simp add: active_alert_def alert_row_of_def a_def)
  then have "\<not> alerts_unique u"
    if "alerts u = [alert_row_of a ''x'' 0, alert_row_of a (itoa_nat 0) 0]" for u
    unfolding alerts_unique_def that
    by (intro notI) (drule spec [where x = tenant], drule spec [where x = node],
        drule spec [where x = "''sync_failed''"], simp)
  ultimately show ?thesis using run by (metis fst_conv snd_conv)
qed

section \<open>Listings\<close>

lemma length_page: "length (page limit offset xs) \<le> nat limit"
  by (simp add: page_def)

lemma set_page: "set (page limit offset xs) \<subseteq> set xs"
  unfolding page_def by (meson order_trans set_drop_subset set_take_subset)

lemma sorted_page: "sorted (map f xs) \<Longrightarrow> sorted (map f (page limit offset xs))"
  by (simp add: page_def take_map [symmetric] drop_map [symmetric] sorted_wrt_take sorted_wrt_drop)

lemma page_limit_bounds: "0 < d \<Longrightarrow> d \<le> m \<Longrightarrow> 0 < page_limit d m n \<and> page_limit d m n \<le> m"
  by (simp add: page_limit_def Let_def)

text \<open>
  A page of alerts holds at most 200 rows, newest first, all of the tenant that asked and all
  matching its filter; the total counts every match and does not depend on the page.
\<close>

theorem ListAlerts_page:
  assumes "ListAlerts tenant f s = (Inr (rows, n), s')"
  shows "length rows \<le> 200 \<and> sorted (map (\<lambda>r. - al_created_at r) rows) \<and>
    (\<forall>r \<in> set rows. r \<in> set (alerts (tab s)) \<and> alert_filter tenant f r \<and> al_tenant_id r = tenant) \<and>
    n = length (filter (alert_filter tenant f) (alerts (tab s))) \<and> tab s' = tab s"
proof -
  let ?limit = "page_limit 50 200 (alf_Limit f)" and ?all = "filter (alert_filter tenant f) (alerts (tab s))"
  have run: "rows = page ?limit (page_offset (alf_Offset f)) (sort_key (\<lambda>r. - al_created_at r) ?all)"
    "n = length ?all" "tab s' = tab s"
    using assms unfolding ListAlerts_def Let_def
    by (auto simp: bnd_Inr dest!: InrD)
  have "nat ?limit \<le> 200"
    using page_limit_bounds [of 50 200 "alf_Limit f"] by (simp add: nat_le_iff)
  then have "length rows \<le> 200"
    unfolding run(1) by (rule order_trans [OF length_page])
  moreover have "sorted (map (\<lambda>r. - al_created_at r) rows)"
    unfolding run(1) by (intro sorted_page) simp
  moreover have "r \<in> set ?all" if "r \<in> set rows" for r
    using that set_page unfolding run(1) by fastforce
  ultimately show ?thesis using run(2,3) by (auto simp: alert_filter_def)
qed

definition sample_alert_db :: db where
  "sample_alert_db = \<lparr>db_now = 0, go_now = 0, faults = [], uuid_of = itoa_nat, uuid_ctr = 0,
     tab = empty_tables\<lparr>alerts := [\<lparr>al_id = ''a'', al_tenant_id = ''t'', al_node_id = None, al_type = ''x'',
       al_severity = '''', al_title = '''', al_message = None, al_context = [], al_status = ''active'',
       al_created_at = 1, al_resolved_at = None\<rparr>]\<rparr>\<rparr>"

theorem ListAlerts_page_witness:
  "\<exists>rows. ListAlerts ''t'' \<lparr>alf_Status = '''', alf_AlertType = '''', alf_NodeID = None, alf_Limit = 0,
      alf_Offset = -3\<rparr> sample_alert_db = (Inr (rows, 1), sample_alert_db) \<and> length rows \<le> 200 \<and>
    rows = alerts (tab sample_alert_db)"
proof -
  let ?f = "\<lparr>alf_Status = '''', alf_AlertType = '''', alf_NodeID = None, alf_Limit = 0, alf_Offset = -3\<rparr>"
  have run: "ListAlerts ''t'' ?f sample_alert_db = (Inr (alerts (tab sample_alert_db), 1), sample_alert_db)"
    by (simp add: ListAlerts_def sample_alert_db_def bnd_def select_run check_run alert_filter_def
        page_def page_limit_def page_offset_def)
  from run ListAlerts_page [OF run] show ?thesis by simp
qed

end
