(* ===== verification/Control_State.thy ===== *)
theory Control_State
  imports Storage_Logic
begin

text \<open>
  \<^verbatim>\<open>pkg/controllerstorage/node_control_states.go\<close>: per node, the version of the state the
  controller wants, the version the agent applied and what the agent observed. One row per
  node; the desired side is written by \<open>upsertNodeDesiredState\<close> and
  \<open>bumpNodeDesiredVersionWith\<close>, the applied and observed side by
  \<open>reportNodeControlState\<close>, which a command result reaches through
  \<open>syncNodeControlStateForCommandTx\<close>.
\<close>

section \<open>Data\<close>

datatype ConvergenceStatus = StatusConverged | StatusPending | StatusDiverged | StatusOffline

record NodeControlState =
  st_TenantID :: uuid
  st_NodeID :: uuid
  st_DesiredStateVersion :: string
  st_DesiredStateMetadata :: params
  st_DesiredStateUpdatedAt :: "time option"
  st_AppliedStateVersion :: string
  st_AppliedStateUpdatedAt :: "time option"
  st_ObservedState :: string
  st_ObservedMessage :: string
  st_ObservedAt :: "time option"
  st_LastSyncAt :: "time option"
  st_LastSyncError :: string
  st_CreatedAt :: time
  st_UpdatedAt :: time

record NodeControlStateReport =
  rp_AppliedStateVersion :: string
  rp_ObservedState :: string
  rp_ObservedMessage :: string
  rp_LastSyncAt :: "time option"
  rp_LastSyncError :: string

definition GetConvergenceStatus :: "NodeControlState \<Rightarrow> bool \<Rightarrow> ConvergenceStatus" where
  "GetConvergenceStatus s isOnline =
     (if \<not> isOnline then StatusOffline
      else if st_LastSyncError s \<noteq> '''' then StatusDiverged
      else if st_DesiredStateVersion s = '''' \<or> st_DesiredStateVersion s = st_AppliedStateVersion s
        then StatusConverged
      else StatusPending)"

fun firstString :: "string list \<Rightarrow> string" where
  "firstString [] = ''''"
| "firstString (v # vs) = (if TrimSpace v \<noteq> '''' then TrimSpace v else firstString vs)"

definition stringValue :: "value option \<Rightarrow> string" where
  "stringValue v = (case v of Some (VString text) \<Rightarrow> text | _ \<Rightarrow> '''')"

section \<open>Operations\<close>

definition NewDesiredStateVersion :: "string op" where
  "NewDesiredStateVersion =
     bnd time_Now (\<lambda>now. bnd uuid_NewString (\<lambda>u. ret (''dsv-'' @ Itoa (now div 1000000) @ ''-'' @ take 8 u)))"

definition scanNodeControlState :: "control_state_row \<Rightarrow> NodeControlState" where
  "scanNodeControlState r = \<lparr>st_TenantID = ncs_tenant_id r, st_NodeID = ncs_node_id r,
     st_DesiredStateVersion = coalesce (ncs_desired_version r) '''',
     st_DesiredStateMetadata = ncs_desired_metadata r,
     st_DesiredStateUpdatedAt = ncs_desired_updated_at r,
     st_AppliedStateVersion = coalesce (ncs_applied_version r) '''',
     st_AppliedStateUpdatedAt = ncs_applied_updated_at r,
     st_ObservedState = ncs_observed_state r,
     st_ObservedMessage = coalesce (ncs_observed_message r) '''',
     st_ObservedAt = ncs_observed_at r, st_LastSyncAt = ncs_last_sync_at r,
     st_LastSyncError = coalesce (ncs_last_sync_error r) '''',
     st_CreatedAt = ncs_created_at r, st_UpdatedAt = ncs_updated_at r\<rparr>"

definition GetNodeControlState :: "uuid \<Rightarrow> uuid \<Rightarrow> NodeControlState option op" where
  "GetNodeControlState tenant node = select_op (\<lambda>_ t.
     map_option scanNodeControlState
       (find (\<lambda>r. ncs_tenant_id r = tenant \<and> ncs_node_id r = node) (node_control_states t)))"

text \<open>
  A row with the defaults of the table, and \<^verbatim>\<open>INSERT ... ON CONFLICT (node_id) DO UPDATE\<close>:
  the row of the node is rewritten by \<open>merge\<close>, or \<open>row\<close> is added.
\<close>

definition new_control_state :: "uuid \<Rightarrow> uuid \<Rightarrow> time \<Rightarrow> control_state_row" where
  "new_control_state tenant node now = \<lparr>ncs_node_id = node, ncs_tenant_id = tenant,
     ncs_desired_version = None, ncs_desired_metadata = [], ncs_desired_updated_at = None,
     ncs_applied_version = None, ncs_applied_updated_at = None, ncs_observed_state = ''idle'',
     ncs_observed_message = None, ncs_observed_at = None, ncs_last_sync_at = None,
     ncs_last_sync_error = None, ncs_created_at = now, ncs_updated_at = now\<rparr>"

definition upsert_control_state ::
    "control_state_row \<Rightarrow> (control_state_row \<Rightarrow> control_state_row) \<Rightarrow> tables \<Rightarrow> tables \<times> control_state_row" where
  "upsert_control_state row merge t =
     (case find (\<lambda>r. ncs_node_id r = ncs_node_id row) (node_control_states t) of
        None \<Rightarrow> (t\<lparr>node_control_states := node_control_states t @ [row]\<rparr>, row)
      | Some old \<Rightarrow>
          (t\<lparr>node_control_states :=
               update_where (\<lambda>r. ncs_node_id r = ncs_node_id row) merge (node_control_states t)\<rparr>,
           merge old))"

definition desired_merge :: "uuid \<Rightarrow> string \<Rightarrow> params \<Rightarrow> time \<Rightarrow> control_state_row \<Rightarrow> control_state_row" where
  "desired_merge tenant version metadata now r = r\<lparr>ncs_tenant_id := tenant,
     ncs_desired_version := Some version, ncs_desired_metadata := metadata,
     ncs_desired_updated_at := Some now, ncs_updated_at := now\<rparr>"

definition upsert_desired_sql :: "uuid \<Rightarrow> uuid \<Rightarrow> string \<Rightarrow> params \<Rightarrow> time \<Rightarrow> tables \<Rightarrow> tables \<times> control_state_row" where
  "upsert_desired_sql tenant node version metadata now =
     upsert_control_state (desired_merge tenant version metadata now (new_control_state tenant node now))
       (desired_merge tenant version metadata now)"

definition upsertNodeDesiredState :: "uuid \<Rightarrow> uuid \<Rightarrow> string \<Rightarrow> params \<Rightarrow> NodeControlState op" where
  "upsertNodeDesiredState tenant node version metadata =
     bnd (if TrimSpace version = '''' then NewDesiredStateVersion else ret version) (\<lambda>version.
       if \<not> marshal_ok metadata then throw (ErrMsg ''json'')
       else bnd (modify_op (upsert_desired_sql tenant node version metadata))
              (\<lambda>r. ret (scanNodeControlState r)))"

definition UpsertNodeDesiredState :: "uuid \<Rightarrow> uuid \<Rightarrow> string \<Rightarrow> params \<Rightarrow> NodeControlState op" where
  "UpsertNodeDesiredState = upsertNodeDesiredState"

text \<open>\<^verbatim>\<open>network_policy.go\<close>: a fresh version, the tenant and the metadata of the row are kept.\<close>

definition bump_sql :: "uuid \<Rightarrow> uuid \<Rightarrow> string \<Rightarrow> time \<Rightarrow> tables \<Rightarrow> tables \<times> control_state_row" where
  "bump_sql tenant node version now =
     upsert_control_state
       ((new_control_state tenant node now)\<lparr>ncs_desired_version := Some version, ncs_desired_updated_at := Some now\<rparr>)
       (\<lambda>r. r\<lparr>ncs_desired_version := Some version, ncs_desired_updated_at := Some now, ncs_updated_at := now\<rparr>)"

definition bumpNodeDesiredVersionWith :: "uuid \<Rightarrow> uuid \<Rightarrow> unit op" where
  "bumpNodeDesiredVersionWith tenant node =
     bnd uuid_NewString (\<lambda>version. bnd (modify_op (bump_sql tenant node version)) (\<lambda>_. ret ()))"

text \<open>
  The row a report proposes (\<^verbatim>\<open>EXCLUDED\<close>), with its observed state apart because the report
  may propose \<^verbatim>\<open>NULL\<close> for it: the column is \<^verbatim>\<open>NOT NULL\<close>, and PostgreSQL checks the proposed row
  before it looks for a conflict, so such a report is refused.
\<close>

definition report_row :: "uuid \<Rightarrow> uuid \<Rightarrow> NodeControlStateReport \<Rightarrow> time \<Rightarrow> control_state_row" where
  "report_row tenant node rp now = (new_control_state tenant node now)\<lparr>
     ncs_applied_version := nullif_empty (rp_AppliedStateVersion rp),
     ncs_applied_updated_at := (if nullif_empty (rp_AppliedStateVersion rp) \<noteq> None then Some now else None),
     ncs_observed_state := rp_ObservedState rp,
     ncs_observed_message := nullif_empty (rp_ObservedMessage rp),
     ncs_observed_at := (if nullif_empty (rp_ObservedState rp) \<noteq> None \<or> nullif_empty (rp_ObservedMessage rp) \<noteq> None
        then Some now else None),
     ncs_last_sync_at := rp_LastSyncAt rp,
     ncs_last_sync_error := nullif_empty (rp_LastSyncError rp)\<rparr>"

definition report_merge :: "control_state_row \<Rightarrow> time \<Rightarrow> control_state_row \<Rightarrow> control_state_row" where
  "report_merge ex now r = r\<lparr>
     ncs_tenant_id := ncs_tenant_id ex,
     ncs_applied_version :=
       (if ncs_applied_version ex \<noteq> None then ncs_applied_version ex else ncs_applied_version r),
     ncs_applied_updated_at :=
       (if ncs_applied_version ex \<noteq> None then Some now else ncs_applied_updated_at r),
     ncs_observed_state := coalesce (nullif_empty (ncs_observed_state ex)) (ncs_observed_state r),
     ncs_observed_message :=
       (if ncs_observed_message ex \<noteq> None then ncs_observed_message ex
        else if ncs_last_sync_at ex \<noteq> None \<and> ncs_last_sync_error ex = None then Some ''''
        else ncs_observed_message r),
     ncs_observed_at :=
       (if nullif_empty (ncs_observed_state ex) \<noteq> None \<or> ncs_observed_message ex \<noteq> None \<or> ncs_last_sync_at ex \<noteq> None
        then Some now else ncs_observed_at r),
     ncs_last_sync_at := (if ncs_last_sync_at ex \<noteq> None then ncs_last_sync_at ex else ncs_last_sync_at r),
     ncs_last_sync_error :=
       (if ncs_last_sync_at ex \<noteq> None \<or> ncs_last_sync_error ex \<noteq> None
        then Some (coalesce (ncs_last_sync_error ex) '''') else ncs_last_sync_error r),
     ncs_updated_at := now\<rparr>"

definition report_sql :: "uuid \<Rightarrow> uuid \<Rightarrow> NodeControlStateReport \<Rightarrow> time \<Rightarrow> tables \<Rightarrow> (tables \<times> control_state_row) option" where
  "report_sql tenant node rp now t =
     (if nullif_empty (rp_ObservedState rp) = None then None
      else Some (upsert_control_state (report_row tenant node rp now)
                   (report_merge (report_row tenant node rp now) now) t))"

definition reportNodeControlState :: "uuid \<Rightarrow> uuid \<Rightarrow> NodeControlStateReport \<Rightarrow> NodeControlState op" where
  "reportNodeControlState tenant node rp =
     bnd (write_op (report_sql tenant node rp)) (\<lambda>r. ret (scanNodeControlState r))"

definition ReportNodeControlState :: "uuid \<Rightarrow> uuid \<Rightarrow> NodeControlStateReport \<Rightarrow> NodeControlState op" where
  "ReportNodeControlState = reportNodeControlState"

text \<open>The command with its node: \<^verbatim>\<open>agent_commands ac JOIN nodes n ON n.public_key = ac.node_public_key\<close>.\<close>

definition command_node :: "uuid \<Rightarrow> tables \<Rightarrow> (command_row \<times> node_row) option" where
  "command_node commandID t =
     (case find (\<lambda>c. cmd_id c = commandID) (agent_commands t) of
        None \<Rightarrow> None
      | Some c \<Rightarrow> map_option (Pair c) (find (\<lambda>n. node_public_key n = cmd_node_public_key c) (nodes t)))"

text \<open>The report that a command result makes of its node.\<close>

definition command_report ::
    "string \<Rightarrow> params \<Rightarrow> string \<Rightarrow> string \<Rightarrow> string_map \<Rightarrow> time \<Rightarrow> NodeControlStateReport" where
  "command_report command params status message result now =
     (let desiredVersion = TrimSpace (firstString [string_at result ''desired_state_version'',
              stringValue (map_of params ''desired_state_version'')]);
          applied = TrimSpace (string_at result ''applied_state_version'');
          observed = TrimSpace (string_at result ''observed_state'');
          observedMessage = TrimSpace (string_at result ''observed_message'');
          applied = (if status = ''completed'' \<and> command = ''sync'' \<and> applied = '''' then desiredVersion else applied);
          observed =
            (if observed \<noteq> '''' then observed
             else if status = ''completed'' then
               (if command = ''sync'' \<and> applied \<noteq> '''' then ''applied'' else ''healthy'')
             else if status = ''failed'' then ''error''
             else if status = ''acknowledged'' \<or> status = ''sent'' then ''in_progress''
             else '''');
          observedMessage = (if observedMessage = '''' then TrimSpace message else observedMessage);
          lastSyncError = (if observed = ''error'' \<or> status = ''failed''
                           then firstString [observedMessage, TrimSpace message] else '''')
      in \<lparr>rp_AppliedStateVersion = applied, rp_ObservedState = observed,
          rp_ObservedMessage = observedMessage, rp_LastSyncAt = Some now,
          rp_LastSyncError = lastSyncError\<rparr>)"

definition syncNodeControlStateForCommandTx ::
    "uuid \<Rightarrow> string \<Rightarrow> string \<Rightarrow> string_map \<Rightarrow> unit op" where
  "syncNodeControlStateForCommandTx commandID status message result =
     bnd (select_op (\<lambda>_ t. command_node commandID t)) (\<lambda>r. case r of
         None \<Rightarrow> ret ()
       | Some (c, n) \<Rightarrow>
           bnd time_Now (\<lambda>now.
           bnd (reportNodeControlState (node_tenant_id n) (node_id n)
                  (command_report (cmd_command c) (cmd_params c) status message result now)) (\<lambda>_.
           ret ())))"

section \<open>What the operations write\<close>

definition without_control :: "tables \<Rightarrow> tables" where
  "without_control t = t\<lparr>node_control_states := []\<rparr>"

text \<open>The rows of the nodes, one per node, and the desired side of a row.\<close>

definition control_inv :: "tables \<Rightarrow> bool" where
  "control_inv t \<longleftrightarrow> distinct (map ncs_node_id (node_control_states t))"

definition control_row :: "uuid \<Rightarrow> tables \<Rightarrow> control_state_row option" where
  "control_row node t = find (\<lambda>r. ncs_node_id r = node) (node_control_states t)"

interpretation control_frame: table_frame without_control .
interpretation control_rows: table_invariant control_inv .

lemma without_control_upsert:
  "upsert_control_state row merge t = (t', x) \<Longrightarrow> without_control t' = without_control t"
  by (auto simp: upsert_control_state_def without_control_def split: option.splits)

lemma node_id_merge [simp]:
  "ncs_node_id (desired_merge tenant v m now r) = ncs_node_id r"
  "ncs_node_id (report_merge ex now r) = ncs_node_id r"
  "ncs_node_id (new_control_state tenant node now) = node"
  "ncs_node_id (report_row tenant node rp now) = node"
  by (simp_all add: desired_merge_def report_merge_def new_control_state_def report_row_def)

lemma control_inv_upsert:
  assumes "upsert_control_state row merge t = (t', x)" and "\<And>r. ncs_node_id (merge r) = ncs_node_id r"
    and "control_inv t"
  shows "control_inv t'"
  using assms
  by (fastforce simp: upsert_control_state_def control_inv_def map_key_update_where find_None_iff
      split: option.splits)

lemma control_row_upsert:
  assumes "upsert_control_state row merge t = (t', x)" and "\<And>r. ncs_node_id (merge r) = ncs_node_id r"
  shows "control_row node t' = (if node = ncs_node_id row then Some x else control_row node t)"
proof (cases "control_row (ncs_node_id row) t")
  case None
  with assms(1) have "t' = t\<lparr>node_control_states := node_control_states t @ [row]\<rparr>" "x = row"
    by (auto simp: upsert_control_state_def control_row_def)
  with None show ?thesis by (auto simp: control_row_def find_append split: option.split)
next
  case (Some old)
  with assms(1) have t': "t' = t\<lparr>node_control_states :=
      update_where (\<lambda>r. ncs_node_id r = ncs_node_id row) merge (node_control_states t)\<rparr>" "x = merge old"
    by (auto simp: upsert_control_state_def control_row_def)
  have "control_row node t' = map_option (\<lambda>r. if ncs_node_id r = ncs_node_id row then merge r else r)
      (control_row node t)"
    by (simp add: t' control_row_def find_update_where assms(2))
  with Some t'(2) show ?thesis
    by (cases "control_row node t") (auto simp: control_row_def dest: find_SomeD)
qed

lemma keeps_upsert:
  "keeps without_control t (fst (upsert_control_state row merge t))"
  "(\<And>r. ncs_node_id (merge r) = ncs_node_id r) \<Longrightarrow>
     invar_rel control_inv t (fst (upsert_control_state row merge t))"
  by (auto simp: keeps_def invar_rel_def intro: without_control_upsert [OF prod.collapse [symmetric]]
      control_inv_upsert [OF prod.collapse [symmetric]])

lemma maintains_upsertNodeDesiredState [maintains_rules]:
  "maintains (keeps without_control) (upsertNodeDesiredState tenant node v m)"
  "maintains (invar_rel control_inv) (upsertNodeDesiredState tenant node v m)"
  unfolding upsertNodeDesiredState_def NewDesiredStateVersion_def upsert_desired_sql_def
  by (intro maintains_rules keeps_upsert node_id_merge)+

lemma maintains_bump [maintains_rules]:
  "maintains (keeps without_control) (bumpNodeDesiredVersionWith tenant node)"
  "maintains (invar_rel control_inv) (bumpNodeDesiredVersionWith tenant node)"
  unfolding bumpNodeDesiredVersionWith_def bump_sql_def
  by (intro maintains_rules keeps_upsert; simp)+

lemma report_sql_related:
  "report_sql tenant node rp now t = Some (t', x) \<Longrightarrow> keeps without_control t t'"
  "report_sql tenant node rp now t = Some (t', x) \<Longrightarrow> invar_rel control_inv t t'"
  using keeps_upsert(1) [of t "report_row tenant node rp now" "report_merge (report_row tenant node rp now) now"]
    keeps_upsert(2) [of "report_merge (report_row tenant node rp now) now" t "report_row tenant node rp now"]
  by (auto simp: report_sql_def split: if_splits)

lemma maintains_reportNodeControlState [maintains_rules]:
  "maintains (keeps without_control) (reportNodeControlState tenant node rp)"
  "maintains (invar_rel control_inv) (reportNodeControlState tenant node rp)"
  unfolding reportNodeControlState_def by (intro maintains_rules; erule report_sql_related)+

lemma maintains_syncNodeControlState [maintains_rules]:
  "maintains (keeps without_control) (syncNodeControlStateForCommandTx c st m res)"
  "maintains (invar_rel control_inv) (syncNodeControlStateForCommandTx c st m res)"
  unfolding syncNodeControlStateForCommandTx_def by (intro maintains_rules)+

text \<open>The row of a node after its desired version is set.\<close>

lemma upsert_desired_Inr:
  assumes "upsertNodeDesiredState tenant node v m s = (Inr st, t)" and "TrimSpace v \<noteq> ''''"
  shows "\<exists>r. control_row node (tab t) = Some r \<and> st = scanNodeControlState r \<and> ncs_tenant_id r = tenant \<and>
     ncs_desired_version r = Some v \<and> ncs_desired_metadata r = m"
    and "k \<noteq> node \<Longrightarrow> control_row k (tab t) = control_row k (tab s)" and "same_env s t"
proof -
  let ?row = "desired_merge tenant v m (db_now s) (new_control_state tenant node (db_now s))"
  from assms obtain r where u: "modify_op (upsert_desired_sql tenant node v m) s = (Inr r, t)"
      and st: "st = scanNodeControlState r"
    by (auto simp: upsertNodeDesiredState_def run_Inr split: if_split_asm)
  have up: "upsert_control_state ?row (desired_merge tenant v m (db_now s)) (tab s) = (tab t, r)"
    using modify_Inr(1) [OF u] by (simp add: upsert_desired_sql_def)
  then have "ncs_tenant_id r = tenant" "ncs_desired_version r = Some v" "ncs_desired_metadata r = m"
    by (auto simp: upsert_control_state_def desired_merge_def split: option.splits)
  with control_row_upsert [OF up, of node] st
  show "\<exists>r. control_row node (tab t) = Some r \<and> st = scanNodeControlState r \<and> ncs_tenant_id r = tenant \<and>
     ncs_desired_version r = Some v \<and> ncs_desired_metadata r = m"
    by simp
  show "k \<noteq> node \<Longrightarrow> control_row k (tab t) = control_row k (tab s)"
    using control_row_upsert [OF up, of k] by simp
  show "same_env s t" using modify_Inr(2) [OF u] .
qed

lemma NewDesiredStateVersion_Inr:
  assumes "NewDesiredStateVersion s = (Inr v, t)"
  shows "TrimSpace v \<noteq> ''''" "tab t = tab s" "same_env s t"
proof -
  from assms obtain k u where v: "v = ''dsv-'' @ k" and u: "uuid_NewString s = (Inr u, t)"
    by (auto simp: NewDesiredStateVersion_def run_Inr)
  show "TrimSpace v \<noteq> ''''"
    by (rule TrimSpace_keeps [of "CHR ''d''"]) (simp_all add: v space_runes_def)
  show "tab t = tab s" "same_env s t" using uuid_NewString_InrD [OF u] by simp_all
qed

section \<open>Convergence\<close>

text \<open>The row a node has after a report of its command.\<close>

lemma sync_row:
  assumes "syncNodeControlStateForCommandTx commandID status message result s = (Inr (), t)"
    and "command_node commandID (tab s) = Some (c, n)"
  obtains rp where
    "rp = command_report (cmd_command c) (cmd_params c) status message result (go_now s)"
    "control_row (node_id n) (tab t) = Some (case control_row (node_id n) (tab s) of
        None \<Rightarrow> report_row (node_tenant_id n) (node_id n) rp (db_now s)
      | Some r \<Rightarrow> report_merge (report_row (node_tenant_id n) (node_id n) rp (db_now s)) (db_now s) r)"
proof -
  let ?rp = "command_report (cmd_command c) (cmd_params c) status message result (go_now s)"
  let ?ex = "report_row (node_tenant_id n) (node_id n) ?rp (db_now s)"
  from assms obtain x u where "write_op (report_sql (node_tenant_id n) (node_id n) ?rp) u = (Inr x, t)"
      "tab u = tab s" "same_env s u"
    unfolding syncNodeControlStateForCommandTx_def reportNodeControlState_def
    by (auto simp: run_Inr same_env_def dest!: select_InrD)
  then have up: "upsert_control_state ?ex (report_merge ?ex (db_now s)) (tab s) = (tab t, x)"
    by (auto dest!: write_InrD simp: report_sql_def same_env_def split: if_splits)
  from up have "x = (case control_row (node_id n) (tab s) of None \<Rightarrow> ?ex
      | Some r \<Rightarrow> report_merge ?ex (db_now s) r)"
    by (auto simp: upsert_control_state_def control_row_def split: option.splits)
  with control_row_upsert [OF up, of "node_id n"] show ?thesis by (intro that) simp_all
qed

lemma sync_GetNodeControlState:
  assumes "syncNodeControlStateForCommandTx commandID status message result s = (Inr (), t)"
    and "command_node commandID (tab s) = Some (c, n)" and "control_inv (tab s)"
    and "control_row (node_id n) (tab t) = Some r"
    and "GetNodeControlState (node_tenant_id n) (node_id n) t = (Inr st, u)"
  shows "st = Some (scanNodeControlState r)"
proof -
  have inv: "control_inv (tab t)"
    using control_rows.invariant_run [OF maintains_syncNodeControlState(2) assms(1,3)] .
  have tenant: "ncs_tenant_id r = node_tenant_id n"
    by (rule sync_row [OF assms(1,2)])
      (use assms(4) in \<open>auto simp: report_merge_def report_row_def new_control_state_def split: option.splits\<close>)
  have "st = map_option scanNodeControlState (find (\<lambda>q. ncs_tenant_id q = node_tenant_id n \<and>
      ncs_node_id q = node_id n) (node_control_states (tab t)))"
    using assms(5) by (auto simp: GetNodeControlState_def dest: select_InrD)
  with find_unique_and [of ncs_node_id _ "node_id n" r "\<lambda>q. ncs_tenant_id q = node_tenant_id n"] inv assms(4) tenant
  show ?thesis by (simp add: control_inv_def control_row_def)
qed

definition sample_node :: "uuid \<Rightarrow> string \<Rightarrow> string \<Rightarrow> node_row" where
  "sample_node i pk status = \<lparr>node_id = i, node_public_key = pk, node_machine_id = ''m1'', node_tenant_id = ''t1'',
     node_endpoint = '''', node_private_ip = '''', node_public_ip = '''', node_region = '''', node_vpc_id = '''',
     node_hostname = ''h1'', node_assigned_ip = '''', node_ip_offset = 1, node_last_seen = 0, node_registered_at = 0,
     node_role = ''spoke'', node_runtime_mode = None, node_kernel_version = None, node_has_aesni = None,
     node_status = Some status, node_offline_since = None, node_advertised_routes = [],
     node_enrolled_with_token = None, node_runtime_token_version = Some 2, node_created_at = 0, node_updated_at = 0\<rparr>"

definition sample_control_db :: "string \<Rightarrow> string \<Rightarrow> db" where
  "sample_control_db desired command = \<lparr>db_now = 50, go_now = 60, faults = [], uuid_of = itoa_nat, uuid_ctr = 0,
     tab = empty_tables\<lparr>
       nodes := [sample_node ''n1'' ''pk1'' ''online''],
       agent_commands := [\<lparr>cmd_id = ''c1'', cmd_node_public_key = ''pk1'', cmd_command = command,
         cmd_params = [(''desired_state_version'', VString ''v2'')], cmd_status = ''sent'', cmd_message = None,
         cmd_priority = 0, cmd_timeout_seconds = 30, cmd_result = [], cmd_sent_at = Some 10,
         cmd_acknowledged_at = None, cmd_completed_at = None, cmd_created_at = 1, cmd_updated_at = 10,
         cmd_deadline_at = Some 90\<rparr>],
       node_control_states := [(new_control_state ''t1'' ''n1'' 0)\<lparr>ncs_desired_version := Some desired,
         ncs_applied_version := Some ''v1''\<rparr>]\<rparr>\<rparr>"

lemmas control_eval = sample_control_db_def sample_node_def new_control_state_def control_inv_def
  control_row_def command_node_def syncNodeControlStateForCommandTx_def reportNodeControlState_def
  report_sql_def upsert_control_state_def report_row_def report_merge_def GetNodeControlState_def
  command_report_def stringValue_def

text \<open>
  A \<^verbatim>\<open>sync\<close> command that completes converges its node: when the command carries the version
  the node is wanted to have and the agent reports neither another version nor an error, the
  state read afterwards has that version applied and \<^verbatim>\<open>GetConvergenceStatus\<close> of an online
  node is \<^verbatim>\<open>converged\<close>, an error of an earlier attempt included.
\<close>

theorem completed_sync_converges:
  assumes "syncNodeControlStateForCommandTx commandID ''completed'' message result s = (Inr (), t)"
    and "command_node commandID (tab s) = Some (c, n)" and "cmd_command c = ''sync''"
    and "control_inv (tab s)"
    and "control_row (node_id n) (tab s) = Some r" and "ncs_desired_version r = Some v"
    and "map_of (cmd_params c) ''desired_state_version'' = Some (VString v)"
    and "TrimSpace v = v" and "v \<noteq> ''''"
    and "string_at result ''desired_state_version'' = ''''"
    and "string_at result ''applied_state_version'' = ''''"
    and "TrimSpace (string_at result ''observed_state'') \<noteq> ''error''"
    and "GetNodeControlState (node_tenant_id n) (node_id n) t = (Inr st, u)"
  shows "\<exists>x. st = Some x \<and> st_AppliedStateVersion x = v \<and> GetConvergenceStatus x True = StatusConverged"
proof (rule sync_row [OF assms(1,2)])
  fix rp
  assume rp: "rp = command_report (cmd_command c) (cmd_params c) ''completed'' message result (go_now s)"
    and row: "control_row (node_id n) (tab t) = Some (case control_row (node_id n) (tab s) of
        None \<Rightarrow> report_row (node_tenant_id n) (node_id n) rp (db_now s)
      | Some r \<Rightarrow> report_merge (report_row (node_tenant_id n) (node_id n) rp (db_now s)) (db_now s) r)"
  have rp': "rp_AppliedStateVersion rp = v" "rp_LastSyncError rp = ''''" "rp_LastSyncAt rp = Some (go_now s)"
    using assms(3,7-12) by (simp_all add: rp command_report_def Let_def stringValue_def)
  have "st = Some (scanNodeControlState
      (report_merge (report_row (node_tenant_id n) (node_id n) rp (db_now s)) (db_now s) r))"
    by (rule sync_GetNodeControlState [OF assms(1,2,4) _ assms(13)]) (simp add: row assms(5))
  then show ?thesis
    using assms(6,9) rp' by (simp add: GetConvergenceStatus_def scanNodeControlState_def report_merge_def
        report_row_def coalesce_def nullif_empty_def)
qed

theorem completed_sync_converges_witness:
  "\<exists>x t. syncNodeControlStateForCommandTx ''c1'' ''completed'' ''ok'' [] (sample_control_db ''v2'' ''sync'') = (Inr (), t) \<and>
     fst (GetNodeControlState ''t1'' ''n1'' t) = Inr (Some x) \<and> GetConvergenceStatus x True = StatusConverged"
proof -
  let ?s = "sample_control_db ''v2'' ''sync''"
  let ?run = "syncNodeControlStateForCommandTx ''c1'' ''completed'' ''ok'' [] ?s"
  let ?c = "hd (agent_commands (tab ?s))" and ?n = "hd (nodes (tab ?s))"
  have "\<not> isl (fst ?run)" by (simp add: control_eval eval_defs cong: eval_congs)
  then have run: "?run = (Inr (), snd ?run)" by (auto elim: run_succeeds)
  have "\<not> isl (fst (GetNodeControlState ''t1'' ''n1'' (snd ?run)))"
    by (simp add: control_eval eval_defs cong: eval_congs)
  then obtain st u where get: "GetNodeControlState ''t1'' ''n1'' (snd ?run) = (Inr st, u)"
    by (rule run_succeeds)
  have trim: "TrimSpace ''v2'' = ''v2''" by code_simp
  have "\<exists>x. st = Some x \<and> st_AppliedStateVersion x = ''v2'' \<and> GetConvergenceStatus x True = StatusConverged"
    by (rule completed_sync_converges [OF run, of ?c ?n "hd (node_control_states (tab ?s))"])
      (use get in \<open>simp_all add: sample_control_db_def sample_node_def new_control_state_def control_inv_def
         control_row_def command_node_def string_at_def empty_tables_def trim\<close>)
  with run get show ?thesis by (intro exI [of _ "the st"] exI [of _ "snd ?run"]) auto
qed

text \<open>
  A command that fails with a message diverges its node: whatever the agent reports in the
  result, \<^verbatim>\<open>GetConvergenceStatus\<close> of the online node is then \<^verbatim>\<open>diverged\<close>.
\<close>

theorem failed_command_diverges:
  assumes "syncNodeControlStateForCommandTx commandID ''failed'' message result s = (Inr (), t)"
    and "command_node commandID (tab s) = Some (c, n)"
    and "control_inv (tab s)" and "TrimSpace message \<noteq> ''''"
    and "GetNodeControlState (node_tenant_id n) (node_id n) t = (Inr st, u)"
  shows "\<exists>x. st = Some x \<and> GetConvergenceStatus x True = StatusDiverged"
proof (rule sync_row [OF assms(1,2)])
  fix rp
  assume rp: "rp = command_report (cmd_command c) (cmd_params c) ''failed'' message result (go_now s)"
    and row: "control_row (node_id n) (tab t) = Some (case control_row (node_id n) (tab s) of
        None \<Rightarrow> report_row (node_tenant_id n) (node_id n) rp (db_now s)
      | Some r \<Rightarrow> report_merge (report_row (node_tenant_id n) (node_id n) rp (db_now s)) (db_now s) r)"
  have rp': "rp_LastSyncError rp \<noteq> ''''" "rp_LastSyncAt rp = Some (go_now s)"
    using assms(4) by (simp_all add: rp command_report_def Let_def)
  show ?thesis
    using sync_GetNodeControlState [OF assms(1-3) row assms(5)] rp'
    by (cases "control_row (node_id n) (tab s)")
       (simp_all add: GetConvergenceStatus_def scanNodeControlState_def report_merge_def
          report_row_def coalesce_def nullif_empty_def)
qed

theorem failed_command_diverges_witness:
  "\<exists>x t. syncNodeControlStateForCommandTx ''c1'' ''failed'' ''boom'' [] (sample_control_db ''v2'' ''sync'') = (Inr (), t) \<and>
     fst (GetNodeControlState ''t1'' ''n1'' t) = Inr (Some x) \<and> GetConvergenceStatus x True = StatusDiverged"
proof -
  let ?s = "sample_control_db ''v2'' ''sync''"
  let ?run = "syncNodeControlStateForCommandTx ''c1'' ''failed'' ''boom'' [] ?s"
  let ?c = "hd (agent_commands (tab ?s))" and ?n = "hd (nodes (tab ?s))"
  have "\<not> isl (fst ?run)" by (simp add: control_eval eval_defs cong: eval_congs)
  then have run: "?run = (Inr (), snd ?run)" by (auto elim: run_succeeds)
  have "\<not> isl (fst (GetNodeControlState ''t1'' ''n1'' (snd ?run)))"
    by (simp add: control_eval eval_defs cong: eval_congs)
  then obtain st u where get: "GetNodeControlState ''t1'' ''n1'' (snd ?run) = (Inr st, u)"
    by (rule run_succeeds)
  have trim: "TrimSpace ''boom'' = ''boom''" by code_simp
  have "\<exists>x. st = Some x \<and> GetConvergenceStatus x True = StatusDiverged"
    by (rule failed_command_diverges [OF run, of ?c ?n])
      (use get in \<open>simp_all add: sample_control_db_def sample_node_def new_control_state_def control_inv_def
         control_row_def command_node_def string_at_def empty_tables_def trim\<close>)
  with run get show ?thesis by (intro exI [of _ "the st"] exI [of _ "snd ?run"]) auto
qed

text \<open>
  A report never touches the desired side: the row of every node keeps the desired version,
  its metadata and time; only the row of the reporting node changes, and its applied version
  only to a version the report names.
\<close>

theorem report_keeps_desired:
  assumes "reportNodeControlState tenant node rp s = (res, t)" and "control_row k (tab s) = Some r"
  shows "\<exists>r'. control_row k (tab t) = Some r' \<and> ncs_desired_version r' = ncs_desired_version r \<and>
     ncs_desired_metadata r' = ncs_desired_metadata r \<and> ncs_desired_updated_at r' = ncs_desired_updated_at r \<and>
     (k \<noteq> node \<longrightarrow> r' = r) \<and>
     (ncs_applied_version r' = ncs_applied_version r \<or>
      ncs_applied_version r' = Some (rp_AppliedStateVersion rp) \<and> rp_AppliedStateVersion rp \<noteq> '''')"
proof (cases "tab t = tab s")
  case True
  with assms(2) show ?thesis by auto
next
  case False
  let ?ex = "report_row tenant node rp (db_now s)"
  from assms(1) False obtain x where "write_op (report_sql tenant node rp) s = (Inr x, t)"
    by (auto simp: reportNodeControlState_def bnd_def ret_def write_op_def throw_def
        split: prod.splits sum.splits option.splits elim!: modify_cases)
  then have up: "upsert_control_state ?ex (report_merge ?ex (db_now s)) (tab s) = (tab t, x)"
    by (auto dest!: write_InrD simp: report_sql_def split: if_splits)
  have row: "control_row k (tab t) = (if k = node then Some x else control_row k (tab s))"
    using control_row_upsert [OF up] by simp
  show ?thesis
  proof (cases "k = node")
    case True
    with assms(2) up have "x = report_merge ?ex (db_now s) r"
      by (auto simp: upsert_control_state_def control_row_def)
    with row True show ?thesis
      by (auto simp: report_merge_def report_row_def nullif_empty_def)
  next
    case False
    with row assms(2) show ?thesis by simp
  qed
qed

theorem report_keeps_desired_witness:
  "\<exists>r'. control_row ''n1'' (tab (snd (reportNodeControlState ''t1'' ''n1'' \<lparr>rp_AppliedStateVersion = ''v2'',
       rp_ObservedState = ''applied'', rp_ObservedMessage = '''', rp_LastSyncAt = None, rp_LastSyncError = ''''\<rparr>
       (sample_control_db ''v3'' ''sync'')))) = Some r' \<and> ncs_desired_version r' = Some ''v3''"
proof -
  let ?s = "sample_control_db ''v3'' ''sync''"
  have row: "control_row ''n1'' (tab ?s) = Some (hd (node_control_states (tab ?s)))"
    "ncs_desired_version (hd (node_control_states (tab ?s))) = Some ''v3''"
    by (simp_all add: sample_control_db_def sample_node_def control_row_def new_control_state_def)
  show ?thesis
    by (rule exE [OF report_keeps_desired [OF prod.collapse [symmetric] row(1), of "''t1''" "''n1''"
          "\<lparr>rp_AppliedStateVersion = ''v2'', rp_ObservedState = ''applied'', rp_ObservedMessage = '''',
            rp_LastSyncAt = None, rp_LastSyncError = ''''\<rparr>"]]) (use row(2) in auto)
qed

text \<open>
  A report without an observed state is always refused, for a node that has a row too: the
  statement proposes \<^verbatim>\<open>NULL\<close> for a \<^verbatim>\<open>NOT NULL\<close> column. The branch of the statement that keeps
  the earlier observed state is never reached.
\<close>

theorem empty_observed_state_refused:
  "\<exists>u. reportNodeControlState tenant node (rp\<lparr>rp_ObservedState := ''''\<rparr>) s = (Inl DBError, u) \<and> tab u = tab s"
proof -
  obtain r u where run: "write_op (report_sql tenant node (rp\<lparr>rp_ObservedState := ''''\<rparr>)) s = (r, u)"
    by fastforce
  have "r = Inl DBError" "tab u = tab s"
    using run by (auto simp: write_op_def report_sql_def nullif_empty_def bnd_def throw_def
        split: prod.splits sum.splits elim!: modify_cases)
  with run show ?thesis by (simp add: reportNodeControlState_def bnd_def)
qed

end
