(* ===== verification/Agent_Commands.thy ===== *)
theory Agent_Commands
  imports Alerts Control_State
begin

text \<open>
  \<^verbatim>\<open>pkg/controllerstorage/agent_commands.go\<close>: the queue of commands of a node. A command is
  \<^verbatim>\<open>pending\<close> until it is handed to the agent (\<^verbatim>\<open>sent\<close>), the agent acknowledges it and reports
  its result (\<^verbatim>\<open>completed\<close>, \<^verbatim>\<open>failed\<close>), or a newer policy supersedes it (\<^verbatim>\<open>stale\<close>). A sent
  command that misses its deadline goes back to \<^verbatim>\<open>pending\<close>.
\<close>

section \<open>Data\<close>

abbreviation "AgentCommandStatusPending \<equiv> ''pending''"
abbreviation "AgentCommandStatusSent \<equiv> ''sent''"
abbreviation "AgentCommandStatusAcknowledged \<equiv> ''acknowledged''"
abbreviation "AgentCommandStatusCompleted \<equiv> ''completed''"
abbreviation "AgentCommandStatusFailed \<equiv> ''failed''"
abbreviation "AgentCommandStatusStale \<equiv> ''stale''"

record AgentCommand =
  ac_ID :: uuid
  ac_NodePublicKey :: string
  ac_Command :: string
  ac_RawParams :: params
  ac_Params :: string_map
  ac_Status :: string
  ac_Message :: string
  ac_Priority :: int
  ac_TimeoutSeconds :: int
  ac_CreatedAt :: time
  ac_UpdatedAt :: time
  ac_SentAt :: "time option"
  ac_AcknowledgedAt :: "time option"
  ac_CompletedAt :: "time option"
  ac_Result :: string_map

definition allowedAgentCommands :: "string list" where
  "allowedAgentCommands = [''sync'', ''health_check'', ''config_reload'']"

definition IsAllowedAgentCommand :: "string \<Rightarrow> bool" where
  "IsAllowedAgentCommand command \<longleftrightarrow> TrimSpace command \<in> set allowedAgentCommands"

fun stringify_value :: "value \<Rightarrow> string" where
  "stringify_value VNil = ''''"
| "stringify_value (VString v) = v"
| "stringify_value (VBool v) = (if v then ''true'' else ''false'')"
| "stringify_value (VOther json) = (case json of None \<Rightarrow> '''' | Some bytes \<Rightarrow> bytes)"

definition stringifyCommandParams :: "params \<Rightarrow> string_map" where
  "stringifyCommandParams params = map (\<lambda>(key, v). (key, stringify_value v)) params"

definition scanAgentCommandRow :: "command_row \<Rightarrow> AgentCommand" where
  "scanAgentCommandRow r = \<lparr>ac_ID = cmd_id r, ac_NodePublicKey = cmd_node_public_key r,
     ac_Command = cmd_command r, ac_RawParams = cmd_params r,
     ac_Params = stringifyCommandParams (cmd_params r), ac_Status = cmd_status r,
     ac_Message = coalesce (cmd_message r) '''', ac_Priority = cmd_priority r,
     ac_TimeoutSeconds = cmd_timeout_seconds r, ac_CreatedAt = cmd_created_at r,
     ac_UpdatedAt = cmd_updated_at r, ac_SentAt = cmd_sent_at r,
     ac_AcknowledgedAt = cmd_acknowledged_at r, ac_CompletedAt = cmd_completed_at r,
     ac_Result = cmd_result r\<rparr>"

section \<open>Queueing\<close>

definition insert_command_sql ::
    "string \<Rightarrow> params \<Rightarrow> int \<Rightarrow> int \<Rightarrow> string \<Rightarrow> uuid \<Rightarrow> time \<Rightarrow> tables \<Rightarrow> (tables \<times> command_row) option" where
  "insert_command_sql command params priority timeout pk i now t =
     (if \<exists>r \<in> set (agent_commands t). cmd_id r = i then None
      else let row = \<lparr>cmd_id = i, cmd_node_public_key = pk, cmd_command = command, cmd_params = params,
             cmd_status = AgentCommandStatusPending, cmd_message = None, cmd_priority = priority,
             cmd_timeout_seconds = timeout, cmd_result = [], cmd_sent_at = None,
             cmd_acknowledged_at = None, cmd_completed_at = None, cmd_created_at = now,
             cmd_updated_at = now, cmd_deadline_at = Some (now + secs timeout)\<rparr>
           in Some (t\<lparr>agent_commands := agent_commands t @ [row]\<rparr>, row))"

text \<open>The checks the two queueing functions share, in their order.\<close>

definition check_command :: "string \<Rightarrow> params \<Rightarrow> unit op" where
  "check_command command params =
     (if command = '''' then throw (ErrMsg ''command is required'')
      else if \<not> IsAllowedAgentCommand command then throw (ErrMsg (''unsupported agent command: '' @ command))
      else if \<not> marshal_ok params then throw (ErrMsg ''json'')
      else ret ())"

definition default_timeout :: "int \<Rightarrow> int" where
  "default_timeout timeout = (if timeout \<le> 0 then 30 else timeout)"

definition queueAgentCommand :: "string \<Rightarrow> string \<Rightarrow> params \<Rightarrow> int \<Rightarrow> int \<Rightarrow> AgentCommand op" where
  "queueAgentCommand pk command params priority timeout =
     (if pk = '''' then throw (ErrMsg ''node public key is required'')
      else let command = TrimSpace command in
        bnd (check_command command params) (\<lambda>_.
        bnd (insert_op (insert_command_sql command params priority (default_timeout timeout) pk)) (\<lambda>r.
        ret (scanAgentCommandRow r))))"

definition QueueAgentCommand :: "string \<Rightarrow> string \<Rightarrow> params \<Rightarrow> int \<Rightarrow> int \<Rightarrow> AgentCommand op" where
  "QueueAgentCommand = queueAgentCommand"

text \<open>
  Several targets in one statement. \<^verbatim>\<open>byNode\<close> keeps the last command returned for a public key;
  the result follows the order of the targets.
\<close>

definition command_by_node :: "AgentCommand list \<Rightarrow> string \<Rightarrow> AgentCommand option" where
  "command_by_node cmds pk = find (\<lambda>c. ac_NodePublicKey c = pk) (rev cmds)"

fun collect_commands :: "AgentCommand list \<Rightarrow> string list \<Rightarrow> err + AgentCommand list" where
  "collect_commands cmds [] = Inr []"
| "collect_commands cmds (pk # pks) =
     (case command_by_node cmds pk of
        None \<Rightarrow> Inl (ErrMsg (''queued agent command missing for node '' @ pk))
      | Some c \<Rightarrow> (case collect_commands cmds pks of Inl e \<Rightarrow> Inl e | Inr cs \<Rightarrow> Inr (c # cs)))"

definition QueueAgentCommands :: "string list \<Rightarrow> string \<Rightarrow> params \<Rightarrow> int \<Rightarrow> int \<Rightarrow> AgentCommand list op" where
  "QueueAgentCommands targets command params priority timeout =
     (if targets = [] then ret []
      else let command = TrimSpace command in
        bnd (check_command command params) (\<lambda>_.
        if list_ex (\<lambda>pk. pk = '''') targets then throw (ErrMsg ''node public key is required'')
        else
          bnd (insert_many_op (insert_command_sql command params priority (default_timeout timeout)) targets) (\<lambda>rows.
          bnd (check_op (map scanAgentCommandRow rows)) (\<lambda>cmds.
          case collect_commands cmds targets of Inl e \<Rightarrow> throw e | Inr cs \<Rightarrow> ret cs))))"

section \<open>Delivery\<close>

definition timed_out_sent :: "string \<Rightarrow> time \<Rightarrow> command_row \<Rightarrow> bool" where
  "timed_out_sent pk now r \<longleftrightarrow> cmd_node_public_key r = pk \<and> cmd_status r = AgentCommandStatusSent \<and>
     (case cmd_deadline_at r of None \<Rightarrow> False | Some d \<Rightarrow> d < now)"

definition requeue_row :: "time \<Rightarrow> command_row \<Rightarrow> command_row" where
  "requeue_row now r = r\<lparr>cmd_status := AgentCommandStatusPending,
     cmd_message := Some ''command delivery timed out; requeued'', cmd_sent_at := None, cmd_updated_at := now\<rparr>"

definition requeue_timed_out_sql :: "string \<Rightarrow> time \<Rightarrow> tables \<Rightarrow> tables \<times> unit" where
  "requeue_timed_out_sql pk now t =
     (t\<lparr>agent_commands := update_where (timed_out_sent pk now) (requeue_row now) (agent_commands t)\<rparr>, ())"

text \<open>
  \<^verbatim>\<open>ORDER BY priority DESC, created_at ASC LIMIT 1 FOR UPDATE SKIP LOCKED\<close>: \<open>locked\<close> are the
  rows that another transaction holds.
\<close>

definition deliverable :: "(uuid \<Rightarrow> bool) \<Rightarrow> string \<Rightarrow> command_row \<Rightarrow> bool" where
  "deliverable locked pk r \<longleftrightarrow>
     cmd_node_public_key r = pk \<and> cmd_status r = AgentCommandStatusPending \<and> \<not> locked (cmd_id r)"

definition next_pending :: "(uuid \<Rightarrow> bool) \<Rightarrow> string \<Rightarrow> tables \<Rightarrow> command_row option" where
  "next_pending locked pk t =
     (case sort_key (\<lambda>r. - cmd_priority r) (sort_key cmd_created_at (filter (deliverable locked pk) (agent_commands t))) of
        [] \<Rightarrow> None | r # _ \<Rightarrow> Some r)"

definition sent_row :: "time \<Rightarrow> command_row \<Rightarrow> command_row" where
  "sent_row now r = r\<lparr>cmd_status := AgentCommandStatusSent, cmd_sent_at := Some now,
     cmd_deadline_at := Some (now + secs (cmd_timeout_seconds r)), cmd_updated_at := now\<rparr>"

definition mark_sent_sql :: "uuid \<Rightarrow> time \<Rightarrow> time \<Rightarrow> tables \<Rightarrow> tables \<times> unit" where
  "mark_sent_sql i now _ t =
     (t\<lparr>agent_commands := update_where (\<lambda>r. cmd_id r = i) (sent_row now) (agent_commands t)\<rparr>, ())"

definition GetNextPendingAgentCommand :: "(uuid \<Rightarrow> bool) \<Rightarrow> string \<Rightarrow> AgentCommand option op" where
  "GetNextPendingAgentCommand locked pk = transaction (
     bnd (modify_op (requeue_timed_out_sql pk)) (\<lambda>_.
     bnd (select_op (\<lambda>_ t. next_pending locked pk t)) (\<lambda>r. case r of
         None \<Rightarrow> ret (TxReturn None)
       | Some r \<Rightarrow>
           bnd time_Now (\<lambda>now.
           bnd (modify_op (mark_sent_sql (cmd_id r) now)) (\<lambda>_.
           ret (TxCommit (Some ((scanAgentCommandRow r)\<lparr>ac_Status := AgentCommandStatusSent,
             ac_SentAt := Some now, ac_UpdatedAt := now\<rparr>))))))))"

definition requeue_sent_sql :: "uuid \<Rightarrow> string \<Rightarrow> string \<Rightarrow> time \<Rightarrow> tables \<Rightarrow> tables \<times> nat" where
  "requeue_sent_sql i pk message now t =
     (let guard = (\<lambda>r. cmd_id r = i \<and> cmd_node_public_key r = pk \<and> cmd_status r = AgentCommandStatusSent) in
      (t\<lparr>agent_commands := update_where guard (\<lambda>r. r\<lparr>cmd_status := AgentCommandStatusPending,
           cmd_message := Some message, cmd_sent_at := None,
           cmd_deadline_at := Some (now + secs (cmd_timeout_seconds r)), cmd_updated_at := now\<rparr>) (agent_commands t)\<rparr>,
       affected guard (agent_commands t)))"

definition RequeueSentAgentCommand :: "uuid \<Rightarrow> string \<Rightarrow> string \<Rightarrow> unit op" where
  "RequeueSentAgentCommand commandID pk message =
     (if commandID = '''' then throw (ErrMsg ''command id is required'')
      else if pk = '''' then throw (ErrMsg ''node public key is required'')
      else let message = (if message = '''' then ''command delivery failed; requeued'' else message) in
        bnd (modify_op (requeue_sent_sql commandID pk message)) (\<lambda>n.
        bnd (check_op n) (\<lambda>n.
        if n = 0 then throw (ErrMsg (''sent agent command '' @ commandID @ '' was not requeued for node '' @ pk))
        else ret ())))"

section \<open>Failing open commands\<close>

definition open_status :: "string \<Rightarrow> bool" where
  "open_status st \<longleftrightarrow> st = AgentCommandStatusPending \<or> st = AgentCommandStatusSent \<or>
     st = AgentCommandStatusAcknowledged"

definition fail_row :: "string \<Rightarrow> time \<Rightarrow> command_row \<Rightarrow> command_row" where
  "fail_row message now r = r\<lparr>cmd_status := AgentCommandStatusFailed, cmd_message := Some message,
     cmd_updated_at := now, cmd_completed_at := Some now\<rparr>"

definition fail_delivery_row :: "string \<Rightarrow> time \<Rightarrow> delivery_row \<Rightarrow> delivery_row" where
  "fail_delivery_row message now d = d\<lparr>pd_command_status := AgentCommandStatusFailed,
     pd_last_error := Some message, pd_updated_at := now, pd_completed_at := Some now\<rparr>"

text \<open>The two statements of each function: the deliveries of the selected commands, then the commands.\<close>

definition fail_deliveries_sql :: "(time \<Rightarrow> command_row \<Rightarrow> bool) \<Rightarrow> string \<Rightarrow> time \<Rightarrow> tables \<Rightarrow> tables \<times> unit" where
  "fail_deliveries_sql sel message now t =
     (t\<lparr>policy_deliveries := update_where
          (\<lambda>d. pd_command_id d \<in> set (map cmd_id (filter (sel now) (agent_commands t))))
          (fail_delivery_row message now) (policy_deliveries t)\<rparr>, ())"

definition fail_commands_sql :: "(time \<Rightarrow> command_row \<Rightarrow> bool) \<Rightarrow> string \<Rightarrow> time \<Rightarrow> tables \<Rightarrow> tables \<times> nat" where
  "fail_commands_sql sel message now t =
     (t\<lparr>agent_commands := update_where (sel now) (fail_row message now) (agent_commands t)\<rparr>,
      affected (sel now) (agent_commands t))"

definition incomplete_of :: "string \<Rightarrow> time \<Rightarrow> command_row \<Rightarrow> bool" where
  "incomplete_of pk now r \<longleftrightarrow> cmd_node_public_key r = pk \<and> open_status (cmd_status r)"

definition timed_out_of :: "string \<Rightarrow> time \<Rightarrow> command_row \<Rightarrow> bool" where
  "timed_out_of pk now r \<longleftrightarrow> incomplete_of pk now r \<and>
     (case cmd_deadline_at r of None \<Rightarrow> False | Some d \<Rightarrow> d < now)"

definition failTimedOutAgentCommandsForNodeTx :: "string \<Rightarrow> nat op" where
  "failTimedOutAgentCommandsForNodeTx pk =
     (if pk = '''' then throw (ErrMsg ''node public key is required'')
      else let message = ''command timed out waiting for agent result'' in
        bnd (modify_op (fail_deliveries_sql (timed_out_of pk) message)) (\<lambda>_.
        bnd (modify_op (fail_commands_sql (timed_out_of pk) message)) (\<lambda>n.
        check_op n)))"

definition failIncompleteAgentCommandsForNodeTx :: "string \<Rightarrow> string \<Rightarrow> unit op" where
  "failIncompleteAgentCommandsForNodeTx pk message =
     (if pk = '''' then throw (ErrMsg ''node public key is required'')
      else let message = (if message = '''' then ''node is no longer active'' else message) in
        bnd (modify_op (fail_deliveries_sql (incomplete_of pk) message)) (\<lambda>_.
        bnd (modify_op (fail_commands_sql (incomplete_of pk) message)) (\<lambda>_.
        ret ())))"

definition FailIncompleteAgentCommandsForNode :: "string \<Rightarrow> string \<Rightarrow> unit op" where
  "FailIncompleteAgentCommandsForNode pk message =
     transaction (bnd (failIncompleteAgentCommandsForNodeTx pk message) (\<lambda>x. ret (TxCommit x)))"

definition FailTimedOutAgentCommandsForNode :: "string \<Rightarrow> nat op" where
  "FailTimedOutAgentCommandsForNode pk =
     transaction (bnd (failTimedOutAgentCommandsForNodeTx pk) (\<lambda>n. ret (TxCommit n)))"

section \<open>Reporting\<close>

definition isAgentCommandReportStatus :: "string \<Rightarrow> bool" where
  "isAgentCommandReportStatus status \<longleftrightarrow>
     status = AgentCommandStatusSent \<or> status = AgentCommandStatusAcknowledged \<or>
     status = AgentCommandStatusCompleted \<or> status = AgentCommandStatusFailed"

definition validateAgentCommandStatusTransition :: "string \<Rightarrow> string \<Rightarrow> err option" where
  "validateAgentCommandStatusTransition current next =
     (let invalid = Some (ErrMsg (''invalid agent command status transition: '' @ current @ '' -> '' @ next)) in
      if current = AgentCommandStatusCompleted \<or> current = AgentCommandStatusFailed
        then Some (ErrMsg (''terminal agent command status '' @ current @ '' cannot transition to '' @ next))
      else if current = AgentCommandStatusPending then
        (if next = AgentCommandStatusSent \<or> next = AgentCommandStatusFailed then None else invalid)
      else if current = AgentCommandStatusSent then
        (if next = AgentCommandStatusAcknowledged \<or> next = AgentCommandStatusCompleted \<or>
            next = AgentCommandStatusFailed then None else invalid)
      else if current = AgentCommandStatusAcknowledged then
        (if next = AgentCommandStatusCompleted \<or> next = AgentCommandStatusFailed then None else invalid)
      else if current = AgentCommandStatusStale then None
      else Some (ErrMsg (''unsupported current agent command status: '' @ current)))"

definition command_of :: "uuid \<Rightarrow> string \<Rightarrow> command_row \<Rightarrow> bool" where
  "command_of i pk r \<longleftrightarrow> cmd_id r = i \<and> (pk \<noteq> '''' \<longrightarrow> cmd_node_public_key r = pk)"

definition currentAgentCommandStatusTx :: "uuid \<Rightarrow> string \<Rightarrow> string op" where
  "currentAgentCommandStatusTx i pk =
     bnd (select_op (\<lambda>_ t. find (command_of i pk) (agent_commands t)))
         (\<lambda>r. case r of None \<Rightarrow> throw ErrNoRows | Some r \<Rightarrow> ret (cmd_status r))"

definition lockAgentCommandStatusTx :: "uuid \<Rightarrow> string \<Rightarrow> string op" where
  "lockAgentCommandStatusTx = currentAgentCommandStatusTx"

definition status_row :: "string \<Rightarrow> string \<Rightarrow> string_map \<Rightarrow> time \<Rightarrow> command_row \<Rightarrow> command_row" where
  "status_row status message result now r = r\<lparr>cmd_status := status, cmd_message := Some message,
     cmd_result := result, cmd_updated_at := now,
     cmd_acknowledged_at := (if status = ''acknowledged'' \<and> cmd_acknowledged_at r = None
       then Some now else cmd_acknowledged_at r),
     cmd_completed_at := (if status = ''completed'' \<or> status = ''failed'' then Some now else cmd_completed_at r),
     cmd_deadline_at := (if status = ''sent'' \<or> status = ''acknowledged''
       then Some (now + secs (cmd_timeout_seconds r)) else cmd_deadline_at r)\<rparr>"

definition update_status_sql ::
    "uuid \<Rightarrow> string \<Rightarrow> string \<Rightarrow> string \<Rightarrow> string_map \<Rightarrow> time \<Rightarrow> tables \<Rightarrow> tables \<times> nat" where
  "update_status_sql i pk status message result now t =
     (let guard = (\<lambda>r. command_of i pk r \<and> cmd_status r \<noteq> ''stale'') in
      (t\<lparr>agent_commands := update_where guard (status_row status message result now) (agent_commands t)\<rparr>,
       affected guard (agent_commands t)))"

definition status_delivery_row :: "string \<Rightarrow> string \<Rightarrow> time \<Rightarrow> delivery_row \<Rightarrow> delivery_row" where
  "status_delivery_row status message now d = d\<lparr>pd_command_status := status,
     pd_last_error := (if status = ''failed'' then Some message
       else if status = ''completed'' then Some '''' else pd_last_error d),
     pd_updated_at := now,
     pd_completed_at := (if status = ''completed'' \<or> status = ''failed'' then Some now else pd_completed_at d)\<rparr>"

definition update_deliveries_sql :: "uuid \<Rightarrow> string \<Rightarrow> string \<Rightarrow> time \<Rightarrow> tables \<Rightarrow> tables \<times> unit" where
  "update_deliveries_sql i status message now t =
     (t\<lparr>policy_deliveries := update_where (\<lambda>d. pd_command_id d = i) (status_delivery_row status message now)
          (policy_deliveries t)\<rparr>, ())"

text \<open>
  Alerts and audit events after the commit. Their errors are logged and dropped; a delivery row
  that cannot be read is skipped.
\<close>

definition delivery_events :: "uuid \<Rightarrow> string \<Rightarrow> string \<Rightarrow> uuid \<Rightarrow> uuid \<Rightarrow> string \<times> string \<Rightarrow> unit op" where
  "delivery_events commandID status errorMsg tenant node = (\<lambda>(domain, ref).
     bnd (attempt (check_op ())) (\<lambda>ok. case ok of
         Inl _ \<Rightarrow> ret ()
       | Inr _ \<Rightarrow>
         if status = AgentCommandStatusFailed then
           bnd (attempt (GeneratePolicyFailedAlert tenant node domain ref commandID errorMsg)) (\<lambda>_.
           bnd (attempt (CreateAuditEvent (system_event tenant node ''policy_failed''
                  (msg_policy_failed_of @ domain @ ''/'' @ ref)
                  [(''command_id'', VString commandID), (''policy_domain'', VString domain),
                   (''policy_ref'', VString ref), (''error'', VString errorMsg)]))) (\<lambda>_. ret ()))
         else if status = AgentCommandStatusCompleted then
           bnd (attempt (CreateAuditEvent (system_event tenant node ''policy_delivered''
                  (msg_policy_delivered_of @ domain @ ''/'' @ ref)
                  [(''command_id'', VString commandID), (''policy_domain'', VString domain),
                   (''policy_ref'', VString ref)]))) (\<lambda>_. ret ())
         else ret ()))"

definition emitPolicyDeliveryAlertAndAudit :: "uuid \<Rightarrow> string \<Rightarrow> string \<Rightarrow> uuid \<Rightarrow> uuid \<Rightarrow> unit op" where
  "emitPolicyDeliveryAlertAndAudit commandID status errorMsg tenant node =
     bnd (attempt (select_op (\<lambda>_ t. map (\<lambda>d. (pd_policy_domain d, pd_policy_ref d))
            (filter (\<lambda>d. pd_command_id d = commandID) (policy_deliveries t))))) (\<lambda>r. case r of
         Inl _ \<Rightarrow> ret ()
       | Inr rows \<Rightarrow> for_each (delivery_events commandID status errorMsg tenant node) rows)"

definition emitCommandAlertAndAudit :: "uuid \<Rightarrow> string \<Rightarrow> string \<Rightarrow> unit op" where
  "emitCommandAlertAndAudit commandID status errorMsg =
     bnd (attempt (select_op (\<lambda>_ t. command_node commandID t))) (\<lambda>r. case r of
         Inr (Some (c, n)) \<Rightarrow>
           let tenant = node_tenant_id n; node = node_id n in
           bnd (if status = AgentCommandStatusFailed then
                  bnd (attempt (GenerateSyncFailedAlert tenant node commandID errorMsg)) (\<lambda>_.
                  bnd (attempt (CreateAuditEvent (system_event tenant node ''command.result''
                         (msg_command_failed_of @ cmd_command c)
                         [(''command_id'', VString commandID), (''status'', VString status),
                          (''error'', VString errorMsg)]))) (\<lambda>_. ret ()))
                else if status = AgentCommandStatusCompleted then
                  bnd (attempt (CreateAuditEvent (system_event tenant node ''command.result''
                         (msg_command_succeeded_of @ cmd_command c)
                         [(''command_id'', VString commandID), (''status'', VString status)]))) (\<lambda>_. ret ())
                else ret ()) (\<lambda>_.
           emitPolicyDeliveryAlertAndAudit commandID status errorMsg tenant node)
       | _ \<Rightarrow> ret ())"

text \<open>
  The transaction of \<^verbatim>\<open>updateAgentCommandStatus\<close> gives \<open>True\<close> when it committed a change. An
  error of the locking \<^verbatim>\<open>SELECT\<close> is reported as a command of another node when the caller
  names its node.
\<close>

definition not_of_node :: "uuid \<Rightarrow> string \<Rightarrow> err" where
  "not_of_node commandID pk = ErrMsg (''agent command '' @ commandID @ '' does not belong to node '' @ pk)"

definition write_status_tx :: "uuid \<Rightarrow> string \<Rightarrow> string \<Rightarrow> string \<Rightarrow> string_map \<Rightarrow> bool tx op" where
  "write_status_tx commandID pk status message result =
     bnd (modify_op (update_status_sql commandID pk status message result)) (\<lambda>n.
     bnd (check_op n) (\<lambda>n.
     if n = 0 then
       bnd (attempt (currentAgentCommandStatusTx commandID pk)) (\<lambda>c.
       if c = Inr AgentCommandStatusStale then ret (TxReturn False)
       else if pk \<noteq> '''' then throw (not_of_node commandID pk)
       else case c of Inl e \<Rightarrow> throw e
            | Inr _ \<Rightarrow> throw (ErrMsg (''agent command '' @ commandID @ '' was not updated'')))
     else
       bnd (modify_op (update_deliveries_sql commandID status message)) (\<lambda>_.
       bnd (syncNodeControlStateForCommandTx commandID status message result) (\<lambda>_.
       ret (TxCommit True)))))"

definition update_status_tx :: "uuid \<Rightarrow> string \<Rightarrow> string \<Rightarrow> string \<Rightarrow> string_map \<Rightarrow> bool tx op" where
  "update_status_tx commandID pk status message result =
     bnd (attempt (lockAgentCommandStatusTx commandID pk)) (\<lambda>r. case r of
         Inl e \<Rightarrow> throw (if pk \<noteq> '''' then not_of_node commandID pk else e)
       | Inr current \<Rightarrow>
         if current = AgentCommandStatusStale \<or> current = status then ret (TxReturn False)
         else case validateAgentCommandStatusTransition current status of
             Some e \<Rightarrow> throw e
           | None \<Rightarrow> write_status_tx commandID pk status message result)"

definition updateAgentCommandStatus :: "uuid \<Rightarrow> string \<Rightarrow> string \<Rightarrow> string \<Rightarrow> string_map \<Rightarrow> unit op" where
  "updateAgentCommandStatus commandID pk status message result =
     (if commandID = '''' then throw (ErrMsg ''command id is required'')
      else let status = TrimSpace status in
        if status = '''' then throw (ErrMsg ''status is required'')
        else if \<not> isAgentCommandReportStatus status then throw (ErrMsg (''unsupported agent command status: '' @ status))
        else
          bnd (transaction (update_status_tx commandID pk status message result)) (\<lambda>committed.
          if committed \<and> (status = AgentCommandStatusCompleted \<or> status = AgentCommandStatusFailed)
          then emitCommandAlertAndAudit commandID status message
          else ret ()))"

definition UpdateAgentCommandStatus :: "uuid \<Rightarrow> string \<Rightarrow> string \<Rightarrow> string_map \<Rightarrow> unit op" where
  "UpdateAgentCommandStatus commandID status message result = updateAgentCommandStatus commandID '''' status message result"

definition UpdateAgentCommandStatusForNode :: "uuid \<Rightarrow> string \<Rightarrow> string \<Rightarrow> string \<Rightarrow> string_map \<Rightarrow> unit op" where
  "UpdateAgentCommandStatusForNode commandID pk status message result =
     (if pk = '''' then throw (ErrMsg ''node public key is required'')
      else updateAgentCommandStatus commandID pk status message result)"

section \<open>Queries\<close>

definition CountIncompleteAgentCommands :: "string \<Rightarrow> nat op" where
  "CountIncompleteAgentCommands pk =
     select_op (\<lambda>now t. length (filter (incomplete_of pk now) (agent_commands t)))"

definition recent_commands :: "string \<Rightarrow> tables \<Rightarrow> command_row list" where
  "recent_commands pk t =
     sort_key (\<lambda>r. - cmd_created_at r) (filter (\<lambda>r. cmd_node_public_key r = pk) (agent_commands t))"

definition GetLastAgentCommandID :: "string \<Rightarrow> uuid op" where
  "GetLastAgentCommandID pk =
     select_op (\<lambda>_ t. case recent_commands pk t of [] \<Rightarrow> '''' | r # _ \<Rightarrow> cmd_id r)"

definition GetLastAgentCommand :: "string \<Rightarrow> AgentCommand option op" where
  "GetLastAgentCommand pk =
     select_op (\<lambda>_ t. case recent_commands pk t of [] \<Rightarrow> None | r # _ \<Rightarrow> Some (scanAgentCommandRow r))"

definition ListRecentAgentCommands :: "string \<Rightarrow> int \<Rightarrow> AgentCommand list op" where
  "ListRecentAgentCommands pk limit =
     (let limit = (if limit \<le> 0 then 10 else limit) in
      bnd (select_op (\<lambda>_ t. map scanAgentCommandRow (take (nat limit) (recent_commands pk t)))) check_op)"

section \<open>The life of a command\<close>

definition terminal_status :: "string \<Rightarrow> bool" where
  "terminal_status st \<longleftrightarrow> st = AgentCommandStatusCompleted \<or> st = AgentCommandStatusFailed \<or>
     st = AgentCommandStatusStale"

inductive cmd_transition :: "string \<Rightarrow> string \<Rightarrow> bool" where
  deliver: "cmd_transition AgentCommandStatusPending AgentCommandStatusSent"
| requeue: "cmd_transition AgentCommandStatusSent AgentCommandStatusPending"
| acknowledge: "cmd_transition AgentCommandStatusSent AgentCommandStatusAcknowledged"
| complete_sent: "cmd_transition AgentCommandStatusSent AgentCommandStatusCompleted"
| complete: "cmd_transition AgentCommandStatusAcknowledged AgentCommandStatusCompleted"
| fail: "open_status st \<Longrightarrow> cmd_transition st AgentCommandStatusFailed"
| supersede: "open_status st \<Longrightarrow> cmd_transition st AgentCommandStatusStale"

inductive_cases cmd_transition_from: "cmd_transition st st'"

lemma transition_not_terminal: "cmd_transition st st' \<Longrightarrow> \<not> terminal_status st"
  by (erule cmd_transition.cases) (auto simp: terminal_status_def open_status_def)

lemma validate_transition:
  "validateAgentCommandStatusTransition current next = None \<Longrightarrow> current \<noteq> AgentCommandStatusStale \<Longrightarrow>
     cmd_transition current next"
  unfolding validateAgentCommandStatusTransition_def Let_def
  by (auto split: if_splits intro: cmd_transition.intros simp: open_status_def)

text \<open>
  What may become of a row: its identity and its order are fixed, its status follows the
  transitions, a terminal row is never written again.
\<close>

definition cmd_step :: "command_row \<Rightarrow> command_row \<Rightarrow> bool" where
  "cmd_step r r' \<longleftrightarrow> cmd_id r' = cmd_id r \<and> cmd_node_public_key r' = cmd_node_public_key r \<and>
     cmd_command r' = cmd_command r \<and> cmd_params r' = cmd_params r \<and> cmd_priority r' = cmd_priority r \<and>
     cmd_timeout_seconds r' = cmd_timeout_seconds r \<and> cmd_created_at r' = cmd_created_at r \<and>
     cmd_transition\<^sup>*\<^sup>* (cmd_status r) (cmd_status r') \<and> (terminal_status (cmd_status r) \<longrightarrow> r' = r)"

definition cmds_inv :: "tables \<Rightarrow> bool" where
  "cmds_inv t \<longleftrightarrow> distinct (map cmd_id (agent_commands t))"

abbreviation cmd_rel :: "tables \<Rightarrow> tables \<Rightarrow> bool" where
  "cmd_rel \<equiv> guarded cmds_inv (evolves agent_commands cmd_step)"

lemma cmd_step_refl [simp]: "cmd_step r r"
  by (simp add: cmd_step_def)

lemma cmd_step_trans: "cmd_step a b \<Longrightarrow> cmd_step b c \<Longrightarrow> cmd_step a c"
  by (auto simp: cmd_step_def intro: rtranclp_trans)

interpretation cmds: table_guarded agent_commands cmd_step cmds_inv
  by unfold_locales (simp, rule cmd_step_trans)

lemma cmd_rel_update:
  assumes "agent_commands u = update_where P f (agent_commands t)"
    and "\<And>r. r \<in> set (agent_commands t) \<Longrightarrow> P r \<Longrightarrow> cmds_inv t \<Longrightarrow> cmd_step r (f r)"
  shows "cmd_rel t u"
proof -
  have "map cmd_id (agent_commands u) = map cmd_id (agent_commands t)" if "cmds_inv t"
    using assms(2) that by (auto simp: assms(1) update_where_def cmd_step_def)
  moreover have "evolves agent_commands cmd_step t u" if "cmds_inv t"
    by (rule cmds.evolves_update [OF assms(1)]) (rule assms(2) [OF _ _ that])
  ultimately show ?thesis by (auto simp: guarded_def cmds_inv_def)
qed

lemma cmd_rel_same: "agent_commands u = agent_commands t \<Longrightarrow> cmd_rel t u"
  by (rule cmd_rel_update [where P = "\<lambda>_. False" and f = id]) (simp_all add: update_where_def)

lemma maintains_cmd_alerts: "maintains (keeps without_alerts) m \<Longrightarrow> maintains cmd_rel m"
  by (erule maintains_mono)
     (rule cmd_rel_same, erule keeps_field, simp add: without_alerts_def)

lemma maintains_cmd_control: "maintains (keeps without_control) m \<Longrightarrow> maintains cmd_rel m"
  by (erule maintains_mono)
     (rule cmd_rel_same, erule keeps_field, simp add: without_control_def)

lemma cmd_step_status:
  assumes "cmd_transition (cmd_status r) (cmd_status r')"
    and "cmd_id r' = cmd_id r" "cmd_node_public_key r' = cmd_node_public_key r" "cmd_command r' = cmd_command r"
    "cmd_params r' = cmd_params r" "cmd_priority r' = cmd_priority r"
    "cmd_timeout_seconds r' = cmd_timeout_seconds r" "cmd_created_at r' = cmd_created_at r"
  shows "cmd_step r r'"
  using assms transition_not_terminal [OF assms(1)] by (auto simp: cmd_step_def)

lemma maintains_insert_command:
  "insert_command_sql c p pr ti pk i now t = Some (t', x) \<Longrightarrow> cmd_rel t t'"
  by (auto simp: insert_command_sql_def guarded_def cmds_inv_def Let_def
      intro!: cmds.evolves_append split: if_splits)

lemma maintains_cmd_queue [maintains_rules]:
  "maintains cmd_rel (queueAgentCommand pk command params priority timeout)"
  "maintains cmd_rel (QueueAgentCommands targets command params priority timeout)"
  unfolding queueAgentCommand_def QueueAgentCommands_def check_command_def
  by (intro maintains_rules; erule maintains_insert_command)+

lemma cmd_step_fail: "open_status (cmd_status r) \<Longrightarrow> cmd_step r (fail_row m now r)"
  by (rule cmd_step_status) (simp_all add: fail_row_def fail)

lemma cmd_rel_fail:
  "cmd_rel t (fst (fail_deliveries_sql sel m now t))"
  "(\<And>r. sel now r \<Longrightarrow> open_status (cmd_status r)) \<Longrightarrow> cmd_rel t (fst (fail_commands_sql sel m now t))"
  by (simp_all add: fail_deliveries_sql_def fail_commands_sql_def cmd_rel_same
      cmd_rel_update [OF _ cmd_step_fail])

lemma maintains_cmd_fail [maintains_rules]:
  "maintains cmd_rel (failTimedOutAgentCommandsForNodeTx pk)"
  "maintains cmd_rel (failIncompleteAgentCommandsForNodeTx pk message)"
  unfolding failTimedOutAgentCommandsForNodeTx_def failIncompleteAgentCommandsForNodeTx_def
  by (intro maintains_rules cmd_rel_fail; auto simp: timed_out_of_def incomplete_of_def)+

lemma maintains_cmd_Fail [maintains_rules]:
  "maintains cmd_rel (FailTimedOutAgentCommandsForNode pk)"
  "maintains cmd_rel (FailIncompleteAgentCommandsForNode pk message)"
  unfolding FailTimedOutAgentCommandsForNode_def FailIncompleteAgentCommandsForNode_def
  by (intro maintains_rules)+

lemma next_pending_SomeD:
  assumes "next_pending locked pk t = Some r"
  shows "r \<in> set (agent_commands t)" "deliverable locked pk r"
  using assms hd_sort_key(1) [of "\<lambda>r. - cmd_priority r"
      "sort_key cmd_created_at (filter (deliverable locked pk) (agent_commands t))" r]
  by (auto simp: next_pending_def split: list.splits)

lemma cmd_rel_requeue: "cmd_rel t (fst (requeue_timed_out_sql pk now t))"
  unfolding requeue_timed_out_sql_def
  by (rule cmd_rel_update, simp)
     (auto simp: timed_out_sent_def requeue_row_def intro!: cmd_step_status requeue)

lemma cmd_rel_mark_sent:
  assumes "next_pending locked pk t = Some r"
  shows "cmd_rel t (fst (mark_sent_sql (cmd_id r) now n t))"
proof (rule cmd_rel_update [of _ "\<lambda>r'. cmd_id r' = cmd_id r" "sent_row now"])
  fix r'
  assume r': "r' \<in> set (agent_commands t)" "cmd_id r' = cmd_id r" and "cmds_inv t"
  then have "r' = r"
    using next_pending_SomeD(1) [OF assms] unfolding cmds_inv_def by (blast intro: distinct_key_eq)
  then show "cmd_step r' (sent_row now r')"
    using next_pending_SomeD(2) [OF assms]
    by (auto simp: deliverable_def sent_row_def intro!: cmd_step_status deliver)
qed (simp add: mark_sent_sql_def)

lemma maintains_cmd_GetNext [maintains_rules]:
  "maintains cmd_rel (GetNextPendingAgentCommand locked pk)"
  unfolding GetNextPendingAgentCommand_def
proof (rule cmds.grel.maintains_transaction, rule cmds.grel.maintains_bnd, rule cmds.grel.maintains_modify,
    rule cmd_rel_requeue, rule cmds.grel.maintains_select_then, goal_cases)
  case (1 u s)
  show ?case
  proof (cases "next_pending locked pk (tab s)")
    case None
    then show ?thesis by (simp add: ret_def cmd_rel_same)
  next
    case (Some r)
    show ?thesis
      unfolding Some option.case
      by (intro cmds.grel.related_bnd cmds.grel.related_run [OF cmds.grel.maintains_time_Now]
          cmds.grel.related_modify)
         (auto simp: time_Now_def ret_def cmd_rel_same intro: cmd_rel_mark_sent [OF Some])
  qed
qed

lemma maintains_cmd_RequeueSent [maintains_rules]:
  "maintains cmd_rel (RequeueSentAgentCommand commandID pk message)"
  unfolding RequeueSentAgentCommand_def requeue_sent_sql_def Let_def
  by (intro maintains_rules)
     (auto intro!: cmd_rel_update cmd_step_status requeue)

lemma current_status_Inr:
  assumes "currentAgentCommandStatusTx i pk s = (Inr current, t)"
  shows "\<exists>r. find (command_of i pk) (agent_commands (tab s)) = Some r \<and> cmd_status r = current \<and>
     tab t = tab s \<and> same_env s t"
  using assms unfolding currentAgentCommandStatusTx_def
  by (cases "find (command_of i pk) (agent_commands (tab s))") (auto simp: run_Inr dest!: select_InrD)

lemma lock_attempt_cases:
  assumes "attempt (lockAgentCommandStatusTx i pk) s = (Inr x, t)"
  obtains (missing) e where "x = Inl e" "tab t = tab s"
    | (found) r where "x = Inr (cmd_status r)" "find (command_of i pk) (agent_commands (tab s)) = Some r"
        "tab t = tab s" "same_env s t"
proof (cases x)
  case (Inl e)
  with assms have "lockAgentCommandStatusTx i pk s = (Inl e, t)"
    by (auto simp: attempt_def split: prod.splits)
  then have "tab t = tab s"
    unfolding lockAgentCommandStatusTx_def currentAgentCommandStatusTx_def bnd_def
    by (auto split: prod.splits sum.splits option.splits simp: throw_def ret_def dest: select_cases(1))
  with Inl show ?thesis by (rule missing)
next
  case (Inr current)
  with assms have "lockAgentCommandStatusTx i pk s = (Inr current, t)"
    by (auto simp: attempt_def split: prod.splits)
  from current_status_Inr [OF this [unfolded lockAgentCommandStatusTx_def]] Inr show ?thesis
    by (auto intro: found)
qed

lemma cmd_rel_update_status:
  assumes "find (command_of i pk) (agent_commands t) = Some r"
    and "validateAgentCommandStatusTransition (cmd_status r) status = None" and "cmd_status r \<noteq> ''stale''"
  shows "cmd_rel t (fst (update_status_sql i pk status message result now t))"
proof (rule cmd_rel_update [of _ "\<lambda>r. command_of i pk r \<and> cmd_status r \<noteq> ''stale''" "status_row status message result now"])
  fix r'
  assume r': "r' \<in> set (agent_commands t)" "command_of i pk r' \<and> cmd_status r' \<noteq> ''stale''" and "cmds_inv t"
  have "r \<in> set (agent_commands t)" "cmd_id r = i"
    using assms(1) by (auto dest!: find_SomeD simp: command_of_def)
  then have "r' = r"
    using distinct_key_eq [of cmd_id "agent_commands t" r' r] r' \<open>cmds_inv t\<close>
    by (simp add: cmds_inv_def command_of_def)
  then show "cmd_step r' (status_row status message result now r')"
    using validate_transition [OF assms(2,3)] by (intro cmd_step_status) (simp_all add: status_row_def)
qed (simp add: update_status_sql_def Let_def)

lemma maintains_current_status [maintains_rules]:
  "maintains cmd_rel (currentAgentCommandStatusTx i pk)"
  unfolding currentAgentCommandStatusTx_def by (intro maintains_rules)

lemma cmd_rel_update_deliveries: "cmd_rel t (fst (update_deliveries_sql i status message now t))"
  by (rule cmd_rel_same) (simp add: update_deliveries_sql_def)

lemma related_write_status:
  assumes "cmd_rel (tab t) (fst (update_status_sql i pk status message result (db_now t) (tab t)))"
  shows "cmd_rel (tab t) (tab (snd (write_status_tx i pk status message result t)))"
  unfolding write_status_tx_def
  by (rule cmds.grel.related_bnd, rule cmds.grel.related_modify, rule assms)
     (intro cmds.grel.related_run maintains_rules cmd_rel_update_deliveries maintains_cmd_control)

lemma maintains_cmd_update_tx [maintains_rules]:
  "maintains cmd_rel (update_status_tx i pk status message result)"
  unfolding maintains_def update_status_tx_def
proof (intro allI, rule cmds.grel.related_bnd, goal_cases)
  case (1 s)
  show ?case
    unfolding lockAgentCommandStatusTx_def by (intro cmds.grel.related_run maintains_rules)
next
  case (2 s x t)
  then show ?case
  proof (cases rule: lock_attempt_cases)
    case (missing e)
    then show ?thesis by (simp add: throw_def cmd_rel_same)
  next
    case (found r)
    have "cmd_rel (tab t) (tab (snd (write_status_tx i pk status message result t)))"
      if "cmd_status r \<noteq> ''stale''" "validateAgentCommandStatusTransition (cmd_status r) status = None"
      by (rule related_write_status, rule cmd_rel_update_status [of i pk "tab t" r])
         (use found that in simp_all)
    then show ?thesis
      unfolding found(1) by (auto simp: ret_def throw_def cmd_rel_same split: option.split)
  qed
qed

text \<open>The events after the commit write alerts and audit events only.\<close>

lemma maintains_delivery_events [maintains_rules]:
  "maintains (keeps without_alerts) (delivery_events c st m tenant node dr)"
  unfolding delivery_events_def by (intro maintains_rules)

lemma maintains_emitPolicyDelivery [maintains_rules]:
  "maintains (keeps without_alerts) (emitPolicyDeliveryAlertAndAudit c st m tenant node)"
  unfolding emitPolicyDeliveryAlertAndAudit_def by (intro maintains_rules)

lemma maintains_emitCommand [maintains_rules]:
  "maintains (keeps without_alerts) (emitCommandAlertAndAudit c st m)"
  unfolding emitCommandAlertAndAudit_def Let_def
  by (intro maintains_rules)

lemma maintains_cmd_update [maintains_rules]:
  "maintains cmd_rel (updateAgentCommandStatus i pk status message result)"
  unfolding updateAgentCommandStatus_def
  by (intro maintains_rules maintains_cmd_alerts [OF maintains_emitCommand])

text \<open>The events never make the call fail.\<close>

lemma for_each_delivery_events:
  "\<exists>t. for_each (delivery_events c st m tenant node) rows s = (Inr (), t)"
proof (induction rows arbitrary: s)
  case Nil
  then show ?case by (simp add: ret_def)
next
  case (Cons dr rows)
  have "\<exists>t. delivery_events c st m tenant node dr s = (Inr (), t)"
    by (cases dr) (auto simp: delivery_events_def bnd_def attempt_def ret_def split: prod.split sum.split)
  then obtain t where "delivery_events c st m tenant node dr s = (Inr (), t)" ..
  with Cons.IH [of t] show ?case by (simp add: bnd_def)
qed

lemma emitPolicyDelivery_total: "\<exists>t. emitPolicyDeliveryAlertAndAudit c st m tenant node s = (Inr (), t)"
  by (auto simp: emitPolicyDeliveryAlertAndAudit_def bnd_def attempt_def ret_def for_each_delivery_events
      split: prod.split sum.split)

lemma emitCommand_total: "\<exists>t. emitCommandAlertAndAudit c st m s = (Inr (), t)"
  by (auto simp: emitCommandAlertAndAudit_def Let_def bnd_def attempt_def ret_def emitPolicyDelivery_total
      split: prod.split sum.split option.split)

text \<open>
  The transaction without an error: it returned early, or it found an open command, a legal
  transition, and wrote the command, its deliveries and the state of its node.
\<close>

lemma write_status_Inr:
  assumes "write_status_tx i pk status message result s = (Inr k, t)"
  obtains (nothing) "k = TxReturn False"
    | (written) n u v where "k = TxCommit True" "n \<noteq> 0"
        "update_status_sql i pk status message result (db_now s) (tab s) = (tab u, n)" "same_env s u"
        "syncNodeControlStateForCommandTx i status message result v = (Inr (), t)"
        "tab v = fst (update_deliveries_sql i status message (db_now s) (tab u))" "same_env s v"
proof -
  from assms obtain n u n' w where m: "modify_op (update_status_sql i pk status message result) s = (Inr n, u)"
      and c: "check_op n u = (Inr n', w)"
      and rest: "(if n' = 0 then
       bnd (attempt (currentAgentCommandStatusTx i pk)) (\<lambda>c.
       if c = Inr AgentCommandStatusStale then ret (TxReturn False)
       else if pk \<noteq> '''' then throw (not_of_node i pk)
       else case c of Inl e \<Rightarrow> throw e
            | Inr _ \<Rightarrow> throw (ErrMsg (''agent command '' @ i @ '' was not updated'')))
     else
       bnd (modify_op (update_deliveries_sql i status message)) (\<lambda>_.
       bnd (syncNodeControlStateForCommandTx i status message result) (\<lambda>_.
       ret (TxCommit True)))) w = (Inr k, t)"
    unfolding write_status_tx_def bnd_Inr by blast
  note c = check_Inr [OF c] and m = modify_Inr [OF m]
  show ?thesis
  proof (cases "n' = 0")
    case True
    with rest obtain c x where "(if c = Inr AgentCommandStatusStale then ret (TxReturn False)
       else if pk \<noteq> '''' then throw (not_of_node i pk)
       else case c of Inl e \<Rightarrow> throw e
            | Inr _ \<Rightarrow> throw (ErrMsg (''agent command '' @ i @ '' was not updated''))) x = (Inr k, t)"
      by (auto simp: bnd_Inr)
    then have "k = TxReturn False"
      by (cases c) (auto simp: ret_Inr throw_Inr split: if_split_asm)
    then show ?thesis by (rule nothing)
  next
    case False
    with rest obtain z v where d: "modify_op (update_deliveries_sql i status message) w = (Inr z, v)"
        and y: "syncNodeControlStateForCommandTx i status message result v = (Inr (), t)"
        and k: "k = TxCommit True"
      by (auto simp: run_Inr)
    show ?thesis
      using False c m modify_Inr [OF d] y
      by (intro written [of n u v, OF k]) (auto simp: same_env_def)
  qed
qed

lemma update_status_tx_Inr:
  assumes "update_status_tx i pk status message result s = (Inr k, t)"
  obtains (nothing) "k = TxReturn False"
    | (written) r u where "find (command_of i pk) (agent_commands (tab s)) = Some r"
        "cmd_status r \<noteq> ''stale''" "cmd_status r \<noteq> status"
        "validateAgentCommandStatusTransition (cmd_status r) status = None"
        "write_status_tx i pk status message result u = (Inr k, t)" "tab u = tab s" "same_env s u"
proof -
  from assms obtain x u where l: "attempt (lockAgentCommandStatusTx i pk) s = (Inr x, u)"
      and rest: "(case x of
         Inl e \<Rightarrow> throw (if pk \<noteq> '''' then not_of_node i pk else e)
       | Inr current \<Rightarrow>
         if current = AgentCommandStatusStale \<or> current = status then ret (TxReturn False)
         else case validateAgentCommandStatusTransition current status of
             Some e \<Rightarrow> throw e
           | None \<Rightarrow> write_status_tx i pk status message result) u = (Inr k, t)"
    unfolding update_status_tx_def bnd_Inr by blast
  from l show ?thesis
  proof (cases rule: lock_attempt_cases)
    case (missing e)
    with rest show ?thesis by (simp add: throw_Inr)
  next
    case (found r)
    with rest show ?thesis
      by (cases "validateAgentCommandStatusTransition (cmd_status r) status")
         (auto simp: ret_Inr throw_Inr split: if_split_asm
            intro: that(1) that(2) [of r u])
  qed
qed

lemma update_status_tx_result:
  "update_status_tx i pk status message result s = (Inr k, t) \<Longrightarrow> k = TxReturn False \<or> k = TxCommit True"
  by (erule update_status_tx_Inr) (auto elim: write_status_Inr)

text \<open>
  A report that is not an error either committed a change, followed by events, or changed
  nothing.
\<close>

lemma update_Inr_cases:
  assumes "updateAgentCommandStatus i pk status message result s = (Inr (), t)"
  obtains (unchanged) "tab t = tab s"
    | (changed) u v where "update_status_tx i pk (TrimSpace status) message result u = (Inr (TxCommit True), v)"
        "tab u = tab s" "same_env s u" "without_alerts (tab t) = without_alerts (tab v)"
proof -
  from assms obtain b w where tr: "transaction (update_status_tx i pk (TrimSpace status) message result) s = (Inr b, w)"
      and rest: "(if b \<and> (TrimSpace status = ''completed'' \<or> TrimSpace status = ''failed'')
          then emitCommandAlertAndAudit i (TrimSpace status) message else ret ()) w = (Inr (), t)"
    by (auto simp: updateAgentCommandStatus_def Let_def run_Inr split: if_splits)
  have frame: "without_alerts (tab t) = without_alerts (tab w)"
    using rest alerts_frame.frame_run [OF maintains_emitCommand, of i "TrimSpace status" message w]
    by (auto simp: ret_def split: if_splits)
  from tr show ?thesis
  proof (cases rule: transaction_Inr)
    case (committed u v)
    show ?thesis
      using committed update_status_tx_result [OF committed(1)] frame by (intro changed [of u v]) auto
  next
    case (returned u v)
    with rest update_status_tx_result [OF returned(1)] show ?thesis
      by (auto simp: ret_def intro: unchanged)
  qed
qed

section \<open>Reports\<close>

text \<open>The tables apart from alerts and audit events after a committed report.\<close>

lemma committed_report:
  assumes "update_status_tx i pk status message result s = (Inr (TxCommit True), t)" and "cmds_inv (tab s)"
  obtains r where "r \<in> set (agent_commands (tab s))" "cmd_id r = i" "pk \<noteq> '''' \<longrightarrow> cmd_node_public_key r = pk"
    "cmd_transition (cmd_status r) status"
    "agent_commands (tab t) =
       update_where (\<lambda>r. cmd_id r = i) (status_row status message result (db_now s)) (agent_commands (tab s))"
    "policy_deliveries (tab t) = update_where (\<lambda>d. pd_command_id d = i)
       (status_delivery_row status message (db_now s)) (policy_deliveries (tab s))"
    "nodes (tab t) = nodes (tab s)"
  using assms(1)
proof (cases rule: update_status_tx_Inr)
  case (written r u)
  from written(5) show ?thesis
  proof (cases rule: write_status_Inr)
    case (written n w v)
    have r: "r \<in> set (agent_commands (tab s))" "cmd_id r = i" "command_of i pk r"
      using \<open>find _ _ = Some r\<close> by (auto dest!: find_SomeD simp: command_of_def)
    have uniq: "(command_of i pk r' \<and> cmd_status r' \<noteq> ''stale'') = (cmd_id r' = i)"
      if "r' \<in> set (agent_commands (tab s))" for r'
      using that r \<open>cmd_status r \<noteq> ''stale''\<close> distinct_key_eq [of cmd_id "agent_commands (tab s)" r' r] assms(2)
      by (auto simp: command_of_def cmds_inv_def)
    have "update_where (\<lambda>r. command_of i pk r \<and> cmd_status r \<noteq> ''stale'') f (agent_commands (tab s))
        = update_where (\<lambda>r. cmd_id r = i) f (agent_commands (tab s))" for f
      unfolding update_where_def by (rule map_cong) (simp_all add: uniq)
    moreover have "without_control (tab t) = without_control (tab v)"
      using control_frame.frame_run [OF maintains_syncNodeControlState(1) written(5)] .
    then have "agent_commands (tab t) = agent_commands (tab v)" "policy_deliveries (tab t) = policy_deliveries (tab v)"
        "nodes (tab t) = nodes (tab v)"
      by (auto simp: without_control_def dest: arg_cong [where f = agent_commands]
          arg_cong [where f = policy_deliveries] arg_cong [where f = nodes])
    moreover have "tab w = (tab s)\<lparr>agent_commands := update_where (\<lambda>r. command_of i pk r \<and> cmd_status r \<noteq> ''stale'')
        (status_row status message result (db_now s)) (agent_commands (tab s))\<rparr>"
      using arg_cong [OF written(3), of fst] \<open>tab u = tab s\<close> \<open>same_env s u\<close>
      by (simp add: update_status_sql_def Let_def same_env_def)
    moreover have "db_now u = db_now s" using \<open>same_env s u\<close> by (simp add: same_env_def)
    ultimately show ?thesis
      using r written(6)
        validate_transition [OF \<open>validateAgentCommandStatusTransition _ _ = None\<close> \<open>cmd_status r \<noteq> ''stale''\<close>]
      by (intro that [of r]) (simp_all add: update_deliveries_sql_def command_of_def)
  qed simp
qed simp

text \<open>
  What a report does to the queue, whichever statements the database refused: nothing, or
  exactly the reported command takes the new status by a legal transition (for the reporting
  node if it is named), with its message, result and times, every delivery of that command
  takes the same status, and no other command or delivery changes.
\<close>

theorem update_status_effect:
  assumes "updateAgentCommandStatus i pk status message result s = (Inr (), t)" and "cmds_inv (tab s)"
  shows "agent_commands (tab t) = agent_commands (tab s) \<and> policy_deliveries (tab t) = policy_deliveries (tab s) \<or>
    (\<exists>r \<in> set (agent_commands (tab s)). cmd_id r = i \<and> (pk \<noteq> '''' \<longrightarrow> cmd_node_public_key r = pk) \<and>
       cmd_transition (cmd_status r) (TrimSpace status) \<and>
       agent_commands (tab t) = update_where (\<lambda>r. cmd_id r = i)
         (status_row (TrimSpace status) message result (db_now s)) (agent_commands (tab s)) \<and>
       policy_deliveries (tab t) = update_where (\<lambda>d. pd_command_id d = i)
         (status_delivery_row (TrimSpace status) message (db_now s)) (policy_deliveries (tab s)))"
  using assms(1)
proof (cases rule: update_Inr_cases)
  case unchanged
  then show ?thesis by simp
next
  case (changed u v)
  have "agent_commands (tab t) = agent_commands (tab v)" "policy_deliveries (tab t) = policy_deliveries (tab v)"
    using changed(4) by (auto simp: without_alerts_def dest: arg_cong [where f = agent_commands]
        arg_cong [where f = policy_deliveries])
  moreover have "cmds_inv (tab u)" using assms(2) changed(2) by simp
  ultimately show ?thesis
    using changed(2,3) by (rule_tac committed_report [OF changed(1)]) (auto simp: same_env_def)
qed

definition sample_command :: "uuid \<Rightarrow> string \<Rightarrow> int \<Rightarrow> time \<Rightarrow> command_row" where
  "sample_command i status priority created = \<lparr>cmd_id = i, cmd_node_public_key = ''pk1'', cmd_command = ''sync'',
     cmd_params = [(''desired_state_version'', VString ''v2'')], cmd_status = status, cmd_message = None,
     cmd_priority = priority, cmd_timeout_seconds = 30, cmd_result = [], cmd_sent_at = None,
     cmd_acknowledged_at = None, cmd_completed_at = None, cmd_created_at = created, cmd_updated_at = created,
     cmd_deadline_at = Some (created + secs 30)\<rparr>"

definition sample_delivery :: "uuid \<Rightarrow> string \<Rightarrow> delivery_row" where
  "sample_delivery i status = \<lparr>pd_id = ''d1'', pd_tenant_id = ''t1'', pd_node_id = ''n1'', pd_policy_domain = ''acl'',
     pd_policy_ref = ''r1'', pd_policy_name = None, pd_action = ''create'', pd_command_id = i,
     pd_command_status = status, pd_last_error = None, pd_metadata = [], pd_created_at = 0,
     pd_updated_at = 0, pd_completed_at = None\<rparr>"

definition sample_queue :: "command_row list \<Rightarrow> delivery_row list \<Rightarrow> time \<Rightarrow> db" where
  "sample_queue cs ds now = (sample_control_db ''v2'' ''sync'')\<lparr>db_now := now, go_now := now,
     tab := (tab (sample_control_db ''v2'' ''sync''))\<lparr>agent_commands := cs, policy_deliveries := ds\<rparr>\<rparr>"

lemmas queue_eval = sample_queue_def sample_control_db_def sample_node_def sample_command_def sample_delivery_def secs_def
  new_control_state_def

lemma trim_statuses:
  "TrimSpace ''sent'' = ''sent''" "TrimSpace ''acknowledged'' = ''acknowledged''"
  "TrimSpace ''completed'' = ''completed''" "TrimSpace ''failed'' = ''failed''"
  by code_simp+

lemmas report_eval = updateAgentCommandStatus_def update_status_tx_def write_status_tx_def
  lockAgentCommandStatusTx_def currentAgentCommandStatusTx_def command_of_def update_status_sql_def
  update_deliveries_sql_def status_row_def status_delivery_row_def validateAgentCommandStatusTransition_def
  isAgentCommandReportStatus_def control_eval queue_eval trim_statuses

theorem update_status_effect_witness:
  "\<exists>t. updateAgentCommandStatus ''c1'' ''pk1'' ''acknowledged'' '''' []
       (sample_queue [sample_command ''c1'' ''sent'' 0 1] [sample_delivery ''c1'' ''pending''] 100) = (Inr (), t) \<and>
     (agent_commands (tab t) = [sample_command ''c1'' ''sent'' 0 1] \<or>
      map cmd_status (agent_commands (tab t)) = [''acknowledged''] \<and>
      map pd_command_status (policy_deliveries (tab t)) = [''acknowledged''])"
proof -
  let ?s = "sample_queue [sample_command ''c1'' ''sent'' 0 1] [sample_delivery ''c1'' ''pending''] 100"
  let ?run = "updateAgentCommandStatus ''c1'' ''pk1'' ''acknowledged'' '''' [] ?s"
  have "\<not> isl (fst ?run)" by (simp add: report_eval eval_defs cong: eval_congs)
  then obtain t where run: "?run = (Inr (), t)" by (auto elim: run_succeeds)
  have "cmds_inv (tab ?s)" by (simp add: cmds_inv_def queue_eval)
  from update_status_effect [OF run this] run show ?thesis
    by (auto simp: queue_eval update_where_def status_row_def status_delivery_row_def trim_statuses)
qed

text \<open>
  A report that fails changes no table: an error of the checks, of the lock, of the
  transition, of any statement of the transaction or of its commit.
\<close>

theorem update_status_atomic:
  "atomic_on_error (updateAgentCommandStatus i pk status message result)"
  unfolding atomic_on_error_def
proof (intro allI impI)
  fix s e t
  assume run: "updateAgentCommandStatus i pk status message result s = (Inl e, t)"
  let ?tx = "transaction (update_status_tx i pk (TrimSpace status) message result)"
  obtain x u where tx: "?tx s = (x, u)" by fastforce
  show "tab t = tab s"
  proof (cases x)
    case (Inl e')
    moreover have "tab u = tab s" if "x = Inl e'"
      using transaction_atomic [of "update_status_tx i pk (TrimSpace status) message result"] tx that
      unfolding atomic_on_error_def by blast
    ultimately show ?thesis
      using run tx by (auto simp: updateAgentCommandStatus_def Let_def bnd_def throw_def split: if_split_asm)
  next
    case (Inr b)
    with run tx emitCommand_total [of i "TrimSpace status" message u] show ?thesis
      by (auto simp: updateAgentCommandStatus_def Let_def bnd_def throw_def ret_def split: if_split_asm)
  qed
qed

text \<open>
  A node reports on its own commands only: a report by a node that the command was not
  queued for is an error and changes nothing.
\<close>

theorem foreign_report_rejected:
  assumes "\<forall>r \<in> set (agent_commands (tab s)). cmd_id r = i \<longrightarrow> cmd_node_public_key r \<noteq> pk"
  shows "\<exists>e t. UpdateAgentCommandStatusForNode i pk status message result s = (Inl e, t) \<and> tab t = tab s"
proof -
  have none: "find (command_of i pk) (agent_commands (tab s)) = None" if "pk \<noteq> ''''"
    using assms that by (auto simp: find_None_iff command_of_def)
  have tx: "\<exists>e t. transaction (update_status_tx i pk st message result) s = (Inl e, t) \<and> tab t = tab s"
    if "pk \<noteq> ''''" for st
  proof (rule transaction_throws)
    fix u :: db
    assume "tab u = tab s"
    then have "\<exists>e v. lockAgentCommandStatusTx i pk u = (Inl e, v)"
      using none [OF that] by (cases "lockAgentCommandStatusTx i pk u"; cases "fst (lockAgentCommandStatusTx i pk u)")
        (auto simp: lockAgentCommandStatusTx_def dest!: current_status_Inr)
    then show "\<exists>e v. update_status_tx i pk st message result u = (Inl e, v)"
      by (auto simp: update_status_tx_def bnd_def attempt_def throw_def)
  qed
  show ?thesis
    using tx [of "TrimSpace status"]
    by (auto simp: UpdateAgentCommandStatusForNode_def updateAgentCommandStatus_def Let_def bnd_def throw_def)
qed

theorem foreign_report_rejected_witness:
  "\<exists>e t. UpdateAgentCommandStatusForNode ''c1'' ''pk2'' ''completed'' '''' []
       (sample_queue [sample_command ''c1'' ''sent'' 0 1] [] 100) = (Inl e, t) \<and>
     tab t = tab (sample_queue [sample_command ''c1'' ''sent'' 0 1] [] 100)"
  by (rule foreign_report_rejected) (simp add: queue_eval)

section \<open>Delivery to the agent\<close>

text \<open>The commands a node can be handed: pending ones and sent ones past their deadline.\<close>

definition candidate :: "(uuid \<Rightarrow> bool) \<Rightarrow> string \<Rightarrow> time \<Rightarrow> command_row \<Rightarrow> bool" where
  "candidate locked pk now r \<longleftrightarrow> \<not> locked (cmd_id r) \<and>
     (cmd_node_public_key r = pk \<and> cmd_status r = AgentCommandStatusPending \<or> timed_out_sent pk now r)"

definition requeued :: "string \<Rightarrow> time \<Rightarrow> command_row \<Rightarrow> command_row" where
  "requeued pk now r = (if timed_out_sent pk now r then requeue_row now r else r)"

lemma agent_commands_requeue:
  "agent_commands (fst (requeue_timed_out_sql pk now t)) = map (requeued pk now) (agent_commands t)"
  by (simp add: requeue_timed_out_sql_def update_where_def requeued_def [abs_def])

lemma deliverable_requeued: "deliverable locked pk (requeued pk now r) = candidate locked pk now r"
  by (auto simp: deliverable_def requeued_def requeue_row_def candidate_def timed_out_sent_def)

lemma requeued_key [simp]:
  "cmd_id (requeued pk now r) = cmd_id r" "cmd_priority (requeued pk now r) = cmd_priority r"
  "cmd_created_at (requeued pk now r) = cmd_created_at r"
  "cmd_timeout_seconds (requeued pk now r) = cmd_timeout_seconds r"
  by (simp_all add: requeued_def requeue_row_def)

lemma next_pending_least:
  assumes "next_pending locked pk t = Some r" and "r' \<in> set (agent_commands t)" and "deliverable locked pk r'"
  shows "cmd_priority r' < cmd_priority r \<or>
    cmd_priority r' = cmd_priority r \<and> cmd_created_at r \<le> cmd_created_at r'"
proof -
  from assms(1) obtain rs where "sort_key (\<lambda>r. - cmd_priority r) (sort_key cmd_created_at
      (filter (deliverable locked pk) (agent_commands t))) = r # rs"
    by (auto simp: next_pending_def split: list.splits)
  from hd_sort_key_twice [OF this, of r'] assms(2,3) show ?thesis by auto
qed

lemma next_pending_None: "next_pending locked pk t = None \<longleftrightarrow> filter (deliverable locked pk) (agent_commands t) = []"
proof -
  have "next_pending locked pk t = None \<longleftrightarrow> sort_key (\<lambda>r. - cmd_priority r) (sort_key cmd_created_at
      (filter (deliverable locked pk) (agent_commands t))) = []"
    by (simp add: next_pending_def split: list.split)
  also have "\<dots> \<longleftrightarrow> filter (deliverable locked pk) (agent_commands t) = []"
    by (metis length_0_conv length_sort)
  finally show ?thesis .
qed

text \<open>The two outcomes of a call that is not an error, over the table with the late commands requeued.\<close>

lemma GetNext_Inr:
  assumes "GetNextPendingAgentCommand locked pk s = (Inr res, t)"
  obtains (none) "res = None" "tab t = tab s"
      "next_pending locked pk (fst (requeue_timed_out_sql pk (db_now s) (tab s))) = None"
    | (some) r where "res = Some ((scanAgentCommandRow r)\<lparr>ac_Status := AgentCommandStatusSent,
             ac_SentAt := Some (go_now s), ac_UpdatedAt := go_now s\<rparr>)"
      "next_pending locked pk (fst (requeue_timed_out_sql pk (db_now s) (tab s))) = Some r"
      "agent_commands (tab t) = update_where (\<lambda>r'. cmd_id r' = cmd_id r) (sent_row (go_now s))
         (map (requeued pk (db_now s)) (agent_commands (tab s)))"
  using assms unfolding GetNextPendingAgentCommand_def
proof (cases rule: transaction_Inr)
  case (committed u v)
  let ?T = "fst (requeue_timed_out_sql pk (db_now s) (tab s))"
  from committed(1) obtain x w y q where m: "modify_op (requeue_timed_out_sql pk) u = (Inr x, w)"
      and n: "select_op (\<lambda>_ t. next_pending locked pk t) w = (Inr y, q)"
      and rest: "(case y of None \<Rightarrow> ret (TxReturn None)
       | Some r \<Rightarrow>
           bnd time_Now (\<lambda>now.
           bnd (modify_op (mark_sent_sql (cmd_id r) now)) (\<lambda>_.
           ret (TxCommit (Some ((scanAgentCommandRow r)\<lparr>ac_Status := AgentCommandStatusSent,
             ac_SentAt := Some now, ac_UpdatedAt := now\<rparr>)))))) q = (Inr (TxCommit res), v)"
    unfolding bnd_Inr by blast
  have w: "tab w = ?T" using modify_Inr(1) [OF m] committed(2,3) by (simp add: same_env_def)
  from rest obtain r z where y: "y = Some r" and k: "modify_op (mark_sent_sql (cmd_id r) (go_now q)) q = (Inr z, v)"
      and res: "res = Some ((scanAgentCommandRow r)\<lparr>ac_Status := AgentCommandStatusSent,
             ac_SentAt := Some (go_now q), ac_UpdatedAt := go_now q\<rparr>)"
    by (cases y) (auto simp: run_Inr)
  have go: "go_now q = go_now s"
    using select_Inr(3) [OF n] modify_Inr(2) [OF m] committed(3) by (simp add: same_env_def)
  have "agent_commands (tab v) = update_where (\<lambda>r'. cmd_id r' = cmd_id r) (sent_row (go_now s)) (agent_commands (tab q))"
    using arg_cong [OF modify_Inr(1) [OF k], of "agent_commands \<circ> fst"] go by (simp add: mark_sent_sql_def)
  then show ?thesis
    using select_Inr(1,2) [OF n] w y res go committed(4)
    by (intro some [of r]) (simp_all add: agent_commands_requeue)
next
  case (returned u v)
  from returned(1) obtain x w y q where m: "modify_op (requeue_timed_out_sql pk) u = (Inr x, w)"
      and n: "select_op (\<lambda>_ t. next_pending locked pk t) w = (Inr y, q)"
      and rest: "(case y of None \<Rightarrow> ret (TxReturn None)
       | Some r \<Rightarrow>
           bnd time_Now (\<lambda>now.
           bnd (modify_op (mark_sent_sql (cmd_id r) now)) (\<lambda>_.
           ret (TxCommit (Some ((scanAgentCommandRow r)\<lparr>ac_Status := AgentCommandStatusSent,
             ac_SentAt := Some now, ac_UpdatedAt := now\<rparr>)))))) q = (Inr (TxReturn res), v)"
    unfolding bnd_Inr by blast
  have "y = None \<and> res = None" using rest by (cases y) (auto simp: run_Inr)
  then show ?thesis
    using select_Inr(1) [OF n] modify_Inr(1) [OF m] returned(2-4)
    by (intro none) (simp_all add: same_env_def)
qed

lemma GetNext_Some:
  assumes "GetNextPendingAgentCommand locked pk s = (Inr (Some c), t)"
  obtains r where "r \<in> set (agent_commands (tab s))" "ac_ID c = cmd_id r" "ac_TimeoutSeconds c = cmd_timeout_seconds r"
    "candidate locked pk (db_now s) r"
    "\<forall>r' \<in> set (agent_commands (tab s)). candidate locked pk (db_now s) r' \<longrightarrow>
       cmd_priority r' < cmd_priority r \<or> cmd_priority r' = cmd_priority r \<and> cmd_created_at r \<le> cmd_created_at r'"
    "agent_commands (tab t) = update_where (\<lambda>r'. cmd_id r' = cmd_id r) (sent_row (go_now s))
       (map (requeued pk (db_now s)) (agent_commands (tab s)))"
  using assms
proof (cases rule: GetNext_Inr)
  case (some q)
  let ?T = "fst (requeue_timed_out_sql pk (db_now s) (tab s))"
  obtain r where r: "r \<in> set (agent_commands (tab s))" "q = requeued pk (db_now s) r"
    using next_pending_SomeD(1) [OF some(2)] by (auto simp: agent_commands_requeue)
  have best: "cmd_priority r' < cmd_priority r \<or> cmd_priority r' = cmd_priority r \<and> cmd_created_at r \<le> cmd_created_at r'"
    if "r' \<in> set (agent_commands (tab s))" "candidate locked pk (db_now s) r'" for r'
    using next_pending_least [OF some(2), of "requeued pk (db_now s) r'"] that r(2)
    by (auto simp: agent_commands_requeue deliverable_requeued)
  have "candidate locked pk (db_now s) r"
    using next_pending_SomeD(2) [OF some(2)] r(2) by (simp add: deliverable_requeued)
  with r best some show ?thesis
    by (intro that [of r]) (auto simp: scanAgentCommandRow_def)
qed simp

text \<open>
  \<^verbatim>\<open>GetNextPendingAgentCommand\<close> returns the command to run next: among the commands of the node
  that are pending, or sent and past their deadline, and not held by another transaction, one of
  the highest priority and of those the oldest; if it returns none there is no such command and
  nothing has changed.
\<close>

theorem next_command_is_first:
  assumes "GetNextPendingAgentCommand locked pk s = (Inr res, t)"
  shows "case res of
      None \<Rightarrow> tab t = tab s \<and> (\<forall>r \<in> set (agent_commands (tab s)). \<not> candidate locked pk (db_now s) r)
    | Some c \<Rightarrow> \<exists>r \<in> set (agent_commands (tab s)). ac_ID c = cmd_id r \<and> candidate locked pk (db_now s) r \<and>
        (\<forall>r' \<in> set (agent_commands (tab s)). candidate locked pk (db_now s) r' \<longrightarrow>
           cmd_priority r' < cmd_priority r \<or>
           cmd_priority r' = cmd_priority r \<and> cmd_created_at r \<le> cmd_created_at r')"
proof (cases res)
  case None
  from assms show ?thesis
  proof (cases rule: GetNext_Inr)
    case none
    then show ?thesis
      by (simp add: None next_pending_None agent_commands_requeue filter_empty_conv deliverable_requeued)
  qed (simp add: None)
next
  case (Some c)
  with assms obtain r where "r \<in> set (agent_commands (tab s))" "ac_ID c = cmd_id r"
    "candidate locked pk (db_now s) r"
    "\<forall>r' \<in> set (agent_commands (tab s)). candidate locked pk (db_now s) r' \<longrightarrow>
       cmd_priority r' < cmd_priority r \<or> cmd_priority r' = cmd_priority r \<and> cmd_created_at r \<le> cmd_created_at r'"
    by (auto elim: GetNext_Some)
  with Some show ?thesis by auto
qed

lemmas delivery_eval = GetNextPendingAgentCommand_def requeue_timed_out_sql_def next_pending_def
  mark_sent_sql_def sent_row_def requeue_row_def timed_out_sent_def deliverable_def queue_eval

theorem next_command_is_first_witness:
  "\<exists>c t. GetNextPendingAgentCommand (\<lambda>_. False) ''pk1'' (sample_queue
       [sample_command ''c1'' ''pending'' 0 1, sample_command ''c2'' ''pending'' 5 3,
        sample_command ''c3'' ''sent'' 5 2] [] 40000000) = (Inr (Some c), t) \<and> ac_ID c = ''c3''"
proof -
  let ?s = "sample_queue [sample_command ''c1'' ''pending'' 0 1, sample_command ''c2'' ''pending'' 5 3,
        sample_command ''c3'' ''sent'' 5 2] [] 40000000"
  let ?run = "GetNextPendingAgentCommand (\<lambda>_. False) ''pk1'' ?s"
  have "\<exists>c. fst ?run = Inr (Some c)" by (simp add: delivery_eval eval_defs cong: eval_congs)
  then obtain c t where run: "?run = (Inr (Some c), t)" by (auto simp: prod_eq_iff)
  from next_command_is_first [OF run] have "ac_ID c = ''c3''"
    by (auto simp: queue_eval candidate_def timed_out_sent_def)
  with run show ?thesis by blast
qed

text \<open>
  A command is handed out once: until its deadline passes, no later call returns the command
  that a call has returned, as long as the queue is as that call left it.
\<close>

theorem no_redelivery_before_deadline:
  assumes "GetNextPendingAgentCommand locked pk s = (Inr (Some c), t)" and "cmds_inv (tab s)"
    and "agent_commands (tab u) = agent_commands (tab t)"
    and "db_now u \<le> go_now s + secs (ac_TimeoutSeconds c)"
    and "GetNextPendingAgentCommand locked' pk' u = (Inr (Some c'), v)"
  shows "ac_ID c' \<noteq> ac_ID c"
proof
  assume same: "ac_ID c' = ac_ID c"
  from assms(1) obtain r where r: "r \<in> set (agent_commands (tab s))" "ac_ID c = cmd_id r"
      "ac_TimeoutSeconds c = cmd_timeout_seconds r"
      "agent_commands (tab t) = update_where (\<lambda>r'. cmd_id r' = cmd_id r) (sent_row (go_now s))
         (map (requeued pk (db_now s)) (agent_commands (tab s)))"
    by (auto elim: GetNext_Some)
  from assms(5) obtain q where q: "q \<in> set (agent_commands (tab t))" "ac_ID c' = cmd_id q"
      "candidate locked' pk' (db_now u) q"
    by (auto elim: GetNext_Some simp: assms(3))
  from q(1,2) same r(2,4) obtain r' where r': "r' \<in> set (agent_commands (tab s))" "cmd_id r' = cmd_id r"
      "q = sent_row (go_now s) (requeued pk (db_now s) r')"
    by (auto simp: set_update_where sent_row_def split: if_split_asm)
  have "r' = r"
    using assms(2) r(1) r'(1,2) unfolding cmds_inv_def by (blast intro: distinct_key_eq)
  with q(3) r'(3) r(3) assms(4) show False
    by (auto simp: candidate_def timed_out_sent_def sent_row_def)
qed

theorem no_redelivery_before_deadline_witness:
  "\<exists>c t c' v. GetNextPendingAgentCommand (\<lambda>_. False) ''pk1'' (sample_queue
       [sample_command ''c1'' ''pending'' 0 1, sample_command ''c2'' ''pending'' 5 3] [] 100) = (Inr (Some c), t) \<and>
     GetNextPendingAgentCommand (\<lambda>_. False) ''pk1'' t = (Inr (Some c'), v) \<and> ac_ID c' \<noteq> ac_ID c"
proof -
  let ?s = "sample_queue [sample_command ''c1'' ''pending'' 0 1, sample_command ''c2'' ''pending'' 5 3] [] 100"
  let ?run = "GetNextPendingAgentCommand (\<lambda>_. False) ''pk1'' ?s"
  have "\<exists>c. fst ?run = Inr (Some c) \<and> ac_TimeoutSeconds c = 30"
    by (simp add: delivery_eval scanAgentCommandRow_def eval_defs cong: eval_congs)
  then obtain c t where run: "?run = (Inr (Some c), t)" and c: "ac_TimeoutSeconds c = 30"
    by (auto simp: prod_eq_iff)
  have "\<exists>c'. fst (GetNextPendingAgentCommand (\<lambda>_. False) ''pk1'' (snd ?run)) = Inr (Some c') \<and> db_now (snd ?run) = 100"
    by (simp add: delivery_eval scanAgentCommandRow_def eval_defs cong: eval_congs)
  then obtain c' v where again: "GetNextPendingAgentCommand (\<lambda>_. False) ''pk1'' t = (Inr (Some c'), v)"
      and now: "db_now t = 100"
    by (auto simp: run prod_eq_iff)
  have "ac_ID c' \<noteq> ac_ID c"
    by (rule no_redelivery_before_deadline [OF run _ _ _ again])
       (simp_all add: now c queue_eval cmds_inv_def)
  with run again show ?thesis by blast
qed

section \<open>Failing open commands\<close>

text \<open>What the pair of statements leaves of the tables.\<close>

definition failed_tables :: "(time \<Rightarrow> command_row \<Rightarrow> bool) \<Rightarrow> string \<Rightarrow> time \<Rightarrow> tables \<Rightarrow> tables" where
  "failed_tables sel message now t = t\<lparr>
     agent_commands := update_where (sel now) (fail_row message now) (agent_commands t),
     policy_deliveries := update_where
       (\<lambda>d. pd_command_id d \<in> set (map cmd_id (filter (sel now) (agent_commands t))))
       (fail_delivery_row message now) (policy_deliveries t)\<rparr>"

lemma fail_sqls:
  "fst (fail_commands_sql sel message now (fst (fail_deliveries_sql sel message now t))) = failed_tables sel message now t"
  "snd (fail_commands_sql sel message now (fst (fail_deliveries_sql sel message now t))) = affected (sel now) (agent_commands t)"
  by (simp_all add: fail_commands_sql_def fail_deliveries_sql_def failed_tables_def)

lemma failTimedOutTx_Inr:
  assumes "failTimedOutAgentCommandsForNodeTx pk s = (Inr n, t)"
  shows "tab t = failed_tables (timed_out_of pk) ''command timed out waiting for agent result'' (db_now s) (tab s)"
    "n = affected (timed_out_of pk (db_now s)) (agent_commands (tab s))" "same_env s t"
proof -
  let ?m = "''command timed out waiting for agent result''"
  from assms obtain x u m v where d: "modify_op (fail_deliveries_sql (timed_out_of pk) ?m) s = (Inr x, u)"
      and c: "modify_op (fail_commands_sql (timed_out_of pk) ?m) u = (Inr m, v)" and k: "check_op m v = (Inr n, t)"
    by (auto simp: failTimedOutAgentCommandsForNodeTx_def Let_def run_Inr split: if_split_asm)
  note d = modify_Inr [OF d] and c = modify_Inr [OF c] and k = check_Inr [OF k]
  have u: "tab u = fst (fail_deliveries_sql (timed_out_of pk) ?m (db_now s) (tab s))" "db_now u = db_now s"
    using d by (simp_all add: same_env_def)
  show "tab t = failed_tables (timed_out_of pk) ?m (db_now s) (tab s)"
    using fail_sqls(1) [of "timed_out_of pk" ?m "db_now s" "tab s"] c(1) k(2) by (simp add: u)
  show "n = affected (timed_out_of pk (db_now s)) (agent_commands (tab s))"
    using fail_sqls(2) [of "timed_out_of pk" ?m "db_now s" "tab s"] c(1) k(1) by (simp add: u)
  show "same_env s t" using c(2) d(2) k(3) by (simp add: same_env_def)
qed

lemma failIncompleteTx_Inr:
  assumes "failIncompleteAgentCommandsForNodeTx pk message s = (Inr (), t)"
  shows "tab t = failed_tables (incomplete_of pk) (if message = '''' then ''node is no longer active'' else message)
           (db_now s) (tab s)" "same_env s t" "pk \<noteq> ''''"
proof -
  define msg where "msg = (if message = '''' then ''node is no longer active'' else message)"
  from assms obtain x u m where d: "modify_op (fail_deliveries_sql (incomplete_of pk) msg) s = (Inr x, u)"
      and c: "modify_op (fail_commands_sql (incomplete_of pk) msg) u = (Inr m, t)" and pk: "pk \<noteq> ''''"
    unfolding failIncompleteAgentCommandsForNodeTx_def Let_def msg_def [symmetric]
    by (auto simp: run_Inr split: if_split_asm)
  note d = modify_Inr [OF d] and c = modify_Inr [OF c]
  have u: "tab u = fst (fail_deliveries_sql (incomplete_of pk) msg (db_now s) (tab s))" "db_now u = db_now s"
    using d by (simp_all add: same_env_def)
  show "tab t = failed_tables (incomplete_of pk) (if message = '''' then ''node is no longer active'' else message)
      (db_now s) (tab s)"
    unfolding msg_def [symmetric]
    using fail_sqls(1) [of "incomplete_of pk" msg "db_now s" "tab s"] c(1) by (simp add: u)
  show "same_env s t" "pk \<noteq> ''''" using c(2) d(2) pk by (simp_all add: same_env_def)
qed

text \<open>
  \<^verbatim>\<open>FailTimedOutAgentCommandsForNode\<close> fails exactly the open commands of the node that are past
  their deadline, with their deliveries, returns how many there were, and leaves none.
\<close>

theorem fail_timed_out_exact:
  assumes "FailTimedOutAgentCommandsForNode pk s = (Inr n, t)"
  shows "n = length (filter (timed_out_of pk (db_now s)) (agent_commands (tab s))) \<and>
    agent_commands (tab t) = map (\<lambda>r. if timed_out_of pk (db_now s) r
        then fail_row ''command timed out waiting for agent result'' (db_now s) r else r) (agent_commands (tab s)) \<and>
    (\<forall>r \<in> set (agent_commands (tab t)). \<not> timed_out_of pk (db_now s) r) \<and>
    (\<forall>d \<in> set (policy_deliveries (tab t)).
       (\<exists>r \<in> set (agent_commands (tab s)). timed_out_of pk (db_now s) r \<and> cmd_id r = pd_command_id d) \<longrightarrow>
       pd_command_status d = ''failed'')"
  using assms unfolding FailTimedOutAgentCommandsForNode_def
proof (cases rule: transaction_Inr)
  case (committed u v)
  have m: "failTimedOutAgentCommandsForNodeTx pk u = (Inr n, v)"
    using committed(1) by (auto simp: run_Inr)
  have t: "tab t = failed_tables (timed_out_of pk) ''command timed out waiting for agent result'' (db_now s) (tab s)"
      "n = affected (timed_out_of pk (db_now s)) (agent_commands (tab s))"
    using failTimedOutTx_Inr [OF m] committed by (simp_all add: same_env_def)
  have "\<not> timed_out_of pk (db_now s) (fail_row message (db_now s) r)" for message r
    by (simp add: timed_out_of_def incomplete_of_def open_status_def fail_row_def)
  moreover have "pd_command_id (fail_delivery_row m now d) = pd_command_id d"
      "pd_command_status (fail_delivery_row m now d) = ''failed''" for m now d
    by (simp_all add: fail_delivery_row_def)
  ultimately have none: "\<forall>r \<in> set (agent_commands (tab t)). \<not> timed_out_of pk (db_now s) r"
    and del: "\<forall>d \<in> set (policy_deliveries (tab t)).
       (\<exists>r \<in> set (agent_commands (tab s)). timed_out_of pk (db_now s) r \<and> cmd_id r = pd_command_id d) \<longrightarrow>
       pd_command_status d = ''failed''"
    unfolding t(1) by (auto simp: failed_tables_def set_update_where intro: rev_image_eqI)
  show ?thesis
    by (intro conjI none del) (simp_all add: t failed_tables_def update_where_def affected_def)
next
  case (returned u v)
  then show ?thesis by (auto simp: run_Inr)
qed

theorem fail_timed_out_exact_witness:
  "\<exists>t. FailTimedOutAgentCommandsForNode ''pk1'' (sample_queue
       [sample_command ''c1'' ''acknowledged'' 0 1, sample_command ''c2'' ''completed'' 5 3,
        sample_command ''c3'' ''sent'' 5 20000000] [sample_delivery ''c1'' ''pending''] 40000000) = (Inr 1, t) \<and>
     map cmd_status (agent_commands (tab t)) = [''failed'', ''completed'', ''sent'']"
proof -
  let ?s = "sample_queue [sample_command ''c1'' ''acknowledged'' 0 1, sample_command ''c2'' ''completed'' 5 3,
        sample_command ''c3'' ''sent'' 5 20000000] [sample_delivery ''c1'' ''pending''] 40000000"
  let ?run = "FailTimedOutAgentCommandsForNode ''pk1'' ?s"
  have "\<not> isl (fst ?run)"
    by (simp add: FailTimedOutAgentCommandsForNode_def failTimedOutAgentCommandsForNodeTx_def queue_eval
        fail_deliveries_sql_def fail_commands_sql_def eval_defs cong: eval_congs)
  then obtain n t where run: "?run = (Inr n, t)" by (rule run_succeeds)
  from fail_timed_out_exact [OF run] run show ?thesis
    by (simp add: queue_eval timed_out_of_def incomplete_of_def open_status_def fail_row_def)
qed

end
