(* ===== verification/Policy_Sync.thy ===== *)
theory Policy_Sync
  imports Agent_Commands
begin

text \<open>
  \<^verbatim>\<open>pkg/controllerstorage/policy_deliveries.go\<close> and \<^verbatim>\<open>policy_sync.go\<close>: a change of a policy is
  delivered to a node as one \<^verbatim>\<open>sync\<close> command, a delivery row that follows the command, and a
  new desired version of the node, all in one transaction that also marks the earlier
  deliveries of the node and their commands as stale.
\<close>

section \<open>Deliveries\<close>

record PolicyDelivery =
  dl_ID :: uuid
  dl_TenantID :: uuid
  dl_NodeID :: uuid
  dl_PolicyDomain :: string
  dl_PolicyRef :: string
  dl_PolicyName :: string
  dl_Action :: string
  dl_CommandID :: uuid
  dl_CommandStatus :: string
  dl_LastError :: string
  dl_Metadata :: params
  dl_CreatedAt :: time
  dl_UpdatedAt :: time
  dl_CompletedAt :: "time option"

definition scanPolicyDelivery :: "delivery_row \<Rightarrow> PolicyDelivery" where
  "scanPolicyDelivery d = \<lparr>dl_ID = pd_id d, dl_TenantID = pd_tenant_id d, dl_NodeID = pd_node_id d,
     dl_PolicyDomain = pd_policy_domain d, dl_PolicyRef = pd_policy_ref d,
     dl_PolicyName = coalesce (pd_policy_name d) '''', dl_Action = pd_action d, dl_CommandID = pd_command_id d,
     dl_CommandStatus = pd_command_status d, dl_LastError = coalesce (pd_last_error d) '''',
     dl_Metadata = pd_metadata d, dl_CreatedAt = pd_created_at d, dl_UpdatedAt = pd_updated_at d,
     dl_CompletedAt = pd_completed_at d\<rparr>"

text \<open>
  The row refers to its command (\<^verbatim>\<open>command_id UUID NOT NULL REFERENCES agent_commands(id)\<close>); the
  references to the tenant and the node are among the refusals of the database.
\<close>

definition insert_delivery_sql ::
    "PolicyDelivery \<Rightarrow> uuid \<Rightarrow> time \<Rightarrow> tables \<Rightarrow> (tables \<times> delivery_row) option" where
  "insert_delivery_sql d i now t =
     (if (\<exists>r \<in> set (policy_deliveries t). pd_id r = i) \<or>
         \<not> (\<exists>c \<in> set (agent_commands t). cmd_id c = dl_CommandID d) then None
      else let row = \<lparr>pd_id = i, pd_tenant_id = dl_TenantID d, pd_node_id = dl_NodeID d,
             pd_policy_domain = dl_PolicyDomain d, pd_policy_ref = dl_PolicyRef d,
             pd_policy_name = Some (dl_PolicyName d), pd_action = dl_Action d,
             pd_command_id = dl_CommandID d, pd_command_status = dl_CommandStatus d,
             pd_last_error = Some (dl_LastError d), pd_metadata = dl_Metadata d,
             pd_created_at = now, pd_updated_at = now, pd_completed_at = None\<rparr>
           in Some (t\<lparr>policy_deliveries := policy_deliveries t @ [row]\<rparr>, row))"

definition createPolicyDelivery :: "PolicyDelivery \<Rightarrow> PolicyDelivery op" where
  "createPolicyDelivery d =
     (if \<not> marshal_ok (dl_Metadata d) then throw (ErrMsg ''json'')
      else bnd (insert_op (insert_delivery_sql d)) (\<lambda>r. ret (scanPolicyDelivery r)))"

definition CreatePolicyDelivery :: "PolicyDelivery \<Rightarrow> PolicyDelivery op" where
  "CreatePolicyDelivery = createPolicyDelivery"

definition UpdatePolicyDeliveryStatusByCommand :: "uuid \<Rightarrow> string \<Rightarrow> string \<Rightarrow> unit op" where
  "UpdatePolicyDeliveryStatusByCommand commandID status message =
     modify_op (update_deliveries_sql commandID status message)"

definition ListPolicyDeliveriesByNodeAndDomain :: "uuid \<Rightarrow> uuid \<Rightarrow> string \<Rightarrow> int \<Rightarrow> PolicyDelivery list op" where
  "ListPolicyDeliveriesByNodeAndDomain tenant node domain limit =
     (let limit = (if limit \<le> 0 then 100 else limit) in
      bnd (select_op (\<lambda>_ t. map scanPolicyDelivery (take (nat limit) (sort_key (\<lambda>d. - pd_created_at d)
             (filter (\<lambda>d. pd_tenant_id d = tenant \<and> pd_node_id d = node \<and> pd_policy_domain d = domain)
                (policy_deliveries t)))))) check_op)"

record PolicyDeliveryRef =
  ref_NodeID :: uuid
  ref_PolicyDomain :: string
  ref_PolicyRef :: string

definition delivery_ref :: "delivery_row \<Rightarrow> PolicyDeliveryRef" where
  "delivery_ref d = \<lparr>ref_NodeID = pd_node_id d, ref_PolicyDomain = pd_policy_domain d, ref_PolicyRef = pd_policy_ref d\<rparr>"

text \<open>\<^verbatim>\<open>SELECT DISTINCT ON (node_id, policy_domain, policy_ref) ... ORDER BY ..., created_at DESC\<close>.\<close>

definition latest_delivery :: "uuid \<Rightarrow> tables \<Rightarrow> PolicyDeliveryRef \<Rightarrow> delivery_row option" where
  "latest_delivery tenant t item =
     find (\<lambda>d. delivery_ref d = item)
       (sort_key (\<lambda>d. - pd_created_at d) (filter (\<lambda>d. pd_tenant_id d = tenant) (policy_deliveries t)))"

definition ListLatestPolicyDeliveriesByRefs ::
    "uuid \<Rightarrow> PolicyDeliveryRef list \<Rightarrow> (PolicyDeliveryRef \<times> PolicyDelivery) list op" where
  "ListLatestPolicyDeliveriesByRefs tenant items =
     (if items = [] then ret []
      else bnd (select_op (\<lambda>_ t. List.map_filter
             (\<lambda>item. map_option (\<lambda>d. (item, scanPolicyDelivery d)) (latest_delivery tenant t item)) (remdups items)))
           check_op)"

section \<open>Requests\<close>

record PolicySyncRequest =
  rq_TenantID :: uuid
  rq_NodeID :: uuid
  rq_NodePublicKey :: string
  rq_Domain :: string
  rq_Action :: string
  rq_PolicyRef :: string
  rq_PolicyName :: string
  rq_DesiredStateVersion :: string
  rq_DesiredMetadata :: params
  rq_CommandParams :: params
  rq_DeliveryMetadata :: params
  rq_Priority :: int
  rq_TimeoutSeconds :: int

record PolicySyncResult =
  rs_DesiredStateVersion :: string
  rs_ControlState :: NodeControlState
  rs_Command :: AgentCommand
  rs_Delivery :: "PolicyDelivery option"

definition trim_request :: "PolicySyncRequest \<Rightarrow> PolicySyncRequest" where
  "trim_request req = req\<lparr>rq_NodePublicKey := TrimSpace (rq_NodePublicKey req),
     rq_Domain := TrimSpace (rq_Domain req), rq_Action := TrimSpace (rq_Action req),
     rq_PolicyRef := TrimSpace (rq_PolicyRef req), rq_PolicyName := TrimSpace (rq_PolicyName req),
     rq_DesiredStateVersion := TrimSpace (rq_DesiredStateVersion req)\<rparr>"

definition normalizePolicySyncRequest :: "PolicySyncRequest \<Rightarrow> PolicySyncRequest op" where
  "normalizePolicySyncRequest req =
     (let req = trim_request req in
      if rq_TenantID req = uuid_Nil then throw (ErrMsg ''tenant id is required'')
      else if rq_NodeID req = uuid_Nil then throw (ErrMsg ''node id is required'')
      else if rq_NodePublicKey req = '''' then throw (ErrMsg ''node public key is required'')
      else if rq_Domain req = '''' then throw (ErrMsg ''policy domain is required'')
      else if rq_Action req = '''' then throw (ErrMsg ''policy action is required'')
      else if rq_DesiredStateVersion req = '''' then
        bnd NewDesiredStateVersion (\<lambda>v. ret (req\<lparr>rq_DesiredStateVersion := v\<rparr>))
      else ret req)"

section \<open>Queueing a sync\<close>

definition stale_row :: "string \<Rightarrow> time \<Rightarrow> command_row \<Rightarrow> command_row" where
  "stale_row message now r = r\<lparr>cmd_status := AgentCommandStatusStale, cmd_message := Some message,
     cmd_updated_at := now, cmd_completed_at := Some now\<rparr>"

definition stale_delivery_row :: "string \<Rightarrow> time \<Rightarrow> delivery_row \<Rightarrow> delivery_row" where
  "stale_delivery_row message now d = d\<lparr>pd_command_status := AgentCommandStatusStale,
     pd_last_error := Some message, pd_updated_at := now, pd_completed_at := Some now\<rparr>"

definition open_delivery_of :: "uuid \<Rightarrow> uuid \<Rightarrow> delivery_row \<Rightarrow> bool" where
  "open_delivery_of tenant node d \<longleftrightarrow>
     pd_tenant_id d = tenant \<and> pd_node_id d = node \<and> open_status (pd_command_status d)"

definition superseded :: "PolicySyncRequest \<Rightarrow> tables \<Rightarrow> command_row \<Rightarrow> bool" where
  "superseded req t r \<longleftrightarrow> cmd_node_public_key r = rq_NodePublicKey req \<and> open_status (cmd_status r) \<and>
     (\<exists>d \<in> set (policy_deliveries t). pd_command_id d = cmd_id r \<and> open_delivery_of (rq_TenantID req) (rq_NodeID req) d)"

definition supersede_message :: "PolicySyncRequest \<Rightarrow> string" where
  "supersede_message req = ''superseded by desired state '' @ rq_DesiredStateVersion req"

definition stale_commands_sql :: "PolicySyncRequest \<Rightarrow> time \<Rightarrow> tables \<Rightarrow> tables \<times> unit" where
  "stale_commands_sql req now t =
     (t\<lparr>agent_commands := update_where (superseded req t) (stale_row (supersede_message req) now) (agent_commands t)\<rparr>, ())"

definition stale_deliveries_sql :: "PolicySyncRequest \<Rightarrow> time \<Rightarrow> tables \<Rightarrow> tables \<times> unit" where
  "stale_deliveries_sql req now t =
     (t\<lparr>policy_deliveries := update_where (open_delivery_of (rq_TenantID req) (rq_NodeID req))
          (stale_delivery_row (supersede_message req) now) (policy_deliveries t)\<rparr>, ())"

definition markSupersededPolicySyncsTx :: "PolicySyncRequest \<Rightarrow> unit op" where
  "markSupersededPolicySyncsTx req =
     bnd (modify_op (stale_commands_sql req)) (\<lambda>_. modify_op (stale_deliveries_sql req))"

definition new_delivery :: "PolicySyncRequest \<Rightarrow> AgentCommand \<Rightarrow> PolicyDelivery" where
  "new_delivery req cmd = \<lparr>dl_ID = uuid_Nil, dl_TenantID = rq_TenantID req, dl_NodeID = rq_NodeID req,
     dl_PolicyDomain = rq_Domain req, dl_PolicyRef = rq_PolicyRef req, dl_PolicyName = rq_PolicyName req,
     dl_Action = rq_Action req, dl_CommandID = ac_ID cmd, dl_CommandStatus = ac_Status cmd,
     dl_LastError = '''', dl_Metadata = rq_DeliveryMetadata req, dl_CreatedAt = 0, dl_UpdatedAt = 0,
     dl_CompletedAt = None\<rparr>"

definition queuePolicySyncTx :: "PolicySyncRequest \<Rightarrow> PolicySyncResult op" where
  "queuePolicySyncTx req =
     bnd (normalizePolicySyncRequest req) (\<lambda>req.
     bnd (upsertNodeDesiredState (rq_TenantID req) (rq_NodeID req) (rq_DesiredStateVersion req) (rq_DesiredMetadata req)) (\<lambda>state.
     bnd (markSupersededPolicySyncsTx req) (\<lambda>_.
     bnd (queueAgentCommand (rq_NodePublicKey req) ''sync'' (rq_CommandParams req) (rq_Priority req) (rq_TimeoutSeconds req)) (\<lambda>cmd.
     bnd (if rq_PolicyRef req \<noteq> '''' then bnd (createPolicyDelivery (new_delivery req cmd)) (\<lambda>d. ret (Some d))
          else ret None) (\<lambda>delivery.
     ret \<lparr>rs_DesiredStateVersion = rq_DesiredStateVersion req, rs_ControlState = state,
       rs_Command = cmd, rs_Delivery = delivery\<rparr>)))))"

definition queued_event :: "PolicySyncRequest \<Rightarrow> AgentCommand \<Rightarrow> AuditEvent" where
  "queued_event req cmd = \<lparr>ae_TenantID = rq_TenantID req, ae_NodeID = Some (rq_NodeID req),
     ae_EventType = ''command.queued'', ae_Actor = ''controller'',
     ae_Summary = ''Command queued: '' @ ac_Command cmd,
     ae_Detail = [(''command_id'', VString (ac_ID cmd)), (''command'', VString (ac_Command cmd)),
       (''policy_domain'', VString (rq_Domain req)), (''policy_ref'', VString (rq_PolicyRef req)),
       (''desired_state_version'', VString (rq_DesiredStateVersion req))]\<rparr>"

definition recordCommandQueuedAudit :: "PolicySyncRequest \<Rightarrow> AgentCommand \<Rightarrow> unit op" where
  "recordCommandQueuedAudit req cmd = bnd (attempt (CreateAuditEvent (queued_event req cmd))) (\<lambda>_. ret ())"

definition QueuePolicySync :: "PolicySyncRequest \<Rightarrow> PolicySyncResult op" where
  "QueuePolicySync req =
     bnd (normalizePolicySyncRequest req) (\<lambda>req.
     bnd (transaction (bnd (queuePolicySyncTx req) (\<lambda>r. ret (TxCommit r)))) (\<lambda>result.
     bnd (recordCommandQueuedAudit req (rs_Command result)) (\<lambda>_. ret result)))"

text \<open>
  A policy is changed and its sync queued in one transaction; \<open>mutate\<close> is the caller's
  function. The audit event carries the request as \<open>mutate\<close> returned it.
\<close>

definition MutatePolicyAndQueueSync :: "PolicySyncRequest op \<Rightarrow> PolicySyncResult op" where
  "MutatePolicyAndQueueSync mutate =
     bnd (transaction (bnd mutate (\<lambda>req. bnd (queuePolicySyncTx req) (\<lambda>r. ret (TxCommit (req, r)))))) (\<lambda>(req, result).
     bnd (recordCommandQueuedAudit req (rs_Command result)) (\<lambda>_. ret result))"

section \<open>What a queued sync does to the tables\<close>

definition synced_commands :: "PolicySyncRequest \<Rightarrow> time \<Rightarrow> tables \<Rightarrow> command_row list" where
  "synced_commands req now t = update_where (superseded req t) (stale_row (supersede_message req) now) (agent_commands t)"

definition synced_deliveries :: "PolicySyncRequest \<Rightarrow> time \<Rightarrow> tables \<Rightarrow> delivery_row list" where
  "synced_deliveries req now t = update_where (open_delivery_of (rq_TenantID req) (rq_NodeID req))
     (stale_delivery_row (supersede_message req) now) (policy_deliveries t)"



lemma normalize_Inr:
  assumes "normalizePolicySyncRequest req s = (Inr req', t)"
  shows "tab t = tab s" "same_env s t"
    "\<exists>v. req' = (trim_request req)\<lparr>rq_DesiredStateVersion := v\<rparr> \<and>
       (TrimSpace (rq_DesiredStateVersion req) \<noteq> '''' \<longrightarrow> v = TrimSpace (rq_DesiredStateVersion req))"
    "TrimSpace (rq_DesiredStateVersion req') \<noteq> ''''"
  using assms unfolding normalizePolicySyncRequest_def Let_def
  by (auto simp: run_Inr trim_request_def dest: NewDesiredStateVersion_Inr split: if_split_asm)

lemma without_control_fields:
  "without_control u = without_control t \<Longrightarrow> agent_commands u = agent_commands t"
  "without_control u = without_control t \<Longrightarrow> policy_deliveries u = policy_deliveries t"
  "without_control u = without_control t \<Longrightarrow> nodes u = nodes t"
  by (auto simp: without_control_def dest: arg_cong [where f = agent_commands]
      arg_cong [where f = policy_deliveries] arg_cong [where f = nodes])

lemma without_alerts_fields:
  "without_alerts u = without_alerts t \<Longrightarrow> agent_commands u = agent_commands t"
  "without_alerts u = without_alerts t \<Longrightarrow> policy_deliveries u = policy_deliveries t"
  "without_alerts u = without_alerts t \<Longrightarrow> node_control_states u = node_control_states t"
  by (auto simp: without_alerts_def dest: arg_cong [where f = agent_commands]
      arg_cong [where f = policy_deliveries] arg_cong [where f = node_control_states])

lemma mark_superseded_Inr:
  assumes "markSupersededPolicySyncsTx req s = (Inr (), t)"
  shows "agent_commands (tab t) = synced_commands req (db_now s) (tab s)"
    "policy_deliveries (tab t) = synced_deliveries req (db_now s) (tab s)"
    "node_control_states (tab t) = node_control_states (tab s)" "same_env s t"
proof -
  from assms obtain u where a: "modify_op (stale_commands_sql req) s = (Inr (), u)"
      and b: "modify_op (stale_deliveries_sql req) u = (Inr (), t)"
    by (auto simp: markSupersededPolicySyncsTx_def run_Inr)
  note a = modify_Inr [OF a] and b = modify_Inr [OF b]
  have u: "tab u = fst (stale_commands_sql req (db_now s) (tab s))" using a(1) by simp
  have t: "tab t = fst (stale_deliveries_sql req (db_now s) (tab u))" using b(1) a(2) by (simp add: same_env_def)
  show "agent_commands (tab t) = synced_commands req (db_now s) (tab s)"
    "policy_deliveries (tab t) = synced_deliveries req (db_now s) (tab s)"
    "node_control_states (tab t) = node_control_states (tab s)"
    by (simp_all add: t u stale_commands_sql_def stale_deliveries_sql_def synced_commands_def synced_deliveries_def)
  show "same_env s t" using a(2) b(2) by (simp add: same_env_def)
qed

lemma queue_command_Inr:
  assumes "queueAgentCommand pk command params priority timeout s = (Inr cmd, t)"
  obtains r where "agent_commands (tab t) = agent_commands (tab s) @ [r]" "cmd = scanAgentCommandRow r"
    "cmd_id r \<notin> cmd_id ` set (agent_commands (tab s))" "cmd_status r = ''pending''" "cmd_node_public_key r = pk"
    "cmd_command r = TrimSpace command" "cmd_params r = params" "cmd_priority r = priority"
    "policy_deliveries (tab t) = policy_deliveries (tab s)" "node_control_states (tab t) = node_control_states (tab s)"
    "same_env s t"
proof -
  from assms obtain u r where c: "check_command (TrimSpace command) params s = (Inr (), u)"
      and i: "insert_op (insert_command_sql (TrimSpace command) params priority (default_timeout timeout) pk) u = (Inr r, t)"
      and cmd: "cmd = scanAgentCommandRow r"
    by (auto simp: queueAgentCommand_def Let_def run_Inr split: if_split_asm)
  have "u = s" using c by (auto simp: check_command_def run_Inr split: if_split_asm)
  with insert_Inr [OF i] cmd show ?thesis
    by (intro that [of r]) (auto simp: insert_command_sql_def Let_def eq_commute [of _ "tab t"] split: if_split_asm)
qed

lemma create_delivery_Inr:
  assumes "createPolicyDelivery d s = (Inr x, t)"
  obtains r where "policy_deliveries (tab t) = policy_deliveries (tab s) @ [r]" "x = scanPolicyDelivery r"
    "pd_command_id r = dl_CommandID d" "pd_command_status r = dl_CommandStatus d"
    "pd_tenant_id r = dl_TenantID d" "pd_node_id r = dl_NodeID d" "pd_policy_ref r = dl_PolicyRef d"
    "agent_commands (tab t) = agent_commands (tab s)" "node_control_states (tab t) = node_control_states (tab s)"
    "same_env s t"
proof -
  from assms obtain r where i: "insert_op (insert_delivery_sql d) s = (Inr r, t)" and x: "x = scanPolicyDelivery r"
    by (auto simp: createPolicyDelivery_def run_Inr split: if_split_asm)
  from insert_Inr [OF i] x show ?thesis
    by (intro that [of r]) (auto simp: insert_delivery_sql_def Let_def eq_commute [of _ "tab t"] split: if_split_asm)
qed

lemma map_synced_id [simp]:
  "map cmd_id (synced_commands req now t) = map cmd_id (agent_commands t)"
  "map pd_command_id (synced_deliveries req now t) = map pd_command_id (policy_deliveries t)"
  by (simp_all add: synced_commands_def synced_deliveries_def map_key_update_where stale_row_def stale_delivery_row_def)

text \<open>
  The tables after a queued sync: the superseded commands and the open deliveries of the node
  are stale, one pending command is new, and one delivery of it if the request names a policy.
\<close>

lemma queue_sync_Inr:
  assumes "queuePolicySyncTx req s = (Inr res, t)"
  obtains req' c ds where
    "\<exists>v. req' = (trim_request req)\<lparr>rq_DesiredStateVersion := v\<rparr> \<and>
       (TrimSpace (rq_DesiredStateVersion req) \<noteq> '''' \<longrightarrow> v = TrimSpace (rq_DesiredStateVersion req))"
    "agent_commands (tab t) = synced_commands req' (db_now s) (tab s) @ [c]"
    "cmd_id c \<notin> cmd_id ` set (agent_commands (tab s))" "cmd_status c = ''pending''"
    "cmd_node_public_key c = rq_NodePublicKey req'" "cmd_command c = ''sync''" "cmd_params c = rq_CommandParams req"
    "rs_Command res = scanAgentCommandRow c" "rs_DesiredStateVersion res = rq_DesiredStateVersion req'"
    "\<exists>r. control_row (rq_NodeID req) (tab t) = Some r \<and> ncs_desired_version r = Some (rs_DesiredStateVersion res)"
    "policy_deliveries (tab t) = synced_deliveries req' (db_now s) (tab s) @ ds"
    "ds = (if rq_PolicyRef req' = '''' then [] else [hd ds])"
    "\<forall>d \<in> set ds. pd_command_id d = cmd_id c \<and> pd_command_status d = ''pending'' \<and>
       pd_tenant_id d = rq_TenantID req \<and> pd_node_id d = rq_NodeID req \<and> rs_Delivery res = Some (scanPolicyDelivery d)"
proof -
  from assms obtain req' s1 st s2 s3 cmd s4 del where
      n: "normalizePolicySyncRequest req s = (Inr req', s1)"
      and u: "upsertNodeDesiredState (rq_TenantID req') (rq_NodeID req') (rq_DesiredStateVersion req')
            (rq_DesiredMetadata req') s1 = (Inr st, s2)"
      and m: "markSupersededPolicySyncsTx req' s2 = (Inr (), s3)"
      and q: "queueAgentCommand (rq_NodePublicKey req') ''sync'' (rq_CommandParams req') (rq_Priority req')
            (rq_TimeoutSeconds req') s3 = (Inr cmd, s4)"
      and d: "(if rq_PolicyRef req' \<noteq> '''' then bnd (createPolicyDelivery (new_delivery req' cmd)) (\<lambda>d. ret (Some d))
            else ret None) s4 = (Inr del, t)"
      and res: "res = \<lparr>rs_DesiredStateVersion = rq_DesiredStateVersion req', rs_ControlState = st,
            rs_Command = cmd, rs_Delivery = del\<rparr>"
    unfolding queuePolicySyncTx_def bnd_Inr ret_Inr by auto
  note n' = normalize_Inr [OF n]
  note u' = upsert_desired_Inr [OF u n'(4)]
  have env2: "same_env s s2" using n'(2) u'(3) by (simp add: same_env_def)
  have "without_control (tab s2) = without_control (tab s)"
    using control_frame.frame_run [OF maintains_upsertNodeDesiredState(1) u] n'(1) by simp
  note s2 = without_control_fields [OF this]
  note m' = mark_superseded_Inr [OF m]
  have trim: "TrimSpace ''sync'' = ''sync''" by code_simp
  from q obtain c where c: "agent_commands (tab s4) = agent_commands (tab s3) @ [c]" "cmd = scanAgentCommandRow c"
      "cmd_id c \<notin> cmd_id ` set (agent_commands (tab s3))" "cmd_status c = ''pending''"
      "cmd_node_public_key c = rq_NodePublicKey req'" "cmd_command c = ''sync''" "cmd_params c = rq_CommandParams req'"
      "policy_deliveries (tab s4) = policy_deliveries (tab s3)" "node_control_states (tab s4) = node_control_states (tab s3)"
    by (rule queue_command_Inr) (simp_all add: trim)
  obtain ds where ds: "policy_deliveries (tab t) = policy_deliveries (tab s4) @ ds" "agent_commands (tab t) = agent_commands (tab s4)"
      "node_control_states (tab t) = node_control_states (tab s4)"
      "ds = (if rq_PolicyRef req' = '''' then [] else [hd ds])"
      "\<forall>d \<in> set ds. pd_command_id d = cmd_id c \<and> pd_command_status d = ''pending'' \<and>
         pd_tenant_id d = rq_TenantID req' \<and> pd_node_id d = rq_NodeID req' \<and> del = Some (scanPolicyDelivery d)"
  proof (cases "rq_PolicyRef req' = ''''")
    case True
    with d show ?thesis by (intro that [of "[]"]) (simp_all add: ret_Inr)
  next
    case False
    with d obtain x where "createPolicyDelivery (new_delivery req' cmd) s4 = (Inr x, t)" "del = Some x"
      by (auto simp: run_Inr)
    from this(1) obtain r where "policy_deliveries (tab t) = policy_deliveries (tab s4) @ [r]" "x = scanPolicyDelivery r"
        "pd_command_id r = dl_CommandID (new_delivery req' cmd)" "pd_command_status r = dl_CommandStatus (new_delivery req' cmd)"
        "pd_tenant_id r = rq_TenantID req'" "pd_node_id r = rq_NodeID req'" "agent_commands (tab t) = agent_commands (tab s4)"
        "node_control_states (tab t) = node_control_states (tab s4)"
      by (rule create_delivery_Inr) (simp add: new_delivery_def)
    with \<open>del = Some x\<close> False c(2,4) show ?thesis
      by (intro that [of "[r]"]) (simp_all add: new_delivery_def scanAgentCommandRow_def)
  qed
  have ids: "cmd_id ` set (synced_commands req' now (tab s)) = cmd_id ` set (agent_commands (tab s))" for now
    by (simp only: set_map [symmetric] map_synced_id)
  have same: "synced_commands req' now (tab s2) = synced_commands req' now (tab s)"
    "synced_deliveries req' now (tab s2) = synced_deliveries req' now (tab s)" for now
    using s2 by (simp_all add: synced_commands_def synced_deliveries_def superseded_def [abs_def])
  have now: "db_now s2 = db_now s" using env2 by (simp add: same_env_def)
  have req': "rq_TenantID req' = rq_TenantID req" "rq_NodeID req' = rq_NodeID req" "rq_CommandParams req' = rq_CommandParams req"
    using n'(3) by (auto simp: trim_request_def)
  have "control_row k (tab t) = control_row k (tab s2)" for k
    using ds(3) c(9) m'(3) by (simp add: control_row_def)
  with u'(1) have row: "\<exists>r. control_row (rq_NodeID req) (tab t) = Some r \<and>
      ncs_desired_version r = Some (rs_DesiredStateVersion res)"
    using req' res by auto
  show ?thesis
    using n'(3) m' c ds res ids same now req' row
    by (intro that [of req' c ds]) simp_all
qed

section \<open>Commands and their deliveries\<close>

text \<open>
  Command identifiers are unique, a delivery refers to a command and is the only one of it, and
  a command that is over has no open delivery.
\<close>

definition sync_rows :: "command_row list \<Rightarrow> delivery_row list \<Rightarrow> bool" where
  "sync_rows cs ds \<longleftrightarrow> distinct (map cmd_id cs) \<and> distinct (map pd_command_id ds) \<and>
     (\<forall>d \<in> set ds. pd_command_id d \<in> cmd_id ` set cs) \<and>
     (\<forall>c \<in> set cs. \<forall>d \<in> set ds. pd_command_id d = cmd_id c \<longrightarrow> terminal_status (cmd_status c) \<longrightarrow>
        \<not> open_status (pd_command_status d))"

definition sync_inv :: "tables \<Rightarrow> bool" where
  "sync_inv t \<longleftrightarrow> sync_rows (agent_commands t) (policy_deliveries t)"

interpretation sync: table_invariant sync_inv .

lemma sync_inv_cmds: "sync_inv t \<Longrightarrow> cmds_inv t"
  by (simp add: sync_inv_def sync_rows_def cmds_inv_def)

lemma terminal_not_open: "terminal_status st \<Longrightarrow> \<not> open_status st"
  by (auto simp: terminal_status_def open_status_def)

lemma sync_rows_map:
  assumes "sync_rows cs ds"
    and "\<And>c. c \<in> set cs \<Longrightarrow> cmd_id (f c) = cmd_id c" and "\<And>d. d \<in> set ds \<Longrightarrow> pd_command_id (g d) = pd_command_id d"
    and "\<And>c d. c \<in> set cs \<Longrightarrow> d \<in> set ds \<Longrightarrow> pd_command_id d = cmd_id c \<Longrightarrow> terminal_status (cmd_status (f c)) \<Longrightarrow>
           \<not> open_status (pd_command_status (g d))"
  shows "sync_rows (map f cs) (map g ds)"
proof -
  have ids: "map cmd_id (map f cs) = map cmd_id cs" "map pd_command_id (map g ds) = map pd_command_id ds"
    using assms(2,3) by simp_all
  have img: "cmd_id ` set (map f cs) = cmd_id ` set cs"
    using ids(1) by (simp only: set_map [symmetric])
  have "pd_command_id d \<in> cmd_id ` set (map f cs)" if "d \<in> set (map g ds)" for d
    unfolding img using that assms(1,3) by (auto simp: sync_rows_def)
  moreover have "\<not> open_status (pd_command_status d)"
    if "c \<in> set (map f cs)" "d \<in> set (map g ds)" "pd_command_id d = cmd_id c" "terminal_status (cmd_status c)" for c d
    using that assms(2-4) by auto
  ultimately show ?thesis
    using assms(1) unfolding sync_rows_def ids by blast
qed

lemma sync_rows_cmds:
  assumes "sync_rows cs ds"
    and "\<And>c. c \<in> set cs \<Longrightarrow> P c \<Longrightarrow> cmd_id (f c) = cmd_id c \<and> \<not> terminal_status (cmd_status (f c))"
  shows "sync_rows (update_where P f cs) ds"
proof -
  have "sync_rows (map (\<lambda>c. if P c then f c else c) cs) (map id ds)"
    by (rule sync_rows_map [OF assms(1)]) (use assms in \<open>auto simp: sync_rows_def split: if_split_asm\<close>)
  then show ?thesis by (simp add: update_where_def)
qed

lemma sync_rows_append:
  assumes "sync_rows cs ds" and "cmd_id c \<notin> cmd_id ` set cs" and "\<not> terminal_status (cmd_status c)"
    and "ds' = [] \<or> (\<exists>d. ds' = [d] \<and> pd_command_id d = cmd_id c)"
  shows "sync_rows (cs @ [c]) (ds @ ds')"
  using assms unfolding sync_rows_def by (elim disjE exE conjE) force+

lemma sync_rows_failed:
  assumes "sync_rows cs ds"
  shows "sync_rows (update_where sel (fail_row m now) cs)
     (update_where (\<lambda>d. pd_command_id d \<in> set (map cmd_id (filter sel cs))) (fail_delivery_row m now) ds)"
  unfolding update_where_def
proof (rule sync_rows_map [OF assms])
  fix c d
  assume cd: "c \<in> set cs" "d \<in> set ds" "pd_command_id d = cmd_id c"
    "terminal_status (cmd_status (if sel c then fail_row m now c else c))"
  have "\<not> open_status (pd_command_status (fail_delivery_row m now d))"
    by (simp add: fail_delivery_row_def open_status_def)
  moreover have "pd_command_id d \<in> set (map cmd_id (filter sel cs))" if "sel c"
    using that cd by auto
  moreover have "\<not> open_status (pd_command_status d)" if "\<not> sel c"
    using that cd assms by (simp add: sync_rows_def)
  ultimately show "\<not> open_status (pd_command_status (if pd_command_id d \<in> set (map cmd_id (filter sel cs))
      then fail_delivery_row m now d else d))"
    by (cases "sel c") simp_all
qed (simp_all add: fail_row_def fail_delivery_row_def)

lemma sync_rows_status:
  assumes "sync_rows cs ds"
  shows "sync_rows (update_where (\<lambda>r. cmd_id r = i) (status_row st m res now) cs)
     (update_where (\<lambda>d. pd_command_id d = i) (status_delivery_row st m now) ds)"
  unfolding update_where_def
  by (rule sync_rows_map [OF assms])
     (use assms in \<open>auto simp: status_row_def status_delivery_row_def sync_rows_def dest: terminal_not_open\<close>)

lemma sync_rows_synced:
  assumes "sync_inv t"
  shows "sync_rows (synced_commands req now t) (synced_deliveries req now t)"
  unfolding synced_commands_def synced_deliveries_def update_where_def
proof (rule sync_rows_map)
  show "sync_rows (agent_commands t) (policy_deliveries t)" using assms by (simp add: sync_inv_def)
  fix c d
  assume cd: "c \<in> set (agent_commands t)" "d \<in> set (policy_deliveries t)" "pd_command_id d = cmd_id c"
    and over: "terminal_status (cmd_status (if superseded req t c then stale_row (supersede_message req) now c else c))"
  have stale: "\<not> open_status (pd_command_status (stale_delivery_row m now d))" for m
    by (simp add: stale_delivery_row_def open_status_def)
  show "\<not> open_status (pd_command_status (if open_delivery_of (rq_TenantID req) (rq_NodeID req) d
      then stale_delivery_row (supersede_message req) now d else d))"
  proof (cases "superseded req t c")
    case True
    then obtain d' where d': "d' \<in> set (policy_deliveries t)" "pd_command_id d' = cmd_id c"
        "open_delivery_of (rq_TenantID req) (rq_NodeID req) d'"
      by (auto simp: superseded_def)
    have "d' = d"
      using assms d' cd by (intro distinct_key_eq [of pd_command_id "policy_deliveries t"])
        (auto simp: sync_inv_def sync_rows_def)
    with d'(3) stale show ?thesis by simp
  next
    case False
    with over cd assms stale show ?thesis by (auto simp: sync_inv_def sync_rows_def)
  qed
qed (auto simp: stale_row_def stale_delivery_row_def)

lemma sync_inv_same:
  "agent_commands u = agent_commands t \<Longrightarrow> policy_deliveries u = policy_deliveries t \<Longrightarrow> invar_rel sync_inv t u"
  by (simp add: invar_rel_def sync_inv_def)

lemma maintains_sync_alerts: "maintains (keeps without_alerts) m \<Longrightarrow> maintains (invar_rel sync_inv) m"
  by (erule maintains_mono) (auto simp: keeps_def intro!: sync_inv_same dest: without_alerts_fields)

lemma sync_inv_insert: "insert_command_sql c p pr ti pk i now t = Some (t', x) \<Longrightarrow> invar_rel sync_inv t t'"
  using sync_rows_append [of "agent_commands t" "policy_deliveries t" x "[]"]
  by (force simp: insert_command_sql_def Let_def invar_rel_def sync_inv_def terminal_status_def
      split: if_split_asm)

lemma sync_inv_update:
  assumes "\<And>c. cmd_id (f c) = cmd_id c" and "\<And>c. \<not> terminal_status (cmd_status (f c))"
  shows "invar_rel sync_inv t (t\<lparr>agent_commands := update_where P f (agent_commands t)\<rparr>)"
  using sync_rows_cmds [of "agent_commands t" "policy_deliveries t" P f] assms
  by (simp add: invar_rel_def sync_inv_def)

lemma maintains_sync_queue [maintains_rules]:
  "maintains (invar_rel sync_inv) (queueAgentCommand pk command params priority timeout)"
  "maintains (invar_rel sync_inv) (QueueAgentCommands targets command params priority timeout)"
  unfolding queueAgentCommand_def QueueAgentCommands_def check_command_def
  by (intro maintains_rules; erule sync_inv_insert)+

lemma maintains_sync_GetNext [maintains_rules]:
  "maintains (invar_rel sync_inv) (GetNextPendingAgentCommand locked pk)"
  unfolding GetNextPendingAgentCommand_def
  by (intro maintains_rules)
     (simp_all add: requeue_timed_out_sql_def requeue_row_def mark_sent_sql_def sent_row_def
        terminal_status_def sync_inv_update)

lemma maintains_sync_Requeue [maintains_rules]:
  "maintains (invar_rel sync_inv) (RequeueSentAgentCommand i pk m)"
  unfolding RequeueSentAgentCommand_def requeue_sent_sql_def Let_def
  by (intro maintains_rules) (simp_all add: terminal_status_def sync_inv_update)

lemma sync_inv_failed: "invar_rel sync_inv t (failed_tables sel m now t)"
  using sync_rows_failed [of "agent_commands t" "policy_deliveries t" "sel now" m now]
  by (simp add: invar_rel_def sync_inv_def failed_tables_def)

lemma maintains_sync_fail [maintains_rules]:
  "maintains (invar_rel sync_inv) (FailIncompleteAgentCommandsForNode pk m)"
  "maintains (invar_rel sync_inv) (FailTimedOutAgentCommandsForNode pk)"
  unfolding FailIncompleteAgentCommandsForNode_def FailTimedOutAgentCommandsForNode_def
  by (rule sync.maintains_transaction_commit;
      auto simp: run_Inr failIncompleteTx_Inr(1) failTimedOutTx_Inr(1) sync_inv_failed)+

lemma maintains_sync_update [maintains_rules]:
  "maintains (invar_rel sync_inv) (updateAgentCommandStatus i pk status message result)"
proof -
  have "invar_rel sync_inv (tab s) (tab t)"
    if run: "update_status_tx i pk st message result s = (Inr (TxCommit x), t)" for st x s t
    unfolding invar_rel_def
  proof
    assume inv: "sync_inv (tab s)"
    have "update_status_tx i pk st message result s = (Inr (TxCommit True), t)"
      using update_status_tx_result [OF run] run by auto
    then show "sync_inv (tab t)"
      by (rule committed_report [OF _ sync_inv_cmds [OF inv]])
         (use inv sync_rows_status in \<open>simp add: sync_inv_def\<close>)
  qed
  then show ?thesis
    unfolding updateAgentCommandStatus_def
    by (intro maintains_rules sync.maintains_transaction_commit maintains_sync_alerts [OF maintains_emitCommand])
qed

lemma sync_inv_queued:
  assumes "queuePolicySyncTx req s = (Inr res, t)"
  shows "invar_rel sync_inv (tab s) (tab t)"
  unfolding invar_rel_def
proof
  assume inv: "sync_inv (tab s)"
  from assms show "sync_inv (tab t)"
  proof (rule queue_sync_Inr, goal_cases)
    case (1 req' c ds)
    have "ds = [] \<or> (\<exists>d. ds = [d] \<and> pd_command_id d = cmd_id c)"
      using 1(12,13) by (cases ds) (auto split: if_split_asm)
    moreover have "cmd_id ` set (synced_commands req' now T) = cmd_id ` set (agent_commands T)" for now T
      by (simp only: set_map [symmetric] map_synced_id)
    ultimately show ?case
      using sync_rows_append [OF sync_rows_synced [OF inv, of req' "db_now s"], of c ds] 1(2-4,11)
      by (simp add: sync_inv_def terminal_status_def)
  qed
qed

lemma maintains_recordAudit [maintains_rules]:
  "maintains (keeps without_alerts) (recordCommandQueuedAudit req cmd)"
  unfolding recordCommandQueuedAudit_def by (intro maintains_rules)

lemma recordAudit_total: "\<exists>t. recordCommandQueuedAudit req cmd s = (Inr (), t)"
  by (auto simp: recordCommandQueuedAudit_def bnd_def attempt_def ret_def split: prod.split)

lemma maintains_normalize: "table_relation R \<Longrightarrow> maintains R (normalizePolicySyncRequest req)"
  unfolding normalizePolicySyncRequest_def NewDesiredStateVersion_def Let_def
  by (intro table_relation.maintains_if table_relation.maintains_throw table_relation.maintains_bnd
      table_relation.maintains_ret table_relation.maintains_time_Now table_relation.maintains_uuid_NewString)

lemma maintains_sync_QueuePolicySync [maintains_rules]:
  "maintains (invar_rel sync_inv) (QueuePolicySync req)"
  unfolding QueuePolicySync_def
  by (intro maintains_rules maintains_normalize sync.table_relation_axioms sync.maintains_transaction_commit
      maintains_sync_alerts [OF maintains_recordAudit])
     (auto simp: run_Inr intro: sync_inv_queued)

lemma maintains_sync_Mutate:
  assumes "maintains (invar_rel sync_inv) mutate"
  shows "maintains (invar_rel sync_inv) (MutatePolicyAndQueueSync mutate)"
proof -
  have "invar_rel sync_inv (tab s) (tab t)"
    if run: "bnd mutate (\<lambda>req. bnd (queuePolicySyncTx req) (\<lambda>r. ret (TxCommit (req, r)))) s = (Inr (TxCommit x), t)" for s x t
  proof -
    from run obtain req u where "mutate s = (Inr req, u)" "queuePolicySyncTx req u = (Inr (snd x), t)"
      by (auto simp: run_Inr)
    with maintainsD [OF assms, of s] sync_inv_queued show ?thesis by (blast intro: sync.R_trans)
  qed
  then show ?thesis
    unfolding MutatePolicyAndQueueSync_def
    by (intro maintains_rules sync.maintains_transaction_commit maintains_sync_alerts [OF maintains_recordAudit])
qed

lemma cmd_rel_stale:
  "cmd_rel t (fst (stale_commands_sql req now t))" "cmd_rel t (fst (stale_deliveries_sql req now t))"
proof -
  show "cmd_rel t (fst (stale_commands_sql req now t))"
    by (rule cmd_rel_update [of _ "superseded req t" "stale_row (supersede_message req) now"])
       (auto simp: stale_commands_sql_def superseded_def stale_row_def intro!: cmd_step_status supersede)
qed (simp add: stale_deliveries_sql_def cmd_rel_same)

lemma maintains_cmd_createDelivery [maintains_rules]: "maintains cmd_rel (createPolicyDelivery d)"
  unfolding createPolicyDelivery_def
  by (intro maintains_rules) (auto simp: insert_delivery_sql_def Let_def intro: cmd_rel_same split: if_split_asm)

lemma maintains_cmd_queueSyncTx [maintains_rules]: "maintains cmd_rel (queuePolicySyncTx req)"
  unfolding queuePolicySyncTx_def markSupersededPolicySyncsTx_def
  by (intro maintains_rules maintains_normalize cmds.grel.table_relation_axioms cmd_rel_stale
      maintains_cmd_control [OF maintains_upsertNodeDesiredState(1)])

lemma maintains_cmd_QueuePolicySync [maintains_rules]: "maintains cmd_rel (QueuePolicySync req)"
  unfolding QueuePolicySync_def
  by (intro maintains_rules maintains_normalize cmds.grel.table_relation_axioms
      maintains_cmd_alerts [OF maintains_recordAudit])

section \<open>Atomicity\<close>

text \<open>
  (C23) A failed policy change leaves nothing behind: if the caller's change of a policy, the
  queueing of its sync or the commit fails, every table is as before the call; the same for a
  sync without a change.
\<close>

theorem policy_change_atomic:
  "atomic_on_error (MutatePolicyAndQueueSync mutate) \<and> atomic_on_error (QueuePolicySync req)"
proof
  have audit: "\<not> (\<exists>e t. bnd (recordCommandQueuedAudit req cmd) (\<lambda>_. ret res) s = (Inl e, t))" for req cmd and res :: PolicySyncResult and s
    using recordAudit_total [of req cmd s] by (auto simp: bnd_def ret_def)
  show "atomic_on_error (MutatePolicyAndQueueSync mutate)"
    using transaction_atomic [of "bnd mutate (\<lambda>req. bnd (queuePolicySyncTx req) (\<lambda>r. ret (TxCommit (req, r))))"] audit
    by (auto simp: atomic_on_error_def MutatePolicyAndQueueSync_def bnd_def [of "transaction _"]
        split: prod.splits sum.splits)
  show "atomic_on_error (QueuePolicySync req)"
    unfolding atomic_on_error_def
  proof (intro allI impI)
    fix s e t
    assume run: "QueuePolicySync req s = (Inl e, t)"
    obtain r u where n: "normalizePolicySyncRequest req s = (r, u)" by fastforce
    have u: "tab u = tab s"
      using maintainsD [OF maintains_normalize [OF unchanged.table_relation_axioms] n] by (simp add: keeps_def)
    show "tab t = tab s"
    proof (cases r)
      case (Inl e')
      with run n u show ?thesis by (simp add: QueuePolicySync_def bnd_def)
    next
      case (Inr req')
      obtain r' v where x: "transaction (bnd (queuePolicySyncTx req') (\<lambda>r. ret (TxCommit r))) u = (r', v)" by fastforce
      have "tab v = tab u" if "isl r'"
        using transaction_atomic [of "bnd (queuePolicySyncTx req') (\<lambda>r. ret (TxCommit r))"] x that
        unfolding atomic_on_error_def by (cases r') auto
      with run n Inr x u audit show ?thesis
        by (cases r') (auto simp: QueuePolicySync_def bnd_def [of "normalizePolicySyncRequest _"] bnd_def [of "transaction _"])
    qed
  qed
qed

section \<open>A queued sync\<close>

lemma QueuePolicySync_Inr:
  assumes "QueuePolicySync req s = (Inr res, t)"
  obtains req1 u v where "\<exists>w. req1 = (trim_request req)\<lparr>rq_DesiredStateVersion := w\<rparr>"
    "queuePolicySyncTx req1 u = (Inr res, v)" "tab u = tab s" "same_env s u"
    "without_alerts (tab t) = without_alerts (tab v)"
proof -
  from assms obtain req1 s1 s2 where n: "normalizePolicySyncRequest req s = (Inr req1, s1)"
      and x: "transaction (bnd (queuePolicySyncTx req1) (\<lambda>r. ret (TxCommit r))) s1 = (Inr res, s2)"
      and a: "recordCommandQueuedAudit req1 (rs_Command res) s2 = (Inr (), t)"
    unfolding QueuePolicySync_def bnd_Inr ret_Inr by auto
  have frame: "without_alerts (tab t) = without_alerts (tab s2)"
    by (rule alerts_frame.frame_run [OF maintains_recordAudit a])
  from x show ?thesis
  proof (cases rule: transaction_Inr)
    case (committed u v)
    then show ?thesis
      using normalize_Inr [OF n] frame by (intro that [of req1 u v]) (auto simp: run_Inr same_env_def)
  next
    case (returned u v)
    then show ?thesis by (auto simp: run_Inr)
  qed
qed


definition sample_request :: PolicySyncRequest where
  "sample_request = \<lparr>rq_TenantID = ''t1'', rq_NodeID = ''n1'', rq_NodePublicKey = ''pk1'', rq_Domain = ''acl'',
     rq_Action = ''create'', rq_PolicyRef = ''r1'', rq_PolicyName = '''', rq_DesiredStateVersion = ''v3'',
     rq_DesiredMetadata = [], rq_CommandParams = [], rq_DeliveryMetadata = [], rq_Priority = 5,
     rq_TimeoutSeconds = 30\<rparr>"

lemma sample_trim:
  "TrimSpace ''pk1'' = ''pk1''" "TrimSpace ''acl'' = ''acl''" "TrimSpace ''create'' = ''create''"
  "TrimSpace ''r1'' = ''r1''" "TrimSpace ''v3'' = ''v3''" "TrimSpace ''sync'' = ''sync''"
  "itoa_nat 0 = ''0''" "itoa_nat (Suc 0) = ''1''"
  by code_simp+

lemmas sync_eval = sample_request_def QueuePolicySync_def normalizePolicySyncRequest_def trim_request_def
  queuePolicySyncTx_def upsertNodeDesiredState_def upsert_desired_sql_def upsert_control_state_def desired_merge_def
  markSupersededPolicySyncsTx_def stale_commands_sql_def stale_deliveries_sql_def superseded_def
  open_delivery_of_def stale_row_def stale_delivery_row_def supersede_message_def open_status_def
  queueAgentCommand_def check_command_def IsAllowedAgentCommand_def allowedAgentCommands_def default_timeout_def
  insert_command_sql_def createPolicyDelivery_def insert_delivery_sql_def new_delivery_def
  scanAgentCommandRow_def stringifyCommandParams_def recordCommandQueuedAudit_def queued_event_def
  CreateAuditEvent_def insert_audit_sql_def marshal_ok_def uuid_Nil_def sample_trim queue_eval


end
