(* ===== verification/Certificates.thy ===== *)
theory Certificates
  imports Storage_Logic
begin

text \<open>
  \<^verbatim>\<open>pkg/controllerstorage/certificates.go\<close> and \<^verbatim>\<open>certificate_lifecycle.go\<close>: one certificate per
  node, issued, revoked or expired.
\<close>

abbreviation "CertStatusIssued \<equiv> ''issued''"
abbreviation "CertStatusRevoked \<equiv> ''revoked''"
abbreviation "CertStatusExpired \<equiv> ''expired''"

record NodeCertificate =
  ce_ID :: uuid
  ce_TenantID :: uuid
  ce_NodeID :: uuid
  ce_SerialNumber :: string
  ce_CertPEM :: string
  ce_CAPEM :: string
  ce_NotBefore :: time
  ce_NotAfter :: time
  ce_Status :: string
  ce_IssuedAt :: time
  ce_RevokedAt :: "time option"
  ce_RevokeReason :: string
  ce_RenewedFrom :: "uuid option"
  ce_UpdatedAt :: time

definition scanNodeCertificate :: "certificate_row \<Rightarrow> NodeCertificate" where
  "scanNodeCertificate r = \<lparr>ce_ID = cert_id r, ce_TenantID = cert_tenant_id r, ce_NodeID = cert_node_id r,
     ce_SerialNumber = cert_serial_number r, ce_CertPEM = cert_pem r, ce_CAPEM = cert_ca_pem r,
     ce_NotBefore = cert_not_before r, ce_NotAfter = cert_not_after r, ce_Status = cert_status r,
     ce_IssuedAt = cert_issued_at r, ce_RevokedAt = cert_revoked_at r,
     ce_RevokeReason = coalesce (cert_revoke_reason r) '''', ce_RenewedFrom = cert_renewed_from r,
     ce_UpdatedAt = cert_updated_at r\<rparr>"

text \<open>\<^verbatim>\<open>ON CONFLICT (node_id) DO UPDATE\<close>: the identifier and the tenant of the row stay.\<close>

definition renew_row :: "NodeCertificate \<Rightarrow> string \<Rightarrow> time \<Rightarrow> certificate_row \<Rightarrow> certificate_row" where
  "renew_row c status now r = r\<lparr>cert_serial_number := ce_SerialNumber c, cert_pem := ce_CertPEM c,
     cert_ca_pem := ce_CAPEM c, cert_not_before := ce_NotBefore c, cert_not_after := ce_NotAfter c,
     cert_status := status, cert_issued_at := now, cert_revoked_at := None, cert_revoke_reason := Some '''',
     cert_renewed_from := ce_RenewedFrom c, cert_updated_at := now\<rparr>"

definition upsert_certificate_sql ::
    "NodeCertificate \<Rightarrow> string \<Rightarrow> uuid \<Rightarrow> time \<Rightarrow> tables \<Rightarrow> (tables \<times> unit) option" where
  "upsert_certificate_sql c status i now t =
     (if \<exists>r \<in> set (node_certificates t). cert_node_id r = ce_NodeID c then
        Some (t\<lparr>node_certificates := update_where (\<lambda>r. cert_node_id r = ce_NodeID c) (renew_row c status now)
                 (node_certificates t)\<rparr>, ())
      else if \<exists>r \<in> set (node_certificates t). cert_id r = i then None
      else Some (t\<lparr>node_certificates := node_certificates t @
             [\<lparr>cert_id = i, cert_tenant_id = ce_TenantID c, cert_node_id = ce_NodeID c,
               cert_serial_number = ce_SerialNumber c, cert_pem = ce_CertPEM c, cert_ca_pem = ce_CAPEM c,
               cert_not_before = ce_NotBefore c, cert_not_after = ce_NotAfter c, cert_status = status,
               cert_issued_at = now, cert_revoked_at = None, cert_revoke_reason = None,
               cert_renewed_from = ce_RenewedFrom c, cert_updated_at = now\<rparr>]\<rparr>, ()))"

definition UpsertNodeCertificate :: "NodeCertificate option \<Rightarrow> unit op" where
  "UpsertNodeCertificate cert = (case cert of
       None \<Rightarrow> throw ErrNoRows
     | Some c \<Rightarrow>
         let status = (if ce_Status c = '''' then CertStatusIssued else ce_Status c)
         in insert_op (upsert_certificate_sql c status))"

definition GetNodeCertificate :: "uuid \<Rightarrow> NodeCertificate option op" where
  "GetNodeCertificate node =
     select_op (\<lambda>_ t. map_option scanNodeCertificate (find (\<lambda>r. cert_node_id r = node) (node_certificates t)))"

definition revoke_row :: "string \<Rightarrow> time \<Rightarrow> certificate_row \<Rightarrow> certificate_row" where
  "revoke_row reason now r = r\<lparr>cert_status := CertStatusRevoked, cert_revoked_at := Some now,
     cert_revoke_reason := Some reason, cert_updated_at := now\<rparr>"

definition issued_to :: "uuid \<Rightarrow> certificate_row \<Rightarrow> bool" where
  "issued_to node r \<longleftrightarrow> cert_node_id r = node \<and> cert_status r = CertStatusIssued"

definition revoke_sql :: "uuid \<Rightarrow> string \<Rightarrow> time \<Rightarrow> tables \<Rightarrow> tables \<times> nat" where
  "revoke_sql node reason now t =
     (t\<lparr>node_certificates := update_where (issued_to node) (revoke_row reason now) (node_certificates t)\<rparr>,
      affected (issued_to node) (node_certificates t))"

definition revokeNodeCertificatesTx :: "uuid \<Rightarrow> string \<Rightarrow> nat op" where
  "revokeNodeCertificatesTx node reason =
     (let reason = (if reason = '''' then ''node_lifecycle'' else reason)
      in bnd (modify_op (revoke_sql node reason)) check_op)"

definition RevokeNodeCertificate :: "uuid \<Rightarrow> string \<Rightarrow> unit op" where
  "RevokeNodeCertificate node reason = bnd (revokeNodeCertificatesTx node reason) (\<lambda>_. ret ())"

definition past_due :: "time \<Rightarrow> certificate_row \<Rightarrow> bool" where
  "past_due due r \<longleftrightarrow> cert_status r = CertStatusIssued \<and> cert_not_after r < due"

definition expire_row :: "time \<Rightarrow> certificate_row \<Rightarrow> certificate_row" where
  "expire_row now r = r\<lparr>cert_status := CertStatusExpired, cert_updated_at := now\<rparr>"

definition expire_sql :: "time \<Rightarrow> time \<Rightarrow> tables \<Rightarrow> tables \<times> certificate_row list" where
  "expire_sql due now t =
     (t\<lparr>node_certificates := update_where (past_due due) (expire_row now) (node_certificates t)\<rparr>,
      map (expire_row now) (filter (past_due due) (node_certificates t)))"

definition MarkExpiredNodeCertificates :: "time \<Rightarrow> NodeCertificate list op" where
  "MarkExpiredNodeCertificates due =
     bnd (modify_op (expire_sql due)) (\<lambda>rows. check_op (map scanNodeCertificate rows))"

record CertificateRenewalCandidate =
  rc_TenantID :: uuid
  rc_NodeID :: uuid
  rc_Hostname :: string
  rc_SerialNumber :: string
  rc_NotAfter :: time

definition stopped_status :: "string \<Rightarrow> bool" where
  "stopped_status st \<longleftrightarrow> st = ''deleted'' \<or> st = ''suspended'' \<or> st = ''banned''"

definition node_active :: "node_row \<Rightarrow> bool" where
  "node_active n \<longleftrightarrow> \<not> stopped_status (coalesce (node_status n) ''online'')"

definition renewal_candidate :: "certificate_row \<Rightarrow> node_row \<Rightarrow> CertificateRenewalCandidate" where
  "renewal_candidate c n = \<lparr>rc_TenantID = cert_tenant_id c, rc_NodeID = cert_node_id c, rc_Hostname = node_hostname n,
     rc_SerialNumber = cert_serial_number c, rc_NotAfter = cert_not_after c\<rparr>"

text \<open>The join with \<^verbatim>\<open>nodes\<close> is on its primary key: each certificate meets at most one node.\<close>

definition expiring_before :: "time \<Rightarrow> tables \<Rightarrow> CertificateRenewalCandidate list" where
  "expiring_before deadline t = List.map_filter
     (\<lambda>c. case find (\<lambda>n. node_id n = cert_node_id c) (nodes t) of
        None \<Rightarrow> None
      | Some n \<Rightarrow> if node_active n then Some (renewal_candidate c n) else None)
     (sort_key cert_not_after
        (filter (\<lambda>c. cert_status c = CertStatusIssued \<and> cert_not_after c \<le> deadline) (node_certificates t)))"

definition ListCertificatesExpiringBefore :: "time \<Rightarrow> CertificateRenewalCandidate list op" where
  "ListCertificatesExpiringBefore deadline = bnd (select_op (\<lambda>_ t. expiring_before deadline t)) check_op"

section \<open>One certificate per node\<close>

definition certs_inv :: "tables \<Rightarrow> bool" where
  "certs_inv t \<longleftrightarrow> distinct (map cert_node_id (node_certificates t)) \<and> distinct (map cert_id (node_certificates t))"

definition without_certs :: "tables \<Rightarrow> tables" where
  "without_certs t = t\<lparr>node_certificates := []\<rparr>"

interpretation certs: table_invariant certs_inv .
interpretation certs_frame: table_frame without_certs .

lemma certs_inv_update:
  "(\<And>r. cert_node_id (f r) = cert_node_id r) \<Longrightarrow> (\<And>r. cert_id (f r) = cert_id r) \<Longrightarrow>
     invar_rel certs_inv t (t\<lparr>node_certificates := update_where P f (node_certificates t)\<rparr>)"
  by (simp add: invar_rel_def certs_inv_def map_key_update_where)

lemma maintains_revoke [maintains_rules]:
  "maintains (invar_rel certs_inv) (revokeNodeCertificatesTx node reason)"
  "maintains (keeps without_certs) (revokeNodeCertificatesTx node reason)"
  unfolding revokeNodeCertificatesTx_def Let_def
  by (intro maintains_rules; simp add: revoke_sql_def revoke_row_def certs_inv_update keeps_def without_certs_def)+

lemma upsert_related:
  "upsert_certificate_sql c status i now t = Some (t', x) \<Longrightarrow> invar_rel certs_inv t t'"
  "upsert_certificate_sql c status i now t = Some (t', x) \<Longrightarrow> keeps without_certs t t'"
  by (force simp: upsert_certificate_sql_def renew_row_def invar_rel_def certs_inv_def
      map_key_update_where keeps_def without_certs_def split: if_split_asm)+

lemma maintains_UpsertNodeCertificate [maintains_rules]:
  "maintains (invar_rel certs_inv) (UpsertNodeCertificate cert)"
  "maintains (keeps without_certs) (UpsertNodeCertificate cert)"
  unfolding UpsertNodeCertificate_def Let_def
  by (intro maintains_rules; erule upsert_related)+

lemma maintains_MarkExpired [maintains_rules]:
  "maintains (invar_rel certs_inv) (MarkExpiredNodeCertificates due)"
  "maintains (keeps without_certs) (MarkExpiredNodeCertificates due)"
  unfolding MarkExpiredNodeCertificates_def
  by (intro maintains_rules; simp add: expire_sql_def expire_row_def certs_inv_update keeps_def without_certs_def)+

lemma revoke_Inr:
  assumes "revokeNodeCertificatesTx node reason s = (Inr n, t)"
  shows "tab t = fst (revoke_sql node (if reason = '''' then ''node_lifecycle'' else reason) (db_now s) (tab s))"
    "n = affected (issued_to node) (node_certificates (tab s))" "same_env s t"
proof -
  define r where "r = (if reason = '''' then ''node_lifecycle'' else reason)"
  from assms obtain m u where "modify_op (revoke_sql node r) s = (Inr m, u)" "check_op m u = (Inr n, t)"
    unfolding revokeNodeCertificatesTx_def Let_def bnd_Inr r_def [symmetric] by blast
  note m = modify_Inr [OF this(1)] and c = check_Inr [OF this(2)]
  show "tab t = fst (revoke_sql node (if reason = '''' then ''node_lifecycle'' else reason) (db_now s) (tab s))"
    using m(1) c(2) unfolding r_def [symmetric] by simp
  show "n = affected (issued_to node) (node_certificates (tab s))"
    using arg_cong [OF m(1), of snd] c(1) by (simp add: revoke_sql_def)
  show "same_env s t" using m(2) c(3) by (simp add: same_env_def)
qed

lemma none_issued_after_revoke:
  assumes "r \<in> set (node_certificates (fst (revoke_sql node reason now t)))"
  shows "\<not> issued_to node r"
proof -
  from assms have "r \<in> set (update_where (issued_to node) (revoke_row reason now) (node_certificates t))"
    by (simp add: revoke_sql_def)
  then show ?thesis by (cases rule: update_whereE) (simp_all add: issued_to_def revoke_row_def)
qed

end
