(* ===== verification/Node_Lifecycle.thy ===== *)
theory Node_Lifecycle
  imports Policy_Sync Certificates
begin

text \<open>
  \<^verbatim>\<open>pkg/controllerstorage/node_lifecycle.go\<close> and \<^verbatim>\<open>auth_state.go\<close>: a node or a tenant is
  suspended, deleted, banned or taken back in one transaction that changes the status, revokes
  certificates, fails open commands, invalidates the tokens and writes the audit events.
\<close>

section \<open>Data\<close>

record NodeLifecycleTransition =
  nt_TargetStatus :: string
  nt_RevokeReason :: string
  nt_AuditEventType :: string
  nt_AuditActor :: string
  nt_AuditSummary :: string
  nt_AuditDetail :: params

record TenantLifecycleTransition =
  tt_TargetStatus :: string
  tt_AuditEventType :: string
  tt_AuditActor :: string
  tt_AuditSummary :: string
  tt_AuditDetail :: params

definition tenantStatusStopsRuntime :: "string \<Rightarrow> bool" where
  "tenantStatusStopsRuntime status \<longleftrightarrow>
     (let st = ToLower (TrimSpace status) in st = ''suspended'' \<or> st = ''deleted'')"

definition nodeStatusStopsCommands :: "string \<Rightarrow> bool" where
  "nodeStatusStopsCommands status \<longleftrightarrow> stopped_status (ToLower (TrimSpace status))"

definition nodeStatusRequiresCertificateRevoke :: "string \<Rightarrow> bool" where
  "nodeStatusRequiresCertificateRevoke = nodeStatusStopsCommands"

text \<open>\<^verbatim>\<open>for k, v := range extra { detail[k] = v }\<close>.\<close>

definition merge_detail :: "params \<Rightarrow> params \<Rightarrow> params" where
  "merge_detail detail extra = filter (\<lambda>(k, _). k \<notin> fst ` set extra) detail @ extra"

text \<open>An \<^verbatim>\<open>INSERT INTO audit_events\<close> inside the transaction.\<close>

definition audit_tx :: "string \<Rightarrow> AuditEvent \<Rightarrow> unit op" where
  "audit_tx what e =
     (if \<not> marshal_ok (ae_Detail e) then throw (ErrMsg what)
      else bnd (insert_op (insert_audit_sql e)) (\<lambda>_. ret ()))"

section \<open>A node\<close>

definition set_node_status_sql :: "string \<Rightarrow> string \<Rightarrow> time \<Rightarrow> tables \<Rightarrow> tables \<times> unit" where
  "set_node_status_sql pk status now t =
     (t\<lparr>nodes := update_where (\<lambda>n. node_public_key n = pk)
          (\<lambda>n. n\<lparr>node_status := Some status, node_updated_at := now\<rparr>) (nodes t)\<rparr>, ())"

definition createLifecycleCertificateRevokedAuditEventTx ::
    "node_row \<Rightarrow> NodeLifecycleTransition \<Rightarrow> string \<Rightarrow> string \<Rightarrow> nat \<Rightarrow> unit op" where
  "createLifecycleCertificateRevokedAuditEventTx n tr target reason count =
     (let actor = (if TrimSpace (nt_AuditActor tr) = '''' then ''system'' else TrimSpace (nt_AuditActor tr))
      in audit_tx ''marshal certificate revoked audit detail'' \<lparr>ae_TenantID = node_tenant_id n, ae_NodeID = Some (node_id n),
           ae_EventType = ''cert.revoked'', ae_Actor = actor,
           ae_Summary = ''Node certificate revoked due to node lifecycle change'',
           ae_Detail = [(''public_key'', VString (node_public_key n)), (''hostname'', VString (node_hostname n)),
             (''node_status'', VString target), (''reason'', VString reason),
             (''revoked_cert_count'', VOther (Some (Itoa (int count))))]\<rparr>)"

definition node_event :: "node_row \<Rightarrow> NodeLifecycleTransition \<Rightarrow> string \<Rightarrow> AuditEvent" where
  "node_event n tr target = \<lparr>ae_TenantID = node_tenant_id n, ae_NodeID = Some (node_id n),
     ae_EventType = nt_AuditEventType tr, ae_Actor = nt_AuditActor tr, ae_Summary = nt_AuditSummary tr,
     ae_Detail = merge_detail [(''public_key'', VString (node_public_key n)),
       (''hostname'', VString (node_hostname n)), (''target_status'', VString target)] (nt_AuditDetail tr)\<rparr>"

definition revoke_for_status :: "node_row \<Rightarrow> NodeLifecycleTransition \<Rightarrow> string \<Rightarrow> unit op" where
  "revoke_for_status n tr target =
     (if nodeStatusRequiresCertificateRevoke target then
        let reason = (if TrimSpace (nt_RevokeReason tr) = '''' then ''node '' @ target else TrimSpace (nt_RevokeReason tr)) in
        bnd (revokeNodeCertificatesTx (node_id n) reason) (\<lambda>count.
        if count > 0 then createLifecycleCertificateRevokedAuditEventTx n tr target reason count else ret ())
      else ret ())"

definition node_transition_tx :: "string \<Rightarrow> NodeLifecycleTransition \<Rightarrow> string \<Rightarrow> node_row op" where
  "node_transition_tx pk tr target =
     bnd (select_op (\<lambda>_ t. find (\<lambda>n. node_public_key n = pk) (nodes t))) (\<lambda>r. case r of
         None \<Rightarrow> throw ErrNoRows
       | Some n \<Rightarrow>
           bnd (modify_op (set_node_status_sql pk target)) (\<lambda>_.
           let n = n\<lparr>node_status := Some target\<rparr> in
           bnd (revoke_for_status n tr target) (\<lambda>_.
           bnd (if nodeStatusStopsCommands target
                then failIncompleteAgentCommandsForNodeTx pk (''node status changed to '' @ target) else ret ()) (\<lambda>_.
           bnd (if nt_AuditEventType tr \<noteq> '''' then audit_tx ''marshal audit detail'' (node_event n tr target) else ret ()) (\<lambda>_.
           ret n)))))"

definition ApplyNodeLifecycleTransition :: "string \<Rightarrow> NodeLifecycleTransition \<Rightarrow> node_row op" where
  "ApplyNodeLifecycleTransition pk tr =
     (let target = ToLower (TrimSpace (nt_TargetStatus tr)) in
      if target = '''' then throw (ErrMsg ''target status is required'')
      else transaction (bnd (node_transition_tx pk tr target) (\<lambda>n. ret (TxCommit n))))"

section \<open>A tenant\<close>

definition set_tenant_status_sql :: "uuid \<Rightarrow> string \<Rightarrow> time \<Rightarrow> tables \<Rightarrow> tables \<times> nat" where
  "set_tenant_status_sql tenant status now t =
     (t\<lparr>tenants := update_where (\<lambda>r. tenant_id r = tenant)
          (\<lambda>r. r\<lparr>tenant_status := Some status, tenant_updated_at := now\<rparr>) (tenants t)\<rparr>,
      affected (\<lambda>r. tenant_id r = tenant) (tenants t))"

definition bump_user_tokens_sql :: "uuid \<Rightarrow> time \<Rightarrow> tables \<Rightarrow> tables \<times> unit" where
  "bump_user_tokens_sql tenant now t =
     (t\<lparr>users := update_where (\<lambda>u. user_tenant_id u = Some tenant)
          (\<lambda>u. u\<lparr>user_token_version := Some (coalesce (user_token_version u) 0 + 1), user_updated_at := now\<rparr>) (users t)\<rparr>, ())"

definition active_node_of :: "uuid \<Rightarrow> node_row \<Rightarrow> bool" where
  "active_node_of tenant n \<longleftrightarrow> node_tenant_id n = tenant \<and> node_active n"

definition selectActiveTenantNodesForLifecycleTx :: "uuid \<Rightarrow> (uuid \<times> string) list op" where
  "selectActiveTenantNodesForLifecycleTx tenant =
     bnd (select_op (\<lambda>_ t. map (\<lambda>n. (node_id n, node_public_key n)) (filter (active_node_of tenant) (nodes t)))) check_op"

definition stop_nodes_sql :: "uuid \<Rightarrow> string \<Rightarrow> time \<Rightarrow> tables \<Rightarrow> tables \<times> unit" where
  "stop_nodes_sql tenant status now t =
     (t\<lparr>nodes := update_where (active_node_of tenant)
          (\<lambda>n. n\<lparr>node_status := Some status,
             node_runtime_token_version := Some (coalesce (node_runtime_token_version n) 0 + 1),
             node_updated_at := now\<rparr>) (nodes t)\<rparr>, ())"

definition stop_node :: "string \<Rightarrow> uuid \<times> string \<Rightarrow> unit op" where
  "stop_node target = (\<lambda>(i, pk).
     bnd (revokeNodeCertificatesTx i (''tenant '' @ target)) (\<lambda>_.
     failIncompleteAgentCommandsForNodeTx pk (''tenant status changed to '' @ target)))"

definition stop_tenant_tx :: "uuid \<Rightarrow> string \<Rightarrow> unit op" where
  "stop_tenant_tx tenant target =
     bnd (modify_op (bump_user_tokens_sql tenant)) (\<lambda>_.
     bnd (selectActiveTenantNodesForLifecycleTx tenant) (\<lambda>ns.
     bnd (modify_op (stop_nodes_sql tenant target)) (\<lambda>_.
     for_each (stop_node target) ns)))"

definition createTenantLifecycleAuditEventTx ::
    "uuid \<Rightarrow> string \<Rightarrow> string \<Rightarrow> TenantLifecycleTransition \<Rightarrow> unit op" where
  "createTenantLifecycleAuditEventTx tenant previous target tr =
     (let actor = (if TrimSpace (tt_AuditActor tr) = '''' then ''system'' else TrimSpace (tt_AuditActor tr));
          summary = (if TrimSpace (tt_AuditSummary tr) = '''' then ''Tenant '' @ target else TrimSpace (tt_AuditSummary tr))
      in audit_tx ''marshal tenant lifecycle audit detail'' \<lparr>ae_TenantID = tenant, ae_NodeID = None,
           ae_EventType = tt_AuditEventType tr, ae_Actor = actor, ae_Summary = summary,
           ae_Detail = merge_detail [(''tenant_id'', VString tenant), (''previous_status'', VString (TrimSpace previous)),
             (''target_status'', VString target)] (tt_AuditDetail tr)\<rparr>)"

text \<open>A tenant without a status cannot be scanned into a string.\<close>

definition tenant_transition_tx :: "uuid \<Rightarrow> TenantLifecycleTransition \<Rightarrow> string \<Rightarrow> unit op" where
  "tenant_transition_tx tenant tr target =
     bnd (select_op (\<lambda>_ t. find (\<lambda>r. tenant_id r = tenant) (tenants t))) (\<lambda>r. case r of
         None \<Rightarrow> throw ErrNoRows
       | Some r \<Rightarrow> (case tenant_status r of
           None \<Rightarrow> throw DBError
         | Some previous \<Rightarrow>
           bnd (modify_op (set_tenant_status_sql tenant target)) (\<lambda>n.
           bnd (check_op n) (\<lambda>n.
           if n = 0 then throw ErrNoRows
           else
             bnd (if tenantStatusStopsRuntime target then stop_tenant_tx tenant target else ret ()) (\<lambda>_.
             if tt_AuditEventType tr \<noteq> '''' then createTenantLifecycleAuditEventTx tenant previous target tr
             else ret ())))))"

definition ApplyTenantLifecycleTransition :: "uuid \<Rightarrow> TenantLifecycleTransition \<Rightarrow> unit op" where
  "ApplyTenantLifecycleTransition tenant tr =
     (let target = ToLower (TrimSpace (tt_TargetStatus tr)) in
      if target = '''' then throw (ErrMsg ''target status is required'')
      else if target \<notin> {''active'', ''suspended'', ''deleted''} then throw (ErrMsg ''unsupported tenant status'')
      else transaction (bnd (tenant_transition_tx tenant tr target) (\<lambda>_. ret (TxCommit ()))))"

section \<open>Authentication state\<close>

record NodeRuntimeAuthState =
  ra_NodeID :: uuid
  ra_TenantID :: uuid
  ra_NodeStatus :: string
  ra_RuntimeTokenVersion :: int
  ra_TenantStatus :: string

text \<open>\<open>uuid_Parse\<close> stands for \<^verbatim>\<open>uuid.Parse\<close> of \<^verbatim>\<open>github.com/google/uuid\<close>.\<close>

definition GetUserTokenVersion :: "(string \<Rightarrow> uuid option) \<Rightarrow> string \<Rightarrow> int op" where
  "GetUserTokenVersion uuid_Parse userID = (case uuid_Parse (TrimSpace userID) of
       None \<Rightarrow> throw (ErrMsg ''uuid'')
     | Some i \<Rightarrow>
         bnd (select_op (\<lambda>_ t. find (\<lambda>u. user_id u = i) (users t))) (\<lambda>r. case r of
             None \<Rightarrow> throw ErrNoRows
           | Some u \<Rightarrow> ret (coalesce (user_token_version u) 0)))"

definition GetNodeRuntimeTokenVersion :: "uuid \<Rightarrow> int op" where
  "GetNodeRuntimeTokenVersion node =
     bnd (select_op (\<lambda>_ t. find (\<lambda>n. node_id n = node) (nodes t))) (\<lambda>r. case r of
         None \<Rightarrow> throw ErrNoRows
       | Some n \<Rightarrow> ret (coalesce (node_runtime_token_version n) 0))"

definition runtime_auth_state :: "uuid \<Rightarrow> tables \<Rightarrow> NodeRuntimeAuthState option" where
  "runtime_auth_state node t = (case find (\<lambda>n. node_id n = node) (nodes t) of
       None \<Rightarrow> None
     | Some n \<Rightarrow> map_option (\<lambda>r. \<lparr>ra_NodeID = node_id n, ra_TenantID = node_tenant_id n,
           ra_NodeStatus = TrimSpace (coalesce (node_status n) ''online''),
           ra_RuntimeTokenVersion = coalesce (node_runtime_token_version n) 0,
           ra_TenantStatus = TrimSpace (coalesce (tenant_status r) '''')\<rparr>)
         (find (\<lambda>r. tenant_id r = node_tenant_id n) (tenants t)))"

definition GetNodeRuntimeAuthState :: "uuid \<Rightarrow> NodeRuntimeAuthState option op" where
  "GetNodeRuntimeAuthState node = select_op (\<lambda>_ t. runtime_auth_state node t)"

section \<open>What a stopped node has left\<close>

definition none_issued :: "uuid \<Rightarrow> tables \<Rightarrow> bool" where
  "none_issued i t \<longleftrightarrow> (\<forall>c \<in> set (node_certificates t). cert_node_id c = i \<longrightarrow> cert_status c \<noteq> CertStatusIssued)"

definition none_open :: "string \<Rightarrow> tables \<Rightarrow> bool" where
  "none_open pk t \<longleftrightarrow> (\<forall>r \<in> set (agent_commands t). cmd_node_public_key r = pk \<longrightarrow> \<not> open_status (cmd_status r))"

text \<open>Statements that leave nodes, users and tenants alone and give no node a certificate or a command.\<close>

definition stays_stopped :: "tables \<Rightarrow> tables \<Rightarrow> bool" where
  "stays_stopped t u \<longleftrightarrow> nodes u = nodes t \<and> users u = users t \<and> tenants u = tenants t \<and>
     (\<forall>i. none_issued i t \<longrightarrow> none_issued i u) \<and> (\<forall>pk. none_open pk t \<longrightarrow> none_open pk u)"

interpretation stopped: table_relation stays_stopped
  by unfold_locales (auto simp: stays_stopped_def)

lemma revoke_stays_stopped: "stays_stopped t (fst (revoke_sql i reason now t))"
  unfolding stays_stopped_def none_issued_def none_open_def revoke_sql_def
  by (auto elim!: update_whereE simp: issued_to_def revoke_row_def)

lemma fail_deliveries_stays_stopped: "stays_stopped t (fst (fail_deliveries_sql sel m now t))"
  by (simp add: stays_stopped_def none_issued_def none_open_def fail_deliveries_sql_def)

lemma fail_commands_stays_stopped: "stays_stopped t (fst (fail_commands_sql sel m now t))"
  unfolding stays_stopped_def none_issued_def none_open_def fail_commands_sql_def
  by (auto elim!: update_whereE simp: fail_row_def open_status_def)

lemma insert_audit_stays_stopped: "insert_audit_sql e i now t = Some (t', x) \<Longrightarrow> stays_stopped t t'"
  by (auto simp: insert_audit_sql_def stays_stopped_def none_issued_def none_open_def split: if_split_asm)

lemma stopped_revoke [preserves_rules]: "preserves stays_stopped (revokeNodeCertificatesTx i reason)"
  unfolding revokeNodeCertificatesTx_def
  by (intro preserves_rules revoke_stays_stopped)

lemma stopped_failIncomplete [preserves_rules]: "preserves stays_stopped (failIncompleteAgentCommandsForNodeTx pk m)"
  unfolding failIncompleteAgentCommandsForNodeTx_def
  by (intro preserves_rules fail_deliveries_stays_stopped fail_commands_stays_stopped)

lemma stopped_audit_tx [preserves_rules]: "preserves stays_stopped (audit_tx what e)"
  unfolding audit_tx_def by (intro preserves_rules) (erule insert_audit_stays_stopped)

lemma stopped_revoke_for_status [preserves_rules]: "preserves stays_stopped (revoke_for_status n tr target)"
  unfolding revoke_for_status_def createLifecycleCertificateRevokedAuditEventTx_def
  by (intro preserves_rules)

lemma stopped_stop_node [preserves_rules]: "preserves stays_stopped (stop_node target x)"
  unfolding stop_node_def by (intro preserves_rules)

lemma revoked_none_issued:
  assumes "revokeNodeCertificatesTx i reason s = (Inr n, t)"
  shows "none_issued i (tab t)"
  unfolding none_issued_def revoke_Inr(1) [OF assms]
  using none_issued_after_revoke by (fastforce simp: issued_to_def)

lemma failed_none_open:
  assumes "failIncompleteAgentCommandsForNodeTx pk m s = (Inr (), t)"
  shows "none_open pk (tab t)"
  unfolding none_open_def failIncompleteTx_Inr(1) [OF assms] failed_tables_def
  by (auto elim!: update_whereE simp: fail_row_def open_status_def incomplete_of_def)

lemma stop_node_Inr:
  assumes "stop_node target (i, pk) s = (Inr (), t)"
  shows "none_issued i (tab t)" "none_open pk (tab t)"
proof -
  from assms obtain n u where r: "revokeNodeCertificatesTx i (''tenant '' @ target) s = (Inr n, u)"
      and f: "failIncompleteAgentCommandsForNodeTx pk (''tenant status changed to '' @ target) u = (Inr (), t)"
    by (auto simp: stop_node_def bnd_Inr)
  show "none_issued i (tab t)"
    using revoked_none_issued [OF r] preservesD [OF stopped_failIncomplete f] by (simp add: stays_stopped_def)
  show "none_open pk (tab t)" by (rule failed_none_open [OF f])
qed

lemma stop_nodes_Inr:
  "for_each (stop_node target) ns s = (Inr (), t) \<Longrightarrow> (i, pk) \<in> set ns \<Longrightarrow> none_issued i (tab t) \<and> none_open pk (tab t)"
proof (induction ns arbitrary: s)
  case (Cons x ns)
  from Cons.prems(1) obtain u where x: "stop_node target x s = (Inr (), u)"
      and rest: "for_each (stop_node target) ns u = (Inr (), t)"
    by (auto simp: bnd_Inr)
  have "preserves stays_stopped (for_each (stop_node target) ns)" by (intro preserves_rules)
  then have "stays_stopped (tab u) (tab t)" using rest by (rule preservesD)
  with Cons.IH [OF rest] Cons.prems(2) stop_node_Inr [of target i pk s u] x show ?case
    by (auto simp: stays_stopped_def)
qed simp

section \<open>Transitions\<close>

lemma stopping_targets:
  "stopped_status target \<Longrightarrow> nodeStatusStopsCommands target"
  "target = ''suspended'' \<or> target = ''deleted'' \<Longrightarrow> tenantStatusStopsRuntime target"
proof -
  have "ToLower (TrimSpace ''deleted'') = ''deleted''" "ToLower (TrimSpace ''suspended'') = ''suspended''"
    "ToLower (TrimSpace ''banned'') = ''banned''" by code_simp+
  then show "stopped_status target \<Longrightarrow> nodeStatusStopsCommands target"
    "target = ''suspended'' \<or> target = ''deleted'' \<Longrightarrow> tenantStatusStopsRuntime target"
    by (auto simp: stopped_status_def nodeStatusStopsCommands_def tenantStatusStopsRuntime_def Let_def)
qed

lemma node_transition_Inr:
  assumes "node_transition_tx pk tr target s = (Inr n, t)" and "stopped_status target"
  shows "none_issued (node_id n) (tab t)" "none_open pk (tab t)"
    "nodes (tab t) = nodes (fst (set_node_status_sql pk target (db_now s) (tab s)))"
    "\<exists>m \<in> set (nodes (tab s)). node_public_key m = pk \<and> node_id m = node_id n"
proof -
  from assms(1) obtain m u v w x where m: "find (\<lambda>n. node_public_key n = pk) (nodes (tab s)) = Some m"
      and n: "n = m\<lparr>node_status := Some target\<rparr>"
      and st: "modify_op (set_node_status_sql pk target) u = (Inr (), v)" and u: "tab u = tab s" "same_env s u"
      and r: "revoke_for_status n tr target v = (Inr (), w)"
      and f: "failIncompleteAgentCommandsForNodeTx pk (''node status changed to '' @ target) w = (Inr (), x)"
      and a: "(if nt_AuditEventType tr \<noteq> '''' then audit_tx ''marshal audit detail'' (node_event n tr target) else ret ()) x = (Inr (), t)"
    using stopping_targets(1) [OF assms(2)]
    by (auto simp: node_transition_tx_def run_Inr Let_def dest!: select_InrD' split: option.splits)
  have pa: "preserves stays_stopped (if nt_AuditEventType tr \<noteq> '''' then audit_tx ''marshal audit detail'' (node_event n tr target) else ret ())"
    by (intro preserves_rules)
  have wx: "stays_stopped (tab w) (tab x)" by (rule preservesD [OF stopped_failIncomplete f])
  have xt: "stays_stopped (tab x) (tab t)" by (rule preservesD [OF pa a])
  have vw: "stays_stopped (tab v) (tab w)" by (rule preservesD [OF stopped_revoke_for_status r])
  have "none_issued (node_id n) (tab w)"
  proof -
    from r stopping_targets(1) [OF assms(2)] obtain reason count y where
        c: "revokeNodeCertificatesTx (node_id n) reason v = (Inr count, y)"
        and e: "(if count > 0 then createLifecycleCertificateRevokedAuditEventTx n tr target reason count else ret ()) y = (Inr (), w)"
      by (auto simp: revoke_for_status_def nodeStatusRequiresCertificateRevoke_def Let_def bnd_Inr)
    have "preserves stays_stopped (if count > 0 then createLifecycleCertificateRevokedAuditEventTx n tr target reason count else ret ())"
      unfolding createLifecycleCertificateRevokedAuditEventTx_def by (intro preserves_rules)
    from preservesD [OF this e] revoked_none_issued [OF c] show ?thesis by (simp add: stays_stopped_def)
  qed
  with wx xt show "none_issued (node_id n) (tab t)" by (simp add: stays_stopped_def)
  show "none_open pk (tab t)" using failed_none_open [OF f] xt by (simp add: stays_stopped_def)
  have "tab v = fst (set_node_status_sql pk target (db_now s) (tab s))"
    using modify_Inr(1) [OF st] u by (simp add: same_env_def)
  then show "nodes (tab t) = nodes (fst (set_node_status_sql pk target (db_now s) (tab s)))"
    using vw wx xt by (simp add: stays_stopped_def)
  show "\<exists>m \<in> set (nodes (tab s)). node_public_key m = pk \<and> node_id m = node_id n"
    using find_SomeD [OF m] n by auto
qed

lemma stopped_node:
  assumes "ApplyNodeLifecycleTransition pk tr s = (Inr n, t)"
    and "ToLower (TrimSpace (nt_TargetStatus tr)) = target" and "stopped_status target"
  shows "(\<exists>m \<in> set (nodes (tab t)). node_public_key m = pk \<and> node_id m = node_id n) \<and>
    (\<forall>m \<in> set (nodes (tab t)). node_public_key m = pk \<longrightarrow> node_status m = Some target) \<and>
    none_issued (node_id n) (tab t) \<and> none_open pk (tab t)"
proof -
  have "transaction (bnd (node_transition_tx pk tr target) (\<lambda>n. ret (TxCommit n))) s = (Inr n, t)"
    using assms(1) by (auto simp: ApplyNodeLifecycleTransition_def Let_def assms(2) throw_Inr split: if_split_asm)
  then show ?thesis
  proof (cases rule: transaction_Inr)
    case (committed u v)
    then have "node_transition_tx pk tr target u = (Inr n, v)" by (auto simp: run_Inr)
    note v = node_transition_Inr [OF this assms(3)]
    have nodes: "nodes (tab t) = map (\<lambda>n. if node_public_key n = pk
        then n\<lparr>node_status := Some target, node_updated_at := db_now u\<rparr> else n) (nodes (tab s))"
      using v(3) committed(2,4) by (simp add: set_node_status_sql_def update_where_def)
    from v(4) obtain m where "m \<in> set (nodes (tab s))" "node_public_key m = pk" "node_id m = node_id n"
      using committed(2) by auto
    then have "\<exists>m \<in> set (nodes (tab t)). node_public_key m = pk \<and> node_id m = node_id n"
      by (intro bexI [of _ "m\<lparr>node_status := Some target, node_updated_at := db_now u\<rparr>"]) (auto simp: nodes)
    moreover have "node_status m = Some target" if "m \<in> set (nodes (tab t))" "node_public_key m = pk" for m
      using that(1) unfolding nodes update_where_def [symmetric]
      by (cases rule: update_whereE) (use that in simp_all)
    ultimately show ?thesis using v(1,2) committed(4) by simp
  next
    case (returned u v)
    then show ?thesis by (auto simp: run_Inr)
  qed
qed

text \<open>
  (C25) A node that is suspended, deleted or banned is cut off: after the call the node has that
  status, none of its certificates is issued any more, and it has no pending, sent or
  acknowledged command left.
\<close>

theorem stopped_node_is_cut_off:
  assumes "ApplyNodeLifecycleTransition pk tr s = (Inr n, t)"
    and "ToLower (TrimSpace (nt_TargetStatus tr)) = target" and "stopped_status target"
  shows "(\<exists>m \<in> set (nodes (tab t)). node_public_key m = pk \<and> node_id m = node_id n) \<and>
    (\<forall>m \<in> set (nodes (tab t)). node_public_key m = pk \<longrightarrow> node_status m = Some target) \<and>
    none_issued (node_id n) (tab t) \<and> none_open pk (tab t)"
  using assms by (rule stopped_node)

lemma selectActive_Inr:
  "selectActiveTenantNodesForLifecycleTx tenant s = (Inr ns, t) \<Longrightarrow>
     ns = map (\<lambda>n. (node_id n, node_public_key n)) (filter (active_node_of tenant) (nodes (tab s))) \<and>
     tab t = tab s \<and> same_env s t"
  by (auto simp: selectActiveTenantNodesForLifecycleTx_def bnd_Inr same_env_def dest!: select_InrD check_InrD)

lemma stop_tenant_Inr:
  assumes "stop_tenant_tx tenant target s = (Inr (), t)"
  shows "users (tab t) = users (fst (bump_user_tokens_sql tenant (db_now s) (tab s)))"
    "nodes (tab t) = nodes (fst (stop_nodes_sql tenant target (db_now s) (tab s)))"
    "tenants (tab t) = tenants (tab s)"
    "n \<in> set (nodes (tab s)) \<Longrightarrow> active_node_of tenant n \<Longrightarrow> none_issued (node_id n) (tab t) \<and> none_open (node_public_key n) (tab t)"
proof -
  from assms obtain u v w ns where b: "modify_op (bump_user_tokens_sql tenant) s = (Inr (), u)"
      and q: "selectActiveTenantNodesForLifecycleTx tenant u = (Inr ns, v)"
      and k: "modify_op (stop_nodes_sql tenant target) v = (Inr (), w)"
      and f: "for_each (stop_node target) ns w = (Inr (), t)"
    by (auto simp: stop_tenant_tx_def bnd_Inr)
  note b = modify_Inr [OF b] and q = selectActive_Inr [OF q] and k = modify_Inr [OF k]
  have u: "tab u = fst (bump_user_tokens_sql tenant (db_now s) (tab s))" using b(1) by simp
  have w: "tab w = fst (stop_nodes_sql tenant target (db_now s) (tab u))"
    using k(1) b(2) q by (simp add: same_env_def)
  have "preserves stays_stopped (for_each (stop_node target) ns)" by (intro preserves_rules)
  then have wt: "stays_stopped (tab w) (tab t)" using f by (rule preservesD)
  show "users (tab t) = users (fst (bump_user_tokens_sql tenant (db_now s) (tab s)))"
    "nodes (tab t) = nodes (fst (stop_nodes_sql tenant target (db_now s) (tab s)))"
    "tenants (tab t) = tenants (tab s)"
    using wt by (simp_all add: stays_stopped_def w u stop_nodes_sql_def bump_user_tokens_sql_def)
  show "none_issued (node_id n) (tab t) \<and> none_open (node_public_key n) (tab t)"
    if "n \<in> set (nodes (tab s))" "active_node_of tenant n"
    by (rule stop_nodes_Inr [OF f]) (use q u that in \<open>auto simp: bump_user_tokens_sql_def\<close>)
qed

lemma tenant_transition_Inr:
  assumes "tenant_transition_tx tenant tr target s = (Inr (), t)" and "tenantStatusStopsRuntime target"
  obtains u v where "tab u = fst (set_tenant_status_sql tenant target (db_now s) (tab s))" "db_now u = db_now s"
    "stop_tenant_tx tenant target u = (Inr (), v)" "stays_stopped (tab v) (tab t)"
proof -
  let ?audit = "\<lambda>previous. if tt_AuditEventType tr \<noteq> '''' then createTenantLifecycleAuditEventTx tenant previous target tr
             else ret ()"
  let ?rest = "\<lambda>previous. bnd (modify_op (set_tenant_status_sql tenant target)) (\<lambda>n.
           bnd (check_op n) (\<lambda>n.
           if n = 0 then throw ErrNoRows
           else
             bnd (if tenantStatusStopsRuntime target then stop_tenant_tx tenant target else ret ()) (\<lambda>_. ?audit previous)))"
  from assms(1) obtain r a where sel: "select_op (\<lambda>_ t. find (\<lambda>r. tenant_id r = tenant) (tenants t)) s = (Inr r, a)"
      and cont: "(case r of None \<Rightarrow> throw ErrNoRows
       | Some r \<Rightarrow> (case tenant_status r of None \<Rightarrow> throw DBError | Some previous \<Rightarrow> ?rest previous)) a = (Inr (), t)"
    unfolding tenant_transition_tx_def bnd_Inr [of "select_op _"] by blast
  from cont obtain previous where "?rest previous a = (Inr (), t)"
    by (cases r; simp add: throw_Inr; cases "tenant_status (the r)") (auto simp: throw_Inr)
  then obtain k b where m: "modify_op (set_tenant_status_sql tenant target) a = (Inr k, b)"
      and k: "bnd (check_op k) (\<lambda>n. if n = 0 then throw ErrNoRows
           else bnd (if tenantStatusStopsRuntime target then stop_tenant_tx tenant target else ret ()) (\<lambda>_. ?audit previous)) b
           = (Inr (), t)"
    unfolding bnd_Inr [of "modify_op _"] by blast
  from k obtain k' c where c: "check_op k b = (Inr k', c)"
      and d: "(if k' = 0 then throw ErrNoRows
           else bnd (if tenantStatusStopsRuntime target then stop_tenant_tx tenant target else ret ()) (\<lambda>_. ?audit previous)) c
           = (Inr (), t)"
    unfolding bnd_Inr [of "check_op _"] by blast
  from d assms(2) obtain v where v: "stop_tenant_tx tenant target c = (Inr (), v)" "?audit previous v = (Inr (), t)"
    by (cases "k' = 0") (auto simp: throw_Inr bnd_Inr)
  have "preserves stays_stopped (?audit previous)"
    unfolding createTenantLifecycleAuditEventTx_def by (intro preserves_rules)
  then have "stays_stopped (tab v) (tab t)" using v(2) by (rule preservesD)
  moreover have "tab c = fst (set_tenant_status_sql tenant target (db_now s) (tab s))" "db_now c = db_now s"
    using modify_Inr [OF m] check_Inr(2,3) [OF c] select_Inr(2,3) [OF sel] by (simp_all add: same_env_def)
  ultimately show ?thesis using v(1) by (intro that [of c v])
qed

text \<open>What stopping a tenant does to its users, nodes, certificates and commands.\<close>

lemma stopped_tenant:
  assumes "ApplyTenantLifecycleTransition tenant tr s = (Inr (), t)"
    and "ToLower (TrimSpace (tt_TargetStatus tr)) = target" and "target = ''suspended'' \<or> target = ''deleted''"
  shows "(\<forall>r \<in> set (tenants (tab t)). tenant_id r = tenant \<longrightarrow> tenant_status r = Some target) \<and>
    users (tab t) = map (\<lambda>u. if user_tenant_id u = Some tenant then
        u\<lparr>user_token_version := Some (coalesce (user_token_version u) 0 + 1), user_updated_at := db_now s\<rparr> else u) (users (tab s)) \<and>
    nodes (tab t) = map (\<lambda>n. if active_node_of tenant n then
        n\<lparr>node_status := Some target, node_runtime_token_version := Some (coalesce (node_runtime_token_version n) 0 + 1),
          node_updated_at := db_now s\<rparr> else n) (nodes (tab s)) \<and>
    (\<forall>n \<in> set (nodes (tab t)). \<not> active_node_of tenant n) \<and>
    (\<forall>n \<in> set (nodes (tab s)). active_node_of tenant n \<longrightarrow>
       none_issued (node_id n) (tab t) \<and> none_open (node_public_key n) (tab t))"
proof -
  have "transaction (bnd (tenant_transition_tx tenant tr target) (\<lambda>_. ret (TxCommit ()))) s = (Inr (), t)"
    using assms by (auto simp: ApplyTenantLifecycleTransition_def Let_def throw_Inr split: if_split_asm)
  then show ?thesis
  proof (cases rule: transaction_Inr)
    case (committed s' v)
    then have "tenant_transition_tx tenant tr target s' = (Inr (), v)" by (auto simp: run_Inr)
    then obtain x y where "tab x = fst (set_tenant_status_sql tenant target (db_now s') (tab s'))" "db_now x = db_now s'"
        and z: "stop_tenant_tx tenant target x = (Inr (), y)" and yv: "stays_stopped (tab y) (tab v)"
      by (rule tenant_transition_Inr [OF _ stopping_targets(2) [OF assms(3)]])
    then have x: "tab x = fst (set_tenant_status_sql tenant target (db_now s) (tab s))" "db_now x = db_now s"
      using committed(2,3) by (simp_all add: same_env_def)
    note y = stop_tenant_Inr [OF z, unfolded x]
    have inactive: "\<not> active_node_of tenant (n\<lparr>node_status := Some target, node_runtime_token_version := v,
        node_updated_at := now\<rparr>)" for n v now
      using assms(3) by (auto simp: active_node_of_def node_active_def stopped_status_def coalesce_def)
    moreover have nt: "nodes (tab t) = map (\<lambda>n. if active_node_of tenant n then
        n\<lparr>node_status := Some target, node_runtime_token_version := Some (coalesce (node_runtime_token_version n) 0 + 1),
          node_updated_at := db_now s\<rparr> else n) (nodes (tab s))"
      using y(2) yv committed(4)
      by (simp add: stays_stopped_def set_tenant_status_sql_def stop_nodes_sql_def update_where_def)
    moreover have "users (tab t) = map (\<lambda>u. if user_tenant_id u = Some tenant then
        u\<lparr>user_token_version := Some (coalesce (user_token_version u) 0 + 1), user_updated_at := db_now s\<rparr> else u) (users (tab s))"
      using y(1) yv committed(4)
      by (simp add: stays_stopped_def set_tenant_status_sql_def bump_user_tokens_sql_def update_where_def)
    moreover have tt: "tenants (tab t) = update_where (\<lambda>r. tenant_id r = tenant)
          (\<lambda>r. r\<lparr>tenant_status := Some target, tenant_updated_at := db_now s\<rparr>) (tenants (tab s))"
      using y(3) yv committed(4) by (simp add: stays_stopped_def set_tenant_status_sql_def)
    moreover have "none_issued (node_id n) (tab t) \<and> none_open (node_public_key n) (tab t)"
      if "n \<in> set (nodes (tab s))" "active_node_of tenant n" for n
      using y(4) [of n] yv committed(4) that by (simp add: stays_stopped_def set_tenant_status_sql_def)
    moreover have "\<not> active_node_of tenant n" if "n \<in> set (nodes (tab t))" for n
      using that unfolding nt update_where_def [symmetric]
      by (cases rule: update_whereE) (use inactive in simp_all)
    moreover have "tenant_status r = Some target" if "r \<in> set (tenants (tab t))" "tenant_id r = tenant" for r
      using that(1) unfolding tt by (cases rule: update_whereE) (use that in simp_all)
    ultimately show ?thesis by blast
  next
    case (returned u v)
    then show ?thesis by (auto simp: run_Inr)
  qed
qed


text \<open>A transition of a node or of a tenant that fails changes no table.\<close>

theorem lifecycle_atomic:
  "atomic_on_error (ApplyNodeLifecycleTransition pk ntr) \<and> atomic_on_error (ApplyTenantLifecycleTransition tenant ttr)"
  unfolding ApplyNodeLifecycleTransition_def ApplyTenantLifecycleTransition_def Let_def
  by (simp add: atomic_throw transaction_atomic)

section \<open>Examples\<close>

definition sample_certificate :: "uuid \<Rightarrow> certificate_row" where
  "sample_certificate node = \<lparr>cert_id = ''ce1'', cert_tenant_id = ''t1'', cert_node_id = node,
     cert_serial_number = ''01'', cert_pem = '''', cert_ca_pem = '''', cert_not_before = 0, cert_not_after = 1000,
     cert_status = ''issued'', cert_issued_at = 0, cert_revoked_at = None, cert_revoke_reason = None,
     cert_renewed_from = None, cert_updated_at = 0\<rparr>"

definition sample_tenant_db :: db where
  "sample_tenant_db = \<lparr>db_now = 100, go_now = 100, faults = [], uuid_of = itoa_nat, uuid_ctr = 0,
     tab = empty_tables\<lparr>nodes := [sample_node ''n1'' ''pk1'' ''online'', sample_node ''n2'' ''pk2'' ''banned''],
       tenants := [\<lparr>tenant_id = ''t1'', tenant_name = ''acme'', tenant_code = None, tenant_status = Some ''active'',
         tenant_resource_quota = None, tenant_created_at = 0, tenant_updated_at = 0\<rparr>],
       users := [\<lparr>user_id = ''u1'', user_username = ''ann'', user_password_hash = ''h'', user_tenant_id = Some ''t1'',
         user_role = Some ''admin'', user_email = None, user_must_change_password = None, user_token_version = None,
         user_created_at = 0, user_updated_at = 0\<rparr>],
       node_certificates := [sample_certificate ''n1''],
       agent_commands := [sample_command ''c1'' ''sent'' 0 1]\<rparr>\<rparr>"

lemma lifecycle_trim:
  "ToLower (TrimSpace ''Suspended '') = ''suspended''" "ToLower (TrimSpace ''suspended'') = ''suspended''"
  by code_simp+

lemmas lifecycle_eval = sample_tenant_db_def sample_node_def sample_certificate_def sample_command_def secs_def
  ApplyNodeLifecycleTransition_def node_transition_tx_def set_node_status_sql_def revoke_for_status_def
  nodeStatusRequiresCertificateRevoke_def nodeStatusStopsCommands_def stopped_status_def revokeNodeCertificatesTx_def
  revoke_sql_def issued_to_def revoke_row_def createLifecycleCertificateRevokedAuditEventTx_def audit_tx_def
  insert_audit_sql_def marshal_ok_def failIncompleteAgentCommandsForNodeTx_def fail_deliveries_sql_def
  fail_commands_sql_def ApplyTenantLifecycleTransition_def tenant_transition_tx_def set_tenant_status_sql_def
  tenantStatusStopsRuntime_def stop_tenant_tx_def bump_user_tokens_sql_def selectActiveTenantNodesForLifecycleTx_def
  stop_nodes_sql_def stop_node_def active_node_of_def node_active_def

theorem stopped_node_is_cut_off_witness:
  "\<exists>n t. ApplyNodeLifecycleTransition ''pk1'' \<lparr>nt_TargetStatus = ''Suspended '', nt_RevokeReason = '''',
       nt_AuditEventType = '''', nt_AuditActor = '''', nt_AuditSummary = '''', nt_AuditDetail = []\<rparr> sample_tenant_db = (Inr n, t) \<and>
     none_issued (node_id n) (tab t) \<and> none_open ''pk1'' (tab t)"
proof -
  let ?tr = "\<lparr>nt_TargetStatus = ''Suspended '', nt_RevokeReason = '''',
       nt_AuditEventType = '''', nt_AuditActor = '''', nt_AuditSummary = '''', nt_AuditDetail = []\<rparr>"
  let ?run = "ApplyNodeLifecycleTransition ''pk1'' ?tr sample_tenant_db"
  have "\<not> isl (fst ?run)" by (simp add: lifecycle_eval lifecycle_trim eval_defs cong: eval_congs)
  then obtain n t where run: "?run = (Inr n, t)" by (rule run_succeeds)
  from stopped_node_is_cut_off [OF run, of "''suspended''"] run show ?thesis
    by (simp add: lifecycle_trim stopped_status_def)
qed


end
