(* ===== verification/Controller_Run.thy ===== *)
theory Controller_Run
  imports Policy_Sync Node_Lifecycle
begin

text \<open>
  The storage as one machine: the command queue, the policy syncs, the certificates and the
  lifecycle of nodes and tenants act on the same tables. A run is any sequence of their calls;
  the invariants of the components hold over every run.
\<close>

section \<open>The invariants over the lifecycle calls\<close>

lemma without_certs_fields:
  "without_certs u = without_certs t \<Longrightarrow> agent_commands u = agent_commands t"
  "without_certs u = without_certs t \<Longrightarrow> policy_deliveries u = policy_deliveries t"
  by (auto simp: without_certs_def dest: arg_cong [where f = agent_commands] arg_cong [where f = policy_deliveries])

lemma maintains_sync_certs: "maintains (keeps without_certs) m \<Longrightarrow> maintains (invar_rel sync_inv) m"
  by (erule maintains_mono) (auto simp: keeps_def intro!: sync_inv_same dest: without_certs_fields)

lemma maintains_cmd_certs: "maintains (keeps without_certs) m \<Longrightarrow> maintains cmd_rel m"
  by (erule maintains_mono) (auto simp: keeps_def intro!: cmd_rel_same dest: without_certs_fields)

lemma preserves_failIncomplete [preserves_rules]:
  "preserves (invar_rel sync_inv) (failIncompleteAgentCommandsForNodeTx pk m)"
  "preserves cmd_rel (failIncompleteAgentCommandsForNodeTx pk m)"
proof -
  show "preserves (invar_rel sync_inv) (failIncompleteAgentCommandsForNodeTx pk m)"
    unfolding preserves_def by (auto simp: failIncompleteTx_Inr(1) sync_inv_failed)
  show "preserves cmd_rel (failIncompleteAgentCommandsForNodeTx pk m)"
    by (rule cmds.grel.preserves_maintains) (intro maintains_rules)
qed

lemma preserves_revoke [preserves_rules]:
  "preserves (invar_rel sync_inv) (revokeNodeCertificatesTx i reason)"
  "preserves cmd_rel (revokeNodeCertificatesTx i reason)"
  by (intro sync.preserves_maintains cmds.grel.preserves_maintains maintains_sync_certs maintains_cmd_certs maintains_rules)+

text \<open>The statements on nodes, tenants, users and audit events touch neither commands nor deliveries.\<close>

lemma queue_untouched:
  assumes "agent_commands u = agent_commands t" and "policy_deliveries u = policy_deliveries t"
  shows "invar_rel sync_inv t u" "cmd_rel t u"
  using assms by (simp_all add: sync_inv_same cmd_rel_same)

lemma insert_audit_untouched:
  assumes "insert_audit_sql e i now t = Some (t', x)"
  shows "agent_commands t' = agent_commands t" "policy_deliveries t' = policy_deliveries t"
  using assms by (auto simp: insert_audit_sql_def split: if_split_asm)

lemma preserves_audit_tx [preserves_rules]:
  "preserves (invar_rel sync_inv) (audit_tx what e)" "preserves cmd_rel (audit_tx what e)"
  unfolding audit_tx_def
  by (intro preserves_rules; rule queue_untouched; erule insert_audit_untouched)+

lemma preserves_node_transition [preserves_rules]:
  "preserves (invar_rel sync_inv) (node_transition_tx pk tr target)"
  "preserves cmd_rel (node_transition_tx pk tr target)"
  unfolding node_transition_tx_def revoke_for_status_def createLifecycleCertificateRevokedAuditEventTx_def
  by (intro preserves_rules; simp add: set_node_status_sql_def queue_untouched)+

lemma preserves_tenant_transition [preserves_rules]:
  "preserves (invar_rel sync_inv) (tenant_transition_tx tenant tr target)"
  "preserves cmd_rel (tenant_transition_tx tenant tr target)"
  unfolding tenant_transition_tx_def stop_tenant_tx_def selectActiveTenantNodesForLifecycleTx_def stop_node_def
    createTenantLifecycleAuditEventTx_def
  by (intro preserves_rules; simp add: set_tenant_status_sql_def bump_user_tokens_sql_def stop_nodes_sql_def
      queue_untouched)+

lemma commit_unit: "(\<lambda>_. ret (TxCommit ())) = (\<lambda>x. ret (TxCommit x))"
  by simp

lemma maintains_lifecycle [maintains_rules]:
  "maintains (invar_rel sync_inv) (ApplyNodeLifecycleTransition pk ntr)"
  "maintains cmd_rel (ApplyNodeLifecycleTransition pk ntr)"
  "maintains (invar_rel sync_inv) (ApplyTenantLifecycleTransition tenant ttr)"
  "maintains cmd_rel (ApplyTenantLifecycleTransition tenant ttr)"
  unfolding ApplyNodeLifecycleTransition_def ApplyTenantLifecycleTransition_def commit_unit
  by (intro sync.maintains_let sync.maintains_if sync.maintains_throw sync.maintains_transaction_preserves
      cmds.grel.maintains_let cmds.grel.maintains_if cmds.grel.maintains_throw
      cmds.grel.maintains_transaction_preserves preserves_rules)+

lemma maintains_certificates [maintains_rules]:
  "maintains (invar_rel sync_inv) (UpsertNodeCertificate c)" "maintains cmd_rel (UpsertNodeCertificate c)"
  "maintains (invar_rel sync_inv) (RevokeNodeCertificate node reason)" "maintains cmd_rel (RevokeNodeCertificate node reason)"
  "maintains (invar_rel sync_inv) (MarkExpiredNodeCertificates due)" "maintains cmd_rel (MarkExpiredNodeCertificates due)"
  unfolding RevokeNodeCertificate_def
  by (intro maintains_sync_certs maintains_cmd_certs maintains_rules)+

section \<open>Runs\<close>

text \<open>
  The calls of the storage that write commands, deliveries, nodes and tenants, in any order, each
  with its own clock, refusals and drawn identifiers. Each call is one top-level function of the
  storage; its result is dropped.
\<close>

datatype queue_call =
    CallQueue string string params int int
  | CallQueueAll "string list" string params int int
  | CallNext "uuid \<Rightarrow> bool" string
  | CallRequeue uuid string string
  | CallFailIncomplete string string
  | CallFailTimedOut string
  | CallReport uuid string string string string_map
  | CallPolicySync PolicySyncRequest
  | CallNodeLifecycle string NodeLifecycleTransition
  | CallTenantLifecycle uuid TenantLifecycleTransition
  | CallUpsertCertificate NodeCertificate
  | CallRevokeCertificate uuid string
  | CallMarkExpired time

fun exec_call :: "queue_call \<Rightarrow> unit op" where
  "exec_call (CallQueue pk c p pr ti) = bnd (QueueAgentCommand pk c p pr ti) (\<lambda>_. ret ())"
| "exec_call (CallQueueAll pks c p pr ti) = bnd (QueueAgentCommands pks c p pr ti) (\<lambda>_. ret ())"
| "exec_call (CallNext locked pk) = bnd (GetNextPendingAgentCommand locked pk) (\<lambda>_. ret ())"
| "exec_call (CallRequeue i pk m) = RequeueSentAgentCommand i pk m"
| "exec_call (CallFailIncomplete pk m) = FailIncompleteAgentCommandsForNode pk m"
| "exec_call (CallFailTimedOut pk) = bnd (FailTimedOutAgentCommandsForNode pk) (\<lambda>_. ret ())"
| "exec_call (CallReport i pk st m res) = updateAgentCommandStatus i pk st m res"
| "exec_call (CallPolicySync req) = bnd (QueuePolicySync req) (\<lambda>_. ret ())"
| "exec_call (CallNodeLifecycle pk tr) = bnd (ApplyNodeLifecycleTransition pk tr) (\<lambda>_. ret ())"
| "exec_call (CallTenantLifecycle tenant tr) = ApplyTenantLifecycleTransition tenant tr"
| "exec_call (CallUpsertCertificate c) = UpsertNodeCertificate (Some c)"
| "exec_call (CallRevokeCertificate node reason) = RevokeNodeCertificate node reason"
| "exec_call (CallMarkExpired due) = bnd (MarkExpiredNodeCertificates due) (\<lambda>_. ret ())"

inductive queue_run :: "tables \<Rightarrow> tables \<Rightarrow> bool" where
  start: "queue_run t t"
| call: "queue_run t (tab s) \<Longrightarrow> exec_call c s = (r, u) \<Longrightarrow> queue_run t (tab u)"

lemma exec_call_maintains:
  "maintains (invar_rel sync_inv) (exec_call c)" "maintains cmd_rel (exec_call c)"
  by (cases c; simp add: QueueAgentCommand_def; intro maintains_rules)+

lemma queue_run_maintains:
  "queue_run t u \<Longrightarrow> invar_rel sync_inv t u"
  "queue_run t u \<Longrightarrow> cmd_rel t u"
proof -
  show "queue_run t u \<Longrightarrow> invar_rel sync_inv t u"
    by (induction rule: queue_run.induct)
       (blast intro: sync.R_refl sync.R_trans maintainsD [OF exec_call_maintains(1)])+
  show "queue_run t u \<Longrightarrow> cmd_rel t u"
    by (induction rule: queue_run.induct)
       (blast intro: cmds.grel.R_refl cmds.grel.R_trans maintainsD [OF exec_call_maintains(2)])+
qed

text \<open>
  (C5) A finished command is final: over any sequence of calls a command keeps its identity,
  priority and parameters, its status moves only along the legal transitions, and once it is
  completed, failed or stale its row never changes again.
\<close>

theorem finished_command_is_final:
  assumes "queue_run t u" and "cmds_inv t" and "i < length (agent_commands t)"
  shows "i < length (agent_commands u) \<and>
    cmd_transition\<^sup>*\<^sup>* (cmd_status (agent_commands t ! i)) (cmd_status (agent_commands u ! i)) \<and>
    cmd_id (agent_commands u ! i) = cmd_id (agent_commands t ! i) \<and>
    cmd_params (agent_commands u ! i) = cmd_params (agent_commands t ! i) \<and>
    (terminal_status (cmd_status (agent_commands t ! i)) \<longrightarrow> agent_commands u ! i = agent_commands t ! i)"
  using queue_run_maintains(2) [OF assms(1)] assms(2,3)
  by (auto simp: guarded_def evolves_def rows_rel_nth cmd_step_def)

theorem finished_command_is_final_witness:
  "\<exists>u. queue_run (tab (sample_queue [sample_command ''c1'' ''stale'' 0 1] [] 100)) u \<and>
     agent_commands u ! 0 = sample_command ''c1'' ''stale'' 0 1"
proof -
  let ?s = "sample_queue [sample_command ''c1'' ''stale'' 0 1] [] 100"
  let ?u = "tab (snd (exec_call (CallReport ''c1'' ''pk1'' ''completed'' '''' []) ?s))"
  have run: "queue_run (tab ?s) ?u"
    by (rule call [OF start]) (rule prod.collapse [symmetric])
  have "agent_commands (tab ?s) ! 0 = sample_command ''c1'' ''stale'' 0 1" "cmds_inv (tab ?s)"
    by (simp_all add: cmds_inv_def sample_queue_def)
  moreover have "terminal_status (cmd_status (sample_command ''c1'' ''stale'' 0 1))"
    by (simp add: terminal_status_def sample_command_def)
  ultimately show ?thesis
    using finished_command_is_final [OF run, of 0] run by (auto simp: sample_queue_def)
qed



end
