(* ===== verification/Go_Netip.thy ===== *)
theory Go_Netip
  imports Prelude "HOL-Library.Char_ord" "HOL-Library.Code_Target_Nat"
begin

text \<open>
  The parts of Go's \<^verbatim>\<open>net/netip\<close> and \<^verbatim>\<open>net\<close> that the controller calls: textual addresses and
  prefixes, masking, containment, printing, and the splitting of host and port. An address is
  a word of its width; a prefix matches the addresses that agree with it on its leading bits.
\<close>

unbundle bit_operations_syntax

section \<open>Addresses and prefixes\<close>

text \<open>\<open>AddrZero\<close> is the zero \<^verbatim>\<open>netip.Addr\<close>; an IPv6 address has a zone, empty for none.\<close>

datatype Addr = AddrZero | Addr4 "32 word" | Addr6 "128 word" string

fun Is4 :: "Addr \<Rightarrow> bool" where
  "Is4 (Addr4 _) = True"
| "Is4 _ = False"

fun Is6 :: "Addr \<Rightarrow> bool" where
  "Is6 (Addr6 _ _) = True"
| "Is6 _ = False"

fun Zone :: "Addr \<Rightarrow> string" where
  "Zone (Addr6 _ z) = z"
| "Zone _ = ''''"

fun withoutZone :: "Addr \<Rightarrow> Addr" where
  "withoutZone (Addr6 w _) = Addr6 w ''''"
| "withoutZone a = a"

fun BitLen :: "Addr \<Rightarrow> int" where
  "BitLen AddrZero = 0"
| "BitLen (Addr4 _) = 32"
| "BitLen (Addr6 _ _) = 128"

record Prefix =
  pf_Addr :: Addr
  pf_Bits :: int

text \<open>\<^verbatim>\<open>Bits\<close> of an invalid prefix is -1; so is that of the zero \<^verbatim>\<open>netip.Prefix{}\<close>.\<close>

definition PrefixZero :: Prefix where
  "PrefixZero = \<lparr>pf_Addr = AddrZero, pf_Bits = -1\<rparr>"

definition PrefixFrom :: "Addr \<Rightarrow> int \<Rightarrow> Prefix" where
  "PrefixFrom a bits = \<lparr>pf_Addr = withoutZone a,
     pf_Bits = (if a \<noteq> AddrZero \<and> 0 \<le> bits \<and> bits \<le> BitLen a then bits else -1)\<rparr>"

text \<open>The leading \<open>b\<close> bits of a word.\<close>

definition keep_bits :: "nat \<Rightarrow> 'a::len word \<Rightarrow> 'a word" where
  "keep_bits b w = w AND NOT (mask (LENGTH('a) - b))"

definition Masked :: "Prefix \<Rightarrow> Prefix" where
  "Masked p = (if pf_Bits p < 0 then PrefixZero
     else case pf_Addr p of
         AddrZero \<Rightarrow> PrefixZero
       | Addr4 w \<Rightarrow> if pf_Bits p > 32 then PrefixZero
           else PrefixFrom (Addr4 (keep_bits (nat (pf_Bits p)) w)) (pf_Bits p)
       | Addr6 w z \<Rightarrow> if pf_Bits p > 128 then PrefixZero
           else PrefixFrom (Addr6 (keep_bits (nat (pf_Bits p)) w) z) (pf_Bits p))"

text \<open>\<^verbatim>\<open>Prefix.Contains\<close>: an address of the other family, or one with a zone, is never contained.\<close>

definition Prefix_Contains :: "Prefix \<Rightarrow> Addr \<Rightarrow> bool" where
  "Prefix_Contains p a \<longleftrightarrow> 0 \<le> pf_Bits p \<and> Zone a = '''' \<and>
     (case (pf_Addr p, a) of
        (Addr4 v, Addr4 w) \<Rightarrow> drop_bit (32 - nat (pf_Bits p)) (w XOR v) = 0
      | (Addr6 v _, Addr6 w _) \<Rightarrow> keep_bits (nat (pf_Bits p)) (w XOR v) = 0
      | _ \<Rightarrow> False)"

section \<open>Parsing\<close>

text \<open>A big-endian byte sequence as a number.\<close>

definition be_value :: "nat list \<Rightarrow> nat" where
  "be_value = foldl (\<lambda>n b. 256 * n + b) 0"

text \<open>
  \<^verbatim>\<open>parseIPv4Fields\<close>: the loop over the characters, with the previous character, the value and
  the number of digits of the current field and the fields so far.
\<close>

fun parse4 :: "char option \<Rightarrow> nat \<Rightarrow> nat \<Rightarrow> nat list \<Rightarrow> string \<Rightarrow> nat list option" where
  "parse4 prev val digLen fs [] = (if length fs < 3 then None else Some (fs @ [val]))"
| "parse4 prev val digLen fs (c # cs) = (case char_digit c of
       Some d \<Rightarrow>
         if digLen = 1 \<and> val = 0 then None
         else if val * 10 + d > 255 then None
         else parse4 (Some c) (val * 10 + d) (Suc digLen) fs cs
     | None \<Rightarrow>
         if c = CHR ''.'' then
           if prev = None \<or> cs = [] \<or> prev = Some CHR ''.'' then None
           else if length fs = 3 then None
           else parse4 (Some c) 0 0 (fs @ [val]) cs
         else None)"

definition parseIPv4Fields :: "string \<Rightarrow> nat list option" where
  "parseIPv4Fields s = parse4 None 0 0 [] s"

definition parseIPv4 :: "string \<Rightarrow> Addr option" where
  "parseIPv4 s = map_option (\<lambda>bs. Addr4 (of_nat (be_value bs))) (parseIPv4Fields s)"

definition hex_digit :: "char \<Rightarrow> nat option" where
  "hex_digit c = (let n = (of_char c :: nat) in
     if 48 \<le> n \<and> n \<le> 57 then Some (n - 48)
     else if 97 \<le> n \<and> n \<le> 102 then Some (n - 97 + 10)
     else if 65 \<le> n \<and> n \<le> 70 then Some (n - 65 + 10)
     else None)"

text \<open>The hexadecimal digits of one group: their number, their value, and what follows them.\<close>

fun scan_hex :: "nat \<Rightarrow> nat \<Rightarrow> string \<Rightarrow> (nat \<times> nat \<times> string) option" where
  "scan_hex off acc [] = Some (off, acc, [])"
| "scan_hex off acc (c # cs) = (case hex_digit c of
       None \<Rightarrow> Some (off, acc, c # cs)
     | Some d \<Rightarrow> if off > 3 then None
         else if acc * 16 + d > 65535 then None
         else scan_hex (Suc off) (acc * 16 + d) cs)"

text \<open>The loop of \<^verbatim>\<open>parseIPv6\<close>: the position of the ellipsis, the bytes so far, the rest.\<close>

function parse6 :: "nat option \<Rightarrow> nat list \<Rightarrow> string \<Rightarrow> (nat option \<times> nat list \<times> string) option" where
  "parse6 ellipsis ip s =
     (if 16 \<le> length ip then Some (ellipsis, ip, s)
      else (case scan_hex 0 0 s of
          None \<Rightarrow> None
        | Some (off, acc, r) \<Rightarrow>
            if off = 0 then None
            else if take 1 r = ''.'' then
              if ellipsis = None \<and> length ip \<noteq> 12 then None
              else if length ip + 4 > 16 then None
              else map_option (\<lambda>f. (ellipsis, ip @ f, [])) (parseIPv4Fields s)
            else let ip = ip @ [acc div 256, acc mod 256] in
              (case r of
                [] \<Rightarrow> Some (ellipsis, ip, [])
              | c # r \<Rightarrow>
                  if c \<noteq> CHR '':'' then None
                  else if r = [] then None
                  else if hd r = CHR '':'' then
                    if ellipsis \<noteq> None then None
                    else if tl r = [] then Some (Some (length ip), ip, [])
                    else parse6 (Some (length ip)) ip (tl r)
                  else parse6 ellipsis ip r)))"
  by pat_completeness auto
termination by (relation "measure (\<lambda>(_, ip, _). 16 - length ip)") auto

declare parse6.simps [simp del]

definition expand_ellipsis :: "nat option \<times> nat list \<times> string \<Rightarrow> nat list option" where
  "expand_ellipsis = (\<lambda>(ellipsis, ip, s).
     if s \<noteq> [] then None
     else if length ip < 16 then
       map_option (\<lambda>e. take e ip @ replicate (16 - length ip) 0 @ drop e ip) ellipsis
     else if ellipsis \<noteq> None then None
     else Some ip)"

definition parseIPv6 :: "string \<Rightarrow> Addr option" where
  "parseIPv6 s =
     (let (s, zone, bad) = (case Index CHR ''%'' s of
            None \<Rightarrow> (s, '''', False)
          | Some i \<Rightarrow> (take i s, drop (Suc i) s, drop (Suc i) s = ''''));
          lead = (take 2 s = ''::'');
          body = (if lead then drop 2 s else s)
      in if bad then None
         else if lead \<and> body = [] then Some (Addr6 0 zone)
         else Option.bind (parse6 (if lead then Some 0 else None) [] body) (\<lambda>r.
              map_option (\<lambda>ip. Addr6 (of_nat (be_value ip)) zone) (expand_ellipsis r)))"

definition ParseAddr :: "string \<Rightarrow> Addr option" where
  "ParseAddr s = (case find (\<lambda>c. c \<in> set ''.:%'') s of
       None \<Rightarrow> None
     | Some c \<Rightarrow> if c = CHR ''.'' then parseIPv4 s
         else if c = CHR '':'' then parseIPv6 s
         else None)"

definition ParsePrefix :: "string \<Rightarrow> Prefix option" where
  "ParsePrefix s = (case LastIndex CHR ''/'' s of
       None \<Rightarrow> None
     | Some i \<Rightarrow> (case ParseAddr (take i s) of
           None \<Rightarrow> None
         | Some a \<Rightarrow>
             if Is6 a \<and> Zone a \<noteq> '''' then None
             else let bitsStr = drop (Suc i) s in
               if length bitsStr > 1 \<and> (hd bitsStr < CHR ''1'' \<or> hd bitsStr > CHR ''9'') then None
               else (case Atoi bitsStr of
                   None \<Rightarrow> None
                 | Some bits \<Rightarrow>
                     if bits < 0 \<or> bits > (if Is6 a then 128 else 32) then None
                     else Some (PrefixFrom a bits))))"


section \<open>Printing\<close>

definition bytes4 :: "32 word \<Rightarrow> nat list" where
  "bytes4 w = [unat w div 2 ^ 24, unat w div 2 ^ 16 mod 256, unat w div 2 ^ 8 mod 256, unat w mod 256]"

definition string4 :: "32 word \<Rightarrow> string" where
  "string4 w = Join ''.'' (map itoa_nat (bytes4 w))"

definition groups6 :: "128 word \<Rightarrow> nat list" where
  "groups6 w = map (\<lambda>i. unat (drop_bit (16 * i) w) mod 65536) [7, 6, 5, 4, 3, 2, 1, 0]"

definition hex_char :: "nat \<Rightarrow> char" where
  "hex_char d = (if d < 10 then char_of (48 + d) else char_of (87 + d))"

fun hex_nat :: "nat \<Rightarrow> string" where
  "hex_nat n = (if n < 16 then [hex_char n] else hex_nat (n div 16) @ [hex_char (n mod 16)])"

declare hex_nat.simps [simp del]

text \<open>The first of the longest runs of at least two zero groups, as a half-open range.\<close>

definition zero_run :: "nat list \<Rightarrow> (nat \<times> nat) option" where
  "zero_run gs = fold (\<lambda>i best.
     let l = length (takeWhile (\<lambda>g. g = 0) (drop i gs))
     in if l \<ge> 2 \<and> l > (case best of None \<Rightarrow> 0 | Some (s, e) \<Rightarrow> e - s) then Some (i, i + l) else best)
     [0 ..< 8] None"

text \<open>
  The loop of \<^verbatim>\<open>appendTo6\<close> prints the groups before the run, the two colons in place of the
  run, and the groups after it.
\<close>

definition string6 :: "128 word \<Rightarrow> string" where
  "string6 w = (let gs = groups6 w; hex = (\<lambda>gs. Join '':'' (map hex_nat gs)) in
     case zero_run gs of
       None \<Rightarrow> hex gs
     | Some (s, e) \<Rightarrow> hex (take s gs) @ ''::'' @ hex (drop e gs))"

definition Is4In6 :: "128 word \<Rightarrow> bool" where
  "Is4In6 w \<longleftrightarrow> drop_bit 32 w = 0xFFFF"

fun Addr_String :: "Addr \<Rightarrow> string" where
  "Addr_String AddrZero = ''invalid IP''"
| "Addr_String (Addr4 w) = string4 w"
| "Addr_String (Addr6 w z) =
     (if Is4In6 w then ''::ffff:'' @ string4 (ucast w) else string6 w) @
     (if z = '''' then '''' else CHR ''%'' # z)"

definition Prefix_String :: "Prefix \<Rightarrow> string" where
  "Prefix_String p = (if pf_Bits p < 0 then ''invalid Prefix''
     else Addr_String (pf_Addr p) @ ''/'' @ Itoa (pf_Bits p))"

section \<open>The package net\<close>

text \<open>
  \<^verbatim>\<open>net.ParseIP\<close> is \<^verbatim>\<open>netip.ParseAddr\<close> without a zone; \<^verbatim>\<open>To4\<close> is the IPv4 address of an
  IPv4 or IPv4-mapped one, and \<open>string4\<close> prints it.
\<close>

definition ParseIP :: "string \<Rightarrow> Addr option" where
  "ParseIP s = (case ParseAddr s of
       None \<Rightarrow> None
     | Some a \<Rightarrow> if Zone a \<noteq> '''' then None else Some a)"

fun To4 :: "Addr \<Rightarrow> 32 word option" where
  "To4 (Addr4 w) = Some w"
| "To4 (Addr6 w _) = (if Is4In6 w then Some (ucast w) else None)"
| "To4 AddrZero = None"

definition SplitHostPort :: "string \<Rightarrow> (string \<times> string) option" where
  "SplitHostPort hp = (case LastIndex CHR '':'' hp of
       None \<Rightarrow> None
     | Some i \<Rightarrow>
         (case (if hd hp = CHR ''['' then
                  (case Index CHR '']'' hp of
                     None \<Rightarrow> None
                   | Some end \<Rightarrow> if Suc end = length hp then None
                       else if Suc end = i then Some (take (end - 1) (drop 1 hp), 1, Suc end)
                       else None)
                else if Contains (take i hp) CHR '':'' then None
                else Some (take i hp, 0, 0)) of
            None \<Rightarrow> None
          | Some (host, j, k) \<Rightarrow>
              if Contains (drop j hp) CHR ''['' then None
              else if Contains (drop k hp) CHR '']'' then None
              else Some (host, drop (Suc i) hp)))"

definition JoinHostPort :: "string \<Rightarrow> string \<Rightarrow> string" where
  "JoinHostPort host port = (if Contains host CHR '':'' then ''['' @ host @ '']:'' @ port else host @ '':'' @ port)"


section \<open>What a prefix matches\<close>

text \<open>
  The interface a CIDR prefix relies on: words that agree on their leading bits. From these
  laws two prefixes overlap exactly when one contains the other, and containment of the
  matched addresses is a comparison of one address and of the lengths.
\<close>

locale prefix_match =
  fixes agree :: "nat \<Rightarrow> 'w \<Rightarrow> 'w \<Rightarrow> bool" and width :: nat
  assumes agree_refl: "agree b v v"
    and agree_sym: "agree b v w \<Longrightarrow> agree b w v"
    and agree_trans: "agree b u v \<Longrightarrow> agree b v w \<Longrightarrow> agree b u w"
    and agree_shorter: "agree c v w \<Longrightarrow> b \<le> c \<Longrightarrow> agree b v w"
    and agree_longer: "b < c \<Longrightarrow> c \<le> width \<Longrightarrow> \<exists>w. agree b v w \<and> \<not> agree c v w"
begin

lemma overlap_iff:
  "(\<exists>x. agree b v x \<and> agree c w x) \<longleftrightarrow> agree b v w \<and> b \<le> c \<or> agree c w v \<and> c \<le> b"
proof
  assume "\<exists>x. agree b v x \<and> agree c w x"
  then obtain x where x: "agree b v x" "agree c w x" by blast
  show "agree b v w \<and> b \<le> c \<or> agree c w v \<and> c \<le> b"
  proof (cases "b \<le> c")
    case True
    with x(2) have "agree b w x" by (rule agree_shorter)
    with x(1) have "agree b v w" by (rule agree_trans [OF _ agree_sym])
    with True show ?thesis by simp
  next
    case False
    then have "agree c v x" by (intro agree_shorter [OF x(1)]) simp
    with x(2) have "agree c w v" by (rule agree_trans [OF _ agree_sym])
    with False show ?thesis by simp
  qed
qed (use agree_refl in blast)

lemma subset_iff:
  assumes "c \<le> width"
  shows "(\<forall>x. agree b v x \<longrightarrow> agree c w x) \<longleftrightarrow> agree c w v \<and> c \<le> b"
proof
  assume sub: "\<forall>x. agree b v x \<longrightarrow> agree c w x"
  then have wv: "agree c w v" using agree_refl by blast
  moreover have "c \<le> b"
  proof (rule ccontr)
    assume "\<not> c \<le> b"
    then obtain x where "agree b v x" "\<not> agree c v x" using agree_longer [of b c v] assms by auto
    moreover have "agree c v x"
      using sub \<open>agree b v x\<close> by (intro agree_trans [OF agree_sym [OF wv]]) simp
    ultimately show False by simp
  qed
  ultimately show "agree c w v \<and> c \<le> b" ..
next
  assume "agree c w v \<and> c \<le> b"
  then show "\<forall>x. agree b v x \<longrightarrow> agree c w x" using agree_trans agree_shorter by meson
qed

lemma strict_iff:
  assumes "b \<le> width" and "c \<le> width"
  shows "((\<forall>x. agree b v x \<longrightarrow> agree c w x) \<and> \<not> (\<forall>x. agree c w x \<longrightarrow> agree b v x)) \<longleftrightarrow> agree c w v \<and> c < b"
  unfolding subset_iff [OF assms(1)] subset_iff [OF assms(2)]
  by (auto intro: agree_sym)

end

definition agree_bits :: "nat \<Rightarrow> 'a::len word \<Rightarrow> 'a word \<Rightarrow> bool" where
  "agree_bits b v w \<longleftrightarrow> drop_bit (LENGTH('a) - b) v = drop_bit (LENGTH('a) - b) w"

lemma agree_bits_iff:
  fixes v w :: "'a::len word"
  shows "agree_bits b v w \<longleftrightarrow> (\<forall>n < LENGTH('a). LENGTH('a) - b \<le> n \<longrightarrow> bit v n = bit w n)"
proof -
  have "agree_bits b v w \<longleftrightarrow> (\<forall>n. bit v (LENGTH('a) - b + n) = bit w (LENGTH('a) - b + n))"
    unfolding agree_bits_def bit_eq_iff [where ?'a = "'a word"] bit_drop_bit_eq o_def
    by (metis bit_imp_le_length less_imp_not_less linorder_not_less possible_bit_word trans_le_add2)
  also have "\<dots> \<longleftrightarrow> (\<forall>n. LENGTH('a) - b \<le> n \<longrightarrow> bit v n = bit w n)"
    by (metis le_add1 le_add_diff_inverse)
  finally show ?thesis by (metis bit_imp_le_length)
qed

interpretation words: prefix_match "agree_bits :: nat \<Rightarrow> 'a::len word \<Rightarrow> 'a word \<Rightarrow> bool" "LENGTH('a)"
proof unfold_locales
  fix v :: "'a word" and b c :: nat
  assume bc: "b < c" "c \<le> LENGTH('a)"
  then have "bit (flip_bit (LENGTH('a) - c) v) (LENGTH('a) - c) \<noteq> bit v (LENGTH('a) - c)"
    by (simp add: bit_flip_bit_iff)
  moreover have "LENGTH('a) - c < LENGTH('a)" using bc by simp
  ultimately have "\<not> agree_bits c v (flip_bit (LENGTH('a) - c) v)"
    unfolding agree_bits_iff by (metis order_refl)
  moreover have "agree_bits b v (flip_bit (LENGTH('a) - c) v)"
    using bc by (auto simp: agree_bits_iff bit_flip_bit_iff)
  ultimately show "\<exists>w. agree_bits b v w \<and> \<not> agree_bits c v w" by blast
qed (auto simp: agree_bits_iff)

lemma xor_zero_iff: "x XOR y = 0 \<longleftrightarrow> x = y" for x y :: "'a::len word"
proof
  assume "x XOR y = 0"
  then have "x XOR (x XOR y) = x" by simp
  then show "x = y" by (simp add: xor.assoc [symmetric])
qed simp

lemma xor_agree:
  fixes v w :: "'a::len word"
  shows "drop_bit (LENGTH('a) - b) (w XOR v) = 0 \<longleftrightarrow> agree_bits b v w"
proof -
  have "drop_bit (LENGTH('a) - b) (w XOR v) = drop_bit (LENGTH('a) - b) w XOR drop_bit (LENGTH('a) - b) v"
    by (rule drop_bit_xor)
  then show ?thesis by (auto simp: agree_bits_def xor_zero_iff)
qed

lemma keep_bits_zero_iff:
  fixes w :: "'a::len word"
  shows "keep_bits b w = 0 \<longleftrightarrow> drop_bit (LENGTH('a) - b) w = 0"
proof -
  have "keep_bits b w = 0 \<longleftrightarrow> (\<forall>n < LENGTH('a). LENGTH('a) - b \<le> n \<longrightarrow> \<not> bit w n)"
    by (auto simp: keep_bits_def bit_eq_iff bit_simps not_less)
  also have "\<dots> \<longleftrightarrow> agree_bits b 0 w" by (simp add: agree_bits_iff)
  finally show ?thesis by (auto simp: agree_bits_def)
qed

lemma agree_keep_bits [simp]:
  fixes v w :: "'a::len word"
  shows "agree_bits b (keep_bits b v) w \<longleftrightarrow> agree_bits b v w"
  by (auto simp: agree_bits_iff keep_bits_def bit_simps)


text \<open>A valid prefix: a length within the width of the address, and no zone.\<close>

definition wf_prefix :: "Prefix \<Rightarrow> bool" where
  "wf_prefix p \<longleftrightarrow> pf_Addr p \<noteq> AddrZero \<and> Zone (pf_Addr p) = '''' \<and> 0 \<le> pf_Bits p \<and> pf_Bits p \<le> BitLen (pf_Addr p)"

lemma contains_simps [simp]:
  "Prefix_Contains p AddrZero \<longleftrightarrow> False"
  "pf_Addr p = Addr4 v \<Longrightarrow> Prefix_Contains p (Addr4 w) \<longleftrightarrow> 0 \<le> pf_Bits p \<and> agree_bits (nat (pf_Bits p)) v w"
  "pf_Addr p = Addr4 v \<Longrightarrow> Prefix_Contains p (Addr6 x z) \<longleftrightarrow> False"
  "pf_Addr p = Addr6 y z' \<Longrightarrow> Prefix_Contains p (Addr4 w) \<longleftrightarrow> False"
  "pf_Addr p = Addr6 y z' \<Longrightarrow> Prefix_Contains p (Addr6 x z) \<longleftrightarrow> z = '''' \<and> 0 \<le> pf_Bits p \<and> agree_bits (nat (pf_Bits p)) y x"
  using xor_agree [of "nat (pf_Bits p)" w v] xor_agree [of "nat (pf_Bits p)" x y]
  by (auto simp: Prefix_Contains_def keep_bits_zero_iff split: Addr.split)

lemma wf_prefix_cases:
  assumes "wf_prefix p"
  obtains (v4) v where "pf_Addr p = Addr4 v" "0 \<le> pf_Bits p" "pf_Bits p \<le> 32"
    | (v6) v where "pf_Addr p = Addr6 v ''''" "0 \<le> pf_Bits p" "pf_Bits p \<le> 128"
  using assms by (cases "pf_Addr p") (auto simp: wf_prefix_def)

lemma contains_self: "wf_prefix p \<Longrightarrow> Prefix_Contains p (pf_Addr p)"
  by (erule wf_prefix_cases) (simp_all add: words.agree_refl)

lemma contains_overlap_iff:
  assumes "wf_prefix p" and "wf_prefix q"
  shows "(\<exists>a. Prefix_Contains p a \<and> Prefix_Contains q a) \<longleftrightarrow>
    Prefix_Contains p (pf_Addr q) \<and> pf_Bits p \<le> pf_Bits q \<or> Prefix_Contains q (pf_Addr p) \<and> pf_Bits q \<le> pf_Bits p"
proof -
  have ex: "(\<exists>a. P a) \<longleftrightarrow> P AddrZero \<or> (\<exists>w. P (Addr4 w)) \<or> (\<exists>w z. P (Addr6 w z))" for P
    by (metis Addr.exhaust)
  from assms show ?thesis
    by (elim wf_prefix_cases) (simp_all add: ex words.overlap_iff nat_le_eq_zle)
qed

lemma contains_subset_iff:
  assumes "wf_prefix p" and "wf_prefix q"
  shows "{a. Prefix_Contains p a} \<subseteq> {a. Prefix_Contains q a} \<longleftrightarrow> Prefix_Contains q (pf_Addr p) \<and> pf_Bits q \<le> pf_Bits p"
proof -
  have all: "(\<forall>a. P a) \<longleftrightarrow> P AddrZero \<and> (\<forall>w. P (Addr4 w)) \<and> (\<forall>w z. P (Addr6 w z))" for P
    by (metis Addr.exhaust)
  have le: "0 \<le> i \<Longrightarrow> 0 \<le> j \<Longrightarrow> nat i \<le> nat j \<longleftrightarrow> i \<le> j" for i j by auto
  have "{a. Prefix_Contains p a} \<subseteq> {a. Prefix_Contains q a} \<longleftrightarrow> (\<forall>a. Prefix_Contains p a \<longrightarrow> Prefix_Contains q a)"
    by blast
  also have "\<dots> \<longleftrightarrow> Prefix_Contains q (pf_Addr p) \<and> pf_Bits q \<le> pf_Bits p"
    using assms contains_self [OF assms(1)]
    by (elim wf_prefix_cases)
       (auto simp: all words.subset_iff [where ?'a = 32, simplified] words.subset_iff [where ?'a = 128, simplified] le)
  finally show ?thesis .
qed

lemma contains_strict_iff:
  assumes "wf_prefix p" and "wf_prefix q"
  shows "{a. Prefix_Contains p a} \<subset> {a. Prefix_Contains q a} \<longleftrightarrow> Prefix_Contains q (pf_Addr p) \<and> pf_Bits q < pf_Bits p"
proof -
  have "Prefix_Contains q (pf_Addr p) \<Longrightarrow> pf_Bits p = pf_Bits q \<Longrightarrow> Prefix_Contains p (pf_Addr q)"
    using assms by (elim wf_prefix_cases) (auto intro: words.agree_sym)
  then show ?thesis
    unfolding psubset_eq set_eq_subset contains_subset_iff [OF assms] contains_subset_iff [OF assms(2,1)]
    by (cases "pf_Bits p = pf_Bits q") auto
qed

lemma PrefixFrom_wf:
  "a \<noteq> AddrZero \<Longrightarrow> 0 \<le> b \<Longrightarrow> b \<le> BitLen a \<Longrightarrow> wf_prefix (PrefixFrom a b)"
  by (cases a) (auto simp: PrefixFrom_def wf_prefix_def)

lemma parseIPv6_nonzero: "parseIPv6 s \<noteq> Some AddrZero"
  unfolding parseIPv6_def Let_def case_prod_beta by (simp add: bind_eq_Some_conv)

lemma parseIPv4_nonzero: "parseIPv4 s \<noteq> Some AddrZero"
  by (simp add: parseIPv4_def)

lemma ParseAddr_nonzero: "ParseAddr s = Some a \<Longrightarrow> a \<noteq> AddrZero"
  using parseIPv4_nonzero [of s] parseIPv6_nonzero [of s]
  by (simp add: ParseAddr_def split: option.split_asm if_split_asm)

lemma ParsePrefix_wf:
  assumes "ParsePrefix s = Some p"
  shows "wf_prefix p"
proof -
  from assms obtain a bits where a: "a \<noteq> AddrZero" and p: "p = PrefixFrom a bits"
      and b: "0 \<le> bits" "bits \<le> (if Is6 a then 128 else 32)"
    by (auto simp: ParsePrefix_def Let_def not_less dest!: ParseAddr_nonzero split: option.splits if_split_asm)
  from a b(2) have "bits \<le> BitLen a" by (cases a) auto
  with a b(1) show ?thesis unfolding p by (intro PrefixFrom_wf)
qed

lemma Masked_wf:
  assumes "wf_prefix p"
  shows "wf_prefix (Masked p)" "pf_Bits (Masked p) = pf_Bits p"
    "Is4 (pf_Addr (Masked p)) = Is4 (pf_Addr p)"
  using assms by (cases "pf_Addr p"; auto simp: wf_prefix_def Masked_def PrefixFrom_def)+

lemma Masked_contains:
  assumes "wf_prefix p"
  shows "Prefix_Contains (Masked p) a \<longleftrightarrow> Prefix_Contains p a"
  using assms
  by (cases rule: wf_prefix_cases; cases a) (simp_all add: Masked_def PrefixFrom_def)

text \<open>A masked prefix has no address bit beyond its length, so masking again changes nothing.\<close>

lemma keep_bits_idem [simp]: "keep_bits b (keep_bits b w) = keep_bits b w"
  by (simp add: keep_bits_def and.assoc)

lemma Masked_idem [simp]: "Masked (Masked p) = Masked p"
  by (cases "pf_Addr p") (auto simp: Masked_def PrefixFrom_def PrefixZero_def)


section \<open>Printing and parsing\<close>

lemma itoa_nat_digits: "c \<in> set (itoa_nat n) \<Longrightarrow> \<exists>d < 10. c = digit_char d"
proof (induction n rule: itoa_nat.induct)
  case (1 n)
  show ?case
  proof (cases "n < 10")
    case True
    with "1.prems" show ?thesis by (auto simp: itoa_nat.simps [of n])
  next
    case False
    with "1.prems" consider "c \<in> set (itoa_nat (n div 10))" | "c = digit_char (n mod 10)"
      by (auto simp: itoa_nat.simps [of n])
    then show ?thesis
      by cases (use "1.IH" [OF False] in \<open>auto intro: exI [of _ "n mod 10"]\<close>)
  qed
qed

lemma itoa_nat_no_digit: "char_digit c = None \<Longrightarrow> c \<notin> set (itoa_nat n)"
  using itoa_nat_digits [of c n] char_digit_digit_char by fastforce

lemma separators_no_digits [simp]:
  "char_digit CHR ''.'' = None" "char_digit CHR '':'' = None" "char_digit CHR ''%'' = None"
  "char_digit CHR ''/'' = None" "char_digit CHR ''['' = None" "char_digit CHR '']'' = None"
  by (simp_all add: char_digit_def)

lemma itoa_byte_cases:
  assumes "b < 256"
  obtains (one) "b < 10" "itoa_nat b = [digit_char b]"
    | (two) x y where "0 < x" "x < 10" "y < 10" "b = 10 * x + y" "itoa_nat b = [digit_char x, digit_char y]"
    | (three) x y z where "0 < x" "x < 10" "y < 10" "z < 10" "b = 100 * x + 10 * y + z"
        "itoa_nat b = [digit_char x, digit_char y, digit_char z]"
proof -
  consider "b < 10" | "10 \<le> b" "b < 100" | "100 \<le> b" by linarith
  then show ?thesis
  proof cases
    case 1
    then show ?thesis by (intro one) (simp_all add: itoa_nat.simps [of b])
  next
    case 2
    then show ?thesis
      by (intro two [of "b div 10" "b mod 10"]) (simp_all add: itoa_nat.simps [of b] itoa_nat.simps [of "b div 10"])
  next
    case 3
    have "b div 10 div 10 = b div 100" "10 \<le> b div 10" "b div 100 < 10" using 3 assms by simp_all
    moreover have "b = 10 * (b div 10) + b mod 10" "b div 10 = 10 * (b div 100) + b div 10 mod 10"
      using div_mult2_eq [of b 10 10] by simp_all
    then have "b = 100 * (b div 100) + 10 * (b div 10 mod 10) + b mod 10" by linarith
    ultimately show ?thesis using 3 assms
      by (intro three [of "b div 100" "b div 10 mod 10" "b mod 10"])
         (simp_all add: itoa_nat.simps [of b] itoa_nat.simps [of "b div 10"] itoa_nat.simps [of "b div 100"])
  qed
qed

lemma parse4_byte:
  assumes "b < 256"
  shows "\<exists>c n. c \<noteq> CHR ''.'' \<and> (\<forall>rest. parse4 prev 0 0 fs (itoa_nat b @ rest) = parse4 (Some c) b n fs rest)"
proof -
  have dot: "d < 10 \<Longrightarrow> digit_char d \<noteq> CHR ''.''" for d
    using char_digit_digit_char [of d] by auto
  from assms show ?thesis
  proof (cases rule: itoa_byte_cases)
    case one
    then have "\<forall>rest. parse4 prev 0 0 fs (itoa_nat b @ rest) = parse4 (Some (digit_char b)) b 1 fs rest"
      by (simp add: char_digit_digit_char)
    with dot one(1) show ?thesis by blast
  next
    case (two x y)
    then have "\<forall>rest. parse4 prev 0 0 fs (itoa_nat b @ rest) = parse4 (Some (digit_char y)) b 2 fs rest"
      by (simp add: char_digit_digit_char numeral_2_eq_2 algebra_simps)
    with dot two(3) show ?thesis by blast
  next
    case (three x y z)
    then have "\<forall>rest. parse4 prev 0 0 fs (itoa_nat b @ rest) = parse4 (Some (digit_char z)) b 3 fs rest"
      using assms by (simp add: char_digit_digit_char numeral_3_eq_3 algebra_simps)
    with dot three(4) show ?thesis by blast
  qed
qed

lemma parse4_field:
  assumes "b < 256" and "length fs < 3" and "rest \<noteq> []"
  shows "parse4 prev 0 0 fs (itoa_nat b @ CHR ''.'' # rest) = parse4 (Some CHR ''.'') 0 0 (fs @ [b]) rest"
  using parse4_byte [OF assms(1), of prev fs] assms(2,3) by auto

lemma parse4_last:
  assumes "b < 256" and "3 \<le> length fs"
  shows "parse4 prev 0 0 fs (itoa_nat b) = Some (fs @ [b])"
  using parse4_byte [OF assms(1), of prev fs] assms(2) by (auto dest: spec [of _ "[]"])

lemma parseIPv4Fields_join:
  assumes "a < 256" "b < 256" "c < 256" "d < 256"
  shows "parseIPv4Fields (Join ''.'' (map itoa_nat [a, b, c, d])) = Some [a, b, c, d]"
  using assms by (simp add: parseIPv4Fields_def parse4_field parse4_last)

lemma bytes4_value: "be_value (bytes4 w) = unat w" "list_all (\<lambda>b. b < 256) (bytes4 w)"
proof -
  define n where "n = unat w"
  have "n < 2 ^ 32" using unsigned_less [of w] by (simp add: n_def)
  moreover have "n = 256 * (n div 256) + n mod 256" "n div 256 = 256 * (n div 65536) + n div 256 mod 256"
    "n div 65536 = 256 * (n div 16777216) + n div 65536 mod 256"
    using div_mult2_eq [of n 256 256] div_mult2_eq [of n 65536 256] by simp_all
  ultimately show "be_value (bytes4 w) = unat w" "list_all (\<lambda>b. b < 256) (bytes4 w)"
    unfolding be_value_def bytes4_def n_def [symmetric] by simp_all
qed

lemma find_first: "(\<And>x. x \<in> set xs \<Longrightarrow> \<not> P x) \<Longrightarrow> P y \<Longrightarrow> find P (xs @ y # ys) = Some y"
  by (induction xs) auto

lemma string4_head:
  "\<exists>rest. string4 w = itoa_nat (unat w div 2 ^ 24) @ CHR ''.'' # rest"
  by (simp add: string4_def bytes4_def)

lemma ParseAddr_string4 [simp]: "ParseAddr (string4 w) = Some (Addr4 w)"
proof -
  obtain rest where rest: "string4 w = itoa_nat (unat w div 2 ^ 24) @ CHR ''.'' # rest"
    using string4_head by blast
  have "c \<in> set (itoa_nat n) \<Longrightarrow> c \<notin> set ''.:%''" for c n
    using itoa_nat_no_digit [of c n] by auto
  then have "find (\<lambda>c. c \<in> set ''.:%'') (string4 w) = Some CHR ''.''"
    unfolding rest by (intro find_first) simp_all
  moreover have "parseIPv4Fields (string4 w) = Some (bytes4 w)"
    using bytes4_value(2) [of w] unfolding string4_def bytes4_def by (intro parseIPv4Fields_join) simp_all
  ultimately show ?thesis by (simp add: ParseAddr_def parseIPv4_def bytes4_value)
qed


lemma Index_None: "Index x s = None \<longleftrightarrow> x \<notin> set s"
  by (induction s) auto

lemma Index_first: "x \<notin> set xs \<Longrightarrow> Index x (xs @ x # ys) = Some (length xs)"
  by (induction xs) auto

lemma LastIndex_last: "x \<notin> set ys \<Longrightarrow> LastIndex x (xs @ x # ys) = Some (length xs)"
  by (simp add: LastIndex_def Index_first)

lemma Atoi_itoa_nat: "n < 2 ^ 63 \<Longrightarrow> Atoi (itoa_nat n) = Some (int n)"
  using Atoi_Itoa [of "int n"] by (simp add: Itoa_def)

text \<open>The text of a length has no leading zero, as \<^verbatim>\<open>ParsePrefix\<close> asks for.\<close>

lemma digit_char_order: "d < 10 \<Longrightarrow> 0 < d \<Longrightarrow> \<not> (digit_char d < CHR ''1'' \<or> digit_char d > CHR ''9'')"
  by (simp add: digit_char_def less_char_def)

lemma itoa_no_leading_zero:
  assumes "b < 256" and "length (itoa_nat b) > 1"
  shows "\<not> (hd (itoa_nat b) < CHR ''1'' \<or> hd (itoa_nat b) > CHR ''9'')"
  using assms(1) by (cases rule: itoa_byte_cases) (use assms(2) digit_char_order in auto)

lemma ParsePrefix_text:
  assumes "ParseAddr s = Some a" and "Zone a = ''''" and "a \<noteq> AddrZero" and "0 \<le> b" and "b \<le> BitLen a"
  shows "ParsePrefix (s @ ''/'' @ Itoa b) = Some (PrefixFrom a b)"
proof -
  have b: "b \<le> 128" "b \<le> (if Is6 a then 128 else 32)" using assms(3,5) by (cases a; simp)+
  define n where "n = nat b"
  have n: "Itoa b = itoa_nat n" "n < 256" "int n = b" using assms(4) b(1) by (simp_all add: Itoa_def n_def)
  have "LastIndex CHR ''/'' (s @ ''/'' @ Itoa b) = Some (length s)"
    using itoa_nat_no_digit [of "CHR ''/''" n] by (simp add: n(1) LastIndex_last)
  moreover have "Atoi (itoa_nat n) = Some b" using Atoi_itoa_nat [of n] n(2,3) by simp
  ultimately show ?thesis
    using assms(1,2,4) b(2) itoa_no_leading_zero [OF n(2)]
    by (auto simp: ParsePrefix_def n(1) Let_def split: if_split_asm)
qed

lemma ParsePrefix_String4:
  assumes "wf_prefix p" and "Is4 (pf_Addr p)"
  shows "ParsePrefix (Prefix_String p) = Some p"
proof -
  from assms obtain w where w: "pf_Addr p = Addr4 w" by (cases "pf_Addr p") auto
  then have "ParsePrefix (string4 w @ ''/'' @ Itoa (pf_Bits p)) = Some (PrefixFrom (Addr4 w) (pf_Bits p))"
    using assms(1) by (intro ParsePrefix_text) (auto simp: wf_prefix_def)
  then show ?thesis using assms(1) w by (simp add: Prefix_String_def PrefixFrom_def wf_prefix_def)
qed

end
