(* ===== verification/Go_Netip6.thy ===== *)
theory Go_Netip6
  imports Go_Netip
begin

text \<open>
  The text of an IPv6 address is read back as the same address: the longest run of zero groups
  that printing replaces by two colons is what the ellipsis stands for when it is parsed.
\<close>

section \<open>One group\<close>

lemma hex_digit_hex_char: "d < 16 \<Longrightarrow> hex_digit (hex_char d) = Some d"
  by (simp add: hex_digit_def hex_char_def)

lemma hex_separators [simp]:
  "hex_digit CHR '':'' = None" "hex_digit CHR ''.'' = None" "hex_digit CHR ''%'' = None"
  by (simp_all add: hex_digit_def)

lemma hex_nat_nonempty [simp]: "hex_nat n \<noteq> []"
  by (subst hex_nat.simps) simp

lemma hex_nat_chars: "c \<in> set (hex_nat n) \<Longrightarrow> hex_digit c \<noteq> None"
proof (induction n rule: hex_nat.induct)
  case (1 n)
  then show ?case
    by (cases "n < 16") (auto simp: hex_nat.simps [of n] hex_digit_hex_char)
qed

lemma hex_nat_length: "n < 16 ^ Suc k \<Longrightarrow> length (hex_nat n) \<le> Suc k"
proof (induction k arbitrary: n)
  case 0
  then show ?case by (simp add: hex_nat.simps [of n])
next
  case (Suc k)
  show ?case
  proof (cases "n < 16")
    case False
    have "n div 16 < 16 ^ Suc k" using Suc.prems by (simp add: less_mult_imp_div_less mult.commute)
    with Suc.IH [of "n div 16"] False show ?thesis by (simp add: hex_nat.simps [of n])
  qed (simp add: hex_nat.simps [of n])
qed

lemma scan_hex_hex_nat:
  "n < 65536 \<Longrightarrow> scan_hex 0 0 (hex_nat n @ rest) = scan_hex (length (hex_nat n)) n rest"
proof (induction n arbitrary: rest rule: hex_nat.induct)
  case (1 n)
  show ?case
  proof (cases "n < 16")
    case True
    then show ?thesis by (simp add: hex_nat.simps [of n] hex_digit_hex_char)
  next
    case False
    have "n div 16 < 16 ^ Suc 2" using "1.prems" by (simp add: less_mult_imp_div_less)
    then have len: "length (hex_nat (n div 16)) \<le> 3" using hex_nat_length [of "n div 16" 2] by simp
    have "n div 16 * 16 + n mod 16 = n" by simp
    with len False "1.prems" "1.IH" [OF False, of "hex_char (n mod 16) # rest"] show ?thesis
      by (simp add: hex_nat.simps [of n] hex_digit_hex_char)
  qed
qed

text \<open>The group is followed by the end, a dot or a colon.\<close>

lemma scan_hex_group:
  assumes "n < 65536" and "rest = [] \<or> hex_digit (hd rest) = None"
  shows "scan_hex 0 0 (hex_nat n @ rest) = Some (length (hex_nat n), n, rest)"
  unfolding scan_hex_hex_nat [OF assms(1)] using assms(2) by (cases rest) simp_all

lemma hex_nat_head_no_colon: "take 1 (hex_nat n @ r) \<noteq> '':''" "hd (hex_nat n @ r) \<noteq> CHR '':''"
  using hex_nat_chars [of "CHR '':''" n] by (cases "hex_nat n"; auto)+

section \<open>A sequence of groups\<close>

abbreviation hex_groups :: "nat list \<Rightarrow> string" where
  "hex_groups gs \<equiv> Join '':'' (map hex_nat gs)"

definition group_bytes :: "nat list \<Rightarrow> nat list" where
  "group_bytes gs = concat (map (\<lambda>g. [g div 256, g mod 256]) gs)"

lemma group_bytes_simps [simp]:
  "group_bytes [] = []" "group_bytes (g # gs) = [g div 256, g mod 256] @ group_bytes gs"
  "length (group_bytes gs) = 2 * length gs"
  "group_bytes (gs @ hs) = group_bytes gs @ group_bytes hs"
  "group_bytes (replicate n 0) = replicate (2 * n) 0"
proof -
  show "length (group_bytes gs) = 2 * length gs" by (induction gs) (simp_all add: group_bytes_def)
  show "group_bytes (replicate n 0) = replicate (2 * n) 0" by (induction n) (simp_all add: group_bytes_def)
qed (simp_all add: group_bytes_def)

lemma hex_groups_head:
  assumes "gs \<noteq> []"
  obtains r where "hex_groups gs @ s = hex_nat (hd gs) @ r"
proof (cases gs)
  case (Cons g hs)
  then show ?thesis by (cases hs) (auto intro: that)
qed (use assms in simp)

lemma hex_groups_Nil: "hex_groups gs = [] \<longleftrightarrow> gs = []"
proof
  assume "hex_groups gs = []"
  show "gs = []"
  proof (rule ccontr)
    assume "gs \<noteq> []"
    then show False by (rule hex_groups_head [of _ "[]"]) (simp add: \<open>hex_groups gs = []\<close>)
  qed
qed simp

lemma parse6_group:
  assumes "g < 65536" and "length ip < 16"
  shows "parse6 el ip (hex_nat g) = Some (el, ip @ [g div 256, g mod 256], [])"
    "r \<noteq> [] \<Longrightarrow> hd r \<noteq> CHR '':'' \<Longrightarrow> parse6 el ip (hex_nat g @ CHR '':'' # r) = parse6 el (ip @ [g div 256, g mod 256]) r"
    "parse6 None ip (hex_nat g @ ''::'' @ s) =
       (if s = [] then Some (Some (length ip + 2), ip @ [g div 256, g mod 256], [])
        else parse6 (Some (length ip + 2)) (ip @ [g div 256, g mod 256]) s)"
  using assms scan_hex_group [OF assms(1), of "[]"] scan_hex_group [OF assms(1), of "CHR '':'' # r"]
    scan_hex_group [OF assms(1), of "''::'' @ s"]
  by (simp_all add: parse6.simps [of _ ip] Let_def)

lemma parse6_groups:
  assumes "gs \<noteq> []" and "\<forall>g \<in> set gs. g < 65536" and "length ip + 2 * length gs \<le> 16"
  shows "parse6 el ip (hex_groups gs) = Some (el, ip @ group_bytes gs, [])"
  using assms
proof (induction gs arbitrary: ip)
  case (Cons g gs)
  show ?case
  proof (cases gs)
    case Nil
    with Cons.prems show ?thesis by (simp add: parse6_group)
  next
    case (Cons h hs)
    obtain r where r: "hex_groups gs = hex_nat h @ r" using hex_groups_head [of gs "[]"] Cons by auto
    have "parse6 el ip (hex_nat g @ CHR '':'' # hex_groups gs) = parse6 el (ip @ [g div 256, g mod 256]) (hex_groups gs)"
      using Cons.prems hex_nat_head_no_colon(2) [of h r] by (intro parse6_group(2)) (simp_all add: r)
    with Cons.IH [of "ip @ [g div 256, g mod 256]"] Cons.prems Cons show ?thesis by simp
  qed
qed simp

lemma parse6_ellipsis:
  assumes "gs \<noteq> []" and "\<forall>g \<in> set gs. g < 65536" and "length ip + 2 * length gs \<le> 16"
  shows "parse6 None ip (hex_groups gs @ ''::'' @ s) =
    (if s = [] then Some (Some (length ip + 2 * length gs), ip @ group_bytes gs, [])
     else parse6 (Some (length ip + 2 * length gs)) (ip @ group_bytes gs) s)"
  using assms
proof (induction gs arbitrary: ip)
  case (Cons g gs)
  show ?case
  proof (cases gs)
    case Nil
    with Cons.prems parse6_group(3) [of g ip s] show ?thesis by simp
  next
    case (Cons h hs)
    obtain r where r: "hex_groups gs @ ''::'' @ s = hex_nat h @ r" using hex_groups_head [of gs "''::'' @ s"] Cons by auto
    have "parse6 None ip (hex_nat g @ CHR '':'' # (hex_groups gs @ ''::'' @ s)) =
        parse6 None (ip @ [g div 256, g mod 256]) (hex_groups gs @ ''::'' @ s)"
      using Cons.prems hex_nat_head_no_colon(2) [of h r] unfolding r by (intro parse6_group(2)) simp_all
    with Cons.IH [of "ip @ [g div 256, g mod 256]"] Cons.prems Cons show ?thesis by (simp add: algebra_simps)
  qed
qed simp


section \<open>The run of zeros\<close>

definition zeros_between :: "nat list \<Rightarrow> nat \<times> nat \<Rightarrow> bool" where
  "zeros_between gs = (\<lambda>(s, e). s + 2 \<le> e \<and> e \<le> length gs \<and> (\<forall>i. s \<le> i \<and> i < e \<longrightarrow> gs ! i = 0))"

lemma takeWhile_zeros:
  assumes "l = length (takeWhile (\<lambda>g. g = (0::nat)) (drop i gs))" and "i \<le> length gs"
  shows "i + l \<le> length gs" "\<forall>j. i \<le> j \<and> j < i + l \<longrightarrow> gs ! j = 0"
proof -
  have "l \<le> length (drop i gs)" unfolding assms(1) by (rule length_takeWhile_le)
  with assms(2) show "i + l \<le> length gs" by simp
  show "\<forall>j. i \<le> j \<and> j < i + l \<longrightarrow> gs ! j = 0"
  proof (intro allI impI)
    fix j assume j: "i \<le> j \<and> j < i + l"
    then have "takeWhile (\<lambda>g. g = 0) (drop i gs) ! (j - i) = drop i gs ! (j - i)"
      by (intro takeWhile_nth) (unfold assms(1) [symmetric], linarith)
    moreover have "takeWhile (\<lambda>g. g = 0) (drop i gs) ! (j - i) \<in> set (takeWhile (\<lambda>g. g = 0) (drop i gs))"
      using j by (intro nth_mem) (unfold assms(1) [symmetric], linarith)
    then have "takeWhile (\<lambda>g. g = 0) (drop i gs) ! (j - i) = 0" by (auto dest: set_takeWhileD)
    ultimately show "gs ! j = 0" using j assms(2) by simp
  qed
qed

lemma fold_invariant: "P b \<Longrightarrow> (\<And>x b. x \<in> set xs \<Longrightarrow> P b \<Longrightarrow> P (f x b)) \<Longrightarrow> P (fold f xs b)"
  by (induction xs arbitrary: b) auto

lemma zero_run_zeros:
  assumes "zero_run gs = Some r" and "length gs = 8"
  shows "zeros_between gs r"
proof -
  let ?P = "\<lambda>best. \<forall>r. best = Some r \<longrightarrow> zeros_between gs r"
  have "?P (zero_run gs)"
    unfolding zero_run_def
  proof (rule fold_invariant)
    fix i and best :: "(nat \<times> nat) option"
    assume i: "i \<in> set [0 ..< 8]" and best: "?P best"
    define l where "l = length (takeWhile (\<lambda>g. g = 0) (drop i gs))"
    have "i \<le> length gs" using i assms(2) by simp
    note zeros = takeWhile_zeros [OF l_def this]
    show "?P (let l = length (takeWhile (\<lambda>g. g = 0) (drop i gs))
          in if l \<ge> 2 \<and> l > (case best of None \<Rightarrow> 0 | Some (s, e) \<Rightarrow> e - s) then Some (i, i + l) else best)"
      unfolding l_def [symmetric] Let_def using best zeros by (auto simp: zeros_between_def)
  qed simp
  with assms(1) show ?thesis by simp
qed

lemma zeros_split:
  assumes "zeros_between gs (s, e)"
  shows "gs = take s gs @ replicate (e - s) 0 @ drop e gs"
proof -
  have "drop s (take e gs) = replicate (e - s) 0"
    using assms by (intro nth_equalityI) (auto simp: zeros_between_def)
  moreover have "s \<le> e" using assms by (simp add: zeros_between_def)
  ultimately show ?thesis
    by (metis append.assoc append_take_drop_id min.absorb1 take_take)
qed

section \<open>The address\<close>

lemma groups6_bound: "length (groups6 w) = 8" "\<forall>g \<in> set (groups6 w). g < 65536"
  by (simp_all add: groups6_def)

lemma be_value_groups: "be_value (group_bytes gs) = foldl (\<lambda>n g. 65536 * n + g) 0 gs"
proof -
  have "foldl (\<lambda>n b. 256 * n + b) m (group_bytes gs) = foldl (\<lambda>n g. 65536 * n + g) m gs" for m
    by (induction gs arbitrary: m) (simp_all add: algebra_simps)
  then show ?thesis by (simp add: be_value_def)
qed

lemma groups6_value: "be_value (group_bytes (groups6 w)) = unat w"
proof -
  define m where "m i = unat w div 2 ^ (16 * i)" for i :: nat
  have step: "m i = 65536 * m (Suc i) + m i mod 65536" for i
    using div_mult2_eq [of "unat w" "2 ^ (16 * i)" 65536] by (simp add: m_def power_add mult.commute)
  have "unat w < 2 ^ 128" using unsigned_less [of w] by simp
  then have "m 8 = 0" by (simp add: m_def)
  moreover have g: "unat (drop_bit (16 * i) w) mod 65536 = m i mod 65536" for i
    unfolding m_def unat_drop_bit_eq by (simp add: drop_bit_eq_div)
  have "groups6 w = map (\<lambda>i. m i mod 65536) [7, 6, 5, 4, 3, 2, 1, 0]"
    unfolding groups6_def g ..
  moreover have "m 0 = unat w" by (simp add: m_def)
  moreover have "m 1 = 65536 * m 2 + m 1 mod 65536"
    using step [of 1] by (simp add: numeral_2_eq_2)
  moreover have "m 0 = 65536 * m 1 + m 0 mod 65536"
    "m 2 = 65536 * m 3 + m 2 mod 65536" "m 3 = 65536 * m 4 + m 3 mod 65536"
    "m 4 = 65536 * m 5 + m 4 mod 65536" "m 5 = 65536 * m 6 + m 5 mod 65536"
    "m 6 = 65536 * m 7 + m 6 mod 65536" "m 7 = 65536 * m 8 + m 7 mod 65536"
    using step [of 0] step [of 2] step [of 3] step [of 4] step [of 5] step [of 6] step [of 7]
    by simp_all
  ultimately show ?thesis unfolding be_value_groups by simp
qed

lemma foldl_zeros: "foldl (\<lambda>n b. 256 * n + b) 0 (replicate k 0) = (0 :: nat)"
  by (induction k) simp_all

lemma groups6_word: "of_nat (be_value (group_bytes (groups6 w))) = w"
  by (simp add: groups6_value)


lemma hex_groups_chars: "c \<in> set (hex_groups gs) \<Longrightarrow> c = CHR '':'' \<or> hex_digit c \<noteq> None"
proof (induction gs)
  case (Cons g gs)
  then show ?case by (cases gs) (auto dest: hex_nat_chars)
qed simp

lemma string6_no_percent: "CHR ''%'' \<notin> set (string6 w)"
  using hex_groups_chars [of "CHR ''%''"]
  by (auto simp: string6_def Let_def split: option.split)

lemma string6_first:
  "\<exists>xs ys. string6 w = xs @ CHR '':'' # ys \<and> (\<forall>c \<in> set xs. hex_digit c \<noteq> None)"
proof (cases "zero_run (groups6 w)")
  case None
  obtain g h gs where "groups6 w = g # h # gs" by (simp add: groups6_def)
  with None have "string6 w = hex_nat g @ CHR '':'' # hex_groups (h # gs)" by (simp add: string6_def)
  then show ?thesis using hex_nat_chars by blast
next
  case (Some r)
  obtain s e where r: "r = (s, e)" by (cases r)
  show ?thesis
  proof (cases "take s (groups6 w)")
    case Nil
    then have "string6 w = [] @ CHR '':'' # CHR '':'' # hex_groups (drop e (groups6 w))"
      using Some r by (auto simp: string6_def Let_def)
    then show ?thesis by fastforce
  next
    case (Cons g gs)
    have "\<exists>ys. string6 w = hex_nat g @ CHR '':'' # ys"
      using Some r Cons by (cases gs) (simp_all add: string6_def)
    then show ?thesis using hex_nat_chars by blast
  qed
qed

lemma ParseAddr_colon:
  assumes "s = xs @ CHR '':'' # ys" and "\<forall>c \<in> set xs. hex_digit c \<noteq> None"
  shows "ParseAddr s = parseIPv6 s"
proof -
  have "c \<notin> set ''.:%''" if "c \<in> set xs" for c using assms(2) that by auto
  then have "find (\<lambda>c. c \<in> set ''.:%'') s = Some CHR '':''"
    unfolding assms(1) by (intro find_first) simp_all
  then show ?thesis by (simp add: ParseAddr_def)
qed

lemma parseIPv6_parts:
  assumes "CHR ''%'' \<notin> set s" and "expand_ellipsis r = Some bs"
  shows "take 2 s \<noteq> ''::'' \<Longrightarrow> parse6 None [] s = Some r \<Longrightarrow> parseIPv6 s = Some (Addr6 (of_nat (be_value bs)) '''')"
    "s = ''::'' @ b \<Longrightarrow> b \<noteq> [] \<Longrightarrow> parse6 (Some 0) [] b = Some r \<Longrightarrow> parseIPv6 s = Some (Addr6 (of_nat (be_value bs)) '''')"
  using assms by (simp_all add: parseIPv6_def Index_None [THEN iffD2] Let_def)

lemma parseIPv6_string6: "parseIPv6 (string6 w) = Some (Addr6 w '''')"
proof -
  define gs where "gs = groups6 w"
  note gs = groups6_bound [of w, folded gs_def] groups6_word [of w, folded gs_def]
  note no = string6_no_percent [of w]
  have "parseIPv6 (string6 w) = Some (Addr6 (of_nat (be_value (group_bytes gs))) '''')"
  proof (cases "zero_run gs")
    case None
    then have s: "string6 w = hex_groups gs" by (simp add: string6_def gs_def)
    have "gs \<noteq> []" using gs(1) by auto
    then obtain r where r: "hex_groups gs = hex_nat (hd gs) @ r"
      using hex_groups_head [of gs "[]"] by auto
    have "take 2 (hex_groups gs) \<noteq> ''::''"
      using hex_nat_head_no_colon(2) [of "hd gs" r] unfolding r [symmetric] by (cases "hex_groups gs") auto
    then show ?thesis using parse6_groups [OF \<open>gs \<noteq> []\<close> gs(2), of "[]" None] gs(1)
      by (intro parseIPv6_parts(1) [OF no, of "(None, group_bytes gs, [])"]) (simp_all add: s expand_ellipsis_def)
  next
    case (Some re)
    obtain s e where re: "re = (s, e)" by (cases re)
    have zeros: "zeros_between gs (s, e)" using zero_run_zeros [of gs re] Some gs(1) re by simp
    have len: "s + 2 \<le> e" "e \<le> 8" using zeros gs(1) by (simp_all add: zeros_between_def)
    have str: "string6 w = hex_groups (take s gs) @ ''::'' @ hex_groups (drop e gs)"
      using Some re by (simp add: string6_def gs_def Let_def)
    have bytes: "group_bytes gs = group_bytes (take s gs) @ replicate (2 * (e - s)) 0 @ group_bytes (drop e gs)"
      by (subst zeros_split [OF zeros]) simp
    have small: "\<forall>g \<in> set (take s gs). g < 65536" "\<forall>g \<in> set (drop e gs). g < 65536"
      using gs(2) by (auto dest: in_set_takeD in_set_dropD)
    have expand: "expand_ellipsis (Some (2 * s), group_bytes (take s gs) @ group_bytes (drop e gs), []) = Some (group_bytes gs)"
    proof -
      define A B where "A = group_bytes (take s gs)" and "B = group_bytes (drop e gs)"
      then have "length A = 2 * s" "length B = 16 - 2 * e" using len gs(1) by simp_all
      moreover from this len have "length (A @ B) < 16" "16 - length (A @ B) = 2 * (e - s)" by auto
      ultimately show ?thesis
        unfolding bytes A_def [symmetric] B_def [symmetric] by (simp add: expand_ellipsis_def del: length_append)
    qed
    show ?thesis
    proof (cases "s = 0")
      case True
      show ?thesis
      proof (cases "drop e gs = []")
        case nil: True
        then have "group_bytes gs = replicate 16 0" using bytes True len gs(1) by simp
        then have "be_value (group_bytes gs) = 0" by (simp add: be_value_def foldl_zeros)
        with str True nil show ?thesis by (simp add: parseIPv6_def)
      next
        case False
        then have "parse6 (Some 0) [] (hex_groups (drop e gs)) = Some (Some 0, group_bytes (drop e gs), [])"
          using parse6_groups [of "drop e gs" "[]" "Some 0"] small gs(1) len by simp
        moreover have "hex_groups (drop e gs) \<noteq> []"
          using False by (simp only: hex_groups_Nil not_False_eq_True)
        ultimately show ?thesis
          using expand str True by (intro parseIPv6_parts(2) [OF no, of "(Some 0, group_bytes (drop e gs), [])"]) simp_all
      qed
    next
      case False
      then have ne: "take s gs \<noteq> []" using gs(1) by auto
      obtain r where r: "string6 w = hex_nat (hd (take s gs)) @ r"
        unfolding str by (rule hex_groups_head [OF ne])
      have "take 2 (string6 w) \<noteq> ''::''"
        using hex_nat_head_no_colon(2) [of "hd (take s gs)" r] unfolding r [symmetric] by (cases "string6 w") auto
      moreover have "parse6 None [] (string6 w) = Some (Some (2 * s), group_bytes (take s gs) @ group_bytes (drop e gs), [])"
        using parse6_ellipsis [of "take s gs" "[]" "hex_groups (drop e gs)"] ne small gs(1) len
          parse6_groups [of "drop e gs" "group_bytes (take s gs)" "Some (2 * s)"]
        by (cases "drop e gs = []") (auto simp: str hex_groups_Nil)
      ultimately show ?thesis by (rule parseIPv6_parts(1) [OF no expand])
    qed
  qed
  then show ?thesis unfolding gs(3) .
qed

text \<open>An IPv4-mapped address is printed with its last 32 bits in dotted form.\<close>

lemma scan_hex_byte:
  assumes "b < 256"
  shows "\<exists>off acc. 0 < off \<and> scan_hex 0 0 (itoa_nat b @ CHR ''.'' # rest) = Some (off, acc, CHR ''.'' # rest)"
proof -
  have hex: "d < 10 \<Longrightarrow> hex_digit (digit_char d) = Some d" for d by (simp add: hex_digit_def digit_char_def)
  from assms show ?thesis by (cases rule: itoa_byte_cases) (simp_all add: hex)
qed

lemma parse6_embedded:
  assumes "length ip \<le> 12"
  shows "parse6 (Some e) ip (string4 v) = Some (Some e, ip @ bytes4 v, [])"
proof -
  obtain rest where rest: "string4 v = itoa_nat (unat v div 2 ^ 24) @ CHR ''.'' # rest"
    using string4_head by blast
  have "unat v div 2 ^ 24 < 256" using bytes4_value(2) [of v] by (simp add: bytes4_def)
  from scan_hex_byte [OF this, of rest] obtain off acc
    where scan: "0 < off" "scan_hex 0 0 (string4 v) = Some (off, acc, CHR ''.'' # rest)"
    unfolding rest by blast
  have "parseIPv4Fields (string4 v) = Some (bytes4 v)"
    using bytes4_value(2) [of v] unfolding string4_def bytes4_def by (intro parseIPv4Fields_join) simp_all
  with scan assms show ?thesis by (subst parse6.simps) simp
qed

lemma mapped_value:
  assumes "Is4In6 w"
  shows "of_nat (be_value (replicate 10 0 @ [255, 255] @ bytes4 (ucast w))) = w"
proof -
  have fold: "foldl (\<lambda>n b. 256 * n + b) m (bytes4 v) = 2 ^ 32 * m + unat v" for m v
    using bytes4_value(1) [of v] by (simp add: be_value_def bytes4_def algebra_simps)
  have "unat w div 2 ^ 32 = 65535"
    using arg_cong [OF assms [unfolded Is4In6_def], of unat] unfolding unat_drop_bit_eq by (simp add: drop_bit_eq_div)
  moreover have "unat (ucast w :: 32 word) = unat w mod 2 ^ 32" by (simp add: unsigned_ucast_eq take_bit_eq_mod)
  moreover have "unat w = 2 ^ 32 * (unat w div 2 ^ 32) + unat w mod 2 ^ 32" by simp
  ultimately have "be_value (replicate 10 0 @ [255, 255] @ bytes4 (ucast w)) = unat w"
    by (simp add: be_value_def fold foldl_zeros)
  then show ?thesis by simp
qed


lemma Join_dot_chars: "c \<in> set (Join ''.'' (map itoa_nat bs)) \<Longrightarrow> c = CHR ''.'' \<or> char_digit c \<noteq> None"
proof (induction bs)
  case (Cons b bs)
  then show ?case using itoa_nat_no_digit [of c b] by (cases bs) auto
qed simp

lemma parseIPv6_mapped:
  assumes "Is4In6 w"
  shows "parseIPv6 (''::ffff:'' @ string4 (ucast w)) = Some (Addr6 w '''')"
proof -
  let ?v = "ucast w :: 32 word"
  have "CHR ''%'' \<notin> set (string4 ?v)" using Join_dot_chars [of "CHR ''%''" "bytes4 ?v"] by (auto simp: string4_def)
  then have no: "CHR ''%'' \<notin> set (''::ffff:'' @ string4 ?v)" by simp
  obtain rest where rest: "string4 ?v = itoa_nat (unat ?v div 2 ^ 24) @ CHR ''.'' # rest"
    using string4_head by blast
  have "hex_char 15 = CHR ''f''" by code_simp
  then have ffff: "hex_nat 65535 = ''ffff''"
    by (simp add: hex_nat.simps [of 65535] hex_nat.simps [of 4095] hex_nat.simps [of 255] hex_nat.simps [of 15])
  have "string4 ?v \<noteq> []" "hd (string4 ?v) \<noteq> CHR '':''"
    unfolding rest using itoa_nat_no_digit [of "CHR '':''" "unat ?v div 2 ^ 24"]
    by (cases "itoa_nat (unat ?v div 2 ^ 24)"; auto)+
  then have "parse6 (Some 0) [] (hex_nat 65535 @ CHR '':'' # string4 ?v) = parse6 (Some 0) ([] @ [65535 div 256, 65535 mod 256]) (string4 ?v)"
    by (intro parse6_group(2)) simp_all
  then have "parse6 (Some 0) [] (''ffff:'' @ string4 ?v) = Some (Some 0, [255, 255] @ bytes4 ?v, [])"
    by (simp add: ffff parse6_embedded)
  moreover have "expand_ellipsis (Some 0, [255, 255] @ bytes4 ?v, []) = Some (replicate 10 0 @ [255, 255] @ bytes4 ?v)"
    by (simp add: expand_ellipsis_def bytes4_def)
  ultimately have "parseIPv6 (''::ffff:'' @ string4 ?v) =
      Some (Addr6 (of_nat (be_value (replicate 10 0 @ [255, 255] @ bytes4 ?v))) '''')"
    by (intro parseIPv6_parts(2) [OF no, of _ _ "''ffff:'' @ string4 ?v"]) simp_all
  then show ?thesis unfolding mapped_value [OF assms] .
qed

lemma ParseAddr_String:
  assumes "a \<noteq> AddrZero" and "Zone a = ''''"
  shows "ParseAddr (Addr_String a) = Some a"
proof (cases a)
  case (Addr6 w z)
  have z: "z = ''''" using assms(2) Addr6 by simp
  show ?thesis
  proof (cases "Is4In6 w")
    case True
    have "ParseAddr (''::ffff:'' @ string4 (ucast w)) = parseIPv6 (''::ffff:'' @ string4 (ucast w))"
      by (rule ParseAddr_colon [of _ "[]" "'':ffff:'' @ string4 (ucast w)"]) simp_all
    with True z Addr6 parseIPv6_mapped [OF True] show ?thesis by simp
  next
    case False
    obtain xs ys where "string6 w = xs @ CHR '':'' # ys" "\<forall>c \<in> set xs. hex_digit c \<noteq> None"
      using string6_first by blast
    then have "ParseAddr (string6 w) = parseIPv6 (string6 w)" by (rule ParseAddr_colon)
    with False z Addr6 show ?thesis by (simp add: parseIPv6_string6)
  qed
qed (use assms in simp_all)

lemma ParsePrefix_String:
  assumes "wf_prefix p"
  shows "ParsePrefix (Prefix_String p) = Some p"
proof -
  have "ParsePrefix (Addr_String (pf_Addr p) @ ''/'' @ Itoa (pf_Bits p)) = Some (PrefixFrom (pf_Addr p) (pf_Bits p))"
    using assms by (intro ParsePrefix_text ParseAddr_String) (auto simp: wf_prefix_def)
  moreover have "withoutZone (pf_Addr p) = pf_Addr p"
    using assms by (cases "pf_Addr p") (auto simp: wf_prefix_def)
  ultimately show ?thesis using assms by (simp add: Prefix_String_def PrefixFrom_def wf_prefix_def)
qed

end
