(* ===== verification/Policy_Cidr.thy ===== *)
theory Policy_Cidr
  imports Go_Netip6
begin

text \<open>
  The CIDR texts of policies: \<^verbatim>\<open>parsePolicyPrefix\<close>, \<^verbatim>\<open>cidrSpecificityRelation\<close> and their helpers
  in \<^verbatim>\<open>pkg/controllerstorage/network_policy.go\<close>, and \<^verbatim>\<open>normalizeCIDR\<close> of \<^verbatim>\<open>ip_groups.go\<close>. Their
  meaning is the set of addresses a text matches.
\<close>

section \<open>Definitions\<close>

definition policyCIDRIsAny :: "string \<Rightarrow> bool" where
  "policyCIDRIsAny value \<longleftrightarrow>
     (let trimmed = ToLower (TrimSpace value)
      in trimmed = '''' \<or> trimmed = ''any'' \<or> trimmed = ''0'' \<or> trimmed = ''0.0.0.0/0'' \<or> trimmed = ''::/0'')"

text \<open>The prefix, whether the text is a wildcard, and whether it could be read.\<close>

definition parsePolicyPrefix :: "string \<Rightarrow> Prefix \<times> bool \<times> bool" where
  "parsePolicyPrefix value =
     (let trimmed = TrimSpace value in
      if policyCIDRIsAny trimmed then (PrefixZero, True, True)
      else case ParsePrefix trimmed of
          Some prefix \<Rightarrow> (Masked prefix, False, True)
        | None \<Rightarrow> (case ParseAddr trimmed of
              None \<Rightarrow> (PrefixZero, False, False)
            | Some addr \<Rightarrow> if Is4 addr then (PrefixFrom addr 32, False, True)
                else (PrefixFrom addr 128, False, True)))"

definition prefixContains :: "Prefix \<Rightarrow> Prefix \<Rightarrow> bool" where
  "prefixContains parent child \<longleftrightarrow> Prefix_Contains parent (pf_Addr child) \<and> pf_Bits parent \<le> pf_Bits child"

definition prefixesOverlap :: "Prefix \<Rightarrow> Prefix \<Rightarrow> bool" where
  "prefixesOverlap left right \<longleftrightarrow> prefixContains left right \<or> prefixContains right left"

record cidrRelation =
  candidateStrict :: bool
  existingStrict :: bool

definition cidrSpecificityRelation :: "string \<Rightarrow> string \<Rightarrow> cidrRelation \<times> bool" where
  "cidrSpecificityRelation candidateCIDR existingCIDR =
     (let (candidate, candidateWildcard, candidateOK) = parsePolicyPrefix candidateCIDR;
          (existing, existingWildcard, existingOK) = parsePolicyPrefix existingCIDR;
          none = \<lparr>candidateStrict = False, existingStrict = False\<rparr>
      in if \<not> candidateOK \<or> \<not> existingOK then (none, False)
         else if candidateWildcard \<and> existingWildcard then (none, True)
         else if candidateWildcard then (none\<lparr>existingStrict := True\<rparr>, True)
         else if existingWildcard then (none\<lparr>candidateStrict := True\<rparr>, True)
         else if Is4 (pf_Addr candidate) \<noteq> Is4 (pf_Addr existing) then (none, False)
         else if \<not> prefixesOverlap candidate existing then (none, False)
         else if prefixContains existing candidate \<and> pf_Bits candidate > pf_Bits existing
           then (none\<lparr>candidateStrict := True\<rparr>, True)
         else if prefixContains candidate existing \<and> pf_Bits existing > pf_Bits candidate
           then (none\<lparr>existingStrict := True\<rparr>, True)
         else (none, True))"

text \<open>
  \<^verbatim>\<open>relationStrictlyMoreSpecific(relations ...)\<close> and \<^verbatim>\<open>relationStrictlyLessSpecific\<close>: the loop
  returns false at the first relation of the other direction.
\<close>

fun strictly_more :: "bool \<Rightarrow> cidrRelation list \<Rightarrow> bool" where
  "strictly_more strict [] = strict"
| "strictly_more strict (rel # rels) =
     (if existingStrict rel then False else strictly_more (strict \<or> candidateStrict rel) rels)"

definition relationStrictlyMoreSpecific :: "cidrRelation list \<Rightarrow> bool" where
  "relationStrictlyMoreSpecific = strictly_more False"

fun strictly_less :: "bool \<Rightarrow> cidrRelation list \<Rightarrow> bool" where
  "strictly_less strict [] = strict"
| "strictly_less strict (rel # rels) =
     (if candidateStrict rel then False else strictly_less (strict \<or> existingStrict rel) rels)"

definition relationStrictlyLessSpecific :: "cidrRelation list \<Rightarrow> bool" where
  "relationStrictlyLessSpecific = strictly_less False"

definition normalizeCIDR :: "string \<Rightarrow> string option" where
  "normalizeCIDR value =
     (let trimmed = TrimSpace value in
      if trimmed = '''' \<or> EqualFold trimmed ''any'' \<or> trimmed = ''0'' then Some ''0.0.0.0/0''
      else case ParsePrefix trimmed of
          Some prefix \<Rightarrow> Some (Prefix_String (Masked prefix))
        | None \<Rightarrow> (case ParseAddr trimmed of
              None \<Rightarrow> None
            | Some addr \<Rightarrow> Some (Prefix_String (PrefixFrom addr (if Is4 addr then 32 else 128)))))"

section \<open>The addresses a text matches\<close>

definition plain_addr :: "Addr \<Rightarrow> bool" where
  "plain_addr a \<longleftrightarrow> a \<noteq> AddrZero \<and> Zone a = ''''"

definition cidr_readable :: "string \<Rightarrow> bool" where
  "cidr_readable s \<longleftrightarrow> snd (snd (parsePolicyPrefix s))"

definition cidr_addrs :: "string \<Rightarrow> Addr set" where
  "cidr_addrs s = {a. plain_addr a \<and>
     (case parsePolicyPrefix s of (p, wild, ok) \<Rightarrow> ok \<and> (wild \<or> Prefix_Contains p a))}"

lemma contains_plain: "Prefix_Contains p a \<Longrightarrow> plain_addr a"
  by (cases a) (auto simp: plain_addr_def Prefix_Contains_def split: Addr.split_asm)

lemma parsePolicyPrefix_cases:
  obtains (bad) "parsePolicyPrefix s = (PrefixZero, False, False)" "cidr_addrs s = {}" "\<not> cidr_readable s"
    | (wild) "parsePolicyPrefix s = (PrefixZero, True, True)" "cidr_addrs s = {a. plain_addr a}" "cidr_readable s"
    | (prefix) p where "parsePolicyPrefix s = (p, False, True)" "wf_prefix p"
        "cidr_addrs s = {a. Prefix_Contains p a}" "cidr_readable s"
proof -
  have addr: "wf_prefix (PrefixFrom a (if Is4 a then 32 else 128))" if "ParseAddr t = Some a" for a t
    using ParseAddr_nonzero [OF that] by (intro PrefixFrom_wf) (cases a; simp)+
  have "parsePolicyPrefix s = (PrefixZero, False, False) \<or> parsePolicyPrefix s = (PrefixZero, True, True) \<or>
      (\<exists>p. parsePolicyPrefix s = (p, False, True) \<and> wf_prefix p)"
    using addr [of "TrimSpace s"]
    by (cases "ParsePrefix (TrimSpace s)"; cases "ParseAddr (TrimSpace s)")
       (auto simp: parsePolicyPrefix_def Let_def dest: ParsePrefix_wf intro: Masked_wf(1))
  then consider "parsePolicyPrefix s = (PrefixZero, False, False)" | "parsePolicyPrefix s = (PrefixZero, True, True)"
    | p where "parsePolicyPrefix s = (p, False, True)" "wf_prefix p"
    by blast
  then show ?thesis
  proof cases
    case 1
    then show ?thesis by (intro bad) (simp_all add: cidr_addrs_def cidr_readable_def)
  next
    case 2
    then show ?thesis by (intro wild) (simp_all add: cidr_addrs_def cidr_readable_def)
  next
    case (3 p)
    then show ?thesis by (intro prefix [of p]) (auto simp: cidr_addrs_def cidr_readable_def dest: contains_plain)
  qed
qed


text \<open>A readable text matches some address, and no single prefix matches both families.\<close>

lemma prefix_addrs_strict: "wf_prefix p \<Longrightarrow> {a. Prefix_Contains p a} \<subset> {a. plain_addr a}"
proof (rule psubsetI)
  assume "wf_prefix p"
  then have "\<not> Prefix_Contains p (if Is4 (pf_Addr p) then Addr6 0 '''' else Addr4 0)"
    by (cases rule: wf_prefix_cases) simp_all
  moreover have "plain_addr (if Is4 (pf_Addr p) then Addr6 0 '''' else Addr4 0)" by (simp add: plain_addr_def)
  ultimately show "{a. Prefix_Contains p a} \<noteq> {a. plain_addr a}" by blast
qed (auto dest: contains_plain)

lemma readable_iff: "cidr_readable s \<longleftrightarrow> cidr_addrs s \<noteq> {}"
proof (cases rule: parsePolicyPrefix_cases [of s])
  case wild
  have "plain_addr (Addr4 0)" by (simp add: plain_addr_def)
  with wild show ?thesis by auto
next
  case (prefix p)
  with contains_self [of p] show ?thesis by auto
qed simp

lemma other_family:
  assumes "wf_prefix p" and "wf_prefix q" and "Is4 (pf_Addr p) \<noteq> Is4 (pf_Addr q)"
  shows "\<not> Prefix_Contains p (pf_Addr q)"
  using assms by (elim wf_prefix_cases) simp_all

section \<open>The relation of two texts\<close>

lemma cidr_relation_sets:
  "snd (cidrSpecificityRelation c e) = (cidr_addrs c \<inter> cidr_addrs e \<noteq> {}) \<and>
   candidateStrict (fst (cidrSpecificityRelation c e)) =
     (cidr_addrs c \<inter> cidr_addrs e \<noteq> {} \<and> cidr_addrs c \<subset> cidr_addrs e) \<and>
   existingStrict (fst (cidrSpecificityRelation c e)) =
     (cidr_addrs c \<inter> cidr_addrs e \<noteq> {} \<and> cidr_addrs e \<subset> cidr_addrs c)"
proof (cases rule: parsePolicyPrefix_cases [of c])
  case bad
  then show ?thesis by (auto simp: cidrSpecificityRelation_def case_prod_beta)
next
  case cw: wild
  show ?thesis
  proof (cases rule: parsePolicyPrefix_cases [of e])
    case (prefix q)
    with cw prefix_addrs_strict [of q] readable_iff [of e] show ?thesis
      by (auto simp: cidrSpecificityRelation_def)
  qed (use cw readable_iff [of c] in \<open>auto simp: cidrSpecificityRelation_def\<close>)
next
  case cp: (prefix p)
  show ?thesis
  proof (cases rule: parsePolicyPrefix_cases [of e])
    case bad
    with cp show ?thesis by (simp add: cidrSpecificityRelation_def)
  next
    case wild
    with cp prefix_addrs_strict [of p] readable_iff [of c] show ?thesis
      by (auto simp: cidrSpecificityRelation_def)
  next
    case ep: (prefix q)
    have strict:
      "cidr_addrs c \<subset> cidr_addrs e \<longleftrightarrow> Prefix_Contains q (pf_Addr p) \<and> pf_Bits q < pf_Bits p"
      "cidr_addrs e \<subset> cidr_addrs c \<longleftrightarrow> Prefix_Contains p (pf_Addr q) \<and> pf_Bits p < pf_Bits q"
      using contains_strict_iff [OF cp(2) ep(2)] contains_strict_iff [OF ep(2) cp(2)] by (simp_all add: cp(3) ep(3))
    have inter: "cidr_addrs c \<inter> cidr_addrs e \<noteq> {} \<longleftrightarrow>
        Prefix_Contains p (pf_Addr q) \<and> pf_Bits p \<le> pf_Bits q \<or> Prefix_Contains q (pf_Addr p) \<and> pf_Bits q \<le> pf_Bits p"
      using contains_overlap_iff [OF cp(2) ep(2)] by (auto simp: cp(3) ep(3))
    have family: "Is4 (pf_Addr p) = Is4 (pf_Addr q)" if "Prefix_Contains p (pf_Addr q) \<or> Prefix_Contains q (pf_Addr p)"
      using that other_family [OF cp(2) ep(2)] other_family [OF ep(2) cp(2)] by auto
    show ?thesis
      unfolding inter strict
      using family by (auto simp: cidrSpecificityRelation_def cp(1) ep(1) prefixesOverlap_def prefixContains_def Let_def)
  qed
qed


text \<open>Two texts with a common address are nested.\<close>

lemma cidr_nested:
  assumes "cidr_addrs c \<inter> cidr_addrs e \<noteq> {}"
  shows "cidr_addrs c \<subseteq> cidr_addrs e \<or> cidr_addrs e \<subseteq> cidr_addrs c"
proof (cases rule: parsePolicyPrefix_cases [of c])
  case wild
  then show ?thesis by (auto simp: cidr_addrs_def)
next
  case cp: (prefix p)
  show ?thesis
  proof (cases rule: parsePolicyPrefix_cases [of e])
    case ep: (prefix q)
    have "\<exists>a. Prefix_Contains p a \<and> Prefix_Contains q a" using assms cp(3) ep(3) by auto
    then show ?thesis
      unfolding cp(3) ep(3) contains_subset_iff [OF cp(2) ep(2)] contains_subset_iff [OF ep(2) cp(2)]
        contains_overlap_iff [OF cp(2) ep(2)] by blast
  qed (use assms cp prefix_addrs_strict [of p] in auto)
qed (use assms in simp)

text \<open>
  (C34) \<open>cidrSpecificityRelation\<close> decides the sets of addresses: it reports a relation exactly
  when some address matches both texts, the candidate as strictly more specific exactly when
  its addresses are a proper subset, and the existing one in the same way.
\<close>

theorem cidr_relation_decides_sets:
  "snd (cidrSpecificityRelation c e) = (cidr_addrs c \<inter> cidr_addrs e \<noteq> {}) \<and>
   candidateStrict (fst (cidrSpecificityRelation c e)) =
     (cidr_addrs c \<inter> cidr_addrs e \<noteq> {} \<and> cidr_addrs c \<subset> cidr_addrs e) \<and>
   existingStrict (fst (cidrSpecificityRelation c e)) =
     (cidr_addrs c \<inter> cidr_addrs e \<noteq> {} \<and> cidr_addrs e \<subset> cidr_addrs c)"
  by (rule cidr_relation_sets)

section \<open>Normalised texts\<close>

text \<open>The characters of a printed prefix.\<close>

definition cidr_char :: "char \<Rightarrow> bool" where
  "cidr_char c \<longleftrightarrow> c \<in> set ''0123456789abcdef:./''"

lemma cidr_char_no_space: "\<forall>c \<in> \<Union> (set ` set space_runes). \<not> cidr_char c"
  by (simp add: space_runes_def cidr_char_def)

lemma cidr_char_ascii: "cidr_char c \<Longrightarrow> ascii_lower c = c \<and> c \<noteq> CHR 0xC4 \<and> c \<noteq> CHR 0xE2 \<and> c \<noteq> CHR 0xC5"
  by (auto simp: cidr_char_def ascii_lower_def)

lemma digit_char_cidr: "d < 10 \<Longrightarrow> cidr_char (digit_char d)"
proof -
  have "\<forall>d \<in> set [0 ..< 10]. cidr_char (digit_char d)" unfolding cidr_char_def by code_simp
  then show "d < 10 \<Longrightarrow> cidr_char (digit_char d)" by simp
qed

lemma hex_char_cidr: "d < 16 \<Longrightarrow> cidr_char (hex_char d)"
proof -
  have "\<forall>d \<in> set [0 ..< 16]. cidr_char (hex_char d)" unfolding cidr_char_def by code_simp
  then show "d < 16 \<Longrightarrow> cidr_char (hex_char d)" by simp
qed

lemma itoa_nat_cidr: "c \<in> set (itoa_nat n) \<Longrightarrow> cidr_char c"
  using itoa_nat_digits [of c n] digit_char_cidr by auto

lemma hex_nat_cidr: "c \<in> set (hex_nat n) \<Longrightarrow> cidr_char c"
proof (induction n rule: hex_nat.induct)
  case (1 n)
  then show ?case by (cases "n < 16") (auto simp: hex_nat.simps [of n] hex_char_cidr)
qed

lemma Join_chars: "c \<in> set (Join sep xs) \<Longrightarrow> c \<in> set sep \<or> (\<exists>x \<in> set xs. c \<in> set x)"
proof (induction xs)
  case (Cons x xs)
  then show ?case by (cases xs) auto
qed simp

lemma Prefix_String_cidr:
  assumes "wf_prefix p" and "c \<in> set (Prefix_String p)"
  shows "cidr_char c"
proof -
  have seps: "cidr_char CHR '':''" "cidr_char CHR ''.''" "cidr_char CHR ''/''" "cidr_char CHR ''f''"
    by (simp_all add: cidr_char_def)
  have dot: "cidr_char c" if c: "c \<in> set (string4 v)" for c v
  proof -
    from c Join_chars [of c "''.''" "map itoa_nat (bytes4 v)"] consider "c = CHR ''.''" | b where "c \<in> set (itoa_nat b)"
      by (auto simp: string4_def)
    then show ?thesis using seps itoa_nat_cidr by cases simp_all
  qed
  have hex: "cidr_char c" if c: "c \<in> set (hex_groups gs)" for c gs
  proof -
    from c Join_chars [of c "'':''" "map hex_nat gs"] consider "c = CHR '':''" | g where "c \<in> set (hex_nat g)" by auto
    then show ?thesis using seps hex_nat_cidr by cases simp_all
  qed
  have "cidr_char c" if c: "c \<in> set (string6 w)" for c w
  proof (cases "zero_run (groups6 w)")
    case None
    with c show ?thesis by (simp add: string6_def Let_def hex)
  next
    case (Some r)
    obtain s e where "r = (s, e)" by (cases r)
    with Some c consider "c \<in> set (hex_groups (take s (groups6 w)))" | "c = CHR '':''"
      | "c \<in> set (hex_groups (drop e (groups6 w)))"
      by (auto simp: string6_def Let_def)
    then show ?thesis using hex seps by cases simp_all
  qed
  with dot seps have addr: "c \<in> set (Addr_String (pf_Addr p)) \<Longrightarrow> cidr_char c"
    using assms(1) by (cases "pf_Addr p") (auto simp: wf_prefix_def split: if_split_asm)
  from assms consider "c \<in> set (Addr_String (pf_Addr p))" | "c = CHR ''/''" | n where "c \<in> set (itoa_nat n)"
    by (auto simp: Prefix_String_def Itoa_def wf_prefix_def)
  then show ?thesis using addr seps itoa_nat_cidr by cases simp_all
qed

lemma Prefix_String_slash: "wf_prefix p \<Longrightarrow> CHR ''/'' \<in> set (Prefix_String p)"
  by (simp add: Prefix_String_def wf_prefix_def)

lemma cidr_text_unchanged:
  assumes "\<forall>c \<in> set s. cidr_char c"
  shows "TrimSpace s = s" "ToLower s = s" "fold_ascii s = s"
proof -
  show "TrimSpace s = s" using assms cidr_char_no_space by (intro TrimSpace_no_space) auto
  show "ToLower s = s" "fold_ascii s = s" using assms by (induction s) (auto dest: cidr_char_ascii)
qed

lemma Prefix_String_text:
  assumes "wf_prefix p"
  shows "TrimSpace (Prefix_String p) = Prefix_String p" "ToLower (Prefix_String p) = Prefix_String p"
    "\<not> EqualFold (Prefix_String p) ''any''" "Prefix_String p \<noteq> ''''" "Prefix_String p \<noteq> ''0''" "Prefix_String p \<noteq> ''any''"
proof -
  have chars: "\<forall>c \<in> set (Prefix_String p). cidr_char c" using Prefix_String_cidr [OF assms] by blast
  show "TrimSpace (Prefix_String p) = Prefix_String p" "ToLower (Prefix_String p) = Prefix_String p"
    using cidr_text_unchanged [OF chars] by simp_all
  have "fold_ascii ''any'' = ''any''" by code_simp
  then show "\<not> EqualFold (Prefix_String p) ''any''"
    using cidr_text_unchanged(3) [OF chars] Prefix_String_slash [OF assms] by (auto simp: EqualFold_def)
  show "Prefix_String p \<noteq> ''''" "Prefix_String p \<noteq> ''0''" "Prefix_String p \<noteq> ''any''"
    using Prefix_String_slash [OF assms] by auto
qed

lemma Masked_host: "a \<noteq> AddrZero \<Longrightarrow> Masked (PrefixFrom a (if Is4 a then 32 else 128)) = PrefixFrom a (if Is4 a then 32 else 128)"
  by (cases a) (simp_all add: Masked_def PrefixFrom_def keep_bits_def)

lemma normalizeCIDR_cases:
  assumes "normalizeCIDR s = Some t"
  obtains (any) "t = ''0.0.0.0/0''" "TrimSpace s = '''' \<or> EqualFold (TrimSpace s) ''any'' \<or> TrimSpace s = ''0''"
    | (prefix) p where "wf_prefix p" "Masked p = p" "t = Prefix_String p"
        "\<not> policyCIDRIsAny (TrimSpace s) \<Longrightarrow> parsePolicyPrefix s = (p, False, True)"
proof -
  have addr: "wf_prefix (PrefixFrom a (if Is4 a then 32 else 128))" if "ParseAddr t = Some a" for a t
    using ParseAddr_nonzero [OF that] by (intro PrefixFrom_wf) (cases a; simp)+
  show ?thesis
  proof (cases "ParsePrefix (TrimSpace s)")
    case (Some q)
    with assms any prefix [of "Masked q"] show ?thesis
      by (auto simp: normalizeCIDR_def parsePolicyPrefix_def Let_def Masked_wf(1) [OF ParsePrefix_wf [OF Some]] split: if_split_asm)
  next
    case None
    show ?thesis
    proof (cases "ParseAddr (TrimSpace s)")
      case (Some a)
      with None assms any prefix [of "PrefixFrom a (if Is4 a then 32 else 128)"] addr [OF Some]
        Masked_host [OF ParseAddr_nonzero [OF Some]] show ?thesis
        by (auto simp: normalizeCIDR_def parsePolicyPrefix_def Let_def split: if_split_asm)
    qed (use None assms any in \<open>auto simp: normalizeCIDR_def Let_def split: if_split_asm\<close>)
  qed
qed

lemma normalizeCIDR_prefix:
  assumes "wf_prefix p" and "Masked p = p"
  shows "normalizeCIDR (Prefix_String p) = Some (Prefix_String p)"
  using assms Prefix_String_text [OF assms(1)] by (simp add: normalizeCIDR_def ParsePrefix_String)


text \<open>
  Normalising is idempotent for every text, IPv4, IPv6 and IPv4-mapped: the text that
  \<open>normalizeCIDR\<close> prints is parsed back to the same masked prefix, so a stored member never
  changes when it is normalised again.
\<close>

theorem normalizeCIDR_idempotent:
  assumes "normalizeCIDR s = Some t"
  shows "normalizeCIDR t = Some t"
  using assms
proof (cases rule: normalizeCIDR_cases)
  case any
  have "wf_prefix \<lparr>pf_Addr = Addr4 0, pf_Bits = 0\<rparr>" by (simp add: wf_prefix_def)
  moreover have "Masked \<lparr>pf_Addr = Addr4 0, pf_Bits = 0\<rparr> = \<lparr>pf_Addr = Addr4 0, pf_Bits = 0\<rparr>"
    by (simp add: Masked_def PrefixFrom_def keep_bits_def)
  moreover have "Prefix_String \<lparr>pf_Addr = Addr4 0, pf_Bits = 0\<rparr> = ''0.0.0.0/0''" by code_simp
  ultimately show ?thesis using normalizeCIDR_prefix any(1) by metis
next
  case (prefix p)
  then show ?thesis by (simp add: normalizeCIDR_prefix)
qed

theorem normalizeCIDR_idempotent_witness:
  "normalizeCIDR ''10.1.2.3/8'' = Some ''10.0.0.0/8'' \<and> normalizeCIDR ''10.0.0.0/8'' = Some ''10.0.0.0/8''"
proof -
  have "normalizeCIDR ''10.1.2.3/8'' = Some ''10.0.0.0/8''" by code_simp
  then show ?thesis using normalizeCIDR_idempotent by blast
qed

lemma ToLower_ascii:
  assumes "\<forall>c \<in> set t. c \<noteq> CHR ''i'' \<and> c \<noteq> CHR ''k'' \<and> c \<noteq> CHR ''s'' \<and> (of_char c :: nat) < 128"
  shows "ToLower s = t \<longleftrightarrow> fold_ascii s = t"
  using assms
proof (induction s arbitrary: t rule: ToLower.induct)
  case (2 c cs)
  have high: "ascii_lower CHR 0xC4 = CHR 0xC4" "ascii_lower CHR 0xE2 = CHR 0xE2" "ascii_lower CHR 0xC5 = CHR 0xC5"
    by code_simp+
  show ?case
  proof (cases t)
    case (Cons d t')
    with "2.prems" have d: "d \<noteq> CHR ''i''" "d \<noteq> CHR ''k''" "d \<noteq> CHR ''s''" "(of_char d :: nat) < 128" by simp_all
    have no: "d \<noteq> CHR 0xC4" "d \<noteq> CHR 0xE2" "d \<noteq> CHR 0xC5" using d(4) by auto
    have IH: "ToLower cs = t' \<longleftrightarrow> fold_ascii cs = t'" if "\<not> (c = CHR 0xC4 \<and> take 1 cs = [CHR 0xB0])"
        "\<not> (c = CHR 0xE2 \<and> take 2 cs = [CHR 0x84, CHR 0xAA])"
      using "2.IH"(3) [OF that] "2.prems" Cons by simp
    show ?thesis
      unfolding Cons using d no IH high by auto
  qed simp
qed simp


lemma ascii_lower_noletter: "\<not> (97 \<le> (of_char (ascii_lower c) :: nat) \<and> (of_char (ascii_lower c) :: nat) \<le> 122) \<Longrightarrow> c = ascii_lower c"
  by (auto simp: ascii_lower_def Let_def split: if_split_asm)

lemma ToLower_noletter:
  "\<forall>d \<in> set t. \<not> (97 \<le> (of_char d :: nat) \<and> (of_char d :: nat) \<le> 122) \<Longrightarrow> ToLower s = t \<Longrightarrow> s = t"
proof (induction s arbitrary: t rule: ToLower.induct)
  case (2 c cs)
  then show ?case using ascii_lower_noletter [of c] by (auto split: if_split_asm)
qed simp

lemma any_texts:
  assumes "policyCIDRIsAny s"
  shows "TrimSpace s = '''' \<or> EqualFold (TrimSpace s) ''any'' \<or> TrimSpace s = ''0'' \<or> TrimSpace s = ''0.0.0.0/0'' \<or> TrimSpace s = ''::/0''"
proof -
  have "fold_ascii ''any'' = ''any''" by code_simp
  moreover have "ToLower (TrimSpace s) = ''any'' \<Longrightarrow> fold_ascii (TrimSpace s) = ''any''"
    by (subst ToLower_ascii [symmetric]) simp_all
  ultimately show ?thesis
    using assms ToLower_noletter [of "''0''" "TrimSpace s"] ToLower_noletter [of "''0.0.0.0/0''" "TrimSpace s"]
      ToLower_noletter [of "''::/0''" "TrimSpace s"] ToLower_noletter [of "''''" "TrimSpace s"]
    by (simp add: policyCIDRIsAny_def Let_def EqualFold_def) blast
qed

lemma normalizeCIDR_trim: "normalizeCIDR (TrimSpace s) = normalizeCIDR s"
  by (simp add: normalizeCIDR_def)

text \<open>
  A normalised text matches the addresses of the text it came from. The one exception is
  a prefix of length zero such as \<^verbatim>\<open>10.0.0.0/0\<close>: its normal form is a wildcard, which also
  matches the addresses of the other family.
\<close>

theorem normalizeCIDR_same_addresses:
  assumes "normalizeCIDR s = Some t"
  shows "cidr_addrs s \<subseteq> cidr_addrs t \<and> (t \<noteq> ''0.0.0.0/0'' \<and> t \<noteq> ''::/0'' \<longrightarrow> cidr_addrs t = cidr_addrs s)"
proof (cases "t = ''0.0.0.0/0'' \<or> t = ''::/0''")
  case True
  have "parsePolicyPrefix ''0.0.0.0/0'' = (PrefixZero, True, True)" "parsePolicyPrefix ''::/0'' = (PrefixZero, True, True)"
    by code_simp+
  with True show ?thesis by (auto simp: cidr_addrs_def)
next
  case False
  with assms obtain p where p: "wf_prefix p" "Masked p = p" "t = Prefix_String p"
      "\<not> policyCIDRIsAny (TrimSpace s) \<Longrightarrow> parsePolicyPrefix s = (p, False, True)"
    by (cases rule: normalizeCIDR_cases) auto
  note str = Prefix_String_text [OF p(1), folded p(3)]
  have "\<not> policyCIDRIsAny t" using str False by (simp add: policyCIDRIsAny_def)
  then have t: "parsePolicyPrefix t = (p, False, True)"
    using str(1) p by (simp add: parsePolicyPrefix_def ParsePrefix_String)
  have "\<not> policyCIDRIsAny (TrimSpace s)"
  proof
    assume "policyCIDRIsAny (TrimSpace s)"
    then have "TrimSpace s = '''' \<or> EqualFold (TrimSpace s) ''any'' \<or> TrimSpace s = ''0'' \<or>
        TrimSpace s = ''0.0.0.0/0'' \<or> TrimSpace s = ''::/0''"
      using any_texts [of "TrimSpace s"] unfolding TrimSpace_idem by blast
    then consider "normalizeCIDR s = Some ''0.0.0.0/0''" | "TrimSpace s = ''0.0.0.0/0''" | "TrimSpace s = ''::/0''"
      by (auto simp: normalizeCIDR_def Let_def)
    then have "normalizeCIDR s = Some ''0.0.0.0/0'' \<or> normalizeCIDR s = Some ''::/0''"
    proof cases
      case 2
      then have "normalizeCIDR s = normalizeCIDR ''0.0.0.0/0''" by (metis normalizeCIDR_trim)
      also have "\<dots> = Some ''0.0.0.0/0''" by code_simp
      finally show ?thesis by simp
    next
      case 3
      then have "normalizeCIDR s = normalizeCIDR ''::/0''" by (metis normalizeCIDR_trim)
      also have "\<dots> = Some ''::/0''" by code_simp
      finally show ?thesis by simp
    qed simp
    with assms False show False by simp
  qed
  then have "parsePolicyPrefix s = (p, False, True)" by (rule p(4))
  with t show ?thesis by (simp add: cidr_addrs_def)
qed

theorem normalizeCIDR_same_addresses_witness:
  "normalizeCIDR '' 10.1.2.3/8'' = Some ''10.0.0.0/8'' \<and> cidr_addrs ''10.0.0.0/8'' = cidr_addrs '' 10.1.2.3/8''"
proof -
  have "normalizeCIDR '' 10.1.2.3/8'' = Some ''10.0.0.0/8''" by code_simp
  then show ?thesis using normalizeCIDR_same_addresses [of "'' 10.1.2.3/8''" "''10.0.0.0/8''"] by simp
qed

end
