(* ===== verification/Policy_Conflict.thy ===== *)
theory Policy_Conflict
  imports Policy_Cidr Storage_Model
begin

text \<open>
  The rules of \<^verbatim>\<open>pkg/controllerstorage/network_policy.go\<close> and the detection of ambiguous ones:
  \<^verbatim>\<open>DetectACLPolicyConflict\<close> and \<^verbatim>\<open>DetectQoSPolicyConflict\<close> with the overlap of directions,
  protocols, ports and CIDRs, and the fields that are filled in before a rule is stored.
\<close>

section \<open>Rules\<close>

record IPGroupMemberRecord =
  gm_ID :: uuid
  gm_GroupID :: uuid
  gm_CIDR :: string
  gm_Note :: string

record IPGroupWarning =
  gw_Type :: string
  gw_CIDR :: string
  gw_OverlapsGroupID :: string
  gw_OverlapsGroupName :: string
  gw_OverlapsCIDR :: string
  gw_Resolution :: string

record IPGroupRecord =
  ig_ID :: uuid
  ig_TenantID :: uuid
  ig_Name :: string
  ig_Description :: string
  ig_Kind :: string
  ig_CreatedBy :: "string option"
  ig_Members :: "IPGroupMemberRecord list"
  ig_Warnings :: "IPGroupWarning list"
  ig_CreatedAt :: time
  ig_UpdatedAt :: time

record ACLRuleRecord =
  acl_ID :: uuid
  acl_TenantID :: uuid
  acl_NodeID :: uuid
  acl_Name :: string
  acl_Action :: string
  acl_SrcCIDR :: string
  acl_DstCIDR :: string
  acl_SrcGroupID :: "uuid option"
  acl_DstGroupID :: "uuid option"
  acl_SrcGroup :: "IPGroupRecord option"
  acl_DstGroup :: "IPGroupRecord option"
  acl_DstPort :: int
  acl_Protocol :: int
  acl_Direction :: string
  acl_Ports :: string
  acl_Priority :: int
  acl_Enabled :: bool
  acl_Description :: string
  acl_CreatedAt :: time
  acl_UpdatedAt :: time

record QoSRuleRecord =
  qos_ID :: uuid
  qos_TenantID :: uuid
  qos_NodeID :: uuid
  qos_SrcCIDR :: string
  qos_DstCIDR :: string
  qos_GroupID :: "uuid option"
  qos_Group :: "IPGroupRecord option"
  qos_SrcPort :: int
  qos_DstPort :: int
  qos_Protocol :: int
  qos_BandwidthMbps :: int
  qos_Direction :: string
  qos_RateBps :: "64 word"
  qos_BurstBytes :: "64 word"
  qos_Priority :: int
  qos_Mode :: string
  qos_Enabled :: bool
  qos_Description :: string
  qos_CreatedAt :: time
  qos_UpdatedAt :: time

section \<open>Fields filled in before a write\<close>

definition normalizeACLRuntimeFields :: "ACLRuleRecord \<Rightarrow> ACLRuleRecord" where
  "normalizeACLRuntimeFields rule =
     (let rule = (if TrimSpace (acl_Direction rule) = '''' then rule\<lparr>acl_Direction := ''ingress''\<rparr> else rule)
      in if TrimSpace (acl_Ports rule) = '''' \<and> acl_DstPort rule > 0
         then rule\<lparr>acl_Ports := Itoa (acl_DstPort rule)\<rparr> else rule)"

definition defaultQoSDirection :: "QoSRuleRecord \<Rightarrow> string" where
  "defaultQoSDirection rule =
     (if TrimSpace (qos_SrcCIDR rule) \<noteq> '''' \<and> TrimSpace (qos_DstCIDR rule) = '''' then ''ingress'' else ''egress'')"

definition defaultQoSBurst :: "64 word \<Rightarrow> 64 word" where
  "defaultQoSBurst rateBps = (let burst = rateBps div 8 div 10 in if burst < 1500 then 1500 else burst)"

definition normalizeQoSRuntimeFields :: "QoSRuleRecord \<Rightarrow> QoSRuleRecord" where
  "normalizeQoSRuntimeFields rule =
     (let rule = (if TrimSpace (qos_Direction rule) = '''' then rule\<lparr>qos_Direction := defaultQoSDirection rule\<rparr> else rule);
          rule = (if qos_RateBps rule = 0 \<and> qos_BandwidthMbps rule > 0
                  then rule\<lparr>qos_RateBps := of_int (qos_BandwidthMbps rule) * 1000000\<rparr> else rule);
          rule = (if qos_BurstBytes rule = 0 then rule\<lparr>qos_BurstBytes := defaultQoSBurst (qos_RateBps rule)\<rparr> else rule)
      in if TrimSpace (qos_Mode rule) = '''' then rule\<lparr>qos_Mode := ''auto''\<rparr> else rule)"

definition aclNetworkForSync :: "string \<Rightarrow> string" where
  "aclNetworkForSync cidr = (let trimmed = TrimSpace cidr in if trimmed = '''' then ''0.0.0.0/0'' else trimmed)"

definition aclPortRangeForSync :: "int \<Rightarrow> int \<times> int" where
  "aclPortRangeForSync dstPort = (if dstPort \<le> 0 then (0, 65535) else (dstPort, dstPort))"

definition nullableInt :: "int \<Rightarrow> int option" where
  "nullableInt value = (if value = 0 then None else Some value)"

definition ValidateBlacklistScope :: "string \<Rightarrow> err option" where
  "ValidateBlacklistScope scope =
     (if scope \<in> {''src'', ''dst'', ''ports''} then None
      else Some (ErrMsg (''unsupported blacklist scope: '' @ scope)))"

section \<open>Overlap\<close>

definition policyDirections :: "string \<Rightarrow> string list" where
  "policyDirections value =
     (let v = ToLower (TrimSpace value) in
      if v = ''egress'' \<or> v = ''out'' then [''egress'']
      else if v = ''both'' \<or> v = ''all'' then [''ingress'', ''egress'']
      else [''ingress''])"

definition directionsOverlap :: "string \<Rightarrow> string \<Rightarrow> bool" where
  "directionsOverlap a b \<longleftrightarrow>
     list_ex (\<lambda>left. list_ex (\<lambda>right. left = right) (policyDirections b)) (policyDirections a)"

definition protocolsOverlap :: "int \<Rightarrow> int \<Rightarrow> bool" where
  "protocolsOverlap a b \<longleftrightarrow> a = 0 \<or> b = 0 \<or> a = b"

definition clampPort :: "int \<Rightarrow> int" where
  "clampPort port = (if port < 0 then 0 else if port > 65535 then 65535 else port)"

text \<open>\<^verbatim>\<open>part[:strings.Index(part, ":")]\<close>, trimmed, when there is a colon.\<close>

definition strip_action :: "string \<Rightarrow> string" where
  "strip_action part = (case Index CHR '':'' part of None \<Rightarrow> part | Some i \<Rightarrow> TrimSpace (take i part))"

text \<open>One entry of the comma-separated list; an interval is its start and its end.\<close>

definition port_entry :: "string \<Rightarrow> (int \<times> int) option" where
  "port_entry raw =
     (let part = TrimSpace raw in
      if part = '''' then None
      else let part = strip_action part in
        (case Index CHR ''-'' part of
           Some i \<Rightarrow>
             (case (Atoi (TrimSpace (take i part)), Atoi (TrimSpace (drop (Suc i) part))) of
                (Some start, Some end) \<Rightarrow> if start \<le> end then Some (clampPort start, clampPort end) else None
              | _ \<Rightarrow> None)
         | None \<Rightarrow> map_option (\<lambda>port. (clampPort port, clampPort port)) (Atoi part)))"

definition policyPortIntervals :: "string \<Rightarrow> int \<Rightarrow> (int \<times> int) list" where
  "policyPortIntervals ports dstPort =
     (if TrimSpace ports = '''' \<or> EqualFold (TrimSpace ports) ''all'' then
        if dstPort > 0 then [(dstPort, dstPort)] else [(0, 65535)]
      else let intervals = List.map_filter port_entry (Split CHR '','' ports)
        in if intervals = [] then [(0, 65535)] else intervals)"

definition portsOverlap :: "string \<Rightarrow> int \<Rightarrow> string \<Rightarrow> int \<Rightarrow> bool" where
  "portsOverlap leftPorts leftDstPort rightPorts rightDstPort \<longleftrightarrow>
     list_ex (\<lambda>a. list_ex (\<lambda>b. fst a \<le> snd b \<and> fst b \<le> snd a) (policyPortIntervals rightPorts rightDstPort))
       (policyPortIntervals leftPorts leftDstPort)"

definition ipGroupMemberCIDRs :: "IPGroupMemberRecord list \<Rightarrow> string list" where
  "ipGroupMemberCIDRs members = (let cidrs = map gm_CIDR members in if cidrs = [] then [''''] else cidrs)"

text \<open>A group without members counts as no group.\<close>

definition group_or :: "IPGroupRecord option \<Rightarrow> string list \<Rightarrow> string list" where
  "group_or g direct = (case g of
       Some grp \<Rightarrow> if ig_Members grp \<noteq> [] then ipGroupMemberCIDRs (ig_Members grp) else direct
     | None \<Rightarrow> direct)"

definition aclSourceCIDRs :: "ACLRuleRecord \<Rightarrow> string list" where
  "aclSourceCIDRs rule = group_or (acl_SrcGroup rule) [acl_SrcCIDR rule]"

definition aclDestinationCIDRs :: "ACLRuleRecord \<Rightarrow> string list" where
  "aclDestinationCIDRs rule = group_or (acl_DstGroup rule) [acl_DstCIDR rule]"

definition qosPolicyCIDRs :: "QoSRuleRecord \<Rightarrow> string list" where
  "qosPolicyCIDRs rule = group_or (qos_Group rule)
     (if TrimSpace (qos_Direction rule) = ''ingress'' \<and> TrimSpace (qos_SrcCIDR rule) \<noteq> '''' then [qos_SrcCIDR rule]
      else if TrimSpace (qos_DstCIDR rule) \<noteq> '''' then [qos_DstCIDR rule]
      else if TrimSpace (qos_SrcCIDR rule) \<noteq> '''' then [qos_SrcCIDR rule]
      else [''''])"

section \<open>Detection\<close>

definition ErrAmbiguousPolicyConflict :: err where
  "ErrAmbiguousPolicyConflict = ErrMsg ''ambiguous policy conflict''"

definition aclRuntimeScopeConflicts :: "ACLRuleRecord \<Rightarrow> ACLRuleRecord \<Rightarrow> bool" where
  "aclRuntimeScopeConflicts existing candidate \<longleftrightarrow>
     directionsOverlap (acl_Direction existing) (acl_Direction candidate) \<and>
     protocolsOverlap (acl_Protocol existing) (acl_Protocol candidate) \<and>
     list_ex (\<lambda>candidateSrc. list_ex (\<lambda>existingSrc.
       (case cidrSpecificityRelation candidateSrc existingSrc of (srcRel, ok) \<Rightarrow>
          ok \<and> \<not> candidateStrict srcRel \<and> \<not> existingStrict srcRel \<and>
          list_ex (\<lambda>candidateDst. list_ex (\<lambda>existingDst.
            (case cidrSpecificityRelation candidateDst existingDst of (dstRel, ok) \<Rightarrow>
               ok \<and> \<not> candidateStrict dstRel \<and> \<not> existingStrict dstRel))
            (aclDestinationCIDRs existing)) (aclDestinationCIDRs candidate)))
       (aclSourceCIDRs existing)) (aclSourceCIDRs candidate)"

text \<open>The four nested loops over the sources and destinations of two rules of one priority.\<close>

definition acl_overlaps :: "ACLRuleRecord \<Rightarrow> ACLRuleRecord \<Rightarrow> bool" where
  "acl_overlaps rule candidate \<longleftrightarrow>
     list_ex (\<lambda>candidateSrc. list_ex (\<lambda>existingSrc.
       (case cidrSpecificityRelation candidateSrc existingSrc of (srcRel, ok) \<Rightarrow> ok \<and>
          list_ex (\<lambda>candidateDst. list_ex (\<lambda>existingDst.
            (case cidrSpecificityRelation candidateDst existingDst of (dstRel, ok) \<Rightarrow> ok \<and>
               \<not> (relationStrictlyMoreSpecific [srcRel, dstRel] \<or> relationStrictlyLessSpecific [srcRel, dstRel])))
            (aclDestinationCIDRs rule)) (aclDestinationCIDRs candidate)))
       (aclSourceCIDRs rule)) (aclSourceCIDRs candidate)"

fun detect_acl :: "ACLRuleRecord \<Rightarrow> uuid \<Rightarrow> ACLRuleRecord option list \<Rightarrow> err option" where
  "detect_acl candidate candidateID [] = None"
| "detect_acl candidate candidateID (None # rules) = detect_acl candidate candidateID rules"
| "detect_acl candidate candidateID (Some rule # rules) =
     (if \<not> acl_Enabled rule then detect_acl candidate candidateID rules
      else if candidateID \<noteq> uuid_Nil \<and> acl_ID rule = candidateID then detect_acl candidate candidateID rules
      else if aclRuntimeScopeConflicts rule candidate then
        Some (ErrWrap (''ACL rule conflicts with rule '' @ acl_ID rule @ '' on the same runtime key'') ErrAmbiguousPolicyConflict)
      else if acl_Priority rule \<noteq> acl_Priority candidate then detect_acl candidate candidateID rules
      else if \<not> directionsOverlap (acl_Direction rule) (acl_Direction candidate) then detect_acl candidate candidateID rules
      else if \<not> protocolsOverlap (acl_Protocol rule) (acl_Protocol candidate) then detect_acl candidate candidateID rules
      else if \<not> portsOverlap (acl_Ports rule) (acl_DstPort rule) (acl_Ports candidate) (acl_DstPort candidate)
        then detect_acl candidate candidateID rules
      else if acl_overlaps rule candidate then
        Some (ErrWrap (''ACL rule overlaps rule '' @ acl_ID rule @ '' at priority '' @ Itoa (acl_Priority candidate))
          ErrAmbiguousPolicyConflict)
      else detect_acl candidate candidateID rules)"

definition DetectACLPolicyConflict :: "ACLRuleRecord option list \<Rightarrow> ACLRuleRecord option \<Rightarrow> uuid \<Rightarrow> err option" where
  "DetectACLPolicyConflict existing candidate candidateID = (case candidate of
       None \<Rightarrow> None
     | Some c \<Rightarrow> if \<not> acl_Enabled c then None else detect_acl c candidateID existing)"

definition qos_overlaps :: "QoSRuleRecord \<Rightarrow> QoSRuleRecord \<Rightarrow> bool" where
  "qos_overlaps rule candidate \<longleftrightarrow>
     list_ex (\<lambda>candidateCIDR. list_ex (\<lambda>existingCIDR.
       (case cidrSpecificityRelation candidateCIDR existingCIDR of (rel, ok) \<Rightarrow>
          ok \<and> \<not> (candidateStrict rel \<or> existingStrict rel)))
       (qosPolicyCIDRs rule)) (qosPolicyCIDRs candidate)"

fun detect_qos :: "QoSRuleRecord \<Rightarrow> uuid \<Rightarrow> QoSRuleRecord option list \<Rightarrow> err option" where
  "detect_qos candidate candidateID [] = None"
| "detect_qos candidate candidateID (None # rules) = detect_qos candidate candidateID rules"
| "detect_qos candidate candidateID (Some rule # rules) =
     (if \<not> qos_Enabled rule then detect_qos candidate candidateID rules
      else if candidateID \<noteq> uuid_Nil \<and> qos_ID rule = candidateID then detect_qos candidate candidateID rules
      else if qos_Priority rule \<noteq> qos_Priority candidate then detect_qos candidate candidateID rules
      else if \<not> directionsOverlap (qos_Direction rule) (qos_Direction candidate) then detect_qos candidate candidateID rules
      else if qos_overlaps rule candidate then
        Some (ErrWrap (''QoS rule overlaps rule '' @ qos_ID rule @ '' at priority '' @ Itoa (qos_Priority candidate))
          ErrAmbiguousPolicyConflict)
      else detect_qos candidate candidateID rules)"

definition DetectQoSPolicyConflict :: "QoSRuleRecord option list \<Rightarrow> QoSRuleRecord option \<Rightarrow> uuid \<Rightarrow> err option" where
  "DetectQoSPolicyConflict existing candidate candidateID = (case candidate of
       None \<Rightarrow> None
     | Some c \<Rightarrow> if \<not> qos_Enabled c then None else detect_qos c candidateID existing)"


section \<open>Traffic\<close>

text \<open>What a rule matches: a packet by its direction, protocol, destination port and addresses.\<close>

record packet =
  pk_dir :: string
  pk_proto :: int
  pk_port :: int
  pk_src :: Addr
  pk_dst :: Addr

definition proto_matches :: "int \<Rightarrow> int \<Rightarrow> bool" where
  "proto_matches p q \<longleftrightarrow> p = 0 \<or> p = q"

definition port_matches :: "string \<Rightarrow> int \<Rightarrow> int \<Rightarrow> bool" where
  "port_matches ports dstPort port \<longleftrightarrow> (\<exists>(lo, hi) \<in> set (policyPortIntervals ports dstPort). lo \<le> port \<and> port \<le> hi)"

text \<open>A packet matched by the entry of a rule for one source and one destination text.\<close>

definition acl_matches :: "ACLRuleRecord \<Rightarrow> string \<Rightarrow> string \<Rightarrow> packet \<Rightarrow> bool" where
  "acl_matches rule src dst pk \<longleftrightarrow>
     pk_dir pk \<in> set (policyDirections (acl_Direction rule)) \<and>
     proto_matches (acl_Protocol rule) (pk_proto pk) \<and>
     port_matches (acl_Ports rule) (acl_DstPort rule) (pk_port pk) \<and>
     src \<in> set (aclSourceCIDRs rule) \<and> pk_src pk \<in> cidr_addrs src \<and>
     dst \<in> set (aclDestinationCIDRs rule) \<and> pk_dst pk \<in> cidr_addrs dst"

lemma directionsOverlap_iff: "directionsOverlap a b \<longleftrightarrow> set (policyDirections a) \<inter> set (policyDirections b) \<noteq> {}"
  by (auto simp: directionsOverlap_def list_ex_iff)

lemma protocolsOverlap_iff: "protocolsOverlap a b \<longleftrightarrow> (\<exists>p. proto_matches a p \<and> proto_matches b p)"
  by (auto simp: protocolsOverlap_def proto_matches_def)

lemma port_entry_ordered: "port_entry raw = Some (lo, hi) \<Longrightarrow> lo \<le> hi \<and> 0 \<le> lo \<and> hi \<le> 65535"
  by (auto simp: port_entry_def Let_def clampPort_def split: option.split_asm if_split_asm)

lemma policyPortIntervals_ordered:
  assumes "(lo, hi) \<in> set (policyPortIntervals ports dstPort)"
  shows "lo \<le> hi" "0 \<le> lo" "hi \<le> max 65535 dstPort"
  using assms port_entry_ordered
  by (fastforce simp: policyPortIntervals_def Let_def List.map_filter_def split: if_split_asm)+

lemma portsOverlap_iff:
  "portsOverlap lp ld rp rd \<longleftrightarrow> (\<exists>port. port_matches lp ld port \<and> port_matches rp rd port)"
proof
  assume "portsOverlap lp ld rp rd"
  then obtain a b c d where ab: "(a, b) \<in> set (policyPortIntervals lp ld)"
      and cd: "(c, d) \<in> set (policyPortIntervals rp rd)" and "a \<le> d" "c \<le> b"
    by (auto simp: portsOverlap_def list_ex_iff)
  with policyPortIntervals_ordered(1) [OF ab] policyPortIntervals_ordered(1) [OF cd]
  have "port_matches lp ld (max a c)" "port_matches rp rd (max a c)"
    by (auto simp: port_matches_def intro!: bexI [OF _ ab] bexI [OF _ cd])
  then show "\<exists>port. port_matches lp ld port \<and> port_matches rp rd port" by blast
next
  assume "\<exists>port. port_matches lp ld port \<and> port_matches rp rd port"
  then obtain port a b c d where "(a, b) \<in> set (policyPortIntervals lp ld)" "(c, d) \<in> set (policyPortIntervals rp rd)"
      "a \<le> port" "port \<le> b" "c \<le> port" "port \<le> d"
    by (auto simp: port_matches_def)
  moreover from this have "a \<le> d" "c \<le> b" by simp_all
  ultimately show "portsOverlap lp ld rp rd" by (force simp: portsOverlap_def list_ex_iff)
qed

lemma relation_specific:
  "relationStrictlyMoreSpecific [s, d] \<longleftrightarrow> \<not> existingStrict s \<and> \<not> existingStrict d \<and> (candidateStrict s \<or> candidateStrict d)"
  "relationStrictlyLessSpecific [s, d] \<longleftrightarrow> \<not> candidateStrict s \<and> \<not> candidateStrict d \<and> (existingStrict s \<or> existingStrict d)"
  by (auto simp: relationStrictlyMoreSpecific_def relationStrictlyLessSpecific_def)

text \<open>The relation of two texts in terms of the addresses they match.\<close>

lemma relation_sets:
  assumes "cidrSpecificityRelation c e = (rel, ok)"
  shows "ok \<longleftrightarrow> cidr_addrs c \<inter> cidr_addrs e \<noteq> {}"
    "ok \<Longrightarrow> candidateStrict rel \<longleftrightarrow> cidr_addrs c \<subset> cidr_addrs e"
    "ok \<Longrightarrow> existingStrict rel \<longleftrightarrow> cidr_addrs e \<subset> cidr_addrs c"
    "ok \<Longrightarrow> \<not> candidateStrict rel \<Longrightarrow> \<not> existingStrict rel \<Longrightarrow> cidr_addrs c = cidr_addrs e"
  using cidr_relation_sets [of c e] cidr_nested [of c e] by (auto simp: assms psubset_eq)

text \<open>Overlap on both sides without a strict order, or a strict order of the two products.\<close>

lemma product_order:
  assumes "cidrSpecificityRelation cs es = (s, True)" and "cidrSpecificityRelation cd ed = (d, True)"
  shows "relationStrictlyMoreSpecific [s, d] \<longleftrightarrow> cidr_addrs cs \<times> cidr_addrs cd \<subset> cidr_addrs es \<times> cidr_addrs ed"
    "relationStrictlyLessSpecific [s, d] \<longleftrightarrow> cidr_addrs es \<times> cidr_addrs ed \<subset> cidr_addrs cs \<times> cidr_addrs cd"
proof -
  note rs = relation_sets [OF assms(1)] and rd = relation_sets [OF assms(2)]
  have ne: "cidr_addrs cs \<noteq> {}" "cidr_addrs es \<noteq> {}" "cidr_addrs cd \<noteq> {}" "cidr_addrs ed \<noteq> {}"
    using rs(1) rd(1) by auto
  have nest: "cidr_addrs cs \<subseteq> cidr_addrs es \<or> cidr_addrs es \<subseteq> cidr_addrs cs"
      "cidr_addrs cd \<subseteq> cidr_addrs ed \<or> cidr_addrs ed \<subseteq> cidr_addrs cd"
    using rs(1) rd(1) cidr_nested by blast+
  have sub: "A \<times> B \<subseteq> C \<times> D \<longleftrightarrow> A \<subseteq> C \<and> B \<subseteq> D" if "A \<noteq> {}" "B \<noteq> {}" for A B C D :: "Addr set"
    using that by blast
  show "relationStrictlyMoreSpecific [s, d] \<longleftrightarrow> cidr_addrs cs \<times> cidr_addrs cd \<subset> cidr_addrs es \<times> cidr_addrs ed"
    "relationStrictlyLessSpecific [s, d] \<longleftrightarrow> cidr_addrs es \<times> cidr_addrs ed \<subset> cidr_addrs cs \<times> cidr_addrs cd"
    unfolding relation_specific rs(2,3) [OF TrueI] rd(2,3) [OF TrueI] psubset_eq set_eq_subset sub [OF ne(1,3)] sub [OF ne(2,4)]
    using nest by blast+
qed


section \<open>Soundness and completeness of the detection\<close>

text \<open>The rules the detection compares the candidate with.\<close>

definition acl_compared :: "ACLRuleRecord option list \<Rightarrow> uuid \<Rightarrow> ACLRuleRecord \<Rightarrow> bool" where
  "acl_compared existing candidateID rule \<longleftrightarrow>
     Some rule \<in> set existing \<and> acl_Enabled rule \<and> (candidateID = uuid_Nil \<or> acl_ID rule \<noteq> candidateID)"

definition acl_flagged :: "ACLRuleRecord \<Rightarrow> ACLRuleRecord \<Rightarrow> bool" where
  "acl_flagged candidate rule \<longleftrightarrow> aclRuntimeScopeConflicts rule candidate \<or>
     acl_Priority rule = acl_Priority candidate \<and>
     directionsOverlap (acl_Direction rule) (acl_Direction candidate) \<and>
     protocolsOverlap (acl_Protocol rule) (acl_Protocol candidate) \<and>
     portsOverlap (acl_Ports rule) (acl_DstPort rule) (acl_Ports candidate) (acl_DstPort candidate) \<and>
     acl_overlaps rule candidate"

definition acl_error :: "ACLRuleRecord \<Rightarrow> ACLRuleRecord \<Rightarrow> err" where
  "acl_error candidate rule = ErrWrap (if aclRuntimeScopeConflicts rule candidate
     then ''ACL rule conflicts with rule '' @ acl_ID rule @ '' on the same runtime key''
     else ''ACL rule overlaps rule '' @ acl_ID rule @ '' at priority '' @ Itoa (acl_Priority candidate)) ErrAmbiguousPolicyConflict"

lemma detect_acl_step:
  "detect_acl c i (Some r # rules) =
     (if acl_Enabled r \<and> (i = uuid_Nil \<or> acl_ID r \<noteq> i) \<and> acl_flagged c r then Some (acl_error c r)
      else detect_acl c i rules)"
  by (simp add: acl_flagged_def acl_error_def)

declare detect_acl.simps(3) [simp del]

lemma acl_compared_simps [simp]:
  "acl_compared [] i r \<longleftrightarrow> False"
  "acl_compared (None # rules) i r \<longleftrightarrow> acl_compared rules i r"
  "acl_compared (Some x # rules) i r \<longleftrightarrow>
     r = x \<and> acl_Enabled x \<and> (i = uuid_Nil \<or> acl_ID x \<noteq> i) \<or> acl_compared rules i r"
  by (auto simp: acl_compared_def)

lemma detect_acl_None: "detect_acl c i rules = None \<longleftrightarrow> (\<forall>r. acl_compared rules i r \<longrightarrow> \<not> acl_flagged c r)"
proof (induction rules)
  case (Cons x rules)
  then show ?case by (cases x) (auto simp: detect_acl_step)
qed simp

lemma detect_acl_Some:
  "detect_acl c i rules = Some e \<Longrightarrow> \<exists>r. acl_compared rules i r \<and> acl_flagged c r \<and> e = acl_error c r"
proof (induction rules)
  case (Cons x rules)
  then show ?case by (cases x) (auto simp: detect_acl_step split: if_split_asm)
qed simp

lemma acl_overlaps_iff:
  "acl_overlaps r c \<longleftrightarrow> (\<exists>cs \<in> set (aclSourceCIDRs c). \<exists>es \<in> set (aclSourceCIDRs r).
     \<exists>cd \<in> set (aclDestinationCIDRs c). \<exists>ed \<in> set (aclDestinationCIDRs r).
       cidr_addrs cs \<inter> cidr_addrs es \<noteq> {} \<and> cidr_addrs cd \<inter> cidr_addrs ed \<noteq> {} \<and>
       \<not> cidr_addrs cs \<times> cidr_addrs cd \<subset> cidr_addrs es \<times> cidr_addrs ed \<and>
       \<not> cidr_addrs es \<times> cidr_addrs ed \<subset> cidr_addrs cs \<times> cidr_addrs cd)"
proof -
  have loop: "(case cidrSpecificityRelation cs es of (s, ok) \<Rightarrow> ok \<and> (\<exists>cd \<in> set C. \<exists>ed \<in> set E.
          case cidrSpecificityRelation cd ed of (d, ok) \<Rightarrow> ok \<and>
               \<not> (relationStrictlyMoreSpecific [s, d] \<or> relationStrictlyLessSpecific [s, d]))) \<longleftrightarrow>
      (\<exists>cd \<in> set C. \<exists>ed \<in> set E. cidr_addrs cs \<inter> cidr_addrs es \<noteq> {} \<and> cidr_addrs cd \<inter> cidr_addrs ed \<noteq> {} \<and>
       \<not> cidr_addrs cs \<times> cidr_addrs cd \<subset> cidr_addrs es \<times> cidr_addrs ed \<and>
       \<not> cidr_addrs es \<times> cidr_addrs ed \<subset> cidr_addrs cs \<times> cidr_addrs cd)" for cs es C E
  proof -
    obtain s ok where s: "cidrSpecificityRelation cs es = (s, ok)" by fastforce
    have eq: "(case cidrSpecificityRelation cd ed of (d, ok') \<Rightarrow> ok' \<and>
             \<not> (relationStrictlyMoreSpecific [s, d] \<or> relationStrictlyLessSpecific [s, d])) \<longleftrightarrow>
        cidr_addrs cd \<inter> cidr_addrs ed \<noteq> {} \<and>
        \<not> cidr_addrs cs \<times> cidr_addrs cd \<subset> cidr_addrs es \<times> cidr_addrs ed \<and>
        \<not> cidr_addrs es \<times> cidr_addrs ed \<subset> cidr_addrs cs \<times> cidr_addrs cd" if ok for cd ed
    proof -
      obtain d ok' where d: "cidrSpecificityRelation cd ed = (d, ok')" by fastforce
      show ?thesis
      proof (cases ok')
        case True
        with s d that product_order [of cs es s cd ed d] relation_sets(1) [OF d] show ?thesis by simp
      qed (use d relation_sets(1) [OF d] in simp)
    qed
    show ?thesis
    proof (cases ok)
      case True
      then have ne: "cidr_addrs cs \<inter> cidr_addrs es \<noteq> {}" using relation_sets(1) [OF s] by blast
      show ?thesis unfolding s prod.case eq [OF True] by (simp only: True ne not_False_eq_True simp_thms)
    next
      case False
      then have "cidr_addrs cs \<inter> cidr_addrs es = {}" using relation_sets(1) [OF s] by blast
      with False show ?thesis unfolding s prod.case by (simp only: not_False_eq_True simp_thms bex_simps) blast
    qed
  qed
  show ?thesis unfolding acl_overlaps_def list_ex_iff loop ..
qed


lemma scope_conflict_iff:
  "aclRuntimeScopeConflicts r c \<longleftrightarrow>
     set (policyDirections (acl_Direction r)) \<inter> set (policyDirections (acl_Direction c)) \<noteq> {} \<and>
     (\<exists>p. proto_matches (acl_Protocol r) p \<and> proto_matches (acl_Protocol c) p) \<and>
     (\<exists>cs \<in> set (aclSourceCIDRs c). \<exists>es \<in> set (aclSourceCIDRs r).
        cidr_addrs cs \<noteq> {} \<and> cidr_addrs cs = cidr_addrs es \<and>
        (\<exists>cd \<in> set (aclDestinationCIDRs c). \<exists>ed \<in> set (aclDestinationCIDRs r).
           cidr_addrs cd \<noteq> {} \<and> cidr_addrs cd = cidr_addrs ed))"
proof -
  have same: "(case cidrSpecificityRelation c e of (rel, ok) \<Rightarrow> ok \<and> \<not> candidateStrict rel \<and> \<not> existingStrict rel \<and> P) \<longleftrightarrow>
      cidr_addrs c \<noteq> {} \<and> cidr_addrs c = cidr_addrs e \<and> P" for c e P
  proof -
    obtain rel ok where r: "cidrSpecificityRelation c e = (rel, ok)" by fastforce
    note rs = relation_sets [OF r]
    show ?thesis
    proof (cases "cidr_addrs c \<noteq> {} \<and> cidr_addrs c = cidr_addrs e")
      case True
      then have ok using rs(1) by auto
      with rs(2,3) True r show ?thesis by auto
    next
      case False
      then have "\<not> (ok \<and> \<not> candidateStrict rel \<and> \<not> existingStrict rel)" using rs(1) rs(4) by blast
      with False r show ?thesis by auto
    qed
  qed
  have same': "(case cidrSpecificityRelation c e of (rel, ok) \<Rightarrow> ok \<and> \<not> candidateStrict rel \<and> \<not> existingStrict rel) \<longleftrightarrow>
      cidr_addrs c \<noteq> {} \<and> cidr_addrs c = cidr_addrs e" for c e
    using same [where c = c and e = e and P = True] by simp
  show ?thesis
    unfolding aclRuntimeScopeConflicts_def directionsOverlap_iff protocolsOverlap_iff list_ex_iff same same' ..
qed

text \<open>
  (C17) No ambiguity is left: when \<open>DetectACLPolicyConflict\<close> accepts a candidate, every packet
  that an entry of the candidate and an entry of an enabled rule of the same priority both
  match is decided by specificity, because the source and destination addresses of one entry
  are a proper subset of those of the other.
\<close>

theorem accepted_acl_rule_is_unambiguous:
  assumes "DetectACLPolicyConflict existing (Some c) candidateID = None" and "acl_Enabled c"
    and "acl_compared existing candidateID r" and "acl_Priority r = acl_Priority c"
    and "acl_matches c cs cd pk" and "acl_matches r es ed pk"
  shows "cidr_addrs cs \<times> cidr_addrs cd \<subset> cidr_addrs es \<times> cidr_addrs ed \<or>
    cidr_addrs es \<times> cidr_addrs ed \<subset> cidr_addrs cs \<times> cidr_addrs cd"
proof -
  have "\<not> acl_flagged c r"
    using assms(1-3) by (simp add: DetectACLPolicyConflict_def detect_acl_None)
  moreover have "directionsOverlap (acl_Direction r) (acl_Direction c)" "protocolsOverlap (acl_Protocol r) (acl_Protocol c)"
    "portsOverlap (acl_Ports r) (acl_DstPort r) (acl_Ports c) (acl_DstPort c)"
    using assms(5,6) unfolding directionsOverlap_iff protocolsOverlap_iff portsOverlap_iff acl_matches_def by blast+
  ultimately have "\<not> acl_overlaps r c" using assms(4) by (simp add: acl_flagged_def)
  moreover have "cidr_addrs cs \<inter> cidr_addrs es \<noteq> {}" "cidr_addrs cd \<inter> cidr_addrs ed \<noteq> {}"
    "cs \<in> set (aclSourceCIDRs c)" "es \<in> set (aclSourceCIDRs r)" "cd \<in> set (aclDestinationCIDRs c)" "ed \<in> set (aclDestinationCIDRs r)"
    using assms(5,6) unfolding acl_matches_def by blast+
  ultimately show ?thesis unfolding acl_overlaps_iff by meson
qed

text \<open>
  No false alarm: an error of \<open>DetectACLPolicyConflict\<close> wraps the sentinel error, names an
  enabled rule other than the one being updated, and that rule and the candidate have traffic
  in common: a direction, a protocol, a source and a destination address that both match.
\<close>

theorem acl_conflict_is_real:
  assumes "DetectACLPolicyConflict existing (Some c) candidateID = Some e"
  shows "\<exists>r. acl_compared existing candidateID r \<and> e = acl_error c r \<and>
    (\<exists>dir proto cs cd es ed src dst.
       dir \<in> set (policyDirections (acl_Direction c)) \<and> dir \<in> set (policyDirections (acl_Direction r)) \<and>
       proto_matches (acl_Protocol c) proto \<and> proto_matches (acl_Protocol r) proto \<and>
       cs \<in> set (aclSourceCIDRs c) \<and> es \<in> set (aclSourceCIDRs r) \<and> src \<in> cidr_addrs cs \<inter> cidr_addrs es \<and>
       cd \<in> set (aclDestinationCIDRs c) \<and> ed \<in> set (aclDestinationCIDRs r) \<and> dst \<in> cidr_addrs cd \<inter> cidr_addrs ed)"
proof -
  obtain r where r: "acl_compared existing candidateID r" "acl_flagged c r" "e = acl_error c r"
    using assms detect_acl_Some [of c candidateID existing e]
    by (auto simp: DetectACLPolicyConflict_def split: if_split_asm)
  have dp: "directionsOverlap (acl_Direction r) (acl_Direction c)" "protocolsOverlap (acl_Protocol r) (acl_Protocol c)"
    using r(2) by (auto simp: acl_flagged_def aclRuntimeScopeConflicts_def)
  have "\<exists>cs \<in> set (aclSourceCIDRs c). \<exists>es \<in> set (aclSourceCIDRs r). \<exists>cd \<in> set (aclDestinationCIDRs c). \<exists>ed \<in> set (aclDestinationCIDRs r).
      cidr_addrs cs \<inter> cidr_addrs es \<noteq> {} \<and> cidr_addrs cd \<inter> cidr_addrs ed \<noteq> {}"
    using r(2) unfolding acl_flagged_def
  proof
    assume "aclRuntimeScopeConflicts r c"
    then show ?thesis unfolding scope_conflict_iff by (metis Int_absorb)
  next
    assume "acl_Priority r = acl_Priority c \<and> directionsOverlap (acl_Direction r) (acl_Direction c) \<and>
      protocolsOverlap (acl_Protocol r) (acl_Protocol c) \<and>
      portsOverlap (acl_Ports r) (acl_DstPort r) (acl_Ports c) (acl_DstPort c) \<and> acl_overlaps r c"
    then show ?thesis unfolding acl_overlaps_iff by meson
  qed
  then obtain cs es cd ed src dst where "cs \<in> set (aclSourceCIDRs c)" "es \<in> set (aclSourceCIDRs r)" "src \<in> cidr_addrs cs \<inter> cidr_addrs es"
      "cd \<in> set (aclDestinationCIDRs c)" "ed \<in> set (aclDestinationCIDRs r)" "dst \<in> cidr_addrs cd \<inter> cidr_addrs ed"
    by (metis ex_in_conv)
  moreover obtain dir proto where "dir \<in> set (policyDirections (acl_Direction c))" "dir \<in> set (policyDirections (acl_Direction r))"
      "proto_matches (acl_Protocol c) proto" "proto_matches (acl_Protocol r) proto"
    using dp unfolding directionsOverlap_iff protocolsOverlap_iff by blast
  ultimately show ?thesis using r(1,3) by (intro exI [of _ r] conjI exI [of _ dir]) blast+
qed


subsection \<open>QoS\<close>

definition qos_compared :: "QoSRuleRecord option list \<Rightarrow> uuid \<Rightarrow> QoSRuleRecord \<Rightarrow> bool" where
  "qos_compared existing candidateID rule \<longleftrightarrow>
     Some rule \<in> set existing \<and> qos_Enabled rule \<and> (candidateID = uuid_Nil \<or> qos_ID rule \<noteq> candidateID)"

definition qos_flagged :: "QoSRuleRecord \<Rightarrow> QoSRuleRecord \<Rightarrow> bool" where
  "qos_flagged candidate rule \<longleftrightarrow> qos_Priority rule = qos_Priority candidate \<and>
     directionsOverlap (qos_Direction rule) (qos_Direction candidate) \<and> qos_overlaps rule candidate"

definition qos_error :: "QoSRuleRecord \<Rightarrow> QoSRuleRecord \<Rightarrow> err" where
  "qos_error candidate rule =
     ErrWrap (''QoS rule overlaps rule '' @ qos_ID rule @ '' at priority '' @ Itoa (qos_Priority candidate)) ErrAmbiguousPolicyConflict"

lemma detect_qos_step:
  "detect_qos c i (Some r # rules) =
     (if qos_Enabled r \<and> (i = uuid_Nil \<or> qos_ID r \<noteq> i) \<and> qos_flagged c r then Some (qos_error c r)
      else detect_qos c i rules)"
  by (simp add: qos_flagged_def qos_error_def)

declare detect_qos.simps(3) [simp del]

lemma qos_compared_simps [simp]:
  "qos_compared [] i r \<longleftrightarrow> False"
  "qos_compared (None # rules) i r \<longleftrightarrow> qos_compared rules i r"
  "qos_compared (Some x # rules) i r \<longleftrightarrow>
     r = x \<and> qos_Enabled x \<and> (i = uuid_Nil \<or> qos_ID x \<noteq> i) \<or> qos_compared rules i r"
  by (auto simp: qos_compared_def)

lemma detect_qos_None: "detect_qos c i rules = None \<longleftrightarrow> (\<forall>r. qos_compared rules i r \<longrightarrow> \<not> qos_flagged c r)"
proof (induction rules)
  case (Cons x rules)
  then show ?case by (cases x) (auto simp: detect_qos_step)
qed simp

lemma detect_qos_Some:
  "detect_qos c i rules = Some e \<Longrightarrow> \<exists>r. qos_compared rules i r \<and> qos_flagged c r \<and> e = qos_error c r"
proof (induction rules)
  case (Cons x rules)
  then show ?case by (cases x) (auto simp: detect_qos_step split: if_split_asm)
qed simp

lemma qos_overlaps_iff:
  "qos_overlaps r c \<longleftrightarrow> (\<exists>cc \<in> set (qosPolicyCIDRs c). \<exists>ec \<in> set (qosPolicyCIDRs r).
     cidr_addrs cc \<noteq> {} \<and> cidr_addrs cc = cidr_addrs ec)"
proof -
  have "(case cidrSpecificityRelation c e of (rel, ok) \<Rightarrow> ok \<and> \<not> (candidateStrict rel \<or> existingStrict rel)) \<longleftrightarrow>
      cidr_addrs c \<noteq> {} \<and> cidr_addrs c = cidr_addrs e" for c e
  proof -
    obtain rel ok where r: "cidrSpecificityRelation c e = (rel, ok)" by fastforce
    note rs = relation_sets [OF r]
    show ?thesis
    proof (cases "cidr_addrs c \<noteq> {} \<and> cidr_addrs c = cidr_addrs e")
      case True
      then have ok using rs(1) by auto
      with rs(2,3) True r show ?thesis by auto
    next
      case False
      then have "\<not> (ok \<and> \<not> candidateStrict rel \<and> \<not> existingStrict rel)" using rs(1) rs(4) by blast
      with False r show ?thesis by auto
    qed
  qed
  then show ?thesis unfolding qos_overlaps_def list_ex_iff by simp
qed

text \<open>
  \<open>DetectQoSPolicyConflict\<close> decides its question exactly: a candidate is refused if and only
  if an enabled rule of its priority shares a direction with it and matches, by one of its
  texts, exactly the same non-empty set of addresses.
\<close>

theorem qos_conflict_exact:
  assumes "qos_Enabled c"
  shows "DetectQoSPolicyConflict existing (Some c) candidateID \<noteq> None \<longleftrightarrow>
    (\<exists>r. qos_compared existing candidateID r \<and> qos_Priority r = qos_Priority c \<and>
      set (policyDirections (qos_Direction r)) \<inter> set (policyDirections (qos_Direction c)) \<noteq> {} \<and>
      (\<exists>cc \<in> set (qosPolicyCIDRs c). \<exists>ec \<in> set (qosPolicyCIDRs r). cidr_addrs cc \<noteq> {} \<and> cidr_addrs cc = cidr_addrs ec))"
  using assms
  by (simp add: DetectQoSPolicyConflict_def detect_qos_None qos_flagged_def qos_overlaps_iff directionsOverlap_iff)


section \<open>Bounds\<close>

text \<open>
  The burst that is filled in is never below one packet and never wraps: for every rate it
  is at least 1500 bytes, and from 120 kbit/s on it is the bytes sent in a tenth of a second.
\<close>

theorem default_burst_bounds:
  "1500 \<le> defaultQoSBurst r \<and> (120000 \<le> r \<longrightarrow> unat (defaultQoSBurst r) = unat r div 80)"
proof -
  have u: "unat (r div 8 div 10) = unat r div 80"
    by (simp add: unat_div div_mult2_eq [symmetric])
  have "1500 \<le> defaultQoSBurst r" by (auto simp: defaultQoSBurst_def Let_def not_less)
  moreover have "unat (defaultQoSBurst r) = unat r div 80" if "120000 \<le> r"
  proof -
    have "120000 \<le> unat r" using that by (simp add: word_le_nat_alt)
    then have "1500 \<le> unat (r div 8 div 10)" unfolding u by simp
    then have "\<not> r div 8 div 10 < 1500" by (simp add: word_less_nat_alt)
    then show ?thesis using u by (simp add: defaultQoSBurst_def)
  qed
  ultimately show ?thesis by blast
qed

theorem default_burst_bounds_witness: "unat (defaultQoSBurst 8000000) = 100000"
  using default_burst_bounds [of 8000000] by (simp add: word_le_nat_alt)

section \<open>Examples\<close>

definition sample_acl :: "uuid \<Rightarrow> string \<Rightarrow> string \<Rightarrow> ACLRuleRecord" where
  "sample_acl i src dst = \<lparr>acl_ID = i, acl_TenantID = ''t1'', acl_NodeID = ''n1'', acl_Name = '''', acl_Action = ''allow'',
     acl_SrcCIDR = src, acl_DstCIDR = dst, acl_SrcGroupID = None, acl_DstGroupID = None, acl_SrcGroup = None,
     acl_DstGroup = None, acl_DstPort = 443, acl_Protocol = 6, acl_Direction = ''ingress'', acl_Ports = ''443,8000-8100:allow'',
     acl_Priority = 10, acl_Enabled = True, acl_Description = '''', acl_CreatedAt = 0, acl_UpdatedAt = 0\<rparr>"

definition sample_packet :: packet where
  "sample_packet = \<lparr>pk_dir = ''ingress'', pk_proto = 6, pk_port = 8080, pk_src = Addr4 0x0A010203, pk_dst = Addr4 0x08080808\<rparr>"

lemma sample_parse:
  "parsePolicyPrefix '''' = (PrefixZero, True, True)"
  "parsePolicyPrefix ''10.0.0.0/8'' = (\<lparr>pf_Addr = Addr4 0x0A000000, pf_Bits = 8\<rparr>, False, True)"
  by code_simp+

lemma sample_directions: "policyDirections ''ingress'' = [''ingress'']" "policyDirections ''egress'' = [''egress'']"
  by code_simp+

lemma sample_ports: "policyPortIntervals ''443,8000-8100:allow'' 443 = [(443, 443), (8000, 8100)]"
  by code_simp

lemma sample_addrs: "Addr4 0x0A010203 \<in> cidr_addrs ''10.0.0.0/8''" "Addr4 w \<in> cidr_addrs ''''"
  by (simp_all add: cidr_addrs_def sample_parse plain_addr_def agree_bits_def)

lemmas conflict_eval = DetectACLPolicyConflict_def DetectQoSPolicyConflict_def detect_acl.simps(3) detect_qos.simps(3)
  aclRuntimeScopeConflicts_def acl_overlaps_def qos_overlaps_def directionsOverlap_def protocolsOverlap_def portsOverlap_def
  aclSourceCIDRs_def aclDestinationCIDRs_def qosPolicyCIDRs_def group_or_def cidrSpecificityRelation_def
  relation_specific sample_parse sample_directions sample_ports

theorem accepted_acl_rule_is_unambiguous_witness:
  "cidr_addrs ''10.0.0.0/8'' \<times> cidr_addrs '''' \<subset> cidr_addrs '''' \<times> cidr_addrs '''' \<or>
   cidr_addrs '''' \<times> cidr_addrs '''' \<subset> cidr_addrs ''10.0.0.0/8'' \<times> cidr_addrs ''''"
proof -
  let ?c = "sample_acl ''new'' ''10.0.0.0/8'' ''''" and ?r = "sample_acl ''r1'' '''' ''''"
  have "DetectACLPolicyConflict [Some ?r] (Some ?c) ''new'' = None"
    by (simp add: sample_acl_def conflict_eval)
  moreover have "acl_Enabled ?c" "acl_compared [Some ?r] ''new'' ?r" "acl_Priority ?r = acl_Priority ?c"
    by (simp_all add: sample_acl_def)
  moreover have "acl_matches ?c ''10.0.0.0/8'' '''' sample_packet" "acl_matches ?r '''' '''' sample_packet"
    using sample_addrs
    by (simp_all add: acl_matches_def sample_acl_def sample_packet_def sample_directions sample_ports proto_matches_def
        port_matches_def aclSourceCIDRs_def aclDestinationCIDRs_def group_or_def)
  ultimately show ?thesis by (rule accepted_acl_rule_is_unambiguous)
qed

theorem acl_conflict_is_real_witness:
  "\<exists>r. acl_compared [Some (sample_acl ''r1'' '''' '''')] ''new'' r \<and>
     DetectACLPolicyConflict [Some (sample_acl ''r1'' '''' '''')] (Some (sample_acl ''new'' '''' '''')) ''new'' =
       Some (acl_error (sample_acl ''new'' '''' '''') r)"
proof -
  let ?c = "sample_acl ''new'' '''' ''''" and ?r = "sample_acl ''r1'' '''' ''''"
  have "DetectACLPolicyConflict [Some ?r] (Some ?c) ''new'' \<noteq> None" by (simp add: sample_acl_def conflict_eval)
  then obtain e where e: "DetectACLPolicyConflict [Some ?r] (Some ?c) ''new'' = Some e" by blast
  from acl_conflict_is_real [OF this] e show ?thesis by (elim exE conjE) blast
qed

definition sample_qos :: "uuid \<Rightarrow> string \<Rightarrow> QoSRuleRecord" where
  "sample_qos i dst = \<lparr>qos_ID = i, qos_TenantID = ''t1'', qos_NodeID = ''n1'', qos_SrcCIDR = '''', qos_DstCIDR = dst,
     qos_GroupID = None, qos_Group = None, qos_SrcPort = 0, qos_DstPort = 0, qos_Protocol = 0, qos_BandwidthMbps = 8,
     qos_Direction = ''egress'', qos_RateBps = 0, qos_BurstBytes = 0, qos_Priority = 5, qos_Mode = '''', qos_Enabled = True,
     qos_Description = '''', qos_CreatedAt = 0, qos_UpdatedAt = 0\<rparr>"

theorem qos_conflict_exact_witness:
  "DetectQoSPolicyConflict [Some (sample_qos ''q1'' '''')] (Some (sample_qos ''new'' ''10.0.0.0/8'')) ''new'' = None \<and>
   cidr_addrs ''10.0.0.0/8'' \<noteq> cidr_addrs ''''"
proof -
  let ?c = "sample_qos ''new'' ''10.0.0.0/8''" and ?r = "sample_qos ''q1'' ''''"
  have trim: "TrimSpace ''10.0.0.0/8'' = ''10.0.0.0/8''" "TrimSpace ''egress'' = ''egress''" by code_simp+
  have none: "DetectQoSPolicyConflict [Some ?r] (Some ?c) ''new'' = None"
    by (simp add: sample_qos_def conflict_eval trim)
  have cidrs: "qosPolicyCIDRs ?c = [''10.0.0.0/8'']" "qosPolicyCIDRs ?r = ['''']"
    by (simp_all add: sample_qos_def qosPolicyCIDRs_def group_or_def trim)
  have "cidr_addrs ''10.0.0.0/8'' \<noteq> {}" using sample_addrs(1) by blast
  moreover have "qos_Enabled ?c" "qos_compared [Some ?r] ''new'' ?r" "qos_Priority ?r = qos_Priority ?c"
    "set (policyDirections (qos_Direction ?r)) \<inter> set (policyDirections (qos_Direction ?c)) \<noteq> {}"
    by (simp_all add: sample_qos_def sample_directions)
  moreover have "\<not> (\<exists>cc \<in> set (qosPolicyCIDRs ?c). \<exists>ec \<in> set (qosPolicyCIDRs ?r). cidr_addrs cc \<noteq> {} \<and> cidr_addrs cc = cidr_addrs ec)"
    using qos_conflict_exact [of ?c "[Some ?r]" "''new''"] none calculation(2-5) by blast
  ultimately show ?thesis using none unfolding cidrs by simp
qed

end
