(* ===== verification/Policy_Snapshot.thy ===== *)
theory Policy_Snapshot
  imports Policy_Conflict "HOL-Library.List_Lexorder" "HOL-Library.Char_ord"
begin

text \<open>
  The policy an agent receives (\<^verbatim>\<open>internal/controller/grpc/policy_snapshot.go\<close>): the stored ACL and
  QoS rules and the blacklist of a node are compiled into the rules of the protocol, together
  with the IP groups they name. Fields of type \<^verbatim>\<open>uint32\<close> and \<^verbatim>\<open>uint64\<close> are words; a conversion from
  \<^verbatim>\<open>int\<close> wraps.
\<close>

section \<open>The messages\<close>

record PbACLRule =
  pa_Id :: string
  pa_SrcNet :: string
  pa_DstNet :: string
  pa_Protocol :: "32 word"
  pa_MinPort :: "32 word"
  pa_MaxPort :: "32 word"
  pa_Action :: string
  pa_Direction :: string
  pa_Ports :: string
  pa_SrcGroupId :: string
  pa_DstGroupId :: string
  pa_Priority :: "32 word"

record PbQoSRule =
  pq_Id :: string
  pq_SrcIp :: string
  pq_DstIp :: string
  pq_SrcPort :: "32 word"
  pq_DstPort :: "32 word"
  pq_Protocol :: "32 word"
  pq_BandwidthMbps :: "64 word"
  pq_Direction :: string
  pq_RateBps :: "64 word"
  pq_BurstBytes :: "64 word"
  pq_Priority :: "32 word"
  pq_Mode :: string
  pq_GroupId :: string

record PbBlacklistRule =
  pb_Scope :: string
  pb_Cidr :: string
  pb_Port :: "32 word"

record PbIPGroup =
  pg_Id :: string
  pg_Name :: string
  pg_Cidrs :: "string list"
  pg_Kind :: string

record agentPolicySnapshot =
  ps_IPGroups :: "PbIPGroup list"
  ps_ACLRules :: "PbACLRule list"
  ps_QoSRules :: "PbQoSRule list"
  ps_BlacklistRules :: "PbBlacklistRule list"

text \<open>The zero value of the message.\<close>

definition zero_acl :: PbACLRule where
  "zero_acl = \<lparr>pa_Id = '''', pa_SrcNet = '''', pa_DstNet = '''', pa_Protocol = 0, pa_MinPort = 0, pa_MaxPort = 0,
     pa_Action = '''', pa_Direction = '''', pa_Ports = '''', pa_SrcGroupId = '''', pa_DstGroupId = '''', pa_Priority = 0\<rparr>"

section \<open>From records to messages\<close>

text \<open>
  A stable sort by priority, then age, nil entries last: two stable sorts, the less
  significant key first.
\<close>

definition sortedACLRuleRecords :: "ACLRuleRecord option list \<Rightarrow> ACLRuleRecord option list" where
  "sortedACLRuleRecords rules =
     map Some (sort_key acl_Priority (sort_key acl_CreatedAt (List.map_filter id rules))) @ filter (\<lambda>r. r = None) rules"

definition sortedQoSRuleRecords :: "QoSRuleRecord option list \<Rightarrow> QoSRuleRecord option list" where
  "sortedQoSRuleRecords rules =
     map Some (sort_key qos_Priority (sort_key qos_CreatedAt (List.map_filter id rules))) @ filter (\<lambda>r. r = None) rules"

definition aclRecordToProto :: "ACLRuleRecord \<Rightarrow> PbACLRule" where
  "aclRecordToProto record = \<lparr>pa_Id = acl_ID record, pa_SrcNet = TrimSpace (acl_SrcCIDR record),
     pa_DstNet = TrimSpace (acl_DstCIDR record), pa_Protocol = word_of_int (acl_Protocol record),
     pa_MinPort = (if acl_DstPort record > 0 then word_of_int (acl_DstPort record) else 0),
     pa_MaxPort = (if acl_DstPort record > 0 then word_of_int (acl_DstPort record) else 0),
     pa_Action = acl_Action record, pa_Direction = acl_Direction record, pa_Ports = acl_Ports record,
     pa_SrcGroupId = coalesce (acl_SrcGroupID record) '''', pa_DstGroupId = coalesce (acl_DstGroupID record) '''',
     pa_Priority = word_of_int (acl_Priority record)\<rparr>"

definition qosRecordToProto :: "QoSRuleRecord \<Rightarrow> PbQoSRule" where
  "qosRecordToProto record = \<lparr>pq_Id = qos_ID record, pq_SrcIp = TrimSpace (qos_SrcCIDR record),
     pq_DstIp = TrimSpace (qos_DstCIDR record), pq_SrcPort = word_of_int (qos_SrcPort record),
     pq_DstPort = word_of_int (qos_DstPort record), pq_Protocol = word_of_int (qos_Protocol record),
     pq_BandwidthMbps = word_of_int (qos_BandwidthMbps record), pq_Direction = qos_Direction record,
     pq_RateBps = qos_RateBps record, pq_BurstBytes = qos_BurstBytes record,
     pq_Priority = word_of_int (qos_Priority record), pq_Mode = qos_Mode record,
     pq_GroupId = coalesce (qos_GroupID record) ''''\<rparr>"

text \<open>The groups a rule names, in the order they are recorded; the code keeps them in a set.\<close>

definition recordACLGroupRefs :: "ACLRuleRecord \<Rightarrow> string list \<Rightarrow> string list" where
  "recordACLGroupRefs record refs = refs @ List.map_filter id [acl_SrcGroupID record, acl_DstGroupID record]"

definition recordQoSGroupRefs :: "QoSRuleRecord \<Rightarrow> string list \<Rightarrow> string list" where
  "recordQoSGroupRefs record refs = refs @ List.map_filter id [qos_GroupID record]"

section \<open>Normal forms\<close>

definition cidrOrAny :: "string \<Rightarrow> string" where
  "cidrOrAny value = (let trimmed = TrimSpace value in
     if trimmed = '''' \<or> trimmed = ''0'' \<or> trimmed = ''0.0.0.0/0'' \<or> trimmed = ''::/0'' then ''any'' else trimmed)"

definition aclNetFallback :: "string \<Rightarrow> string \<Rightarrow> string" where
  "aclNetFallback cidr groupID = (if TrimSpace groupID \<noteq> '''' then TrimSpace cidr else cidrOrAny cidr)"

definition normalizeACLAction :: "string \<Rightarrow> err + string" where
  "normalizeACLAction action = (let a = ToLower (TrimSpace action) in
     if a \<in> {'''', ''accept'', ''pass'', ''allow''} then Inr ''allow''
     else if a \<in> {''drop'', ''deny''} then Inr ''deny''
     else Inl (ErrMsg (''invalid ACL action '' @ double_quoted action)))"

definition normalizePolicyDirection :: "string \<Rightarrow> string \<Rightarrow> err + string" where
  "normalizePolicyDirection direction fallback =
     (let value = ToLower (TrimSpace direction); value = (if value = '''' then fallback else value) in
      if value \<in> {''ingress'', ''in''} then Inr ''ingress''
      else if value \<in> {''egress'', ''out''} then Inr ''egress''
      else if value \<in> {''both'', ''all''} then Inr ''both''
      else Inl (ErrMsg (''invalid policy direction '' @ double_quoted direction)))"

definition normalizeACLPorts :: "string \<Rightarrow> 32 word \<Rightarrow> 32 word \<Rightarrow> err + string" where
  "normalizeACLPorts ports minPort maxPort =
     (let trimmed = TrimSpace ports in
      if trimmed \<noteq> '''' then Inr (if EqualFold trimmed ''all'' then '''' else trimmed)
      else if minPort = 0 \<and> (maxPort = 0 \<or> maxPort = 65535) then Inr ''''
      else if minPort > 65535 \<or> maxPort > 65535 then Inl (ErrMsg ''ACL port range must be within 0..65535'')
      else let maxPort = (if maxPort = 0 then minPort else maxPort) in
        if minPort > maxPort then
          Inl (ErrMsg (''invalid ACL port range '' @ Itoa (uint minPort) @ ''-'' @ Itoa (uint maxPort)))
        else if minPort = maxPort then Inr (Itoa (uint minPort))
        else Inr (Itoa (uint minPort) @ ''-'' @ Itoa (uint maxPort)))"

definition normalizeQoSMode :: "string \<Rightarrow> err + string" where
  "normalizeQoSMode mode = (let m = ToLower (TrimSpace mode) in
     if m = '''' then Inr ''auto''
     else if m \<in> {''auto'', ''policing'', ''shaping''} then Inr m
     else Inl (ErrMsg (''invalid QoS mode '' @ double_quoted mode)))"

definition inferredQoSDirection :: "PbQoSRule \<Rightarrow> string" where
  "inferredQoSDirection rule =
     (if TrimSpace (pq_SrcIp rule) \<noteq> '''' \<and> TrimSpace (pq_DstIp rule) = '''' then ''ingress'' else ''egress'')"

definition qosGroupForDirection :: "PbQoSRule \<Rightarrow> string \<Rightarrow> string" where
  "qosGroupForDirection rule direction =
     (if direction = ''ingress'' then cidrOrAny (pq_SrcIp rule)
      else let dst = cidrOrAny (pq_DstIp rule) in if dst = ''any'' then cidrOrAny (pq_SrcIp rule) else dst)"

definition qosCIDRFallbackForDirection :: "PbQoSRule \<Rightarrow> string \<Rightarrow> string" where
  "qosCIDRFallbackForDirection rule direction =
     (if direction = ''ingress'' then TrimSpace (pq_SrcIp rule)
      else let dst = TrimSpace (pq_DstIp rule) in if dst \<noteq> '''' then dst else TrimSpace (pq_SrcIp rule))"

section \<open>Compilation\<close>

text \<open>\<^verbatim>\<open>x, err := m; if err != nil { return nil, err }\<close> for pure code.\<close>

definition try_else :: "err + 'a \<Rightarrow> ('a \<Rightarrow> err + 'b) \<Rightarrow> err + 'b" where
  "try_else m f = (case m of Inl e \<Rightarrow> Inl e | Inr x \<Rightarrow> f x)"

definition compileACLRule :: "PbACLRule option \<Rightarrow> err + PbACLRule list" where
  "compileACLRule rule = (case rule of None \<Rightarrow> Inr [] | Some rule \<Rightarrow>
     try_else (normalizeACLAction (pa_Action rule)) (\<lambda>action.
     try_else (normalizePolicyDirection (pa_Direction rule) ''ingress'') (\<lambda>direction.
     try_else (normalizeACLPorts (pa_Ports rule) (pa_MinPort rule) (pa_MaxPort rule)) (\<lambda>ports.
     let protocol = pa_Protocol rule in
     if protocol > 255 then Inl (ErrMsg (''ACL protocol '' @ Itoa (uint protocol) @ '' exceeds uint8''))
     else if ports \<noteq> '''' \<and> protocol \<notin> {0, 6, 17} then
       Inl (ErrMsg (''ACL port filters require tcp or udp protocol, got '' @ Itoa (uint protocol)))
     else let protocols = (if ports \<noteq> '''' \<and> protocol = 0 then [6, 17] else [protocol]) in
       Inr (map (\<lambda>proto. zero_acl\<lparr>pa_Id := pa_Id rule, pa_SrcNet := aclNetFallback (pa_SrcNet rule) (pa_SrcGroupId rule),
         pa_DstNet := aclNetFallback (pa_DstNet rule) (pa_DstGroupId rule), pa_Protocol := proto, pa_Action := action,
         pa_Direction := direction, pa_Ports := ports, pa_SrcGroupId := pa_SrcGroupId rule,
         pa_DstGroupId := pa_DstGroupId rule, pa_Priority := pa_Priority rule\<rparr>) protocols)))))"

definition compileBlacklistRule :: "PbBlacklistRule option \<Rightarrow> err + PbACLRule list" where
  "compileBlacklistRule rule = (case rule of None \<Rightarrow> Inr [] | Some rule \<Rightarrow>
     let scope = ToLower (TrimSpace (pb_Scope rule)); denied = zero_acl\<lparr>pa_Action := ''deny'', pa_Direction := ''ingress''\<rparr> in
     if scope = ''src'' then
       if TrimSpace (pb_Cidr rule) = '''' then Inl (ErrMsg ''source blacklist rule requires cidr'')
       else Inr [denied\<lparr>pa_SrcNet := cidrOrAny (pb_Cidr rule), pa_DstNet := ''any''\<rparr>]
     else if scope = ''dst'' then
       if TrimSpace (pb_Cidr rule) = '''' then Inl (ErrMsg ''destination blacklist rule requires cidr'')
       else Inr [denied\<lparr>pa_SrcNet := ''any'', pa_DstNet := cidrOrAny (pb_Cidr rule)\<rparr>]
     else if scope = ''ports'' then
       if pb_Port rule = 0 \<or> pb_Port rule > 65535 then Inl (ErrMsg ''port blacklist rule requires port in 1..65535'')
       else let port = Itoa (uint (pb_Port rule)) in
         Inr [denied\<lparr>pa_SrcNet := ''any'', pa_DstNet := ''any'', pa_Protocol := 6, pa_Ports := port\<rparr>,
              denied\<lparr>pa_SrcNet := ''any'', pa_DstNet := ''any'', pa_Protocol := 17, pa_Ports := port\<rparr>]
     else Inl (ErrMsg (''unsupported blacklist scope '' @ double_quoted (pb_Scope rule))))"

text \<open>A normalised direction is one of three, so the last error of the code is never reached.\<close>

definition compileQoSRule :: "PbQoSRule option \<Rightarrow> err + PbQoSRule option" where
  "compileQoSRule rule = (case rule of None \<Rightarrow> Inr None | Some rule \<Rightarrow>
     try_else (normalizePolicyDirection (pq_Direction rule) (inferredQoSDirection rule)) (\<lambda>direction.
     let grp = (if TrimSpace (pq_GroupId rule) \<noteq> '''' then qosCIDRFallbackForDirection rule direction
                else qosGroupForDirection rule direction);
         rateBps = (if pq_RateBps rule = 0 \<and> pq_BandwidthMbps rule > 0 then pq_BandwidthMbps rule * 1000000 else pq_RateBps rule)
     in if rateBps = 0 then Inl (ErrMsg ''QoS rule requires rate_bps or bandwidth_mbps'')
     else if pq_Priority rule > 255 then Inl (ErrMsg (''QoS priority '' @ Itoa (uint (pq_Priority rule)) @ '' exceeds uint8''))
     else try_else (normalizeQoSMode (pq_Mode rule)) (\<lambda>mode.
       let compiled = \<lparr>pq_Id = pq_Id rule, pq_SrcIp = '''', pq_DstIp = '''', pq_SrcPort = 0, pq_DstPort = 0,
             pq_Protocol = pq_Protocol rule, pq_BandwidthMbps = pq_BandwidthMbps rule, pq_Direction = direction,
             pq_RateBps = rateBps, pq_BurstBytes = (if pq_BurstBytes rule = 0 then defaultQoSBurst rateBps else pq_BurstBytes rule),
             pq_Priority = pq_Priority rule, pq_Mode = mode, pq_GroupId = pq_GroupId rule\<rparr>
       in if direction = ''ingress'' then Inr (Some (compiled\<lparr>pq_SrcIp := grp\<rparr>))
          else if direction = ''egress'' \<or> direction = ''both'' then Inr (Some (compiled\<lparr>pq_DstIp := grp\<rparr>))
          else Inl (ErrMsg (''invalid normalized QoS direction '' @ double_quoted direction)))))"

definition compileIPGroup :: "IPGroupRecord \<Rightarrow> PbIPGroup" where
  "compileIPGroup g = \<lparr>pg_Id = ig_ID g, pg_Name = ig_Name g,
     pg_Cidrs = sort (filter (\<lambda>c. c \<noteq> '''') (map (\<lambda>m. TrimSpace (gm_CIDR m)) (ig_Members g))), pg_Kind = ig_Kind g\<rparr>"

definition sortedIPGroups :: "IPGroupRecord option list \<Rightarrow> IPGroupRecord option list" where
  "sortedIPGroups groups = map Some (sort_key ig_Kind (sort_key ig_Name (sort_key ig_ID (List.map_filter id groups)))) @
     filter (\<lambda>g. g = None) groups"

text \<open>The error names a missing group; the code takes any, the model the first that was recorded.\<close>

definition compileReferencedIPGroups :: "IPGroupRecord option list \<Rightarrow> string list \<Rightarrow> err + PbIPGroup list" where
  "compileReferencedIPGroups groups refs =
     (if refs = [] then Inr []
      else let used = filter (\<lambda>g. ig_ID g \<in> set refs) (List.map_filter id (sortedIPGroups groups)) in
        case find (\<lambda>i. i \<notin> ig_ID ` set used) refs of
          Some i \<Rightarrow> Inl (ErrMsg (''policy references missing IP group '' @ i))
        | None \<Rightarrow> Inr (map compileIPGroup used))"

text \<open>The three loops; a nil or disabled record is skipped.\<close>

fun compile_acls :: "ACLRuleRecord option list \<Rightarrow> string list \<Rightarrow> err + PbACLRule list \<times> string list" where
  "compile_acls [] refs = Inr ([], refs)"
| "compile_acls (None # rs) refs = compile_acls rs refs"
| "compile_acls (Some record # rs) refs =
     (if \<not> acl_Enabled record then compile_acls rs refs
      else try_else (compileACLRule (Some (aclRecordToProto record))) (\<lambda>rules.
        try_else (compile_acls rs (recordACLGroupRefs record refs)) (\<lambda>(more, refs'). Inr (rules @ more, refs'))))"

fun compile_blacklist :: "PbBlacklistRule option list \<Rightarrow> err + PbACLRule list" where
  "compile_blacklist [] = Inr []"
| "compile_blacklist (rule # rs) =
     try_else (compileBlacklistRule rule) (\<lambda>rules. try_else (compile_blacklist rs) (\<lambda>more. Inr (rules @ more)))"

fun compile_qos :: "QoSRuleRecord option list \<Rightarrow> string list \<Rightarrow> err + PbQoSRule list \<times> string list" where
  "compile_qos [] refs = Inr ([], refs)"
| "compile_qos (None # rs) refs = compile_qos rs refs"
| "compile_qos (Some record # rs) refs =
     (if \<not> qos_Enabled record then compile_qos rs refs
      else try_else (compileQoSRule (Some (qosRecordToProto record))) (\<lambda>rule.
        try_else (compile_qos rs (recordQoSGroupRefs record refs)) (\<lambda>(more, refs').
          Inr ((case rule of None \<Rightarrow> more | Some r \<Rightarrow> r # more), refs'))))"

definition compileAgentPolicySnapshotWithGroups ::
    "IPGroupRecord option list \<Rightarrow> ACLRuleRecord option list \<Rightarrow> QoSRuleRecord option list \<Rightarrow> PbBlacklistRule option list \<Rightarrow>
     err + agentPolicySnapshot" where
  "compileAgentPolicySnapshotWithGroups groups aclRuleRecords qosRuleRecords blacklistRules =
     try_else (compile_acls (sortedACLRuleRecords aclRuleRecords) []) (\<lambda>(acls, refs).
     try_else (compile_blacklist blacklistRules) (\<lambda>denied.
     try_else (compile_qos (sortedQoSRuleRecords qosRuleRecords) refs) (\<lambda>(qos, refs).
     try_else (compileReferencedIPGroups groups refs) (\<lambda>ipGroups.
       Inr \<lparr>ps_IPGroups = ipGroups, ps_ACLRules = acls @ denied, ps_QoSRules = qos, ps_BlacklistRules = []\<rparr>))))"

section \<open>A snapshot is well formed\<close>

lemma try_else_Inr: "try_else m f = Inr y \<longleftrightarrow> (\<exists>x. m = Inr x \<and> f x = Inr y)"
  by (cases m) (simp_all add: try_else_def)

text \<open>What an agent relies on: normal texts, numbers in range, ports only for TCP and UDP, known groups.\<close>

definition wf_acl :: "string set \<Rightarrow> PbACLRule \<Rightarrow> bool" where
  "wf_acl groups r \<longleftrightarrow> pa_Action r \<in> {''allow'', ''deny''} \<and> pa_Direction r \<in> {''ingress'', ''egress'', ''both''} \<and>
     pa_Protocol r \<le> 255 \<and> (pa_Ports r \<noteq> '''' \<longrightarrow> pa_Protocol r \<in> {6, 17}) \<and>
     (pa_SrcGroupId r \<noteq> '''' \<longrightarrow> pa_SrcGroupId r \<in> groups) \<and> (pa_DstGroupId r \<noteq> '''' \<longrightarrow> pa_DstGroupId r \<in> groups)"

definition wf_qos :: "string set \<Rightarrow> PbQoSRule \<Rightarrow> bool" where
  "wf_qos groups r \<longleftrightarrow> pq_RateBps r \<noteq> 0 \<and> pq_BurstBytes r \<noteq> 0 \<and> pq_Priority r \<le> 255 \<and>
     pq_Mode r \<in> {''auto'', ''policing'', ''shaping''} \<and> pq_Direction r \<in> {''ingress'', ''egress'', ''both''} \<and>
     (pq_GroupId r \<noteq> '''' \<longrightarrow> pq_GroupId r \<in> groups)"

lemma normal_texts:
  "normalizeACLAction a = Inr x \<Longrightarrow> x \<in> {''allow'', ''deny''}"
  "normalizePolicyDirection d f = Inr y \<Longrightarrow> y \<in> {''ingress'', ''egress'', ''both''}"
  "normalizeQoSMode m = Inr z \<Longrightarrow> z \<in> {''auto'', ''policing'', ''shaping''}"
  by (auto simp: normalizeACLAction_def normalizePolicyDirection_def normalizeQoSMode_def Let_def split: if_split_asm)

lemma compileACLRule_Inr:
  assumes "compileACLRule (Some r) = Inr rules"
  obtains action direction ports where "normalizeACLAction (pa_Action r) = Inr action"
    "normalizePolicyDirection (pa_Direction r) ''ingress'' = Inr direction"
    "normalizeACLPorts (pa_Ports r) (pa_MinPort r) (pa_MaxPort r) = Inr ports"
    "pa_Protocol r \<le> 255" "ports \<noteq> '''' \<Longrightarrow> pa_Protocol r \<in> {0, 6, 17}"
    "rules = map (\<lambda>proto. zero_acl\<lparr>pa_Id := pa_Id r, pa_SrcNet := aclNetFallback (pa_SrcNet r) (pa_SrcGroupId r),
         pa_DstNet := aclNetFallback (pa_DstNet r) (pa_DstGroupId r), pa_Protocol := proto, pa_Action := action,
         pa_Direction := direction, pa_Ports := ports, pa_SrcGroupId := pa_SrcGroupId r,
         pa_DstGroupId := pa_DstGroupId r, pa_Priority := pa_Priority r\<rparr>)
       (if ports \<noteq> '''' \<and> pa_Protocol r = 0 then [6, 17] else [pa_Protocol r])"
  using assms unfolding compileACLRule_def option.case try_else_Inr
  by (elim exE conjE) (rule that; auto simp: Let_def not_less split: if_split_asm)

lemma wf_compiled_acl:
  assumes "compileACLRule (Some r) = Inr rules" and "x \<in> set rules"
    and "pa_SrcGroupId r \<noteq> '''' \<longrightarrow> pa_SrcGroupId r \<in> G" and "pa_DstGroupId r \<noteq> '''' \<longrightarrow> pa_DstGroupId r \<in> G"
  shows "wf_acl G x"
  using assms(1)
proof (cases rule: compileACLRule_Inr)
  case (1 action direction ports)
  note * = normal_texts(1) [OF 1(1)] normal_texts(2) [OF 1(2)]
  from assms(2) 1(6) obtain proto where proto: "proto \<in> set (if ports \<noteq> '''' \<and> pa_Protocol r = 0 then [6, 17] else [pa_Protocol r])"
      and x: "x = zero_acl\<lparr>pa_Id := pa_Id r, pa_SrcNet := aclNetFallback (pa_SrcNet r) (pa_SrcGroupId r),
         pa_DstNet := aclNetFallback (pa_DstNet r) (pa_DstGroupId r), pa_Protocol := proto, pa_Action := action,
         pa_Direction := direction, pa_Ports := ports, pa_SrcGroupId := pa_SrcGroupId r,
         pa_DstGroupId := pa_DstGroupId r, pa_Priority := pa_Priority r\<rparr>" by auto
  have "proto \<le> 255 \<and> (ports \<noteq> '''' \<longrightarrow> proto \<in> {6, 17})"
    using proto 1(4,5) by (auto split: if_split_asm)
  with * assms(3,4) show ?thesis by (simp add: wf_acl_def x)
qed

lemma wf_blacklist:
  assumes "compileBlacklistRule rule = Inr rules" and "x \<in> set rules"
  shows "wf_acl G x"
  using assms by (auto simp: compileBlacklistRule_def wf_acl_def zero_acl_def Let_def split: option.split_asm if_split_asm)

lemma compile_acls_wf:
  assumes "compile_acls rs refs = Inr (acls, refs')"
  shows "set refs \<subseteq> set refs' \<and> (\<forall>x \<in> set acls. wf_acl (set refs') x)"
  using assms
proof (induction rs refs arbitrary: acls refs' rule: compile_acls.induct)
  case (3 r rs refs)
  show ?case
  proof (cases "acl_Enabled r")
    case False
    with 3 show ?thesis by simp
  next
    case True
    with "3.prems" obtain rules more where c: "compileACLRule (Some (aclRecordToProto r)) = Inr rules"
        and m: "compile_acls rs (recordACLGroupRefs r refs) = Inr (more, refs')" and acls: "acls = rules @ more"
      by (auto simp: try_else_Inr)
    note ih = "3.IH"(2) [simplified True, simplified, OF m]
    have "set (List.map_filter id [acl_SrcGroupID r, acl_DstGroupID r]) \<subseteq> set refs'"
      using ih by (auto simp: recordACLGroupRefs_def)
    then have "pa_SrcGroupId (aclRecordToProto r) \<noteq> '''' \<longrightarrow> pa_SrcGroupId (aclRecordToProto r) \<in> set refs'"
      "pa_DstGroupId (aclRecordToProto r) \<noteq> '''' \<longrightarrow> pa_DstGroupId (aclRecordToProto r) \<in> set refs'"
      by (auto simp: aclRecordToProto_def coalesce_def List.map_filter_def split: option.splits if_split_asm)
    with wf_compiled_acl [OF c] ih acls show ?thesis by (auto simp: recordACLGroupRefs_def)
  qed
qed simp_all

lemma wf_acl_mono: "wf_acl G x \<Longrightarrow> G \<subseteq> H \<Longrightarrow> wf_acl H x"
  by (auto simp: wf_acl_def)

lemma compile_blacklist_wf:
  "compile_blacklist rs = Inr rules \<Longrightarrow> x \<in> set rules \<Longrightarrow> wf_acl G x"
  by (induction rs arbitrary: rules) (auto simp: try_else_Inr intro: wf_blacklist)

lemma burst_positive: "defaultQoSBurst r \<noteq> 0"
  by (auto simp: defaultQoSBurst_def Let_def)

lemma wf_compiled_qos:
  assumes "compileQoSRule (Some r) = Inr c" and "pq_GroupId r \<noteq> '''' \<longrightarrow> pq_GroupId r \<in> G"
  shows "\<exists>x. c = Some x \<and> wf_qos G x"
proof -
  from assms(1) obtain direction where d: "normalizePolicyDirection (pq_Direction r) (inferredQoSDirection r) = Inr direction"
    unfolding compileQoSRule_def option.case try_else_Inr by blast
  note dir = normal_texts(2) [OF d]
  let ?rate = "if pq_RateBps r = 0 \<and> pq_BandwidthMbps r > 0 then pq_BandwidthMbps r * 1000000 else pq_RateBps r"
  have nz: "?rate \<noteq> 0" and prio: "\<not> pq_Priority r > 255"
    using assms(1) by (simp_all add: compileQoSRule_def try_else_def d Let_def split: if_split_asm)
  obtain mode where m: "normalizeQoSMode (pq_Mode r) = Inr mode"
    using assms(1) nz prio by (cases "normalizeQoSMode (pq_Mode r)") (simp_all add: compileQoSRule_def try_else_def d Let_def)
  have "\<exists>x. c = Some x \<and> pq_RateBps x = ?rate \<and> pq_BurstBytes x = (if pq_BurstBytes r = 0 then defaultQoSBurst ?rate else pq_BurstBytes r) \<and>
      pq_Priority x = pq_Priority r \<and> pq_Mode x = mode \<and> pq_Direction x = direction \<and> pq_GroupId x = pq_GroupId r"
    using assms(1) dir nz prio unfolding compileQoSRule_def option.case d m try_else_def sum.case Let_def
    by (elim insertE emptyE) (simp_all only: if_False if_True, auto)
  then obtain x where x: "c = Some x" and f: "pq_RateBps x = ?rate \<and>
      pq_BurstBytes x = (if pq_BurstBytes r = 0 then defaultQoSBurst ?rate else pq_BurstBytes r) \<and>
      pq_Priority x = pq_Priority r \<and> pq_Mode x = mode \<and> pq_Direction x = direction \<and> pq_GroupId x = pq_GroupId r"
    by (elim exE conjE) simp
  from f have "pq_RateBps x \<noteq> 0" "pq_BurstBytes x \<noteq> 0" using nz burst_positive by simp_all
  with f prio dir normal_texts(3) [OF m] assms(2) have "wf_qos G x" by (simp add: wf_qos_def not_less)
  with x show ?thesis by blast
qed

lemma compile_qos_wf:
  assumes "compile_qos rs refs = Inr (qos, refs')"
  shows "set refs \<subseteq> set refs' \<and> (\<forall>x \<in> set qos. wf_qos (set refs') x)"
  using assms
proof (induction rs refs arbitrary: qos refs' rule: compile_qos.induct)
  case (3 r rs refs)
  show ?case
  proof (cases "qos_Enabled r")
    case False
    with 3 show ?thesis by simp
  next
    case True
    with "3.prems" obtain c more where c: "compileQoSRule (Some (qosRecordToProto r)) = Inr c"
        and m: "compile_qos rs (recordQoSGroupRefs r refs) = Inr (more, refs')"
        and qos: "qos = (case c of None \<Rightarrow> more | Some x \<Rightarrow> x # more)"
      by (auto simp: try_else_Inr)
    note ih = "3.IH"(2) [simplified True, simplified, OF m]
    have "set (List.map_filter id [qos_GroupID r]) \<subseteq> set refs'" using ih by (auto simp: recordQoSGroupRefs_def)
    then have "pq_GroupId (qosRecordToProto r) \<noteq> '''' \<longrightarrow> pq_GroupId (qosRecordToProto r) \<in> set refs'"
      by (auto simp: qosRecordToProto_def coalesce_def List.map_filter_def split: option.splits if_split_asm)
    from wf_compiled_qos [OF c this] obtain x where "c = Some x" "wf_qos (set refs') x" by blast
    with ih qos show ?thesis by (auto simp: recordQoSGroupRefs_def)
  qed
qed simp_all

lemma compileReferencedIPGroups_Inr:
  assumes "compileReferencedIPGroups groups refs = Inr gs"
  shows "pg_Id ` set gs = set refs"
proof (cases "refs = []")
  case True
  with assms show ?thesis by (simp add: compileReferencedIPGroups_def)
next
  case False
  define used where "used = filter (\<lambda>g. ig_ID g \<in> set refs) (List.map_filter id (sortedIPGroups groups))"
  from assms False have "find (\<lambda>i. i \<notin> ig_ID ` set used) refs = None" "gs = map compileIPGroup used"
    by (auto simp: compileReferencedIPGroups_def used_def Let_def split: option.splits)
  then have "set refs \<subseteq> ig_ID ` set used" "pg_Id ` set gs = ig_ID ` set used"
    by (auto simp: find_None_iff compileIPGroup_def image_image)
  moreover have "ig_ID ` set used \<subseteq> set refs" by (auto simp: used_def)
  ultimately show ?thesis by blast
qed

lemma snapshot_Inr:
  assumes "compileAgentPolicySnapshotWithGroups groups acls qos blacklist = Inr snap"
  obtains a refs d q refs' gs where "compile_acls (sortedACLRuleRecords acls) [] = Inr (a, refs)"
    "compile_blacklist blacklist = Inr d" "compile_qos (sortedQoSRuleRecords qos) refs = Inr (q, refs')"
    "compileReferencedIPGroups groups refs' = Inr gs"
    "snap = \<lparr>ps_IPGroups = gs, ps_ACLRules = a @ d, ps_QoSRules = q, ps_BlacklistRules = []\<rparr>"
  using assms by (auto simp: compileAgentPolicySnapshotWithGroups_def try_else_Inr)


section \<open>A compiled rule means what the stored rule means\<close>

text \<open>The packets a rule without groups matches on the agent, read as the conflict detection reads it.\<close>

definition pb_acl_matches :: "PbACLRule \<Rightarrow> packet \<Rightarrow> bool" where
  "pb_acl_matches r pk \<longleftrightarrow> pk_dir pk \<in> set (policyDirections (pa_Direction r)) \<and>
     proto_matches (uint (pa_Protocol r)) (pk_proto pk) \<and> port_matches (pa_Ports r) 0 (pk_port pk) \<and>
     pk_src pk \<in> cidr_addrs (pa_SrcNet r) \<and> pk_dst pk \<in> cidr_addrs (pa_DstNet r)"

lemma policyPrefix_trim [simp]: "parsePolicyPrefix (TrimSpace s) = parsePolicyPrefix s"
  by (simp add: parsePolicyPrefix_def)

lemma cidrOrAny_trim [simp]: "cidrOrAny (TrimSpace s) = cidrOrAny s"
  by (simp add: cidrOrAny_def)

lemma wildcard_texts:
  "policyCIDRIsAny ''''" "policyCIDRIsAny ''0''" "policyCIDRIsAny ''0.0.0.0/0''" "policyCIDRIsAny ''::/0''"
  "policyCIDRIsAny ''any''" "TrimSpace ''any'' = ''any''"
  by code_simp+

lemma cidr_addrs_cidrOrAny: "cidr_addrs (cidrOrAny s) = cidr_addrs s"
proof (cases "TrimSpace s = '''' \<or> TrimSpace s = ''0'' \<or> TrimSpace s = ''0.0.0.0/0'' \<or> TrimSpace s = ''::/0''")
  case True
  then have "policyCIDRIsAny (TrimSpace s)" using wildcard_texts by (elim disjE) (simp_all only:)
  then have "parsePolicyPrefix s = (PrefixZero, True, True)" by (simp add: parsePolicyPrefix_def Let_def)
  moreover have "parsePolicyPrefix ''any'' = (PrefixZero, True, True)"
    using wildcard_texts by (simp add: parsePolicyPrefix_def Let_def)
  moreover have "cidrOrAny s = ''any''" using True by (simp add: cidrOrAny_def)
  ultimately show ?thesis by (simp add: cidr_addrs_def)
next
  case False
  then have "cidrOrAny s = TrimSpace s" by (simp add: cidrOrAny_def)
  then show ?thesis by (simp add: cidr_addrs_def)
qed

lemma direction_texts:
  "policyDirections ''ingress'' = [''ingress'']" "policyDirections ''egress'' = [''egress'']"
  "policyDirections ''both'' = [''ingress'', ''egress'']"
  by code_simp+

lemma normal_direction:
  assumes "normalizePolicyDirection d ''ingress'' = Inr dir"
  shows "policyDirections dir = policyDirections d"
proof -
  define v where "v = ToLower (TrimSpace d)"
  have dirs: "policyDirections d = (if v = ''egress'' \<or> v = ''out'' then [''egress'']
      else if v = ''both'' \<or> v = ''all'' then [''ingress'', ''egress''] else [''ingress''])"
    by (simp only: policyDirections_def v_def Let_def)
  have n: "(if v = '''' \<or> v = ''ingress'' \<or> v = ''in'' then Inr ''ingress''
      else if v = ''egress'' \<or> v = ''out'' then Inr ''egress''
      else if v = ''both'' \<or> v = ''all'' then Inr ''both''
      else Inl (ErrMsg (''invalid policy direction '' @ double_quoted d))) = Inr dir"
    using assms unfolding normalizePolicyDirection_def v_def [symmetric] Let_def by (cases "v = ''''") (simp_all split del: if_split cong: if_cong)
  show ?thesis
  proof (cases "v = '''' \<or> v = ''ingress'' \<or> v = ''in''")
    case True
    then have "dir = ''ingress''" "policyDirections d = [''ingress'']" using n dirs by auto
    then show ?thesis by (simp add: direction_texts)
  next
    case False
    then show ?thesis
    proof (cases "v = ''egress'' \<or> v = ''out''")
      case True
      then have "dir = ''egress''" "policyDirections d = [''egress'']" using n dirs False by auto
      then show ?thesis by (simp add: direction_texts)
    next
      case neither: False
      have "v = ''both'' \<or> v = ''all''" using n False neither by (simp split: if_split_asm)
      then have "dir = ''both''" "policyDirections d = [''ingress'', ''egress'']" using n dirs False neither by auto
      then show ?thesis by (simp add: direction_texts)
    qed
  qed
qed

lemma digit_chars:
  assumes "d < 10"
  shows "digit_char d \<noteq> CHR 0xC5" "digit_char d \<noteq> CHR 0xE2" "ascii_lower (digit_char d) \<noteq> CHR ''a''"
proof -
  have "\<forall>d \<in> set [0..<10]. digit_char d \<noteq> CHR 0xC5 \<and> digit_char d \<noteq> CHR 0xE2 \<and> ascii_lower (digit_char d) \<noteq> CHR ''a''" by code_simp
  then have "digit_char d \<noteq> CHR 0xC5 \<and> digit_char d \<noteq> CHR 0xE2 \<and> ascii_lower (digit_char d) \<noteq> CHR ''a''"
    using assms by simp
  then show "digit_char d \<noteq> CHR 0xC5" "digit_char d \<noteq> CHR 0xE2" "ascii_lower (digit_char d) \<noteq> CHR ''a''" by simp_all
qed

lemma itoa_not_all: "\<not> EqualFold (itoa_nat n) ''all''"
proof -
  obtain d where d: "d < 10" "take 1 (itoa_nat n) = [digit_char d]" using itoa_nat_head [of n] by blast
  then obtain cs where cs: "itoa_nat n = digit_char d # cs" by (cases "itoa_nat n") auto
  have "fold_ascii ''all'' = ''all''" by code_simp
  then show ?thesis unfolding EqualFold_def cs using digit_chars [OF d(1)] by (simp add: Let_def)
qed

lemma TrimSpace_itoa [simp]: "TrimSpace (itoa_nat n) = itoa_nat n"
proof (rule TrimSpace_no_space)
  have "\<forall>c \<in> \<Union> (set ` set space_runes). char_digit c = None"
    by (simp add: space_runes_def char_digit_def)
  then show "set (itoa_nat n) \<inter> \<Union> (set ` set space_runes) = {}"
    unfolding disjoint_iff using itoa_nat_no_digit by blast
qed

lemma Split_none: "sep \<notin> set s \<Longrightarrow> Split sep s = [s]"
  by (induction s) auto

lemma port_text:
  assumes "n \<le> 65535"
  shows "port_matches (itoa_nat n) 0 p \<longleftrightarrow> p = int n"
proof -
  have "char_digit CHR '','' = None" "char_digit CHR '':'' = None" "char_digit CHR ''-'' = None" by code_simp+
  then have sep: "CHR '','' \<notin> set (itoa_nat n)" "CHR '':'' \<notin> set (itoa_nat n)" "CHR ''-'' \<notin> set (itoa_nat n)"
    using itoa_nat_no_digit by blast+
  have "port_entry (itoa_nat n) = Some (int n, int n)"
    using assms sep by (simp add: port_entry_def strip_action_def Index_None [THEN iffD2] Atoi_itoa_nat clampPort_def)
  then have "policyPortIntervals (itoa_nat n) 0 = [(int n, int n)]"
    using sep(1) itoa_not_all [of n] by (simp add: policyPortIntervals_def Split_none List.map_filter_def)
  then show ?thesis by (auto simp: port_matches_def)
qed

lemma compiled_ports:
  assumes "TrimSpace ports = ports" and "\<not> (EqualFold ports ''all'' \<and> 0 < dst)" and "dst < 2 ^ 32"
    and "normalizeACLPorts ports (if dst > 0 then word_of_int dst else 0) (if dst > 0 then word_of_int dst else 0) = Inr out"
  shows "port_matches out 0 p \<longleftrightarrow> port_matches ports dst p"
proof (cases "ports = ''''")
  case False
  then have out: "out = (if EqualFold ports ''all'' then '''' else ports)"
    using assms(1,4) by (simp add: normalizeACLPorts_def Let_def)
  show ?thesis
  proof (cases "EqualFold ports ''all''")
    case True
    with assms(1,2) out show ?thesis by (simp add: port_matches_def policyPortIntervals_def)
  next
    case not_all: False
    with False assms(1) out show ?thesis by (simp add: port_matches_def policyPortIntervals_def)
  qed
next
  case empty: True
  show ?thesis
  proof (cases "dst > 0")
    case False
    with empty assms(4) show ?thesis by (simp add: normalizeACLPorts_def port_matches_def policyPortIntervals_def)
  next
    case True
    have u: "uint (word_of_int dst :: 32 word) = dst"
      using True assms(3) by (simp add: uint_word_of_int)
    then have nz: "(word_of_int dst :: 32 word) \<noteq> 0" using True by (metis less_irrefl uint_0_eq)
    have "\<not> (word_of_int dst :: 32 word) > 65535" and "out = Itoa dst"
      using assms(4) empty True nz u by (auto simp: normalizeACLPorts_def Let_def split: if_split_asm)
    then have "dst \<le> 65535" using u by (simp add: word_less_def)
    with True port_text [of "nat dst" p] \<open>out = Itoa dst\<close> empty show ?thesis
      by (auto simp: Itoa_def port_matches_def policyPortIntervals_def)
  qed
qed


text \<open>
  A rule whose ports say \<^verbatim>\<open>all\<close> next to a destination port is read in two ways: the
  conflict detection takes it for that port, the compiled rule has no port filter at all.
\<close>

theorem all_ports_drop_the_destination_port:
  assumes "TrimSpace (acl_Ports r) = acl_Ports r" and "EqualFold (acl_Ports r) ''all''" and "acl_Ports r \<noteq> ''''"
    and "0 < acl_DstPort r" and "compileACLRule (Some (aclRecordToProto r)) = Inr rules"
  shows "policyPortIntervals (acl_Ports r) (acl_DstPort r) = [(acl_DstPort r, acl_DstPort r)] \<and>
    rules \<noteq> [] \<and> (\<forall>c \<in> set rules. pa_Ports c = '''')"
  using assms(5)
proof (cases rule: compileACLRule_Inr)
  case (1 action direction ports)
  have "pa_Ports (aclRecordToProto r) = acl_Ports r" by (simp add: aclRecordToProto_def)
  with 1(3) assms(1-3) have "ports = ''''" by (simp add: normalizeACLPorts_def Let_def)
  with 1(6) assms(1,2,4) show ?thesis by (auto simp: policyPortIntervals_def)
qed

section \<open>Examples\<close>

definition stored_acl :: "uuid \<Rightarrow> int \<Rightarrow> string \<Rightarrow> int \<Rightarrow> ACLRuleRecord" where
  "stored_acl i port ports prio = \<lparr>acl_ID = i, acl_TenantID = ''t1'', acl_NodeID = ''n1'', acl_Name = ''web'', acl_Action = ''Allow'',
     acl_SrcCIDR = ''10.0.0.0/8'', acl_DstCIDR = '''', acl_SrcGroupID = None, acl_DstGroupID = None, acl_SrcGroup = None,
     acl_DstGroup = None, acl_DstPort = port, acl_Protocol = 0, acl_Direction = ''in'', acl_Ports = ports, acl_Priority = prio,
     acl_Enabled = True, acl_Description = '''', acl_CreatedAt = 0, acl_UpdatedAt = 0\<rparr>"


definition https_packet :: packet where
  "https_packet = \<lparr>pk_dir = ''ingress'', pk_proto = 6, pk_port = 443, pk_src = Addr4 167772161, pk_dst = Addr4 1\<rparr>"


theorem all_ports_drop_the_destination_port_witness:
  "\<exists>rules. compileACLRule (Some (aclRecordToProto (stored_acl ''a'' 443 ''all'' 2))) = Inr rules \<and>
    policyPortIntervals ''all'' 443 = [(443, 443)] \<and> rules \<noteq> [] \<and> (\<forall>c \<in> set rules. pa_Ports c = '''')"
proof -
  let ?r = "stored_acl ''a'' 443 ''all'' 2"
  have "map_sum id length (compileACLRule (Some (aclRecordToProto ?r))) = Inr 1" by code_simp
  then obtain rules where c: "compileACLRule (Some (aclRecordToProto ?r)) = Inr rules"
    by (cases "compileACLRule (Some (aclRecordToProto ?r))") auto
  have "TrimSpace (acl_Ports ?r) = acl_Ports ?r" "EqualFold (acl_Ports ?r) ''all''" by code_simp+
  from all_ports_drop_the_destination_port [OF this _ _ c] c show ?thesis by (simp add: stored_acl_def)
qed

end
