(* ===== verification/Token_Store.thy ===== *)
theory Token_Store
  imports Storage_Logic
begin

text \<open>
  Enrollment tokens (\<^verbatim>\<open>internal/token\<close>): generation, the store over the table
  \<^verbatim>\<open>tokens\<close>, and the validator that admits a node. Every SQL statement is a function on
  the tables of its own, so that the operations of several clients can be interleaved
  statement by statement.
\<close>

section \<open>Tokens\<close>

definition ErrTokenNotFound :: err where "ErrTokenNotFound = ErrMsg ''token not found''"
definition ErrTokenExpired :: err where "ErrTokenExpired = ErrMsg ''token expired''"
definition ErrTokenExhausted :: err where
  "ErrTokenExhausted = ErrMsg ''token exhausted (max uses reached)''"
definition ErrTokenRevoked :: err where "ErrTokenRevoked = ErrMsg ''token revoked''"
definition ErrTokenInvalid :: err where "ErrTokenInvalid = ErrMsg ''invalid token''"

lemmas token_errors = ErrTokenNotFound_def ErrTokenExpired_def ErrTokenExhausted_def
  ErrTokenRevoked_def ErrTokenInvalid_def

abbreviation StatusActive :: string where "StatusActive \<equiv> ''active''"
abbreviation StatusExhausted :: string where "StatusExhausted \<equiv> ''exhausted''"
abbreviation StatusExpired :: string where "StatusExpired \<equiv> ''expired''"
abbreviation StatusRevoked :: string where "StatusRevoked \<equiv> ''revoked''"

record Token =
  ID :: uuid
  TokenStr :: string
  Tag :: string
  TenantID :: string
  MaxUses :: int
  UsedCount :: int
  ExpiresAt :: time
  CreatedAt :: time
  CreatedBy :: string
  Status :: string
  LastUsedAt :: time
  LastUsedBy :: string

text \<open>The zero \<^verbatim>\<open>time.Time\<close>, 1 January of year 1.\<close>

definition zero_time :: time where
  "zero_time = - secs 62135596800"

definition IsValid :: "time \<Rightarrow> Token \<Rightarrow> bool" where
  "IsValid now t =
     (if Status t \<noteq> StatusActive then False
      else if now > ExpiresAt t then False
      else if MaxUses t > 0 \<and> UsedCount t \<ge> MaxUses t then False
      else True)"

definition RemainingUses :: "Token \<Rightarrow> int" where
  "RemainingUses t =
     (if MaxUses t = 0 then -1
      else (let remaining = MaxUses t - UsedCount t in if remaining < 0 then 0 else remaining))"

definition TimeUntilExpiry :: "time \<Rightarrow> Token \<Rightarrow> time" where
  "TimeUntilExpiry now t = ExpiresAt t - now"

definition IsExpired :: "time \<Rightarrow> Token \<Rightarrow> bool" where
  "IsExpired now t \<longleftrightarrow> now > ExpiresAt t"

section \<open>Generation\<close>

record GenerateOptions =
  opt_Tag :: string
  opt_TenantID :: string
  opt_MaxUses :: int
  opt_TTL :: time
  opt_Creator :: string

definition DefaultOptions :: GenerateOptions where
  "DefaultOptions = \<lparr>opt_Tag = '''', opt_TenantID = '''', opt_MaxUses = 1,
     opt_TTL = secs (24 * 60 * 60), opt_Creator = ''''\<rparr>"

definition hex_digit :: "nat \<Rightarrow> char" where
  "hex_digit d = (if d < 10 then char_of (48 + d) else char_of (87 + d))"

definition hex_EncodeToString :: "8 word list \<Rightarrow> string" where
  "hex_EncodeToString bs = concat (map (\<lambda>b. [hex_digit (unat b div 16), hex_digit (unat b mod 16)]) bs)"

definition TokenPrefix :: string where "TokenPrefix = ''tk_''"
definition TokenRandomBytes :: nat where "TokenRandomBytes = 8"

text \<open>
  \<open>uuid_Parse\<close> is the error that \<^verbatim>\<open>uuid.Parse\<close> of the uuid package returns for a string
  (\<open>None\<close> for a valid one); \<open>rand_Read n\<close> is what \<^verbatim>\<open>rand.Read\<close> makes of a buffer of \<open>n\<close>
  bytes: an error, or the bytes it filled in.
\<close>

definition Generate ::
  "(string \<Rightarrow> err option) \<Rightarrow> (nat \<Rightarrow> err + 8 word list) \<Rightarrow> time \<Rightarrow> GenerateOptions \<Rightarrow> err + Token"
  where
  "Generate uuid_Parse rand_Read now opts =
     (case (if opt_TenantID opts \<noteq> '''' then uuid_Parse (opt_TenantID opts) else None) of
        Some e \<Rightarrow> Inl (ErrWrap ''invalid tenant_id format'' e)
      | None \<Rightarrow> (case rand_Read TokenRandomBytes of
          Inl e \<Rightarrow> Inl e
        | Inr bytes \<Rightarrow>
            Inr \<lparr>ID = uuid_Nil, TokenStr = TokenPrefix @ hex_EncodeToString bytes, Tag = opt_Tag opts,
              TenantID = opt_TenantID opts, MaxUses = opt_MaxUses opts, UsedCount = 0,
              ExpiresAt = now + opt_TTL opts, CreatedAt = now, CreatedBy = opt_Creator opts,
              Status = StatusActive, LastUsedAt = zero_time, LastUsedBy = ''''\<rparr>))"

definition GenerateSimple ::
  "(string \<Rightarrow> err option) \<Rightarrow> (nat \<Rightarrow> err + 8 word list) \<Rightarrow> time \<Rightarrow> string \<Rightarrow> int \<Rightarrow> time \<Rightarrow> err + Token" where
  "GenerateSimple uuid_Parse rand_Read now tag maxUses ttl =
     Generate uuid_Parse rand_Read now \<lparr>opt_Tag = tag, opt_TenantID = '''', opt_MaxUses = maxUses,
       opt_TTL = ttl, opt_Creator = ''''\<rparr>"

section \<open>The statements of the store\<close>

definition create_sql :: "Token \<Rightarrow> uuid \<Rightarrow> time \<Rightarrow> tables \<Rightarrow> (tables \<times> uuid) option" where
  "create_sql t i now tb =
     (if i \<in> tok_id ` set (tokens tb) \<or> TokenStr t \<in> tok_token ` set (tokens tb) then None
      else Some (tb\<lparr>tokens := tokens tb @
        [\<lparr>tok_id = i, tok_token = TokenStr t, tok_tag = Some (Tag t),
          tok_tenant_id = (if TenantID t = '''' then None else Some (TenantID t)),
          tok_max_uses = MaxUses t, tok_used_count = UsedCount t, tok_expires_at = ExpiresAt t,
          tok_created_at = now, tok_created_by = Some (CreatedBy t), tok_status = Status t,
          tok_last_used_at = None, tok_last_used_by = None\<rparr>]\<rparr>, i))"

definition increment_guard :: "string \<Rightarrow> token_row \<Rightarrow> bool" where
  "increment_guard tokenStr r \<longleftrightarrow> tok_token r = tokenStr \<and> tok_status r = StatusActive \<and>
     (tok_max_uses r = 0 \<or> tok_used_count r < tok_max_uses r)"

definition increment_row :: "string \<Rightarrow> time \<Rightarrow> token_row \<Rightarrow> token_row" where
  "increment_row deviceID now r = r\<lparr>tok_used_count := tok_used_count r + 1,
     tok_last_used_at := Some now, tok_last_used_by := Some deviceID,
     tok_status := (if tok_max_uses r > 0 \<and> tok_used_count r + 1 \<ge> tok_max_uses r
                    then StatusExhausted else tok_status r)\<rparr>"

definition increment_sql :: "string \<Rightarrow> string \<Rightarrow> time \<Rightarrow> tables \<Rightarrow> tables \<times> nat" where
  "increment_sql tokenStr deviceID now tb =
     (tb\<lparr>tokens := update_where (increment_guard tokenStr) (increment_row deviceID now) (tokens tb)\<rparr>,
      affected (increment_guard tokenStr) (tokens tb))"

definition set_status_sql :: "(token_row \<Rightarrow> bool) \<Rightarrow> string \<Rightarrow> tables \<Rightarrow> tables \<times> nat" where
  "set_status_sql P st tb =
     (tb\<lparr>tokens := update_where P (\<lambda>r. r\<lparr>tok_status := st\<rparr>) (tokens tb)\<rparr>, affected P (tokens tb))"

definition delete_sql :: "string \<Rightarrow> tables \<Rightarrow> tables \<times> unit" where
  "delete_sql tokenStr tb = (tb\<lparr>tokens := filter (\<lambda>r. tok_token r \<noteq> tokenStr) (tokens tb)\<rparr>, ())"

definition cleanup_guard :: "time \<Rightarrow> token_row \<Rightarrow> bool" where
  "cleanup_guard now r \<longleftrightarrow> tok_status r = StatusActive \<and> tok_expires_at r < now"

section \<open>The store\<close>

text \<open>\<^verbatim>\<open>scanToken\<close>: NULL columns become the zero values of the struct.\<close>

definition scanToken :: "token_row \<Rightarrow> Token" where
  "scanToken r = \<lparr>ID = tok_id r, TokenStr = tok_token r, Tag = coalesce (tok_tag r) '''',
     TenantID = coalesce (tok_tenant_id r) '''', MaxUses = tok_max_uses r, UsedCount = tok_used_count r,
     ExpiresAt = tok_expires_at r, CreatedAt = tok_created_at r, CreatedBy = coalesce (tok_created_by r) '''',
     Status = tok_status r, LastUsedAt = coalesce (tok_last_used_at r) zero_time,
     LastUsedBy = coalesce (tok_last_used_by r) ''''\<rparr>"

definition Create :: "Token \<Rightarrow> Token op" where
  "Create t = bnd (insert_op (create_sql t)) (\<lambda>i. ret (t\<lparr>ID := i\<rparr>))"

definition GetByToken :: "string \<Rightarrow> Token option op" where
  "GetByToken tokenStr =
     select_op (\<lambda>_ tb. map_option scanToken (find (\<lambda>r. tok_token r = tokenStr) (tokens tb)))"

definition GetByID :: "uuid \<Rightarrow> Token option op" where
  "GetByID i = (if i = '''' then throw (ErrMsg ''token id cannot be empty'')
     else select_op (\<lambda>_ tb. map_option scanToken (find (\<lambda>r. tok_id r = i) (tokens tb))))"

definition List_tokens :: "string \<Rightarrow> Token list op" where
  "List_tokens status =
     bnd (if status = '''' \<or> status = ''all''
          then select_op (\<lambda>_ tb. sort_key (\<lambda>r. - tok_created_at r) (tokens tb))
          else select_op (\<lambda>_ tb. sort_key (\<lambda>r. - tok_created_at r) (filter (\<lambda>r. tok_status r = status) (tokens tb))))
       (\<lambda>rows. check_op (map scanToken rows))"

definition IncrementUsage :: "string \<Rightarrow> string \<Rightarrow> unit op" where
  "IncrementUsage tokenStr deviceID =
     bnd (modify_op (increment_sql tokenStr deviceID)) (\<lambda>n.
     bnd (check_op n) (\<lambda>n.
     if n = 0 then
       bnd (attempt (GetByToken tokenStr)) (\<lambda>r. case r of
           Inl e \<Rightarrow> throw (ErrWrap ''failed to re-fetch token after update'' e)
         | Inr None \<Rightarrow> throw ErrTokenNotFound
         | Inr (Some t) \<Rightarrow>
             (if Status t = StatusExpired then throw ErrTokenExpired
              else if Status t = StatusExhausted then throw ErrTokenExhausted
              else if Status t = StatusRevoked then throw ErrTokenRevoked
              else throw (ErrMsg (''token not active (current status: '' @ Status t @ '')''))))
     else ret ()))"

definition UpdateStatus :: "uuid \<Rightarrow> string \<Rightarrow> unit op" where
  "UpdateStatus i status =
     (if i = '''' then throw (ErrMsg ''token id cannot be empty'')
      else bnd (modify_op (\<lambda>_. set_status_sql (\<lambda>r. tok_id r = i) status)) (\<lambda>_. ret ()))"

definition Revoke :: "string \<Rightarrow> unit op" where
  "Revoke tokenStr =
     bnd (modify_op (\<lambda>_. set_status_sql (\<lambda>r. tok_token r = tokenStr) StatusRevoked)) (\<lambda>n.
     bnd (check_op n) (\<lambda>n. if n = 0 then throw ErrTokenNotFound else ret ()))"

definition RevokeByID :: "uuid \<Rightarrow> unit op" where
  "RevokeByID i =
     (if i = '''' then throw (ErrMsg ''token id cannot be empty'')
      else
        bnd (modify_op (\<lambda>_. set_status_sql (\<lambda>r. tok_id r = i) StatusRevoked)) (\<lambda>n.
        bnd (check_op n) (\<lambda>n. if n = 0 then throw ErrTokenNotFound else ret ())))"

definition Delete :: "string \<Rightarrow> unit op" where
  "Delete tokenStr = modify_op (\<lambda>_. delete_sql tokenStr)"

text \<open>The error of \<^verbatim>\<open>RowsAffected\<close> is dropped: the count is then 0.\<close>

definition CleanupExpired :: "nat op" where
  "CleanupExpired =
     bnd (modify_op (\<lambda>now. set_status_sql (cleanup_guard now) StatusExpired)) (\<lambda>n.
     bnd (attempt (check_op n)) (\<lambda>r. ret (case r of Inl _ \<Rightarrow> 0 | Inr n \<Rightarrow> n)))"

section \<open>The validator\<close>

definition Validate :: "string \<Rightarrow> Token op" where
  "Validate tokenStr =
     (if tokenStr = '''' then throw ErrTokenInvalid
      else bnd (attempt (GetByToken tokenStr)) (\<lambda>r. case r of
          Inl e \<Rightarrow> throw (ErrWrap ''database query failed'' e)
        | Inr None \<Rightarrow> throw ErrTokenNotFound
        | Inr (Some t) \<Rightarrow>
            (if Status t = StatusRevoked then throw ErrTokenRevoked
             else if Status t = StatusExpired then throw ErrTokenExpired
             else if Status t = StatusExhausted then throw ErrTokenExhausted
             else bnd time_Now (\<lambda>now.
               if now > ExpiresAt t then
                 bnd (attempt (UpdateStatus (ID t) StatusExpired)) (\<lambda>_. throw ErrTokenExpired)
               else if MaxUses t > 0 \<and> UsedCount t \<ge> MaxUses t then
                 bnd (attempt (UpdateStatus (ID t) StatusExhausted)) (\<lambda>_. throw ErrTokenExhausted)
               else ret t))))"

definition ConsumeToken :: "string \<Rightarrow> string \<Rightarrow> unit op" where
  "ConsumeToken tokenStr deviceID =
     bnd (attempt (IncrementUsage tokenStr deviceID)) (\<lambda>r. case r of
         Inr _ \<Rightarrow> ret ()
       | Inl e \<Rightarrow>
           bnd (attempt (Validate tokenStr)) (\<lambda>v. case v of
               Inl validateErr \<Rightarrow> throw validateErr
             | Inr _ \<Rightarrow> throw e))"

definition ValidateOnly :: "string \<Rightarrow> unit op" where
  "ValidateOnly tokenStr = bnd (Validate tokenStr) (\<lambda>_. ret ())"

lemmas token_ops [op_defs] = Create_def GetByToken_def GetByID_def List_tokens_def IncrementUsage_def
  UpdateStatus_def Revoke_def RevokeByID_def Delete_def CleanupExpired_def Validate_def
  ConsumeToken_def ValidateOnly_def

section \<open>Interleaved statements\<close>

text \<open>
  The statements that the operations send, in the order the database serves them, whichever
  client sent them. \<open>SSetStatus\<close> is the statement of \<^verbatim>\<open>UpdateStatus\<close>, which the validator
  calls with \<^verbatim>\<open>expired\<close> and \<^verbatim>\<open>exhausted\<close> only; \<open>SCreate\<close> inserts a generated token.
\<close>

datatype token_stmt =
    SCreate Token uuid time
  | SIncrement string string time
  | SSetStatus uuid string
  | SRevoke string
  | SRevokeByID uuid
  | SDelete string
  | SCleanup time

fun exec_stmt :: "token_stmt \<Rightarrow> tables \<Rightarrow> tables \<times> nat" where
  "exec_stmt (SCreate tk i now) t = (case create_sql tk i now t of None \<Rightarrow> (t, 0) | Some (t', _) \<Rightarrow> (t', 1))"
| "exec_stmt (SIncrement k d now) t = increment_sql k d now t"
| "exec_stmt (SSetStatus i st) t = set_status_sql (\<lambda>r. tok_id r = i) st t"
| "exec_stmt (SRevoke k) t = set_status_sql (\<lambda>r. tok_token r = k) StatusRevoked t"
| "exec_stmt (SRevokeByID i) t = set_status_sql (\<lambda>r. tok_id r = i) StatusRevoked t"
| "exec_stmt (SDelete k) t = (fst (delete_sql k t), affected (\<lambda>r. tok_token r = k) (tokens t))"
| "exec_stmt (SCleanup now) t = set_status_sql (cleanup_guard now) StatusExpired t"

fun issued_stmt :: "token_stmt \<Rightarrow> bool" where
  "issued_stmt (SCreate tk i now) \<longleftrightarrow> UsedCount tk = 0 \<and> Status tk = StatusActive"
| "issued_stmt (SSetStatus i st) \<longleftrightarrow> st = StatusExpired \<or> st = StatusExhausted"
| "issued_stmt _ \<longleftrightarrow> True"

inductive token_step :: "tables \<Rightarrow> tables \<Rightarrow> bool" where
  statement: "issued_stmt st \<Longrightarrow> token_step t (fst (exec_stmt st t))"

inductive_cases token_stepE: "token_step t u"

text \<open>Uses of a token against its limit.\<close>

definition token_wf :: "token_row \<Rightarrow> bool" where
  "token_wf r \<longleftrightarrow> 0 \<le> tok_used_count r \<and>
     (0 < tok_max_uses r \<longrightarrow> tok_used_count r \<le> tok_max_uses r) \<and>
     (0 < tok_max_uses r \<and> tok_status r = StatusActive \<longrightarrow> tok_used_count r < tok_max_uses r)"

definition tokens_inv :: "tables \<Rightarrow> bool" where
  "tokens_inv t \<longleftrightarrow> distinct (map tok_token (tokens t)) \<and> distinct (map tok_id (tokens t)) \<and>
     (\<forall>r \<in> set (tokens t). token_wf r)"

lemma token_wf_increment: "token_wf r \<Longrightarrow> increment_guard k r \<Longrightarrow> token_wf (increment_row d now r)"
  by (auto simp: token_wf_def increment_guard_def increment_row_def)

lemma token_wf_status: "token_wf r \<Longrightarrow> st \<noteq> StatusActive \<Longrightarrow> token_wf (r\<lparr>tok_status := st\<rparr>)"
  by (auto simp: token_wf_def)

lemma tokens_inv_update:
  assumes "tokens_inv t" and "\<And>r. tok_token (f r) = tok_token r" and "\<And>r. tok_id (f r) = tok_id r"
    and "\<And>r. token_wf r \<Longrightarrow> P r \<Longrightarrow> token_wf (f r)"
  shows "tokens_inv (t\<lparr>tokens := update_where P f (tokens t)\<rparr>)"
  using assms by (auto simp: tokens_inv_def map_key_update_where set_update_where)

lemma tokens_inv_set_status:
  "tokens_inv t \<Longrightarrow> st \<noteq> StatusActive \<Longrightarrow> tokens_inv (fst (set_status_sql P st t))"
  unfolding set_status_sql_def fst_conv by (rule tokens_inv_update) (auto simp: token_wf_status)

lemma tokens_inv_increment: "tokens_inv t \<Longrightarrow> tokens_inv (fst (increment_sql k d now t))"
  unfolding increment_sql_def fst_conv
  by (rule tokens_inv_update) (auto simp: token_wf_increment, auto simp: increment_row_def)

lemma tokens_inv_delete: "tokens_inv t \<Longrightarrow> tokens_inv (fst (delete_sql k t))"
  by (auto simp: tokens_inv_def delete_sql_def distinct_map_filter)

lemma tokens_inv_create:
  assumes "tokens_inv t" and "UsedCount tk = 0" and "create_sql tk i now t = Some (t', j)"
  shows "tokens_inv t'"
  using assms by (auto simp: tokens_inv_def create_sql_def token_wf_def split: if_splits)

lemma exec_stmt_inv: "issued_stmt st \<Longrightarrow> tokens_inv t \<Longrightarrow> tokens_inv (fst (exec_stmt st t))"
  by (cases st)
     (auto simp: tokens_inv_increment tokens_inv_set_status tokens_inv_delete
       split: option.split intro: tokens_inv_create)

lemma token_steps_inv: "token_step\<^sup>*\<^sup>* t u \<Longrightarrow> tokens_inv t \<Longrightarrow> tokens_inv u"
  by (induction rule: rtranclp_induct) (auto elim!: token_stepE intro: exec_stmt_inv)

text \<open>Every operation of the store and the validator is a sequence of such statements.\<close>

interpretation token_run: table_relation "token_step\<^sup>*\<^sup>*"
  by unfold_locales auto

lemma step_statement: "issued_stmt st \<Longrightarrow> fst (exec_stmt st t) = u \<Longrightarrow> token_step\<^sup>*\<^sup>* t u"
  using token_step.statement by blast

lemma steps_increment: "token_step\<^sup>*\<^sup>* t (fst (increment_sql k d now t))"
  by (rule step_statement [of "SIncrement k d now"]) simp_all

lemma steps_set_status:
  "st = StatusExpired \<or> st = StatusExhausted \<Longrightarrow> token_step\<^sup>*\<^sup>* t (fst (set_status_sql (\<lambda>r. tok_id r = i) st t))"
  by (rule step_statement [of "SSetStatus i st"]) simp_all

lemma steps_revoke: "token_step\<^sup>*\<^sup>* t (fst (set_status_sql (\<lambda>r. tok_token r = k) StatusRevoked t))"
  by (rule step_statement [of "SRevoke k"]) simp_all

lemma steps_revoke_id: "token_step\<^sup>*\<^sup>* t (fst (set_status_sql (\<lambda>r. tok_id r = i) StatusRevoked t))"
  by (rule step_statement [of "SRevokeByID i"]) simp_all

lemma steps_delete: "token_step\<^sup>*\<^sup>* t (fst (delete_sql k t))"
  by (rule step_statement [of "SDelete k"]) simp_all

lemma steps_cleanup: "token_step\<^sup>*\<^sup>* t (fst (set_status_sql (cleanup_guard now) StatusExpired t))"
  by (rule step_statement [of "SCleanup now"]) simp_all

lemma steps_create:
  "UsedCount tk = 0 \<Longrightarrow> Status tk = StatusActive \<Longrightarrow> create_sql tk i now t = Some (t', j) \<Longrightarrow> token_step\<^sup>*\<^sup>* t t'"
  by (rule step_statement [of "SCreate tk i now"]) simp_all

lemmas token_steps = steps_increment steps_set_status steps_revoke steps_revoke_id steps_delete
  steps_cleanup

lemma maintains_GetByToken [maintains_rules]: "maintains token_step\<^sup>*\<^sup>* (GetByToken k)"
  unfolding GetByToken_def by (rule token_run.maintains_select)

lemma maintains_IncrementUsage [maintains_rules]: "maintains token_step\<^sup>*\<^sup>* (IncrementUsage k d)"
  unfolding IncrementUsage_def by (intro maintains_rules token_steps)

lemma maintains_UpdateStatus [maintains_rules]:
  "st = StatusExpired \<or> st = StatusExhausted \<Longrightarrow> maintains token_step\<^sup>*\<^sup>* (UpdateStatus i st)"
  unfolding UpdateStatus_def by (intro maintains_rules token_steps)

lemma maintains_Validate [maintains_rules]: "maintains token_step\<^sup>*\<^sup>* (Validate k)"
  unfolding Validate_def by (intro maintains_rules) simp_all

lemma maintains_ConsumeToken [maintains_rules]: "maintains token_step\<^sup>*\<^sup>* (ConsumeToken k d)"
  unfolding ConsumeToken_def by (intro maintains_rules)

lemma maintains_ValidateOnly [maintains_rules]: "maintains token_step\<^sup>*\<^sup>* (ValidateOnly k)"
  unfolding ValidateOnly_def by (intro maintains_rules)

lemma maintains_Revoke [maintains_rules]:
  "maintains token_step\<^sup>*\<^sup>* (Revoke k)" "maintains token_step\<^sup>*\<^sup>* (RevokeByID i)"
  unfolding Revoke_def RevokeByID_def by (intro maintains_rules token_steps)+

lemma maintains_Delete [maintains_rules]: "maintains token_step\<^sup>*\<^sup>* (Delete k)"
  unfolding Delete_def by (intro maintains_rules token_steps)

lemma maintains_CleanupExpired [maintains_rules]: "maintains token_step\<^sup>*\<^sup>* CleanupExpired"
  unfolding CleanupExpired_def by (intro maintains_rules token_steps)

lemma maintains_Create:
  "UsedCount tk = 0 \<Longrightarrow> Status tk = StatusActive \<Longrightarrow> maintains token_step\<^sup>*\<^sup>* (Create tk)"
  unfolding Create_def by (intro maintains_rules steps_create)

section \<open>Properties\<close>

definition lookup_token :: "string \<Rightarrow> tables \<Rightarrow> token_row option" where
  "lookup_token k t = find (\<lambda>r. tok_token r = k) (tokens t)"

text \<open>The admissions of a token in a sequence of statements: the rows its increments touch.\<close>

fun admissions :: "string \<Rightarrow> token_stmt list \<Rightarrow> tables \<Rightarrow> nat" where
  "admissions k [] t = 0"
| "admissions k (st # sts) t =
     (case st of SIncrement k' d now \<Rightarrow> if k' = k then snd (exec_stmt st t) else 0 | _ \<Rightarrow> 0)
     + admissions k sts (fst (exec_stmt st t))"

lemma lookup_update:
  "(\<And>r. tok_token (f r) = tok_token r) \<Longrightarrow>
     lookup_token k (t\<lparr>tokens := update_where P f (tokens t)\<rparr>) =
       map_option (\<lambda>r. if P r then f r else r) (lookup_token k t)"
  by (simp add: lookup_token_def find_update_where)

lemma lookup_set_status:
  "lookup_token k (fst (set_status_sql P st t)) =
     map_option (\<lambda>r. if P r then r\<lparr>tok_status := st\<rparr> else r) (lookup_token k t)"
  unfolding set_status_sql_def fst_conv by (rule lookup_update) simp

lemma lookup_increment:
  "lookup_token k (fst (increment_sql k' d now t)) =
     map_option (\<lambda>r. if increment_guard k' r then increment_row d now r else r) (lookup_token k t)"
  unfolding increment_sql_def fst_conv by (rule lookup_update) (simp add: increment_row_def)

lemma lookup_create:
  "lookup_token k t = Some r \<Longrightarrow> create_sql tk i now t = Some (t', j) \<Longrightarrow> lookup_token k t' = Some r"
  by (auto simp: lookup_token_def create_sql_def find_append split: if_splits)

lemma lookup_delete: "k' \<noteq> k \<Longrightarrow> lookup_token k (fst (delete_sql k' t)) = lookup_token k t"
proof -
  assume "k' \<noteq> k"
  then have "find (\<lambda>r. tok_token r = k) (filter (\<lambda>r. tok_token r \<noteq> k') rows) =
    find (\<lambda>r. tok_token r = k) rows" for rows :: "token_row list"
    by (induction rows) auto
  then show ?thesis by (simp add: lookup_token_def delete_sql_def)
qed

lemma increment_affected:
  "tokens_inv t \<Longrightarrow>
     snd (increment_sql k d now t) =
       (case lookup_token k t of None \<Rightarrow> 0 | Some r \<Rightarrow> if increment_guard k r then 1 else 0)"
  unfolding increment_sql_def snd_conv lookup_token_def
  by (rule affected_unique) (auto simp: tokens_inv_def increment_guard_def)

text \<open>
  What one statement does to a token that it does not delete: its limit is kept, its count
  grows by exactly the admissions, and a status other than active is never left for active.
\<close>

lemma exec_stmt_token:
  assumes "tokens_inv t" and "issued_stmt st" and "st \<noteq> SDelete k" and "lookup_token k t = Some r"
  obtains r' where "lookup_token k (fst (exec_stmt st t)) = Some r'" "tok_max_uses r' = tok_max_uses r"
    "tok_used_count r' = tok_used_count r + int (admissions k [st] t)"
    "tok_status r \<noteq> StatusActive \<Longrightarrow> tok_status r' \<noteq> StatusActive"
    "tok_status r \<noteq> StatusActive \<Longrightarrow> admissions k [st] t = 0"
proof (cases st)
  case (SCreate tk i now)
  have "lookup_token k (fst (exec_stmt st t)) = Some r"
    using assms(4) SCreate lookup_create [OF assms(4), of tk i now] by (auto split: option.split)
  then show ?thesis using SCreate by (intro that [of r]) auto
next
  case (SIncrement k' d now)
  have key: "tok_token r = k" using assms(4) by (auto simp: lookup_token_def dest: find_SomeD)
  show ?thesis
  proof (cases "k' = k \<and> increment_guard k r")
    case True
    then have "lookup_token k (fst (exec_stmt st t)) = Some (increment_row d now r)"
      using SIncrement assms(4) by (simp add: lookup_increment)
    moreover have "tok_status r = StatusActive" using True by (simp add: increment_guard_def)
    ultimately show ?thesis
      using True SIncrement assms(4) increment_affected [OF assms(1)]
      by (intro that [of "increment_row d now r"]) (auto simp: increment_row_def)
  next
    case False
    then have "\<not> increment_guard k' r" using key by (auto simp: increment_guard_def)
    then have "lookup_token k (fst (exec_stmt st t)) = Some r"
      using SIncrement assms(4) by (simp add: lookup_increment)
    then show ?thesis
      using False SIncrement assms(4) increment_affected [OF assms(1)] by (intro that [of r]) auto
  qed
next
  case (SDelete k')
  then show ?thesis using assms(3,4) that [of r] by (simp add: lookup_delete)
qed (use assms(2,4) that in \<open>auto simp: lookup_set_status\<close>)

lemma exec_stmts_token:
  assumes "tokens_inv t" and "list_all issued_stmt sts" and "SDelete k \<notin> set sts"
    and "lookup_token k t = Some r"
  shows "0 < tok_max_uses r \<longrightarrow> int (admissions k sts t) \<le> tok_max_uses r - tok_used_count r"
    and "tok_status r \<noteq> StatusActive \<longrightarrow> admissions k sts t = 0"
proof (atomize (full), use assms in \<open>induction sts arbitrary: t r\<close>)
  case Nil
  then have "token_wf r" by (auto simp: lookup_token_def tokens_inv_def dest: find_SomeD)
  then show ?case by (simp add: token_wf_def)
next
  case (Cons st sts)
  then have "issued_stmt st" "st \<noteq> SDelete k" by auto
  with Cons.prems obtain r' where r': "lookup_token k (fst (exec_stmt st t)) = Some r'"
    "tok_max_uses r' = tok_max_uses r"
    "tok_used_count r' = tok_used_count r + int (admissions k [st] t)"
    "tok_status r \<noteq> StatusActive \<Longrightarrow> tok_status r' \<noteq> StatusActive"
    "tok_status r \<noteq> StatusActive \<Longrightarrow> admissions k [st] t = 0"
    by (blast elim: exec_stmt_token)
  have inv: "tokens_inv (fst (exec_stmt st t))"
    using Cons.prems(1) \<open>issued_stmt st\<close> by (blast intro: exec_stmt_inv)
  have split: "admissions k (st # sts) t = admissions k [st] t + admissions k sts (fst (exec_stmt st t))"
    by simp
  have "(0 < tok_max_uses r' \<longrightarrow>
      int (admissions k sts (fst (exec_stmt st t))) \<le> tok_max_uses r' - tok_used_count r') \<and>
    (tok_status r' \<noteq> StatusActive \<longrightarrow> admissions k sts (fst (exec_stmt st t)) = 0)"
    by (rule Cons.IH [OF inv _ _ r'(1)]) (use Cons.prems in auto)
  then show ?case using r' unfolding split by auto
qed

subsection \<open>Admission\<close>


definition sample_token :: Token where
  "sample_token = \<lparr>ID = uuid_Nil, TokenStr = ''tk_00'', Tag = '''', TenantID = '''', MaxUses = 1,
     UsedCount = 0, ExpiresAt = 100, CreatedAt = 0, CreatedBy = '''', Status = StatusActive,
     LastUsedAt = zero_time, LastUsedBy = ''''\<rparr>"

definition sample_token_tables :: tables where
  "sample_token_tables = fst (exec_stmt (SCreate sample_token ''u1'' 0) empty_tables)"

lemmas sample_defs = sample_token_def sample_token_tables_def empty_tables_def create_sql_def


text \<open>
  The atomic increment closes the race between clients: in every sequence of statements
  that does not delete the token, the admissions of a limited token are at most the uses it
  had left, whatever other statements come between them.
\<close>

theorem admissions_bounded:
  assumes "tokens_inv t" and "lookup_token k t = Some r" and "0 < tok_max_uses r"
    and "list_all issued_stmt sts" and "SDelete k \<notin> set sts"
  shows "int (admissions k sts t) \<le> tok_max_uses r - tok_used_count r"
  using exec_stmts_token(1) [OF assms(1,4,5,2)] assms(3) by blast

theorem admissions_bounded_witness:
  "int (admissions ''tk_00'' [SIncrement ''tk_00'' ''n1'' 5, SIncrement ''tk_00'' ''n2'' 6] sample_token_tables) \<le> 1"
proof -
  let ?r = "hd (tokens sample_token_tables)"
  let ?sts = "[SIncrement ''tk_00'' ''n1'' 5, SIncrement ''tk_00'' ''n2'' 6]"
  have inv: "tokens_inv sample_token_tables" and lookup: "lookup_token ''tk_00'' sample_token_tables = Some ?r"
    and limit: "0 < tok_max_uses ?r"
    by (simp_all add: sample_defs tokens_inv_def token_wf_def lookup_token_def)
  show ?thesis
    using admissions_bounded [OF inv lookup limit, of ?sts] by (simp add: sample_defs)
qed

text \<open>
  A token that is revoked, expired or exhausted admits no node any more, in no sequence of
  statements that does not delete it (a later insert may issue a new token).
\<close>

theorem inactive_token_admits_nothing:
  assumes "tokens_inv t" and "lookup_token k t = Some r" and "tok_status r \<noteq> StatusActive"
    and "list_all issued_stmt sts" and "SDelete k \<notin> set sts"
  shows "admissions k sts t = 0"
  using exec_stmts_token(2) [OF assms(1,4,5,2)] assms(3) by blast

theorem inactive_token_admits_nothing_witness:
  "admissions ''tk_00'' [SIncrement ''tk_00'' ''n1'' 5] (fst (exec_stmt (SRevoke ''tk_00'') sample_token_tables)) = 0"
proof -
  let ?t = "fst (exec_stmt (SRevoke ''tk_00'') sample_token_tables)"
  have "tokens_inv sample_token_tables" by (simp add: sample_defs tokens_inv_def token_wf_def)
  then have inv: "tokens_inv ?t" by (simp add: tokens_inv_set_status)
  have lookup: "lookup_token ''tk_00'' ?t = Some (hd (tokens ?t))"
    and inactive: "tok_status (hd (tokens ?t)) \<noteq> StatusActive"
    by (simp_all add: sample_defs set_status_sql_def update_where_def lookup_token_def)
  show ?thesis
    by (rule inactive_token_admits_nothing [OF inv lookup inactive]) simp_all
qed

subsection \<open>The outcome of each operation\<close>

lemma increment_zero:
  assumes "tokens_inv t"
  shows "snd (increment_sql k d now t) = 0 \<longleftrightarrow>
    (\<forall>r. lookup_token k t = Some r \<longrightarrow> \<not> increment_guard k r)"
  by (simp add: increment_affected [OF assms] split: option.split)

lemma increment_nothing:
  assumes "snd (increment_sql k d now t) = 0"
  shows "fst (increment_sql k d now t) = t"
proof -
  have "update_where (increment_guard k) (increment_row d now) (tokens t) = tokens t"
    using assms by (intro update_where_none) (simp add: increment_sql_def affected_zero_iff)
  then show ?thesis by (simp add: increment_sql_def)
qed

lemma GetByToken_run: "faults s = [] \<Longrightarrow> GetByToken k s = (Inr (map_option scanToken (lookup_token k (tab s))), s)"
  by (simp add: GetByToken_def select_run lookup_token_def)

text \<open>The error of the increment, from the row the token has.\<close>

definition increment_error :: "token_row option \<Rightarrow> err" where
  "increment_error r = (case r of
       None \<Rightarrow> ErrTokenNotFound
     | Some r \<Rightarrow>
         (if tok_status r = StatusExpired then ErrTokenExpired
          else if tok_status r = StatusExhausted then ErrTokenExhausted
          else if tok_status r = StatusRevoked then ErrTokenRevoked
          else ErrMsg (''token not active (current status: '' @ tok_status r @ '')'')))"

lemma IncrementUsage_run:
  assumes "faults s = []" and "tokens_inv (tab s)"
  shows "IncrementUsage k d s =
    (case lookup_token k (tab s) of
       Some r \<Rightarrow> (if increment_guard k r
                  then (Inr (), s\<lparr>tab := fst (increment_sql k d (db_now s) (tab s))\<rparr>)
                  else (Inl (increment_error (Some r)), s))
     | None \<Rightarrow> (Inl (increment_error None), s))"
proof -
  let ?f = "increment_sql k d (db_now s) (tab s)"
  have same: "snd ?f = 0 \<Longrightarrow> s\<lparr>tab := fst ?f\<rparr> = s"
    by (simp add: increment_nothing)
  show ?thesis
    using assms(1) same increment_affected [OF assms(2), of k d "db_now s"]
    by (auto simp: IncrementUsage_def run_simps GetByToken_run bnd_def attempt_def throw_def ret_def
        increment_error_def scanToken_def split: option.splits)
qed


lemma ConsumeToken_run:
  assumes "faults s = []" and "tokens_inv (tab s)"
    and "lookup_token k (tab s) = Some r" and "increment_guard k r"
  shows "ConsumeToken k d s = (Inr (), s\<lparr>tab := fst (increment_sql k d (db_now s) (tab s))\<rparr>)"
  using assms(3,4) IncrementUsage_run [OF assms(1,2), of k d]
  by (simp add: ConsumeToken_def bnd_def attempt_def ret_def)

lemma ConsumeToken_refused:
  assumes "faults s = []" and "tokens_inv (tab s)"
    and "\<And>r. lookup_token k (tab s) = Some r \<Longrightarrow> \<not> increment_guard k r"
  shows "ConsumeToken k d s =
    bnd (attempt (Validate k)) (\<lambda>v. case v of
        Inl validateErr \<Rightarrow> throw validateErr
      | Inr _ \<Rightarrow> throw (increment_error (lookup_token k (tab s)))) s"
proof -
  have "IncrementUsage k d s = (Inl (increment_error (lookup_token k (tab s))), s)"
    using IncrementUsage_run [OF assms(1,2), of k d] assms(3)
    by (cases "lookup_token k (tab s)") simp_all
  then show ?thesis by (simp add: ConsumeToken_def bnd_def [of "attempt (IncrementUsage k d)"] attempt_def)
qed

lemma ConsumeToken_refused_error:
  assumes "faults s = []" and "tokens_inv (tab s)"
    and "\<And>r. lookup_token k (tab s) = Some r \<Longrightarrow> \<not> increment_guard k r"
  shows "\<exists>e. fst (ConsumeToken k d s) = Inl e"
  by (simp add: ConsumeToken_refused [OF assms] bnd_def attempt_def throw_def split: prod.split sum.split)

text \<open>
  With a database that serves every statement, consuming a token succeeds exactly when the
  token exists, is active and has uses left.
\<close>

theorem ConsumeToken_admits_iff:
  assumes "faults s = []" and "tokens_inv (tab s)"
  shows "fst (ConsumeToken k d s) = Inr () \<longleftrightarrow>
    (\<exists>r. lookup_token k (tab s) = Some r \<and> increment_guard k r)"
proof (cases "\<exists>r. lookup_token k (tab s) = Some r \<and> increment_guard k r")
  case True
  then obtain r where "lookup_token k (tab s) = Some r" "increment_guard k r" by blast
  from True ConsumeToken_run [OF assms this, of d] show ?thesis by simp
next
  case False
  then have "\<exists>e. fst (ConsumeToken k d s) = Inl e" by (intro ConsumeToken_refused_error assms) blast
  with False show ?thesis by auto
qed

definition sample_db :: "tables \<Rightarrow> db" where
  "sample_db t = \<lparr>db_now = 5, go_now = 5, faults = [], uuid_of = (\<lambda>n. itoa_nat n), uuid_ctr = 0, tab = t\<rparr>"

lemma sample_tables_inv: "tokens_inv (tab (sample_db sample_token_tables))"
  by (simp add: sample_db_def sample_defs tokens_inv_def token_wf_def)

theorem ConsumeToken_admits_iff_witness:
  "fst (ConsumeToken ''tk_00'' ''n1'' (sample_db sample_token_tables)) = Inr () \<and>
   fst (ConsumeToken ''tk_01'' ''n1'' (sample_db sample_token_tables)) \<noteq> Inr ()"
  using ConsumeToken_admits_iff [OF _ sample_tables_inv, of "''tk_00''" "''n1''"]
    ConsumeToken_admits_iff [OF _ sample_tables_inv, of "''tk_01''" "''n1''"]
  by (simp add: sample_db_def sample_defs lookup_token_def increment_guard_def)

text \<open>
  A token that was consumed has one more use and names the device; no other token changes.
\<close>

theorem ConsumeToken_effect:
  assumes "faults s = []" and "tokens_inv (tab s)" and "ConsumeToken k d s = (Inr (), s')"
  shows "lookup_token k' (tab s') =
    map_option (\<lambda>r. if k' = k then increment_row d (db_now s) r else r) (lookup_token k' (tab s))"
proof -
  from assms obtain r where r: "lookup_token k (tab s) = Some r" "increment_guard k r"
    using ConsumeToken_refused_error [OF assms(1,2), of k d] by fastforce
  with ConsumeToken_run [OF assms(1,2) r, of d] assms(3)
  have s': "tab s' = fst (increment_sql k d (db_now s) (tab s))" by auto
  have "increment_guard k q \<longleftrightarrow> k' = k" if "lookup_token k' (tab s) = Some q" for q
    using that r by (cases "k' = k") (auto simp: lookup_token_def increment_guard_def dest: find_SomeD)
  then show ?thesis
    unfolding s' lookup_increment by (cases "lookup_token k' (tab s)") simp_all
qed

theorem ConsumeToken_effect_witness:
  "lookup_token ''tk_00'' (tab (snd (ConsumeToken ''tk_00'' ''n1'' (sample_db sample_token_tables)))) =
     map_option (increment_row ''n1'' 5) (lookup_token ''tk_00'' sample_token_tables)"
proof -
  let ?s = "sample_db sample_token_tables"
  have served: "faults ?s = []" by (simp add: sample_db_def)
  have "ConsumeToken ''tk_00'' ''n1'' ?s = (Inr (), snd (ConsumeToken ''tk_00'' ''n1'' ?s))"
    using ConsumeToken_run [OF served sample_tables_inv, of "''tk_00''" "hd (tokens sample_token_tables)" "''n1''"]
    by (simp add: sample_db_def sample_defs lookup_token_def increment_guard_def)
  from ConsumeToken_effect [OF served sample_tables_inv this, of "''tk_00''"] show ?thesis
    by (simp add: sample_db_def)
qed

text \<open>The four statuses the store knows.\<close>

definition known_status :: "string \<Rightarrow> bool" where
  "known_status st \<longleftrightarrow> st \<in> {StatusActive, StatusExhausted, StatusExpired, StatusRevoked}"

lemma Validate_run:
  assumes "faults s = []" and "k \<noteq> ''''" and "lookup_token k (tab s) = Some r" and "tok_status r \<noteq> StatusActive"
    and "known_status (tok_status r)"
  shows "Validate k s = (Inl (increment_error (Some r)), s)"
  using assms
  by (auto simp: Validate_def bnd_def attempt_def GetByToken_run throw_def scanToken_def known_status_def
      increment_error_def)

text \<open>
  When a token is refused, the error names the reason: the token is unknown, expired,
  exhausted or revoked, as its row says.
\<close>

theorem ConsumeToken_error_names_reason:
  assumes "faults s = []" and "tokens_inv (tab s)" and "k \<noteq> ''''"
    and "\<And>r. lookup_token k (tab s) = Some r \<Longrightarrow> tok_status r \<noteq> StatusActive \<and> known_status (tok_status r)"
  shows "ConsumeToken k d s = (Inl (increment_error (lookup_token k (tab s))), s)"
proof -
  have "Validate k s = (Inl (increment_error (lookup_token k (tab s))), s)"
  proof (cases "lookup_token k (tab s)")
    case None
    with assms(1,3) show ?thesis
      by (simp add: Validate_def bnd_def attempt_def GetByToken_run throw_def increment_error_def)
  next
    case (Some r)
    with assms(4) [OF Some] Validate_run [OF assms(1,3) Some] show ?thesis by simp
  qed
  moreover have "\<not> increment_guard k r" if "lookup_token k (tab s) = Some r" for r
    using assms(4) [OF that] by (simp add: increment_guard_def)
  ultimately show ?thesis
    using ConsumeToken_refused [OF assms(1,2)] by (simp add: bnd_def attempt_def throw_def)
qed

theorem ConsumeToken_error_names_reason_witness:
  "fst (ConsumeToken ''tk_01'' ''n1'' (sample_db sample_token_tables)) = Inl ErrTokenNotFound"
proof -
  have "ConsumeToken ''tk_01'' ''n1'' (sample_db sample_token_tables) =
    (Inl (increment_error (lookup_token ''tk_01'' (tab (sample_db sample_token_tables)))),
     sample_db sample_token_tables)"
    by (rule ConsumeToken_error_names_reason [OF _ sample_tables_inv])
       (simp_all add: sample_db_def sample_defs lookup_token_def)
  then show ?thesis
    by (simp add: sample_db_def sample_defs lookup_token_def increment_error_def)
qed

text \<open>
  Whatever the database refuses, a token that \<^verbatim>\<open>Validate\<close> returns is the stored row, it is
  not revoked, expired or exhausted, it has not passed its expiry and it has uses left; and
  validating a good token writes nothing.
\<close>

theorem Validate_sound:
  assumes "Validate k s = (Inr tk, s')"
  shows "tab s' = tab s \<and> (\<exists>r. lookup_token k (tab s) = Some r \<and> tk = scanToken r) \<and>
    Status tk \<notin> {StatusRevoked, StatusExpired, StatusExhausted} \<and> \<not> IsExpired (go_now s) tk \<and>
    (MaxUses tk > 0 \<longrightarrow> UsedCount tk < MaxUses tk)"
proof -
  obtain r u where get: "GetByToken k s = (Inr (Some r), u)" and rest: "k \<noteq> ''''" "tk = r" "s' = u"
    "Status r \<notin> {StatusRevoked, StatusExpired, StatusExhausted}" "\<not> go_now u > ExpiresAt r"
    "\<not> (MaxUses r > 0 \<and> UsedCount r \<ge> MaxUses r)"
    using assms
    by (auto simp: Validate_def bnd_def attempt_def throw_def ret_def time_Now_def
        split: if_splits prod.splits sum.splits option.splits)
  from get have "map_option scanToken (lookup_token k (tab s)) = Some r" "tab u = tab s" "same_env s u"
    unfolding GetByToken_def lookup_token_def by (metis select_Inr)+
  with rest show ?thesis by (auto simp: IsExpired_def same_env_def)
qed

theorem Validate_sound_witness:
  "\<not> IsExpired 5 (scanToken (hd (tokens sample_token_tables)))"
proof -
  have "Validate ''tk_00'' (sample_db sample_token_tables) =
    (Inr (scanToken (hd (tokens sample_token_tables))), sample_db sample_token_tables)"
    by (simp add: Validate_def sample_db_def bnd_def attempt_def GetByToken_run lookup_token_def
        sample_defs scanToken_def time_Now_def ret_def coalesce_def)
  from Validate_sound [OF this] show ?thesis by (simp add: sample_db_def)
qed

text \<open>
  Expiry is checked by \<^verbatim>\<open>Validate\<close> and not by the increment: a token past its expiry whose
  row still says active is refused by \<^verbatim>\<open>Validate\<close> and consumed by \<^verbatim>\<open>ConsumeToken\<close>.
\<close>

theorem ConsumeToken_ignores_expiry:
  assumes "faults s = []" and "tokens_inv (tab s)" and "k \<noteq> ''''" and "lookup_token k (tab s) = Some r"
    and "increment_guard k r" and "tok_expires_at r < go_now s"
  shows "fst (Validate k s) = Inl ErrTokenExpired \<and> fst (ConsumeToken k d s) = Inr ()"
proof -
  have "tok_status r = StatusActive" using assms(5) by (simp add: increment_guard_def)
  with assms(1,3,4,6) have "fst (Validate k s) = Inl ErrTokenExpired"
    by (auto simp: Validate_def bnd_def attempt_def GetByToken_run scanToken_def time_Now_def throw_def
        split: prod.split)
  with ConsumeToken_run [OF assms(1,2,4,5), of d] show ?thesis by simp
qed

theorem ConsumeToken_ignores_expiry_witness:
  "let s = (sample_db sample_token_tables)\<lparr>go_now := 500\<rparr>
   in fst (Validate ''tk_00'' s) = Inl ErrTokenExpired \<and> fst (ConsumeToken ''tk_00'' ''n1'' s) = Inr ()"
proof -
  let ?s = "(sample_db sample_token_tables)\<lparr>go_now := 500\<rparr>"
  have "fst (Validate ''tk_00'' ?s) = Inl ErrTokenExpired \<and> fst (ConsumeToken ''tk_00'' ''n1'' ?s) = Inr ()"
    by (rule ConsumeToken_ignores_expiry [of ?s _ "hd (tokens sample_token_tables)"])
       (use sample_tables_inv in \<open>simp_all add: sample_db_def sample_defs lookup_token_def increment_guard_def\<close>)
  then show ?thesis by (simp add: Let_def)
qed

subsection \<open>Generation\<close>

lemma hex_digit_inj: "a < 16 \<Longrightarrow> b < 16 \<Longrightarrow> hex_digit a = hex_digit b \<Longrightarrow> a = b"
proof -
  assume "a < 16" "b < 16" "hex_digit a = hex_digit b"
  then have "of_char (hex_digit a) = (of_char (hex_digit b) :: nat)" by simp
  with \<open>a < 16\<close> \<open>b < 16\<close> show ?thesis by (auto simp: hex_digit_def split: if_splits)
qed

lemma hex_EncodeToString_inj:
  "length xs = length ys \<Longrightarrow> hex_EncodeToString xs = hex_EncodeToString ys \<Longrightarrow> xs = ys"
proof (induction xs ys rule: list_induct2)
  case Nil
  then show ?case by simp
next
  case (Cons x xs y ys)
  have bound: "unat (b :: 8 word) div 16 < 16" for b
  proof -
    have "unat b < 256" using unsigned_less [of b] by simp
    then show ?thesis by (simp add: less_mult_imp_div_less)
  qed
  from Cons.prems have "hex_digit (unat x div 16) = hex_digit (unat y div 16)"
    "hex_digit (unat x mod 16) = hex_digit (unat y mod 16)" "hex_EncodeToString xs = hex_EncodeToString ys"
    by (simp_all add: hex_EncodeToString_def)
  then have "unat x div 16 = unat y div 16" "unat x mod 16 = unat y mod 16" "xs = ys"
    using bound Cons.IH by (auto intro: hex_digit_inj)
  then have "unat x = unat y" by (metis div_mult_mod_eq)
  with \<open>xs = ys\<close> show ?case by (simp add: word_unat_eq_iff)
qed

text \<open>
  A generated token is active, unused and expires its TTL after now; its string is the
  prefix and two hex digits per random byte, so different random bytes give different
  tokens.
\<close>

theorem Generate_fresh:
  assumes "Generate uuid_Parse (\<lambda>_. Inr bs) now opts = Inr tk"
    and "Generate uuid_Parse' (\<lambda>_. Inr bs') now' opts' = Inr tk'"
    and "length bs = TokenRandomBytes" and "length bs' = TokenRandomBytes"
  shows "Status tk = StatusActive \<and> UsedCount tk = 0 \<and> ExpiresAt tk = now + opt_TTL opts \<and>
    length (TokenStr tk) = 19 \<and> (TokenStr tk = TokenStr tk' \<longleftrightarrow> bs = bs')"
proof -
  have "length (hex_EncodeToString bs) = 2 * length bs" for bs
    by (induction bs) (simp_all add: hex_EncodeToString_def)
  with assms hex_EncodeToString_inj [of bs bs'] show ?thesis
    by (auto simp: Generate_def TokenPrefix_def TokenRandomBytes_def split: option.splits)
qed

theorem Generate_fresh_witness:
  "\<exists>tk. Generate (\<lambda>_. None) (\<lambda>_. Inr [1,2,3,4,5,6,7,8]) 0 DefaultOptions = Inr tk \<and>
     Status tk = StatusActive \<and> length (TokenStr tk) = 19"
proof -
  obtain tk where tk: "Generate (\<lambda>_. None) (\<lambda>_. Inr [1,2,3,4,5,6,7,8]) 0 DefaultOptions = Inr tk"
    by (simp add: Generate_def DefaultOptions_def)
  from Generate_fresh [OF tk tk] tk show ?thesis by (simp add: TokenRandomBytes_def)
qed

end
