(* ===== verification/Node_Store.thy ===== *)
theory Node_Store
  imports Node_Lifecycle Go_Netip
begin

text \<open>
  \<^verbatim>\<open>pkg/controllerstorage/postgres.go\<close>: tenants, the nodes table (registration, heartbeat, the
  states offline, stale and deleted, the clean-up of deleted nodes), the addresses that are given
  to nodes, device configurations and tunnel links.
\<close>

section \<open>Addresses\<close>

definition ipToInt :: "Addr \<Rightarrow> 32 word" where
  "ipToInt ip = (case ip of Addr4 w \<Rightarrow> w | Addr6 w _ \<Rightarrow> ucast w | AddrZero \<Rightarrow> 0)"

definition intToIp :: "32 word \<Rightarrow> Addr" where
  "intToIp nn = Addr4 nn"

text \<open>\<^verbatim>\<open>s.CalculateIP(offset)\<close> with \<^verbatim>\<open>s.baseIP\<close> as an argument.\<close>

definition CalculateIP :: "string \<Rightarrow> int \<Rightarrow> err + string" where
  "CalculateIP baseIP offset = (case ParseIP baseIP of
       None \<Rightarrow> Inl (ErrMsg (''invalid base IP: '' @ baseIP))
     | Some ip \<Rightarrow> Inr (Addr_String (intToIp (ipToInt ip + word_of_int offset))))"

section \<open>Tenants\<close>

record TenantInfo =
  ti_ID :: uuid
  ti_Name :: string
  ti_Code :: string
  ti_Status :: string
  ti_ResourceQuota :: string
  ti_CreatedAt :: time
  ti_UpdatedAt :: time

definition new_tenant :: "uuid \<Rightarrow> string \<Rightarrow> string \<Rightarrow> time \<Rightarrow> tenant_row" where
  "new_tenant i code name now = \<lparr>tenant_id = i, tenant_name = name, tenant_code = Some code,
     tenant_status = Some ''active'', tenant_resource_quota = Some ''{}'', tenant_created_at = now, tenant_updated_at = now\<rparr>"

text \<open>\<^verbatim>\<open>INSERT ... ON CONFLICT (code) DO UPDATE SET name = $2 RETURNING id\<close>.\<close>

definition upsert_tenant_sql :: "string \<Rightarrow> string \<Rightarrow> uuid \<Rightarrow> time \<Rightarrow> tables \<Rightarrow> (tables \<times> uuid) option" where
  "upsert_tenant_sql code name i now t =
     (case find (\<lambda>r. tenant_code r = Some code) (tenants t) of
        Some r \<Rightarrow> Some (t\<lparr>tenants := update_where (\<lambda>r. tenant_code r = Some code) (\<lambda>r. r\<lparr>tenant_name := name\<rparr>) (tenants t)\<rparr>, tenant_id r)
      | None \<Rightarrow> if \<exists>r \<in> set (tenants t). tenant_id r = i then None
                else Some (t\<lparr>tenants := tenants t @ [new_tenant i code name now]\<rparr>, i))"

definition GetOrCreateTenantByCode :: "string \<Rightarrow> string \<Rightarrow> uuid op" where
  "GetOrCreateTenantByCode code name = insert_op (upsert_tenant_sql code name)"

definition GetOrCreateTenant :: "string \<Rightarrow> uuid op" where
  "GetOrCreateTenant name = insert_op (upsert_tenant_sql name name)"

text \<open>A NULL tenant scans into the zero \<^verbatim>\<open>uuid.UUID\<close>.\<close>

definition GetTenantIDByToken :: "string \<Rightarrow> uuid op" where
  "GetTenantIDByToken tokenStr =
     bnd (select_op (\<lambda>_ t. find (\<lambda>r. tok_token r = tokenStr) (tokens t))) (\<lambda>r. case r of
         None \<Rightarrow> throw ErrNoRows
       | Some r \<Rightarrow> ret (coalesce (tok_tenant_id r) uuid_Nil))"

definition GetTenantInfo :: "uuid \<Rightarrow> TenantInfo op" where
  "GetTenantInfo tenant =
     bnd (select_op (\<lambda>_ t. find (\<lambda>r. tenant_id r = tenant) (tenants t))) (\<lambda>r. case r of
         None \<Rightarrow> throw ErrNoRows
       | Some r \<Rightarrow> (case (tenant_status r, tenant_resource_quota r) of
             (Some status, Some quota) \<Rightarrow> ret \<lparr>ti_ID = tenant_id r, ti_Name = tenant_name r,
               ti_Code = coalesce (tenant_code r) '''', ti_Status = status, ti_ResourceQuota = quota,
               ti_CreatedAt = tenant_created_at r, ti_UpdatedAt = tenant_updated_at r\<rparr>
           | _ \<Rightarrow> throw DBError))"

definition GetTenantStatus :: "uuid \<Rightarrow> string op" where
  "GetTenantStatus tenant =
     bnd (select_op (\<lambda>_ t. find (\<lambda>r. tenant_id r = tenant) (tenants t))) (\<lambda>r. case r of
         None \<Rightarrow> throw ErrNoRows
       | Some r \<Rightarrow> (case tenant_status r of None \<Rightarrow> throw DBError | Some status \<Rightarrow> ret (TrimSpace status)))"

section \<open>Reading nodes\<close>

record Node =
  nd_ID :: uuid
  nd_PublicKey :: string
  nd_MachineID :: string
  nd_TenantID :: uuid
  nd_Endpoint :: string
  nd_PrivateIP :: string
  nd_PublicIP :: string
  nd_Region :: string
  nd_VPCID :: string
  nd_Hostname :: string
  nd_AssignedIP :: string
  nd_IPOffset :: int
  nd_LastSeen :: int
  nd_RegisteredAt :: int
  nd_Role :: string
  nd_RuntimeMode :: string
  nd_KernelVersion :: string
  nd_HasAESNI :: bool
  nd_Status :: string
  nd_OfflineSince :: int
  nd_AdvertisedRoutes :: "string list"
  nd_EnrolledWithToken :: string
  nd_CreatedAt :: time
  nd_UpdatedAt :: time

definition scanNodeRows :: "node_row \<Rightarrow> Node" where
  "scanNodeRows r = \<lparr>nd_ID = node_id r, nd_PublicKey = node_public_key r, nd_MachineID = node_machine_id r,
     nd_TenantID = node_tenant_id r, nd_Endpoint = node_endpoint r, nd_PrivateIP = node_private_ip r,
     nd_PublicIP = node_public_ip r, nd_Region = node_region r, nd_VPCID = node_vpc_id r,
     nd_Hostname = node_hostname r, nd_AssignedIP = node_assigned_ip r, nd_IPOffset = node_ip_offset r,
     nd_LastSeen = node_last_seen r, nd_RegisteredAt = node_registered_at r, nd_Role = node_role r,
     nd_RuntimeMode = coalesce (node_runtime_mode r) ''kernel'', nd_KernelVersion = coalesce (node_kernel_version r) '''',
     nd_HasAESNI = coalesce (node_has_aesni r) False, nd_Status = coalesce (node_status r) ''online'',
     nd_OfflineSince = coalesce (node_offline_since r) 0, nd_AdvertisedRoutes = node_advertised_routes r,
     nd_EnrolledWithToken = coalesce (node_enrolled_with_token r) '''',
     nd_CreatedAt = node_created_at r, nd_UpdatedAt = node_updated_at r\<rparr>"

text \<open>No row is not an error: the result is a nil pointer.\<close>

definition scanNode :: "(node_row \<Rightarrow> bool) \<Rightarrow> Node option op" where
  "scanNode P = bnd (select_op (\<lambda>_ t. find P (nodes t))) (\<lambda>r. ret (map_option scanNodeRows r))"

text \<open>SQL comparisons with a NULL status are not true.\<close>

definition status_is_not :: "string list \<Rightarrow> node_row \<Rightarrow> bool" where
  "status_is_not sts r = (case node_status r of None \<Rightarrow> False | Some st \<Rightarrow> st \<notin> set sts)"

definition GetNode :: "string \<Rightarrow> Node option op" where
  "GetNode publicKey = scanNode (\<lambda>r. node_public_key r = publicKey)"

definition GetNodeByID :: "uuid \<Rightarrow> Node option op" where
  "GetNodeByID nodeID = scanNode (\<lambda>r. node_id r = nodeID)"

definition GetNodeByHostname :: "string \<Rightarrow> Node option op" where
  "GetNodeByHostname hostname = scanNode (\<lambda>r. node_hostname r = hostname)"

definition GetNodeByHostnameForTenant :: "string \<Rightarrow> uuid \<Rightarrow> Node option op" where
  "GetNodeByHostnameForTenant hostname tenantID =
     scanNode (\<lambda>r. node_hostname r = hostname \<and> node_tenant_id r = tenantID \<and> status_is_not [''deleted''] r)"

definition GetNodeByTenant :: "string \<Rightarrow> uuid \<Rightarrow> Node option op" where
  "GetNodeByTenant publicKey tenantID = scanNode (\<lambda>r. node_public_key r = publicKey \<and> node_tenant_id r = tenantID)"

definition normalizeNodeListLimit :: "int \<Rightarrow> int" where
  "normalizeNodeListLimit limit = (if limit \<le> 0 then 200 else if limit > 1000 then 1000 else limit)"

text \<open>A query for nodes, the most recently seen first, and the loop that scans them.\<close>

definition newest_nodes :: "(node_row \<Rightarrow> bool) \<Rightarrow> tables \<Rightarrow> node_row list" where
  "newest_nodes P t = sort_key (\<lambda>r. - node_last_seen r) (filter P (nodes t))"

definition scanNodeListRows :: "(tables \<Rightarrow> node_row list) \<Rightarrow> Node list op" where
  "scanNodeListRows q = bnd (select_op (\<lambda>_ t. q t)) (\<lambda>rs. check_op (map scanNodeRows rs))"

record NodeListOptions =
  lo_TenantID :: uuid
  lo_IncludeDeleted :: bool
  lo_Limit :: int
  lo_Offset :: int
  lo_Unbounded :: bool

definition listed :: "NodeListOptions \<Rightarrow> node_row \<Rightarrow> bool" where
  "listed opts r \<longleftrightarrow> (lo_TenantID opts \<noteq> uuid_Nil \<longrightarrow> node_tenant_id r = lo_TenantID opts) \<and>
     (\<not> lo_IncludeDeleted opts \<longrightarrow> status_is_not [''deleted''] r)"

definition listNodes :: "NodeListOptions \<Rightarrow> Node list op" where
  "listNodes opts = scanNodeListRows (\<lambda>t.
     let rows = newest_nodes (listed opts) t in
     if lo_Unbounded opts then rows
     else take (nat (normalizeNodeListLimit (lo_Limit opts)))
            (drop (nat (if lo_Offset opts < 0 then 0 else lo_Offset opts)) rows))"

definition all_nodes_opts :: NodeListOptions where
  "all_nodes_opts = \<lparr>lo_TenantID = uuid_Nil, lo_IncludeDeleted = False, lo_Limit = 0, lo_Offset = 0, lo_Unbounded = False\<rparr>"

definition GetNodesByTenant :: "uuid \<Rightarrow> Node list op" where
  "GetNodesByTenant tenantID = listNodes (all_nodes_opts\<lparr>lo_TenantID := tenantID, lo_Unbounded := True\<rparr>)"

definition GetNodesByTenantPage :: "uuid \<Rightarrow> int \<Rightarrow> int \<Rightarrow> Node list op" where
  "GetNodesByTenantPage tenantID limit offset =
     listNodes (all_nodes_opts\<lparr>lo_TenantID := tenantID, lo_Limit := limit, lo_Offset := offset\<rparr>)"

definition GetAllNodesPage :: "int \<Rightarrow> int \<Rightarrow> Node list op" where
  "GetAllNodesPage limit offset = listNodes (all_nodes_opts\<lparr>lo_Limit := limit, lo_Offset := offset\<rparr>)"

definition GetAllNodes :: "Node list op" where
  "GetAllNodes = listNodes (all_nodes_opts\<lparr>lo_Unbounded := True\<rparr>)"

definition GetAllNodesIncludeDeleted :: "Node list op" where
  "GetAllNodesIncludeDeleted = listNodes (all_nodes_opts\<lparr>lo_IncludeDeleted := True, lo_Unbounded := True\<rparr>)"

definition limited :: "int \<Rightarrow> node_row list \<Rightarrow> node_row list" where
  "limited limit = take (nat (normalizeNodeListLimit limit))"

definition ListNodesByHostname :: "string \<Rightarrow> int \<Rightarrow> Node list op" where
  "ListNodesByHostname hostname limit = scanNodeListRows (\<lambda>t. limited limit
     (newest_nodes (\<lambda>r. node_hostname r = hostname \<and> status_is_not [''deleted''] r) t))"

definition ListTenantNodesByHostname :: "uuid \<Rightarrow> string \<Rightarrow> int \<Rightarrow> Node list op" where
  "ListTenantNodesByHostname tenantID hostname limit = scanNodeListRows (\<lambda>t. limited limit
     (newest_nodes (\<lambda>r. node_tenant_id r = tenantID \<and> node_hostname r = hostname \<and> status_is_not [''deleted''] r) t))"

definition ListTenantNodesByEnrollmentToken :: "uuid \<Rightarrow> string \<Rightarrow> int \<Rightarrow> Node list op" where
  "ListTenantNodesByEnrollmentToken tenantID enrollmentToken limit = scanNodeListRows (\<lambda>t. limited limit
     (newest_nodes (\<lambda>r. node_tenant_id r = tenantID \<and> node_enrolled_with_token r = Some enrollmentToken \<and>
        status_is_not [''deleted''] r) t))"

text \<open>\<^verbatim>\<open>time.Now().Unix()\<close>.\<close>

definition unix :: "time \<Rightarrow> int" where
  "unix now = now div 1000000"

definition GetNodesGoingOffline :: "int \<Rightarrow> Node list op" where
  "GetNodesGoingOffline thresholdSeconds =
     bnd time_Now (\<lambda>now. scanNodeListRows (\<lambda>t.
       filter (\<lambda>r. node_last_seen r < unix now - thresholdSeconds \<and> node_status r = Some ''online'') (nodes t)))"

definition GetNodesRecovering :: "int \<Rightarrow> Node list op" where
  "GetNodesRecovering thresholdSeconds =
     bnd time_Now (\<lambda>now. scanNodeListRows (\<lambda>t.
       filter (\<lambda>r. node_last_seen r \<ge> unix now - thresholdSeconds \<and> node_status r = Some ''offline'') (nodes t)))"

definition GetNodeCount :: "int op" where
  "GetNodeCount = select_op (\<lambda>_ t. int (length (nodes t)))"

section \<open>Writing nodes\<close>

definition saved_row :: "Node \<Rightarrow> time \<Rightarrow> node_row \<Rightarrow> node_row" where
  "saved_row n now r = r\<lparr>node_machine_id := nd_MachineID n, node_endpoint := nd_Endpoint n,
     node_private_ip := nd_PrivateIP n, node_public_ip := nd_PublicIP n, node_region := nd_Region n,
     node_vpc_id := nd_VPCID n, node_hostname := nd_Hostname n, node_assigned_ip := nd_AssignedIP n,
     node_ip_offset := nd_IPOffset n, node_last_seen := nd_LastSeen n, node_registered_at := nd_RegisteredAt n,
     node_role := coalesce (nullif_empty (nd_Role n)) (node_role r), node_runtime_mode := Some (nd_RuntimeMode n),
     node_kernel_version := Some (nd_KernelVersion n), node_has_aesni := Some (nd_HasAESNI n),
     node_advertised_routes := nd_AdvertisedRoutes n,
     node_enrolled_with_token := Some (coalesce (node_enrolled_with_token r) (nd_EnrolledWithToken n)),
     node_status := Some ''online'', node_offline_since := None, node_updated_at := now\<rparr>"

definition new_node_row :: "Node \<Rightarrow> uuid \<Rightarrow> time \<Rightarrow> node_row" where
  "new_node_row n i now = \<lparr>node_id = i, node_public_key = nd_PublicKey n, node_machine_id = nd_MachineID n,
     node_tenant_id = nd_TenantID n, node_endpoint = nd_Endpoint n, node_private_ip = nd_PrivateIP n,
     node_public_ip = nd_PublicIP n, node_region = nd_Region n, node_vpc_id = nd_VPCID n,
     node_hostname = nd_Hostname n, node_assigned_ip = nd_AssignedIP n, node_ip_offset = nd_IPOffset n,
     node_last_seen = nd_LastSeen n, node_registered_at = nd_RegisteredAt n, node_role = nd_Role n,
     node_runtime_mode = Some (nd_RuntimeMode n), node_kernel_version = Some (nd_KernelVersion n),
     node_has_aesni = Some (nd_HasAESNI n), node_status = Some ''online'', node_offline_since = None,
     node_advertised_routes = nd_AdvertisedRoutes n, node_enrolled_with_token = Some (nd_EnrolledWithToken n),
     node_runtime_token_version = Some 0, node_created_at = now, node_updated_at = now\<rparr>"

text \<open>\<^verbatim>\<open>INSERT INTO nodes ... ON CONFLICT (public_key) DO UPDATE\<close>; the tenant has to exist.\<close>

definition save_node_sql :: "Node \<Rightarrow> uuid \<Rightarrow> time \<Rightarrow> tables \<Rightarrow> (tables \<times> node_row) option" where
  "save_node_sql n i now t =
     (case find (\<lambda>r. node_public_key r = nd_PublicKey n) (nodes t) of
        Some r \<Rightarrow> Some (t\<lparr>nodes := update_where (\<lambda>r. node_public_key r = nd_PublicKey n) (saved_row n now) (nodes t)\<rparr>,
                        saved_row n now r)
      | None \<Rightarrow>
          if (\<exists>r \<in> set (nodes t). node_id r = i) \<or> (\<forall>r \<in> set (tenants t). tenant_id r \<noteq> nd_TenantID n) then None
          else Some (t\<lparr>nodes := nodes t @ [new_node_row n i now]\<rparr>, new_node_row n i now))"

definition SaveNode :: "Node option \<Rightarrow> Node op" where
  "SaveNode node = (case node of
       None \<Rightarrow> throw (ErrMsg ''node cannot be nil'')
     | Some n \<Rightarrow> bnd (insert_op (save_node_sql n)) (\<lambda>r.
         ret (n\<lparr>nd_ID := node_id r, nd_CreatedAt := node_created_at r, nd_UpdatedAt := node_updated_at r,
           nd_Status := ''online'', nd_OfflineSince := 0\<rparr>)))"

text \<open>\<^verbatim>\<open>status NOT IN ('deleted', 'suspended', 'banned')\<close>.\<close>

definition live_row :: "node_row \<Rightarrow> bool" where
  "live_row = status_is_not [''deleted'', ''suspended'', ''banned'']"

text \<open>An \<^verbatim>\<open>UPDATE nodes\<close> with the number of rows it changed, and the check that it changed one.\<close>

definition update_nodes_sql :: "(node_row \<Rightarrow> bool) \<Rightarrow> (time \<Rightarrow> node_row \<Rightarrow> node_row) \<Rightarrow> time \<Rightarrow> tables \<Rightarrow> tables \<times> nat" where
  "update_nodes_sql P f now t = (t\<lparr>nodes := update_where P (f now) (nodes t)\<rparr>, affected P (nodes t))"

definition require_row :: "nat op \<Rightarrow> unit op" where
  "require_row m = bnd m (\<lambda>n. bnd (check_op n) (\<lambda>n. if n = 0 then throw ErrNoRows else ret ()))"

definition UpdateNodeHeartbeat :: "uuid \<Rightarrow> int \<Rightarrow> unit op" where
  "UpdateNodeHeartbeat nodeID lastSeen = require_row (modify_op (update_nodes_sql
     (\<lambda>r. node_id r = nodeID \<and> live_row r)
     (\<lambda>now r. r\<lparr>node_last_seen := lastSeen, node_status := Some ''online'', node_offline_since := None, node_updated_at := now\<rparr>)))"

definition UpdateNodePublicIdentity :: "uuid \<Rightarrow> string \<Rightarrow> string \<Rightarrow> unit op" where
  "UpdateNodePublicIdentity nodeID publicIP endpoint =
     (let publicIP = TrimSpace publicIP; endpoint = TrimSpace endpoint in
      if publicIP = '''' \<and> endpoint = '''' then ret ()
      else bnd (modify_op (update_nodes_sql
        (\<lambda>r. node_id r = nodeID \<and> live_row r \<and>
           (publicIP \<noteq> '''' \<and> node_public_ip r \<noteq> publicIP \<or> endpoint \<noteq> '''' \<and> node_endpoint r \<noteq> endpoint \<or> node_private_ip r \<noteq> ''''))
        (\<lambda>now r. r\<lparr>node_public_ip := coalesce (nullif_empty publicIP) (node_public_ip r),
           node_endpoint := coalesce (nullif_empty endpoint) (node_endpoint r), node_private_ip := '''', node_updated_at := now\<rparr>)))
        (\<lambda>_. ret ()))"

definition deleted_row :: "time \<Rightarrow> node_row \<Rightarrow> node_row" where
  "deleted_row now r = r\<lparr>node_status := Some ''deleted'', node_updated_at := now\<rparr>"

text \<open>What follows a deletion in the same transaction.\<close>

definition cut_off_tx :: "uuid \<Rightarrow> string \<Rightarrow> string \<Rightarrow> string \<Rightarrow> unit op" where
  "cut_off_tx nodeID pubKey reason message =
     bnd (modify_op (update_nodes_sql (\<lambda>r. node_public_key r = pubKey) deleted_row)) (\<lambda>_.
     bnd (revokeNodeCertificatesTx nodeID reason) (\<lambda>_.
     failIncompleteAgentCommandsForNodeTx pubKey message))"

definition ReuseHostnameIP :: "string \<Rightarrow> uuid \<Rightarrow> (string \<times> int) op" where
  "ReuseHostnameIP hostname tenantID = transaction (
     bnd (select_op (\<lambda>_ t. find (\<lambda>r. node_hostname r = hostname \<and> node_tenant_id r = tenantID \<and>
            status_is_not [''deleted''] r) (nodes t))) (\<lambda>r. case r of
         None \<Rightarrow> throw ErrNoRows
       | Some r \<Rightarrow>
           let status = coalesce (node_status r) ''online'' in
           if ToLower (TrimSpace status) \<in> {''suspended'', ''banned''}
           then throw (ErrMsg (''inactive hostname cannot be reused: node status '' @ status))
           else bnd (cut_off_tx (node_id r) (node_public_key r) ''hostname_reused'' ''node deleted for hostname reuse'') (\<lambda>_.
             ret (TxCommit (node_assigned_ip r, node_ip_offset r)))))"

definition MarkNodeDeleted :: "string \<Rightarrow> unit op" where
  "MarkNodeDeleted publicKey = transaction (
     bnd (select_op (\<lambda>_ t. find (\<lambda>r. node_public_key r = publicKey) (nodes t))) (\<lambda>r. case r of
         None \<Rightarrow> throw ErrNoRows
       | Some r \<Rightarrow> bnd (cut_off_tx (node_id r) publicKey ''node_deleted'' ''node deleted'') (\<lambda>_. ret (TxCommit ()))))"

definition MarkOfflineNodes :: "int \<Rightarrow> nat op" where
  "MarkOfflineNodes threshold = modify_op (update_nodes_sql
     (\<lambda>r. node_last_seen r < threshold \<and> node_status r = Some ''online'')
     (\<lambda>_ r. r\<lparr>node_status := Some ''offline'',
        node_offline_since := (case node_offline_since r of None \<Rightarrow> Some threshold | Some x \<Rightarrow> Some x)\<rparr>))"

definition MarkStaleNodes :: "int \<Rightarrow> nat op" where
  "MarkStaleNodes threshold = modify_op (update_nodes_sql
     (\<lambda>r. (case node_offline_since r of None \<Rightarrow> False | Some x \<Rightarrow> x < threshold) \<and> node_status r = Some ''offline'')
     (\<lambda>_ r. r\<lparr>node_status := Some ''stale''\<rparr>))"

definition MarkNodeOnline :: "uuid \<Rightarrow> unit op" where
  "MarkNodeOnline nodeID = bnd (modify_op (update_nodes_sql (\<lambda>r. node_id r = nodeID)
     (\<lambda>now r. r\<lparr>node_status := Some ''online'', node_offline_since := None, node_updated_at := now\<rparr>))) (\<lambda>_. ret ())"

section \<open>Removing nodes\<close>

text \<open>
  The foreign keys of the schema: a node that an event, an alert, a delivery, a rule, a
  configuration, a link or an allocation refers to cannot be deleted; its certificate, its
  control state and its statistics go with it.
\<close>

definition node_referenced :: "uuid \<Rightarrow> tables \<Rightarrow> bool" where
  "node_referenced i t \<longleftrightarrow>
     (\<exists>e \<in> set (audit_events t). ev_node_id e = Some i) \<or> (\<exists>a \<in> set (alerts t). al_node_id a = Some i) \<or>
     (\<exists>d \<in> set (policy_deliveries t). pd_node_id d = i) \<or> (\<exists>r \<in> set (acl_rules t). ar_node_id r = i) \<or>
     (\<exists>r \<in> set (qos_rules t). qr_node_id r = i) \<or> (\<exists>r \<in> set (blacklist_rules t). br_node_id r = i) \<or>
     (\<exists>r \<in> set (device_configs t). dc_node_id r = i) \<or>
     (\<exists>r \<in> set (tunnel_links t). tl_src_node_id r = i \<or> tl_dst_node_id r = i) \<or>
     (\<exists>r \<in> set (ip_allocations t). ipa_node_id r = i)"

definition delete_nodes_sql :: "(node_row \<Rightarrow> bool) \<Rightarrow> time \<Rightarrow> tables \<Rightarrow> (tables \<times> nat) option" where
  "delete_nodes_sql P now t =
     (let gone = node_id ` set (filter P (nodes t)) in
      if \<exists>i \<in> gone. node_referenced i t then None
      else Some (t\<lparr>nodes := filter (\<lambda>r. \<not> P r) (nodes t),
          node_certificates := filter (\<lambda>c. cert_node_id c \<notin> gone) (node_certificates t),
          node_control_states := filter (\<lambda>c. ncs_node_id c \<notin> gone) (node_control_states t),
          node_policy_stats := filter (\<lambda>c. nps_node_id c \<notin> gone) (node_policy_stats t)\<rparr>,
        affected P (nodes t)))"

definition DeleteNode :: "string \<Rightarrow> unit op" where
  "DeleteNode publicKey = bnd (write_op (delete_nodes_sql (\<lambda>r. node_public_key r = publicKey))) (\<lambda>_. ret ())"

definition detach_events_sql :: "uuid list \<Rightarrow> time \<Rightarrow> tables \<Rightarrow> tables \<times> unit" where
  "detach_events_sql ids now t = (t\<lparr>audit_events := update_where
     (\<lambda>e. case ev_node_id e of None \<Rightarrow> False | Some i \<Rightarrow> i \<in> set ids) (\<lambda>e. e\<lparr>ev_node_id := None\<rparr>) (audit_events t)\<rparr>, ())"

definition detach_alerts_sql :: "uuid list \<Rightarrow> time \<Rightarrow> tables \<Rightarrow> tables \<times> unit" where
  "detach_alerts_sql ids now t = (t\<lparr>alerts := update_where
     (\<lambda>a. case al_node_id a of None \<Rightarrow> False | Some i \<Rightarrow> i \<in> set ids) (\<lambda>a. a\<lparr>al_node_id := None\<rparr>) (alerts t)\<rparr>, ())"

definition detachDeletedNodeHistoryTx :: "uuid list \<Rightarrow> unit op" where
  "detachDeletedNodeHistoryTx ids =
     for_each (\<lambda>q. modify_op q) [detach_events_sql ids, detach_alerts_sql ids]"

definition purge_sql :: "uuid list \<Rightarrow> nat \<Rightarrow> time \<Rightarrow> tables \<Rightarrow> tables \<times> unit" where
  "purge_sql ids k now t =
     ((if k = 0 then t\<lparr>policy_deliveries := filter (\<lambda>d. pd_node_id d \<notin> set ids) (policy_deliveries t)\<rparr>
       else if k = 1 then t\<lparr>acl_rules := filter (\<lambda>r. ar_node_id r \<notin> set ids) (acl_rules t)\<rparr>
       else if k = 2 then t\<lparr>qos_rules := filter (\<lambda>r. qr_node_id r \<notin> set ids) (qos_rules t)\<rparr>
       else if k = 3 then t\<lparr>blacklist_rules := filter (\<lambda>r. br_node_id r \<notin> set ids) (blacklist_rules t)\<rparr>
       else if k = 4 then t\<lparr>device_configs := filter (\<lambda>r. dc_node_id r \<notin> set ids) (device_configs t)\<rparr>
       else if k = 5 then t\<lparr>tunnel_links := filter (\<lambda>r. \<not> (tl_src_node_id r \<in> set ids \<or> tl_dst_node_id r \<in> set ids)) (tunnel_links t)\<rparr>
       else t\<lparr>ip_allocations := filter (\<lambda>r. ipa_node_id r \<notin> set ids) (ip_allocations t)\<rparr>), ())"

text \<open>The seven statements in the order of the source.\<close>

definition purgeDeletedNodeDependentsTx :: "uuid list \<Rightarrow> unit op" where
  "purgeDeletedNodeDependentsTx ids = for_each (\<lambda>k. modify_op (purge_sql ids k)) [0, 1, 2, 3, 4, 5, 6]"

definition removable :: "int \<Rightarrow> node_row \<Rightarrow> bool" where
  "removable threshold r \<longleftrightarrow> node_status r = Some ''deleted'' \<and> node_updated_at r < secs threshold"

definition CleanupDeletedNodes :: "int \<Rightarrow> nat op" where
  "CleanupDeletedNodes threshold = transaction (
     bnd (select_op (\<lambda>_ t. map node_id (filter (removable threshold) (nodes t)))) (\<lambda>ids.
     bnd (check_op ids) (\<lambda>ids.
     if ids = [] then ret (TxCommit 0)
     else bnd (detachDeletedNodeHistoryTx ids) (\<lambda>_.
       bnd (purgeDeletedNodeDependentsTx ids) (\<lambda>_.
       bnd (write_op (delete_nodes_sql (\<lambda>r. node_id r \<in> set ids))) (\<lambda>count.
       ret (TxCommit count)))))))"

definition wrap_err :: "string \<Rightarrow> 'a op \<Rightarrow> 'a op" where
  "wrap_err what m = bnd (attempt m) (\<lambda>r. case r of Inl e \<Rightarrow> throw (ErrMsg what) | Inr x \<Rightarrow> ret x)"

definition CleanupStaleNodes :: "int \<Rightarrow> nat op" where
  "CleanupStaleNodes thresholdSeconds =
     bnd time_Now (\<lambda>now.
     bnd (wrap_err ''failed to mark offline nodes'' (MarkOfflineNodes (unix now - 30))) (\<lambda>offlineCount.
     bnd (wrap_err ''failed to mark stale nodes'' (MarkStaleNodes (unix now - 86400))) (\<lambda>staleCount.
     bnd (wrap_err ''failed to cleanup deleted nodes'' (CleanupDeletedNodes (unix now - 604800))) (\<lambda>deletedCount.
     ret (offlineCount + staleCount + deletedCount)))))"

section \<open>Offsets and addresses of nodes\<close>

text \<open>The table \<^verbatim>\<open>state\<close>: one value per key.\<close>

definition kv_get :: "string \<Rightarrow> tables \<Rightarrow> int option" where
  "kv_get k t = map_of (state_rows t) k"

definition kv_put :: "string \<Rightarrow> int \<Rightarrow> tables \<Rightarrow> tables" where
  "kv_put k v t = (if k \<in> fst ` set (state_rows t)
     then t\<lparr>state_rows := update_where (\<lambda>r. fst r = k) (\<lambda>_. (k, v)) (state_rows t)\<rparr>
     else t\<lparr>state_rows := state_rows t @ [(k, v)]\<rparr>)"

definition GetNextOffset :: "int op" where
  "GetNextOffset = bnd (select_op (\<lambda>_. kv_get ''next_offset'')) (\<lambda>r. ret (coalesce r 2))"

definition SetNextOffset :: "int \<Rightarrow> unit op" where
  "SetNextOffset offset = modify_op (\<lambda>_ t. (kv_put ''next_offset'' offset t, ()))"

definition IncrementNextOffset :: "int op" where
  "IncrementNextOffset = bnd GetNextOffset (\<lambda>current.
     let newOffset = (if current + 1 > 254 then 2 else current + 1) in
     bnd (SetNextOffset newOffset) (\<lambda>_. ret current))"

definition IsOffsetUsed :: "int \<Rightarrow> bool op" where
  "IsOffsetUsed offset = select_op (\<lambda>_ t. length (filter (\<lambda>r. node_ip_offset r = offset) (nodes t)) > 0)"

definition maxOffset :: int where
  "maxOffset = 65534"

definition offset_taken :: "tables \<Rightarrow> int \<Rightarrow> bool" where
  "offset_taken t o' \<longleftrightarrow> (\<exists>r \<in> set (nodes t). node_ip_offset r = o' \<and> status_is_not [''deleted''] r)"

text \<open>
  \<^verbatim>\<open>SELECT o FROM generate_series(1, m) AS o WHERE NOT EXISTS (...)
  ORDER BY CASE WHEN o >= $1 THEN o - $1 ELSE o - $1 + $2 END, o LIMIT 1\<close>
\<close>

definition next_free :: "(int \<Rightarrow> bool) \<Rightarrow> int \<Rightarrow> int \<Rightarrow> int option" where
  "next_free taken current m =
     (case sort_key (\<lambda>o'. if o' \<ge> current then o' - current else o' - current + m) (filter (\<lambda>o'. \<not> taken o') [1..m]) of
        [] \<Rightarrow> None | o' # _ \<Rightarrow> Some o')"

definition lock_next_offset :: "int op" where
  "lock_next_offset =
     bnd (wrap_err ''failed to read next_offset'' (select_op (\<lambda>_. kv_get ''next_offset''))) (\<lambda>r. case r of
         Some current \<Rightarrow> ret current
       | None \<Rightarrow>
           bnd (wrap_err ''failed to initialize next_offset'' (modify_op (\<lambda>_ t.
              (if kv_get ''next_offset'' t = None then kv_put ''next_offset'' 1 t else t, ())))) (\<lambda>_.
           bnd (wrap_err ''failed to lock next_offset'' (select_op (\<lambda>_. kv_get ''next_offset''))) (\<lambda>r. case r of
               None \<Rightarrow> throw (ErrMsg ''failed to lock next_offset'')
             | Some current \<Rightarrow> ret current)))"

definition GetNextAvailableOffset :: "int op" where
  "GetNextAvailableOffset = transaction (
     bnd lock_next_offset (\<lambda>current.
     bnd (wrap_err ''no available IP offset'' (select_op (\<lambda>_ t. next_free (offset_taken t) current maxOffset))) (\<lambda>r. case r of
         None \<Rightarrow> throw (ErrMsg ''no available IP offset'')
       | Some foundOffset \<Rightarrow>
           let newOffset = (if foundOffset + 1 > maxOffset then 1 else foundOffset + 1) in
           bnd (wrap_err ''failed to update next_offset'' (modify_op (\<lambda>_ t. (kv_put ''next_offset'' newOffset t, ())))) (\<lambda>_.
           ret (TxCommit foundOffset)))))"

definition AssignIPToDevice :: "uuid \<Rightarrow> string \<Rightarrow> int \<Rightarrow> unit op" where
  "AssignIPToDevice deviceID ip offset = bnd (modify_op (update_nodes_sql (\<lambda>r. node_id r = deviceID)
     (\<lambda>_ r. r\<lparr>node_assigned_ip := ip, node_ip_offset := offset\<rparr>))) (\<lambda>_. ret ())"

subsection \<open>Address pools\<close>

record IPPool =
  ipp_ID :: nat
  ipp_TenantID :: uuid
  ipp_CIDR :: string
  ipp_CurrentOffset :: int
  ipp_IsActive :: bool

definition scan_pool :: "ip_pool_row \<Rightarrow> IPPool" where
  "scan_pool r = \<lparr>ipp_ID = pool_id r, ipp_TenantID = pool_tenant_id r, ipp_CIDR = pool_cidr r,
     ipp_CurrentOffset = pool_current_offset r, ipp_IsActive = pool_is_active r\<rparr>"

text \<open>\<^verbatim>\<open>id SERIAL\<close> counts the pools; \<open>cidr\<close> is the text of the database's \<^verbatim>\<open>CIDR\<close> value.\<close>

definition pool_upsert_sql :: "uuid \<Rightarrow> string \<Rightarrow> time \<Rightarrow> tables \<Rightarrow> tables \<times> ip_pool_row" where
  "pool_upsert_sql tenantID cidr now t =
     (case find (\<lambda>r. pool_tenant_id r = tenantID \<and> pool_cidr r = cidr) (ip_pools t) of
        Some r \<Rightarrow> (t\<lparr>ip_pools := update_where (\<lambda>r. pool_tenant_id r = tenantID \<and> pool_cidr r = cidr)
                     (\<lambda>r. r\<lparr>pool_is_active := True\<rparr>) (ip_pools t)\<rparr>, r\<lparr>pool_is_active := True\<rparr>)
      | None \<Rightarrow> let r = \<lparr>pool_id = Suc (length (ip_pools t)), pool_tenant_id = tenantID, pool_cidr = cidr,
                    pool_current_offset = 1, pool_is_active = True\<rparr>
                in (t\<lparr>ip_pools := ip_pools t @ [r]\<rparr>, r))"

definition CreateIPPool :: "uuid \<Rightarrow> string \<Rightarrow> IPPool op" where
  "CreateIPPool tenantID cidr = bnd (modify_op (pool_upsert_sql tenantID cidr)) (\<lambda>r. ret (scan_pool r))"

definition calculateIP :: "string \<Rightarrow> int \<Rightarrow> string" where
  "calculateIP cidr offset = ''100.64.0.'' @ Itoa offset"

definition allocateIPInternal :: "uuid \<Rightarrow> (string \<times> int) op" where
  "allocateIPInternal tenantID = transaction (
     bnd (wrap_err ''no active IP pool for tenant'' (select_op (\<lambda>_ t.
        find (\<lambda>r. pool_tenant_id r = tenantID \<and> pool_is_active r) (ip_pools t)))) (\<lambda>r. case r of
         None \<Rightarrow> throw (ErrMsg ''no active IP pool for tenant'')
       | Some p \<Rightarrow>
           let offset = pool_current_offset p + 1; ip = calculateIP (pool_cidr p) offset in
           bnd (modify_op (\<lambda>_ t. (t\<lparr>ip_pools := update_where (\<lambda>r. pool_id r = pool_id p)
              (\<lambda>r. r\<lparr>pool_current_offset := offset\<rparr>) (ip_pools t)\<rparr>, ()))) (\<lambda>_.
           ret (TxCommit (ip, offset)))))"

text \<open>\<open>lock\<close>: no heartbeat store, or whether its lock was acquired.\<close>

definition AllocateIP :: "bool option \<Rightarrow> uuid \<Rightarrow> (string \<times> int) op" where
  "AllocateIP lock tenantID = (if lock = Some False then throw (ErrMsg ''failed to acquire IPAM lock'')
     else allocateIPInternal tenantID)"

section \<open>Device configurations and tunnel links\<close>

definition save_config_sql :: "uuid \<Rightarrow> int \<Rightarrow> params \<Rightarrow> time \<Rightarrow> tables \<Rightarrow> (tables \<times> unit) option" where
  "save_config_sql deviceID version body now t =
     (let key = (\<lambda>r. dc_node_id r = deviceID \<and> dc_version r = version) in
      if list_ex key (device_configs t)
      then Some (t\<lparr>device_configs := update_where key (\<lambda>r. r\<lparr>dc_config_body := body\<rparr>) (device_configs t)\<rparr>, ())
      else if \<forall>n \<in> set (nodes t). node_id n \<noteq> deviceID then None
      else Some (t\<lparr>device_configs := device_configs t @ [\<lparr>dc_node_id = deviceID, dc_version = version, dc_config_body = body\<rparr>]\<rparr>, ()))"

definition SaveDeviceConfig :: "uuid \<Rightarrow> int \<Rightarrow> params \<Rightarrow> unit op" where
  "SaveDeviceConfig deviceID version body =
     (if \<not> marshal_ok body then throw (ErrMsg ''failed to marshal config'')
      else write_op (save_config_sql deviceID version body))"

definition GetDeviceConfig :: "uuid \<Rightarrow> int \<Rightarrow> params option op" where
  "GetDeviceConfig deviceID version = select_op (\<lambda>_ t.
     map_option dc_config_body (find (\<lambda>r. dc_node_id r = deviceID \<and> dc_version r = version) (device_configs t)))"

text \<open>\<^verbatim>\<open>SELECT MAX(version)\<close> always yields a row; its NULL does not scan into an int.\<close>

definition GetLatestConfigVersion :: "uuid \<Rightarrow> int op" where
  "GetLatestConfigVersion deviceID =
     bnd (select_op (\<lambda>_ t. map dc_version (filter (\<lambda>r. dc_node_id r = deviceID) (device_configs t)))) (\<lambda>vs.
     case vs of [] \<Rightarrow> throw DBError | v # vs \<Rightarrow> ret (fold max vs v))"

definition save_link_sql :: "uuid \<Rightarrow> uuid \<Rightarrow> string \<Rightarrow> time \<Rightarrow> tables \<Rightarrow> (tables \<times> unit) option" where
  "save_link_sql src dst linkType now t =
     (let key = (\<lambda>r. tl_src_node_id r = src \<and> tl_dst_node_id r = dst) in
      if list_ex key (tunnel_links t)
      then Some (t\<lparr>tunnel_links := update_where key (\<lambda>r. r\<lparr>tl_link_type := linkType\<rparr>) (tunnel_links t)\<rparr>, ())
      else if (\<forall>n \<in> set (nodes t). node_id n \<noteq> src) \<or> (\<forall>n \<in> set (nodes t). node_id n \<noteq> dst) then None
      else Some (t\<lparr>tunnel_links := tunnel_links t @ [\<lparr>tl_src_node_id = src, tl_dst_node_id = dst,
        tl_link_type = linkType, tl_status = ''active''\<rparr>]\<rparr>, ()))"

definition SaveTunnelLink :: "uuid \<Rightarrow> uuid \<Rightarrow> string \<Rightarrow> unit op" where
  "SaveTunnelLink src dst linkType = write_op (save_link_sql src dst linkType)"

definition GetTunnelLinks :: "uuid \<Rightarrow> uuid list op" where
  "GetTunnelLinks deviceID =
     bnd (select_op (\<lambda>_ t. map (\<lambda>r. if tl_src_node_id r = deviceID then tl_dst_node_id r else tl_src_node_id r)
       (filter (\<lambda>r. (tl_src_node_id r = deviceID \<or> tl_dst_node_id r = deviceID) \<and> tl_status r = ''active'') (tunnel_links t))))
     check_op"

section \<open>Properties: offsets\<close>

subsection \<open>The cyclic search\<close>

definition free_offsets :: "(int \<Rightarrow> bool) \<Rightarrow> int \<Rightarrow> int list" where
  "free_offsets taken m = filter (\<lambda>o'. \<not> taken o') [1..m]"

definition cyclic_key :: "int \<Rightarrow> int \<Rightarrow> int \<Rightarrow> int" where
  "cyclic_key current m o' = (if o' \<ge> current then o' - current else o' - current + m)"

lemma free_offsets_iff: "o' \<in> set (free_offsets taken m) \<longleftrightarrow> 1 \<le> o' \<and> o' \<le> m \<and> \<not> taken o'"
  by (auto simp: free_offsets_def)

lemma free_offsets_sorted: "sorted (free_offsets taken m)" "distinct (free_offsets taken m)"
proof -
  have "sorted [1..m]" "distinct [1..m]" by simp_all
  then show "sorted (free_offsets taken m)" "distinct (free_offsets taken m)"
    unfolding free_offsets_def by (simp_all add: sorted_filter [where f = "\<lambda>x. x", simplified])
qed

lemma sort_key_hd:
  assumes "sort_key f xs = y # ys"
  shows "y \<in> set xs" "x \<in> set xs \<Longrightarrow> f y \<le> f x"
proof -
  have set: "set (y # ys) = set xs" and sorted: "sorted (map f (y # ys))"
    by (metis assms set_sort) (metis assms sorted_sort_key)
  then show "y \<in> set xs" "x \<in> set xs \<Longrightarrow> f y \<le> f x" by auto
qed

lemma next_free_alt: "next_free taken current m =
    (case sort_key (cyclic_key current m) (free_offsets taken m) of [] \<Rightarrow> None | o' # _ \<Rightarrow> Some o')"
  unfolding next_free_def free_offsets_def cyclic_key_def ..

lemma next_free_None: "next_free taken current m = None \<longleftrightarrow> free_offsets taken m = []"
proof -
  have "sort_key (cyclic_key current m) (free_offsets taken m) = [] \<longleftrightarrow> free_offsets taken m = []"
    by (metis length_sort length_0_conv)
  then show ?thesis by (auto simp: next_free_alt split: list.split)
qed

lemma cyclic_key_inj:
  assumes "cyclic_key current m a = cyclic_key current m b" and "1 \<le> a" "a \<le> m" "1 \<le> b" "b \<le> m"
  shows "a = b"
  using assms unfolding cyclic_key_def by (auto split: if_split_asm)

lemma next_free_Some:
  "next_free taken current m = Some o' \<longleftrightarrow> o' \<in> set (free_offsets taken m) \<and>
     (\<forall>x \<in> set (free_offsets taken m). cyclic_key current m o' \<le> cyclic_key current m x)"
proof
  assume "next_free taken current m = Some o'"
  then obtain ys where "sort_key (cyclic_key current m) (free_offsets taken m) = o' # ys"
    by (auto simp: next_free_alt split: list.splits)
  from sort_key_hd [OF this] show "o' \<in> set (free_offsets taken m) \<and>
     (\<forall>x \<in> set (free_offsets taken m). cyclic_key current m o' \<le> cyclic_key current m x)" by blast
next
  assume o': "o' \<in> set (free_offsets taken m) \<and>
     (\<forall>x \<in> set (free_offsets taken m). cyclic_key current m o' \<le> cyclic_key current m x)"
  then have "free_offsets taken m \<noteq> []" by auto
  then obtain y ys where y: "sort_key (cyclic_key current m) (free_offsets taken m) = y # ys"
    by (metis length_sort length_0_conv list.exhaust)
  note hd = sort_key_hd [OF y]
  have "cyclic_key current m y = cyclic_key current m o'" using hd o' by (meson order_antisym)
  then have "y = o'" using hd(1) o' by (auto simp: free_offsets_iff intro: cyclic_key_inj)
  with y show "next_free taken current m = Some o'" by (simp add: next_free_alt)
qed

text \<open>The search starts at the first free offset that is not below the cursor and wraps around.\<close>

definition cursor_pos :: "(int \<Rightarrow> bool) \<Rightarrow> int \<Rightarrow> int \<Rightarrow> nat" where
  "cursor_pos taken m current = length (filter (\<lambda>o'. o' < current) (free_offsets taken m)) mod length (free_offsets taken m)"

lemma below_cursor:
  fixes F :: "int list"
  assumes "sorted F" "distinct F" and "i < length F"
  shows "F ! i < c \<longleftrightarrow> i < length (filter (\<lambda>x. x < c) F)"
  using assms
proof (induction F arbitrary: i)
  case (Cons a F)
  show ?case
  proof (cases i)
    case 0
    have "filter (\<lambda>x. x < c) F = []" if "\<not> a < c"
      using Cons.prems(1) that by (fastforce simp: filter_empty_conv)
    with 0 show ?thesis by auto
  next
    case (Suc j)
    with Cons show ?thesis
    proof (cases "a < c")
      case False
      then have "filter (\<lambda>x. x < c) F = []" using Cons.prems(1) by (fastforce simp: filter_empty_conv)
      moreover have "\<not> F ! j < c" using False Cons.prems Suc by (force dest: nth_mem)
      ultimately show ?thesis using False Suc by simp
    qed (use Cons Suc in simp)
  qed
qed simp

lemma next_free_nth:
  assumes "free_offsets taken m \<noteq> []"
  shows "next_free taken current m = Some (free_offsets taken m ! cursor_pos taken m current)"
proof -
  let ?F = "free_offsets taken m" and ?p = "length (filter (\<lambda>o'. o' < current) (free_offsets taken m))"
  note sd = free_offsets_sorted [of taken m]
  have range: "1 \<le> ?F ! i \<and> ?F ! i \<le> m" if "i < length ?F" for i
    using that nth_mem [OF that] unfolding free_offsets_iff by blast
  have le: "?p \<le> length ?F" by (rule length_filter_le)
  have "cyclic_key current m (?F ! cursor_pos taken m current) \<le> cyclic_key current m (?F ! i)" if i: "i < length ?F" for i
  proof (cases "?p < length ?F")
    case True
    then have pos: "cursor_pos taken m current = ?p" by (simp add: cursor_pos_def)
    have "\<not> ?F ! ?p < current" using below_cursor [OF sd True] by simp
    moreover have "?F ! i < current \<longleftrightarrow> i < ?p" using below_cursor [OF sd i] .
    moreover have "?F ! ?p \<le> ?F ! i" if "?p \<le> i" using sorted_nth_mono [OF sd(1) that i] .
    ultimately show ?thesis using range [OF True] range [OF i] unfolding pos cyclic_key_def
      by (cases "i < ?p") auto
  next
    case False
    with le have "?p = length ?F" by linarith
    then have pos: "cursor_pos taken m current = 0" by (simp add: cursor_pos_def)
    have below: "?F ! j < current" if "j < length ?F" for j
      using below_cursor [OF sd that] that \<open>?p = length ?F\<close> by simp
    have "?F ! 0 \<le> ?F ! i" using sorted_nth_mono [OF sd(1) _ i] by simp
    moreover have "0 < length ?F" using assms by simp
    ultimately show ?thesis using below [OF i] below [of 0] unfolding pos cyclic_key_def by auto
  qed
  moreover have "cursor_pos taken m current < length ?F" using assms by (simp add: cursor_pos_def)
  ultimately show ?thesis
    unfolding next_free_Some by (auto simp: in_set_conv_nth)
qed

definition bump_offset :: "int \<Rightarrow> int" where
  "bump_offset o' = (if o' + 1 > maxOffset then 1 else o' + 1)"

lemma cursor_bump:
  assumes "j < length (free_offsets taken maxOffset)"
  shows "cursor_pos taken maxOffset (bump_offset (free_offsets taken maxOffset ! j)) =
    Suc j mod length (free_offsets taken maxOffset)"
proof -
  let ?F = "free_offsets taken maxOffset"
  note sd = free_offsets_sorted [of taken maxOffset]
  have range: "1 \<le> ?F ! i \<and> ?F ! i \<le> maxOffset" if "i < length ?F" for i
    using that nth_mem [OF that] unfolding free_offsets_iff by blast
  show ?thesis
  proof (cases "?F ! j + 1 > maxOffset")
    case True
    then have last: "?F ! j = maxOffset" using range [OF assms] by simp
    have "Suc j = length ?F"
    proof (rule ccontr)
      assume "Suc j \<noteq> length ?F"
      then have Suc: "Suc j < length ?F" using assms by simp
      have "?F ! j \<le> ?F ! Suc j" using sorted_nth_mono [OF sd(1) _ Suc] by simp
      then have "?F ! j = ?F ! Suc j" using last range [OF Suc] by simp
      with sd(2) Suc assms show False by (simp add: nth_eq_iff_index_eq)
    qed
    moreover have "filter (\<lambda>o'. o' < 1) ?F = []" by (auto simp: filter_empty_conv free_offsets_iff)
    ultimately show ?thesis using True by (simp add: bump_offset_def cursor_pos_def)
  next
    case False
    have "length (filter (\<lambda>o'. o' < ?F ! j + 1) ?F) = Suc j"
    proof -
      let ?q = "length (filter (\<lambda>o'. o' < ?F ! j + 1) ?F)"
      have "j < ?q" using below_cursor [OF sd assms, of "?F ! j + 1"] by simp
      moreover have "\<not> Suc j < ?q"
      proof
        assume q: "Suc j < ?q"
        then have Suc: "Suc j < length ?F" using length_filter_le [of "\<lambda>o'. o' < ?F ! j + 1" ?F] by linarith
        then have "?F ! Suc j \<le> ?F ! j" using below_cursor [OF sd Suc, of "?F ! j + 1"] q by simp
        moreover have "?F ! j \<le> ?F ! Suc j" using sorted_nth_mono [OF sd(1) _ Suc] by simp
        ultimately have "?F ! j = ?F ! Suc j" by simp
        with sd(2) Suc assms show False by (simp add: nth_eq_iff_index_eq)
      qed
      ultimately show ?thesis by linarith
    qed
    with False show ?thesis by (simp add: bump_offset_def cursor_pos_def)
  qed
qed

subsection \<open>What a call of \<open>GetNextAvailableOffset\<close> does\<close>

lemma wrap_Inr [run_Inr]: "wrap_err what m s = (Inr x, t) \<longleftrightarrow> m s = (Inr x, t)"
  by (auto simp: wrap_err_def bnd_def attempt_def throw_def ret_def split: prod.splits sum.splits)

lemma map_of_overwrite:
  "k \<in> fst ` set xs \<Longrightarrow> map_of (update_where (\<lambda>r. fst r = k) (\<lambda>_. (k, v)) xs) k = Some v"
  by (induction xs) (auto simp: update_where_def)

lemma kv_get_put [simp]: "kv_get k (kv_put k v t) = Some v"
  by (cases "k \<in> fst ` set (state_rows t)")
     (simp_all add: kv_get_def kv_put_def map_of_overwrite map_add_def map_of_eq_None_iff [THEN iffD2])

lemma kv_put_nodes [simp]: "nodes (kv_put k v t) = nodes t"
  by (simp add: kv_put_def)

lemma lock_next_offset_Inr:
  assumes "lock_next_offset s = (Inr current, t)"
  shows "current = coalesce (kv_get ''next_offset'' (tab s)) 1" "nodes (tab t) = nodes (tab s)"
proof -
  from assms obtain r u where sel: "select_op (\<lambda>_. kv_get ''next_offset'') s = (Inr r, u)" and rest: "(case r of
         Some current \<Rightarrow> ret current
       | None \<Rightarrow>
           bnd (wrap_err ''failed to initialize next_offset'' (modify_op (\<lambda>_ t.
              (if kv_get ''next_offset'' t = None then kv_put ''next_offset'' 1 t else t, ())))) (\<lambda>_.
           bnd (wrap_err ''failed to lock next_offset'' (select_op (\<lambda>_. kv_get ''next_offset''))) (\<lambda>r. case r of
               None \<Rightarrow> throw (ErrMsg ''failed to lock next_offset'')
             | Some current \<Rightarrow> ret current))) u = (Inr current, t)"
    unfolding lock_next_offset_def bnd_Inr wrap_Inr by blast
  note sel = select_Inr [OF sel]
  have "current = coalesce (kv_get ''next_offset'' (tab s)) 1 \<and> nodes (tab t) = nodes (tab s)"
  proof (cases r)
    case None
    with rest obtain v w r' where ini: "modify_op (\<lambda>_ t.
        (if kv_get ''next_offset'' t = None then kv_put ''next_offset'' 1 t else t, ())) u = (Inr (), v)"
      and again: "select_op (\<lambda>_. kv_get ''next_offset'') v = (Inr r', w)"
      and last: "(case r' of None \<Rightarrow> throw (ErrMsg ''failed to lock next_offset'') | Some current \<Rightarrow> ret current) w = (Inr current, t)"
      by (auto simp: bnd_Inr wrap_Inr)
    have v: "tab v = kv_put ''next_offset'' 1 (tab s)" using modify_Inr(1) [OF ini] sel None by simp
    note again = select_Inr [OF again]
    from again(1) v have "r' = Some 1" by simp
    with last have "current = 1 \<and> t = w" by (simp add: ret_Inr)
    with None sel again v show ?thesis by (simp add: coalesce_def)
  next
    case (Some c)
    then have "current = c" "t = u" using rest by (simp_all add: ret_Inr)
    then show ?thesis using sel(1) [symmetric] sel(2) Some by (simp add: coalesce_def)
  qed
  then show "current = coalesce (kv_get ''next_offset'' (tab s)) 1" "nodes (tab t) = nodes (tab s)" by blast+
qed

lemma offset_taken_nodes: "nodes t = nodes u \<Longrightarrow> offset_taken t = offset_taken u"
  by (simp add: offset_taken_def fun_eq_iff)

lemma GetNextAvailableOffset_Inr:
  assumes "GetNextAvailableOffset s = (Inr o', t)"
  shows "next_free (offset_taken (tab s)) (coalesce (kv_get ''next_offset'' (tab s)) 1) maxOffset = Some o'"
    and "kv_get ''next_offset'' (tab t) = Some (bump_offset o')" and "nodes (tab t) = nodes (tab s)"
proof -
  have "next_free (offset_taken (tab s)) (coalesce (kv_get ''next_offset'' (tab s)) 1) maxOffset = Some o' \<and>
      kv_get ''next_offset'' (tab t) = Some (bump_offset o') \<and> nodes (tab t) = nodes (tab s)"
    using assms unfolding GetNextAvailableOffset_def
  proof (cases rule: transaction_Inr)
    case (committed u v)
    from committed(1) obtain current w where lock: "lock_next_offset u = (Inr current, w)"
      and rest: "bnd (wrap_err ''no available IP offset'' (select_op (\<lambda>_ t. next_free (offset_taken t) current maxOffset))) (\<lambda>r. case r of
         None \<Rightarrow> throw (ErrMsg ''no available IP offset'')
       | Some foundOffset \<Rightarrow>
           let newOffset = (if foundOffset + 1 > maxOffset then 1 else foundOffset + 1) in
           bnd (wrap_err ''failed to update next_offset'' (modify_op (\<lambda>_ t. (kv_put ''next_offset'' newOffset t, ())))) (\<lambda>_.
           ret (TxCommit foundOffset))) w = (Inr (TxCommit o'), v)"
      unfolding bnd_Inr by blast
    from rest obtain r x where sel: "select_op (\<lambda>_ t. next_free (offset_taken t) current maxOffset) w = (Inr r, x)"
      and upd: "(case r of None \<Rightarrow> throw (ErrMsg ''no available IP offset'')
       | Some foundOffset \<Rightarrow>
           let newOffset = (if foundOffset + 1 > maxOffset then 1 else foundOffset + 1) in
           bnd (wrap_err ''failed to update next_offset'' (modify_op (\<lambda>_ t. (kv_put ''next_offset'' newOffset t, ())))) (\<lambda>_.
           ret (TxCommit foundOffset))) x = (Inr (TxCommit o'), v)"
      unfolding bnd_Inr wrap_Inr by blast
    note sel = select_Inr [OF sel]
    have "r = Some o' \<and> tab v = kv_put ''next_offset'' (bump_offset o') (tab x)"
      using upd unfolding bump_offset_def Let_def
      by (cases r) (auto simp: run_Inr dest!: modify_Inr(1))
    with sel have "next_free (offset_taken (tab w)) current maxOffset = Some o' \<and>
        tab v = kv_put ''next_offset'' (bump_offset o') (tab w)" by simp
    with lock_next_offset_Inr [OF lock] committed(2,4) show ?thesis
      by (simp add: offset_taken_nodes [of "tab w" "tab u"])
  next
    case (returned u v)
    then show ?thesis by (auto simp: run_Inr Let_def split: option.splits)
  qed
  then show "next_free (offset_taken (tab s)) (coalesce (kv_get ''next_offset'' (tab s)) 1) maxOffset = Some o'"
    "kv_get ''next_offset'' (tab t) = Some (bump_offset o')" "nodes (tab t) = nodes (tab s)" by blast+
qed

lemma successive_offsets:
  fixes s :: db
  defines "F \<equiv> free_offsets (offset_taken (tab s)) maxOffset"
  assumes "for_collect (\<lambda>_. GetNextAvailableOffset) (replicate k ()) s = (Inr os, t)"
  shows "length os = k \<and> (\<forall>i < k. os ! i =
    F ! ((cursor_pos (offset_taken (tab s)) maxOffset (coalesce (kv_get ''next_offset'' (tab s)) 1) + i) mod length F))"
  using assms(2) unfolding F_def
proof (induction k arbitrary: s os)
  case (Suc k)
  let ?F = "free_offsets (offset_taken (tab s)) maxOffset" and ?c = "coalesce (kv_get ''next_offset'' (tab s)) 1"
  let ?p = "cursor_pos (offset_taken (tab s)) maxOffset ?c"
  from Suc.prems obtain o' u os' where o': "GetNextAvailableOffset s = (Inr o', u)"
    and os': "for_collect (\<lambda>_. GetNextAvailableOffset) (replicate k ()) u = (Inr os', t)" and os: "os = o' # os'"
    by (auto simp: run_Inr)
  note call = GetNextAvailableOffset_Inr [OF o']
  have taken: "offset_taken (tab u) = offset_taken (tab s)" using call(3) by (rule offset_taken_nodes)
  have ne: "?F \<noteq> []" using call(1) next_free_None [of "offset_taken (tab s)" ?c maxOffset] by auto
  then have p: "?p < length ?F" by (simp add: cursor_pos_def)
  have first: "o' = ?F ! ?p" using next_free_nth [OF ne, of ?c] call(1) by simp
  have "cursor_pos (offset_taken (tab s)) maxOffset (bump_offset o') = Suc ?p mod length ?F"
    unfolding first by (rule cursor_bump [OF p])
  with Suc.IH [OF os'] call(2) taken have IH: "length os' = k"
    "\<And>i. i < k \<Longrightarrow> os' ! i = ?F ! ((Suc ?p mod length ?F + i) mod length ?F)"
    by (simp_all add: coalesce_def)
  have "os ! i = ?F ! ((?p + i) mod length ?F)" if "i < Suc k" for i
  proof (cases i)
    case (Suc j)
    with that IH(2) [of j] os show ?thesis by (simp add: mod_add_left_eq)
  qed (use os first p in simp)
  with IH(1) os show ?case by simp
qed (simp add: run_Inr)

lemma cyclic_distinct:
  fixes i j n p :: nat
  assumes "i < n" and "j < n" and "(p + i) mod n = (p + j) mod n"
  shows "i = j"
proof (rule ccontr)
  have less: False if "a < b" "b < n" "(p + a) mod n = (p + b) mod n" for a b
  proof -
    have "n dvd (p + b) - (p + a)" using that mod_eq_dvd_iff_nat [of "p + a" "p + b" n] by simp
    then have "n \<le> b - a" using that(1) dvd_imp_le [of n "b - a"] by simp
    with that show False by simp
  qed
  assume "i \<noteq> j"
  with assms less [of i j] less [of j i] show False by (metis linorder_neqE_nat)
qed

text \<open>
  (C27) Concurrent registrations get different addresses: as long as the nodes do not change, any
  number of successive calls of \<open>GetNextAvailableOffset\<close> up to the number of free offsets
  returns pairwise different offsets, each in range and not held by a node that is not deleted.
\<close>

theorem successive_offsets_distinct:
  assumes "for_collect (\<lambda>_. GetNextAvailableOffset) (replicate k ()) s = (Inr os, t)"
    and "k \<le> length (filter (\<lambda>o'. \<not> offset_taken (tab s) o') [1..maxOffset])"
  shows "length os = k \<and> distinct os \<and> (\<forall>o' \<in> set os. 1 \<le> o' \<and> o' \<le> 65534 \<and> \<not> offset_taken (tab s) o')"
proof -
  define F where "F = free_offsets (offset_taken (tab s)) maxOffset"
  define p where "p = cursor_pos (offset_taken (tab s)) maxOffset (coalesce (kv_get ''next_offset'' (tab s)) 1)"
  have k: "k \<le> length F" using assms(2) by (simp add: F_def free_offsets_def)
  have len: "length os = k" and nth: "\<And>i. i < k \<Longrightarrow> os ! i = F ! ((p + i) mod length F)"
    using successive_offsets [OF assms(1)] by (simp_all add: F_def p_def)
  have "distinct os"
    unfolding distinct_conv_nth
  proof (intro allI impI)
    fix i j assume ij: "i < length os" "j < length os" "i \<noteq> j"
    then have n: "0 < length F" using k len by linarith
    have "(p + i) mod length F \<noteq> (p + j) mod length F"
      using cyclic_distinct [of i "length F" j p] ij k len by linarith
    then show "os ! i \<noteq> os ! j"
      using nth ij len n free_offsets_sorted(2) [of "offset_taken (tab s)" maxOffset]
      by (simp add: F_def [symmetric] nth_eq_iff_index_eq)
  qed
  moreover have "1 \<le> o' \<and> o' \<le> 65534 \<and> \<not> offset_taken (tab s) o'" if "o' \<in> set os" for o'
  proof -
    from that obtain i where i: "i < k" "o' = F ! ((p + i) mod length F)" using len nth by (auto simp: in_set_conv_nth)
    then have "(p + i) mod length F < length F" using k by (intro mod_less_divisor) linarith
    with i(2) have "o' \<in> set F" by simp
    then show ?thesis by (simp add: F_def free_offsets_iff maxOffset_def)
  qed
  ultimately show ?thesis using len by blast
qed

lemma GetNextAvailableOffset_run:
  assumes "faults s = []" and "free_offsets (offset_taken (tab s)) maxOffset \<noteq> []"
  shows "\<exists>o' t. GetNextAvailableOffset s = (Inr o', t) \<and> faults t = []"
proof -
  let ?c = "coalesce (kv_get ''next_offset'' (tab s)) 1"
  have wrap: "m u = (Inr x, v) \<Longrightarrow> wrap_err what m u = (Inr x, v)" for what m u x v
    by (simp add: wrap_err_def bnd_def attempt_def ret_def)
  have lock: "\<exists>u. lock_next_offset s = (Inr ?c, u) \<and> faults u = [] \<and> nodes (tab u) = nodes (tab s)"
  proof (cases "kv_get ''next_offset'' (tab s)")
    case None
    let ?u = "s\<lparr>tab := kv_put ''next_offset'' 1 (tab s)\<rparr>"
    have "lock_next_offset s = (Inr 1, ?u)"
      unfolding lock_next_offset_def
      by (simp add: bnd_run(1) [OF wrap [OF select_run]] assms(1) None bnd_run(1) [OF wrap [OF modify_run]] ret_run)
    with None assms(1) show ?thesis by (simp add: coalesce_def)
  next
    case (Some c)
    then have "lock_next_offset s = (Inr c, s)"
      unfolding lock_next_offset_def by (simp add: bnd_run(1) [OF wrap [OF select_run]] assms(1) ret_run)
    with Some assms(1) show ?thesis by (simp add: coalesce_def)
  qed
  then obtain u where u: "lock_next_offset s = (Inr ?c, u)" "faults u = []" "nodes (tab u) = nodes (tab s)" by blast
  have "next_free (offset_taken (tab u)) ?c maxOffset \<noteq> None"
    using assms(2) u(3) by (simp add: next_free_None offset_taken_nodes [of "tab u" "tab s"])
  then obtain o' where o': "next_free (offset_taken (tab u)) ?c maxOffset = Some o'" by blast
  have "GetNextAvailableOffset s = (Inr o', u\<lparr>tab := kv_put ''next_offset'' (bump_offset o') (tab u)\<rparr>)"
    unfolding GetNextAvailableOffset_def
    by (rule transaction_commit_run)
       (simp_all add: assms(1) u bnd_def wrap_err_def attempt_def select_run modify_run o' Let_def
          bump_offset_def ret_run)
  then show ?thesis using u(2) by simp
qed


definition empty_db :: db where
  "empty_db = \<lparr>db_now = 0, go_now = 0, faults = [], uuid_of = itoa_nat, uuid_ctr = 0, tab = empty_tables\<rparr>"

lemma empty_db_free: "\<not> offset_taken (tab empty_db) o'"
  by (simp add: offset_taken_def empty_db_def empty_tables_def)


theorem successive_offsets_distinct_witness:
  "\<exists>a b t. for_collect (\<lambda>_. GetNextAvailableOffset) (replicate 2 ()) empty_db = (Inr [a, b], t) \<and> a \<noteq> b"
proof -
  have ne: "free_offsets (offset_taken t) maxOffset \<noteq> []" if "nodes t = []" for t
    using that by (simp add: free_offsets_def offset_taken_def maxOffset_def)
  obtain a u where a: "GetNextAvailableOffset empty_db = (Inr a, u)" "faults u = []"
    using GetNextAvailableOffset_run [of empty_db] ne by (auto simp: empty_db_def empty_tables_def)
  have "nodes (tab u) = []" using GetNextAvailableOffset_Inr(3) [OF a(1)] by (simp add: empty_db_def empty_tables_def)
  then obtain b v where b: "GetNextAvailableOffset u = (Inr b, v)"
    using GetNextAvailableOffset_run [OF a(2)] ne by blast
  have run: "for_collect (\<lambda>_. GetNextAvailableOffset) (replicate 2 ()) empty_db = (Inr [a, b], v)"
    by (simp add: numeral_2_eq_2 bnd_def a(1) b ret_run)
  have "filter (\<lambda>o'. \<not> offset_taken (tab empty_db) o') [1..maxOffset] = [1..maxOffset]"
    using empty_db_free by (intro filter_True) blast
  then have two: "2 \<le> length (filter (\<lambda>o'. \<not> offset_taken (tab empty_db) o') [1..maxOffset])"
    by (simp only: length_upto) (simp add: maxOffset_def)
  have "a \<noteq> b" using successive_offsets_distinct [OF run two] by simp
  with run show ?thesis by blast
qed

text \<open>
  Different offsets are different addresses: the 32-bit sum of the base address and an
  offset may wrap around, but two offsets below \<open>2^32\<close> never print the same address.
\<close>

theorem offsets_give_distinct_addresses:
  assumes "CalculateIP base i = Inr ip" and "CalculateIP base j = Inr ip"
    and "0 \<le> i" "i < 2 ^ 32" "0 \<le> j" "j < 2 ^ 32"
  shows "i = j"
proof -
  obtain b where b: "ParseIP base = Some b" using assms(1) by (auto simp: CalculateIP_def split: option.splits)
  have "string4 (ipToInt b + word_of_int i) = string4 (ipToInt b + word_of_int j)"
    using assms(1,2) b by (simp add: CalculateIP_def intToIp_def)
  then have "ParseAddr (string4 (ipToInt b + word_of_int i)) = ParseAddr (string4 (ipToInt b + word_of_int j))" by simp
  then have "(word_of_int i :: 32 word) = word_of_int j" by simp
  then have "uint (word_of_int i :: 32 word) = uint (word_of_int j :: 32 word)" by simp
  with assms(3-6) show ?thesis by (simp add: uint_word_of_int)
qed

theorem offsets_give_distinct_addresses_witness:
  "CalculateIP ''100.64.0.0'' 257 = Inr ''100.64.1.1'' \<and> CalculateIP ''100.64.0.0'' 258 \<noteq> Inr ''100.64.1.1''"
proof -
  have "CalculateIP ''100.64.0.0'' 257 = Inr ''100.64.1.1''" by code_simp
  with offsets_give_distinct_addresses [of "''100.64.0.0''" 257 "''100.64.1.1''" 258] show ?thesis by auto
qed

end
