(* ===== verification/Auth_Tokens.thy ===== *)
theory Auth_Tokens
  imports Node_Lifecycle Node_Store
begin

text \<open>
  The runtime tokens of the agents (\<^verbatim>\<open>internal/auth/runtime_token.go\<close>), the session tokens of the
  operators (\<^verbatim>\<open>internal/auth/jwt.go\<close>) and the interceptors in front of the agent service
  (\<^verbatim>\<open>internal/controller/grpc/auth_interceptor.go\<close>). Signing and reading a token is the work of the
  library \<^verbatim>\<open>golang-jwt\<close>, reading an identifier the work of \<^verbatim>\<open>google/uuid\<close>; both are parameters, and
  what the code relies on is stated as \<open>jwt_sound\<close> and \<open>jwt_round_trip\<close>.
\<close>

section \<open>The token library\<close>

record RegisteredClaims =
  rg_Issuer :: string
  rg_Subject :: string
  rg_ExpiresAt :: "time option"
  rg_IssuedAt :: "time option"

datatype jwt_method = SigningMethodHMAC string | OtherMethod string

text \<open>
  What \<^verbatim>\<open>ParseWithClaims\<close> reports: the sentinel \<^verbatim>\<open>jwt.ErrTokenExpired\<close>, another error of the
  library, the error of the key function, or several of these joined.
\<close>

datatype jwt_error = JwtErrTokenExpired | JwtErr string | JwtKeyErr err | JwtJoin "jwt_error list"

fun errors_Is :: "jwt_error \<Rightarrow> jwt_error \<Rightarrow> bool" where
  "errors_Is (JwtJoin es) target \<longleftrightarrow> JwtJoin es = target \<or> (\<exists>e \<in> set es. errors_Is e target)"
| "errors_Is e target \<longleftrightarrow> e = target"

text \<open>
  \<open>lib_ParseWithClaims now token keyfunc issuer\<close> gives the claims and \<^verbatim>\<open>token.Valid\<close>;
  \<open>lib_Verify\<close> is the signature check it makes with the method of the token and the key.
\<close>

record 'c jwt_lib =
  lib_NewNumericDate :: "time \<Rightarrow> time"
  lib_SignedString :: "string \<Rightarrow> 'c \<Rightarrow> err + string"
  lib_Verify :: "jwt_method \<Rightarrow> string \<Rightarrow> string \<Rightarrow> bool"
  lib_ParseWithClaims :: "time \<Rightarrow> string \<Rightarrow> (jwt_method \<Rightarrow> err + string) \<Rightarrow> string \<Rightarrow> jwt_error + 'c \<times> bool"

text \<open>
  What the library documents. Claims are returned only for a token whose signature holds under
  the key the key function gave for its method, that carries the wanted issuer and is not
  expired; a signed token with plain text in its claims reads back as it was signed.
\<close>

definition jwt_sound :: "('c \<Rightarrow> RegisteredClaims) \<Rightarrow> 'c jwt_lib \<Rightarrow> bool" where
  "jwt_sound reg lib \<longleftrightarrow> (\<forall>now tok kf iss c v. lib_ParseWithClaims lib now tok kf iss = Inr (c, v) \<longrightarrow>
     rg_Issuer (reg c) = iss \<and> (\<forall>e. rg_ExpiresAt (reg c) = Some e \<longrightarrow> now < e) \<and>
     (\<exists>m key. kf m = Inr key \<and> lib_Verify lib m key tok))"

definition jwt_round_trip :: "('c \<Rightarrow> RegisteredClaims) \<Rightarrow> ('c \<Rightarrow> bool) \<Rightarrow> 'c jwt_lib \<Rightarrow> bool" where
  "jwt_round_trip reg plain lib \<longleftrightarrow> (\<forall>now key c tok kf iss e. lib_SignedString lib key c = Inr tok \<and> plain c \<and>
     kf (SigningMethodHMAC ''HS256'') = Inr key \<and> rg_Issuer (reg c) = iss \<and> rg_ExpiresAt (reg c) = Some e \<and> now < e \<longrightarrow>
     lib_ParseWithClaims lib now tok kf iss = Inr (c, True))"

definition ErrInvalidToken :: err where "ErrInvalidToken = ErrMsg ''invalid token''"
definition ErrExpiredToken :: err where "ErrExpiredToken = ErrMsg ''token has expired''"
definition ErrJWTSecretNotConfigured :: err where
  "ErrJWTSecretNotConfigured = ErrMsg ''jwt secret is not configured''"
definition ErrRuntimeTokenSecretNotConfigured :: err where
  "ErrRuntimeTokenSecretNotConfigured = ErrMsg ''runtime token secret is not configured''"

text \<open>The text in single quotes, and \<^verbatim>\<open>strings.HasPrefix\<close>.\<close>

definition quoted :: "string \<Rightarrow> string" where
  "quoted s = [CHR 0x27] @ s @ [CHR 0x27]"

definition HasPrefix :: "string \<Rightarrow> string \<Rightarrow> bool" where
  "HasPrefix s p \<longleftrightarrow> take (length p) s = p"

text \<open>The key function of both packages refuses every method but HMAC.\<close>

definition hmac_only :: "(err + string) \<Rightarrow> jwt_method \<Rightarrow> err + string" where
  "hmac_only secret m = (case m of
       SigningMethodHMAC alg \<Rightarrow> secret
     | OtherMethod alg \<Rightarrow> Inl (ErrMsg (''unexpected signing method: '' @ alg)))"

section \<open>Runtime tokens\<close>

definition RuntimeTokenTTL :: time where "RuntimeTokenTTL = secs (24 * 60 * 60)"
definition RuntimeIssuer :: string where "RuntimeIssuer = ''aria-runtime''"
definition RuntimeTokenPrefix :: string where "RuntimeTokenPrefix = ''rt_''"

text \<open>The configured secret; a nil or empty byte slice is \<open>None\<close>.\<close>

definition getRuntimeSecret :: "string option \<Rightarrow> err + string" where
  "getRuntimeSecret secret = (case secret of None \<Rightarrow> Inl ErrRuntimeTokenSecretNotConfigured | Some k \<Rightarrow> Inr k)"

definition SetRuntimeSecret :: "string \<Rightarrow> string option" where
  "SetRuntimeSecret secret = (let trimmed = TrimSpace secret in if trimmed = '''' then None else Some trimmed)"

definition LoadRuntimeSecretFromEnv :: "(string \<Rightarrow> string) \<Rightarrow> string option \<times> (err + unit)" where
  "LoadRuntimeSecretFromEnv getenv =
     (let secret = TrimSpace (getenv ''ARIA_RUNTIME_TOKEN_SECRET'') in
      if secret = '''' then (SetRuntimeSecret '''', Inl ErrRuntimeTokenSecretNotConfigured)
      else (SetRuntimeSecret secret, Inr ()))"

record RuntimeClaims =
  rt_NodeID :: string
  rt_TenantID :: string
  rt_TokenVersion :: int
  rt_Registered :: RegisteredClaims

definition GenerateRuntimeTokenWithVersion ::
    "RuntimeClaims jwt_lib \<Rightarrow> string option \<Rightarrow> string \<Rightarrow> string \<Rightarrow> int \<Rightarrow> (string \<times> time) op" where
  "GenerateRuntimeTokenWithVersion lib secret nodeID tenantID tokenVersion =
     bnd time_Now (\<lambda>now.
     let expiresAt = now + RuntimeTokenTTL;
         claims = \<lparr>rt_NodeID = nodeID, rt_TenantID = tenantID, rt_TokenVersion = tokenVersion,
           rt_Registered = \<lparr>rg_Issuer = RuntimeIssuer, rg_Subject = nodeID,
             rg_ExpiresAt = Some (lib_NewNumericDate lib expiresAt), rg_IssuedAt = Some (lib_NewNumericDate lib now)\<rparr>\<rparr>
     in case getRuntimeSecret secret of
          Inl e \<Rightarrow> throw (ErrWrap ''failed to generate runtime token'' e)
        | Inr key \<Rightarrow> (case lib_SignedString lib key claims of
              Inl e \<Rightarrow> throw (ErrWrap ''failed to sign runtime token'' e)
            | Inr tok \<Rightarrow> ret (RuntimeTokenPrefix @ tok, expiresAt)))"

definition GenerateRuntimeToken ::
    "RuntimeClaims jwt_lib \<Rightarrow> string option \<Rightarrow> string \<Rightarrow> string \<Rightarrow> (string \<times> time) op" where
  "GenerateRuntimeToken lib secret nodeID tenantID = GenerateRuntimeTokenWithVersion lib secret nodeID tenantID 0"

definition ValidateRuntimeToken :: "RuntimeClaims jwt_lib \<Rightarrow> string option \<Rightarrow> string \<Rightarrow> RuntimeClaims op" where
  "ValidateRuntimeToken lib secret tokenString =
     (if \<not> HasPrefix tokenString RuntimeTokenPrefix then throw ErrInvalidToken
      else let jwtPart = drop (length RuntimeTokenPrefix) tokenString in
      case getRuntimeSecret secret of
        Inl e \<Rightarrow> throw e
      | Inr key \<Rightarrow> bnd time_Now (\<lambda>now.
          case lib_ParseWithClaims lib now jwtPart (hmac_only (Inr key)) RuntimeIssuer of
            Inl e \<Rightarrow> throw (if e = JwtErrTokenExpired then ErrExpiredToken else ErrInvalidToken)
          | Inr (claims, valid) \<Rightarrow> if valid then ret claims else throw ErrInvalidToken))"

section \<open>Session tokens\<close>

definition jwtIssuer :: string where "jwtIssuer = ''aria-controller''"

definition getSecret :: "string option \<Rightarrow> err + string" where
  "getSecret secret = (case secret of None \<Rightarrow> Inl ErrJWTSecretNotConfigured | Some k \<Rightarrow> Inr k)"

definition SetSecret :: "string \<Rightarrow> string option" where
  "SetSecret secret = (let trimmed = TrimSpace secret in if trimmed = '''' then None else Some trimmed)"

record Claims =
  cl_UserID :: string
  cl_Username :: string
  cl_Role :: string
  cl_TenantID :: string
  cl_MustChangePassword :: bool
  cl_TokenVersion :: int
  cl_Registered :: RegisteredClaims

definition GenerateTokenWithVersion ::
    "Claims jwt_lib \<Rightarrow> string option \<Rightarrow> string \<Rightarrow> string \<Rightarrow> string \<Rightarrow> string \<Rightarrow> int \<Rightarrow> bool list \<Rightarrow> string op" where
  "GenerateTokenWithVersion lib secret userID username role tenantID tokenVersion mustChangePassword =
     bnd time_Now (\<lambda>now.
     let expirationTime = now + secs (2 * 60 * 60);
         mcp = (case mustChangePassword of [] \<Rightarrow> False | b # _ \<Rightarrow> b);
         claims = \<lparr>cl_UserID = userID, cl_Username = username, cl_Role = role, cl_TenantID = tenantID,
           cl_MustChangePassword = mcp, cl_TokenVersion = tokenVersion,
           cl_Registered = \<lparr>rg_Issuer = jwtIssuer, rg_Subject = userID,
             rg_ExpiresAt = Some (lib_NewNumericDate lib expirationTime), rg_IssuedAt = Some (lib_NewNumericDate lib now)\<rparr>\<rparr>
     in case getSecret secret of
          Inl e \<Rightarrow> throw e
        | Inr key \<Rightarrow> (case lib_SignedString lib key claims of
              Inl e \<Rightarrow> throw (ErrWrap ''failed to sign token'' e)
            | Inr tok \<Rightarrow> ret tok))"

definition GenerateToken ::
    "Claims jwt_lib \<Rightarrow> string option \<Rightarrow> string \<Rightarrow> string \<Rightarrow> string \<Rightarrow> string \<Rightarrow> bool list \<Rightarrow> string op" where
  "GenerateToken lib secret userID username role tenantID mustChangePassword =
     GenerateTokenWithVersion lib secret userID username role tenantID 0 mustChangePassword"

definition ValidateToken :: "Claims jwt_lib \<Rightarrow> string option \<Rightarrow> string \<Rightarrow> Claims op" where
  "ValidateToken lib secret tokenString = bnd time_Now (\<lambda>now.
     case lib_ParseWithClaims lib now tokenString (hmac_only (getSecret secret)) jwtIssuer of
       Inl e \<Rightarrow> throw (if errors_Is e (JwtKeyErr ErrJWTSecretNotConfigured) then ErrJWTSecretNotConfigured
                  else if errors_Is e JwtErrTokenExpired then ErrExpiredToken
                  else ErrInvalidToken)
     | Inr (claims, valid) \<Rightarrow> if valid then ret claims else throw ErrInvalidToken)"

section \<open>The interceptors of the agent service\<close>

text \<open>
  The context of a call: what \<^verbatim>\<open>md.Get\<close> returns when there is metadata, and the values
  the interceptor adds under \<^verbatim>\<open>RuntimeNodeIDKey\<close> and \<^verbatim>\<open>RuntimeTenantIDKey\<close>.
\<close>

record rpc_context =
  ctx_md_Get :: "(string \<Rightarrow> string list) option"
  ctx_RuntimeNodeID :: "string option"
  ctx_RuntimeTenantID :: "string option"

definition GetRuntimeNodeID :: "rpc_context \<Rightarrow> string \<times> bool" where
  "GetRuntimeNodeID ctx = (case ctx_RuntimeNodeID ctx of None \<Rightarrow> ('''', False) | Some v \<Rightarrow> (v, True))"

definition GetRuntimeTenantID :: "rpc_context \<Rightarrow> string \<times> bool" where
  "GetRuntimeTenantID ctx = (case ctx_RuntimeTenantID ctx of None \<Rightarrow> ('''', False) | Some v \<Rightarrow> (v, True))"

definition extractBearerToken :: "rpc_context \<Rightarrow> err + string" where
  "extractBearerToken ctx = (case ctx_md_Get ctx of
       None \<Rightarrow> Inl (GrpcStatus Unauthenticated ''missing metadata'')
     | Some get \<Rightarrow> (case get ''authorization'' of
         [] \<Rightarrow> Inl (GrpcStatus Unauthenticated ''missing authorization header'')
       | value # _ \<Rightarrow>
           let authHeader = TrimSpace value in
           if \<not> HasPrefix (ToLower authHeader) ''bearer '' then Inl (GrpcStatus Unauthenticated ''invalid authorization format'')
           else let token = TrimSpace (drop (length ''bearer '') authHeader) in
             if token = '''' then Inl (GrpcStatus Unauthenticated ''invalid authorization format'')
             else Inr token))"

text \<open>\<open>store\<close> says whether the interceptor was given a store.\<close>

definition validateRuntimeTokenState ::
    "(string \<Rightarrow> uuid option) \<Rightarrow> bool \<Rightarrow> RuntimeClaims option \<Rightarrow> unit op" where
  "validateRuntimeTokenState uuid_Parse store claims =
     (if \<not> store then throw (GrpcStatus Internal ''runtime auth store unavailable'')
      else case claims of None \<Rightarrow> throw (GrpcStatus Unauthenticated ''invalid runtime token'') | Some claims \<Rightarrow>
      case uuid_Parse (TrimSpace (rt_NodeID claims)) of
        None \<Rightarrow> throw (GrpcStatus Unauthenticated ''invalid node_id in token'')
      | Some parsedNodeID \<Rightarrow> (case uuid_Parse (TrimSpace (rt_TenantID claims)) of
          None \<Rightarrow> throw (GrpcStatus Unauthenticated ''invalid tenant_id in token'')
        | Some parsedTenantID \<Rightarrow>
            bnd (attempt (GetNodeRuntimeAuthState parsedNodeID)) (\<lambda>r. case r of
                Inr (Some state) \<Rightarrow>
                  if ra_TenantID state \<noteq> parsedTenantID then throw (GrpcStatus PermissionDenied ''runtime token tenant mismatch'')
                  else if rt_TokenVersion claims \<noteq> ra_RuntimeTokenVersion state then
                    throw (GrpcStatus Unauthenticated ''runtime token revoked'')
                  else if ra_NodeStatus state \<in> {''deleted'', ''suspended'', ''banned''} then
                    throw (GrpcStatus PermissionDenied (''node access denied: status '' @ quoted (ra_NodeStatus state)))
                  else if \<not> EqualFold (TrimSpace (ra_TenantStatus state)) ''active'' then
                    throw (GrpcStatus PermissionDenied (''tenant is not active: status '' @ quoted (ra_TenantStatus state)))
                  else ret ()
              | _ \<Rightarrow> throw (GrpcStatus Unauthenticated ''node not found''))))"

definition isRegisterMethod :: "string \<Rightarrow> bool" where
  "isRegisterMethod fullMethod \<longleftrightarrow> fullMethod = ''/aria.agent.ControllerService/Register''"

text \<open>What both interceptors do between the check of the method and the handler.\<close>

definition runtime_auth ::
    "RuntimeClaims jwt_lib \<Rightarrow> string option \<Rightarrow> (string \<Rightarrow> uuid option) \<Rightarrow> bool \<Rightarrow> rpc_context \<Rightarrow> rpc_context op" where
  "runtime_auth lib secret uuid_Parse store ctx = (case extractBearerToken ctx of
       Inl e \<Rightarrow> throw e
     | Inr token \<Rightarrow> bnd (attempt (ValidateRuntimeToken lib secret token)) (\<lambda>r. case r of
           Inl e \<Rightarrow> throw (GrpcStatus Unauthenticated
             (if e = ErrExpiredToken then ''runtime token expired'' else ''invalid runtime token''))
         | Inr claims \<Rightarrow> bnd (validateRuntimeTokenState uuid_Parse store (Some claims)) (\<lambda>_.
             ret (ctx\<lparr>ctx_RuntimeNodeID := Some (rt_NodeID claims), ctx_RuntimeTenantID := Some (rt_TenantID claims)\<rparr>))))"

definition UnaryAuthInterceptor ::
    "RuntimeClaims jwt_lib \<Rightarrow> string option \<Rightarrow> (string \<Rightarrow> uuid option) \<Rightarrow> bool \<Rightarrow>
     rpc_context \<Rightarrow> string \<Rightarrow> (rpc_context \<Rightarrow> 'a op) \<Rightarrow> 'a op" where
  "UnaryAuthInterceptor lib secret uuid_Parse store ctx fullMethod handler =
     (if isRegisterMethod fullMethod then handler ctx
      else bnd (runtime_auth lib secret uuid_Parse store ctx) handler)"

text \<open>The handler of a stream sees the new context through the wrapped stream.\<close>

definition StreamAuthInterceptor ::
    "RuntimeClaims jwt_lib \<Rightarrow> string option \<Rightarrow> (string \<Rightarrow> uuid option) \<Rightarrow> bool \<Rightarrow>
     rpc_context \<Rightarrow> string \<Rightarrow> (rpc_context \<Rightarrow> unit op) \<Rightarrow> unit op" where
  "StreamAuthInterceptor lib secret uuid_Parse store ctx fullMethod handler =
     (if isRegisterMethod fullMethod then handler ctx
      else bnd (runtime_auth lib secret uuid_Parse store ctx) handler)"

section \<open>Who is let in\<close>

text \<open>
  The node a runtime token speaks for, as the tables have it: the claims name its identifier and
  its tenant, carry the version the node has now, the node is not stopped and its tenant active.
\<close>

definition admits :: "(string \<Rightarrow> uuid option) \<Rightarrow> tables \<Rightarrow> RuntimeClaims \<Rightarrow> node_row \<Rightarrow> bool" where
  "admits uuid_Parse t claims n \<longleftrightarrow>
     uuid_Parse (TrimSpace (rt_NodeID claims)) = Some (node_id n) \<and>
     uuid_Parse (TrimSpace (rt_TenantID claims)) = Some (node_tenant_id n) \<and>
     rt_TokenVersion claims = coalesce (node_runtime_token_version n) 0 \<and>
     \<not> stopped_status (TrimSpace (coalesce (node_status n) ''online'')) \<and>
     (\<exists>r \<in> set (tenants t). tenant_id r = node_tenant_id n \<and> EqualFold (TrimSpace (coalesce (tenant_status r) '''')) ''active'')"

lemma runtime_auth_state_Some:
  assumes "runtime_auth_state i t = Some st"
  obtains n r where "find (\<lambda>n. node_id n = i) (nodes t) = Some n" "find (\<lambda>r. tenant_id r = node_tenant_id n) (tenants t) = Some r"
    "st = \<lparr>ra_NodeID = node_id n, ra_TenantID = node_tenant_id n, ra_NodeStatus = TrimSpace (coalesce (node_status n) ''online''),
       ra_RuntimeTokenVersion = coalesce (node_runtime_token_version n) 0, ra_TenantStatus = TrimSpace (coalesce (tenant_status r) '''')\<rparr>"
  using assms unfolding runtime_auth_state_def by (auto split: option.splits)

text \<open>The state check reads and never writes; it succeeds for a node that \<open>admits\<close> describes.\<close>

lemma validateRuntimeTokenState_cases:
  assumes "validateRuntimeTokenState uuid_Parse store (Some claims) s = (r, t)"
  shows "tab t = tab s \<and> ((\<exists>code msg. r = Inl (GrpcStatus code msg)) \<or>
    (r = Inr () \<and> (\<exists>n \<in> set (nodes (tab s)). admits uuid_Parse (tab s) claims n)))"
proof (cases "store \<and> uuid_Parse (TrimSpace (rt_NodeID claims)) \<noteq> None \<and> uuid_Parse (TrimSpace (rt_TenantID claims)) \<noteq> None")
  case False
  with assms show ?thesis
    by (auto simp: validateRuntimeTokenState_def throw_def split: if_split_asm option.splits)
next
  case True
  then obtain i ten where ids: "uuid_Parse (TrimSpace (rt_NodeID claims)) = Some i"
      "uuid_Parse (TrimSpace (rt_TenantID claims)) = Some ten" by auto
  obtain g u where g: "GetNodeRuntimeAuthState i s = (g, u)" by fastforce
  have u: "tab u = tab s"
    using g unfolding GetNodeRuntimeAuthState_def by (rule select_cases)
  show ?thesis
  proof (cases "\<exists>st. g = Inr (Some st)")
    case False
    with assms True ids g u show ?thesis
      by (cases g) (auto simp: validateRuntimeTokenState_def bnd_def attempt_def throw_def split: option.splits)
  next
    case True
    then obtain st where st: "g = Inr (Some st)" by blast
    then have "runtime_auth_state i (tab s) = Some st"
      using g select_Inr(1) unfolding GetNodeRuntimeAuthState_def by force
    then obtain n r' where n: "find (\<lambda>n. node_id n = i) (nodes (tab s)) = Some n"
        and r': "find (\<lambda>r. tenant_id r = node_tenant_id n) (tenants (tab s)) = Some r'"
        and stv: "st = \<lparr>ra_NodeID = node_id n, ra_TenantID = node_tenant_id n,
          ra_NodeStatus = TrimSpace (coalesce (node_status n) ''online''),
          ra_RuntimeTokenVersion = coalesce (node_runtime_token_version n) 0,
          ra_TenantStatus = TrimSpace (coalesce (tenant_status r') '''')\<rparr>"
      by (rule runtime_auth_state_Some)
    show ?thesis
    proof (cases "\<exists>code msg. r = Inl (GrpcStatus code msg)")
      case True
      with assms \<open>store \<and> _\<close> ids g u st show ?thesis
        by (auto simp: validateRuntimeTokenState_def bnd_def attempt_def throw_def ret_def split: if_split_asm)
    next
      case False
      with assms \<open>store \<and> _\<close> ids g u st
      have "r = Inr ()" "t = u" "ra_TenantID st = ten" "rt_TokenVersion claims = ra_RuntimeTokenVersion st"
        "ra_NodeStatus st \<notin> {''deleted'', ''suspended'', ''banned''}" "EqualFold (TrimSpace (ra_TenantStatus st)) ''active''"
        by (auto simp: validateRuntimeTokenState_def bnd_def attempt_def throw_def ret_def split: if_split_asm)
      with ids u stv find_SomeD [OF n] find_SomeD [OF r'] show ?thesis
        by (auto simp: admits_def stopped_status_def intro!: bexI [of _ n])
    qed
  qed
qed

lemma ValidateRuntimeToken_state: "ValidateRuntimeToken lib secret tok s = (r, t) \<Longrightarrow> t = s"
  by (auto simp: ValidateRuntimeToken_def bnd_def time_Now_def throw_def ret_def Let_def
      split: if_split_asm sum.splits prod.splits)

lemma ValidateRuntimeToken_Inr:
  assumes "ValidateRuntimeToken lib secret tok s = (Inr claims, t)"
  obtains key jwt where "secret = Some key" "tok = RuntimeTokenPrefix @ jwt"
    "lib_ParseWithClaims lib (go_now s) jwt (hmac_only (Inr key)) RuntimeIssuer = Inr (claims, True)"
proof -
  from assms have p: "HasPrefix tok RuntimeTokenPrefix" and "secret \<noteq> None"
    by (auto simp: ValidateRuntimeToken_def getRuntimeSecret_def throw_def Let_def split: if_split_asm option.splits)
  then obtain key where key: "secret = Some key" by auto
  let ?jwt = "drop (length RuntimeTokenPrefix) tok"
  have "tok = RuntimeTokenPrefix @ ?jwt" using p unfolding HasPrefix_def by (metis append_take_drop_id)
  moreover have "lib_ParseWithClaims lib (go_now s) ?jwt (hmac_only (Inr key)) RuntimeIssuer = Inr (claims, True)"
    using assms p key by (auto simp: ValidateRuntimeToken_def getRuntimeSecret_def bnd_def time_Now_def throw_def ret_def Let_def
        split: if_split_asm sum.splits prod.splits)
  ultimately show ?thesis by (rule that [OF key])
qed

lemma hmac_only_Inr: "hmac_only (Inr key) m = Inr k \<Longrightarrow> k = key \<and> (\<exists>alg. m = SigningMethodHMAC alg)"
  by (auto simp: hmac_only_def split: jwt_method.splits)

lemma runtime_auth_cases:
  assumes "jwt_sound rt_Registered lib" and "runtime_auth lib secret uuid_Parse store ctx s = (r, t)"
  shows "tab t = tab s \<and> ((\<exists>code msg. r = Inl (GrpcStatus code msg)) \<or>
    (\<exists>key jwt alg claims n. secret = Some key \<and> extractBearerToken ctx = Inr (RuntimeTokenPrefix @ jwt) \<and>
       lib_Verify lib (SigningMethodHMAC alg) key jwt \<and>
       (\<forall>e. rg_ExpiresAt (rt_Registered claims) = Some e \<longrightarrow> go_now s < e) \<and>
       n \<in> set (nodes (tab s)) \<and> admits uuid_Parse (tab s) claims n \<and>
       r = Inr (ctx\<lparr>ctx_RuntimeNodeID := Some (rt_NodeID claims), ctx_RuntimeTenantID := Some (rt_TenantID claims)\<rparr>)))"
proof (cases "extractBearerToken ctx")
  case (Inl e)
  with assms(2) have "r = Inl e" "t = s" by (auto simp: runtime_auth_def throw_def)
  moreover from Inl have "\<exists>code msg. e = GrpcStatus code msg"
    by (auto simp: extractBearerToken_def Let_def split: option.splits list.splits if_split_asm)
  ultimately show ?thesis by blast
next
  case (Inr tok)
  obtain q u where q: "ValidateRuntimeToken lib secret tok s = (q, u)" by fastforce
  then have us: "u = s" by (rule ValidateRuntimeToken_state)
  show ?thesis
  proof (cases q)
    case (Inl e)
    with assms(2) Inr q us show ?thesis by (auto simp: runtime_auth_def bnd_def attempt_def throw_def)
  next
    fix claims assume qc: "q = Inr claims"
    obtain key jwt where key: "secret = Some key" and jwt: "tok = RuntimeTokenPrefix @ jwt"
        and parse: "lib_ParseWithClaims lib (go_now s) jwt (hmac_only (Inr key)) RuntimeIssuer = Inr (claims, True)"
      using q unfolding qc by (rule ValidateRuntimeToken_Inr)
    from assms(1) parse obtain m k where "hmac_only (Inr key) m = Inr k" "lib_Verify lib m k jwt"
        and fresh: "\<forall>e. rg_ExpiresAt (rt_Registered claims) = Some e \<longrightarrow> go_now s < e"
      unfolding jwt_sound_def by blast
    then obtain alg where sig: "lib_Verify lib (SigningMethodHMAC alg) key jwt" using hmac_only_Inr by blast
    obtain w v where w: "validateRuntimeTokenState uuid_Parse store (Some claims) s = (w, v)" by fastforce
    have out: "(r, t) = (case w of Inl e \<Rightarrow> (Inl e, v)
        | Inr _ \<Rightarrow> (Inr (ctx\<lparr>ctx_RuntimeNodeID := Some (rt_NodeID claims), ctx_RuntimeTenantID := Some (rt_TenantID claims)\<rparr>), v))"
      using assms(2) Inr q us qc w by (cases w) (auto simp: runtime_auth_def bnd_def attempt_def ret_def)
    from validateRuntimeTokenState_cases [OF w] have v: "tab v = tab s" and
      "(\<exists>code msg. w = Inl (GrpcStatus code msg)) \<or> (w = Inr () \<and> (\<exists>n \<in> set (nodes (tab s)). admits uuid_Parse (tab s) claims n))"
      by blast+
    then show ?thesis
    proof (elim disjE exE conjE bexE)
      fix code msg assume "w = Inl (GrpcStatus code msg)"
      with out v show ?thesis by simp
    next
      fix n assume "w = Inr ()" "n \<in> set (nodes (tab s))" "admits uuid_Parse (tab s) claims n"
      with out v key jwt sig fresh Inr show ?thesis by auto
    qed
  qed
qed


text \<open>
  A tenant that is suspended or deleted is locked out of the agent service at once: every
  call with a token of that tenant is answered with a status, its handler does not run and
  nothing is written, however long the token is still valid.
\<close>

theorem stopped_tenant_calls_refused:
  assumes "ApplyTenantLifecycleTransition tenant tr s = (Inr (), t)"
    and "ToLower (TrimSpace (tt_TargetStatus tr)) = ''suspended'' \<or> ToLower (TrimSpace (tt_TargetStatus tr)) = ''deleted''"
    and "tab u = tab t" and "\<not> isRegisterMethod fullMethod"
    and "extractBearerToken ctx = Inr tok" and "ValidateRuntimeToken lib secret tok u = (Inr claims, u)"
    and "uuid_Parse (TrimSpace (rt_TenantID claims)) = Some tenant"
    and "UnaryAuthInterceptor lib secret uuid_Parse store ctx fullMethod handler u = (r, v)"
  shows "(\<exists>code msg. r = Inl (GrpcStatus code msg)) \<and> tab v = tab u"
proof -
  let ?target = "ToLower (TrimSpace (tt_TargetStatus tr))"
  have stopped: "\<forall>r \<in> set (tenants (tab u)). tenant_id r = tenant \<longrightarrow> tenant_status r = Some ?target"
    unfolding assms(3) by (rule stopped_tenant [OF assms(1) refl assms(2), THEN conjunct1])
  have "\<not> EqualFold (TrimSpace ?target) ''active''"
    using assms(2) by (elim disjE) (simp_all only:, code_simp+)
  with stopped assms(7) have none: "\<not> admits uuid_Parse (tab u) claims n" for n
    by (auto simp: admits_def coalesce_def)
  obtain w x where w: "validateRuntimeTokenState uuid_Parse store (Some claims) u = (w, x)" by fastforce
  with validateRuntimeTokenState_cases [OF w] none obtain code msg where "w = Inl (GrpcStatus code msg)" "tab x = tab u" by blast
  moreover from this w assms(4-6,8) have "r = Inl (GrpcStatus code msg)" "v = x"
    by (auto simp: UnaryAuthInterceptor_def runtime_auth_def bnd_def attempt_def)
  ultimately show ?thesis by blast
qed

text \<open>A header \<^verbatim>\<open>Bearer\<close> with a token of visible characters reads back as that token.\<close>

definition visible :: "char \<Rightarrow> bool" where
  "visible c \<longleftrightarrow> 33 \<le> (of_char c :: nat) \<and> (of_char c :: nat) \<le> 126"

lemma visible_no_space: "visible c \<Longrightarrow> c \<notin> \<Union> (set ` set space_runes)"
  by (auto simp: visible_def space_runes_def)

lemma TrimSpace_visible: "list_all visible s \<Longrightarrow> TrimSpace s = s"
  using visible_no_space by (intro TrimSpace_no_space) (auto simp: list_all_iff)

lemma head_len_visible:
  assumes "visible c" and "\<And>r. r \<in> set rs \<Longrightarrow> r \<noteq> [] \<and> set r \<subseteq> \<Union> (set ` set space_runes)"
  shows "head_len rs (c # cs) = 0"
proof -
  have "[] \<notin> set rs" using assms(2) by blast
  moreover have "take (length r) (c # cs) \<noteq> r" if "r \<in> set rs" for r
    using assms(2) [OF that] visible_no_space [OF assms(1)] by (cases r) auto
  ultimately show ?thesis by (simp add: head_len_zero_iff)
qed

lemma TrimSpace_visible_ends:
  assumes "visible a" and "visible b" and "s = a # u @ [b]"
  shows "TrimSpace s = s"
proof (rule TrimSpace_id)
  have *: "r \<noteq> [] \<and> set r \<subseteq> \<Union> (set ` set space_runes)" if "r \<in> set space_runes" for r
    using that space_runes_nonempty(1) by auto
  show "head_len space_runes s = 0"
    unfolding assms(3) append_Cons using assms(1) * by (rule head_len_visible)
  have "r \<noteq> [] \<and> set r \<subseteq> \<Union> (set ` set space_runes)" if "r \<in> set (map rev space_runes)" for r
    using that * by auto
  with assms(2) have "head_len (map rev space_runes) (b # rev (a # u)) = 0" by (rule head_len_visible)
  then show "head_len (map rev space_runes) (rev s) = 0" by (simp add: assms(3))
qed

lemma lower_B: "ascii_lower CHR ''B'' = CHR ''b''" "ascii_lower CHR ''e'' = CHR ''e''" "ascii_lower CHR ''a'' = CHR ''a''"
    "ascii_lower CHR ''r'' = CHR ''r''" "ascii_lower CHR '' '' = CHR '' ''"
  by code_simp+

lemma bearer_header:
  assumes "tok \<noteq> []" and "list_all visible tok"
  shows "extractBearerToken (ctx\<lparr>ctx_md_Get := Some (\<lambda>k. if k = ''authorization'' then [''Bearer '' @ tok] else [])\<rparr>) = Inr tok"
proof -
  have "tok = butlast tok @ [last tok]" "visible (last tok)"
    using assms by (auto simp: list_all_iff)
  then have "TrimSpace (''Bearer '' @ tok) = ''Bearer '' @ tok"
    by (intro TrimSpace_visible_ends [where a = "CHR ''B''" and b = "last tok" and u = "''earer '' @ butlast tok"])
      (simp_all add: visible_def)
  moreover have "HasPrefix (ToLower (''Bearer '' @ tok)) ''bearer ''"
    by (simp add: HasPrefix_def lower_B)
  ultimately show ?thesis using assms by (simp add: extractBearerToken_def TrimSpace_visible)
qed

definition plain_claims :: "RuntimeClaims \<Rightarrow> bool" where
  "plain_claims c \<longleftrightarrow> list_all visible (rt_NodeID c) \<and> list_all visible (rt_TenantID c)"


section \<open>Examples\<close>

text \<open>
  A library that knows one token, signed with one key: it shows that what is documented of the
  token library can hold.
\<close>

definition one_token_lib :: "('c \<Rightarrow> RegisteredClaims) \<Rightarrow> string \<Rightarrow> 'c \<Rightarrow> 'c jwt_lib" where
  "one_token_lib reg key c = \<lparr>lib_NewNumericDate = (\<lambda>x. x - x mod secs 1),
     lib_SignedString = (\<lambda>k c'. if k = key \<and> c' = c then Inr ''jwt'' else Inl (ErrMsg ''sign'')),
     lib_Verify = (\<lambda>m k tok. k = key \<and> tok = ''jwt''),
     lib_ParseWithClaims = (\<lambda>now tok kf iss.
       if tok \<noteq> ''jwt'' then Inl (JwtErr ''malformed'')
       else case kf (SigningMethodHMAC ''HS256'') of
           Inl e \<Rightarrow> Inl (JwtJoin [JwtErr ''unverifiable'', JwtKeyErr e])
         | Inr k \<Rightarrow> if k \<noteq> key then Inl (JwtErr ''signature'')
             else if rg_Issuer (reg c) \<noteq> iss then Inl (JwtErr ''issuer'')
             else case rg_ExpiresAt (reg c) of
                 None \<Rightarrow> Inl (JwtErr ''expiry'')
               | Some e \<Rightarrow> if now < e then Inr (c, True) else Inl (JwtJoin [JwtErr ''claims'', JwtErrTokenExpired]))\<rparr>"

lemma one_token_lib_sound: "jwt_sound reg (one_token_lib reg key c)"
  unfolding jwt_sound_def one_token_lib_def by (auto split: if_split_asm sum.splits option.splits)

lemma one_token_lib_round_trip: "jwt_round_trip reg plain (one_token_lib reg key c)"
  unfolding jwt_round_trip_def one_token_lib_def by (auto split: if_split_asm)

definition sample_claims :: RuntimeClaims where
  "sample_claims = \<lparr>rt_NodeID = ''n1'', rt_TenantID = ''t1'', rt_TokenVersion = 2,
     rt_Registered = \<lparr>rg_Issuer = ''aria-runtime'', rg_Subject = ''n1'', rg_ExpiresAt = Some 86400000000, rg_IssuedAt = Some 0\<rparr>\<rparr>"

definition sample_lib :: "RuntimeClaims jwt_lib" where
  "sample_lib = one_token_lib rt_Registered ''k'' sample_claims"

definition sample_rpc :: rpc_context where
  "sample_rpc = \<lparr>ctx_md_Get = Some (\<lambda>k. if k = ''authorization'' then [''Bearer rt_jwt''] else []),
     ctx_RuntimeNodeID = None, ctx_RuntimeTenantID = None\<rparr>"

lemma sample_lib_contract: "jwt_sound rt_Registered sample_lib" "jwt_round_trip rt_Registered plain sample_lib"
  unfolding sample_lib_def by (rule one_token_lib_sound one_token_lib_round_trip)+


theorem stopped_tenant_calls_refused_witness:
  "\<exists>t code msg. ApplyTenantLifecycleTransition ''t1'' \<lparr>tt_TargetStatus = ''suspended'', tt_AuditEventType = '''',
       tt_AuditActor = '''', tt_AuditSummary = '''', tt_AuditDetail = []\<rparr> sample_tenant_db = (Inr (), t) \<and>
     fst (UnaryAuthInterceptor sample_lib (Some ''k'') Some True sample_rpc ''/aria.agent.ControllerService/Sync'' (\<lambda>_. ret ()) t)
       = Inl (GrpcStatus code msg)"
proof -
  let ?tr = "\<lparr>tt_TargetStatus = ''suspended'', tt_AuditEventType = '''',
       tt_AuditActor = '''', tt_AuditSummary = '''', tt_AuditDetail = []\<rparr>"
  let ?stop = "ApplyTenantLifecycleTransition ''t1'' ?tr sample_tenant_db"
  let ?call = "UnaryAuthInterceptor sample_lib (Some ''k'') Some True sample_rpc ''/aria.agent.ControllerService/Sync'' (\<lambda>_. ret ()) (snd ?stop)"
  have 1: "?stop = (Inr (), snd ?stop)"
    by (rule prod_eqI) (simp_all add: lifecycle_eval lifecycle_trim eval_defs cong: eval_congs)
  have 2: "ToLower (TrimSpace (tt_TargetStatus ?tr)) = ''suspended'' \<or> ToLower (TrimSpace (tt_TargetStatus ?tr)) = ''deleted''"
    by (simp add: lifecycle_trim)
  have 3: "\<not> isRegisterMethod ''/aria.agent.ControllerService/Sync''" by code_simp
  have 4: "extractBearerToken sample_rpc = Inr ''rt_jwt''" by code_simp
  have "fst (ValidateRuntimeToken sample_lib (Some ''k'') ''rt_jwt'' (snd ?stop)) = Inr sample_claims"
    by (simp add: lifecycle_eval lifecycle_trim eval_defs ValidateRuntimeToken_def sample_lib_def one_token_lib_def cong: eval_congs) code_simp
  then have 5: "ValidateRuntimeToken sample_lib (Some ''k'') ''rt_jwt'' (snd ?stop) = (Inr sample_claims, snd ?stop)"
    using ValidateRuntimeToken_state by (metis prod.collapse)
  have 6: "Some (TrimSpace (rt_TenantID sample_claims)) = Some ''t1''" by code_simp
  obtain r v where 7: "?call = (r, v)" by fastforce
  have "(\<exists>code msg. r = Inl (GrpcStatus code msg)) \<and> tab v = tab (snd ?stop)"
    by (rule stopped_tenant_calls_refused [where uuid_Parse = Some, OF 1 2 refl 3 4 5 6 7])
  with 1 7 show ?thesis by (intro exI [of _ "snd ?stop"]) auto
qed


end
