(* ===== verification/Tenant_Scope.thy ===== *)
theory Tenant_Scope
  imports Auth_Tokens
begin

text \<open>
  The middleware in front of the HTTP API (\<^verbatim>\<open>internal/api/middleware\<close>): who a request speaks for,
  in which tenant it runs, and the storage that reads and writes only that tenant's nodes
  (\<^verbatim>\<open>TenantScopedStorage\<close>).
\<close>

section \<open>Requests\<close>

text \<open>A value stored in a context under the tenant key: a \<^verbatim>\<open>uuid.UUID\<close>, a string, anything else.\<close>

datatype ctx_value = CtxUUID uuid | CtxString string | CtxOther

record http_context =
  hc_UserID :: "string option"
  hc_Username :: "string option"
  hc_UserRole :: "string option"
  hc_TenantID :: "ctx_value option"

record http_request =
  rq_Header_Get :: "string \<Rightarrow> string"
  rq_URL_Path :: string
  rq_Context :: http_context

text \<open>An answer: \<^verbatim>\<open>apibase.WriteError\<close>, \<^verbatim>\<open>http.Error\<close>, or what the handler makes of the request.\<close>

datatype 'a reply = WriteError int string string | HttpError int string | Reply 'a

definition GetUserID :: "http_context \<Rightarrow> string \<times> bool" where
  "GetUserID ctx = (case hc_UserID ctx of None \<Rightarrow> ('''', False) | Some v \<Rightarrow> (v, True))"

definition GetUsername :: "http_context \<Rightarrow> string \<times> bool" where
  "GetUsername ctx = (case hc_Username ctx of None \<Rightarrow> ('''', False) | Some v \<Rightarrow> (v, True))"

definition GetUserRole :: "http_context \<Rightarrow> string \<times> bool" where
  "GetUserRole ctx = (case hc_UserRole ctx of None \<Rightarrow> ('''', False) | Some v \<Rightarrow> (v, True))"

text \<open>\<open>None\<close> is the pair \<^verbatim>\<open>uuid.Nil, false\<close>.\<close>

definition GetTenantID :: "(string \<Rightarrow> uuid option) \<Rightarrow> http_context \<Rightarrow> uuid option" where
  "GetTenantID uuid_Parse ctx = (case hc_TenantID ctx of
       None \<Rightarrow> None
     | Some (CtxUUID i) \<Rightarrow> Some i
     | Some (CtxString str) \<Rightarrow> (if str \<noteq> '''' then uuid_Parse str else None)
     | Some CtxOther \<Rightarrow> None)"

section \<open>Sessions\<close>

definition mcpWhitelist :: "string list" where
  "mcpWhitelist = [''/api/v2/auth/force-change-password'', ''/api/v2/auth/login'', ''/api/v2/auth/refresh'',
     ''/api/v2/auth/logout'', ''/api/v2/auth/permissions'']"

definition containsPath :: "string list \<Rightarrow> string \<Rightarrow> bool" where
  "containsPath paths path \<longleftrightarrow> path \<in> set paths"

text \<open>\<^verbatim>\<open>strings.SplitN(trimmed, " ", 2)\<close> has two parts when there is a space.\<close>

definition extractHTTPAuthorizationToken :: "string \<Rightarrow> string" where
  "extractHTTPAuthorizationToken authHeader =
     (let trimmed = TrimSpace authHeader in
      case Index CHR '' '' trimmed of
        None \<Rightarrow> trimmed
      | Some i \<Rightarrow> if EqualFold (take i trimmed) ''Bearer'' then TrimSpace (drop (Suc i) trimmed) else trimmed)"

text \<open>The tenant of the session, as \<^verbatim>\<open>jwtAuthMiddleware\<close> puts it into the context.\<close>

definition with_claims_tenant :: "(string \<Rightarrow> uuid option) \<Rightarrow> Claims \<Rightarrow> http_context \<Rightarrow> http_context" where
  "with_claims_tenant uuid_Parse claims ctx =
     (if cl_TenantID claims = '''' then ctx
      else case uuid_Parse (cl_TenantID claims) of None \<Rightarrow> ctx | Some tid \<Rightarrow> ctx\<lparr>hc_TenantID := Some (CtxUUID tid)\<rparr>)"

definition session_context :: "(string \<Rightarrow> uuid option) \<Rightarrow> Claims \<Rightarrow> http_request \<Rightarrow> http_context" where
  "session_context uuid_Parse claims r =
     (let ctx = (rq_Context r)\<lparr>hc_UserID := Some (cl_UserID claims), hc_Username := Some (cl_Username claims),
            hc_UserRole := Some (cl_Role claims)\<rparr>;
          tenantIDHeader = rq_Header_Get r ''X-Tenant-ID''
      in if cl_Role claims = ''super_admin'' \<and> tenantIDHeader \<noteq> '''' then
           (case uuid_Parse tenantIDHeader of
              Some tid \<Rightarrow> ctx\<lparr>hc_TenantID := Some (CtxUUID tid)\<rparr>
            | None \<Rightarrow> with_claims_tenant uuid_Parse claims ctx)
         else with_claims_tenant uuid_Parse claims ctx)"

text \<open>The check of the stored version, made when there is a store.\<close>

definition session_version :: "(string \<Rightarrow> uuid option) \<Rightarrow> bool \<Rightarrow> Claims \<Rightarrow> 'a reply option op" where
  "session_version uuid_Parse store claims =
     (if \<not> store then ret None
      else bnd (attempt (GetUserTokenVersion uuid_Parse (cl_UserID claims))) (\<lambda>r. case r of
          Inl e \<Rightarrow> ret (Some (if e = ErrNoRows then WriteError 401 ''INVALID_TOKEN'' ''Invalid token''
                    else WriteError 500 ''INTERNAL_ERROR'' ''Failed to verify token state''))
        | Inr currentVersion \<Rightarrow> ret (if cl_TokenVersion claims \<noteq> currentVersion
            then Some (WriteError 401 ''INVALID_TOKEN'' ''Invalid token'') else None)))"

definition jwtAuthMiddleware ::
    "Claims jwt_lib \<Rightarrow> string option \<Rightarrow> (string \<Rightarrow> uuid option) \<Rightarrow> (http_context \<Rightarrow> 'a reply op) \<Rightarrow> bool \<Rightarrow>
     http_request \<Rightarrow> 'a reply op" where
  "jwtAuthMiddleware lib secret uuid_Parse handler store r =
     (let authHeader = rq_Header_Get r ''Authorization'' in
      if authHeader = '''' then ret (WriteError 401 ''AUTH_HEADER_REQUIRED'' ''Authorization header required'')
      else let tokenString = extractHTTPAuthorizationToken authHeader in
      if tokenString = '''' then ret (WriteError 401 ''INVALID_TOKEN'' ''Invalid token format'')
      else bnd (attempt (ValidateToken lib secret tokenString)) (\<lambda>v. case v of
          Inl e \<Rightarrow> ret (WriteError 401 ''INVALID_TOKEN'' (if e = ErrExpiredToken then ''Token has expired'' else ''Invalid token''))
        | Inr claims \<Rightarrow> bnd (session_version uuid_Parse store claims) (\<lambda>refusal. case refusal of
              Some reply \<Rightarrow> ret reply
            | None \<Rightarrow>
                if cl_MustChangePassword claims \<and> \<not> containsPath mcpWhitelist (rq_URL_Path r) then
                  ret (WriteError 403 ''FORBIDDEN'' ''You must change your password before proceeding'')
                else handler (session_context uuid_Parse claims r))))"

definition JWTAuthMiddleware ::
    "Claims jwt_lib \<Rightarrow> string option \<Rightarrow> (string \<Rightarrow> uuid option) \<Rightarrow> (http_context \<Rightarrow> 'a reply op) \<Rightarrow> http_request \<Rightarrow> 'a reply op" where
  "JWTAuthMiddleware lib secret uuid_Parse handler = jwtAuthMiddleware lib secret uuid_Parse handler False"

definition JWTAuthMiddlewareWithStore ::
    "Claims jwt_lib \<Rightarrow> string option \<Rightarrow> (string \<Rightarrow> uuid option) \<Rightarrow> (http_context \<Rightarrow> 'a reply op) \<Rightarrow> http_request \<Rightarrow> 'a reply op" where
  "JWTAuthMiddlewareWithStore lib secret uuid_Parse handler = jwtAuthMiddleware lib secret uuid_Parse handler True"

text \<open>The tenant of a join token; a NULL column scans into \<^verbatim>\<open>uuid.Nil\<close>.\<close>

definition FromToken :: "(http_context \<Rightarrow> 'a reply op) \<Rightarrow> http_request \<Rightarrow> 'a reply op" where
  "FromToken handler r =
     (let authHeader = rq_Header_Get r ''Authorization'' in
      if authHeader = '''' then ret (HttpError 401 ''Authorization header required'')
      else let tokenStr = extractHTTPAuthorizationToken authHeader in
      bnd (attempt (select_op (\<lambda>_ t. find (\<lambda>k. tok_token k = tokenStr \<and> tok_status k = ''active'') (tokens t)))) (\<lambda>q. case q of
          Inr (Some k) \<Rightarrow> handler ((rq_Context r)\<lparr>hc_TenantID := Some (CtxUUID (coalesce (tok_tenant_id k) uuid_Nil))\<rparr>)
        | _ \<Rightarrow> ret (HttpError 401 ''Invalid or expired token'')))"

section \<open>Storage of one tenant\<close>

definition no_tenant :: err where
  "no_tenant = ErrMsg ''tenant ID not found in context''"

definition GetTenantNodes :: "(string \<Rightarrow> uuid option) \<Rightarrow> http_context \<Rightarrow> Node list op" where
  "GetTenantNodes uuid_Parse ctx = (case GetTenantID uuid_Parse ctx of
       None \<Rightarrow> throw no_tenant
     | Some tenantID \<Rightarrow> scanNodeListRows (newest_nodes (\<lambda>r. node_tenant_id r = tenantID)))"

definition GetTenantNode :: "(string \<Rightarrow> uuid option) \<Rightarrow> http_context \<Rightarrow> string \<Rightarrow> Node option op" where
  "GetTenantNode uuid_Parse ctx publicKey = (case GetTenantID uuid_Parse ctx of
       None \<Rightarrow> throw no_tenant
     | Some tenantID \<Rightarrow> scanNode (\<lambda>r. node_public_key r = publicKey \<and> node_tenant_id r = tenantID))"

definition SaveNodeWithTenant :: "(string \<Rightarrow> uuid option) \<Rightarrow> http_context \<Rightarrow> Node \<Rightarrow> Node op" where
  "SaveNodeWithTenant uuid_Parse ctx node = (case GetTenantID uuid_Parse ctx of
       None \<Rightarrow> throw no_tenant
     | Some tenantID \<Rightarrow> SaveNode (Some (node\<lparr>nd_TenantID := tenantID\<rparr>)))"

definition scoped_GetAllNodes :: "(string \<Rightarrow> uuid option) \<Rightarrow> http_context \<Rightarrow> Node list op" where
  "scoped_GetAllNodes uuid_Parse ctx = (case GetTenantID uuid_Parse ctx of
       None \<Rightarrow> throw (ErrMsg ''tenant ID not found in context, rejecting full dump request'')
     | Some tenantID \<Rightarrow> scanNodeListRows (newest_nodes (\<lambda>r. node_tenant_id r = tenantID)))"

definition scoped_GetNodeCount :: "(string \<Rightarrow> uuid option) \<Rightarrow> http_context \<Rightarrow> int op" where
  "scoped_GetNodeCount uuid_Parse ctx = (case GetTenantID uuid_Parse ctx of
       None \<Rightarrow> throw no_tenant
     | Some tenantID \<Rightarrow> select_op (\<lambda>_ t. int (affected (\<lambda>r. node_tenant_id r = tenantID) (nodes t))))"

definition GetTenantIDByPublicKey :: "string \<Rightarrow> uuid op" where
  "GetTenantIDByPublicKey publicKey =
     bnd (select_op (\<lambda>_ t. find (\<lambda>r. node_public_key r = publicKey) (nodes t))) (\<lambda>r. case r of
         None \<Rightarrow> throw ErrNoRows
       | Some r \<Rightarrow> ret (node_tenant_id r))"

definition UpdateTenantResourceQuota :: "uuid \<Rightarrow> string \<Rightarrow> unit op" where
  "UpdateTenantResourceQuota tenantID quota = modify_op (\<lambda>now t.
     (t\<lparr>tenants := update_where (\<lambda>r. tenant_id r = tenantID)
          (\<lambda>r. r\<lparr>tenant_resource_quota := Some quota, tenant_updated_at := now\<rparr>) (tenants t)\<rparr>, ()))"

definition GetTenantResourceQuota :: "uuid \<Rightarrow> string op" where
  "GetTenantResourceQuota tenantID =
     bnd (select_op (\<lambda>_ t. find (\<lambda>r. tenant_id r = tenantID) (tenants t))) (\<lambda>r. case r of
         None \<Rightarrow> throw ErrNoRows
       | Some r \<Rightarrow> (case tenant_resource_quota r of None \<Rightarrow> throw DBError | Some quota \<Rightarrow> ret quota))"

section \<open>What a session may do\<close>

lemma ValidateToken_state: "ValidateToken lib secret tok s = (r, t) \<Longrightarrow> t = s"
  by (auto simp: ValidateToken_def bnd_def time_Now_def throw_def ret_def split: if_split_asm sum.splits prod.splits)

definition is_error :: "'a reply \<Rightarrow> bool" where
  "is_error r \<longleftrightarrow> (case r of Reply _ \<Rightarrow> False | _ \<Rightarrow> True)"

text \<open>The stored user a session speaks for, with the version it carries.\<close>

definition current_user :: "(string \<Rightarrow> uuid option) \<Rightarrow> tables \<Rightarrow> Claims \<Rightarrow> user_row \<Rightarrow> bool" where
  "current_user uuid_Parse t claims u \<longleftrightarrow> find (\<lambda>v. user_id v = user_id u) (users t) = Some u \<and>
     uuid_Parse (TrimSpace (cl_UserID claims)) = Some (user_id u) \<and> cl_TokenVersion claims = coalesce (user_token_version u) 0"

lemma GetUserTokenVersion_cases:
  assumes "GetUserTokenVersion uuid_Parse userID s = (r, t)"
  shows "tab t = tab s \<and> ((\<exists>e. r = Inl e) \<or>
    (\<exists>u. find (\<lambda>v. user_id v = user_id u) (users (tab s)) = Some u \<and> uuid_Parse (TrimSpace userID) = Some (user_id u) \<and>
       r = Inr (coalesce (user_token_version u) 0)))"
proof (cases "uuid_Parse (TrimSpace userID)")
  case None
  with assms show ?thesis by (auto simp: GetUserTokenVersion_def throw_def)
next
  case (Some i)
  obtain q v where q: "select_op (\<lambda>_ t. find (\<lambda>u. user_id u = i) (users t)) s = (q, v)" by fastforce
  note sel = select_cases [OF q]
  show ?thesis
  proof (cases q)
    case (Inl e)
    with assms Some q sel show ?thesis by (auto simp: GetUserTokenVersion_def bnd_def)
  next
    case (Inr x)
    with sel(2) have x: "x = find (\<lambda>u. user_id u = i) (users (tab s))" by auto
    have ev: "(r, t) = (case x of None \<Rightarrow> (Inl ErrNoRows, v) | Some u \<Rightarrow> (Inr (coalesce (user_token_version u) 0), v))"
      using assms Some q Inr by (cases x) (auto simp: GetUserTokenVersion_def bnd_def throw_def ret_def)
    show ?thesis
    proof (cases x)
      case None
      with ev sel(1) show ?thesis by auto
    next
      fix u assume u: "x = Some u"
      with x have "find (\<lambda>u. user_id u = i) (users (tab s)) = Some u" by simp
      moreover from find_SomeD [OF this] have "user_id u = i" by simp
      ultimately show ?thesis using ev u sel(1) Some by auto
    qed
  qed
qed

lemma session_version_cases:
  assumes "session_version uuid_Parse store claims s = (r, t)"
  shows "tab t = tab s \<and> ((\<exists>e. r = Inr (Some e) \<and> is_error e) \<or>
    (r = Inr None \<and> (store \<longrightarrow> (\<exists>u. current_user uuid_Parse (tab s) claims u))))"
proof (cases store)
  case False
  with assms show ?thesis by (auto simp: session_version_def ret_def)
next
  case True
  obtain q v where q: "GetUserTokenVersion uuid_Parse (cl_UserID claims) s = (q, v)" by fastforce
  have out: "(r, t) = (case q of
      Inl e \<Rightarrow> (Inr (Some (if e = ErrNoRows then WriteError 401 ''INVALID_TOKEN'' ''Invalid token''
        else WriteError 500 ''INTERNAL_ERROR'' ''Failed to verify token state'')), v)
    | Inr w \<Rightarrow> (Inr (if cl_TokenVersion claims \<noteq> w then Some (WriteError 401 ''INVALID_TOKEN'' ''Invalid token'') else None), v))"
    using assms True q by (cases q) (auto simp: session_version_def bnd_def attempt_def ret_def)
  from GetUserTokenVersion_cases [OF q] have v: "tab v = tab s" and
    "(\<exists>e. q = Inl e) \<or> (\<exists>u. find (\<lambda>v. user_id v = user_id u) (users (tab s)) = Some u \<and>
       uuid_Parse (TrimSpace (cl_UserID claims)) = Some (user_id u) \<and> q = Inr (coalesce (user_token_version u) 0))" by blast+
  then show ?thesis
  proof (elim disjE exE conjE)
    fix e assume "q = Inl e"
    with out v show ?thesis by (auto simp: is_error_def)
  next
    fix u assume u: "find (\<lambda>v. user_id v = user_id u) (users (tab s)) = Some u"
      "uuid_Parse (TrimSpace (cl_UserID claims)) = Some (user_id u)" "q = Inr (coalesce (user_token_version u) 0)"
    with out v show ?thesis
      by (cases "cl_TokenVersion claims = coalesce (user_token_version u) 0") (auto simp: is_error_def current_user_def)
  qed
qed

lemma jwtAuthMiddleware_cases:
  fixes handler :: "http_context \<Rightarrow> 'a reply op"
  assumes "jwtAuthMiddleware lib secret uuid_Parse handler store r s = (res, t)"
  obtains (refused) e where "res = Inr e" "is_error e" "tab t = tab s"
    | (served) claims u tok where "ValidateToken lib secret tok s = (Inr claims, s)"
        "tok = extractHTTPAuthorizationToken (rq_Header_Get r ''Authorization'')"
        "store \<longrightarrow> (\<exists>usr. current_user uuid_Parse (tab s) claims usr)"
        "cl_MustChangePassword claims \<longrightarrow> rq_URL_Path r \<in> set mcpWhitelist"
        "tab u = tab s" "handler (session_context uuid_Parse claims r) u = (res, t)"
proof -
  let ?tok = "extractHTTPAuthorizationToken (rq_Header_Get r ''Authorization'')"
  consider "rq_Header_Get r ''Authorization'' = '''' \<or> ?tok = ''''"
    | "rq_Header_Get r ''Authorization'' \<noteq> ''''" "?tok \<noteq> ''''" by blast
  then show ?thesis
  proof cases
    case 1
    then have "\<exists>e. (res, t) = (Inr e, s) \<and> is_error e"
      using assms by (auto simp: jwtAuthMiddleware_def ret_def Let_def is_error_def split: if_split_asm)
    then show ?thesis by (auto intro: refused)
  next
    case 2
    obtain q v where q: "ValidateToken lib secret ?tok s = (q, v)" by fastforce
    then have vs: "v = s" by (rule ValidateToken_state)
    show ?thesis
    proof (cases q)
      case (Inl e)
      with assms 2 q vs have "\<exists>e. (res, t) = (Inr e, s) \<and> is_error e"
        by (auto simp: jwtAuthMiddleware_def bnd_def attempt_def ret_def Let_def is_error_def)
      then show ?thesis by (auto intro: refused)
    next
      fix claims assume qc: "q = Inr claims"
      obtain w :: "err + 'a reply option" and x where w: "session_version uuid_Parse store claims s = (w, x)" by fastforce
      from session_version_cases [OF w] have x: "tab x = tab s" and
        "(\<exists>e. w = Inr (Some e) \<and> is_error e) \<or>
          (w = Inr None \<and> (store \<longrightarrow> (\<exists>u. current_user uuid_Parse (tab s) claims u)))" by blast+
      then show ?thesis
      proof (elim disjE exE conjE)
        fix e assume "w = Inr (Some e)" "is_error e"
        with assms 2 q vs qc w x show ?thesis
          by (intro refused [of e]) (auto simp: jwtAuthMiddleware_def bnd_def attempt_def ret_def Let_def)
      next
        assume wn: "w = Inr None" and cur: "store \<longrightarrow> (\<exists>u. current_user uuid_Parse (tab s) claims u)"
        show ?thesis
        proof (cases "cl_MustChangePassword claims \<and> \<not> containsPath mcpWhitelist (rq_URL_Path r)")
          case True
          with assms 2 q vs qc w wn have "\<exists>e. (res, t) = (Inr e, x) \<and> is_error e"
            by (auto simp: jwtAuthMiddleware_def bnd_def attempt_def ret_def Let_def is_error_def)
          with x show ?thesis by (auto intro: refused)
        next
          case False
          with assms 2 q vs qc w wn have "handler (session_context uuid_Parse claims r) x = (res, t)"
            by (auto simp: jwtAuthMiddleware_def bnd_def attempt_def ret_def Let_def)
          with False q qc vs cur x show ?thesis
            by (intro served [of ?tok claims x]) (auto simp: containsPath_def)
        qed
      qed
    qed
  qed
qed

lemma claims_tenant:
  assumes "cl_Role claims \<noteq> ''super_admin''" and "hc_TenantID (rq_Context r) = None"
  shows "GetTenantID uuid_Parse (session_context uuid_Parse claims r) =
    (if cl_TenantID claims = '''' then None else uuid_Parse (cl_TenantID claims))"
  using assms by (auto simp: session_context_def with_claims_tenant_def GetTenantID_def Let_def split: option.splits)

lemma GetTenantNodes_Inr:
  assumes "GetTenantNodes uuid_Parse ctx s = (Inr ns, t)"
  shows "\<exists>tid. GetTenantID uuid_Parse ctx = Some tid \<and>
    ns = map scanNodeRows (newest_nodes (\<lambda>r. node_tenant_id r = tid) (tab s)) \<and> tab t = tab s"
proof (cases "GetTenantID uuid_Parse ctx")
  case None
  with assms show ?thesis by (simp add: GetTenantNodes_def throw_def)
next
  case (Some tid)
  with assms obtain rs u where "select_op (\<lambda>_. newest_nodes (\<lambda>r. node_tenant_id r = tid)) s = (Inr rs, u)"
      and "check_op (map scanNodeRows rs) u = (Inr ns, t)"
    by (auto simp: GetTenantNodes_def scanNodeListRows_def bnd_Inr)
  from select_InrD [OF this(1)] check_InrD [OF this(2)] Some show ?thesis by simp
qed


text \<open>
  (C20) Suspending or deleting a tenant ends the sessions of its users: a request with a token
  that was current before is refused and changes nothing.
\<close>

theorem stopped_tenant_sessions_refused:
  assumes "ApplyTenantLifecycleTransition tenant tr s = (Inr (), t)"
    and "ToLower (TrimSpace (tt_TargetStatus tr)) = ''suspended'' \<or> ToLower (TrimSpace (tt_TargetStatus tr)) = ''deleted''"
    and "current_user uuid_Parse (tab s) claims usr" and "user_tenant_id usr = Some tenant"
    and "tab u = tab t" and "ValidateToken lib secret (extractHTTPAuthorizationToken (rq_Header_Get r ''Authorization'')) u = (Inr claims, u)"
    and "jwtAuthMiddleware lib secret uuid_Parse handler True r u = (res, v)"
  shows "(\<exists>e. res = Inr e \<and> is_error e) \<and> tab v = tab u"
  using assms(7)
proof (cases rule: jwtAuthMiddleware_cases)
  case (refused e)
  then show ?thesis by blast
next
  case (served claims' w tok)
  with assms(6) have cl: "claims' = claims" by simp
  from stopped_tenant [OF assms(1) refl assms(2)] have users:
    "users (tab u) = map (\<lambda>u. if user_tenant_id u = Some tenant then
        u\<lparr>user_token_version := Some (coalesce (user_token_version u) 0 + 1), user_updated_at := db_now s\<rparr> else u) (users (tab s))"
    unfolding assms(5) by blast
  from served(3) cl obtain usr' where usr': "current_user uuid_Parse (tab u) claims usr'" by auto
  with assms(3) have ids: "user_id usr' = user_id usr" by (simp add: current_user_def)
  have "find (\<lambda>v. user_id v = user_id usr) (users (tab u)) = Some (if user_tenant_id usr = Some tenant then
      usr\<lparr>user_token_version := Some (coalesce (user_token_version usr) 0 + 1), user_updated_at := db_now s\<rparr> else usr)"
    using assms(3) unfolding users update_where_def [symmetric] by (simp add: find_update_where current_user_def)
  with usr' ids have "usr' = usr\<lparr>user_token_version := Some (coalesce (user_token_version usr) 0 + 1), user_updated_at := db_now s\<rparr>"
    using assms(4) by (simp add: current_user_def)
  with usr' assms(3) show ?thesis by (simp add: current_user_def coalesce_def split: option.splits)
qed

section \<open>Examples\<close>

definition sample_session :: Claims where
  "sample_session = \<lparr>cl_UserID = ''u1'', cl_Username = ''ann'', cl_Role = ''admin'', cl_TenantID = ''t1'',
     cl_MustChangePassword = False, cl_TokenVersion = 0,
     cl_Registered = \<lparr>rg_Issuer = ''aria-controller'', rg_Subject = ''u1'', rg_ExpiresAt = Some 7200000000, rg_IssuedAt = Some 0\<rparr>\<rparr>"

definition session_lib :: "Claims jwt_lib" where
  "session_lib = one_token_lib cl_Registered ''k'' sample_session"

text \<open>A request that asks for another tenant.\<close>

definition sample_request :: http_request where
  "sample_request = \<lparr>rq_Header_Get = (\<lambda>k. if k = ''Authorization'' then ''Bearer jwt'' else if k = ''X-Tenant-ID'' then ''t2'' else ''''),
     rq_URL_Path = ''/api/v2/nodes'', rq_Context = \<lparr>hc_UserID = None, hc_Username = None, hc_UserRole = None, hc_TenantID = None\<rparr>\<rparr>"


theorem stopped_tenant_sessions_refused_witness:
  "\<exists>t e. ApplyTenantLifecycleTransition ''t1'' \<lparr>tt_TargetStatus = ''suspended'', tt_AuditEventType = '''',
       tt_AuditActor = '''', tt_AuditSummary = '''', tt_AuditDetail = []\<rparr> sample_tenant_db = (Inr (), t) \<and> is_error e \<and>
     fst (jwtAuthMiddleware session_lib (Some ''k'') Some (\<lambda>ctx. ret (Reply ())) True sample_request t) = Inr e"
proof -
  let ?tr = "\<lparr>tt_TargetStatus = ''suspended'', tt_AuditEventType = '''',
       tt_AuditActor = '''', tt_AuditSummary = '''', tt_AuditDetail = []\<rparr>"
  let ?stop = "ApplyTenantLifecycleTransition ''t1'' ?tr sample_tenant_db"
  let ?usr = "hd (users (tab sample_tenant_db))"
  let ?tok = "extractHTTPAuthorizationToken (rq_Header_Get sample_request ''Authorization'')"
  have 1: "?stop = (Inr (), snd ?stop)"
    by (rule prod_eqI) (simp_all add: lifecycle_eval lifecycle_trim eval_defs cong: eval_congs)
  have 2: "ToLower (TrimSpace (tt_TargetStatus ?tr)) = ''suspended'' \<or> ToLower (TrimSpace (tt_TargetStatus ?tr)) = ''deleted''"
    by (simp add: lifecycle_trim)
  have 3: "current_user Some (tab sample_tenant_db) sample_session ?usr" "user_tenant_id ?usr = Some ''t1''" by code_simp+
  have tok: "?tok = ''jwt''" by code_simp
  have "go_now (snd ?stop) = 100" by (simp add: lifecycle_eval lifecycle_trim eval_defs cong: eval_congs)
  then have 4: "ValidateToken session_lib (Some ''k'') ?tok (snd ?stop) = (Inr sample_session, snd ?stop)"
    unfolding tok by (simp add: ValidateToken_def session_lib_def one_token_lib_def sample_session_def bnd_def time_Now_def
        ret_def hmac_only_def getSecret_def jwtIssuer_def)
  obtain res v where 5: "jwtAuthMiddleware session_lib (Some ''k'') Some (\<lambda>ctx. ret (Reply ())) True sample_request (snd ?stop) = (res, v)"
    by fastforce
  have "(\<exists>e. res = Inr e \<and> is_error e) \<and> tab v = tab (snd ?stop)"
    by (rule stopped_tenant_sessions_refused [where uuid_Parse = Some, OF 1 2 3 refl 4 5])
  with 1 5 show ?thesis by (intro exI [of _ "snd ?stop"]) auto
qed

end
