(* ===== verification/Routes.thy ===== *)
theory Routes
  imports Node_Store "HOL-Library.List_Lexorder"
begin

text \<open>
  \<^verbatim>\<open>pkg/controllerstorage/routes.go\<close>: the check that a route a node wants to advertise does not
  overlap a route of an active node of the same tenant in another region, once over a list of
  nodes and once as a query.
\<close>

section \<open>Networks\<close>

text \<open>
  \<^verbatim>\<open>net.ParseCIDR\<close> and \<^verbatim>\<open>(*net.IPNet).Contains\<close>. An \<^verbatim>\<open>IPNet\<close> is its masked network number and
  the length of its mask; an IPv4-mapped IPv6 network counts as the IPv4 network.
\<close>

datatype IPNet = Net4 "32 word" nat | Net6 "128 word" nat

definition ParseCIDR :: "string \<Rightarrow> IPNet option" where
  "ParseCIDR s = (case Index CHR ''/'' s of
       None \<Rightarrow> None
     | Some i \<Rightarrow> (case ParseAddr (take i s) of
           None \<Rightarrow> None
         | Some a \<Rightarrow> if Zone a \<noteq> '''' then None
             else (case parse_nat (drop (Suc i) s) of
                 None \<Rightarrow> None
               | Some n \<Rightarrow> if int n > BitLen a then None
                   else (case a of
                       AddrZero \<Rightarrow> None
                     | Addr4 w \<Rightarrow> Some (Net4 (keep_bits n w) n)
                     | Addr6 w _ \<Rightarrow> let m = keep_bits n w in
                         if Is4In6 m then Some (Net4 (ucast m) (n - 96)) else Some (Net6 m n)))))"

fun IPNet_IP :: "IPNet \<Rightarrow> Addr" where
  "IPNet_IP (Net4 w n) = Addr4 w"
| "IPNet_IP (Net6 w n) = Addr6 w ''''"

fun IPNet_Contains :: "IPNet \<Rightarrow> Addr \<Rightarrow> bool" where
  "IPNet_Contains (Net4 v n) ip = (case To4 ip of None \<Rightarrow> False | Some w \<Rightarrow> agree_bits n v w)"
| "IPNet_Contains (Net6 v n) ip =
     (case To4 ip of Some _ \<Rightarrow> False | None \<Rightarrow> (case ip of Addr6 w _ \<Rightarrow> agree_bits n v w | _ \<Rightarrow> False))"

definition cidrNetworksOverlap :: "IPNet \<Rightarrow> IPNet \<Rightarrow> bool" where
  "cidrNetworksOverlap a b \<longleftrightarrow> IPNet_Contains a (IPNet_IP b) \<or> IPNet_Contains b (IPNet_IP a)"

section \<open>Conflicts\<close>

record RouteConflictError =
  rce_CIDR :: string
  rce_ExistingCIDR :: string
  rce_NodeHostname :: string
  rce_NodeRegion :: string
  rce_NodePublicKey :: string
  rce_TargetRegion :: string
  rce_TargetPublicKey :: string

definition RouteConflictError_Error :: "RouteConflictError \<Rightarrow> string" where
  "RouteConflictError_Error e = ''route '' @ rce_CIDR e @ '' conflicts with route '' @ rce_ExistingCIDR e @
     '' advertised by node '' @ rce_NodeHostname e @ '' in region '' @ rce_NodeRegion e"

text \<open>The candidates that are not blank, with their networks; the first that cannot be read is an error.\<close>

fun parse_candidates :: "string list \<Rightarrow> err + (string \<times> IPNet) list" where
  "parse_candidates [] = Inr []"
| "parse_candidates (route # routes) =
     (let trimmed = TrimSpace route in
      if trimmed = '''' then parse_candidates routes
      else case ParseCIDR trimmed of
          None \<Rightarrow> Inl (ErrMsg (''invalid CIDR '' @ trimmed))
        | Some network \<Rightarrow> (case parse_candidates routes of Inl e \<Rightarrow> Inl e | Inr cs \<Rightarrow> Inr ((trimmed, network) # cs)))"

definition routeConflictNodeActive :: "Node \<Rightarrow> bool" where
  "routeConflictNodeActive node \<longleftrightarrow> \<not> stopped_status (ToLower (TrimSpace (nd_Status node)))"

definition firstRouteNodeName :: "Node \<Rightarrow> string" where
  "firstRouteNodeName node =
     (case find (\<lambda>c. TrimSpace c \<noteq> '''') [nd_Hostname node, nd_PublicKey node, nd_ID node] of
        None \<Rightarrow> ''unknown'' | Some c \<Rightarrow> TrimSpace c)"

text \<open>The candidate that overlaps one advertised route, with the route.\<close>

definition route_hit :: "(string \<times> IPNet) list \<Rightarrow> string \<Rightarrow> (string \<times> string) option" where
  "route_hit candidates route =
     (let existing = TrimSpace route in
      if existing = '''' then None
      else case ParseCIDR existing of
          None \<Rightarrow> None
        | Some network \<Rightarrow> map_option (\<lambda>c. (fst c, existing)) (find (\<lambda>c. cidrNetworksOverlap (snd c) network) candidates))"

text \<open>The first result of a list of searches.\<close>

fun first_some :: "('a \<Rightarrow> 'b option) \<Rightarrow> 'a list \<Rightarrow> 'b option" where
  "first_some f [] = None"
| "first_some f (x # xs) = (case f x of None \<Rightarrow> first_some f xs | Some y \<Rightarrow> Some y)"

definition node_conflict :: "string \<Rightarrow> string \<Rightarrow> (string \<times> IPNet) list \<Rightarrow> Node option \<Rightarrow> RouteConflictError option" where
  "node_conflict targetPublicKey targetRegion candidates n = (case n of
       None \<Rightarrow> None
     | Some node \<Rightarrow>
         if TrimSpace (nd_PublicKey node) = targetPublicKey then None
         else if TrimSpace (nd_Region node) = targetRegion then None
         else if \<not> routeConflictNodeActive node then None
         else map_option (\<lambda>(cidr, existing). \<lparr>rce_CIDR = cidr, rce_ExistingCIDR = existing,
                rce_NodeHostname = firstRouteNodeName node, rce_NodeRegion = nd_Region node,
                rce_NodePublicKey = nd_PublicKey node, rce_TargetRegion = targetRegion, rce_TargetPublicKey = targetPublicKey\<rparr>)
              (first_some (route_hit candidates) (nd_AdvertisedRoutes node)))"

definition FindAdvertisedRouteConflict ::
    "Node option list \<Rightarrow> string \<Rightarrow> string \<Rightarrow> string list \<Rightarrow> err + RouteConflictError option" where
  "FindAdvertisedRouteConflict ns targetPublicKey targetRegion candidateRoutes =
     (case parse_candidates candidateRoutes of
        Inl e \<Rightarrow> Inl e
      | Inr cs \<Rightarrow> Inr (first_some (node_conflict (TrimSpace targetPublicKey) (TrimSpace targetRegion) cs) ns))"

text \<open>
  The query: one row per advertised route of the other active nodes in other regions. \<open>collate\<close>
  is the sort key that the database's collation gives a text.
\<close>

definition route_rows :: "(string \<Rightarrow> string) \<Rightarrow> uuid \<Rightarrow> string \<Rightarrow> string \<Rightarrow> tables \<Rightarrow> (string \<times> node_row) list" where
  "route_rows collate tenantID targetPublicKey targetRegion t =
     sort_key (\<lambda>(cidr, n). - node_last_seen n) (sort_key (\<lambda>(cidr, n). collate cidr)
       (concat (map (\<lambda>n. map (\<lambda>cidr. (cidr, n)) (filter (\<lambda>cidr. cidr \<noteq> '''') (node_advertised_routes n)))
         (filter (\<lambda>n. node_tenant_id n = tenantID \<and> node_public_key n \<noteq> targetPublicKey \<and>
            node_region n \<noteq> targetRegion \<and> node_active n) (nodes t)))))"

definition row_conflict :: "string \<Rightarrow> string \<Rightarrow> (string \<times> IPNet) list \<Rightarrow> string \<times> node_row \<Rightarrow> RouteConflictError option" where
  "row_conflict targetPublicKey targetRegion candidates r = (case r of (cidr, n) \<Rightarrow>
     let hostname = node_hostname n;
         hostname = (if TrimSpace hostname = '''' then node_public_key n else hostname);
         hostname = (if TrimSpace hostname = '''' then ''unknown'' else hostname)
     in map_option (\<lambda>(c, existing). \<lparr>rce_CIDR = c, rce_ExistingCIDR = existing, rce_NodeHostname = hostname,
            rce_NodeRegion = node_region n, rce_NodePublicKey = node_public_key n,
            rce_TargetRegion = targetRegion, rce_TargetPublicKey = targetPublicKey\<rparr>)
          (route_hit candidates cidr))"

definition FindTenantAdvertisedRouteConflict ::
    "(string \<Rightarrow> string) \<Rightarrow> uuid \<Rightarrow> string \<Rightarrow> string \<Rightarrow> string list \<Rightarrow> RouteConflictError option op" where
  "FindTenantAdvertisedRouteConflict collate tenantID targetPublicKey targetRegion candidateRoutes =
     (let targetPublicKey = TrimSpace targetPublicKey; targetRegion = TrimSpace targetRegion in
      case parse_candidates candidateRoutes of
        Inl e \<Rightarrow> throw e
      | Inr [] \<Rightarrow> ret None
      | Inr cs \<Rightarrow>
          bnd (select_op (\<lambda>_ t. route_rows collate tenantID targetPublicKey targetRegion t)) (\<lambda>rows.
          bnd (check_op rows) (\<lambda>rows.
          ret (first_some (row_conflict targetPublicKey targetRegion cs) rows))))"

section \<open>Overlap is a common address\<close>

fun wf_net :: "IPNet \<Rightarrow> bool" where
  "wf_net (Net4 v n) \<longleftrightarrow> True"
| "wf_net (Net6 v n) \<longleftrightarrow> \<not> Is4In6 v"

lemma ParseCIDR_wf: "ParseCIDR s = Some a \<Longrightarrow> wf_net a"
  by (auto simp: ParseCIDR_def Let_def split: option.splits if_split_asm Addr.splits)

lemma agree_nested:
  fixes v w x :: "'a::len word"
  assumes "agree_bits m v x" and "agree_bits n w x" and "m \<le> n"
  shows "agree_bits m v w"
proof -
  have "agree_bits m w x" using words.agree_shorter [OF assms(2,3)] .
  then show ?thesis using assms(1) words.agree_sym words.agree_trans by blast
qed

lemma contains_own_ip: "wf_net a \<Longrightarrow> IPNet_Contains a (IPNet_IP a)"
  by (cases a) (simp_all add: words.agree_refl)

lemma overlap_iff_common:
  assumes "wf_net a" and "wf_net b"
  shows "cidrNetworksOverlap a b \<longleftrightarrow> (\<exists>ip. IPNet_Contains a ip \<and> IPNet_Contains b ip)"
proof
  assume "cidrNetworksOverlap a b"
  then show "\<exists>ip. IPNet_Contains a ip \<and> IPNet_Contains b ip"
    using contains_own_ip assms unfolding cidrNetworksOverlap_def by blast
next
  assume "\<exists>ip. IPNet_Contains a ip \<and> IPNet_Contains b ip"
  then obtain ip where ip: "IPNet_Contains a ip" "IPNet_Contains b ip" by blast
  show "cidrNetworksOverlap a b"
  proof (cases a; cases b)
    fix v m w n assume ab: "a = Net4 v m" "b = Net4 w n"
    then obtain x where "agree_bits m v x" "agree_bits n w x" using ip by (auto split: option.splits)
    then have "agree_bits m v w \<or> agree_bits n w v"
      using agree_nested [of m v x n w] agree_nested [of n w x m v] by linarith
    with ab show ?thesis by (simp add: cidrNetworksOverlap_def)
  next
    fix v m w n assume ab: "a = Net6 v m" "b = Net6 w n"
    then obtain x where "agree_bits m v x" "agree_bits n w x" using ip by (auto split: option.splits Addr.splits)
    then have "agree_bits m v w \<or> agree_bits n w v"
      using agree_nested [of m v x n w] agree_nested [of n w x m v] by linarith
    with ab assms show ?thesis by (simp add: cidrNetworksOverlap_def)
  qed (use ip in \<open>auto split: option.splits\<close>)
qed

text \<open>
  The overlap test of two routes is exact: for any two texts that parse as networks, IPv4,
  IPv6 or IPv4-mapped, \<open>cidrNetworksOverlap\<close> holds if and only if some address is in both.
\<close>

theorem route_overlap_is_common_address:
  assumes "ParseCIDR s = Some a" and "ParseCIDR r = Some b"
  shows "cidrNetworksOverlap a b \<longleftrightarrow> (\<exists>ip. IPNet_Contains a ip \<and> IPNet_Contains b ip)"
  using assms by (intro overlap_iff_common ParseCIDR_wf)

theorem route_overlap_is_common_address_witness:
  "\<exists>a b. ParseCIDR ''10.0.0.0/8'' = Some a \<and> ParseCIDR ''::ffff:10.1.0.0/112'' = Some b \<and> (\<exists>ip. IPNet_Contains a ip \<and> IPNet_Contains b ip)"
proof -
  have "\<exists>a b. ParseCIDR ''10.0.0.0/8'' = Some a \<and> ParseCIDR ''::ffff:10.1.0.0/112'' = Some b \<and> cidrNetworksOverlap a b"
    by (intro exI [of _ "Net4 0x0A000000 8"] exI [of _ "Net4 0x0A010000 16"] conjI) code_simp+
  then show ?thesis using route_overlap_is_common_address by blast
qed

section \<open>The check is sound and complete\<close>

lemma first_some_None: "first_some f xs = None \<longleftrightarrow> (\<forall>x \<in> set xs. f x = None)"
  by (induction xs) (auto split: option.split)

lemma first_some_Some: "first_some f xs = Some y \<Longrightarrow> \<exists>x \<in> set xs. f x = Some y"
  by (induction xs) (auto split: option.splits)

lemma parse_candidates_Inr:
  "parse_candidates routes = Inr cs \<Longrightarrow> (raw, network) \<in> set cs \<longleftrightarrow>
     (\<exists>route \<in> set routes. raw = TrimSpace route \<and> raw \<noteq> '''' \<and> ParseCIDR raw = Some network)"
  by (induction routes arbitrary: cs) (auto simp: Let_def split: if_split_asm option.splits sum.splits)

definition routes_meet :: "string \<Rightarrow> string \<Rightarrow> bool" where
  "routes_meet r r' \<longleftrightarrow> (\<exists>a b ip. TrimSpace r \<noteq> '''' \<and> TrimSpace r' \<noteq> '''' \<and> ParseCIDR (TrimSpace r) = Some a \<and>
     ParseCIDR (TrimSpace r') = Some b \<and> IPNet_Contains a ip \<and> IPNet_Contains b ip)"

lemma route_hit_None:
  assumes "parse_candidates routes = Inr cs"
  shows "route_hit cs r' = None \<longleftrightarrow> (\<forall>r \<in> set routes. \<not> routes_meet r r')"
proof (cases "TrimSpace r' = '''' \<or> ParseCIDR (TrimSpace r') = None")
  case True
  then show ?thesis by (auto simp: route_hit_def routes_meet_def Let_def split: option.split)
next
  case False
  then obtain b where b: "TrimSpace r' \<noteq> ''''" "ParseCIDR (TrimSpace r') = Some b" by blast
  have "route_hit cs r' = None \<longleftrightarrow> (\<forall>c \<in> set cs. \<not> cidrNetworksOverlap (snd c) b)"
    using b by (auto simp: route_hit_def Let_def find_None_iff)
  also have "\<dots> \<longleftrightarrow> (\<forall>r \<in> set routes. \<forall>a. TrimSpace r \<noteq> '''' \<and> ParseCIDR (TrimSpace r) = Some a \<longrightarrow> \<not> cidrNetworksOverlap a b)"
    using parse_candidates_Inr [OF assms] by fastforce
  also have "\<dots> \<longleftrightarrow> (\<forall>r \<in> set routes. \<not> routes_meet r r')"
    using b overlap_iff_common ParseCIDR_wf [of _] unfolding routes_meet_def by (metis option.inject)
  finally show ?thesis .
qed

text \<open>The nodes a route of the tenant is compared with.\<close>

definition route_rival :: "uuid \<Rightarrow> string \<Rightarrow> string \<Rightarrow> node_row \<Rightarrow> bool" where
  "route_rival tenantID key region n \<longleftrightarrow> node_tenant_id n = tenantID \<and> node_public_key n \<noteq> TrimSpace key \<and>
     node_region n \<noteq> TrimSpace region \<and> node_active n"

lemma route_rows_set:
  "(cidr, n) \<in> set (route_rows collate tenantID (TrimSpace key) (TrimSpace region) t) \<longleftrightarrow>
     n \<in> set (nodes t) \<and> route_rival tenantID key region n \<and> cidr \<in> set (node_advertised_routes n) \<and> cidr \<noteq> ''''"
  by (auto simp: route_rows_def route_rival_def)

lemma row_conflict_None: "row_conflict k r cs (cidr, n) = None \<longleftrightarrow> route_hit cs cidr = None"
  by (simp add: row_conflict_def Let_def)

lemma FindTenant_Inr:
  assumes "FindTenantAdvertisedRouteConflict collate tenantID key region routes s = (Inr r, t)"
  obtains cs where "parse_candidates routes = Inr cs" "tab t = tab s"
    "r = first_some (row_conflict (TrimSpace key) (TrimSpace region) cs)
       (if cs = [] then [] else route_rows collate tenantID (TrimSpace key) (TrimSpace region) (tab s))"
proof (cases "parse_candidates routes")
  case (Inl e)
  with assms show ?thesis by (simp add: FindTenantAdvertisedRouteConflict_def throw_Inr Let_def)
next
  case (Inr cs)
  show ?thesis
  proof (cases cs)
    case Nil
    with assms Inr show ?thesis
      by (intro that [OF Inr]) (simp_all add: FindTenantAdvertisedRouteConflict_def ret_Inr Let_def)
  next
    case (Cons c cs')
    with assms Inr show ?thesis
      by (intro that [OF Inr]) (auto simp: FindTenantAdvertisedRouteConflict_def run_Inr Let_def dest!: InrD)
  qed
qed

lemma meets_not_blank: "routes_meet r r' \<Longrightarrow> r' \<noteq> ''''"
  by (auto simp: routes_meet_def)

lemma FindTenant_None_iff:
  assumes "FindTenantAdvertisedRouteConflict collate tenantID key region routes s = (Inr r, t)"
  shows "r = None \<longleftrightarrow> (\<forall>n \<in> set (nodes (tab s)). route_rival tenantID key region n \<longrightarrow>
    (\<forall>r' \<in> set (node_advertised_routes n). \<forall>c \<in> set routes. \<not> routes_meet c r'))"
proof -
  obtain cs where cs: "parse_candidates routes = Inr cs" and
    r: "r = first_some (row_conflict (TrimSpace key) (TrimSpace region) cs)
       (if cs = [] then [] else route_rows collate tenantID (TrimSpace key) (TrimSpace region) (tab s))"
    using FindTenant_Inr [OF assms] by blast
  show ?thesis
  proof (cases "cs = []")
    case True
    then have "route_hit cs r' = None" for r' by (simp add: route_hit_def Let_def split: option.split)
    with r True route_hit_None [OF cs] show ?thesis by simp
  next
    case False
    have "r = None \<longleftrightarrow> (\<forall>cidr n. (cidr, n) \<in> set (route_rows collate tenantID (TrimSpace key) (TrimSpace region) (tab s)) \<longrightarrow> route_hit cs cidr = None)"
      using r False by (simp add: first_some_None row_conflict_None split_paired_Ball_Sigma) (auto simp: row_conflict_None)
    also have "\<dots> \<longleftrightarrow> (\<forall>cidr n. n \<in> set (nodes (tab s)) \<and> route_rival tenantID key region n \<and>
        cidr \<in> set (node_advertised_routes n) \<longrightarrow> (\<forall>c \<in> set routes. \<not> routes_meet c cidr))"
      unfolding route_rows_set route_hit_None [OF cs] using meets_not_blank by blast
    finally show ?thesis by blast
  qed
qed

text \<open>
  (C35) Advertised routes of different regions never overlap after the check: the query finds no
  conflict if and only if no candidate route has an address in common with a route of another
  active node of the tenant in another region.
\<close>

theorem route_check_exact:
  assumes "FindTenantAdvertisedRouteConflict collate tenantID key region routes s = (Inr r, t)"
  shows "r = None \<longleftrightarrow> (\<forall>n \<in> set (nodes (tab s)). route_rival tenantID key region n \<longrightarrow>
    (\<forall>r' \<in> set (node_advertised_routes n). \<forall>c \<in> set routes. \<not> routes_meet c r'))"
  by (rule FindTenant_None_iff [OF assms])

definition sample_route_db :: db where
  "sample_route_db = empty_db\<lparr>tab := empty_tables\<lparr>nodes := [(sample_node ''n1'' ''pk1'' ''online'')
     \<lparr>node_region := ''eu'', node_advertised_routes := [''10.0.0.0/8'']\<rparr>]\<rparr>\<rparr>"

theorem route_check_exact_witness:
  "\<exists>n \<in> set (nodes (tab sample_route_db)). \<exists>r' \<in> set (node_advertised_routes n). routes_meet ''10.1.0.0/16'' r'"
proof -
  let ?run = "FindTenantAdvertisedRouteConflict (\<lambda>x. x) ''t1'' ''pk2'' ''us'' [''10.1.0.0/16''] sample_route_db"
  have "fst ?run \<noteq> Inr None \<and> \<not> isl (fst ?run)" by code_simp
  then obtain r t where run: "?run = (Inr r, t)" "r \<noteq> None" by (cases ?run; cases "fst ?run") auto
  from route_check_exact [OF run(1)] run(2) show ?thesis by auto
qed

subsection \<open>The query and the loop over a list agree\<close>

definition tidy_node :: "node_row \<Rightarrow> bool" where
  "tidy_node n \<longleftrightarrow> TrimSpace (node_public_key n) = node_public_key n \<and> TrimSpace (node_region n) = node_region n \<and>
     ToLower (TrimSpace (coalesce (node_status n) ''online'')) = coalesce (node_status n) ''online''"

lemma node_conflict_None:
  assumes "parse_candidates routes = Inr cs" and "tidy_node n"
  shows "node_conflict (TrimSpace key) (TrimSpace region) cs (Some (scanNodeRows n)) = None \<longleftrightarrow>
    (route_rival (node_tenant_id n) key region n \<longrightarrow> (\<forall>r' \<in> set (node_advertised_routes n). \<forall>c \<in> set routes. \<not> routes_meet c r'))"
  using assms(2) route_hit_None [OF assms(1)]
  by (auto simp: node_conflict_def route_rival_def tidy_node_def routeConflictNodeActive_def node_active_def
      scanNodeRows_def first_some_None)

lemma FindTenant_run:
  assumes "faults s = []" and "parse_candidates routes = Inr cs"
  shows "\<exists>r. FindTenantAdvertisedRouteConflict collate tenantID key region routes s = (Inr r, s)"
  using assms by (cases cs) (simp_all add: FindTenantAdvertisedRouteConflict_def Let_def bnd_def select_run check_run ret_run)

text \<open>
  The two implementations of the route check agree: on nodes whose key, region and status
  are stored without surrounding blanks and in lower case, the loop over the tenant's nodes finds
  no conflict exactly when the query finds none.
\<close>

theorem route_checks_agree:
  assumes "faults s = []" and "\<forall>n \<in> set (nodes (tab s)). tidy_node n"
  shows "FindAdvertisedRouteConflict (map (\<lambda>n. Some (scanNodeRows n)) (filter (\<lambda>n. node_tenant_id n = tenantID) (nodes (tab s))))
      key region routes = Inr None \<longleftrightarrow>
    (\<exists>t. FindTenantAdvertisedRouteConflict collate tenantID key region routes s = (Inr None, t))"
proof (cases "parse_candidates routes")
  case (Inl e)
  then show ?thesis by (simp add: FindAdvertisedRouteConflict_def FindTenantAdvertisedRouteConflict_def Let_def throw_Inr)
next
  case (Inr cs)
  let ?clear = "\<forall>n \<in> set (nodes (tab s)). route_rival tenantID key region n \<longrightarrow>
    (\<forall>r' \<in> set (node_advertised_routes n). \<forall>c \<in> set routes. \<not> routes_meet c r')"
  have "FindAdvertisedRouteConflict (map (\<lambda>n. Some (scanNodeRows n)) (filter (\<lambda>n. node_tenant_id n = tenantID) (nodes (tab s))))
      key region routes = Inr None \<longleftrightarrow>
    (\<forall>n \<in> set (nodes (tab s)). node_tenant_id n = tenantID \<longrightarrow>
      node_conflict (TrimSpace key) (TrimSpace region) cs (Some (scanNodeRows n)) = None)"
    using Inr by (auto simp: FindAdvertisedRouteConflict_def first_some_None)
  also have "\<dots> \<longleftrightarrow> ?clear"
    using assms(2) node_conflict_None [OF Inr] by (auto simp: route_rival_def)
  also have "\<dots> \<longleftrightarrow> (\<exists>t. FindTenantAdvertisedRouteConflict collate tenantID key region routes s = (Inr None, t))"
    using FindTenant_run [OF assms(1) Inr, of collate tenantID key region]
      FindTenant_None_iff [of collate tenantID key region routes s] by fastforce
  finally show ?thesis .
qed

theorem route_checks_agree_witness:
  "FindAdvertisedRouteConflict (map (\<lambda>n. Some (scanNodeRows n)) (filter (\<lambda>n. node_tenant_id n = ''t1'') (nodes (tab sample_route_db))))
      ''pk2'' ''us'' [''192.168.0.0/16''] = Inr None"
proof -
  have "fst (FindTenantAdvertisedRouteConflict (\<lambda>x. x) ''t1'' ''pk2'' ''us'' [''192.168.0.0/16''] sample_route_db) = Inr None"
    by code_simp
  moreover have "\<forall>n \<in> set (nodes (tab sample_route_db)). tidy_node n" by code_simp
  moreover have "faults sample_route_db = []" by (simp add: sample_route_db_def empty_db_def)
  ultimately show ?thesis
    using route_checks_agree [of sample_route_db "''t1''" "''pk2''" "''us''" "[''192.168.0.0/16'']" "\<lambda>x. x"]
    by (metis prod.collapse)
qed

end
