(* ===== verification/Public_Network.thy ===== *)
theory Public_Network
  imports Go_Netip6
begin

text \<open>
  \<^verbatim>\<open>internal/nodeidentity/public_network.go\<close>: which reported address and endpoint of a node is
  kept as its public one. An address in a private, shared, loopback, link-local, documentation,
  benchmarking, multicast or reserved range is never kept.
\<close>

section \<open>Definitions\<close>

text \<open>A \<^verbatim>\<open>net.IP\<close> of four bytes.\<close>

definition isPublicIPv4 :: "nat list \<Rightarrow> bool" where
  "isPublicIPv4 ip = (if length ip \<noteq> 4 then False
     else let first = ip ! 0; second = ip ! 1; third = ip ! 2 in
       if first = 0 then False
       else if first = 10 then False
       else if first = 100 \<and> second \<ge> 64 \<and> second \<le> 127 then False
       else if first = 127 then False
       else if first = 169 \<and> second = 254 then False
       else if first = 172 \<and> second \<ge> 16 \<and> second \<le> 31 then False
       else if first = 192 \<and> second = 168 then False
       else if first = 192 \<and> second = 0 \<and> third = 0 then False
       else if first = 192 \<and> second = 0 \<and> third = 2 then False
       else if first = 198 \<and> (second = 18 \<or> second = 19) then False
       else if first = 198 \<and> second = 51 \<and> third = 100 then False
       else if first = 203 \<and> second = 0 \<and> third = 113 then False
       else if first \<ge> 224 then False
       else True)"

definition NormalizePublicIPv4 :: "string \<Rightarrow> string" where
  "NormalizePublicIPv4 value =
     (let host = TrimSpace value in
      if host = '''' then ''''
      else let host = (case SplitHostPort host of Some (splitHost, _) \<Rightarrow> splitHost | None \<Rightarrow> host);
               host = Trim host (''[]'' @ [CHR 0x22, CHR 0x27])
        in (case ParseIP host of
              None \<Rightarrow> ''''
            | Some ip \<Rightarrow> (case To4 ip of
                  None \<Rightarrow> ''''
                | Some ip4 \<Rightarrow> if \<not> isPublicIPv4 (bytes4 ip4) then '''' else string4 ip4)))"

definition splitEndpoint :: "string \<Rightarrow> string \<times> string \<times> bool" where
  "splitEndpoint endpoint = (case SplitHostPort endpoint of
       Some (host, port) \<Rightarrow> (host, port, True)
     | None \<Rightarrow>
         if take 1 endpoint = '':'' \<and> length endpoint > 1 then ('''', drop 1 endpoint, True)
         else (case LastIndex CHR '':'' endpoint of
             Some idx \<Rightarrow>
               if idx > 0 \<and> idx < length endpoint - 1 \<and> \<not> Contains (drop (Suc idx) endpoint) CHR '':''
               then (take idx endpoint, drop (Suc idx) endpoint, True)
               else (endpoint, '''', False)
           | None \<Rightarrow> (endpoint, '''', False)))"

definition NormalizePublicEndpoint :: "string \<Rightarrow> string \<Rightarrow> string" where
  "NormalizePublicEndpoint endpoint publicIP =
     (let endpoint = TrimSpace endpoint; publicIP = NormalizePublicIPv4 publicIP in
      if endpoint = '''' then ''''
      else case splitEndpoint endpoint of (host, port, ok) \<Rightarrow>
        if \<not> ok then
          (case ParseIP (Trim endpoint ''[]'') of
             None \<Rightarrow> if EqualFold endpoint ''localhost'' then '''' else endpoint
           | Some ip \<Rightarrow> (case To4 ip of
                 Some ip4 \<Rightarrow> if isPublicIPv4 (bytes4 ip4) then string4 ip4 else if publicIP \<noteq> '''' then publicIP else ''''
               | None \<Rightarrow> if publicIP \<noteq> '''' then publicIP else ''''))
        else if port = '''' then (if publicIP \<noteq> '''' then publicIP else endpoint)
        else if host = '''' then (if publicIP = '''' then '''' else JoinHostPort publicIP port)
        else (case ParseIP (Trim host ''[]'') of
            None \<Rightarrow> if EqualFold host ''localhost'' then '''' else endpoint
          | Some ip \<Rightarrow> (case To4 ip of
                None \<Rightarrow> ''''
              | Some ip4 \<Rightarrow> if isPublicIPv4 (bytes4 ip4) then JoinHostPort (string4 ip4) port
                  else if publicIP = '''' then '''' else JoinHostPort publicIP port)))"

definition NormalizeReportedNetwork :: "string \<Rightarrow> string \<Rightarrow> string \<times> string" where
  "NormalizeReportedNetwork publicIP endpoint =
     (let normalizedPublicIP = NormalizePublicIPv4 publicIP;
          normalizedEndpoint = NormalizePublicEndpoint endpoint normalizedPublicIP
      in if normalizedPublicIP \<noteq> '''' then (normalizedPublicIP, normalizedEndpoint)
         else let ip = NormalizePublicIPv4 normalizedEndpoint in
           if ip \<noteq> '''' then (ip, normalizedEndpoint)
           else (case splitEndpoint normalizedEndpoint of (host, _, ok) \<Rightarrow>
             ((if ok then NormalizePublicIPv4 host else ip), normalizedEndpoint)))"

section \<open>The reserved ranges\<close>

text \<open>The ranges as prefixes: the reference for the comparison of bytes.\<close>

definition reserved_prefixes :: "Prefix list" where
  "reserved_prefixes = map (\<lambda>(a, b). \<lparr>pf_Addr = Addr4 a, pf_Bits = b\<rparr>)
     [(0x00000000, 8), (0x0A000000, 8), (0x64400000, 10), (0x7F000000, 8), (0xA9FE0000, 16), (0xAC100000, 12),
      (0xC0A80000, 16), (0xC0000000, 24), (0xC0000200, 24), (0xC6120000, 15), (0xC6336400, 24), (0xCB007100, 24),
      (0xE0000000, 3)]"

lemma agree_bits_div:
  fixes v w :: "32 word"
  shows "agree_bits b v w \<longleftrightarrow> unat w div 2 ^ (32 - b) = unat v div 2 ^ (32 - b)"
  unfolding agree_bits_def word_unat_eq_iff unat_drop_bit_eq by (auto simp: drop_bit_eq_div)

lemma div_eq_range: "0 < k \<Longrightarrow> m div k = q \<longleftrightarrow> q * k \<le> m \<and> m < Suc q * k" for m k q :: nat
  by (metis div_nat_eqI dividend_less_div_times div_times_less_eq_dividend mult.commute mult_Suc add.commute)

lemma two_bytes:
  assumes "b < 256" and "hi \<le> (256 :: nat)"
  shows "256 * x + lo \<le> 256 * a + b \<and> 256 * a + b < 256 * x + hi \<longleftrightarrow> a = x \<and> lo \<le> b \<and> b < hi"
proof -
  consider "Suc a \<le> x" | "a = x" | "Suc x \<le> a" by linarith
  then show ?thesis
  proof cases
    case 1
    then have "256 * Suc a \<le> 256 * x" by (rule mult_le_mono2)
    with 1 assms show ?thesis by auto
  next
    case 3
    then have "256 * Suc x \<le> 256 * a" by (rule mult_le_mono2)
    with 3 assms show ?thesis by auto
  qed simp
qed

lemma three_bytes:
  assumes "b < 256" "c < 256" "y < 256" "z < (256 :: nat)"
  shows "65536 * a + 256 * b + c = 65536 * x + 256 * y + z \<longleftrightarrow> a = x \<and> b = y \<and> c = z"
proof
  assume eq: "65536 * a + 256 * b + c = 65536 * x + 256 * y + z"
  have l: "(65536 * a + 256 * b + c) mod 256 = c" "(65536 * a + 256 * b + c) div 256 = 256 * a + b"
    if "c < 256" for a b c :: nat
  proof -
    have "65536 * a + 256 * b + c = 256 * (256 * a + b) + c" by simp
    then show "(65536 * a + 256 * b + c) mod 256 = c" "(65536 * a + 256 * b + c) div 256 = 256 * a + b"
      using that by (simp_all only: mod_mult_self4 div_mult_self4 mod_less div_less)
  qed
  have "c = z" "256 * a + b = 256 * x + y" using l [OF assms(2)] l [OF assms(4)] eq by metis+
  moreover have "(256 * a + b) mod 256 = b" "(256 * x + y) mod 256 = y" using assms(1,3) by simp_all
  ultimately show "a = x \<and> b = y \<and> c = z" by simp
qed simp

lemma public_iff:
  "isPublicIPv4 (bytes4 w) \<longleftrightarrow> (\<forall>p \<in> set reserved_prefixes. \<not> Prefix_Contains p (Addr4 w))"
proof -
  define n where "n = unat w"
  have n: "n < 2 ^ 32" unfolding n_def using unsigned_less [of w] by simp
  define a b c where "a = n div 16777216" and "b = n div 65536 mod 256" and "c = n div 256 mod 256"
  have bound: "b < 256" "c < 256" by (simp_all add: b_def c_def)
  have a2: "n div 65536 = 256 * a + b"
    using div_mult2_eq [of n 65536 256] by (simp add: a_def b_def)
  have "n div 256 = 256 * (n div 65536) + c"
    using div_mult2_eq [of n 256 256] by (simp add: c_def)
  then have a3: "n div 256 = 65536 * a + 256 * b + c" using a2 by simp
  have d22: "n div 4194304 = (256 * a + b) div 64" and d20: "n div 1048576 = (256 * a + b) div 16"
    and d17: "n div 131072 = (256 * a + b) div 2" and d29: "n div 536870912 = a div 32"
    using div_mult2_eq [of n 65536 64] div_mult2_eq [of n 65536 16] div_mult2_eq [of n 65536 2]
      div_mult2_eq [of n 16777216 32] by (simp_all add: a2 a_def)
  have "(\<forall>p \<in> set reserved_prefixes. \<not> Prefix_Contains p (Addr4 w)) \<longleftrightarrow>
      \<not> (a = 0 \<or> a = 10 \<or> (256 * a + b) div 64 = 401 \<or> a = 127 \<or> 256 * a + b = 43518 \<or> (256 * a + b) div 16 = 2753 \<or>
        256 * a + b = 49320 \<or> 65536 * a + 256 * b + c = 12582912 \<or> 65536 * a + 256 * b + c = 12582914 \<or>
        (256 * a + b) div 2 = 25353 \<or> 65536 * a + 256 * b + c = 12989284 \<or> 65536 * a + 256 * b + c = 13303921 \<or>
        a div 32 = 7)"
    unfolding reserved_prefixes_def
    by (simp add: agree_bits_div n_def [symmetric] a_def [symmetric] a2 a3 d22 d20 d17 d29)
  also have "\<dots> \<longleftrightarrow> isPublicIPv4 [a, b, c, n mod 256]"
  proof -
    have lt: "b \<le> 127 \<longleftrightarrow> b < 128" "b \<le> 31 \<longleftrightarrow> b < 32" "b = 18 \<or> b = 19 \<longleftrightarrow> 18 \<le> b \<and> b < 20"
      "b = 254 \<longleftrightarrow> 254 \<le> b \<and> b < 255" "b = 168 \<longleftrightarrow> 168 \<le> b \<and> b < 169" by auto
    have eq: "m = k \<longleftrightarrow> k \<le> m \<and> m < Suc k" for m k :: nat by auto
    have d64: "(256 * a + b) div 64 = 401 \<longleftrightarrow> a = 100 \<and> 64 \<le> b \<and> b \<le> 127"
      using two_bytes [OF bound(1), of 128 100 64 a] by (simp add: div_eq_range lt)
    have d16: "(256 * a + b) div 16 = 2753 \<longleftrightarrow> a = 172 \<and> 16 \<le> b \<and> b \<le> 31"
      using two_bytes [OF bound(1), of 32 172 16 a] by (simp add: div_eq_range lt)
    have d2: "(256 * a + b) div 2 = 25353 \<longleftrightarrow> a = 198 \<and> (b = 18 \<or> b = 19)"
      using two_bytes [OF bound(1), of 20 198 18 a] by (simp add: div_eq_range lt)
    have e169: "256 * a + b = 43518 \<longleftrightarrow> a = 169 \<and> b = 254"
      using two_bytes [OF bound(1), of 255 169 254 a] by (simp add: lt eq [of _ 43518])
    have e192: "256 * a + b = 49320 \<longleftrightarrow> a = 192 \<and> b = 168"
      using two_bytes [OF bound(1), of 169 192 168 a] by (simp add: lt eq [of _ 49320])
    have three: "65536 * a + 256 * b + c = 12582912 \<longleftrightarrow> a = 192 \<and> b = 0 \<and> c = 0"
      "65536 * a + 256 * b + c = 12582914 \<longleftrightarrow> a = 192 \<and> b = 0 \<and> c = 2"
      "65536 * a + 256 * b + c = 12989284 \<longleftrightarrow> a = 198 \<and> b = 51 \<and> c = 100"
      "65536 * a + 256 * b + c = 13303921 \<longleftrightarrow> a = 203 \<and> b = 0 \<and> c = 113"
      using three_bytes [OF bound, of 0 0 a 192] three_bytes [OF bound, of 0 2 a 192]
        three_bytes [OF bound, of 51 100 a 198] three_bytes [OF bound, of 0 113 a 203] by simp_all
    have "a < 256" using n by (simp add: a_def)
    then have one: "a div 32 = 7 \<longleftrightarrow> 224 \<le> a" by (simp add: div_eq_range)
    show ?thesis unfolding one d64 d16 d2 e169 e192 three isPublicIPv4_def by simp blast
  qed
  finally show ?thesis by (simp add: bytes4_def n_def [symmetric] a_def b_def c_def)
qed


text \<open>
  The comparisons of bytes are the reserved ranges: \<open>isPublicIPv4\<close> accepts an address
  exactly when none of the thirteen reserved prefixes contains it.
\<close>

theorem public_iff_not_reserved:
  "isPublicIPv4 (bytes4 w) \<longleftrightarrow> (\<forall>p \<in> set reserved_prefixes. \<not> Prefix_Contains p (Addr4 w))"
  by (rule public_iff)

section \<open>What is kept\<close>

definition public_text :: "string \<Rightarrow> bool" where
  "public_text s \<longleftrightarrow> (\<exists>w. s = string4 w \<and> isPublicIPv4 (bytes4 w))"

lemma NormalizePublicIPv4_result: "NormalizePublicIPv4 v = '''' \<or> public_text (NormalizePublicIPv4 v)"
  by (auto simp: NormalizePublicIPv4_def Let_def public_text_def split: option.split)

text \<open>The text of an IPv4 address goes through the normalisation unchanged.\<close>

lemma string4_chars:
  assumes "c \<in> set (string4 w)"
  shows "c = CHR ''.'' \<or> char_digit c \<noteq> None"
  using Join_dot_chars assms unfolding string4_def by blast

lemma string4_nonempty [simp]: "string4 w \<noteq> []"
  using string4_head [of w] by auto

lemma TrimSpace_string4 [simp]: "TrimSpace (string4 w) = string4 w"
proof (rule TrimSpace_no_space)
  have "\<forall>c \<in> \<Union> (set ` set space_runes). c \<noteq> CHR ''.'' \<and> char_digit c = None"
    by (simp add: space_runes_def char_digit_def)
  then show "set (string4 w) \<inter> \<Union> (set ` set space_runes) = {}"
    unfolding disjoint_iff using string4_chars [of _ w] by metis
qed

lemma dropWhile_id: "(\<And>x. x \<in> set xs \<Longrightarrow> \<not> P x) \<Longrightarrow> dropWhile P xs = xs"
  by (cases xs) auto

lemma Trim_id: "set s \<inter> set cutset = {} \<Longrightarrow> Trim s cutset = s"
proof -
  assume "set s \<inter> set cutset = {}"
  then have "dropWhile (\<lambda>c. c \<in> set cutset) s = s" "dropWhile (\<lambda>c. c \<in> set cutset) (rev s) = rev s"
    by (auto intro!: dropWhile_id)
  then show ?thesis by (simp add: Trim_def)
qed

lemma Trim_string4: "\<forall>c \<in> set cutset. c \<noteq> CHR ''.'' \<and> char_digit c = None \<Longrightarrow> Trim (string4 w) cutset = string4 w"
  using string4_chars [of _ w] by (intro Trim_id) (metis disjoint_iff)

lemma string4_no_colon: "CHR '':'' \<notin> set (string4 w)"
  using string4_chars [of "CHR '':''" w] by auto

lemma SplitHostPort_string4 [simp]: "SplitHostPort (string4 w) = None"
  using string4_no_colon [of w] by (simp add: SplitHostPort_def LastIndex_def Index_None [THEN iffD2])

lemma ParseIP_string4 [simp]: "ParseIP (string4 w) = Some (Addr4 w)"
  by (simp add: ParseIP_def)

lemma NormalizePublicIPv4_public: "isPublicIPv4 (bytes4 w) \<Longrightarrow> NormalizePublicIPv4 (string4 w) = string4 w"
  using Trim_string4 [of "''[]'' @ [CHR 0x22, CHR 0x27]" w]
  by (simp add: NormalizePublicIPv4_def char_digit_def)

lemma NormalizePublicIPv4_empty [simp]: "NormalizePublicIPv4 '''' = ''''"
  by (simp add: NormalizePublicIPv4_def)

text \<open>
  A reported address is kept only in canonical dotted form and only when it is public, and
  what is kept is kept again: the normalisation is idempotent.
\<close>

theorem public_ip_canonical:
  "(NormalizePublicIPv4 v = '''' \<or>
     (\<exists>w. NormalizePublicIPv4 v = string4 w \<and> (\<forall>p \<in> set reserved_prefixes. \<not> Prefix_Contains p (Addr4 w)))) \<and>
   NormalizePublicIPv4 (NormalizePublicIPv4 v) = NormalizePublicIPv4 v"
  using NormalizePublicIPv4_result [of v] NormalizePublicIPv4_public
  by (auto simp: public_text_def public_iff)


lemma JoinHostPort_public: "public_text h \<Longrightarrow> JoinHostPort h port = h @ '':'' @ port"
  using string4_no_colon by (auto simp: JoinHostPort_def Contains_def public_text_def)

text \<open>
  A normalised endpoint with a port never names a non-public address: it is empty, or a
  public IPv4 address with or without the port, or the reported text itself when its host is
  not an IP literal at all (a DNS name).
\<close>

theorem endpoint_names_no_private_address:
  assumes "splitEndpoint (TrimSpace endpoint) = (host, port, ok)" and "ok \<longrightarrow> port \<noteq> ''''"
  shows "NormalizePublicEndpoint endpoint publicIP = '''' \<or>
    public_text (NormalizePublicEndpoint endpoint publicIP) \<or>
    (\<exists>h. public_text h \<and> NormalizePublicEndpoint endpoint publicIP = h @ '':'' @ port) \<or>
    (NormalizePublicEndpoint endpoint publicIP = TrimSpace endpoint \<and>
     ParseIP (Trim (if ok then host else TrimSpace endpoint) ''[]'') = None)"
proof -
  define r where "r = NormalizePublicEndpoint endpoint publicIP"
  define p where "p = NormalizePublicIPv4 publicIP"
  have p: "p = '''' \<or> public_text p" unfolding p_def by (rule NormalizePublicIPv4_result)
  have s: "isPublicIPv4 (bytes4 w) \<Longrightarrow> public_text (string4 w)" for w by (auto simp: public_text_def)
  have r: "r = (if TrimSpace endpoint = '''' then ''''
      else if \<not> ok then
          (case ParseIP (Trim (TrimSpace endpoint) ''[]'') of
             None \<Rightarrow> if EqualFold (TrimSpace endpoint) ''localhost'' then '''' else TrimSpace endpoint
           | Some ip \<Rightarrow> (case To4 ip of
                 Some ip4 \<Rightarrow> if isPublicIPv4 (bytes4 ip4) then string4 ip4 else if p \<noteq> '''' then p else ''''
               | None \<Rightarrow> if p \<noteq> '''' then p else ''''))
        else if host = '''' then (if p = '''' then '''' else JoinHostPort p port)
        else (case ParseIP (Trim host ''[]'') of
            None \<Rightarrow> if EqualFold host ''localhost'' then '''' else TrimSpace endpoint
          | Some ip \<Rightarrow> (case To4 ip of
                None \<Rightarrow> ''''
              | Some ip4 \<Rightarrow> if isPublicIPv4 (bytes4 ip4) then JoinHostPort (string4 ip4) port
                  else if p = '''' then '''' else JoinHostPort p port)))"
    using assms(2) unfolding r_def NormalizePublicEndpoint_def Let_def p_def [symmetric] assms(1) prod.case by simp
  show ?thesis
    unfolding r_def [symmetric]
  proof (cases "ParseIP (Trim (if ok then host else TrimSpace endpoint) ''[]'')")
    case None
    then show "r = '''' \<or> public_text r \<or> (\<exists>h. public_text h \<and> r = h @ '':'' @ port) \<or>
        (r = TrimSpace endpoint \<and> ParseIP (Trim (if ok then host else TrimSpace endpoint) ''[]'') = None)"
      using p JoinHostPort_public by (cases ok) (auto simp: r)
  next
    case (Some ip)
    then have "r = '''' \<or> public_text r \<or> (\<exists>h. public_text h \<and> r = h @ '':'' @ port)"
      using p s JoinHostPort_public by (cases ok; cases "To4 ip") (auto simp: r)
    then show "r = '''' \<or> public_text r \<or> (\<exists>h. public_text h \<and> r = h @ '':'' @ port) \<or>
        (r = TrimSpace endpoint \<and> ParseIP (Trim (if ok then host else TrimSpace endpoint) ''[]'') = None)" by blast
  qed
qed

text \<open>
  The same is not true of an endpoint with an empty port: a private address followed by a
  colon is kept as reported.
\<close>

theorem empty_port_keeps_private_address:
  "NormalizePublicEndpoint ''10.2.0.3:'' '''' = ''10.2.0.3:'' \<and> \<not> isPublicIPv4 [10, 2, 0, 3]"
  by code_simp


section \<open>Examples\<close>

theorem public_iff_not_reserved_witness:
  "isPublicIPv4 (bytes4 0x52A0306F) \<and> \<not> Prefix_Contains \<lparr>pf_Addr = Addr4 0x0A000000, pf_Bits = 8\<rparr> (Addr4 0x52A0306F)"
proof -
  have "isPublicIPv4 (bytes4 0x52A0306F)" by code_simp
  moreover have "\<lparr>pf_Addr = Addr4 0x0A000000, pf_Bits = 8\<rparr> \<in> set reserved_prefixes" by (simp add: reserved_prefixes_def)
  ultimately show ?thesis using public_iff_not_reserved [of "0x52A0306F"] by blast
qed

theorem public_ip_canonical_witness:
  "NormalizePublicIPv4 '' 82.156.48.111:51820'' = ''82.156.48.111'' \<and> NormalizePublicIPv4 ''82.156.48.111'' = ''82.156.48.111''"
proof -
  have "NormalizePublicIPv4 '' 82.156.48.111:51820'' = ''82.156.48.111''" by code_simp
  then show ?thesis using public_ip_canonical [of "'' 82.156.48.111:51820''"] by simp
qed

theorem endpoint_names_no_private_address_witness:
  "NormalizePublicEndpoint ''10.2.0.3:51820'' ''82.156.48.111'' = '''' \<or>
   public_text (NormalizePublicEndpoint ''10.2.0.3:51820'' ''82.156.48.111'') \<or>
   (\<exists>h. public_text h \<and> NormalizePublicEndpoint ''10.2.0.3:51820'' ''82.156.48.111'' = h @ '':'' @ ''51820'')"
proof -
  have trim: "TrimSpace ''10.2.0.3:51820'' = ''10.2.0.3:51820''" by code_simp
  have split: "splitEndpoint (TrimSpace ''10.2.0.3:51820'') = (''10.2.0.3'', ''51820'', True)" unfolding trim by code_simp
  have "ParseIP (Trim ''10.2.0.3'' ''[]'') \<noteq> None" by code_simp
  with endpoint_names_no_private_address [OF split, of "''82.156.48.111''"] show ?thesis by auto
qed

end
