(* ===== verification/Registration.thy ===== *)
theory Registration
  imports Token_Store Tenant_Scope Routes Public_Network Alerts
begin

text \<open>
  How a device becomes a node of a tenant (\<^verbatim>\<open>internal/cli/controller_serve.go\<close>): the decision on a
  registration request, the address the node gets, the certificate it is issued
  (\<^verbatim>\<open>internal/security/certissuance\<close>), the join token it spends, and what an agent may ask for
  with its runtime token. The parsing and signing of X.509 is a parameter.
\<close>

section \<open>Certificate issuance\<close>

record csr =
  csr_Subject :: string
  csr_DNSNames :: "string list"
  csr_IPAddresses :: "string list"
  csr_URIs :: "string list"
  csr_PublicKey :: string

record leafTemplate =
  lt_SerialNumber :: nat
  lt_Subject :: string
  lt_NotBefore :: time
  lt_NotAfter :: time
  lt_DNSNames :: "string list"
  lt_IPAddresses :: "string list"
  lt_URIs :: "string list"

text \<open>
  What the service calls of \<^verbatim>\<open>encoding/pem\<close>, \<^verbatim>\<open>crypto/x509\<close> and \<^verbatim>\<open>crypto/rand\<close>; the signer is the
  key of the authority.
\<close>

record x509_lib =
  x_pem_Decode :: "string \<Rightarrow> string option"
  x_pem_EncodeToMemory :: "string \<Rightarrow> string"
  x_ParseCertificateRequest :: "string \<Rightarrow> err + csr"
  x_CheckSignature :: "csr \<Rightarrow> err option"
  x_rand_Int :: "err + nat"
  x_Text16 :: "nat \<Rightarrow> string"
  x_CreateCertificate :: "leafTemplate \<Rightarrow> string \<Rightarrow> err + string"

record Service =
  sv_lib :: x509_lib
  sv_caPEM :: string
  sv_validity :: time
  sv_renewBefore :: time

record IssueRequest =
  iq_NodeID :: string
  iq_TenantID :: string
  iq_CSRPEM :: string

record IssuedCertificate =
  ic_SerialNumber :: string
  ic_CertPEM :: string
  ic_CAPEM :: string
  ic_NotBefore :: time
  ic_NotAfter :: time

definition lift_err :: "string \<Rightarrow> err + 'a \<Rightarrow> 'a op" where
  "lift_err what r = (case r of Inl e \<Rightarrow> throw (ErrWrap what e) | Inr x \<Rightarrow> ret x)"

definition IssueFromCSR :: "Service \<Rightarrow> IssueRequest \<Rightarrow> IssuedCertificate op" where
  "IssueFromCSR s req =
     (if iq_CSRPEM req = '''' then throw (ErrMsg ''csr is required'')
      else case x_pem_Decode (sv_lib s) (iq_CSRPEM req) of
        None \<Rightarrow> throw (ErrMsg ''invalid CSR PEM'')
      | Some block \<Rightarrow>
          bnd (lift_err ''parse CSR'' (x_ParseCertificateRequest (sv_lib s) block)) (\<lambda>csr.
          case x_CheckSignature (sv_lib s) csr of
            Some e \<Rightarrow> throw (ErrWrap ''invalid CSR signature'' e)
          | None \<Rightarrow>
              bnd (lift_err ''serial generation failed'' (x_rand_Int (sv_lib s))) (\<lambda>serial.
              bnd time_Now (\<lambda>now.
              let notBefore = now - secs (5 * 60); notAfter = notBefore + sv_validity s;
                  template = \<lparr>lt_SerialNumber = serial, lt_Subject = csr_Subject csr, lt_NotBefore = notBefore,
                    lt_NotAfter = notAfter, lt_DNSNames = csr_DNSNames csr, lt_IPAddresses = csr_IPAddresses csr,
                    lt_URIs = csr_URIs csr\<rparr>
              in bnd (lift_err ''create certificate'' (x_CreateCertificate (sv_lib s) template (csr_PublicKey csr))) (\<lambda>der.
                 ret \<lparr>ic_SerialNumber = x_Text16 (sv_lib s) serial, ic_CertPEM = x_pem_EncodeToMemory (sv_lib s) der,
                   ic_CAPEM = sv_caPEM s, ic_NotBefore = notBefore, ic_NotAfter = notAfter\<rparr>)))))"

section \<open>The controller\<close>

text \<open>
  The parts of the process a request meets: the token library and its secret, the reader of
  identifiers, the certificate service when it is enabled, the first address of the overlay
  network, the collation of the database and the metrics gateway.
\<close>

record Controller =
  c_jwt :: "RuntimeClaims jwt_lib"
  c_secret :: "string option"
  c_uuid_Parse :: "string \<Rightarrow> uuid option"
  c_certService :: "Service option"
  c_baseIP :: string
  c_collate :: "string \<Rightarrow> string"
  c_metricsPushGateway :: string

record RegisterRequest =
  rr_PublicKey :: string
  rr_Endpoint :: string
  rr_PrivateIP :: string
  rr_PublicIP :: string
  rr_Region :: string
  rr_VPCID :: string
  rr_Hostname :: string
  rr_MachineID :: string
  rr_RegisteredAt :: int
  rr_Token :: string
  rr_RuntimeToken :: string
  rr_AdvertisedRoutes :: "string list"
  rr_RuntimeMode :: string
  rr_KernelVersion :: string
  rr_HasAESNI :: bool
  rr_CSRPEM :: string

definition previewString :: "string \<Rightarrow> int \<Rightarrow> string" where
  "previewString value maxLen = (if maxLen \<le> 0 \<or> int (length value) \<le> maxLen then value else take (nat maxLen) value)"

definition nodeRequiresFreshEnrollment :: "Node option \<Rightarrow> bool" where
  "nodeRequiresFreshEnrollment node = (case node of None \<Rightarrow> False | Some n \<Rightarrow> EqualFold (TrimSpace (nd_Status n)) ''deleted'')"

definition nodeRegistrationForbidden :: "Node option \<Rightarrow> bool" where
  "nodeRegistrationForbidden node = (case node of None \<Rightarrow> False
     | Some n \<Rightarrow> ToLower (TrimSpace (nd_Status n)) \<in> {''suspended'', ''banned''})"

definition nodeCertificateRequestForbidden :: "Node option \<Rightarrow> bool" where
  "nodeCertificateRequestForbidden node = (case node of None \<Rightarrow> False
     | Some n \<Rightarrow> ToLower (TrimSpace (nd_Status n)) \<in> {''deleted'', ''suspended'', ''banned''})"

definition auth_error :: "int \<Rightarrow> string \<Rightarrow> string \<Rightarrow> err" where
  "auth_error status message cause = RegistrationAuthError status message (ErrMsg cause)"

section \<open>Who may register\<close>

definition ensureTenantActive :: "uuid \<Rightarrow> unit op" where
  "ensureTenantActive tenantID =
     bnd (attempt (GetTenantStatus tenantID)) (\<lambda>r. case r of
         Inl e \<Rightarrow> throw (if e = ErrNoRows then RegistrationAuthError 403 ''Tenant is not active'' e
                    else RegistrationAuthError 500 ''Failed to verify tenant status'' e)
       | Inr status \<Rightarrow>
           if \<not> EqualFold (TrimSpace status) ''active''
           then throw (auth_error 403 ''Tenant is not active'' (''tenant '' @ tenantID @ '' status is '' @ status))
           else ret ())"

definition validateEnrollmentTokenTenant :: "string \<Rightarrow> uuid op" where
  "validateEnrollmentTokenTenant tokenValue =
     bnd (attempt (Validate tokenValue)) (\<lambda>r. case r of
         Inl e \<Rightarrow> throw (RegistrationAuthError 401
           (if e = ErrTokenNotFound then ''Invalid token''
            else if e = ErrTokenExpired then ''Token expired''
            else if e = ErrTokenExhausted then ''Token exhausted (max uses reached)''
            else if e = ErrTokenRevoked then ''Token revoked''
            else ''Invalid token'') e)
       | Inr tkn \<Rightarrow>
           bnd (attempt (GetTenantIDByToken tokenValue)) (\<lambda>q. case q of
               Inl e \<Rightarrow> throw (RegistrationAuthError 500 ''Failed to get tenant ID from token'' e)
             | Inr tenantID \<Rightarrow> bnd (ensureTenantActive tenantID) (\<lambda>_. ret tenantID)))"

definition registrationMachineIDMatches :: "string \<Rightarrow> string \<Rightarrow> bool" where
  "registrationMachineIDMatches requestMachineID storedMachineID =
     (let requestMachineID = TrimSpace requestMachineID; storedMachineID = TrimSpace storedMachineID
      in requestMachineID \<noteq> '''' \<and> storedMachineID \<noteq> '''' \<and> requestMachineID = storedMachineID)"

definition validateRegistrationRuntimeToken :: "Controller \<Rightarrow> string \<Rightarrow> Node option \<Rightarrow> unit op" where
  "validateRegistrationRuntimeToken c runtimeToken existingNode = (case existingNode of
       None \<Rightarrow> throw (auth_error 401 ''Node not found'' ''node not found'')
     | Some node \<Rightarrow> bnd (attempt (ValidateRuntimeToken (c_jwt c) (c_secret c) runtimeToken)) (\<lambda>r. case r of
           Inl e \<Rightarrow> throw (auth_error 401 ''Invalid runtime token'' ''invalid runtime token'')
         | Inr claims \<Rightarrow> (case c_uuid_Parse c (rt_NodeID claims) of
               None \<Rightarrow> throw (auth_error 401 ''Invalid runtime token node id'' ''invalid runtime token node id'')
             | Some tokenNodeID \<Rightarrow>
                 if tokenNodeID \<noteq> nd_ID node then throw (auth_error 403 ''Runtime token node mismatch'' ''runtime token node mismatch'')
                 else if TrimSpace (rt_TenantID claims) = '''' then
                   throw (auth_error 401 ''Runtime token tenant missing'' ''runtime token tenant missing'')
                 else (case c_uuid_Parse c (rt_TenantID claims) of
                     None \<Rightarrow> throw (auth_error 401 ''Invalid runtime token tenant'' ''invalid runtime token tenant'')
                   | Some tokenTenantID \<Rightarrow>
                       if tokenTenantID \<noteq> nd_TenantID node
                       then throw (auth_error 403 ''Runtime token tenant mismatch'' ''runtime token tenant mismatch'')
                       else ret ()))))"

text \<open>The result is \<^verbatim>\<open>RequestedTenantID\<close>.\<close>

definition authorizeRegistrationRequest :: "Controller \<Rightarrow> RegisterRequest option \<Rightarrow> Node option \<Rightarrow> string \<Rightarrow> uuid op" where
  "authorizeRegistrationRequest c req existingNode runtimeToken = (case req of
       None \<Rightarrow> throw (auth_error 400 ''Invalid registration request'' ''registration request is required'')
     | Some req \<Rightarrow>
       if nodeRegistrationForbidden existingNode
       then throw (auth_error 403 ''Node registration is disabled'' ''node registration is disabled'')
       else let requiresFreshEnrollment = nodeRequiresFreshEnrollment existingNode in
       (case existingNode of
          Some node \<Rightarrow>
            if \<not> requiresFreshEnrollment then
              if TrimSpace runtimeToken \<noteq> '''' then
                bnd (validateRegistrationRuntimeToken c runtimeToken existingNode) (\<lambda>_. ret (nd_TenantID node))
              else if TrimSpace (rr_Token req) = '''' then
                throw (auth_error 401 ''Runtime token required'' ''runtime token required for node re-registration'')
              else bnd (validateEnrollmentTokenTenant (rr_Token req)) (\<lambda>tenantID.
                if tenantID \<noteq> nd_TenantID node
                then throw (auth_error 403 ''Node tenant ownership is immutable'' ''node tenant ownership is immutable'')
                else if \<not> registrationMachineIDMatches (rr_MachineID req) (nd_MachineID node)
                then throw (auth_error 403 ''Node machine identity mismatch'' ''node machine identity mismatch'')
                else ret tenantID)
            else if TrimSpace (rr_Token req) = '''' then throw (auth_error 401 ''Token required'' ''token required'')
            else bnd (validateEnrollmentTokenTenant (rr_Token req)) (\<lambda>tenantID.
              if tenantID \<noteq> nd_TenantID node
              then throw (auth_error 403 ''Node tenant ownership is immutable'' ''node tenant ownership is immutable'')
              else ret tenantID)
        | None \<Rightarrow>
            if TrimSpace (rr_Token req) = '''' then throw (auth_error 401 ''Token required'' ''token required'')
            else validateEnrollmentTokenTenant (rr_Token req)))"

section \<open>Certificates of a node\<close>

definition msg_cert_issued :: string where
  "msg_cert_issued = [CHR 0x20, CHR 0xE8, CHR 0xAF, CHR 0x81, CHR 0xE4, CHR 0xB9, CHR 0xA6, CHR 0xE5, CHR 0xB7, CHR 0xB2,
     CHR 0xE7, CHR 0xAD, CHR 0xBE, CHR 0xE5, CHR 0x8F, CHR 0x91]"

definition msg_cert_renewed :: string where
  "msg_cert_renewed = [CHR 0x20, CHR 0xE8, CHR 0xAF, CHR 0x81, CHR 0xE4, CHR 0xB9, CHR 0xA6, CHR 0xE5, CHR 0xB7, CHR 0xB2,
     CHR 0xE7, CHR 0xBB, CHR 0xAD, CHR 0xE7, CHR 0xAD, CHR 0xBE]"

definition msg_cert_renewal_failed :: string where
  "msg_cert_renewal_failed = [CHR 0x20, CHR 0xE8, CHR 0xAF, CHR 0x81, CHR 0xE4, CHR 0xB9, CHR 0xA6, CHR 0xE7, CHR 0xBB, CHR 0xAD,
     CHR 0xE7, CHR 0xAD, CHR 0xBE, CHR 0xE5, CHR 0xA4, CHR 0xB1, CHR 0xE8, CHR 0xB4, CHR 0xA5]"

text \<open>An operation whose error is only logged.\<close>

definition logged :: "'a op \<Rightarrow> unit op" where
  "logged m = bnd (attempt m) (\<lambda>_. ret ())"

definition issueNodeCertificate :: "Service \<Rightarrow> Node option \<Rightarrow> string \<Rightarrow> uuid option \<Rightarrow> NodeCertificate option op" where
  "issueNodeCertificate svc node csrPEM renewedFrom = (case node of
       None \<Rightarrow> throw (ErrMsg ''node is required'')
     | Some node \<Rightarrow>
       if nd_ID node = uuid_Nil then throw (ErrMsg ''node id is required'')
       else if nd_TenantID node = uuid_Nil then throw (ErrMsg ''tenant id is required'')
       else bnd (IssueFromCSR svc \<lparr>iq_NodeID = nd_ID node, iq_TenantID = nd_TenantID node, iq_CSRPEM = csrPEM\<rparr>) (\<lambda>issued.
       bnd (UpsertNodeCertificate (Some \<lparr>ce_ID = uuid_Nil, ce_TenantID = nd_TenantID node, ce_NodeID = nd_ID node,
         ce_SerialNumber = ic_SerialNumber issued, ce_CertPEM = ic_CertPEM issued, ce_CAPEM = ic_CAPEM issued,
         ce_NotBefore = ic_NotBefore issued, ce_NotAfter = ic_NotAfter issued, ce_Status = CertStatusIssued, ce_IssuedAt = 0,
         ce_RevokedAt = None, ce_RevokeReason = '''', ce_RenewedFrom = renewedFrom, ce_UpdatedAt = 0\<rparr>)) (\<lambda>_.
       bnd (case renewedFrom of
           None \<Rightarrow> logged (CreateAuditEvent (system_event (nd_TenantID node) (nd_ID node) ''cert.issued''
             (msg_node @ nd_Hostname node @ msg_cert_issued)
             [(''serial_number'', VString (ic_SerialNumber issued)), (''not_after'', VString (format_RFC3339 (ic_NotAfter issued)))]))
         | Some old \<Rightarrow>
             bnd (logged (ResolveCertificateExpiringAlert (nd_TenantID node) (nd_ID node))) (\<lambda>_.
             bnd (logged (ResolveCertificateRenewFailedAlert (nd_TenantID node) (nd_ID node))) (\<lambda>_.
             logged (CreateAuditEvent (system_event (nd_TenantID node) (nd_ID node) ''certificate_renewed''
               (msg_node @ nd_Hostname node @ msg_cert_renewed)
               [(''serial_number'', VString (ic_SerialNumber issued)), (''not_after'', VString (format_RFC3339 (ic_NotAfter issued))),
                (''renewed_from'', VString old)]))))) (\<lambda>_.
       GetNodeCertificate (nd_ID node)))))"

section \<open>Registration\<close>

text \<open>The public identity that is kept of a request, from its fields and the address it came from.\<close>

definition registration_identity :: "RegisterRequest \<Rightarrow> string \<Rightarrow> string \<times> string" where
  "registration_identity req publicIP =
     (let normalizedPublicIP = NormalizePublicIPv4 (rr_PublicIP req);
          normalizedPublicIP = (if normalizedPublicIP = '''' then NormalizePublicIPv4 publicIP else normalizedPublicIP);
          normalizedEndpoint = NormalizePublicEndpoint (rr_Endpoint req) normalizedPublicIP;
          normalizedPublicIP = (if normalizedPublicIP = '''' then fst (NormalizeReportedNetwork '''' normalizedEndpoint) else normalizedPublicIP)
      in (normalizedPublicIP, normalizedEndpoint))"

text \<open>The address and offset: those of the known node, of a replaced host of that name, or a new one.\<close>

definition reuse_address :: "RegisterRequest \<Rightarrow> uuid \<Rightarrow> Node option \<Rightarrow> (string \<times> int) op" where
  "reuse_address req requestedTenantID existingNode = (case existingNode of
       Some node \<Rightarrow> ret (nd_AssignedIP node, nd_IPOffset node)
     | None \<Rightarrow>
         if requestedTenantID \<noteq> uuid_Nil then
           bnd (attempt (ReuseHostnameIP (rr_Hostname req) requestedTenantID)) (\<lambda>r. case r of
               Inl e \<Rightarrow> ret ('''', 0)
             | Inr (reusedIP, reusedOffset) \<Rightarrow> ret (reusedIP, reusedOffset))
         else ret ('''', 0))"

definition registration_address :: "Controller \<Rightarrow> RegisterRequest \<Rightarrow> uuid \<Rightarrow> Node option \<Rightarrow> (string \<times> int) op" where
  "registration_address c req requestedTenantID existingNode =
     bnd (reuse_address req requestedTenantID existingNode) (\<lambda>(assignedIP, ipOffset).
     if assignedIP = '''' then
       bnd (attempt GetNextAvailableOffset) (\<lambda>r. case r of
           Inl e \<Rightarrow> throw (ErrWrap ''failed to get next offset'' e)
         | Inr ipOffset \<Rightarrow> (case CalculateIP (c_baseIP c) ipOffset of
               Inl e \<Rightarrow> throw (ErrWrap ''failed to calculate IP'' e)
             | Inr assignedIP \<Rightarrow> ret (assignedIP, ipOffset)))
     else ret (assignedIP, ipOffset))"

definition registration_tenant :: "uuid \<Rightarrow> Node option \<Rightarrow> uuid op" where
  "registration_tenant requestedTenantID existingNode = (case existingNode of
       Some node \<Rightarrow> ret (nd_TenantID node)
     | None \<Rightarrow>
         if requestedTenantID \<noteq> uuid_Nil then ret requestedTenantID
         else bnd (attempt (GetOrCreateTenant ''default'')) (\<lambda>r. case r of
             Inl e \<Rightarrow> throw (ErrWrap ''failed to assign default tenant'' e)
           | Inr i \<Rightarrow> ret i))"

definition validateAdvertisedRouteConflicts :: "Controller \<Rightarrow> uuid \<Rightarrow> string \<Rightarrow> string \<Rightarrow> string list \<Rightarrow> unit op" where
  "validateAdvertisedRouteConflicts c tenantID publicKey region routes =
     (if routes = [] then ret ()
      else bnd (FindTenantAdvertisedRouteConflict (c_collate c) tenantID publicKey region routes) (\<lambda>r. case r of
          None \<Rightarrow> ret ()
        | Some conflict \<Rightarrow> throw (RouteConflict (RouteConflictError_Error conflict))))"

definition recordNodeRegistrationAudit :: "Node \<Rightarrow> bool \<Rightarrow> unit op" where
  "recordNodeRegistrationAudit node isReRegistration =
     (if nd_ID node = uuid_Nil \<or> nd_TenantID node = uuid_Nil then ret ()
      else logged (CreateAuditEvent \<lparr>ae_TenantID = nd_TenantID node, ae_NodeID = Some (nd_ID node),
        ae_EventType = (if isReRegistration then ''node.reregistered'' else ''node.registered''), ae_Actor = ''agent'',
        ae_Summary = (if isReRegistration then ''Node re-registered'' else ''Node registered''),
        ae_Detail = [(''hostname'', VString (nd_Hostname node)), (''assigned_ip'', VString (nd_AssignedIP node)),
          (''public_key_prefix'', VString (previewString (nd_PublicKey node) 8)), (''region'', VString (nd_Region node)),
          (''runtime_mode'', VString (nd_RuntimeMode node))]\<rparr>))"

definition registered_node ::
    "RegisterRequest \<Rightarrow> string \<Rightarrow> string \<Rightarrow> string list \<Rightarrow> string \<Rightarrow> int \<Rightarrow> uuid \<Rightarrow> Node option \<Rightarrow> int \<Rightarrow> Node" where
  "registered_node req publicIP endpoint routes assignedIP ipOffset tenantID existingNode lastSeen =
     \<lparr>nd_ID = (case existingNode of None \<Rightarrow> uuid_Nil | Some n \<Rightarrow> nd_ID n), nd_PublicKey = rr_PublicKey req,
      nd_MachineID = rr_MachineID req, nd_TenantID = tenantID, nd_Endpoint = endpoint, nd_PrivateIP = '''',
      nd_PublicIP = publicIP, nd_Region = rr_Region req, nd_VPCID = rr_VPCID req, nd_Hostname = rr_Hostname req,
      nd_AssignedIP = assignedIP, nd_IPOffset = ipOffset, nd_LastSeen = lastSeen,
      nd_RegisteredAt = (case existingNode of None \<Rightarrow> rr_RegisteredAt req | Some n \<Rightarrow> nd_RegisteredAt n),
      nd_Role = (case existingNode of Some n \<Rightarrow> if TrimSpace (nd_Role n) \<noteq> '''' then nd_Role n else ''agent'' | None \<Rightarrow> ''agent''),
      nd_RuntimeMode = rr_RuntimeMode req, nd_KernelVersion = rr_KernelVersion req, nd_HasAESNI = rr_HasAESNI req,
      nd_Status = '''', nd_OfflineSince = 0, nd_AdvertisedRoutes = routes, nd_EnrolledWithToken = rr_Token req,
      nd_CreatedAt = 0, nd_UpdatedAt = 0\<rparr>"

text \<open>The node of a failed first registration is marked deleted again; a failure of that is logged.\<close>

definition roll_back_node :: "string \<Rightarrow> bool \<Rightarrow> unit op" where
  "roll_back_node publicKey newly = (if newly then logged (MarkNodeDeleted publicKey) else ret ())"

definition spend_token :: "RegisterRequest \<Rightarrow> bool \<Rightarrow> unit op" where
  "spend_token req newly =
     (if TrimSpace (rr_Token req) = '''' then ret ()
      else bnd (attempt (ConsumeToken (rr_Token req) (rr_PublicKey req))) (\<lambda>r. case r of
          Inr _ \<Rightarrow> ret ()
        | Inl e \<Rightarrow> bnd (roll_back_node (rr_PublicKey req) newly) (\<lambda>_.
            throw (ErrWrap ''failed to consume enrollment token'' e))))"

definition certify :: "Controller \<Rightarrow> RegisterRequest \<Rightarrow> Node \<Rightarrow> bool \<Rightarrow> unit op" where
  "certify c req node newly = (case c_certService c of
       None \<Rightarrow> ret ()
     | Some svc \<Rightarrow>
         if TrimSpace (rr_CSRPEM req) = '''' then ret ()
         else bnd (attempt (issueNodeCertificate svc (Some node) (rr_CSRPEM req) None)) (\<lambda>r. case r of
             Inr _ \<Rightarrow> ret ()
           | Inl e \<Rightarrow> bnd (roll_back_node (rr_PublicKey req) newly) (\<lambda>_.
               throw (ErrWrap ''failed to issue node certificate'' e))))"

definition found :: "(err + Node option) \<Rightarrow> Node option" where
  "found r = (case r of Inl e \<Rightarrow> None | Inr n \<Rightarrow> n)"

definition processRegistration :: "Controller \<Rightarrow> RegisterRequest \<Rightarrow> string \<Rightarrow> string op" where
  "processRegistration c req publicIP =
     bnd (attempt (GetNode (rr_PublicKey req))) (\<lambda>r0.
     bnd (authorizeRegistrationRequest c (Some req) (found r0) (TrimSpace (rr_RuntimeToken req))) (\<lambda>requestedTenantID.
     let (normalizedPublicIP, normalizedEndpoint) = registration_identity req publicIP in
     bnd (attempt (GetNode (rr_PublicKey req))) (\<lambda>r1.
     let existingNode = found r1;
         isReRegistration = (existingNode \<noteq> None \<or> found r0 \<noteq> None);
         requiresFreshEnrollment = nodeRequiresFreshEnrollment (if existingNode \<noteq> None then existingNode else found r0);
         newly = (\<not> isReRegistration \<or> requiresFreshEnrollment);
         routes = (case existingNode of
             Some n \<Rightarrow> if rr_AdvertisedRoutes req = [] \<and> nd_AdvertisedRoutes n \<noteq> [] then nd_AdvertisedRoutes n else rr_AdvertisedRoutes req
           | None \<Rightarrow> rr_AdvertisedRoutes req)
     in bnd (registration_address c req requestedTenantID existingNode) (\<lambda>(assignedIP, ipOffset).
     bnd (registration_tenant requestedTenantID existingNode) (\<lambda>tenantID.
     bnd (attempt (validateAdvertisedRouteConflicts c tenantID (rr_PublicKey req) (rr_Region req) routes)) (\<lambda>v. case v of
         Inl e \<Rightarrow> throw (ErrWrap ''failed to validate advertised routes'' e)
       | Inr _ \<Rightarrow>
     bnd time_Now (\<lambda>now.
     let node = registered_node req normalizedPublicIP normalizedEndpoint routes assignedIP ipOffset tenantID existingNode (unix now);
         issueCertificateBeforeSave = (isReRegistration \<and> \<not> requiresFreshEnrollment \<and> c_certService c \<noteq> None \<and> TrimSpace (rr_CSRPEM req) \<noteq> '''')
     in bnd (if issueCertificateBeforeSave then certify c req node False else ret ()) (\<lambda>_.
     bnd (attempt (SaveNode (Some node))) (\<lambda>saved. case saved of
         Inl e \<Rightarrow> throw (ErrWrap ''failed to save node'' e)
       | Inr node \<Rightarrow>
     bnd (spend_token req newly) (\<lambda>_.
     bnd (if issueCertificateBeforeSave then ret () else certify c req node newly) (\<lambda>_.
     bnd (recordNodeRegistrationAudit node isReRegistration) (\<lambda>_.
     ret assignedIP))))))))))))"

section \<open>The adapter of the agent service\<close>

record RegistrationResult =
  rs_AssignedIP :: string
  rs_MetricsPushGateway :: string
  rs_NodeID :: string
  rs_RuntimeToken :: string
  rs_RuntimeTokenExpiresAt :: int
  rs_CertificatePEM :: string
  rs_CertificateCA :: string
  rs_CertificateNotAfter :: int
  rs_CertificateRenewBefore :: int

definition with_certificate :: "Controller \<Rightarrow> RegisterRequest \<Rightarrow> Node \<Rightarrow> RegistrationResult \<Rightarrow> RegistrationResult op" where
  "with_certificate c req node result = (case c_certService c of
       None \<Rightarrow> ret result
     | Some svc \<Rightarrow>
         if TrimSpace (rr_CSRPEM req) = '''' then ret result
         else bnd (attempt (GetNodeCertificate (nd_ID node))) (\<lambda>r. case r of
             Inl e \<Rightarrow> throw (ErrWrap ''failed to load issued node certificate'' e)
           | Inr None \<Rightarrow> throw (ErrMsg ''issued node certificate was not found'')
           | Inr (Some cert) \<Rightarrow>
               if \<not> EqualFold (TrimSpace (ce_Status cert)) CertStatusIssued
               then throw (ErrMsg ''issued node certificate was not found'')
               else ret (result\<lparr>rs_CertificatePEM := ce_CertPEM cert, rs_CertificateCA := ce_CAPEM cert,
                 rs_CertificateNotAfter := unix (ce_NotAfter cert), rs_CertificateRenewBefore := unix (sv_renewBefore svc)\<rparr>)))"

record RegistrationRequest =
  rg_PublicKey :: string
  rg_Endpoint :: string
  rg_PrivateIP :: string
  rg_PublicIP :: string
  rg_Hostname :: string
  rg_RegisteredAt :: int
  rg_Token :: string
  rg_RuntimeToken :: string
  rg_AdvertisedRoutes :: "string list"
  rg_Region :: string
  rg_CustomerID :: string
  rg_RuntimeMode :: string
  rg_KernelVersion :: string
  rg_HasAESNI :: bool
  rg_MachineID :: string
  rg_CSRPEM :: string

definition adapted_request :: "RegistrationRequest \<Rightarrow> RegisterRequest" where
  "adapted_request r = \<lparr>rr_PublicKey = rg_PublicKey r, rr_Endpoint = rg_Endpoint r, rr_PrivateIP = rg_PrivateIP r,
     rr_PublicIP = rg_PublicIP r, rr_Region = rg_Region r, rr_VPCID = '''', rr_Hostname = rg_Hostname r,
     rr_MachineID = rg_MachineID r, rr_RegisteredAt = rg_RegisteredAt r, rr_Token = rg_Token r,
     rr_RuntimeToken = rg_RuntimeToken r, rr_AdvertisedRoutes = rg_AdvertisedRoutes r, rr_RuntimeMode = rg_RuntimeMode r,
     rr_KernelVersion = rg_KernelVersion r, rr_HasAESNI = rg_HasAESNI r, rr_CSRPEM = rg_CSRPEM r\<rparr>"

definition createRegisterAdapter :: "Controller \<Rightarrow> RegistrationRequest option \<Rightarrow> RegistrationResult op" where
  "createRegisterAdapter c regReq = (case regReq of
       None \<Rightarrow> throw (ErrMsg ''registration request is required'')
     | Some regReq \<Rightarrow>
       let req = adapted_request regReq in
       bnd (processRegistration c req '''') (\<lambda>assignedIP.
       bnd (attempt (GetNode (rr_PublicKey req))) (\<lambda>r. case r of
           Inl e \<Rightarrow> throw (ErrWrap ''failed to load registered node'' e)
         | Inr None \<Rightarrow> throw (ErrMsg ''registered node was not found'')
         | Inr (Some node) \<Rightarrow>
       bnd (attempt (GetNodeRuntimeTokenVersion (nd_ID node))) (\<lambda>v. case v of
           Inl e \<Rightarrow> throw (ErrWrap ''failed to load runtime token version'' e)
         | Inr version \<Rightarrow>
       bnd (attempt (GenerateRuntimeTokenWithVersion (c_jwt c) (c_secret c) (nd_ID node) (nd_TenantID node) version)) (\<lambda>g. case g of
           Inl e \<Rightarrow> throw (ErrWrap ''failed to issue runtime token'' e)
         | Inr (runtimeToken, expiresAt) \<Rightarrow>
       with_certificate c req node \<lparr>rs_AssignedIP = assignedIP, rs_MetricsPushGateway = c_metricsPushGateway c,
         rs_NodeID = nd_ID node, rs_RuntimeToken = runtimeToken, rs_RuntimeTokenExpiresAt = unix expiresAt,
         rs_CertificatePEM = '''', rs_CertificateCA = '''', rs_CertificateNotAfter = 0, rs_CertificateRenewBefore = 0\<rparr>)))))"

section \<open>What a runtime token allows over HTTP\<close>

text \<open>The second component of the Go result is whether the text is not empty.\<close>

definition runtimeBearerTokenFromRequest :: "http_request \<Rightarrow> string \<times> bool" where
  "runtimeBearerTokenFromRequest r =
     (let authz = TrimSpace (rq_Header_Get r ''Authorization'') in
      if authz = '''' then ('''', False)
      else let authz = (if HasPrefix (ToLower authz) ''bearer '' then TrimSpace (drop 7 authz) else authz)
        in (authz, authz \<noteq> ''''))"

definition registrationRuntimeTokenFromRequest :: "http_request option \<Rightarrow> RegisterRequest option \<Rightarrow> string" where
  "registrationRuntimeTokenFromRequest r req =
     (let fromHeader = (case r of None \<Rightarrow> '''' | Some r \<Rightarrow>
            (case runtimeBearerTokenFromRequest r of (token, ok) \<Rightarrow> if ok then token else ''''))
      in case req of None \<Rightarrow> fromHeader
         | Some q \<Rightarrow> if TrimSpace (rr_RuntimeToken q) \<noteq> '''' then TrimSpace (rr_RuntimeToken q) else fromHeader)"

definition authorizeRuntimeNodeByPublicKey :: "Controller \<Rightarrow> string \<Rightarrow> string \<Rightarrow> Node reply op" where
  "authorizeRuntimeNodeByPublicKey c runtimeToken publicKey =
     (if TrimSpace publicKey = '''' then ret (HttpError 400 ''Public key required'')
      else bnd (attempt (ValidateRuntimeToken (c_jwt c) (c_secret c) runtimeToken)) (\<lambda>v. case v of
          Inl e \<Rightarrow> ret (HttpError 401 ''Invalid runtime token'')
        | Inr claims \<Rightarrow> bnd (attempt (GetNode publicKey)) (\<lambda>g. case found g of
              None \<Rightarrow> ret (HttpError 404 ''Node not found'')
            | Some node \<Rightarrow> ret (case c_uuid_Parse c (rt_NodeID claims) of
                  None \<Rightarrow> HttpError 401 ''Invalid runtime token node id''
                | Some tokenNodeID \<Rightarrow>
                    if tokenNodeID \<noteq> nd_ID node then HttpError 403 ''Runtime token node mismatch''
                    else if TrimSpace (rt_TenantID claims) = '''' then HttpError 401 ''Runtime token tenant missing''
                    else (case c_uuid_Parse c (rt_TenantID claims) of
                        None \<Rightarrow> HttpError 401 ''Invalid runtime token tenant''
                      | Some tokenTenantID \<Rightarrow>
                          if tokenTenantID \<noteq> nd_TenantID node then HttpError 403 ''Runtime token tenant mismatch''
                          else if nodeCertificateRequestForbidden (Some node)
                          then HttpError 403 (''Node access denied: current status is '' @ quoted (ToLower (TrimSpace (nd_Status node))))
                          else Reply node)))))"

text \<open>
  The body is the decoded public key, or the text of the decoding error. The notification of
  the other agents over Redis changes no table.
\<close>

definition HandleUnregister :: "Controller \<Rightarrow> string \<Rightarrow> http_request \<Rightarrow> string + string \<Rightarrow> unit reply op" where
  "HandleUnregister c meth r body =
     (if meth \<noteq> ''POST'' then ret (HttpError 405 ''Method not allowed'')
      else (case runtimeBearerTokenFromRequest r of (runtimeToken, ok) \<Rightarrow>
        if \<not> ok then ret (HttpError 401 ''Runtime token required'')
        else (case body of Inl e \<Rightarrow> ret (HttpError 400 e) | Inr publicKey \<Rightarrow>
          bnd (authorizeRuntimeNodeByPublicKey c runtimeToken publicKey) (\<lambda>a. case a of
              Reply node \<Rightarrow>
                bnd (attempt (ApplyNodeLifecycleTransition publicKey \<lparr>nt_TargetStatus = ''deleted'', nt_RevokeReason = ''node unregistered'',
                    nt_AuditEventType = ''node_unregistered'', nt_AuditActor = ''agent'', nt_AuditSummary = ''Node unregistered'',
                    nt_AuditDetail = [(''assigned_ip'', VString (nd_AssignedIP node))]\<rparr>)) (\<lambda>t. case t of
                  Inl e \<Rightarrow> ret (HttpError 500 ''Failed to delete node'')
                | Inr _ \<Rightarrow> ret (Reply ()))
            | HttpError code msg \<Rightarrow> ret (HttpError code msg)
            | WriteError code cls msg \<Rightarrow> ret (WriteError code cls msg)))))"

record certificateIssueRequest =
  ci_NodeID :: string
  ci_PublicKey :: string
  ci_CSRPEM :: string
  ci_RuntimeToken :: string
  ci_Token :: string

definition resolveCertificateRequestNode :: "Controller \<Rightarrow> http_request \<Rightarrow> certificateIssueRequest \<Rightarrow> Node op" where
  "resolveCertificateRequestNode c r req =
     (let runtimeToken = TrimSpace (ci_RuntimeToken req); authz = TrimSpace (rq_Header_Get r ''Authorization'');
          runtimeToken = (if runtimeToken = '''' \<and> HasPrefix (ToLower authz) ''bearer '' then TrimSpace (drop 7 authz) else runtimeToken)
      in if runtimeToken \<noteq> '''' then
           bnd (attempt (ValidateRuntimeToken (c_jwt c) (c_secret c) runtimeToken)) (\<lambda>v. case v of
               Inl e \<Rightarrow> throw (ErrMsg ''invalid runtime token'')
             | Inr claims \<Rightarrow> (case c_uuid_Parse c (rt_NodeID claims) of
                   None \<Rightarrow> throw (ErrMsg ''invalid runtime token node id'')
                 | Some nodeID \<Rightarrow> bnd (attempt (GetNodeByID nodeID)) (\<lambda>g. case found g of
                       None \<Rightarrow> throw (ErrMsg ''node not found'')
                     | Some node \<Rightarrow>
                         if TrimSpace (rt_TenantID claims) = '''' then throw (ErrMsg ''invalid runtime token tenant'')
                         else (case c_uuid_Parse c (rt_TenantID claims) of
                             None \<Rightarrow> throw (ErrMsg ''invalid runtime token tenant'')
                           | Some tokenTenantID \<Rightarrow>
                               if tokenTenantID \<noteq> nd_TenantID node then throw (ErrMsg ''tenant mismatch'')
                               else if nodeCertificateRequestForbidden (Some node) then throw (ErrMsg
                                 (''node access denied: current status is '' @ quoted (ToLower (TrimSpace (nd_Status node)))))
                               else ret node))))
         else if ci_Token req \<noteq> '''' then throw (ErrMsg ''runtime_token is required for certificate issuance'')
         else throw (ErrMsg ''runtime_token is required''))"

definition recordCertificateRenewFailure :: "Node \<Rightarrow> string \<Rightarrow> unit op" where
  "recordCertificateRenewFailure node message =
     (let hostname = (if TrimSpace (nd_Hostname node) = '''' then nd_ID node else nd_Hostname node) in
      bnd (logged (GenerateCertificateRenewFailedAlert (nd_TenantID node) (nd_ID node) hostname message)) (\<lambda>_.
      logged (CreateAuditEvent (system_event (nd_TenantID node) (nd_ID node) ''certificate_renew_failed''
        (msg_node @ hostname @ msg_cert_renewal_failed) [(''error'', VString message)]))))"

text \<open>
  The certificate a renewal starts from: \<open>Reply (Some i)\<close> to renew, \<open>Reply None\<close> to issue. The
  text of an error is a parameter.
\<close>

definition renewal_source :: "bool \<Rightarrow> Node \<Rightarrow> uuid option reply op" where
  "renewal_source isRenew node =
     (if \<not> isRenew then ret (Reply None)
      else bnd (attempt (GetNodeCertificate (nd_ID node))) (\<lambda>r. case r of
          Inl e \<Rightarrow> bnd (recordCertificateRenewFailure node ''failed to load current certificate'') (\<lambda>_.
            ret (HttpError 500 ''Failed to load current certificate''))
        | Inr None \<Rightarrow> bnd (recordCertificateRenewFailure node ''no existing certificate to renew'') (\<lambda>_.
            ret (HttpError 404 ''No existing certificate to renew''))
        | Inr (Some existing) \<Rightarrow>
            if \<not> EqualFold (TrimSpace (ce_Status existing)) CertStatusIssued
            then bnd (recordCertificateRenewFailure node ''current certificate is not eligible for renewal'') (\<lambda>_.
              ret (HttpError 409 ''Current certificate is not eligible for renewal''))
            else ret (Reply (Some (ce_ID existing)))))"

definition handleIssueOrRenewCertificate ::
    "Controller \<Rightarrow> (err \<Rightarrow> string) \<Rightarrow> string \<Rightarrow> http_request \<Rightarrow> certificateIssueRequest option \<Rightarrow> bool \<Rightarrow> NodeCertificate reply op" where
  "handleIssueOrRenewCertificate c err_Error meth r body isRenew =
     (if meth \<noteq> ''POST'' then ret (HttpError 405 ''Method not allowed'')
      else case c_certService c of None \<Rightarrow> ret (HttpError 503 ''Certificate issuance is not enabled'') | Some svc \<Rightarrow>
      (case body of None \<Rightarrow> ret (HttpError 400 ''Invalid request body'') | Some req \<Rightarrow>
       if ci_CSRPEM req = '''' then ret (HttpError 400 ''csr_pem is required'')
       else bnd (attempt (resolveCertificateRequestNode c r req)) (\<lambda>q. case q of
           Inl e \<Rightarrow> ret (HttpError 401 (err_Error e))
         | Inr node \<Rightarrow> bnd (renewal_source isRenew node) (\<lambda>src. case src of
               HttpError code msg \<Rightarrow> ret (HttpError code msg)
             | WriteError code cls msg \<Rightarrow> ret (WriteError code cls msg)
             | Reply renewedFrom \<Rightarrow>
                 bnd (attempt (issueNodeCertificate svc (Some node) (ci_CSRPEM req) renewedFrom)) (\<lambda>i. case i of
                     Inl e \<Rightarrow> bnd (if isRenew then recordCertificateRenewFailure node (err_Error e) else ret ()) (\<lambda>_.
                       ret (HttpError 500 (''Failed to issue certificate: '' @ err_Error e)))
                   | Inr None \<Rightarrow> throw (GoPanic ''nil certificate'')
                   | Inr (Some cert) \<Rightarrow> ret (Reply cert))))))"

definition HandleIssueCertificate ::
    "Controller \<Rightarrow> (err \<Rightarrow> string) \<Rightarrow> string \<Rightarrow> http_request \<Rightarrow> certificateIssueRequest option \<Rightarrow> NodeCertificate reply op" where
  "HandleIssueCertificate c err_Error meth r body = handleIssueOrRenewCertificate c err_Error meth r body False"

definition HandleRenewCertificate ::
    "Controller \<Rightarrow> (err \<Rightarrow> string) \<Rightarrow> string \<Rightarrow> http_request \<Rightarrow> certificateIssueRequest option \<Rightarrow> NodeCertificate reply op" where
  "HandleRenewCertificate c err_Error meth r body = handleIssueOrRenewCertificate c err_Error meth r body True"

section \<open>Flaws of the registration, on concrete runs\<close>

text \<open>
  A tenant with one join token of unlimited use and one node, and two requests with that
  token: one of another device under the host name of the node, one of the node itself.
\<close>

definition join_token :: token_row where
  "join_token = \<lparr>tok_id = ''k1'', tok_token = ''join'', tok_tag = None, tok_tenant_id = Some ''t1'', tok_max_uses = 0,
     tok_used_count = 0, tok_expires_at = 1000000, tok_created_at = 0, tok_created_by = None, tok_status = ''active'',
     tok_last_used_at = None, tok_last_used_by = None\<rparr>"

definition join_db :: "string \<Rightarrow> db" where
  "join_db status = \<lparr>db_now = 100, go_now = 100, faults = [], uuid_of = itoa_nat, uuid_ctr = 0,
     tab = empty_tables\<lparr>tokens := [join_token],
       nodes := [(sample_node ''n1'' ''pk1'' status)\<lparr>node_assigned_ip := ''100.64.0.5'', node_ip_offset := 5\<rparr>],
       tenants := [\<lparr>tenant_id = ''t1'', tenant_name = ''acme'', tenant_code = None, tenant_status = Some ''active'',
         tenant_resource_quota = None, tenant_created_at = 0, tenant_updated_at = 0\<rparr>]\<rparr>\<rparr>"

definition join_request :: "string \<Rightarrow> RegisterRequest" where
  "join_request pk = \<lparr>rr_PublicKey = pk, rr_Endpoint = '''', rr_PrivateIP = '''', rr_PublicIP = '''', rr_Region = '''', rr_VPCID = '''',
     rr_Hostname = ''h1'', rr_MachineID = ''m1'', rr_RegisteredAt = 0, rr_Token = ''join'', rr_RuntimeToken = '''',
     rr_AdvertisedRoutes = [], rr_RuntimeMode = ''kernel'', rr_KernelVersion = '''', rr_HasAESNI = False, rr_CSRPEM = ''''\<rparr>"

definition agent_request :: "string \<Rightarrow> RegistrationRequest" where
  "agent_request pk = \<lparr>rg_PublicKey = pk, rg_Endpoint = '''', rg_PrivateIP = '''', rg_PublicIP = '''', rg_Hostname = ''h1'',
     rg_RegisteredAt = 0, rg_Token = '''', rg_RuntimeToken = ''rt_jwt'', rg_AdvertisedRoutes = [], rg_Region = '''',
     rg_CustomerID = '''', rg_RuntimeMode = ''kernel'', rg_KernelVersion = '''', rg_HasAESNI = False, rg_MachineID = ''m1'',
     rg_CSRPEM = ''''\<rparr>"

definition join_controller :: Controller where
  "join_controller = \<lparr>c_jwt = sample_lib, c_secret = Some ''k'', c_uuid_Parse = Some, c_certService = None,
     c_baseIP = ''100.64.0.0'', c_collate = (\<lambda>x. x), c_metricsPushGateway = ''''\<rparr>"

text \<open>
  Two live nodes get the same address: a device that registers under the host name of a
  node takes over the node's address and the node is marked deleted; when the node registers
  again it gets its old address back although the other device holds it now.
\<close>

theorem reregistration_doubles_an_address:
  "\<exists>s1 s2. processRegistration join_controller (join_request ''pk2'') '''' (join_db ''online'') = (Inr ''100.64.0.5'', s1) \<and>
    processRegistration join_controller (join_request ''pk1'') '''' s1 = (Inr ''100.64.0.5'', s2) \<and>
    map (\<lambda>n. (node_public_key n, node_status n, node_assigned_ip n)) (nodes (tab s2)) =
      [(''pk1'', Some ''online'', ''100.64.0.5''), (''pk2'', Some ''online'', ''100.64.0.5'')]"
proof -
  let ?r1 = "processRegistration join_controller (join_request ''pk2'') '''' (join_db ''online'')"
  let ?r2 = "processRegistration join_controller (join_request ''pk1'') '''' (snd ?r1)"
  have "(fst ?r1, fst ?r2, map (\<lambda>n. (node_public_key n, node_status n, node_assigned_ip n)) (nodes (tab (snd ?r2)))) =
    (Inr ''100.64.0.5'', Inr ''100.64.0.5'', [(''pk1'', Some ''online'', ''100.64.0.5''), (''pk2'', Some ''online'', ''100.64.0.5'')])"
    by code_simp
  then show ?thesis by (intro exI [of _ "snd ?r1"] exI [of _ "snd ?r2"]) (simp add: prod_eq_iff)
qed

text \<open>
  A banned node is let in again when the database fails to answer the first of the two
  lookups of the node: the request is then judged as that of an unknown device, and saving the
  node makes it live. With both lookups served the request is refused.
\<close>

theorem failed_lookup_readmits_banned_node:
  "fst (processRegistration join_controller (join_request ''pk1'') '''' (join_db ''banned'')) =
     Inl (RegistrationAuthError 403 ''Node registration is disabled'' (ErrMsg ''node registration is disabled'')) \<and>
   (\<exists>t. processRegistration join_controller (join_request ''pk1'') '''' ((join_db ''banned'')\<lparr>faults := [True]\<rparr>) = (Inr ''100.64.0.5'', t) \<and>
     map (\<lambda>n. (node_public_key n, node_status n)) (nodes (tab t)) = [(''pk1'', Some ''online'')])"
proof
  show "fst (processRegistration join_controller (join_request ''pk1'') '''' (join_db ''banned'')) =
     Inl (RegistrationAuthError 403 ''Node registration is disabled'' (ErrMsg ''node registration is disabled''))" by code_simp
  let ?r = "processRegistration join_controller (join_request ''pk1'') '''' ((join_db ''banned'')\<lparr>faults := [True]\<rparr>)"
  have "(fst ?r, map (\<lambda>n. (node_public_key n, node_status n)) (nodes (tab (snd ?r)))) = (Inr ''100.64.0.5'', [(''pk1'', Some ''online'')])"
    by code_simp
  then show "\<exists>t. ?r = (Inr ''100.64.0.5'', t) \<and> map (\<lambda>n. (node_public_key n, node_status n)) (nodes (tab t)) = [(''pk1'', Some ''online'')]"
    by (intro exI [of _ "snd ?r"]) (simp add: prod_eq_iff)
qed

text \<open>
  A revoked runtime token still registers: the interceptor refuses a token with an outdated
  version, the registration accepts it and answers with a token of the current version.
\<close>

definition outdated_lib :: "RuntimeClaims jwt_lib" where
  "outdated_lib = (one_token_lib rt_Registered ''k'' (sample_claims\<lparr>rt_TokenVersion := 1\<rparr>))
     \<lparr>lib_SignedString := (\<lambda>k c. if rt_TokenVersion c = 2 then Inr ''fresh'' else Inl (ErrMsg ''sign''))\<rparr>"

theorem revoked_token_registers:
  "fst (UnaryAuthInterceptor outdated_lib (Some ''k'') Some True sample_rpc ''/aria.agent.ControllerService/Sync'' (\<lambda>_. ret ()) (join_db ''online''))
     = Inl (GrpcStatus Unauthenticated ''runtime token revoked'') \<and>
   map_sum id rs_RuntimeToken (fst (createRegisterAdapter (join_controller\<lparr>c_jwt := outdated_lib\<rparr>)
     (Some (agent_request ''pk1'')) (join_db ''online''))) = Inr ''rt_fresh''"
  by (rule conjI; code_simp)

end
