(* ===== verification/Enrollment.thy ===== *)
theory Enrollment
  imports Registration
begin

text \<open>
  Every device that is admitted has spent a join token: what each step of a registration does to
  the table of tokens, and that a successful registration of an unknown key has increased the
  count of its token by one.
\<close>

section \<open>Steps that leave the tokens alone\<close>

definition same_tokens :: "tables \<Rightarrow> tables \<Rightarrow> bool" where
  "same_tokens t u \<longleftrightarrow> tokens u = tokens t"

interpretation spent: table_relation same_tokens
  by unfold_locales (simp_all add: same_tokens_def)

lemma maintains_logged [maintains_rules]: "maintains same_tokens m \<Longrightarrow> maintains same_tokens (logged m)"
  unfolding logged_def by (intro maintains_rules)

lemma tokens_GetNode [maintains_rules]: "maintains same_tokens (GetNode pk)"
  unfolding GetNode_def scanNode_def by (intro maintains_rules)

lemma tokens_cut_off: "preserves same_tokens (cut_off_tx i pk reason message)"
  unfolding cut_off_tx_def revokeNodeCertificatesTx_def failIncompleteAgentCommandsForNodeTx_def
  by (intro preserves_rules)
    (simp_all add: same_tokens_def update_nodes_sql_def revoke_sql_def fail_deliveries_sql_def fail_commands_sql_def)

lemma tokens_ReuseHostnameIP [maintains_rules]: "maintains same_tokens (ReuseHostnameIP h tenant)"
  unfolding ReuseHostnameIP_def
  by (rule spent.maintains_transaction_commit)
    (auto simp: bnd_Inr throw_Inr ret_Inr Let_def same_tokens_def dest!: select_InrD preservesD [OF tokens_cut_off]
      split: option.splits if_split_asm)


lemma tokens_wrap_err: "maintains same_tokens m \<Longrightarrow> maintains same_tokens (wrap_err w m)"
  unfolding wrap_err_def by (intro maintains_rules)

lemma tokens_kv_put: "tokens (kv_put k v t) = tokens t"
  by (simp add: kv_put_def)

lemma tokens_GetNextAvailableOffset [maintains_rules]: "maintains same_tokens GetNextAvailableOffset"
  unfolding GetNextAvailableOffset_def lock_next_offset_def
  by (intro maintains_rules tokens_wrap_err) (simp_all add: same_tokens_def tokens_kv_put)

lemma tokens_GetOrCreateTenant [maintains_rules]: "maintains same_tokens (GetOrCreateTenant n)"
  unfolding GetOrCreateTenant_def
  by (intro maintains_rules) (auto simp: same_tokens_def upsert_tenant_sql_def split: option.splits if_splits)

lemma tokens_SaveNode [maintains_rules]: "maintains same_tokens (SaveNode n)"
  unfolding SaveNode_def
  by (intro maintains_rules) (auto simp: same_tokens_def save_node_sql_def split: option.splits if_splits)

lemma tokens_MarkNodeDeleted [maintains_rules]: "maintains same_tokens (MarkNodeDeleted pk)"
  unfolding MarkNodeDeleted_def
  by (rule spent.maintains_transaction_commit)
    (auto simp: bnd_Inr throw_Inr ret_Inr same_tokens_def dest!: select_InrD preservesD [OF tokens_cut_off]
      split: option.splits)

lemma tokens_CreateAuditEvent [maintains_rules]: "maintains same_tokens (CreateAuditEvent e)"
  unfolding CreateAuditEvent_def
  by (intro maintains_rules) (auto simp: same_tokens_def insert_audit_sql_def split: if_splits)


lemma tokens_resolve_once [maintains_rules]: "maintains same_tokens (resolve_once tenant node ty)"
  unfolding resolve_once_def GetActiveAlertByNodeAndType_def ResolveAlert_def
  by (intro maintains_rules) (simp_all add: same_tokens_def resolve_sql_def)

lemma tokens_IssueFromCSR [maintains_rules]: "maintains same_tokens (IssueFromCSR svc r)"
  unfolding IssueFromCSR_def lift_err_def by (intro maintains_rules)

lemma tokens_issueNodeCertificate [maintains_rules]: "maintains same_tokens (issueNodeCertificate svc n csr old)"
  unfolding issueNodeCertificate_def UpsertNodeCertificate_def GetNodeCertificate_def
    ResolveCertificateExpiringAlert_def ResolveCertificateRenewFailedAlert_def
  by (intro maintains_rules) (auto simp: same_tokens_def upsert_certificate_sql_def split: option.splits if_splits)

lemma tokens_certify [maintains_rules]: "maintains same_tokens (certify c req n newly)"
  unfolding certify_def roll_back_node_def by (intro maintains_rules)

lemma tokens_audit [maintains_rules]: "maintains same_tokens (recordNodeRegistrationAudit n re)"
  unfolding recordNodeRegistrationAudit_def by (intro maintains_rules)

lemma tokens_validateAdvertisedRouteConflicts [maintains_rules]:
  "maintains same_tokens (validateAdvertisedRouteConflicts c tenant pk reg routes)"
  unfolding validateAdvertisedRouteConflicts_def FindTenantAdvertisedRouteConflict_def
  by (intro maintains_rules)

lemma tokens_registration_address [maintains_rules]: "maintains same_tokens (registration_address c req tenant n)"
  unfolding registration_address_def reuse_address_def by (intro maintains_rules)

lemma tokens_registration_tenant [maintains_rules]: "maintains same_tokens (registration_tenant tenant n)"
  unfolding registration_tenant_def by (intro maintains_rules)

section \<open>Steps that read or spend a token\<close>

text \<open>A validation that succeeds has changed no token; one that fails may have marked one as expired.\<close>

lemma Validate_keeps_tokens:
  assumes "Validate k s = (Inr tkn, t)"
  shows "tab t = tab s"
proof -
  from assms obtain found u where u: "GetByToken k s = (Inr found, u)" and "t = u"
    unfolding Validate_def
    by (auto simp: handled_Inr bnd_Inr [of time_Now] split: if_split_asm option.split_asm)
  then show ?thesis unfolding GetByToken_def by (auto dest!: select_InrD)
qed

lemma enrollment_keeps_tokens:
  assumes "validateEnrollmentTokenTenant k s = (Inr tenant, t)"
  shows "tab t = tab s"
proof -
  from assms obtain tkn u q v where u: "Validate k s = (Inr tkn, u)"
      and v: "GetTenantIDByToken k u = (Inr q, v)" and w: "bnd (ensureTenantActive q) (\<lambda>_. ret q) v = (Inr tenant, t)"
    unfolding validateEnrollmentTokenTenant_def attempt_case_Inr throw_Inr by blast
  have "maintains (keeps (\<lambda>t. t)) (GetTenantIDByToken k)"
    unfolding GetTenantIDByToken_def by (intro maintains_rules)
  from unchanged.frame_run [OF this v] have "tab v = tab u" .
  moreover have "maintains (keeps (\<lambda>t. t)) (bnd (ensureTenantActive q) (\<lambda>_. ret q))"
    unfolding ensureTenantActive_def GetTenantStatus_def by (intro maintains_rules)
  from unchanged.frame_run [OF this w] have "tab t = tab v" .
  ultimately show ?thesis using Validate_keeps_tokens [OF u] by simp
qed

lemma ConsumeToken_spends:
  assumes "ConsumeToken k d s = (Inr (), t)"
  shows "(\<exists>r \<in> set (tokens (tab s)). increment_guard k r)
    \<and> tokens (tab t) = update_where (increment_guard k) (increment_row d (db_now s)) (tokens (tab s))"
proof -
  from assms have "IncrementUsage k d s = (Inr (), t)"
    unfolding ConsumeToken_def by (auto simp: handled_Inr)
  then obtain n m u v where u: "modify_op (increment_sql k d) s = (Inr n, u)" and v: "check_op n u = (Inr m, v)"
      and rest: "(if m = 0 then
       bnd (attempt (GetByToken k)) (\<lambda>r. case r of
           Inl e \<Rightarrow> throw (ErrWrap ''failed to re-fetch token after update'' e)
         | Inr None \<Rightarrow> throw ErrTokenNotFound
         | Inr (Some t) \<Rightarrow>
             (if Status t = StatusExpired then throw ErrTokenExpired
              else if Status t = StatusExhausted then throw ErrTokenExhausted
              else if Status t = StatusRevoked then throw ErrTokenRevoked
              else throw (ErrMsg (''token not active (current status: '' @ Status t @ '')''))))
     else ret ()) v = (Inr (), t)"
    unfolding IncrementUsage_def bnd_Inr [of "modify_op f" for f] bnd_Inr [of "check_op f" for f] by blast
  from rest have "m \<noteq> 0" "t = v"
    by (auto simp: handled_Inr split: if_split_asm option.split_asm)
  moreover have "tab u = fst (increment_sql k d (db_now s) (tab s))" "n = snd (increment_sql k d (db_now s) (tab s))"
    using modify_Inr(1) [OF u] by simp_all
  ultimately show ?thesis using check_Inr [OF v]
    by (auto simp: increment_sql_def affected_def filter_empty_conv)
qed


lemma unknown_key:
  assumes "GetNode pk s = (r, t)" and "\<forall>n \<in> set (nodes (tab s)). node_public_key n \<noteq> pk"
  shows "found r = None" "tab t = tab s"
proof -
  have f: "find (\<lambda>n. node_public_key n = pk) (nodes (tab s)) = None"
    using assms(2) by (simp add: find_None_iff)
  have "maintains (keeps (\<lambda>t. t)) (GetNode pk)"
    unfolding GetNode_def scanNode_def by (intro maintains_rules)
  from unchanged.frame_run [OF this assms(1)] show "tab t = tab s" .
  show "found r = None"
  proof (cases r)
    case (Inr x)
    with assms(1) f show ?thesis
      by (auto simp: GetNode_def scanNode_def found_def bnd_Inr ret_Inr dest!: select_InrD)
  qed (simp add: found_def)
qed

lemma new_device_needs_token:
  assumes "authorizeRegistrationRequest c (Some req) None rt s = (Inr tenant, t)"
  shows "TrimSpace (rr_Token req) \<noteq> ''''" "tab t = tab s"
proof -
  from assms have "TrimSpace (rr_Token req) \<noteq> '''' \<and> validateEnrollmentTokenTenant (rr_Token req) s = (Inr tenant, t)"
    unfolding authorizeRegistrationRequest_def nodeRegistrationForbidden_def
    by (simp add: Let_def throw_Inr split: if_split_asm)
  then show "TrimSpace (rr_Token req) \<noteq> ''''" "tab t = tab s" using enrollment_keeps_tokens by blast+
qed

text \<open>A run that, if it succeeds, has spent one use of a token, and changed nothing else of the tokens.\<close>

definition spends :: "string \<Rightarrow> string \<Rightarrow> 'a op \<Rightarrow> db \<Rightarrow> bool" where
  "spends k d m s \<longleftrightarrow> (\<forall>x t. m s = (Inr x, t) \<longrightarrow> (\<exists>r \<in> set (tokens (tab s)). increment_guard k r) \<and>
     (\<exists>now. tokens (tab t) = update_where (increment_guard k) (increment_row d now) (tokens (tab s))))"

lemma spends_bnd:
  assumes "\<And>x u. m s = (Inr x, u) \<Longrightarrow> same_tokens (tab s) (tab u) \<and> spends k d (f x) u"
  shows "spends k d (bnd m f) s"
  unfolding spends_def
proof (intro allI impI)
  fix y t
  assume "bnd m f s = (Inr y, t)"
  then obtain x u where "m s = (Inr x, u)" and f: "f x u = (Inr y, t)" unfolding bnd_Inr by blast
  with assms have "tokens (tab u) = tokens (tab s)" and "spends k d (f x) u" by (simp_all add: same_tokens_def)
  with f show "(\<exists>r \<in> set (tokens (tab s)). increment_guard k r) \<and>
     (\<exists>now. tokens (tab t) = update_where (increment_guard k) (increment_row d now) (tokens (tab s)))"
    unfolding spends_def by simp
qed

lemma spends_before:
  assumes "maintains same_tokens m" and "\<And>x u. spends k d (f x) u"
  shows "spends k d (bnd m f) s"
  by (rule spends_bnd) (use assms in \<open>blast intro: maintainsD\<close>)

lemma spends_after:
  assumes m: "spends k d m s" and f: "\<And>x. maintains same_tokens (f x)"
  shows "spends k d (bnd m f) s"
  unfolding spends_def
proof (intro allI impI)
  fix y t
  assume "bnd m f s = (Inr y, t)"
  then obtain x u where u: "m s = (Inr x, u)" and "f x u = (Inr y, t)" unfolding bnd_Inr by blast
  from maintainsD [OF f this(2)] have "tokens (tab t) = tokens (tab u)" by (simp add: same_tokens_def)
  with m u show "(\<exists>r \<in> set (tokens (tab s)). increment_guard k r) \<and>
     (\<exists>now. tokens (tab t) = update_where (increment_guard k) (increment_row d now) (tokens (tab s)))"
    unfolding spends_def by simp
qed

lemma spends_throw: "spends k d (throw e) s"
  by (simp add: spends_def throw_Inr)

lemma spends_case_sum:
  "(\<And>e. spends k d (f e) s) \<Longrightarrow> (\<And>y. spends k d (g y) s) \<Longrightarrow> spends k d (case x of Inl e \<Rightarrow> f e | Inr y \<Rightarrow> g y) s"
  by (cases x) auto

lemma spends_case_prod: "(\<And>a b. spends k d (f a b) s) \<Longrightarrow> spends k d (case x of (a, b) \<Rightarrow> f a b) s"
  by (cases x) auto

lemma spends_let: "(\<And>x. spends k d (f x) s) \<Longrightarrow> spends k d (let x = a in f x) s"
  by simp

lemma spend_token_spends:
  assumes "TrimSpace (rr_Token req) \<noteq> ''''"
  shows "spends (rr_Token req) (rr_PublicKey req) (spend_token req newly) s"
  unfolding spends_def
proof (intro allI impI)
  fix x t
  assume "spend_token req newly s = (Inr x, t)"
  then have "ConsumeToken (rr_Token req) (rr_PublicKey req) s = (Inr (), t)"
    using assms unfolding spend_token_def by (simp add: handled_Inr)
  from ConsumeToken_spends [OF this]
  show "(\<exists>r \<in> set (tokens (tab s)). increment_guard (rr_Token req) r) \<and>
    (\<exists>now. tokens (tab t) = update_where (increment_guard (rr_Token req)) (increment_row (rr_PublicKey req) now) (tokens (tab s)))"
    by blast
qed

lemma registration_spends:
  assumes new: "\<forall>n \<in> set (nodes (tab s)). node_public_key n \<noteq> rr_PublicKey req"
  shows "spends (rr_Token req) (rr_PublicKey req) (processRegistration c req publicIP) s"
  unfolding processRegistration_def
proof (rule spends_bnd, unfold attempt_Inr, intro conjI spends_bnd, goal_cases)
  case (1 r0 u0)
  from unknown_key(2) [OF this new] show ?case by (simp add: same_tokens_def)
next
  case (2 r0 u0 tenant u1)
  note this(2) [unfolded unknown_key(1) [OF 2(1) new]]
  from new_device_needs_token(2) [OF this] show ?case by (simp add: same_tokens_def)
next
  case (3 r0 u0 tenant u1)
  note this(2) [unfolded unknown_key(1) [OF 3(1) new]]
  note tok = new_device_needs_token(1) [OF this]
  show ?case
    by (rule spends_let spends_case_prod spends_case_sum spends_throw
        spends_after [OF spend_token_spends [OF tok]] spends_before | intro maintains_rules)+
qed

text \<open>
  (C2) A registration that succeeds for a public key no node has was made with a join token
  that is active and has uses left, and has spent one use of it for that key; no other token
  changes.
\<close>

theorem registration_spends_one_use:
  assumes run: "processRegistration c req publicIP s = (Inr assignedIP, t)"
    and new: "\<forall>n \<in> set (nodes (tab s)). node_public_key n \<noteq> rr_PublicKey req"
  shows "(\<exists>r \<in> set (tokens (tab s)). increment_guard (rr_Token req) r) \<and>
    (\<exists>now. tokens (tab t) = update_where (increment_guard (rr_Token req)) (increment_row (rr_PublicKey req) now) (tokens (tab s)))"
  using registration_spends [OF new, of c publicIP] run unfolding spends_def by blast


theorem registration_spends_one_use_witness:
  "\<exists>t. processRegistration join_controller (join_request ''pk2'') '''' (join_db ''online'') = (Inr ''100.64.0.5'', t) \<and>
    (\<exists>now. tokens (tab t) = update_where (increment_guard ''join'') (increment_row ''pk2'' now) [join_token])"
proof -
  let ?r = "processRegistration join_controller (join_request ''pk2'') '''' (join_db ''online'')"
  have "fst ?r = Inr ''100.64.0.5''" by code_simp
  then have r: "?r = (Inr ''100.64.0.5'', snd ?r)" by (simp add: prod_eq_iff)
  have "\<forall>n \<in> set (nodes (tab (join_db ''online''))). node_public_key n \<noteq> rr_PublicKey (join_request ''pk2'')"
    by code_simp
  from registration_spends_one_use [OF r this] r show ?thesis
    by (intro exI [of _ "snd ?r"]) (simp add: join_db_def join_request_def)
qed

end
