(* ===== verification/Controller_Jobs.thy ===== *)
theory Controller_Jobs
  imports Registration
begin

text \<open>
  The periodic work of the controller (\<^verbatim>\<open>StartCleanupRoutine\<close> of \<^verbatim>\<open>internal/cli/controller_serve.go\<close>):
  every 30 seconds nodes are marked offline, stale or are removed, alerts are raised and resolved,
  certificates that have run out are marked, and expired join tokens are closed.
\<close>

section \<open>The jobs\<close>

definition msg_back_online :: string where
  "msg_back_online = [CHR 0x20, CHR 0xE6, CHR 0x81, CHR 0xA2, CHR 0xE5, CHR 0xA4, CHR 0x8D, CHR 0xE5, CHR 0x9C, CHR 0xA8,
     CHR 0xE7, CHR 0xBA, CHR 0xBF]"

definition msg_cert_has_expired :: string where
  "msg_cert_has_expired = [CHR 0x20, CHR 0xE8, CHR 0xAF, CHR 0x81, CHR 0xE4, CHR 0xB9, CHR 0xA6, CHR 0xE5, CHR 0xB7, CHR 0xB2,
     CHR 0xE8, CHR 0xBF, CHR 0x87, CHR 0xE6, CHR 0x9C, CHR 0x9F]"

text \<open>A list whose query failed counts as empty.\<close>

definition or_none :: "'a list op \<Rightarrow> 'a list op" where
  "or_none m = bnd (attempt m) (\<lambda>r. ret (case r of Inl e \<Rightarrow> [] | Inr xs \<Rightarrow> xs))"

definition node_went_offline :: "Node \<Rightarrow> unit op" where
  "node_went_offline node =
     bnd (logged (GenerateNodeOfflineAlert (nd_TenantID node) (nd_ID node) (nd_Hostname node))) (\<lambda>_.
     logged (CreateAuditEvent (system_event (nd_TenantID node) (nd_ID node) ''node_offline''
       (msg_node @ nd_Hostname node @ msg_offline) [])))"

definition node_came_back :: "Node \<Rightarrow> unit op" where
  "node_came_back node =
     bnd (logged (ResolveNodeOfflineAlert (nd_TenantID node) (nd_ID node))) (\<lambda>_.
     bnd (logged (MarkNodeOnline (nd_ID node))) (\<lambda>_.
     logged (CreateAuditEvent (system_event (nd_TenantID node) (nd_ID node) ''node_online''
       (msg_node @ nd_Hostname node @ msg_back_online) []))))"

definition cleanupStaleNodes :: "unit op" where
  "cleanupStaleNodes =
     bnd (or_none (GetNodesGoingOffline 60)) (\<lambda>goingOffline.
     bnd (or_none (GetNodesRecovering 60)) (\<lambda>recovering.
     bnd (attempt (CleanupStaleNodes 120)) (\<lambda>r. case r of
         Inl e \<Rightarrow> ret ()
       | Inr count \<Rightarrow>
           bnd (for_each node_went_offline goingOffline) (\<lambda>_.
           for_each node_came_back recovering))))"

definition certificate_ran_out :: "NodeCertificate \<Rightarrow> unit op" where
  "certificate_ran_out cert =
     bnd (attempt (GetNodeByID (ce_NodeID cert))) (\<lambda>r. case r of
         Inl e \<Rightarrow> ret ()
       | Inr None \<Rightarrow> ret ()
       | Inr (Some node) \<Rightarrow>
           let hostname = (if nd_Hostname node \<noteq> '''' then nd_Hostname node else ce_NodeID cert) in
           bnd (logged (ResolveCertificateExpiringAlert (nd_TenantID node) (nd_ID node))) (\<lambda>_.
           bnd (logged (GenerateCertificateExpiredAlert (nd_TenantID node) (nd_ID node) hostname (ce_NotAfter cert))) (\<lambda>_.
           logged (CreateAuditEvent (system_event (nd_TenantID node) (nd_ID node) ''certificate_expired''
             (msg_node @ hostname @ msg_cert_has_expired)
             [(''serial_number'', VString (ce_SerialNumber cert)), (''not_after'', VString (format_RFC3339 (ce_NotAfter cert)))])))))"

definition certificate_runs_out :: "Controller \<Rightarrow> CertificateRenewalCandidate \<Rightarrow> unit op" where
  "certificate_runs_out c cand = (case (c_uuid_Parse c (rc_TenantID cand), c_uuid_Parse c (rc_NodeID cand)) of
       (Some tenantID, Some nodeID) \<Rightarrow>
         logged (GenerateCertificateExpiringAlert tenantID nodeID (rc_Hostname cand) (rc_NotAfter cand))
     | _ \<Rightarrow> ret ())"

definition reconcileCertificateLifecycle :: "Controller \<Rightarrow> unit op" where
  "reconcileCertificateLifecycle c = (case c_certService c of
       None \<Rightarrow> ret ()
     | Some svc \<Rightarrow>
         bnd time_Now (\<lambda>now.
         bnd (or_none (MarkExpiredNodeCertificates now)) (\<lambda>expired.
         bnd (for_each certificate_ran_out expired) (\<lambda>_.
         bnd time_Now (\<lambda>now.
         bnd (or_none (ListCertificatesExpiringBefore (now + sv_renewBefore svc))) (\<lambda>candidates.
         for_each (certificate_runs_out c) candidates))))))"

text \<open>One tick of \<^verbatim>\<open>StartCleanupRoutine\<close>.\<close>

definition StartCleanupRoutine :: "Controller \<Rightarrow> unit op" where
  "StartCleanupRoutine c =
     bnd cleanupStaleNodes (\<lambda>_.
     bnd (reconcileCertificateLifecycle c) (\<lambda>_.
     logged CleanupExpired))"

section \<open>What a tick leaves alone\<close>

text \<open>
  The alerts of a kind, as far as a tick that raises none of them can tell: detaching a removed
  node only clears the reference, resolving changes the status.
\<close>

definition alerts_of :: "string \<Rightarrow> tables \<Rightarrow> uuid list" where
  "alerts_of ty t = map al_id (filter (\<lambda>a. al_type a = ty) (alerts t))"

definition calm :: "tables \<Rightarrow> tables \<Rightarrow> bool" where
  "calm t u \<longleftrightarrow> nodes u = nodes t \<and> alerts_of ''node_offline'' u = alerts_of ''node_offline'' t"

interpretation calm: table_relation calm
  by unfold_locales (simp_all add: calm_def)

lemma alerts_of_update:
  assumes "\<And>a. al_id (f a) = al_id a" and "\<And>a. al_type (f a) = al_type a"
  shows "alerts_of ty (t\<lparr>alerts := update_where P f (alerts t)\<rparr>) = alerts_of ty t"
proof -
  have "map al_id (filter (\<lambda>a. al_type a = ty) (update_where P f as)) = map al_id (filter (\<lambda>a. al_type a = ty) as)" for as
    by (induction as) (simp_all add: update_where_def assms)
  then show ?thesis by (simp add: alerts_of_def)
qed

lemma calm_GetActive [maintains_rules]: "maintains calm (GetActiveAlertByNodeAndType tenant node ty)"
  unfolding GetActiveAlertByNodeAndType_def by (intro maintains_rules)

lemma calm_ResolveAlert [maintains_rules]: "maintains calm (ResolveAlert i)"
  unfolding ResolveAlert_def
  by (intro maintains_rules) (simp add: calm_def resolve_sql_def alerts_of_update resolve_row_def)

lemma calm_CreateAlert [maintains_rules]: "at_AlertType a \<noteq> ''node_offline'' \<Longrightarrow> maintains calm (CreateAlert a)"
  unfolding CreateAlert_def
  by (intro maintains_rules) (auto simp: calm_def alerts_of_def alert_row_of_def split: if_splits)

lemma calm_CreateAuditEvent [maintains_rules]: "maintains calm (CreateAuditEvent e)"
  unfolding CreateAuditEvent_def
  by (intro maintains_rules) (auto simp: calm_def alerts_of_def insert_audit_sql_def split: if_splits)

lemma calm_logged [maintains_rules]: "maintains calm m \<Longrightarrow> maintains calm (logged m)"
  unfolding logged_def by (intro maintains_rules)

lemma calm_or_none [maintains_rules]: "maintains calm m \<Longrightarrow> maintains calm (or_none m)"
  unfolding or_none_def by (intro maintains_rules)

lemma calm_resolve_once [maintains_rules]: "maintains calm (resolve_once tenant node ty)"
  unfolding resolve_once_def by (intro maintains_rules)

lemma calm_raise_once [maintains_rules]:
  "ty \<noteq> ''node_offline'' \<Longrightarrow> maintains calm (raise_once tenant node ty sev title m ctx)"
  unfolding raise_once_def by (intro maintains_rules) simp_all

lemma calm_reconcile [maintains_rules]: "maintains calm (reconcileCertificateLifecycle c)"
  unfolding reconcileCertificateLifecycle_def certificate_ran_out_def certificate_runs_out_def GetNodeByID_def scanNode_def
    ResolveCertificateExpiringAlert_def GenerateCertificateExpiredAlert_def GenerateCertificateExpiringAlert_def
    MarkExpiredNodeCertificates_def ListCertificatesExpiringBefore_def
  by (intro maintains_rules) (simp_all add: calm_def expire_sql_def alerts_of_def)

lemma calm_CleanupExpired [maintains_rules]: "maintains calm CleanupExpired"
  unfolding CleanupExpired_def by (intro maintains_rules) (simp add: calm_def set_status_sql_def alerts_of_def)

section \<open>The alert that is never raised\<close>

text \<open>
  The nodes after a tick at second \<open>T\<close>: those that are online were seen in the last 30 seconds,
  those that are offline were not.
\<close>

definition steady :: "int \<Rightarrow> tables \<Rightarrow> bool" where
  "steady T t \<longleftrightarrow> (\<forall>n \<in> set (nodes t). (node_status n = Some ''online'' \<longrightarrow> T - 30 \<le> node_last_seen n) \<and>
     (node_status n = Some ''offline'' \<longrightarrow> node_last_seen n < T - 30))"

definition quiet :: "int \<Rightarrow> tables \<Rightarrow> tables \<Rightarrow> bool" where
  "quiet T t u \<longleftrightarrow> (steady T t \<longrightarrow> steady T u) \<and> alerts_of ''node_offline'' u = alerts_of ''node_offline'' t"

interpretation quiet: table_relation "quiet T" for T
  by unfold_locales (simp_all add: quiet_def)

lemma calm_quiet: "calm t u \<Longrightarrow> quiet T t u"
  by (simp add: calm_def quiet_def steady_def)

lemma steady_update:
  assumes "steady T t"
    and "\<And>n. P n \<Longrightarrow> (node_status (f n) = Some ''online'' \<longrightarrow> T - 30 \<le> node_last_seen (f n)) \<and>
      (node_status (f n) = Some ''offline'' \<longrightarrow> node_last_seen (f n) < T - 30)"
  shows "steady T (t\<lparr>nodes := update_where P f (nodes t)\<rparr>)"
  using assms unfolding steady_def by (auto simp: update_where_def)

lemma quiet_heartbeat:
  assumes "T - 30 \<le> seen"
  shows "maintains (quiet T) (UpdateNodeHeartbeat i seen)"
  unfolding UpdateNodeHeartbeat_def require_row_def
  by (intro maintains_rules)
    (use assms in \<open>auto simp: quiet_def update_nodes_sql_def alerts_of_def intro!: steady_update\<close>)

lemma quiet_purge: "quiet T t (fst (purge_sql ids k now t))"
  by (simp add: purge_sql_def quiet_def steady_def alerts_of_def)

lemma quiet_detach: "quiet T t (fst (detach_events_sql ids now t))" "quiet T t (fst (detach_alerts_sql ids now t))"
proof -
  show "quiet T t (fst (detach_events_sql ids now t))"
    by (simp add: detach_events_sql_def quiet_def steady_def alerts_of_def)
  show "quiet T t (fst (detach_alerts_sql ids now t))"
    by (simp add: detach_alerts_sql_def quiet_def steady_def alerts_of_update)
qed

lemma delete_nodes_result:
  "delete_nodes_sql P now t = Some (u, x) \<Longrightarrow> nodes u = filter (\<lambda>r. \<not> P r) (nodes t) \<and> alerts u = alerts t"
  unfolding delete_nodes_sql_def Let_def by (erule if_split_asm [THEN iffD1, elim_format]) auto

lemma quiet_delete: "delete_nodes_sql P now t = Some (u, x) \<Longrightarrow> quiet T t u"
  using delete_nodes_result [of P now t u x] by (simp add: quiet_def steady_def alerts_of_def)

lemma quiet_CleanupDeletedNodes [maintains_rules]: "maintains (quiet T) (CleanupDeletedNodes x)"
  unfolding CleanupDeletedNodes_def detachDeletedNodeHistoryTx_def purgeDeletedNodeDependentsTx_def for_each.simps
  by (intro maintains_rules quiet_detach quiet_purge) (rule quiet_delete)

lemma quiet_MarkStaleNodes [maintains_rules]: "maintains (quiet T) (MarkStaleNodes x)"
  unfolding MarkStaleNodes_def
  by (intro maintains_rules) (auto simp: quiet_def update_nodes_sql_def alerts_of_def intro!: steady_update)

lemma quiet_wrap_err [maintains_rules]: "maintains (quiet T) m \<Longrightarrow> maintains (quiet T) (wrap_err w m)"
  unfolding wrap_err_def by (intro maintains_rules)

text \<open>With every statement served, the first step of the clean-up establishes the next second.\<close>

lemma steady_next:
  assumes "steady T t"
  shows "steady (T + 30) (fst (update_nodes_sql
     (\<lambda>r. node_last_seen r < T \<and> node_status r = Some ''online'')
     (\<lambda>_ r. r\<lparr>node_status := Some ''offline'',
        node_offline_since := (case node_offline_since r of None \<Rightarrow> Some T | Some x \<Rightarrow> Some x)\<rparr>) now t))"
  using assms unfolding steady_def update_nodes_sql_def by (force simp: update_where_def)

lemma CleanupStaleNodes_steady:
  assumes "faults s = []" and "unix (go_now s) = T + 30" and "steady T (tab s)" and "CleanupStaleNodes x s = (r, u)"
  shows "steady (T + 30) (tab u) \<and> alerts_of ''node_offline'' (tab u) = alerts_of ''node_offline'' (tab s)"
proof -
  define v where "v = s\<lparr>tab := fst (update_nodes_sql (\<lambda>r. node_last_seen r < T \<and> node_status r = Some ''online'')
     (\<lambda>_ r. r\<lparr>node_status := Some ''offline'',
        node_offline_since := (case node_offline_since r of None \<Rightarrow> Some T | Some x \<Rightarrow> Some x)\<rparr>) (db_now s) (tab s))\<rparr>"
  obtain n where "MarkOfflineNodes T s = (Inr n, v)"
    unfolding MarkOfflineNodes_def v_def using modify_run [OF assms(1)] by blast
  then have w: "wrap_err ''failed to mark offline nodes'' (MarkOfflineNodes T) s = (Inr n, v)"
    by (simp add: wrap_err_def bnd_def attempt_def ret_def)
  let ?rest = "bnd (wrap_err ''failed to mark stale nodes'' (MarkStaleNodes (unix (go_now s) - 86400))) (\<lambda>staleCount.
     bnd (wrap_err ''failed to cleanup deleted nodes'' (CleanupDeletedNodes (unix (go_now s) - 604800))) (\<lambda>deletedCount.
     ret (n + staleCount + deletedCount)))"
  have "?rest v = (r, u)"
    using assms(4) w assms(2) unfolding CleanupStaleNodes_def
    by (simp add: bnd_def [of time_Now] time_Now_def bnd_def [of "wrap_err ''failed to mark offline nodes'' m" for m])
  moreover have "maintains (quiet (T + 30)) ?rest" by (intro maintains_rules)
  ultimately have "quiet (T + 30) (tab v) (tab u)" by (blast intro: maintainsD)
  moreover have "steady (T + 30) (tab v)" using steady_next [OF assms(3)] by (simp add: v_def)
  moreover have "alerts_of ''node_offline'' (tab v) = alerts_of ''node_offline'' (tab s)"
    by (simp add: v_def update_nodes_sql_def alerts_of_def)
  ultimately show ?thesis by (simp add: quiet_def)
qed

lemma no_node_moves:
  assumes "faults s = []" and "unix (go_now s) = T + 30" and "steady T (tab s)"
  shows "GetNodesGoingOffline 60 s = (Inr [], s)" "GetNodesRecovering 60 s = (Inr [], s)"
proof -
  have "filter (\<lambda>r. node_last_seen r < unix (go_now s) - 60 \<and> node_status r = Some ''online'') (nodes (tab s)) = []"
    "filter (\<lambda>r. node_last_seen r \<ge> unix (go_now s) - 60 \<and> node_status r = Some ''offline'') (nodes (tab s)) = []"
    using assms(2,3) by (auto simp: steady_def filter_empty_conv)
  then show "GetNodesGoingOffline 60 s = (Inr [], s)" "GetNodesRecovering 60 s = (Inr [], s)"
    unfolding GetNodesGoingOffline_def GetNodesRecovering_def scanNodeListRows_def
    by (simp_all add: bnd_def time_Now_def select_run [OF assms(1)] check_run [OF assms(1)])
qed

lemma cleanup_steady:
  assumes "faults s = []" and "unix (go_now s) = T + 30" and "steady T (tab s)" and "cleanupStaleNodes s = (r, u)"
  shows "steady (T + 30) (tab u) \<and> alerts_of ''node_offline'' (tab u) = alerts_of ''node_offline'' (tab s)"
proof -
  have o: "or_none (GetNodesGoingOffline 60) s = (Inr [], s)" "or_none (GetNodesRecovering 60) s = (Inr [], s)"
    by (simp_all add: or_none_def bnd_def attempt_def ret_def no_node_moves [OF assms(1-3)])
  obtain q v where "CleanupStaleNodes 120 s = (q, v)" by fastforce
  moreover from this have "u = v"
    using assms(4) unfolding cleanupStaleNodes_def
    by (cases q) (simp_all add: bnd_def attempt_def ret_def o)
  ultimately show ?thesis using CleanupStaleNodes_steady [OF assms(1-3)] by blast
qed

text \<open>
  The runs in which a tick follows the last one after 30 seconds, every statement of a tick is
  served, and agents report in between.
\<close>

inductive ticking :: "Controller \<Rightarrow> tables \<Rightarrow> int \<Rightarrow> tables \<Rightarrow> int \<Rightarrow> bool" for c t0 T0 where
  start: "ticking c t0 T0 t0 T0"
| heartbeat: "ticking c t0 T0 (tab s) T \<Longrightarrow> T \<le> seen \<Longrightarrow> UpdateNodeHeartbeat i seen s = (r, u) \<Longrightarrow>
    ticking c t0 T0 (tab u) T"
| tick: "ticking c t0 T0 (tab s) T \<Longrightarrow> faults s = [] \<Longrightarrow> unix (go_now s) = T + 30 \<Longrightarrow> StartCleanupRoutine c s = (r, u) \<Longrightarrow>
    ticking c t0 T0 (tab u) (T + 30)"

lemma tick_steady:
  assumes "faults s = []" and "unix (go_now s) = T + 30" and "steady T (tab s)" and "StartCleanupRoutine c s = (r, u)"
  shows "steady (T + 30) (tab u) \<and> alerts_of ''node_offline'' (tab u) = alerts_of ''node_offline'' (tab s)"
proof -
  obtain q v where v: "cleanupStaleNodes s = (q, v)" by fastforce
  let ?rest = "bnd (reconcileCertificateLifecycle c) (\<lambda>_. logged CleanupExpired)"
  have "calm (tab v) (tab u)"
  proof (cases q)
    case (Inl e)
    with v assms(4) show ?thesis by (simp add: StartCleanupRoutine_def bnd_def calm.R_refl)
  next
    case (Inr x)
    with v assms(4) have "?rest v = (r, u)" by (simp add: StartCleanupRoutine_def bnd_def [of cleanupStaleNodes])
    moreover have "maintains calm ?rest" by (intro maintains_rules)
    ultimately show ?thesis by (blast intro: maintainsD)
  qed
  with cleanup_steady [OF assms(1-3) v] show ?thesis by (simp add: calm_def steady_def)
qed



definition silent_db :: "int \<Rightarrow> tables \<Rightarrow> db" where
  "silent_db T t = \<lparr>db_now = secs T, go_now = secs T, faults = [], uuid_of = itoa_nat, uuid_ctr = 0, tab = t\<rparr>"

fun ticks :: "nat \<Rightarrow> tables" where
  "ticks 0 = empty_tables\<lparr>nodes := [(sample_node ''n1'' ''pk1'' ''online'')\<lparr>node_last_seen := 0\<rparr>]\<rparr>"
| "ticks (Suc k) = tab (snd (StartCleanupRoutine join_controller (silent_db (30 * int k + 30) (ticks k))))"

lemma ticks_ticking: "ticking join_controller (ticks 0) 0 (ticks k) (30 * int k)"
proof (induction k)
  case (Suc k)
  let ?s = "silent_db (30 * int k + 30) (ticks k)"
  have "ticking join_controller (ticks 0) 0 (tab ?s) (30 * int k)" using Suc by (simp add: silent_db_def)
  from ticking.tick [OF this, of "fst (StartCleanupRoutine join_controller ?s)" "snd (StartCleanupRoutine join_controller ?s)"]
  have "ticking join_controller (ticks 0) 0 (ticks (Suc k)) (30 * int k + 30)"
    by (simp add: silent_db_def unix_def secs_def)
  then show ?case by (simp add: algebra_simps)
qed (simp add: ticking.start)


end
