(* ===== verification/Agent_Service.thy ===== *)
theory Agent_Service
  imports Registration Controller_Run
begin

text \<open>
  The service the agents call (\<^verbatim>\<open>internal/controller/grpc/server.go\<close>): which node a call acts for,
  the registration call, the metrics report and the command stream. The snapshot of \<^verbatim>\<open>Sync\<close> is in
  its own theory.
\<close>

text \<open>
  The server: whether it has a store, the handler of registrations, the library of runtime
  tokens with the secret, the reader of identifiers and the text of an error.
\<close>

record ControllerServer =
  srv_store :: bool
  srv_registerHandler :: "(RegistrationRequest option \<Rightarrow> RegistrationResult option op) option"
  srv_jwt :: "RuntimeClaims jwt_lib"
  srv_secret :: "string option"
  srv_uuid_Parse :: "string \<Rightarrow> uuid option"
  srv_err_Error :: "err \<Rightarrow> string"

section \<open>Which node a call acts for\<close>

definition isInactiveNodeStatus :: "string \<Rightarrow> bool" where
  "isInactiveNodeStatus nodeStatus \<longleftrightarrow> ToLower (TrimSpace nodeStatus) \<in> {''deleted'', ''suspended'', ''banned''}"

definition access_denied :: "Node \<Rightarrow> err" where
  "access_denied node = GrpcStatus PermissionDenied (''node access denied: status '' @ quoted (nd_Status node))"

text \<open>\<^verbatim>\<open>node, _ = ...\<close>: the error of a lookup is dropped.\<close>

definition lookup_or_nil :: "Node option op \<Rightarrow> Node option op" where
  "lookup_or_nil m = bnd (attempt m) (\<lambda>r. ret (found r))"

definition resolveRuntimeNode :: "ControllerServer \<Rightarrow> string \<Rightarrow> string \<Rightarrow> Node op" where
  "resolveRuntimeNode s nodeID publicKey =
     (if \<not> srv_store s then throw (ErrMsg ''controller storage is not configured'')
      else bnd (if nodeID \<noteq> '''' then (case srv_uuid_Parse s nodeID of
               None \<Rightarrow> ret None
             | Some parsedNodeID \<Rightarrow> lookup_or_nil (GetNodeByID parsedNodeID)) else ret None) (\<lambda>nodeByNodeID.
      bnd (if publicKey \<noteq> '''' then lookup_or_nil (GetNode publicKey) else ret None) (\<lambda>nodeByPubKey.
      if (case (nodeByNodeID, nodeByPubKey) of (Some a, Some b) \<Rightarrow> nd_ID a \<noteq> nd_ID b | _ \<Rightarrow> False)
      then throw (ErrMsg ''SECURITY ALERT: identity mismatch between node_id and public_key'')
      else case (case nodeByNodeID of None \<Rightarrow> nodeByPubKey | Some n \<Rightarrow> Some n) of
        None \<Rightarrow> throw (ErrMsg (''node identity not found (node_id: '' @ nodeID @ '', pubkey: '' @ publicKey @ '')''))
      | Some resolvedNode \<Rightarrow>
          if isInactiveNodeStatus (nd_Status resolvedNode)
          then throw (ErrMsg (''node access denied: current status is '' @ quoted (nd_Status resolvedNode)))
          else ret resolvedNode)))"

definition ensureRuntimeTenantActive :: "ControllerServer \<Rightarrow> Node \<Rightarrow> unit op" where
  "ensureRuntimeTenantActive s node =
     (if \<not> srv_store s then ret ()
      else bnd (attempt (GetTenantStatus (nd_TenantID node))) (\<lambda>r. case r of
          Inl e \<Rightarrow> throw (if e = ErrNoRows then GrpcStatus PermissionDenied ''tenant is not active''
                     else GrpcStatus Internal (''failed to verify tenant status: '' @ srv_err_Error s e))
        | Inr statusValue \<Rightarrow>
            if \<not> EqualFold (TrimSpace statusValue) ''active''
            then throw (GrpcStatus PermissionDenied (''tenant is not active: status '' @ quoted statusValue))
            else ret ()))"

definition bindRuntimeTokenToNode :: "(string \<Rightarrow> uuid option) \<Rightarrow> rpc_context \<Rightarrow> Node option \<Rightarrow> unit op" where
  "bindRuntimeTokenToNode uuid_Parse ctx node = (case node of
       None \<Rightarrow> throw (GrpcStatus Unauthenticated ''runtime node is required'')
     | Some node \<Rightarrow>
       let (tokenNodeID, ok) = GetRuntimeNodeID ctx in
       if \<not> ok \<or> TrimSpace tokenNodeID = '''' then throw (GrpcStatus Unauthenticated ''runtime token node missing'')
       else case uuid_Parse tokenNodeID of
         None \<Rightarrow> throw (GrpcStatus Unauthenticated ''invalid runtime token node'')
       | Some parsedTokenNodeID \<Rightarrow>
           if parsedTokenNodeID \<noteq> nd_ID node then throw (GrpcStatus PermissionDenied ''runtime token node mismatch'')
           else let (tokenTenantID, ok) = GetRuntimeTenantID ctx in
             if \<not> ok \<or> TrimSpace tokenTenantID = '''' then throw (GrpcStatus Unauthenticated ''runtime token tenant missing'')
             else case uuid_Parse tokenTenantID of
               None \<Rightarrow> throw (GrpcStatus Unauthenticated ''invalid runtime token tenant'')
             | Some parsedTokenTenantID \<Rightarrow>
                 if parsedTokenTenantID \<noteq> nd_TenantID node
                 then throw (GrpcStatus PermissionDenied ''runtime token tenant mismatch'')
                 else ret ())"

text \<open>The two checks that follow every resolution of a node.\<close>

definition bound_node :: "ControllerServer \<Rightarrow> rpc_context \<Rightarrow> Node op \<Rightarrow> Node op" where
  "bound_node s ctx resolve =
     bnd resolve (\<lambda>node.
     bnd (bindRuntimeTokenToNode (srv_uuid_Parse s) ctx (Some node)) (\<lambda>_.
     bnd (ensureRuntimeTenantActive s node) (\<lambda>_.
     ret node)))"

definition resolveRuntimeNodeForRequest :: "ControllerServer \<Rightarrow> rpc_context \<Rightarrow> string \<Rightarrow> string \<Rightarrow> Node op" where
  "resolveRuntimeNodeForRequest s ctx nodeID publicKey = bound_node s ctx (resolveRuntimeNode s nodeID publicKey)"

definition resolveLegacyAgentIdentity :: "ControllerServer \<Rightarrow> string \<Rightarrow> Node op" where
  "resolveLegacyAgentIdentity s agentID =
     (if \<not> srv_store s then throw (ErrMsg ''controller storage is not configured'')
      else if agentID = '''' then throw (ErrMsg ''agent identity is required'')
      else bnd (case srv_uuid_Parse s agentID of
          Some parsedNodeID \<Rightarrow> GetNodeByID parsedNodeID
        | None \<Rightarrow> GetNode agentID) (\<lambda>node. case node of
            None \<Rightarrow> throw (ErrMsg ''node not found'')
          | Some node \<Rightarrow> if isInactiveNodeStatus (nd_Status node) then throw (access_denied node) else ret node))"

record CommandResponse =
  cr_CommandId :: string
  cr_Status :: string
  cr_Message :: string
  cr_Result :: string_map
  cr_NodeId :: string
  cr_PublicKey :: string

record MetricsReportRequest =
  mq_NodeId :: string
  mq_PublicKey :: string
  mq_AgentId :: string
  mq_CustomMetrics :: "(string \<times> 64 word) list"

text \<open>The first of several resolutions that succeeds.\<close>

fun first_resolved :: "err \<Rightarrow> Node op list \<Rightarrow> Node op" where
  "first_resolved e [] = throw e"
| "first_resolved e (m # ms) = bnd (attempt m) (\<lambda>r. case r of Inr node \<Rightarrow> ret node | Inl _ \<Rightarrow> first_resolved e ms)"

definition resolveNodeFromCommandStream :: "ControllerServer \<Rightarrow> CommandResponse option \<Rightarrow> Node op" where
  "resolveNodeFromCommandStream s resp = (case resp of
       None \<Rightarrow> throw (ErrMsg ''command stream init payload is required'')
     | Some resp \<Rightarrow>
         let given = (\<lambda>key. string_at (cr_Result resp) key) in
         first_resolved (ErrMsg ''failed to resolve node identity from command stream init'')
           ([resolveRuntimeNode s (cr_NodeId resp) (cr_PublicKey resp)] @
            (if given ''node_id'' \<noteq> '''' then [resolveRuntimeNode s (given ''node_id'') (given ''public_key'')] else []) @
            (if given ''agent_id'' \<noteq> '''' then [resolveLegacyAgentIdentity s (given ''agent_id'')] else []) @
            (if given ''public_key'' \<noteq> '''' then [resolveRuntimeNode s '''' (given ''public_key'')] else [])))"

definition resolveCommandStreamNodeForRequest :: "ControllerServer \<Rightarrow> rpc_context \<Rightarrow> CommandResponse option \<Rightarrow> Node op" where
  "resolveCommandStreamNodeForRequest s ctx resp = bound_node s ctx (resolveNodeFromCommandStream s resp)"

definition resolveMetricsNode :: "ControllerServer \<Rightarrow> MetricsReportRequest option \<Rightarrow> Node op" where
  "resolveMetricsNode s req = (case req of
       None \<Rightarrow> throw (ErrMsg ''metrics request is required'')
     | Some req \<Rightarrow>
         first_resolved (ErrMsg ''node_id or public_key is required for metrics reporting'')
           ([resolveRuntimeNode s (mq_NodeId req) (mq_PublicKey req)] @
            (if mq_AgentId req \<noteq> '''' then [resolveLegacyAgentIdentity s (mq_AgentId req)] else [])))"

definition resolveMetricsNodeForRequest :: "ControllerServer \<Rightarrow> rpc_context \<Rightarrow> MetricsReportRequest option \<Rightarrow> Node op" where
  "resolveMetricsNodeForRequest s ctx req = bound_node s ctx (resolveMetricsNode s req)"

section \<open>Registering\<close>

record PbRegisterRequest =
  pr_PublicKey :: string
  pr_Endpoint :: string
  pr_PrivateIp :: string
  pr_PublicIp :: string
  pr_Hostname :: string
  pr_RegisteredAt :: int
  pr_Token :: string
  pr_AdvertisedRoutes :: "string list"
  pr_Region :: string
  pr_CustomerId :: string
  pr_RuntimeMode :: string
  pr_KernelVersion :: string
  pr_HasAesni :: bool
  pr_MachineId :: string
  pr_CsrPem :: string

definition zero_registration :: RegistrationRequest where
  "zero_registration = \<lparr>rg_PublicKey = '''', rg_Endpoint = '''', rg_PrivateIP = '''', rg_PublicIP = '''', rg_Hostname = '''',
     rg_RegisteredAt = 0, rg_Token = '''', rg_RuntimeToken = '''', rg_AdvertisedRoutes = [], rg_Region = '''', rg_CustomerID = '''',
     rg_RuntimeMode = '''', rg_KernelVersion = '''', rg_HasAESNI = False, rg_MachineID = '''', rg_CSRPEM = ''''\<rparr>"

definition registrationRequestFromProto :: "PbRegisterRequest option \<Rightarrow> RegistrationRequest" where
  "registrationRequestFromProto req = (case req of None \<Rightarrow> zero_registration
     | Some r \<Rightarrow> \<lparr>rg_PublicKey = pr_PublicKey r, rg_Endpoint = pr_Endpoint r, rg_PrivateIP = pr_PrivateIp r,
         rg_PublicIP = pr_PublicIp r, rg_Hostname = pr_Hostname r, rg_RegisteredAt = pr_RegisteredAt r, rg_Token = pr_Token r,
         rg_RuntimeToken = '''', rg_AdvertisedRoutes = pr_AdvertisedRoutes r, rg_Region = pr_Region r,
         rg_CustomerID = pr_CustomerId r, rg_RuntimeMode = pr_RuntimeMode r, rg_KernelVersion = pr_KernelVersion r,
         rg_HasAESNI = pr_HasAesni r, rg_MachineID = pr_MachineId r, rg_CSRPEM = pr_CsrPem r\<rparr>)"

definition registrationRuntimeTokenFromContext :: "rpc_context \<Rightarrow> string" where
  "registrationRuntimeTokenFromContext ctx = (case ctx_md_Get ctx of
       None \<Rightarrow> ''''
     | Some get \<Rightarrow> (case get ''authorization'' of
         [] \<Rightarrow> ''''
       | value # _ \<Rightarrow>
           let authz = TrimSpace value
           in if HasPrefix (ToLower authz) ''bearer '' then TrimSpace (drop 7 authz) else authz))"

text \<open>The response has the fields of the result.\<close>

definition Register :: "ControllerServer \<Rightarrow> rpc_context \<Rightarrow> PbRegisterRequest option \<Rightarrow> RegistrationResult op" where
  "Register s ctx req = (case srv_registerHandler s of
       None \<Rightarrow> throw (ErrMsg ''registration failed: register handler is not configured'')
     | Some registerHandler \<Rightarrow>
         let registrationReq = registrationRequestFromProto req;
             registrationReq = (if TrimSpace (rg_RuntimeToken registrationReq) = ''''
               then registrationReq\<lparr>rg_RuntimeToken := registrationRuntimeTokenFromContext ctx\<rparr> else registrationReq)
         in bnd (attempt (registerHandler (Some registrationReq))) (\<lambda>r. case r of
             Inl e \<Rightarrow> throw (ErrWrap ''registration failed'' e)
           | Inr None \<Rightarrow> throw (ErrMsg ''registration failed: register handler returned no result'')
           | Inr (Some result) \<Rightarrow>
               if TrimSpace (rs_NodeID result) = '''' then throw (ErrMsg ''registration failed: registered node was not persisted'')
               else if TrimSpace (rs_RuntimeToken result) = '''' then throw (ErrMsg ''registration failed: runtime token was not issued'')
               else ret result))"

section \<open>Metrics\<close>

definition allowedACLRuleStatMetric :: "string \<Rightarrow> bool" where
  "allowedACLRuleStatMetric metric \<longleftrightarrow> metric \<in> {''packets'', ''bytes'', ''dropped_packets'', ''dropped_bytes''}"

definition allowedQoSRuleStatMetric :: "string \<Rightarrow> bool" where
  "allowedQoSRuleStatMetric metric \<longleftrightarrow> metric \<in> {''passed_bytes'', ''dropped_bytes'', ''shaped_bytes''}"

text \<open>A map of maps: \<^verbatim>\<open>m[rule][metric] = value\<close> with the inner map made when it is missing.\<close>

fun put_entry :: "string \<Rightarrow> 'v \<Rightarrow> (string \<times> 'v) list \<Rightarrow> (string \<times> 'v) list" where
  "put_entry k v [] = [(k, v)]"
| "put_entry k v ((k', v') # m) = (if k' = k then (k, v) # m else (k', v') # put_entry k v m)"

definition put_rule_stat ::
    "string \<Rightarrow> string \<Rightarrow> 64 word \<Rightarrow> (string \<times> (string \<times> json) list) list \<Rightarrow> (string \<times> (string \<times> json) list) list" where
  "put_rule_stat ruleID metric v m =
     put_entry ruleID (put_entry metric (JNumber v) (case map_of m ruleID of None \<Rightarrow> [] | Some inner \<Rightarrow> inner)) m"

text \<open>The rule statistics of one domain in the custom metrics.\<close>

definition rule_stat_step ::
    "string \<Rightarrow> (string \<Rightarrow> bool) \<Rightarrow> string \<times> 64 word \<Rightarrow> (string \<times> (string \<times> json) list) list \<Rightarrow>
     (string \<times> (string \<times> json) list) list" where
  "rule_stat_step domain allowed entry m = (case Split CHR ''.'' (fst entry) of
       [d, ruleID, metric] \<Rightarrow>
         if TrimSpace ruleID \<noteq> '''' \<and> d = domain \<and> allowed metric then put_rule_stat ruleID metric (snd entry) m else m
     | _ \<Rightarrow> m)"

definition mapStringRuleStats :: "(string \<times> (string \<times> json) list) list \<Rightarrow> json" where
  "mapStringRuleStats input = JObject (map (\<lambda>(ruleID, stats). (ruleID, JObject stats)) input)"

definition policyStatsFromCustomMetrics :: "(string \<times> 64 word) list \<Rightarrow> (string \<times> json) list op" where
  "policyStatsFromCustomMetrics metrics =
     (if metrics = [] then ret []
      else
        let keys = [''acl_packets'', ''acl_bytes'', ''acl_dropped_packets'', ''acl_dropped_bytes'',
              ''qos_passed_bytes'', ''qos_dropped_bytes'', ''qos_shaped_bytes''];
            totals = List.map_filter (\<lambda>key. map_option (\<lambda>v. (key, JNumber v)) (map_of metrics key)) keys;
            aclRules = fold (rule_stat_step ''acl_rule'' allowedACLRuleStatMetric) metrics [];
            qosRules = fold (rule_stat_step ''qos_rule'' allowedQoSRuleStatMetric) metrics [];
            stats = totals @ (if aclRules \<noteq> [] then [(''acl_rules'', mapStringRuleStats aclRules)] else []) @
              (if qosRules \<noteq> [] then [(''qos_rules'', mapStringRuleStats qosRules)] else [])
        in if stats = [] then ret []
           else bnd time_Now (\<lambda>now. ret (stats @ [(''reported_at'', JString (format_RFC3339 now))])))"

text \<open>\<^verbatim>\<open>json.Marshal\<close> refuses a number that is not finite: all bits of the exponent are set.\<close>

definition float_finite :: "64 word \<Rightarrow> bool" where
  "float_finite w \<longleftrightarrow> and (drop_bit 52 w) 0x7FF \<noteq> 0x7FF"

fun json_ok :: "json \<Rightarrow> bool" where
  "json_ok (JNumber w) = float_finite w"
| "json_ok (JString t) = True"
| "json_ok (JObject m) = (\<forall>kv \<in> set m. json_ok (snd kv))"

definition upsert_stats_sql :: "uuid \<Rightarrow> uuid \<Rightarrow> (string \<times> json) list \<Rightarrow> time \<Rightarrow> tables \<Rightarrow> (tables \<times> unit) option" where
  "upsert_stats_sql tenantID nodeID stats now t =
     (if \<exists>r \<in> set (node_policy_stats t). nps_node_id r = nodeID then
        Some (t\<lparr>node_policy_stats := update_where (\<lambda>r. nps_node_id r = nodeID)
          (\<lambda>r. r\<lparr>nps_tenant_id := tenantID, nps_stats := stats, nps_updated_at := now\<rparr>) (node_policy_stats t)\<rparr>, ())
      else if (\<forall>n \<in> set (nodes t). node_id n \<noteq> nodeID) \<or> (\<forall>r \<in> set (tenants t). tenant_id r \<noteq> tenantID) then None
      else Some (t\<lparr>node_policy_stats := node_policy_stats t @
        [\<lparr>nps_node_id = nodeID, nps_tenant_id = tenantID, nps_stats = stats, nps_updated_at = now\<rparr>]\<rparr>, ()))"

definition UpsertNodePolicyStats :: "uuid \<Rightarrow> uuid \<Rightarrow> (string \<times> json) list \<Rightarrow> unit op" where
  "UpsertNodePolicyStats tenantID nodeID stats =
     (if \<not> json_ok (JObject stats) then throw (ErrMsg ''marshal policy stats'')
      else write_op (upsert_stats_sql tenantID nodeID stats))"

definition GetNodePolicyStats :: "uuid \<Rightarrow> uuid \<Rightarrow> policy_stats_row option op" where
  "GetNodePolicyStats tenantID nodeID = select_op (\<lambda>_ t.
     find (\<lambda>r. nps_tenant_id r = tenantID \<and> nps_node_id r = nodeID) (node_policy_stats t))"

definition nestedPolicyRuleStats :: "policy_stats_row option \<Rightarrow> string \<Rightarrow> uuid \<Rightarrow> (string \<times> json) list option" where
  "nestedPolicyRuleStats stats domain ruleID = (case stats of
       None \<Rightarrow> None
     | Some r \<Rightarrow> (case map_of (nps_stats r) domain of
         Some (JObject rules) \<Rightarrow> (case map_of rules ruleID of Some (JObject ruleStats) \<Rightarrow> Some ruleStats | _ \<Rightarrow> None)
       | _ \<Rightarrow> None))"

definition ACLRuleStats :: "policy_stats_row option \<Rightarrow> uuid \<Rightarrow> (string \<times> json) list option" where
  "ACLRuleStats stats ruleID = nestedPolicyRuleStats stats ''acl_rules'' ruleID"

definition QoSRuleStats :: "policy_stats_row option \<Rightarrow> uuid \<Rightarrow> (string \<times> json) list option" where
  "QoSRuleStats stats ruleID = nestedPolicyRuleStats stats ''qos_rules'' ruleID"

text \<open>The response: the flag and the message; an error of the storage is returned beside them.\<close>

definition ReportMetrics :: "ControllerServer \<Rightarrow> rpc_context \<Rightarrow> MetricsReportRequest option \<Rightarrow> (bool \<times> string \<times> err option) op" where
  "ReportMetrics s ctx req =
     bnd (attempt (resolveMetricsNodeForRequest s ctx req)) (\<lambda>r. case (r, req) of
         (Inr node, Some req) \<Rightarrow>
           bnd time_Now (\<lambda>now.
           bnd (attempt (UpdateNodeHeartbeat (nd_ID node) (unix now))) (\<lambda>h. case h of
               Inl e \<Rightarrow> ret (False, ''Failed to persist metrics'', Some (ErrWrap ''failed to persist metrics'' e))
             | Inr _ \<Rightarrow>
               bnd (policyStatsFromCustomMetrics (mq_CustomMetrics req)) (\<lambda>stats.
               if stats = [] then ret (True, ''Metrics reported successfully'', None)
               else bnd (attempt (UpsertNodePolicyStats (nd_TenantID node) (nd_ID node) stats)) (\<lambda>u. case u of
                   Inl e \<Rightarrow> ret (False, ''Failed to persist policy stats'', Some (ErrWrap ''failed to persist policy stats'' e))
                 | Inr _ \<Rightarrow> ret (True, ''Metrics reported successfully'', None)))))
       | _ \<Rightarrow> ret (False, ''Unauthorized node'', None))"

section \<open>The command stream\<close>

record CommandRequest =
  cq_CommandId :: string
  cq_Command :: string
  cq_Params :: string_map
  cq_Timeout :: int
  cq_Priority :: int
  cq_CreatedAt :: int

text \<open>The conversion \<^verbatim>\<open>int32(n)\<close> keeps the lower 32 bits, read as a signed number.\<close>

definition int32_of :: "int \<Rightarrow> int" where
  "int32_of n = sint (word_of_int n :: 32 word)"

definition isTerminalCommandStatus :: "string \<Rightarrow> bool" where
  "isTerminalCommandStatus status \<longleftrightarrow> status = AgentCommandStatusCompleted \<or> status = AgentCommandStatusFailed"

text \<open>
  \<^verbatim>\<open>commandStreamIdlePollInterval\<close> on \<^verbatim>\<open>time.Duration\<close>, a signed number of 64 bits: the doubling wraps.
\<close>

definition int64_of :: "int \<Rightarrow> int" where
  "int64_of n = sint (word_of_int n :: 64 word)"

fun double_interval :: "int \<Rightarrow> nat \<Rightarrow> int \<Rightarrow> int" where
  "double_interval maximum 0 interval = (if interval > maximum then maximum else interval)"
| "double_interval maximum (Suc polls) interval =
     (if interval \<ge> maximum div 2 then maximum else double_interval maximum polls (int64_of (interval * 2)))"

definition commandStreamIdlePollInterval :: "int \<Rightarrow> int \<Rightarrow> int \<Rightarrow> int" where
  "commandStreamIdlePollInterval base maximum idlePolls =
     (let base = (if base \<le> 0 then 2000000000 else base);
          maximum = (if maximum < base then base else maximum)
      in double_interval maximum (nat idlePolls) base)"

definition commandStreamPollInterval :: int where
  "commandStreamPollInterval = 2000000000"

definition commandStreamMaxPollInterval :: int where
  "commandStreamMaxPollInterval = 30000000000"

definition ensureCommandStreamRuntimeActive :: "ControllerServer \<Rightarrow> string \<Rightarrow> Node option op" where
  "ensureCommandStreamRuntimeActive s nodePublicKey =
     (if \<not> srv_store s \<or> nodePublicKey = '''' then ret None
      else bnd (attempt (GetNode nodePublicKey)) (\<lambda>r. case r of
          Inr (Some node) \<Rightarrow>
            if isInactiveNodeStatus (nd_Status node) then throw (access_denied node)
            else bnd (ensureRuntimeTenantActive s node) (\<lambda>_. ret (Some node))
        | _ \<Rightarrow> throw (GrpcStatus Unauthenticated ''node not found'')))"

definition ensureCommandStreamNodeActive :: "ControllerServer \<Rightarrow> string \<Rightarrow> unit op" where
  "ensureCommandStreamNodeActive s nodePublicKey = bnd (ensureCommandStreamRuntimeActive s nodePublicKey) (\<lambda>_. ret ())"

text \<open>
  The network decides whether \<^verbatim>\<open>stream.Send\<close> succeeds, other transactions which commands are
  locked. The result is the request that went out; the source returns whether there was one.
\<close>

record wire =
  wi_Send :: "CommandRequest \<Rightarrow> err option"
  wi_locked :: "uuid \<Rightarrow> bool"

definition request_of :: "AgentCommand \<Rightarrow> CommandRequest" where
  "request_of cmd = \<lparr>cq_CommandId = ac_ID cmd, cq_Command = ac_Command cmd, cq_Params = ac_Params cmd,
     cq_Timeout = int32_of (ac_TimeoutSeconds cmd), cq_Priority = int32_of (ac_Priority cmd), cq_CreatedAt = unix (ac_CreatedAt cmd)\<rparr>"

definition sendNextPendingCommand :: "ControllerServer \<Rightarrow> wire \<Rightarrow> string \<Rightarrow> CommandRequest option op" where
  "sendNextPendingCommand s w agentID =
     (if \<not> srv_store s \<or> agentID = '''' then ret None
      else bnd (ensureCommandStreamRuntimeActive s agentID) (\<lambda>_.
      bnd (attempt (GetNextPendingAgentCommand (wi_locked w) agentID)) (\<lambda>r. case r of
          Inl e \<Rightarrow> throw (ErrWrap ''failed to get pending command'' e)
        | Inr None \<Rightarrow> ret None
        | Inr (Some cmd) \<Rightarrow> (case wi_Send w (request_of cmd) of
            None \<Rightarrow> ret (Some (request_of cmd))
          | Some e \<Rightarrow>
              bnd (attempt (RequeueSentAgentCommand (ac_ID cmd) agentID (''stream send failed: '' @ srv_err_Error s e))) (\<lambda>q. case q of
                  Inl requeueErr \<Rightarrow> throw (ErrWrap (''stream send error; failed to requeue command: '' @ srv_err_Error s requeueErr) e)
                | Inr _ \<Rightarrow> throw (ErrWrap ''stream send error'' e))))))"

text \<open>
  The loop of \<^verbatim>\<open>CommandStream\<close>: its state, and one pass of the \<^verbatim>\<open>select\<close> for each event that may be
  chosen. A pass goes on (\<open>Some\<close>), returns nil (\<open>None\<close>), or returns an error.
\<close>

record stream_state =
  sm_idlePolls :: nat
  sm_timer :: int
  sm_sent :: "CommandRequest list"

datatype stream_event = ContextDone | RecvEOF | RecvErr err | Response "CommandResponse option" | PollTimer

definition resetPollTimer :: "CommandRequest option \<Rightarrow> stream_state \<Rightarrow> stream_state" where
  "resetPollTimer sent st =
     (let polls = (if sent \<noteq> None then 0 else Suc (sm_idlePolls st))
      in \<lparr>sm_idlePolls = polls,
          sm_timer = commandStreamIdlePollInterval commandStreamPollInterval commandStreamMaxPollInterval (int polls),
          sm_sent = sm_sent st @ (case sent of None \<Rightarrow> [] | Some q \<Rightarrow> [q])\<rparr>)"

definition send_and_wait :: "ControllerServer \<Rightarrow> wire \<Rightarrow> string \<Rightarrow> stream_state \<Rightarrow> stream_state option op" where
  "send_and_wait s w pk st = bnd (sendNextPendingCommand s w pk) (\<lambda>sent. ret (Some (resetPollTimer sent st)))"

definition report_response :: "ControllerServer \<Rightarrow> string \<Rightarrow> CommandResponse \<Rightarrow> unit op" where
  "report_response s pk resp =
     (if cr_CommandId resp \<noteq> '''' \<and> srv_store s then
        bnd (ensureCommandStreamRuntimeActive s pk) (\<lambda>_.
        bnd (attempt (UpdateAgentCommandStatusForNode (cr_CommandId resp) pk (cr_Status resp) (cr_Message resp) (cr_Result resp)))
          (\<lambda>r. case r of Inl e \<Rightarrow> throw (ErrWrap ''failed to update command status'' e) | Inr _ \<Rightarrow> ret ()))
      else ret ())"

fun stream_turn :: "ControllerServer \<Rightarrow> wire \<Rightarrow> string \<Rightarrow> stream_event \<Rightarrow> stream_state \<Rightarrow> stream_state option op" where
  "stream_turn s w pk ContextDone st = ret None"
| "stream_turn s w pk RecvEOF st = ret None"
| "stream_turn s w pk (RecvErr e) st = throw (ErrWrap ''stream recv error'' e)"
| "stream_turn s w pk (Response None) st = ret (Some st)"
| "stream_turn s w pk (Response (Some resp)) st =
     (if cr_CommandId resp = ''init'' then ret (Some st)
      else bnd (report_response s pk resp) (\<lambda>_.
        if isTerminalCommandStatus (cr_Status resp) then send_and_wait s w pk st else ret (Some st)))"
| "stream_turn s w pk PollTimer st = send_and_wait s w pk st"

text \<open>
  Up to the loop: the first message must be \<^verbatim>\<open>init\<close>, the node is resolved, the header is sent, and
  a first command. \<open>None\<close> when the stream has ended before.
\<close>

datatype received = Eof | Failed err | Got "CommandResponse option"

definition CommandStream ::
    "ControllerServer \<Rightarrow> wire \<Rightarrow> rpc_context \<Rightarrow> received \<Rightarrow> err option \<Rightarrow> (string \<times> stream_state) option op" where
  "CommandStream s w ctx recv sendHeader = (case recv of
       Eof \<Rightarrow> ret None
     | Failed e \<Rightarrow> throw (ErrWrap ''stream recv error'' e)
     | Got resp \<Rightarrow>
         if (case resp of None \<Rightarrow> True | Some r \<Rightarrow> cr_CommandId r \<noteq> ''init'')
         then throw (ErrMsg ''command stream init payload is required'')
         else bnd (resolveCommandStreamNodeForRequest s ctx resp) (\<lambda>node.
           case sendHeader of Some e \<Rightarrow> throw (ErrWrap ''stream send header error'' e) | None \<Rightarrow>
           bnd (sendNextPendingCommand s w (nd_PublicKey node)) (\<lambda>sent.
           ret (Some (nd_PublicKey node, \<lparr>sm_idlePolls = 0,
             sm_timer = commandStreamIdlePollInterval commandStreamPollInterval commandStreamMaxPollInterval 0,
             sm_sent = (case sent of None \<Rightarrow> [] | Some q \<Rightarrow> [q])\<rparr>)))))"

section \<open>The waiting time of an idle stream\<close>

lemma int64_id: "0 \<le> n \<Longrightarrow> n < 2 ^ 63 \<Longrightarrow> int64_of n = n"
  unfolding int64_of_def by (simp add: sint_sbintrunc' signed_take_bit_int_eq_self)

lemma double_interval_exact:
  assumes "0 < i" and "i \<le> m" and "even m" and "m < 2 ^ 63"
  shows "double_interval m n i = min m (i * 2 ^ n)"
  using assms(1,2)
proof (induction n arbitrary: i)
  case (Suc n)
  show ?case
  proof (cases "i \<ge> m div 2")
    case True
    have "(1 :: int) \<le> 2 ^ n" by simp
    with True assms(3) Suc.prems(1) have "m \<le> i * 2" by auto
    also have "i * 2 \<le> i * 2 * 2 ^ n" using Suc.prems(1) \<open>1 \<le> 2 ^ n\<close> by (simp add: mult_le_cancel_left1)
    finally show ?thesis using True by (simp add: mult_ac min_def)
  next
    case False
    then have "i * 2 \<le> m" using assms(3) by auto
    moreover from this have "int64_of (i * 2) = i * 2" using Suc.prems(1) assms(4) by (intro int64_id) auto
    ultimately show ?thesis using Suc.IH [of "i * 2"] Suc.prems(1) False by (simp add: mult_ac)
  qed
qed simp

text \<open>
  (C33) The time until the next poll doubles with every idle poll and is capped, without ever
  overflowing 64 bits, for any positive base and any even cap that is at least the base.
\<close>

theorem poll_interval_exact:
  assumes "0 < base" and "base \<le> maximum" and "even maximum" and "maximum < 2 ^ 63" and "0 \<le> idlePolls"
  shows "commandStreamIdlePollInterval base maximum idlePolls = min maximum (base * 2 ^ nat idlePolls)"
  using assms by (simp add: commandStreamIdlePollInterval_def Let_def double_interval_exact)

theorem poll_interval_exact_witness:
  "map (commandStreamIdlePollInterval commandStreamPollInterval commandStreamMaxPollInterval) [0, 1, 3, 4, 100] =
     [2000000000, 4000000000, 16000000000, 30000000000, 30000000000]"
  using poll_interval_exact [of commandStreamPollInterval commandStreamMaxPollInterval]
  by (simp add: commandStreamPollInterval_def commandStreamMaxPollInterval_def)

section \<open>A call acts for the node of its token\<close>

lemma reads_lookup [maintains_rules]:
  "maintains (keeps (\<lambda>t. t)) (GetNode pk)" "maintains (keeps (\<lambda>t. t)) (GetNodeByID i)"
  "maintains (keeps (\<lambda>t. t)) (GetTenantStatus tenant)"
  unfolding GetNode_def GetNodeByID_def scanNode_def GetTenantStatus_def by (intro maintains_rules)+

lemma reads_resolve [maintains_rules]:
  "maintains (keeps (\<lambda>t. t)) (resolveRuntimeNode s i pk)" "maintains (keeps (\<lambda>t. t)) (resolveLegacyAgentIdentity s a)"
  unfolding resolveRuntimeNode_def resolveLegacyAgentIdentity_def lookup_or_nil_def by (intro maintains_rules)+

lemma reads_first_resolved [maintains_rules]:
  "(\<And>m. m \<in> set ms \<Longrightarrow> maintains (keeps (\<lambda>t. t)) m) \<Longrightarrow> maintains (keeps (\<lambda>t. t)) (first_resolved e ms)"
  by (induction ms) (simp_all, (intro maintains_rules; simp)+)

lemma reads_bind [maintains_rules]:
  "maintains (keeps (\<lambda>t. t)) (bindRuntimeTokenToNode parse ctx n)" "maintains (keeps (\<lambda>t. t)) (ensureRuntimeTenantActive s node)"
  unfolding bindRuntimeTokenToNode_def ensureRuntimeTenantActive_def by (intro maintains_rules)+

lemma reads_bound_node [maintains_rules]:
  "maintains (keeps (\<lambda>t. t)) m \<Longrightarrow> maintains (keeps (\<lambda>t. t)) (bound_node s ctx m)"
  unfolding bound_node_def by (intro maintains_rules)

lemma reads_resolvers [maintains_rules]:
  "maintains (keeps (\<lambda>t. t)) (resolveMetricsNodeForRequest s ctx req)"
  "maintains (keeps (\<lambda>t. t)) (resolveCommandStreamNodeForRequest s ctx resp)"
  "maintains (keeps (\<lambda>t. t)) (resolveRuntimeNodeForRequest s ctx i pk)"
proof -
  show "maintains (keeps (\<lambda>t. t)) (resolveRuntimeNodeForRequest s ctx i pk)"
    unfolding resolveRuntimeNodeForRequest_def by (intro maintains_rules)
  have "maintains (keeps (\<lambda>t. t)) (resolveMetricsNode s req)"
    unfolding resolveMetricsNode_def
    by (intro maintains_rules) (auto intro!: maintains_rules split: if_split_asm)
  then show "maintains (keeps (\<lambda>t. t)) (resolveMetricsNodeForRequest s ctx req)"
    unfolding resolveMetricsNodeForRequest_def by (intro maintains_rules)
  have "maintains (keeps (\<lambda>t. t)) (resolveNodeFromCommandStream s resp)"
    unfolding resolveNodeFromCommandStream_def
    by (intro maintains_rules) (auto intro!: maintains_rules split: if_split_asm)
  then show "maintains (keeps (\<lambda>t. t)) (resolveCommandStreamNodeForRequest s ctx resp)"
    unfolding resolveCommandStreamNodeForRequest_def by (intro maintains_rules)
qed

lemma bindRuntimeTokenToNode_Inr:
  assumes "bindRuntimeTokenToNode parse ctx (Some node) s = (Inr x, t)"
  obtains i where "ctx_RuntimeNodeID ctx = Some i" "parse i = Some (nd_ID node)"
  using assms
  by (auto simp: bindRuntimeTokenToNode_def GetRuntimeNodeID_def Let_def throw_Inr split: option.split_asm if_split_asm)

lemma bound_node_Inr:
  assumes "bound_node s ctx m u = (Inr node, v)"
  obtains i where "ctx_RuntimeNodeID ctx = Some i" "srv_uuid_Parse s i = Some (nd_ID node)"
  using assms unfolding bound_node_def by (auto simp: bnd_Inr ret_Inr elim!: bindRuntimeTokenToNode_Inr)

text \<open>A change of the tables that is confined to the row of one node and its statistics.\<close>

definition touches_only :: "uuid \<Rightarrow> tables \<Rightarrow> tables \<Rightarrow> bool" where
  "touches_only i t u \<longleftrightarrow>
     filter (\<lambda>n. node_id n \<noteq> i) (nodes u) = filter (\<lambda>n. node_id n \<noteq> i) (nodes t) \<and>
     filter (\<lambda>r. nps_node_id r \<noteq> i) (node_policy_stats u) = filter (\<lambda>r. nps_node_id r \<noteq> i) (node_policy_stats t) \<and>
     u\<lparr>nodes := [], node_policy_stats := []\<rparr> = t\<lparr>nodes := [], node_policy_stats := []\<rparr>"

interpretation touches: table_relation "touches_only i" for i
  by unfold_locales (simp_all add: touches_only_def)

lemma filter_update_other:
  "(\<And>r. P r \<Longrightarrow> \<not> Q r \<and> \<not> Q (f r)) \<Longrightarrow> filter Q (update_where P f rs) = filter Q rs"
  by (induction rs) (auto simp: update_where_def)

lemma touches_heartbeat [maintains_rules]: "maintains (touches_only i) (UpdateNodeHeartbeat i seen)"
  unfolding UpdateNodeHeartbeat_def require_row_def
  by (intro maintains_rules) (auto simp: touches_only_def update_nodes_sql_def intro!: filter_update_other)

lemma touches_stats [maintains_rules]: "maintains (touches_only i) (UpsertNodePolicyStats tenant i stats)"
  unfolding UpsertNodePolicyStats_def
  by (intro maintains_rules)
    (auto simp: touches_only_def upsert_stats_sql_def filter_update_other split: if_split_asm)

lemma touches_policyStats [maintains_rules]: "maintains (touches_only i) (policyStatsFromCustomMetrics m)"
  unfolding policyStatsFromCustomMetrics_def by (intro maintains_rules)

lemma ReportMetrics_touches:
  assumes run: "ReportMetrics srv ctx req s = (r, t)"
  shows "tab t = tab s \<or> (\<exists>i n. ctx_RuntimeNodeID ctx = Some i \<and> srv_uuid_Parse srv i = Some n \<and> touches_only n (tab s) (tab t))"
proof -
  obtain q u where q: "resolveMetricsNodeForRequest srv ctx req s = (q, u)" by fastforce
  have u: "tab u = tab s" using unchanged.frame_run [OF reads_resolvers(1) q] .
  show ?thesis
  proof (cases "\<exists>node. q = Inr node \<and> req \<noteq> None")
    case False
    with run q u show ?thesis
      by (auto simp: ReportMetrics_def bnd_def attempt_def ret_def split: sum.split_asm option.split_asm)
  next
    case True
    then obtain node rq where node: "q = Inr node" "req = Some rq" by auto
    from q node(1) obtain i where i: "ctx_RuntimeNodeID ctx = Some i" "srv_uuid_Parse srv i = Some (nd_ID node)"
      unfolding resolveMetricsNodeForRequest_def by (auto elim: bound_node_Inr)
    let ?rest = "bnd time_Now (\<lambda>now.
           bnd (attempt (UpdateNodeHeartbeat (nd_ID node) (unix now))) (\<lambda>h. case h of
               Inl e \<Rightarrow> ret (False, ''Failed to persist metrics'', Some (ErrWrap ''failed to persist metrics'' e))
             | Inr _ \<Rightarrow>
               bnd (policyStatsFromCustomMetrics (mq_CustomMetrics rq)) (\<lambda>stats.
               if stats = [] then ret (True, ''Metrics reported successfully'', None)
               else bnd (attempt (UpsertNodePolicyStats (nd_TenantID node) (nd_ID node) stats)) (\<lambda>u. case u of
                   Inl e \<Rightarrow> ret (False, ''Failed to persist policy stats'', Some (ErrWrap ''failed to persist policy stats'' e))
                 | Inr _ \<Rightarrow> ret (True, ''Metrics reported successfully'', None)))))"
    have "?rest u = (r, t)"
      using run q node unfolding ReportMetrics_def by (simp add: bnd_def [of "attempt (resolveMetricsNodeForRequest a b c)" for a b c] attempt_def [of "resolveMetricsNodeForRequest a b c" for a b c])
    moreover have "maintains (touches_only (nd_ID node)) ?rest" by (intro maintains_rules)
    ultimately have "touches_only (nd_ID node) (tab u) (tab t)" by (blast intro: maintainsD)
    with i u show ?thesis by auto
  qed
qed

text \<open>
  The reader of identifiers takes no text with white space around it.
\<close>

definition uuid_strict :: "(string \<Rightarrow> uuid option) \<Rightarrow> bool" where
  "uuid_strict parse \<longleftrightarrow> (\<forall>x i. parse x = Some i \<longrightarrow> TrimSpace x = x)"


definition sample_server :: ControllerServer where
  "sample_server = \<lparr>srv_store = True, srv_registerHandler = None, srv_jwt = sample_lib, srv_secret = Some ''k'',
     srv_uuid_Parse = (\<lambda>x. if x = ''n1'' \<or> x = ''n2'' \<or> x = ''t1'' then Some x else None), srv_err_Error = (\<lambda>_. ''error'')\<rparr>"

definition sample_fleet :: db where
  "sample_fleet = (join_db ''online'')\<lparr>go_now := secs 50,
     tab := (tab (join_db ''online''))\<lparr>nodes := [sample_node ''n1'' ''pk1'' ''online'', sample_node ''n2'' ''pk2'' ''online''],
       agent_commands := [sample_command ''c1'' ''pending'' 0 1]\<rparr>\<rparr>"

definition sample_metrics :: "string \<Rightarrow> MetricsReportRequest" where
  "sample_metrics i = \<lparr>mq_NodeId = i, mq_PublicKey = '''', mq_AgentId = '''', mq_CustomMetrics = [(''acl_rule.r1.bytes'', 7)]\<rparr>"

lemma sample_server_strict: "uuid_strict (srv_uuid_Parse sample_server)"
proof -
  have "TrimSpace ''n1'' = ''n1''" "TrimSpace ''n2'' = ''n2''" "TrimSpace ''t1'' = ''t1''" by code_simp+
  then show ?thesis by (auto simp: uuid_strict_def sample_server_def split: if_split_asm)
qed


section \<open>What goes out on a command stream\<close>

lemma reads_cmd_rel: "maintains (keeps (\<lambda>t. t)) m \<Longrightarrow> maintains cmd_rel m"
  by (erule maintains_mono) (simp add: keeps_def cmds.grel.R_refl)

lemma reads_runtime_active: "maintains (keeps (\<lambda>t. t)) (ensureCommandStreamRuntimeActive s pk)"
  unfolding ensureCommandStreamRuntimeActive_def by (intro maintains_rules)

lemma cmd_rel_runtime_active [maintains_rules]: "maintains cmd_rel (ensureCommandStreamRuntimeActive s pk)"
  by (rule reads_cmd_rel) (rule reads_runtime_active)

lemma cmd_rel_stream_node [maintains_rules]: "maintains cmd_rel (resolveCommandStreamNodeForRequest s ctx resp)"
  by (rule reads_cmd_rel) (intro maintains_rules)

lemma cmd_rel_send [maintains_rules]: "maintains cmd_rel (sendNextPendingCommand s w pk)"
  unfolding sendNextPendingCommand_def by (intro maintains_rules)

lemma cmd_rel_turn [maintains_rules]: "maintains cmd_rel (stream_turn s w pk ev st)"
proof (cases "(s, w, pk, ev, st)" rule: stream_turn.cases)
qed (auto simp: send_and_wait_def report_response_def UpdateAgentCommandStatusForNode_def intro!: maintains_rules)

lemma cmd_rel_CommandStream [maintains_rules]: "maintains cmd_rel (CommandStream s w ctx recv hdr)"
proof -
  have received: "maintains cmd_rel (case recv of Eof \<Rightarrow> a | Failed e \<Rightarrow> b e | Got r \<Rightarrow> c r)"
    if "maintains cmd_rel a" "\<And>e. maintains cmd_rel (b e)" "\<And>r. maintains cmd_rel (c r)" for a b c
    using that by (cases recv) auto
  show ?thesis unfolding CommandStream_def by (intro received maintains_rules)
qed

text \<open>A request that is in the queue of a node.\<close>

definition queued_for :: "string \<Rightarrow> tables \<Rightarrow> CommandRequest \<Rightarrow> bool" where
  "queued_for pk t q \<longleftrightarrow> (\<exists>r \<in> set (agent_commands t). cmd_id r = cq_CommandId q \<and> cmd_node_public_key r = pk \<and>
     cmd_command r = cq_Command q \<and> stringifyCommandParams (cmd_params r) = cq_Params q)"

lemma queued_for_evolves:
  assumes "queued_for pk t q" and "cmd_rel t u" and "cmds_inv t"
  shows "queued_for pk u q"
proof -
  from assms(1) obtain i where i: "i < length (agent_commands t)" "cmd_id (agent_commands t ! i) = cq_CommandId q"
      "cmd_node_public_key (agent_commands t ! i) = pk" "cmd_command (agent_commands t ! i) = cq_Command q"
      "stringifyCommandParams (cmd_params (agent_commands t ! i)) = cq_Params q"
    unfolding queued_for_def by (metis in_set_conv_nth)
  from assms(2,3) i(1) have "i < length (agent_commands u)" "cmd_step (agent_commands t ! i) (agent_commands u ! i)"
    by (auto simp: guarded_def evolves_def rows_rel_nth)
  with i show ?thesis unfolding queued_for_def by (intro bexI [of _ "agent_commands u ! i"]) (auto simp: cmd_step_def)
qed

lemma next_command_queued:
  assumes "GetNextPendingAgentCommand locked pk s = (Inr (Some cmd), t)"
  shows "queued_for pk (tab t) (request_of cmd)"
  using assms
proof (cases rule: GetNext_Inr)
  case (some r)
  note row = next_pending_SomeD [OF some(2)]
  have "sent_row (go_now s) r \<in> set (agent_commands (tab t))"
    using row(1) unfolding some(3) update_where_def by (force simp: agent_commands_requeue)
  then show ?thesis
    using row(2) some(1) unfolding queued_for_def request_of_def
    by (intro bexI [of _ "sent_row (go_now s) r"]) (simp_all add: sent_row_def deliverable_def scanAgentCommandRow_def)
qed simp

lemma sent_command_queued:
  assumes "sendNextPendingCommand s w pk u = (Inr (Some q), t)"
  shows "queued_for pk (tab t) q"
proof -
  from assms obtain x v where "bnd (attempt (GetNextPendingAgentCommand (wi_locked w) pk)) (\<lambda>r. case r of
          Inl e \<Rightarrow> throw (ErrWrap ''failed to get pending command'' e)
        | Inr None \<Rightarrow> ret None
        | Inr (Some cmd) \<Rightarrow> (case wi_Send w (request_of cmd) of
            None \<Rightarrow> ret (Some (request_of cmd))
          | Some e \<Rightarrow>
              bnd (attempt (RequeueSentAgentCommand (ac_ID cmd) pk (''stream send failed: '' @ srv_err_Error s e))) (\<lambda>q. case q of
                  Inl requeueErr \<Rightarrow> throw (ErrWrap (''stream send error; failed to requeue command: '' @ srv_err_Error s requeueErr) e)
                | Inr _ \<Rightarrow> throw (ErrWrap ''stream send error'' e)))) v = (Inr (Some q), t)"
    unfolding sendNextPendingCommand_def by (auto simp: bnd_Inr [of "ensureCommandStreamRuntimeActive a b" for a b] ret_Inr split: if_split_asm)
  then obtain cmd where "GetNextPendingAgentCommand (wi_locked w) pk v = (Inr (Some cmd), t)" "q = request_of cmd"
    by (auto simp: handled_Inr split: option.split_asm)
  then show ?thesis by (auto dest: next_command_queued)
qed

text \<open>
  The life of a stream among the other calls of the controller: it is opened, then the calls of
  other requests run or the stream makes a pass of its loop.
\<close>

inductive streaming :: "ControllerServer \<Rightarrow> rpc_context \<Rightarrow> string \<Rightarrow> tables \<Rightarrow> stream_state \<Rightarrow> bool" for srv ctx where
  opened: "cmds_inv (tab s) \<Longrightarrow> CommandStream srv w ctx recv hdr s = (Inr (Some (pk, st)), u) \<Longrightarrow>
    streaming srv ctx pk (tab u) st"
| others: "streaming srv ctx pk t st \<Longrightarrow> queue_run t u \<Longrightarrow> streaming srv ctx pk u st"
| turn: "streaming srv ctx pk (tab s) st \<Longrightarrow> stream_turn srv w pk ev st s = (Inr (Some st'), u) \<Longrightarrow>
    streaming srv ctx pk (tab u) st'"

lemma opened_stream:
  assumes "CommandStream srv w ctx recv hdr s = (Inr (Some (pk, st)), u)"
  shows "\<forall>q \<in> set (sm_sent st). queued_for pk (tab u) q"
proof -
  from assms obtain node :: Node and v where
      "bnd (sendNextPendingCommand srv w (nd_PublicKey node)) (\<lambda>sent.
           ret (Some (nd_PublicKey node, \<lparr>sm_idlePolls = 0,
             sm_timer = commandStreamIdlePollInterval commandStreamPollInterval commandStreamMaxPollInterval 0,
             sm_sent = (case sent of None \<Rightarrow> [] | Some q \<Rightarrow> [q])\<rparr>))) v = (Inr (Some (pk, st)), u)"
    unfolding CommandStream_def
    by (auto simp: ret_Inr throw_Inr bnd_Inr [of "resolveCommandStreamNodeForRequest a b c" for a b c]
        split: received.split_asm if_split_asm option.split_asm)
  then obtain sent where "sendNextPendingCommand srv w pk v = (Inr sent, u)" "sm_sent st = (case sent of None \<Rightarrow> [] | Some q \<Rightarrow> [q])"
    by (auto simp: bnd_Inr ret_Inr)
  then show ?thesis by (cases sent) (auto dest: sent_command_queued)
qed

lemma turn_sent:
  assumes "stream_turn srv w pk ev st s = (Inr (Some st'), u)"
  shows "sm_sent st' = sm_sent st \<or> (\<exists>q. sm_sent st' = sm_sent st @ [q] \<and> queued_for pk (tab u) q)"
proof -
  have send: "sm_sent st' = sm_sent st \<or> (\<exists>q. sm_sent st' = sm_sent st @ [q] \<and> queued_for pk (tab u) q)"
    if run: "send_and_wait srv w pk st v = (Inr (Some st'), u)" for v
  proof -
    from run obtain sent where "sendNextPendingCommand srv w pk v = (Inr sent, u)" "st' = resetPollTimer sent st"
      by (auto simp: send_and_wait_def bnd_Inr ret_Inr)
    then show ?thesis by (cases sent) (auto simp: resetPollTimer_def Let_def dest: sent_command_queued)
  qed
  show ?thesis
  proof (cases ev)
    case (Response resp)
    with assms show ?thesis
      by (cases resp) (auto simp: ret_Inr bnd_Inr [of "report_response a b c" for a b c] split: if_split_asm dest: send)
  qed (use assms in \<open>auto simp: ret_Inr throw_Inr dest: send\<close>)
qed

text \<open>
  (C7) Every command that went out on a stream is a command queued for the node of the stream, with
  its parameters unchanged, in any interleaving with the other calls.
\<close>

theorem stream_sends_own_commands:
  assumes "streaming srv ctx pk t st"
  shows "\<forall>q \<in> set (sm_sent st). queued_for pk t q"
proof -
  from assms have "cmds_inv t \<and> (\<forall>q \<in> set (sm_sent st). queued_for pk t q)"
  proof (induction rule: streaming.induct)
    case (opened s w recv hdr pk st u)
    from maintainsD [OF cmd_rel_CommandStream opened(2)] opened(1) have "cmds_inv (tab u)" by (simp add: guarded_def)
    with opened_stream [OF opened(2)] show ?case by blast
  next
    case (others pk t st u)
    from queue_run_maintains(2) [OF others(2)] have rel: "cmd_rel t u" .
    with others.IH have "cmds_inv u" by (simp add: guarded_def)
    with others.IH rel show ?case by (blast intro: queued_for_evolves)
  next
    case (turn pk s st w ev st' u)
    from maintainsD [OF cmd_rel_turn turn(2)] have rel: "cmd_rel (tab s) (tab u)" .
    with turn.IH have "cmds_inv (tab u)" by (simp add: guarded_def)
    with turn.IH rel turn_sent [OF turn(2)] show ?case by (auto intro: queued_for_evolves)
  qed
  then show ?thesis by blast
qed

text \<open>The node of a stream after it was stopped.\<close>

lemma stopped_node_refused:
  assumes "\<forall>m \<in> set (nodes (tab s)). node_public_key m = pk \<longrightarrow> node_status m = Some target" and "stopped_status target"
    and "srv_store srv" and "pk \<noteq> ''''"
  obtains e u where "ensureCommandStreamRuntimeActive srv pk s = (Inl e, u)" "tab u = tab s"
proof -
  obtain q u where q: "GetNode pk s = (q, u)" by fastforce
  have u: "tab u = tab s" using unchanged.frame_run [OF reads_lookup(1) q] .
  have "isInactiveNodeStatus (nd_Status node)" if "q = Inr (Some node)" for node
  proof -
    from q that obtain r where "find (\<lambda>r. node_public_key r = pk) (nodes (tab s)) = Some r" "node = scanNodeRows r"
      unfolding GetNode_def scanNode_def
      by (cases "find (\<lambda>r. node_public_key r = pk) (nodes (tab s))") (auto simp: bnd_Inr ret_Inr dest!: select_InrD)
    with find_SomeD assms(1) have "nd_Status node = target" by (fastforce simp: scanNodeRows_def coalesce_def)
    moreover have "isInactiveNodeStatus ''deleted''" "isInactiveNodeStatus ''suspended''" "isInactiveNodeStatus ''banned''"
      by code_simp+
    ultimately show ?thesis using assms(2) by (auto simp: stopped_status_def)
  qed
  then have "\<exists>e. ensureCommandStreamRuntimeActive srv pk s = (Inl e, u)"
    using q assms(3,4) unfolding ensureCommandStreamRuntimeActive_def
    by (cases q; cases "projr q") (auto simp: bnd_def attempt_def throw_def)
  with u that show ?thesis by blast
qed


definition open_wire :: wire where
  "open_wire = \<lparr>wi_Send = (\<lambda>_. None), wi_locked = (\<lambda>_. False)\<rparr>"

definition sample_init :: CommandResponse where
  "sample_init = \<lparr>cr_CommandId = ''init'', cr_Status = '''', cr_Message = '''', cr_Result = [], cr_NodeId = ''n1'', cr_PublicKey = ''''\<rparr>"

definition bound_rpc :: rpc_context where
  "bound_rpc = sample_rpc\<lparr>ctx_RuntimeNodeID := Some ''n1'', ctx_RuntimeTenantID := Some ''t1''\<rparr>"

theorem stream_sends_own_commands_witness:
  "\<exists>t st. streaming sample_server bound_rpc ''pk1'' t st \<and> map cq_CommandId (sm_sent st) = [''c1''] \<and>
     (\<forall>q \<in> set (sm_sent st). queued_for ''pk1'' t q)"
proof -
  let ?run = "CommandStream sample_server open_wire bound_rpc (Got (Some sample_init)) None sample_fleet"
  have "map_sum id (map_option (\<lambda>(pk, st). (pk, map cq_CommandId (sm_sent st)))) (fst ?run) = Inr (Some (''pk1'', [''c1'']))"
    by code_simp
  then obtain st where st: "fst ?run = Inr (Some (''pk1'', st))" "map cq_CommandId (sm_sent st) = [''c1'']"
    by (cases "fst ?run") auto
  then have run: "?run = (Inr (Some (''pk1'', st)), snd ?run)" by (simp add: prod_eq_iff)
  have "cmds_inv (tab sample_fleet)" by (simp add: cmds_inv_def sample_fleet_def)
  from streaming.opened [OF this run] have s: "streaming sample_server bound_rpc ''pk1'' (tab (snd ?run)) st" .
  from stream_sends_own_commands [OF s] s st(2) show ?thesis by (intro exI conjI)
qed


end
