(* ===== verification/Ip_Groups.thy ===== *)
theory Ip_Groups
  imports Policy_Conflict Policy_Sync Node_Store Go_Sha256 "HOL-Library.Multiset" "HOL-Library.List_Lexorder" "HOL-Library.Char_ord"
begin

text \<open>
  The groups of address ranges that policies refer to (\<^verbatim>\<open>pkg/controllerstorage/ip_groups.go\<close> and
  \<^verbatim>\<open>ip_group_references.go\<close>): custom groups of the operators, inline groups made for a range that is
  written into a rule, and the queries for the rules and nodes that refer to a group.
\<close>

text \<open>
  What the database does with texts: reading a text as a range and printing it (\<open>None\<close> when the
  text is refused), the overlap of two ranges and the length of the mask, the number of
  characters of a text, and the sort key of a text under the collation of the database.
\<close>

record sql_lib =
  sql_cidr :: "string \<Rightarrow> string option"
  sql_overlaps :: "string \<Rightarrow> string \<Rightarrow> bool"
  sql_masklen :: "string \<Rightarrow> nat"
  sql_char_length :: "string \<Rightarrow> nat"
  sql_collate :: "string \<Rightarrow> string"

abbreviation "IPGroupKindCustom \<equiv> ''custom''"
abbreviation "IPGroupKindInline \<equiv> ''inline''"
abbreviation "IPGroupKindSystem \<equiv> ''system''"
abbreviation "IPGroupAnyName \<equiv> ''any''"

definition of_result :: "err + 'a \<Rightarrow> 'a op" where
  "of_result r = (case r of Inl e \<Rightarrow> throw e | Inr x \<Rightarrow> ret x)"

section \<open>Groups before a write\<close>

definition normalizeIPGroupKind :: "string \<Rightarrow> string" where
  "normalizeIPGroupKind kind = (let trimmed = ToLower (TrimSpace kind) in if trimmed = '''' then IPGroupKindCustom else trimmed)"

definition validateIPGroupKind :: "string \<Rightarrow> err option" where
  "validateIPGroupKind kind = (if kind \<in> {IPGroupKindCustom, IPGroupKindInline, IPGroupKindSystem} then None
     else Some (ErrMsg (''unsupported ip group kind: '' @ kind)))"

definition normalizeIPGroupName :: "string \<Rightarrow> string" where
  "normalizeIPGroupName name = TrimSpace name"

text \<open>The loop keeps the first member of each range; the members are then sorted by range.\<close>

fun normal_members :: "string list \<Rightarrow> IPGroupMemberRecord list \<Rightarrow> err + IPGroupMemberRecord list" where
  "normal_members seen [] = Inr []"
| "normal_members seen (member # members) = (case normalizeCIDR (gm_CIDR member) of
       None \<Rightarrow> Inl (ErrMsg (''invalid CIDR '' @ double_quoted (gm_CIDR member)))
     | Some cidr \<Rightarrow>
         if cidr \<in> set seen then normal_members seen members
         else map_sum id (\<lambda>rest. member\<lparr>gm_CIDR := cidr, gm_Note := TrimSpace (gm_Note member)\<rparr> # rest)
           (normal_members (cidr # seen) members))"

definition normalizeIPGroupMembers :: "IPGroupMemberRecord list \<Rightarrow> err + IPGroupMemberRecord list" where
  "normalizeIPGroupMembers members = map_sum id (sort_key gm_CIDR) (normal_members [] members)"

definition normalizeIPGroupForWrite :: "IPGroupRecord \<Rightarrow> err + IPGroupRecord" where
  "normalizeIPGroupForWrite grp =
     (let name = normalizeIPGroupName (ig_Name grp); kind = normalizeIPGroupKind (ig_Kind grp) in
      if ig_TenantID grp = uuid_Nil then Inl (ErrMsg ''tenant_id is required'')
      else if name = '''' then Inl (ErrMsg ''ip group name is required'')
      else case validateIPGroupKind kind of
        Some e \<Rightarrow> Inl e
      | None \<Rightarrow> (case normalizeIPGroupMembers (ig_Members grp) of
          Inl e \<Rightarrow> Inl e
        | Inr members \<Rightarrow>
            if members = [] \<and> \<not> (kind = IPGroupKindSystem \<and> name = IPGroupAnyName)
            then Inl (ErrMsg ''ip group requires at least one CIDR member'')
            else Inr (grp\<lparr>ig_Name := name, ig_Description := TrimSpace (ig_Description grp), ig_Kind := kind,
              ig_Members := members\<rparr>)))"

definition inlineIPGroupName :: "string list \<Rightarrow> string" where
  "inlineIPGroupName cidrs = ''inline:'' @ hex_EncodeToString (take 8 (Sum256 (Join '','' (sort cidrs))))"

definition withIPGroupID :: "IPGroupMemberRecord list \<Rightarrow> uuid \<Rightarrow> IPGroupMemberRecord list" where
  "withIPGroupID members groupID = map (\<lambda>member. member\<lparr>gm_GroupID := groupID\<rparr>) members"

definition scanIPGroup :: "ip_group_row \<Rightarrow> IPGroupRecord" where
  "scanIPGroup r = \<lparr>ig_ID = grp_id r, ig_TenantID = grp_tenant_id r, ig_Name = grp_name r,
     ig_Description = coalesce (grp_description r) '''', ig_Kind = grp_kind r, ig_CreatedBy = grp_created_by r,
     ig_Members = [], ig_Warnings = [], ig_CreatedAt = grp_created_at r, ig_UpdatedAt = grp_updated_at r\<rparr>"

section \<open>Members\<close>

definition scan_member :: "ip_member_row \<Rightarrow> IPGroupMemberRecord" where
  "scan_member r = \<lparr>gm_ID = mem_id r, gm_GroupID = mem_group_id r, gm_CIDR = mem_cidr r, gm_Note = coalesce (mem_note r) ''''\<rparr>"

definition listIPGroupMembersWith :: "sql_lib \<Rightarrow> uuid \<Rightarrow> uuid \<Rightarrow> IPGroupMemberRecord list op" where
  "listIPGroupMembersWith lib tenantID groupID =
     bnd (select_op (\<lambda>_ t. sort_key (\<lambda>r. sql_collate lib (mem_cidr r))
       (filter (\<lambda>r. mem_tenant_id r = tenantID \<and> mem_group_id r = groupID) (ip_group_members t))))
       (\<lambda>rows. check_op (map scan_member rows))"

definition listIPGroupMembers :: "sql_lib \<Rightarrow> uuid \<Rightarrow> uuid \<Rightarrow> IPGroupMemberRecord list op" where
  "listIPGroupMembers = listIPGroupMembersWith"

text \<open>
  \<^verbatim>\<open>insertIPGroupMemberSQL\<close> and \<^verbatim>\<open>upsertIPGroupMemberSQL\<close>: the range must be one for the database, its
  group and tenant must exist, and a range occurs once in a group.
\<close>

definition insert_member_sql ::
    "sql_lib \<Rightarrow> bool \<Rightarrow> uuid \<Rightarrow> uuid \<Rightarrow> string \<Rightarrow> string \<Rightarrow> uuid \<Rightarrow> time \<Rightarrow> tables \<Rightarrow> (tables \<times> unit) option" where
  "insert_member_sql lib upsert tenantID groupID cidr note i now t = (case sql_cidr lib cidr of
       None \<Rightarrow> None
     | Some cidr \<Rightarrow>
         if \<exists>r \<in> set (ip_group_members t). mem_group_id r = groupID \<and> mem_cidr r = cidr then
           (if upsert then Some (t\<lparr>ip_group_members := update_where (\<lambda>r. mem_group_id r = groupID \<and> mem_cidr r = cidr)
              (\<lambda>r. r\<lparr>mem_note := Some note\<rparr>) (ip_group_members t)\<rparr>, ()) else None)
         else if (\<exists>r \<in> set (ip_group_members t). mem_id r = i) \<or> (\<forall>g \<in> set (ip_groups t). grp_id g \<noteq> groupID) \<or>
           (\<forall>r \<in> set (tenants t). tenant_id r \<noteq> tenantID) then None
         else Some (t\<lparr>ip_group_members := ip_group_members t @ [\<lparr>mem_id = i, mem_tenant_id = tenantID, mem_group_id = groupID,
           mem_cidr = cidr, mem_note = Some note, mem_created_at = now\<rparr>]\<rparr>, ()))"

definition insertIPGroupMembers :: "sql_lib \<Rightarrow> uuid \<Rightarrow> uuid \<Rightarrow> IPGroupMemberRecord list \<Rightarrow> bool \<Rightarrow> unit op" where
  "insertIPGroupMembers lib tenantID groupID members upsert =
     for_each (\<lambda>member. insert_op (insert_member_sql lib upsert tenantID groupID (gm_CIDR member) (TrimSpace (gm_Note member)))) members"

text \<open>\<^verbatim>\<open>exactDuplicateIPGroupMemberSQL\<close>: a member of another group of the tenant with the same range.\<close>

definition duplicate_member :: "uuid \<Rightarrow> uuid \<Rightarrow> string \<Rightarrow> tables \<Rightarrow> (ip_group_row \<times> ip_member_row) option" where
  "duplicate_member tenantID excludeGroupID cidr t =
     find (\<lambda>(g, m). mem_tenant_id m = tenantID \<and> grp_id g \<noteq> excludeGroupID \<and> mem_cidr m = cidr)
       (concat (map (\<lambda>m. map (\<lambda>g. (g, m)) (filter (\<lambda>g. grp_id g = mem_group_id m) (ip_groups t))) (ip_group_members t)))"

definition rejectExactDuplicateIPGroupMembersWith :: "sql_lib \<Rightarrow> uuid \<Rightarrow> uuid \<Rightarrow> IPGroupMemberRecord list \<Rightarrow> unit op" where
  "rejectExactDuplicateIPGroupMembersWith lib tenantID excludeGroupID members =
     for_each (\<lambda>member. case sql_cidr lib (gm_CIDR member) of
         None \<Rightarrow> throw DBError
       | Some cidr \<Rightarrow> bnd (select_op (\<lambda>_ t. duplicate_member tenantID excludeGroupID cidr t)) (\<lambda>r. case r of
           None \<Rightarrow> ret ()
         | Some (g, m) \<Rightarrow> throw (ErrMsg (''duplicate CIDR '' @ mem_cidr m @ '' already belongs to IP group '' @ grp_name g @ '' ('' @ grp_id g @ '')'')))) members"

definition rejectExactDuplicateIPGroupMembers :: "sql_lib \<Rightarrow> uuid \<Rightarrow> uuid \<Rightarrow> IPGroupMemberRecord list \<Rightarrow> unit op" where
  "rejectExactDuplicateIPGroupMembers = rejectExactDuplicateIPGroupMembersWith"

section \<open>Groups\<close>

text \<open>
  \<^verbatim>\<open>insertIPGroupSQL\<close> under the constraints of the table: the length of the name, the kinds, the
  primary key, one group of a name in a tenant, an existing tenant and creator.
\<close>

definition insert_group_sql ::
    "sql_lib \<Rightarrow> uuid \<Rightarrow> string \<Rightarrow> string \<Rightarrow> string \<Rightarrow> uuid option \<Rightarrow> uuid \<Rightarrow> time \<Rightarrow> tables \<Rightarrow> (tables \<times> ip_group_row) option" where
  "insert_group_sql lib tenantID name description kind createdBy i now t =
     (if sql_char_length lib name > 128 \<or> kind \<notin> {IPGroupKindCustom, IPGroupKindInline, IPGroupKindSystem} \<or>
         (\<exists>r \<in> set (ip_groups t). grp_id r = i \<or> grp_tenant_id r = tenantID \<and> grp_name r = name) \<or>
         (\<forall>r \<in> set (tenants t). tenant_id r \<noteq> tenantID) \<or>
         (case createdBy of None \<Rightarrow> False | Some u \<Rightarrow> \<forall>r \<in> set (users t). user_id r \<noteq> u) then None
      else let row = \<lparr>grp_id = i, grp_tenant_id = tenantID, grp_name = name, grp_description = Some description,
             grp_kind = kind, grp_created_by = createdBy, grp_created_at = now, grp_updated_at = now\<rparr>
           in Some (t\<lparr>ip_groups := ip_groups t @ [row]\<rparr>, row))"

text \<open>\<^verbatim>\<open>CreateIPGroup\<close> up to \<^verbatim>\<open>s.db.Begin()\<close>, and the transaction that follows.\<close>

definition checkNewIPGroup :: "sql_lib \<Rightarrow> IPGroupRecord \<Rightarrow> IPGroupRecord op" where
  "checkNewIPGroup lib grp =
     bnd (of_result (normalizeIPGroupForWrite grp)) (\<lambda>normalized.
     bnd (rejectExactDuplicateIPGroupMembers lib (ig_TenantID normalized) uuid_Nil (ig_Members normalized)) (\<lambda>_. ret normalized))"

definition storeNewIPGroup :: "sql_lib \<Rightarrow> IPGroupRecord \<Rightarrow> IPGroupRecord op" where
  "storeNewIPGroup lib normalized = transaction (
     bnd (insert_op (insert_group_sql lib (ig_TenantID normalized) (ig_Name normalized) (ig_Description normalized)
       (ig_Kind normalized) (ig_CreatedBy normalized))) (\<lambda>row. let created = scanIPGroup row in
     bnd (insertIPGroupMembers lib (ig_TenantID created) (ig_ID created) (ig_Members normalized) False) (\<lambda>_.
     ret (TxCommit (created\<lparr>ig_Members := withIPGroupID (ig_Members normalized) (ig_ID created)\<rparr>)))))"

definition CreateIPGroup :: "sql_lib \<Rightarrow> IPGroupRecord option \<Rightarrow> IPGroupRecord op" where
  "CreateIPGroup lib grp = (case grp of
       None \<Rightarrow> throw (ErrMsg ''ip group cannot be nil'')
     | Some grp \<Rightarrow> bnd (checkNewIPGroup lib grp) (storeNewIPGroup lib))"

definition with_members :: "sql_lib \<Rightarrow> uuid \<Rightarrow> ip_group_row \<Rightarrow> IPGroupRecord op" where
  "with_members lib tenantID r = (let grp = scanIPGroup r in
     bnd (listIPGroupMembers lib tenantID (ig_ID grp)) (\<lambda>members. ret (grp\<lparr>ig_Members := members\<rparr>)))"

definition ListIPGroups :: "sql_lib \<Rightarrow> uuid \<Rightarrow> IPGroupRecord list op" where
  "ListIPGroups lib tenantID =
     bnd (select_op (\<lambda>_ t. sort_key (\<lambda>r. sql_collate lib (grp_kind r)) (sort_key (\<lambda>r. sql_collate lib (grp_name r))
       (filter (\<lambda>r. grp_tenant_id r = tenantID) (ip_groups t)))))
       (\<lambda>rows. bnd (for_collect (with_members lib tenantID) rows) check_op)"

definition getIPGroupWith :: "sql_lib \<Rightarrow> uuid \<Rightarrow> uuid \<Rightarrow> IPGroupRecord op" where
  "getIPGroupWith lib tenantID groupID =
     bnd (select_op (\<lambda>_ t. find (\<lambda>r. grp_tenant_id r = tenantID \<and> grp_id r = groupID) (ip_groups t))) (\<lambda>r. case r of
       None \<Rightarrow> throw ErrNoRows
     | Some r \<Rightarrow> let grp = scanIPGroup r in
         bnd (listIPGroupMembersWith lib tenantID (ig_ID grp)) (\<lambda>members. ret (grp\<lparr>ig_Members := members\<rparr>)))"

definition GetIPGroup :: "sql_lib \<Rightarrow> uuid \<Rightarrow> uuid \<Rightarrow> IPGroupRecord op" where
  "GetIPGroup = getIPGroupWith"

definition update_group_sql ::
    "sql_lib \<Rightarrow> uuid \<Rightarrow> uuid \<Rightarrow> string \<Rightarrow> string \<Rightarrow> string \<Rightarrow> time \<Rightarrow> tables \<Rightarrow> (tables \<times> ip_group_row option) option" where
  "update_group_sql lib tenantID groupID name description kind now t =
     (let target = (\<lambda>r. grp_tenant_id r = tenantID \<and> grp_id r = groupID);
          change = (\<lambda>r. r\<lparr>grp_name := name, grp_description := Some description, grp_kind := kind, grp_updated_at := now\<rparr>) in
      case find target (ip_groups t) of
        None \<Rightarrow> Some (t, None)
      | Some r \<Rightarrow>
          if sql_char_length lib name > 128 \<or> kind \<notin> {IPGroupKindCustom, IPGroupKindInline, IPGroupKindSystem} \<or>
             (\<exists>r' \<in> set (ip_groups t). grp_id r' \<noteq> groupID \<and> grp_tenant_id r' = tenantID \<and> grp_name r' = name) then None
          else Some (t\<lparr>ip_groups := update_where target change (ip_groups t)\<rparr>, Some (change r)))"

definition delete_members_sql :: "uuid \<Rightarrow> uuid \<Rightarrow> time \<Rightarrow> tables \<Rightarrow> tables \<times> unit" where
  "delete_members_sql tenantID groupID now t =
     (t\<lparr>ip_group_members := filter (\<lambda>r. \<not> (mem_tenant_id r = tenantID \<and> mem_group_id r = groupID)) (ip_group_members t)\<rparr>, ())"

definition updateIPGroupWith :: "sql_lib \<Rightarrow> uuid \<Rightarrow> uuid \<Rightarrow> IPGroupRecord option \<Rightarrow> IPGroupRecord op" where
  "updateIPGroupWith lib tenantID groupID grp = (case grp of
       None \<Rightarrow> throw (ErrMsg ''ip group cannot be nil'')
     | Some grp \<Rightarrow>
         bnd (of_result (normalizeIPGroupForWrite (grp\<lparr>ig_TenantID := tenantID, ig_ID := groupID\<rparr>))) (\<lambda>normalized.
         bnd (rejectExactDuplicateIPGroupMembersWith lib tenantID groupID (ig_Members normalized)) (\<lambda>_.
         bnd (write_op (update_group_sql lib tenantID groupID (ig_Name normalized) (ig_Description normalized) (ig_Kind normalized)))
           (\<lambda>r. case r of
             None \<Rightarrow> throw ErrNoRows
           | Some row \<Rightarrow>
               bnd (modify_op (delete_members_sql tenantID groupID)) (\<lambda>_.
               bnd (insertIPGroupMembers lib tenantID groupID (ig_Members normalized) False) (\<lambda>_.
               ret ((scanIPGroup row)\<lparr>ig_Members := withIPGroupID (ig_Members normalized) groupID\<rparr>)))))))"

definition UpdateIPGroupByID :: "sql_lib \<Rightarrow> uuid \<Rightarrow> uuid \<Rightarrow> IPGroupRecord option \<Rightarrow> IPGroupRecord op" where
  "UpdateIPGroupByID lib tenantID groupID grp =
     transaction (bnd (updateIPGroupWith lib tenantID groupID grp) (\<lambda>updated. ret (TxCommit updated)))"

definition UpdateIPGroup :: "sql_lib \<Rightarrow> IPGroupRecord option \<Rightarrow> IPGroupRecord op" where
  "UpdateIPGroup lib grp = (case grp of
       None \<Rightarrow> throw (ErrMsg ''ip group cannot be nil'')
     | Some g \<Rightarrow> UpdateIPGroupByID lib (ig_TenantID g) (ig_ID g) (Some g))"

text \<open>\<^verbatim>\<open>referencedIPGroupSQL\<close> looks at the rules of the tenant; the foreign keys look at every rule.\<close>

definition referenced_group :: "uuid \<Rightarrow> uuid \<Rightarrow> tables \<Rightarrow> bool" where
  "referenced_group tenantID groupID t \<longleftrightarrow>
     (\<exists>r \<in> set (acl_rules t). ar_tenant_id r = tenantID \<and> (ar_src_group_id r = Some groupID \<or> ar_dst_group_id r = Some groupID)) \<or>
     (\<exists>r \<in> set (qos_rules t). qr_tenant_id r = tenantID \<and> qr_group_id r = Some groupID)"

definition delete_group_sql :: "uuid \<Rightarrow> uuid \<Rightarrow> time \<Rightarrow> tables \<Rightarrow> (tables \<times> nat) option" where
  "delete_group_sql tenantID groupID now t =
     (let gone = filter (\<lambda>r. grp_tenant_id r = tenantID \<and> grp_id r = groupID) (ip_groups t) in
      if gone \<noteq> [] \<and> ((\<exists>r \<in> set (acl_rules t). ar_src_group_id r = Some groupID \<or> ar_dst_group_id r = Some groupID) \<or>
           (\<exists>r \<in> set (qos_rules t). qr_group_id r = Some groupID)) then None
      else Some (t\<lparr>ip_groups := filter (\<lambda>r. \<not> (grp_tenant_id r = tenantID \<and> grp_id r = groupID)) (ip_groups t),
        ip_group_members := (if gone = [] then ip_group_members t
          else filter (\<lambda>m. mem_group_id m \<noteq> groupID) (ip_group_members t))\<rparr>, length gone))"

definition DeleteIPGroup :: "uuid \<Rightarrow> uuid \<Rightarrow> unit op" where
  "DeleteIPGroup tenantID groupID = transaction (
     bnd (select_op (\<lambda>_ t. referenced_group tenantID groupID t)) (\<lambda>referenced.
     if referenced then throw (ErrMsg ''ip group is referenced by policy rules'')
     else bnd (write_op (delete_group_sql tenantID groupID)) (\<lambda>n.
       bnd (check_op n) (\<lambda>rowsAffected.
       if rowsAffected = 0 then throw ErrNoRows else ret (TxCommit ())))))"

section \<open>Inline groups\<close>

text \<open>\<^verbatim>\<open>upsertInlineIPGroupSQL\<close>: the group of that name, made if there is none.\<close>

definition upsert_inline_sql ::
    "sql_lib \<Rightarrow> uuid \<Rightarrow> string \<Rightarrow> string \<Rightarrow> string \<Rightarrow> uuid \<Rightarrow> time \<Rightarrow> tables \<Rightarrow> (tables \<times> ip_group_row) option" where
  "upsert_inline_sql lib tenantID name description kind i now t =
     (let target = (\<lambda>r. grp_tenant_id r = tenantID \<and> grp_name r = name) in
      case find target (ip_groups t) of
        Some r \<Rightarrow> Some (t\<lparr>ip_groups := update_where target (\<lambda>r. r\<lparr>grp_updated_at := now\<rparr>) (ip_groups t)\<rparr>, r\<lparr>grp_updated_at := now\<rparr>)
      | None \<Rightarrow> insert_group_sql lib tenantID name description kind None i now t)"

definition inline_member :: "string \<Rightarrow> IPGroupMemberRecord" where
  "inline_member cidr = \<lparr>gm_ID = uuid_Nil, gm_GroupID = uuid_Nil, gm_CIDR = cidr, gm_Note = ''inline''\<rparr>"

definition ensureInlineIPGroupWith :: "sql_lib \<Rightarrow> uuid \<Rightarrow> string list \<Rightarrow> IPGroupRecord op" where
  "ensureInlineIPGroupWith lib tenantID cidrs =
     bnd (of_result (normalizeIPGroupMembers (map inline_member cidrs))) (\<lambda>members.
     if members = [] then throw (ErrMsg ''inline ip group requires at least one CIDR'')
     else bnd (insert_op (upsert_inline_sql lib tenantID (inlineIPGroupName (map gm_CIDR members))
         ''inline policy group'' IPGroupKindInline)) (\<lambda>row. let grp = scanIPGroup row in
       bnd (rejectExactDuplicateIPGroupMembersWith lib tenantID (ig_ID grp) members) (\<lambda>_.
       bnd (insertIPGroupMembers lib tenantID (ig_ID grp) members True) (\<lambda>_.
       ret (grp\<lparr>ig_Members := withIPGroupID members (ig_ID grp)\<rparr>)))))"

definition EnsureInlineIPGroup :: "sql_lib \<Rightarrow> uuid \<Rightarrow> string list \<Rightarrow> IPGroupRecord op" where
  "EnsureInlineIPGroup lib tenantID cidrs =
     transaction (bnd (ensureInlineIPGroupWith lib tenantID cidrs) (\<lambda>grp. ret (TxCommit grp)))"

definition resolvePolicyGroupRefWith :: "sql_lib \<Rightarrow> uuid \<Rightarrow> uuid option \<Rightarrow> string \<Rightarrow> uuid option op" where
  "resolvePolicyGroupRefWith lib tenantID explicit directCIDR = (case explicit of
       Some groupID \<Rightarrow>
         bnd (select_op (\<lambda>_ t. find (\<lambda>r. grp_tenant_id r = tenantID \<and> grp_id r = groupID) (ip_groups t))) (\<lambda>r. case r of
           None \<Rightarrow> throw ErrNoRows | Some r \<Rightarrow> ret (Some (grp_id r)))
     | None \<Rightarrow>
         if policyCIDRIsAny directCIDR then ret None
         else bnd (ensureInlineIPGroupWith lib tenantID [directCIDR]) (\<lambda>grp. ret (Some (ig_ID grp))))"

definition ResolvePolicyGroupRef :: "sql_lib \<Rightarrow> uuid \<Rightarrow> uuid option \<Rightarrow> string \<Rightarrow> uuid option op" where
  "ResolvePolicyGroupRef = resolvePolicyGroupRefWith"

section \<open>Queries over groups and rules\<close>

definition groups_of_rules :: "uuid \<Rightarrow> uuid \<Rightarrow> tables \<Rightarrow> uuid list" where
  "groups_of_rules tenantID nodeID t =
     List.map_filter ar_src_group_id (filter (\<lambda>r. ar_tenant_id r = tenantID \<and> ar_node_id r = nodeID \<and> ar_enabled r) (acl_rules t)) @
     List.map_filter ar_dst_group_id (filter (\<lambda>r. ar_tenant_id r = tenantID \<and> ar_node_id r = nodeID \<and> ar_enabled r) (acl_rules t)) @
     List.map_filter qr_group_id (filter (\<lambda>r. qr_tenant_id r = tenantID \<and> qr_node_id r = nodeID \<and> qr_enabled r) (qos_rules t))"

definition ListIPGroupsForNodePolicySnapshot :: "sql_lib \<Rightarrow> uuid \<Rightarrow> uuid \<Rightarrow> IPGroupRecord list op" where
  "ListIPGroupsForNodePolicySnapshot lib tenantID nodeID =
     bnd (select_op (\<lambda>_ t. sort_key (\<lambda>r. sql_collate lib (grp_kind r)) (sort_key (\<lambda>r. sql_collate lib (grp_name r)) (sort_key grp_id
       (remdups (filter (\<lambda>r. grp_tenant_id r = tenantID \<and> grp_id r \<in> set (groups_of_rules tenantID nodeID t)) (ip_groups t)))))))
       (\<lambda>rows. bnd (for_collect (with_members lib tenantID) rows) check_op)"

text \<open>\<^verbatim>\<open>overlappingIPGroupsSQL\<close>, narrowest range first.\<close>

definition overlapping_groups :: "sql_lib \<Rightarrow> uuid \<Rightarrow> uuid \<Rightarrow> string \<Rightarrow> tables \<Rightarrow> (ip_group_row \<times> ip_member_row) list" where
  "overlapping_groups lib tenantID excludeGroupID cidr t =
     sort_key (\<lambda>(g, m). - int (sql_masklen lib (mem_cidr m))) (sort_key (\<lambda>(g, m). sql_collate lib (grp_name g))
       (filter (\<lambda>(g, m). mem_tenant_id m = tenantID \<and> grp_id g \<noteq> excludeGroupID \<and> sql_overlaps lib (mem_cidr m) cidr)
         (concat (map (\<lambda>m. map (\<lambda>g. (g, m)) (filter (\<lambda>g. grp_id g = mem_group_id m) (ip_groups t))) (ip_group_members t)))))"

definition overlap_warning :: "IPGroupMemberRecord \<Rightarrow> ip_group_row \<times> ip_member_row \<Rightarrow> IPGroupWarning" where
  "overlap_warning member gm = \<lparr>gw_Type = ''overlap'', gw_CIDR = gm_CIDR member, gw_OverlapsGroupID = grp_id (fst gm),
     gw_OverlapsGroupName = grp_name (fst gm), gw_OverlapsCIDR = mem_cidr (snd gm), gw_Resolution = ''longest_prefix_wins''\<rparr>"

definition FindIPGroupOverlapWarnings :: "sql_lib \<Rightarrow> uuid \<Rightarrow> uuid \<Rightarrow> IPGroupMemberRecord list \<Rightarrow> IPGroupWarning list op" where
  "FindIPGroupOverlapWarnings lib tenantID excludeGroupID members =
     bnd (of_result (normalizeIPGroupMembers members)) (\<lambda>members.
     bnd (for_collect (\<lambda>member. case sql_cidr lib (gm_CIDR member) of
         None \<Rightarrow> throw DBError
       | Some cidr \<Rightarrow> bnd (select_op (\<lambda>_ t. overlapping_groups lib tenantID excludeGroupID cidr t))
           (\<lambda>rows. check_op (map (overlap_warning member) rows))) members) (\<lambda>ws. ret (concat ws)))"

definition listNodesReferencingIPGroupWith :: "sql_lib \<Rightarrow> uuid \<Rightarrow> uuid \<Rightarrow> Node list op" where
  "listNodesReferencingIPGroupWith lib tenantID groupID = scanNodeListRows (\<lambda>t.
     sort_key (\<lambda>r. sql_collate lib (node_hostname r)) (sort_key (\<lambda>r. sql_collate lib (node_public_key r))
       (filter (\<lambda>n. node_tenant_id n = tenantID \<and> live_row n \<and>
          ((\<exists>r \<in> set (acl_rules t). ar_tenant_id r = tenantID \<and> ar_node_id r = node_id n \<and>
              (ar_src_group_id r = Some groupID \<or> ar_dst_group_id r = Some groupID)) \<or>
           (\<exists>r \<in> set (qos_rules t). qr_tenant_id r = tenantID \<and> qr_node_id r = node_id n \<and> qr_group_id r = Some groupID)))
        (nodes t))))"

definition ListNodesReferencingIPGroup :: "sql_lib \<Rightarrow> uuid \<Rightarrow> uuid \<Rightarrow> Node list op" where
  "ListNodesReferencingIPGroup = listNodesReferencingIPGroupWith"

section \<open>The rules that refer to a group\<close>

record IPGroupReferenceDelivery =
  rd_ID :: uuid
  rd_CommandID :: string
  rd_Status :: string
  rd_LastError :: string
  rd_CreatedAt :: time

record IPGroupReferenceRecord =
  rr_Domain :: string
  rr_RuleID :: uuid
  rr_RuleName :: string
  rr_NodeID :: uuid
  rr_NodeName :: string
  rr_Direction :: "string option"
  rr_Enabled :: bool
  rr_LatestDelivery :: "IPGroupReferenceDelivery option"

record IPGroupReferencesPage =
  rp_Items :: "IPGroupReferenceRecord list"
  rp_Total :: int
  rp_Limit :: int
  rp_Offset :: int
  rp_HasMore :: bool

definition reference_delivery :: "uuid \<Rightarrow> tables \<Rightarrow> uuid \<Rightarrow> string \<Rightarrow> uuid \<Rightarrow> IPGroupReferenceDelivery option" where
  "reference_delivery tenantID t nodeID domain ruleID =
     map_option (\<lambda>d. \<lparr>rd_ID = pd_id d, rd_CommandID = pd_command_id d, rd_Status = pd_command_status d,
         rd_LastError = coalesce (pd_last_error d) '''', rd_CreatedAt = pd_created_at d\<rparr>)
       (find (\<lambda>d. pd_tenant_id d = tenantID \<and> pd_node_id d = nodeID \<and> pd_policy_domain d = domain \<and> pd_policy_ref d = ruleID)
         (sort_key (\<lambda>d. - pd_created_at d) (policy_deliveries t)))"

definition acl_references :: "uuid \<Rightarrow> uuid \<Rightarrow> tables \<Rightarrow> IPGroupReferenceRecord list" where
  "acl_references tenantID groupID t = concat (map (\<lambda>r. map (\<lambda>n.
       \<lparr>rr_Domain = ''acl'', rr_RuleID = ar_id r, rr_RuleName = coalesce (ar_name r) '''', rr_NodeID = ar_node_id r,
         rr_NodeName = node_hostname n, rr_Direction = ar_direction r, rr_Enabled = ar_enabled r,
         rr_LatestDelivery = reference_delivery tenantID t (ar_node_id r) ''acl'' (ar_id r)\<rparr>)
       (filter (\<lambda>n. node_id n = ar_node_id r \<and> node_tenant_id n = ar_tenant_id r) (nodes t)))
     (filter (\<lambda>r. ar_tenant_id r = tenantID \<and> (ar_src_group_id r = Some groupID \<or> ar_dst_group_id r = Some groupID)) (acl_rules t)))"

definition qos_references :: "uuid \<Rightarrow> uuid \<Rightarrow> tables \<Rightarrow> IPGroupReferenceRecord list" where
  "qos_references tenantID groupID t = concat (map (\<lambda>r. map (\<lambda>n.
       \<lparr>rr_Domain = ''qos'', rr_RuleID = qr_id r,
         rr_RuleName = coalesce (Option.bind (qr_description r) nullif_empty) (qr_id r), rr_NodeID = qr_node_id r,
         rr_NodeName = node_hostname n, rr_Direction = qr_direction r, rr_Enabled = qr_enabled r,
         rr_LatestDelivery = reference_delivery tenantID t (qr_node_id r) ''qos'' (qr_id r)\<rparr>)
       (filter (\<lambda>n. node_id n = qr_node_id r \<and> node_tenant_id n = qr_tenant_id r) (nodes t)))
     (filter (\<lambda>r. qr_tenant_id r = tenantID \<and> qr_group_id r = Some groupID) (qos_rules t)))"

text \<open>\<^verbatim>\<open>listIPGroupReferencesSQL\<close> before \<^verbatim>\<open>LIMIT\<close> and \<^verbatim>\<open>OFFSET\<close>.\<close>

definition group_references :: "sql_lib \<Rightarrow> uuid \<Rightarrow> uuid \<Rightarrow> tables \<Rightarrow> IPGroupReferenceRecord list" where
  "group_references lib tenantID groupID t =
     sort_key (\<lambda>r. sql_collate lib (rr_Domain r)) (sort_key (\<lambda>r. sql_collate lib (rr_RuleName r)) (sort_key rr_RuleID
       (acl_references tenantID groupID t @ qos_references tenantID groupID t)))"

text \<open>A row without a direction cannot be scanned into a string.\<close>

definition ListIPGroupReferences :: "sql_lib \<Rightarrow> uuid \<Rightarrow> uuid \<Rightarrow> int \<Rightarrow> int \<Rightarrow> IPGroupReferencesPage op" where
  "ListIPGroupReferences lib tenantID groupID limit offset =
     (let limit = (if limit \<le> 0 then 20 else limit); limit = (if limit > 100 then 100 else limit);
          offset = (if offset < 0 then 0 else offset) in
      bnd (select_op (\<lambda>_ t. let refs = group_references lib tenantID groupID t in
          (take (nat limit) (drop (nat offset) refs), int (length refs)))) (\<lambda>(items, total).
      if list_ex (\<lambda>r. rr_Direction r = None) items then throw DBError
      else bnd (check_op ()) (\<lambda>_.
        let pageTotal = (if items = [] then 0 else total) in
        ret \<lparr>rp_Items = items, rp_Total = pageTotal, rp_Limit = limit, rp_Offset = offset,
          rp_HasMore = (offset + int (length items) < pageTotal)\<rparr>)))"

section \<open>A range belongs to one group of a tenant\<close>

text \<open>
  The invariant: the groups have distinct keys, none of them the nil identifier, a member belongs to a group of its own
  tenant, and a tenant has a range in one group only.
\<close>

definition groups_ok :: "tables \<Rightarrow> bool" where
  "groups_ok t \<longleftrightarrow> distinct (map grp_id (ip_groups t)) \<and> uuid_Nil \<notin> grp_id ` set (ip_groups t) \<and>
     (\<forall>m \<in> set (ip_group_members t). \<exists>g \<in> set (ip_groups t). grp_id g = mem_group_id m \<and> grp_tenant_id g = mem_tenant_id m) \<and>
     (\<forall>m \<in> set (ip_group_members t). \<forall>m' \<in> set (ip_group_members t).
        mem_tenant_id m = mem_tenant_id m' \<and> mem_cidr m = mem_cidr m' \<longrightarrow> mem_group_id m = mem_group_id m')"

definition taken_elsewhere :: "uuid \<Rightarrow> uuid \<Rightarrow> string \<Rightarrow> tables \<Rightarrow> bool" where
  "taken_elsewhere tenantID groupID cidr t \<longleftrightarrow>
     (\<exists>m \<in> set (ip_group_members t). mem_tenant_id m = tenantID \<and> mem_group_id m \<noteq> groupID \<and> mem_cidr m = cidr)"

definition insertable :: "sql_lib \<Rightarrow> uuid \<Rightarrow> uuid \<Rightarrow> IPGroupMemberRecord list \<Rightarrow> tables \<Rightarrow> bool" where
  "insertable lib tenantID groupID members t \<longleftrightarrow>
     (\<exists>g \<in> set (ip_groups t). grp_id g = groupID \<and> grp_tenant_id g = tenantID) \<and>
     (\<forall>m \<in> set members. \<forall>cidr. sql_cidr lib (gm_CIDR m) = Some cidr \<longrightarrow> \<not> taken_elsewhere tenantID groupID cidr t)"

interpretation group_inv: table_invariant groups_ok .

lemma groups_okI:
  assumes "distinct (map grp_id (ip_groups t)) \<and> uuid_Nil \<notin> grp_id ` set (ip_groups t)"
    and "\<And>m. m \<in> set (ip_group_members t) \<Longrightarrow>
      \<exists>g \<in> set (ip_groups t). grp_id g = mem_group_id m \<and> grp_tenant_id g = mem_tenant_id m"
    and "\<And>m m'. m \<in> set (ip_group_members t) \<Longrightarrow> m' \<in> set (ip_group_members t) \<Longrightarrow>
      mem_tenant_id m = mem_tenant_id m' \<Longrightarrow> mem_cidr m = mem_cidr m' \<Longrightarrow> mem_group_id m = mem_group_id m'"
  shows "groups_ok t"
  unfolding groups_ok_def using assms by blast

lemma duplicate_member_None:
  assumes "groups_ok t" and "duplicate_member tenantID groupID cidr t = None"
  shows "\<not> taken_elsewhere tenantID groupID cidr t"
proof
  assume "taken_elsewhere tenantID groupID cidr t"
  then obtain m where m: "m \<in> set (ip_group_members t)" "mem_tenant_id m = tenantID" "mem_group_id m \<noteq> groupID" "mem_cidr m = cidr"
    by (auto simp: taken_elsewhere_def)
  with assms(1) obtain g where g: "g \<in> set (ip_groups t)" "grp_id g = mem_group_id m"
    unfolding groups_ok_def by blast
  from m(1) g have "(g, m) \<in> set (concat (map (\<lambda>m. map (\<lambda>g. (g, m)) (filter (\<lambda>g. grp_id g = mem_group_id m) (ip_groups t)))
      (ip_group_members t)))"
    by auto
  with assms(2) have "\<not> (mem_tenant_id m = tenantID \<and> grp_id g \<noteq> groupID \<and> mem_cidr m = cidr)"
    unfolding duplicate_member_def find_None_iff by blast
  with m(2-4) g(2) show False by simp
qed

lemma reject_one_Inr:
  assumes "(case sql_cidr lib (gm_CIDR member) of
         None \<Rightarrow> throw DBError
       | Some cidr \<Rightarrow> bnd (select_op (\<lambda>_ t. duplicate_member tenantID groupID cidr t)) (\<lambda>r. case r of
           None \<Rightarrow> ret ()
         | Some (g, m) \<Rightarrow> throw (msg g m))) s = (Inr x, t)" and "groups_ok (tab s)"
  shows "tab t = tab s \<and> same_env s t \<and> (\<exists>cidr. sql_cidr lib (gm_CIDR member) = Some cidr \<and> \<not> taken_elsewhere tenantID groupID cidr (tab s))"
proof (cases "sql_cidr lib (gm_CIDR member)")
  case None
  with assms(1) show ?thesis by (simp add: run_Inr)
next
  case (Some cidr)
  with assms(1) obtain r u where sel: "select_op (\<lambda>_ t. duplicate_member tenantID groupID cidr t) s = (Inr r, u)"
      and rest: "(case r of None \<Rightarrow> ret () | Some (g, m) \<Rightarrow> throw (msg g m)) u = (Inr x, t)"
    by (auto simp: run_Inr)
  from rest have "r = None" "t = u" by (auto simp: run_Inr split: option.split_asm)
  with select_Inr [OF sel] duplicate_member_None [OF assms(2)] Some show ?thesis by simp
qed

lemma reject_duplicates_Inr:
  assumes "rejectExactDuplicateIPGroupMembersWith lib tenantID groupID members s = (Inr x, t)" and "groups_ok (tab s)"
  shows "tab t = tab s \<and> same_env s t \<and> (\<forall>m \<in> set members. \<exists>cidr. sql_cidr lib (gm_CIDR m) = Some cidr \<and>
    \<not> taken_elsewhere tenantID groupID cidr (tab s))"
  using assms unfolding rejectExactDuplicateIPGroupMembersWith_def
proof (induction members arbitrary: s)
  case (Cons a members)
  from Cons.prems(1) show ?case
    unfolding for_each.simps bnd_Inr
    by (elim exE conjE) (use reject_one_Inr [OF _ Cons.prems(2)] Cons.IH Cons.prems(2) same_env_trans [of s] in \<open>fastforce\<close>)
qed (simp add: run_Inr)

lemma insert_member_cases:
  assumes "insert_member_sql lib upsert tenantID groupID cidr note i now t = Some (t', x)"
  obtains (noted) f where "t' = t\<lparr>ip_group_members := map f (ip_group_members t)\<rparr>"
      "\<And>m. mem_tenant_id (f m) = mem_tenant_id m \<and> mem_group_id (f m) = mem_group_id m \<and> mem_cidr (f m) = mem_cidr m"
    | (added) c m where "sql_cidr lib cidr = Some c" "t' = t\<lparr>ip_group_members := ip_group_members t @ [m]\<rparr>"
      "mem_tenant_id m = tenantID" "mem_group_id m = groupID" "mem_cidr m = c"
proof (cases "sql_cidr lib cidr")
  case None
  with assms show ?thesis by (simp add: insert_member_sql_def)
next
  case (Some c)
  show ?thesis
  proof (cases "\<exists>r \<in> set (ip_group_members t). mem_group_id r = groupID \<and> mem_cidr r = c")
    case True
    with assms Some show ?thesis
      by (intro noted [of "\<lambda>r. if mem_group_id r = groupID \<and> mem_cidr r = c then r\<lparr>mem_note := Some note\<rparr> else r"])
         (auto simp: insert_member_sql_def update_where_def split: if_split_asm)
  next
    case False
    with assms Some show ?thesis
      by (intro added [of c "\<lparr>mem_id = i, mem_tenant_id = tenantID, mem_group_id = groupID,
           mem_cidr = c, mem_note = Some note, mem_created_at = now\<rparr>"])
         (simp_all add: insert_member_sql_def split: if_split_asm)
  qed
qed

lemma groups_ok_noted:
  assumes "\<And>m. mem_tenant_id (f m) = mem_tenant_id m \<and> mem_group_id (f m) = mem_group_id m \<and> mem_cidr (f m) = mem_cidr m"
  shows "groups_ok (t\<lparr>ip_group_members := map f (ip_group_members t)\<rparr>) = groups_ok t"
    "taken_elsewhere tenantID groupID c (t\<lparr>ip_group_members := map f (ip_group_members t)\<rparr>) = taken_elsewhere tenantID groupID c t"
  by (simp_all add: groups_ok_def taken_elsewhere_def assms)

lemma groups_ok_added:
  assumes "groups_ok t" and "\<exists>g \<in> set (ip_groups t). grp_id g = mem_group_id m \<and> grp_tenant_id g = mem_tenant_id m"
    and "\<not> taken_elsewhere (mem_tenant_id m) (mem_group_id m) (mem_cidr m) t"
  shows "groups_ok (t\<lparr>ip_group_members := ip_group_members t @ [m]\<rparr>)"
proof -
  have one: "mem_group_id m' = mem_group_id m" if "m' \<in> set (ip_group_members t)" "mem_tenant_id m' = mem_tenant_id m"
      "mem_cidr m' = mem_cidr m" for m'
    using assms(3) that unfolding taken_elsewhere_def by metis
  have uniq: "mem_group_id a = mem_group_id b"
    if "a \<in> set (ip_group_members t @ [m])" "b \<in> set (ip_group_members t @ [m])"
      "mem_tenant_id a = mem_tenant_id b" "mem_cidr a = mem_cidr b" for a b
  proof (cases "a = m \<or> b = m")
    case True
    with that one [of a] one [of b] show ?thesis by auto
  next
    case False
    with that have "a \<in> set (ip_group_members t)" "b \<in> set (ip_group_members t)" by auto
    with that(3,4) assms(1) show ?thesis unfolding groups_ok_def by blast
  qed
  have own: "\<exists>g \<in> set (ip_groups t). grp_id g = mem_group_id a \<and> grp_tenant_id g = mem_tenant_id a"
    if "a \<in> set (ip_group_members t @ [m])" for a
    using that assms(1,2) unfolding groups_ok_def by auto
  let ?t = "t\<lparr>ip_group_members := ip_group_members t @ [m]\<rparr>"
  have t: "ip_groups ?t = ip_groups t" "ip_group_members ?t = ip_group_members t @ [m]" by simp_all
  show ?thesis
    by (rule groups_okI; unfold t) (use assms(1) in \<open>simp add: groups_ok_def\<close>, erule own, erule (3) uniq)
qed

lemma insert_member_ok:
  assumes "insert_member_sql lib upsert tenantID groupID cidr note i now t = Some (t', x)"
    and "groups_ok t" and "\<exists>g \<in> set (ip_groups t). grp_id g = groupID \<and> grp_tenant_id g = tenantID"
    and "\<And>c. sql_cidr lib cidr = Some c \<Longrightarrow> \<not> taken_elsewhere tenantID groupID c t"
  shows "groups_ok t' \<and> ip_groups t' = ip_groups t \<and>
    (\<forall>c. taken_elsewhere tenantID groupID c t' = taken_elsewhere tenantID groupID c t)"
  using assms(1)
proof (cases rule: insert_member_cases)
  case (noted f)
  with assms(2) show ?thesis by (simp add: groups_ok_noted)
next
  case (added c m)
  with groups_ok_added [of t m] assms(2-4) show ?thesis by (simp add: taken_elsewhere_def)
qed

lemma insert_members_ok:
  assumes "insertIPGroupMembers lib tenantID groupID members upsert s = (r, t)"
    and "groups_ok (tab s)" and "insertable lib tenantID groupID members (tab s)"
  shows "groups_ok (tab t)"
  using assms unfolding insertIPGroupMembers_def
proof (induction members arbitrary: s)
  case (Cons a members)
  let ?insert = "\<lambda>member. insert_op (insert_member_sql lib upsert tenantID groupID (gm_CIDR member) (TrimSpace (gm_Note member)))"
  obtain q u where i: "?insert a s = (q, u)" by fastforce
  then show ?case
  proof (cases rule: insert_cases)
    case unchanged
    with i Cons.prems(1,2) show ?thesis by (auto simp: bnd_def)
  next
    case (inserted k x)
    note step = insert_member_ok [OF inserted(1) Cons.prems(2)]
    have "groups_ok (tab u)" "insertable lib tenantID groupID members (tab u)"
      using Cons.prems(3) step unfolding insertable_def by simp_all
    moreover have "for_each ?insert members u = (r, t)" using Cons.prems(1) i inserted(2) by (simp add: bnd_def)
    ultimately show ?thesis using Cons.IH by simp
  qed
qed (simp add: ret_def)

lemma groups_okD:
  assumes "groups_ok t"
  shows "distinct (map grp_id (ip_groups t))" "uuid_Nil \<notin> grp_id ` set (ip_groups t)"
    "m \<in> set (ip_group_members t) \<Longrightarrow> \<exists>g \<in> set (ip_groups t). grp_id g = mem_group_id m \<and> grp_tenant_id g = mem_tenant_id m"
    "m \<in> set (ip_group_members t) \<Longrightarrow> m' \<in> set (ip_group_members t) \<Longrightarrow>
      mem_tenant_id m = mem_tenant_id m' \<Longrightarrow> mem_cidr m = mem_cidr m' \<Longrightarrow> mem_group_id m = mem_group_id m'"
  using assms unfolding groups_ok_def by blast+

lemma groups_ok_regroup:
  assumes "groups_ok t" and "ip_group_members t' = ip_group_members t"
    and "distinct (map grp_id (ip_groups t')) \<and> uuid_Nil \<notin> grp_id ` set (ip_groups t')"
    and "\<And>g. g \<in> set (ip_groups t) \<Longrightarrow> \<exists>g' \<in> set (ip_groups t'). grp_id g' = grp_id g \<and> grp_tenant_id g' = grp_tenant_id g"
  shows "groups_ok t'"
proof (rule groups_okI, unfold assms(2))
  show "\<exists>g \<in> set (ip_groups t'). grp_id g = mem_group_id m \<and> grp_tenant_id g = mem_tenant_id m"
    if "m \<in> set (ip_group_members t)" for m
    using groups_okD(3) [OF assms(1) that] assms(4) by metis
qed (fact assms(3), erule (3) groups_okD(4) [OF assms(1)])

lemma insert_group_ok:
  assumes "insert_group_sql lib tenantID name description kind createdBy i now t = Some (t', row)"
    and "groups_ok t" and "i \<noteq> uuid_Nil"
  shows "groups_ok t' \<and> ip_group_members t' = ip_group_members t \<and> row \<in> set (ip_groups t') \<and>
    grp_tenant_id row = tenantID \<and> grp_id row = i \<and> i \<notin> grp_id ` set (ip_groups t)"
proof -
  from assms(1) have t': "t' = t\<lparr>ip_groups := ip_groups t @ [row]\<rparr>" and row: "grp_tenant_id row = tenantID" "grp_id row = i"
      and new: "i \<notin> grp_id ` set (ip_groups t)"
    by (auto simp: insert_group_sql_def Let_def split: if_split_asm)
  have "groups_ok t'"
    by (rule groups_ok_regroup [OF assms(2)]) (use groups_okD(1,2) [OF assms(2)] assms(3) new row in \<open>auto simp: t'\<close>)
  with row new show ?thesis by (simp add: t')
qed

lemma groups_ok_touched:
  assumes "groups_ok t" and "\<And>r. grp_id (f r) = grp_id r \<and> grp_tenant_id (f r) = grp_tenant_id r"
  shows "groups_ok (t\<lparr>ip_groups := update_where P f (ip_groups t)\<rparr>)"
proof -
  have "map grp_id (update_where P f (ip_groups t)) = map grp_id (ip_groups t)"
    using assms(2) by (simp add: update_where_def)
  then have "grp_id ` set (update_where P f (ip_groups t)) = grp_id ` set (ip_groups t)"
    "distinct (map grp_id (update_where P f (ip_groups t))) = distinct (map grp_id (ip_groups t))"
    by (metis set_map, simp)
  moreover have "\<exists>g' \<in> set (update_where P f (ip_groups t)). grp_id g' = grp_id g \<and> grp_tenant_id g' = grp_tenant_id g"
    if "g \<in> set (ip_groups t)" for g
    using that assms(2) by (intro bexI [where x = "if P g then f g else g"]) (simp_all add: update_where_def)
  ultimately show ?thesis
    by (intro groups_ok_regroup [OF assms(1)]) (use groups_okD(1,2) [OF assms(1)] in simp_all)
qed

lemma upsert_inline_ok:
  assumes "upsert_inline_sql lib tenantID name description kind i now t = Some (t', row)"
    and "groups_ok t" and "i \<noteq> uuid_Nil"
  shows "groups_ok t' \<and> ip_group_members t' = ip_group_members t \<and> row \<in> set (ip_groups t') \<and> grp_tenant_id row = tenantID"
proof (cases "find (\<lambda>r. grp_tenant_id r = tenantID \<and> grp_name r = name) (ip_groups t)")
  case None
  with assms(1) have "insert_group_sql lib tenantID name description kind None i now t = Some (t', row)"
    by (simp add: upsert_inline_sql_def)
  from insert_group_ok [OF this assms(2,3)] show ?thesis by blast
next
  case (Some r)
  from find_SomeD [OF Some] have "r \<in> set (ip_groups t)" "grp_tenant_id r = tenantID" "grp_name r = name" by auto
  with assms(1) Some groups_ok_touched [OF assms(2)] show ?thesis
    by (auto simp: upsert_inline_sql_def Let_def update_where_def)
qed

text \<open>\<^verbatim>\<open>gen_random_uuid()\<close> draws no nil identifier.\<close>

definition draws :: "db \<Rightarrow> bool" where
  "draws s \<longleftrightarrow> (\<forall>n. uuid_of s n \<noteq> uuid_Nil)"

lemma draws_env: "same_env s t \<Longrightarrow> draws s \<Longrightarrow> draws t"
  by (simp add: same_env_def draws_def)

lemma of_result_Inr [run_Inr]: "of_result r s = (Inr x, t) \<longleftrightarrow> r = Inr x \<and> t = s"
  by (cases r) (auto simp: of_result_def run_Inr)

lemma transaction_error: "transaction body s = (Inl e, t) \<Longrightarrow> tab t = tab s"
  using transaction_atomic [of body] unfolding atomic_on_error_def by blast

lemma check_new_Inr:
  assumes "checkNewIPGroup lib grp s = (Inr n, t)" and "groups_ok (tab s)"
  shows "tab t = tab s \<and> same_env s t \<and> (\<forall>m \<in> set (ig_Members n). \<exists>cidr. sql_cidr lib (gm_CIDR m) = Some cidr \<and>
    \<not> taken_elsewhere (ig_TenantID n) uuid_Nil cidr (tab s))"
  using assms(1) reject_duplicates_Inr [OF _ assms(2)]
  unfolding checkNewIPGroup_def rejectExactDuplicateIPGroupMembers_def by (auto simp: run_Inr)

lemma store_new_ok:
  assumes "storeNewIPGroup lib n s = (r, t)" and "groups_ok (tab s)" and "draws s"
    and free: "\<forall>m \<in> set (ig_Members n). \<exists>cidr. sql_cidr lib (gm_CIDR m) = Some cidr \<and>
      \<not> taken_elsewhere (ig_TenantID n) uuid_Nil cidr (tab s)"
  shows "groups_ok (tab t)"
proof (cases r)
  case (Inl e)
  with assms(1) have "tab t = tab s"
    unfolding storeNewIPGroup_def by (auto intro: transaction_error)
  with assms(2) show ?thesis by simp
next
  case (Inr x)
  with assms(1) have run: "storeNewIPGroup lib n s = (Inr x, t)" by simp
  then show ?thesis
    unfolding storeNewIPGroup_def
  proof (cases rule: transaction_Inr)
    case (committed u v)
    from committed(1) obtain row w where
        i: "insert_op (insert_group_sql lib (ig_TenantID n) (ig_Name n) (ig_Description n) (ig_Kind n) (ig_CreatedBy n)) u = (Inr row, w)"
        and ms: "insertIPGroupMembers lib (grp_tenant_id row) (grp_id row) (ig_Members n) False w = (Inr (), v)"
      by (auto simp: run_Inr Let_def scanIPGroup_def)
    have ok: "groups_ok (tab u)" "draws u" using committed(2,3) assms(2,3) by (auto dest: draws_env)
    have new: "groups_ok (tab w)" "ip_group_members (tab w) = ip_group_members (tab s)" "row \<in> set (ip_groups (tab w))"
        "grp_tenant_id row = ig_TenantID n" "grp_id row \<notin> grp_id ` set (ip_groups (tab s))"
      using insert_group_ok [OF insert_Inr(1) [OF i] ok(1)] ok(2) committed(2) by (simp_all add: draws_def)
    have "\<not> taken_elsewhere (ig_TenantID n) (grp_id row) c (tab w)" if "m \<in> set (ig_Members n)" "sql_cidr lib (gm_CIDR m) = Some c" for m c
    proof
      assume "taken_elsewhere (ig_TenantID n) (grp_id row) c (tab w)"
      then obtain m' where m': "m' \<in> set (ip_group_members (tab s))" "mem_tenant_id m' = ig_TenantID n" "mem_cidr m' = c"
        by (auto simp: taken_elsewhere_def new(2))
      have "mem_group_id m' \<noteq> uuid_Nil" using groups_okD(2) [OF assms(2)] groups_okD(3) [OF assms(2) m'(1)] by force
      with m' have "taken_elsewhere (ig_TenantID n) uuid_Nil c (tab s)" by (auto simp: taken_elsewhere_def)
      with free that show False by fastforce
    qed
    with new have "insertable lib (grp_tenant_id row) (grp_id row) (ig_Members n) (tab w)"
      by (auto simp: insertable_def)
    from insert_members_ok [OF ms new(1) this] committed(4) show ?thesis by simp
  qed (use assms(2) in simp)
qed

lemma reject_reads: "maintains (keeps (\<lambda>t. t)) (rejectExactDuplicateIPGroupMembersWith lib tenantID groupID members)"
  unfolding rejectExactDuplicateIPGroupMembersWith_def by (intro maintains_rules)

lemma of_result_reads: "maintains (keeps (\<lambda>t. t)) (of_result r)"
  unfolding of_result_def by (intro maintains_rules)

lemma check_new_reads: "checkNewIPGroup lib grp s = (r, t) \<Longrightarrow> tab t = tab s"
  by (erule unchanged.frame_run [rotated])
     (unfold checkNewIPGroup_def rejectExactDuplicateIPGroupMembers_def, intro maintains_rules reject_reads of_result_reads)

lemma CreateIPGroup_ok:
  assumes "CreateIPGroup lib grp s = (r, t)" and "groups_ok (tab s)" and "draws s"
  shows "groups_ok (tab t)"
proof (cases grp)
  case None
  with assms(1,2) show ?thesis by (auto simp: CreateIPGroup_def throw_def)
next
  case (Some g)
  obtain c u where c: "checkNewIPGroup lib g s = (c, u)" by fastforce
  show ?thesis
  proof (cases c)
    case (Inl e)
    with assms(1) c Some have "t = u" by (simp add: CreateIPGroup_def bnd_def)
    with check_new_reads c assms(2) show ?thesis by metis
  next
    case (Inr n)
    with c have n: "checkNewIPGroup lib g s = (Inr n, u)" by simp
    with assms(1) Some have "storeNewIPGroup lib n u = (r, t)" by (simp add: CreateIPGroup_def bnd_def)
    from store_new_ok [OF this] check_new_Inr [OF n assms(2)] assms(2,3) show ?thesis
      by (auto dest: draws_env)
  qed
qed



lemma commit_ok:
  assumes "transaction (bnd m (\<lambda>x. ret (TxCommit x))) s = (r, t)" and "groups_ok (tab s)" and "draws s"
    and step: "\<And>u x v. m u = (Inr x, v) \<Longrightarrow> groups_ok (tab u) \<Longrightarrow> draws u \<Longrightarrow> groups_ok (tab v)"
  shows "groups_ok (tab t)"
proof (cases r)
  case (Inl e)
  with assms(1,2) show ?thesis by (auto dest: transaction_error)
next
  case (Inr x)
  with assms(1) have "transaction (bnd m (\<lambda>x. ret (TxCommit x))) s = (Inr x, t)" by simp
  then show ?thesis
  proof (cases rule: transaction_Inr)
    case (committed u v)
    then have "m u = (Inr x, v)" by (auto simp: run_Inr)
    from step [OF this] committed assms(2,3) show ?thesis by (auto dest: draws_env)
  qed (use assms(2) in simp)
qed

lemma groups_ok_fewer_members:
  assumes "groups_ok t"
  shows "groups_ok (t\<lparr>ip_group_members := filter P (ip_group_members t)\<rparr>)"
  by (rule groups_okI)
     (use groups_okD(1,2) [OF assms] groups_okD(3) [OF assms] in \<open>simp_all\<close>,
      rule groups_okD(4) [OF assms], simp_all)

lemma taken_elsewhere_fewer:
  "taken_elsewhere a b c (t\<lparr>ip_group_members := filter P (ip_group_members t)\<rparr>) \<Longrightarrow> taken_elsewhere a b c t"
  by (auto simp: taken_elsewhere_def)

lemma update_group_ok:
  assumes "update_group_sql lib tenantID groupID name description kind now t = Some (t', Some row)" and "groups_ok t"
  shows "groups_ok t'" "ip_group_members t' = ip_group_members t"
    "\<exists>g \<in> set (ip_groups t'). grp_id g = groupID \<and> grp_tenant_id g = tenantID"
proof -
  let ?P = "\<lambda>r. grp_tenant_id r = tenantID \<and> grp_id r = groupID"
  let ?f = "\<lambda>r. r\<lparr>grp_name := name, grp_description := Some description, grp_kind := kind, grp_updated_at := now\<rparr>"
  from assms(1) obtain r where r: "find ?P (ip_groups t) = Some r" and t': "t' = t\<lparr>ip_groups := update_where ?P ?f (ip_groups t)\<rparr>"
    by (auto simp: update_group_sql_def Let_def split: option.split_asm if_split_asm)
  show "groups_ok t'" unfolding t' by (rule groups_ok_touched [OF assms(2)]) simp
  show "ip_group_members t' = ip_group_members t" by (simp add: t')
  from find_SomeD [OF r] show "\<exists>g \<in> set (ip_groups t'). grp_id g = groupID \<and> grp_tenant_id g = tenantID"
    by (intro bexI [where x = "?f r"]) (simp_all add: t' update_where_def)
qed

lemma updateIPGroupWith_ok:
  assumes "updateIPGroupWith lib tenantID groupID grp s = (Inr x, t)" and "groups_ok (tab s)"
  shows "groups_ok (tab t)"
proof (cases grp)
  case None
  with assms(1) show ?thesis by (simp add: updateIPGroupWith_def run_Inr)
next
  case (Some g)
  with assms(1) obtain n :: IPGroupRecord and u1 r u2 where
      rej: "rejectExactDuplicateIPGroupMembersWith lib tenantID groupID (ig_Members n) s = (Inr (), u1)"
      and upd: "write_op (update_group_sql lib tenantID groupID (ig_Name n) (ig_Description n) (ig_Kind n)) u1 = (Inr r, u2)"
      and rest: "(case r of None \<Rightarrow> throw ErrNoRows | Some row \<Rightarrow>
               bnd (modify_op (delete_members_sql tenantID groupID)) (\<lambda>_.
               bnd (insertIPGroupMembers lib tenantID groupID (ig_Members n) False) (\<lambda>_.
               ret ((scanIPGroup row)\<lparr>ig_Members := withIPGroupID (ig_Members n) groupID\<rparr>)))) u2 = (Inr x, t)"
    by (auto simp: updateIPGroupWith_def run_Inr)
  from rest obtain row u3 where row: "r = Some row"
      and del: "modify_op (delete_members_sql tenantID groupID) u2 = (Inr (), u3)"
      and ins: "insertIPGroupMembers lib tenantID groupID (ig_Members n) False u3 = (Inr (), t)"
    by (cases r) (auto simp: run_Inr)
  note free = reject_duplicates_Inr [OF rej assms(2)]
  have "update_group_sql lib tenantID groupID (ig_Name n) (ig_Description n) (ig_Kind n) (db_now u1) (tab u1) = Some (tab u2, Some row)"
    using write_Inr(1) [OF upd] row by simp
  note u2 = update_group_ok [OF this]
  have u3: "tab u3 = fst (delete_members_sql tenantID groupID (db_now u2) (tab u2))" using modify_Inr(1) [OF del] by simp
  have ok: "groups_ok (tab u3)"
    unfolding u3 delete_members_sql_def using u2(1) free assms(2) by (simp add: groups_ok_fewer_members)
  have "taken_elsewhere tenantID groupID c (tab u3) \<Longrightarrow> taken_elsewhere tenantID groupID c (tab s)" for c
    using u2(2) free assms(2) by (auto simp: u3 delete_members_sql_def taken_elsewhere_def)
  moreover have "\<exists>g \<in> set (ip_groups (tab u3)). grp_id g = groupID \<and> grp_tenant_id g = tenantID"
    using u2(3) free assms(2) by (simp add: u3 delete_members_sql_def)
  ultimately have "insertable lib tenantID groupID (ig_Members n) (tab u3)"
    using free unfolding insertable_def by fastforce
  from insert_members_ok [OF ins ok this] show ?thesis .
qed

lemma delete_group_ok:
  assumes "delete_group_sql tenantID groupID now t = Some (t', k)" and "groups_ok t"
  shows "groups_ok t'"
proof -
  let ?gone = "\<lambda>r. grp_tenant_id r = tenantID \<and> grp_id r = groupID"
  have t': "ip_groups t' = filter (\<lambda>r. \<not> ?gone r) (ip_groups t)"
      "ip_group_members t' = (if filter ?gone (ip_groups t) = [] then ip_group_members t
        else filter (\<lambda>m. mem_group_id m \<noteq> groupID) (ip_group_members t))"
    using assms(1) by (auto simp: delete_group_sql_def Let_def split: if_split_asm)
  have sub: "set (ip_group_members t') \<subseteq> set (ip_group_members t)" by (auto simp: t')
  show ?thesis
  proof (rule groups_okI)
    show "distinct (map grp_id (ip_groups t')) \<and> uuid_Nil \<notin> grp_id ` set (ip_groups t')"
      using groups_okD(1,2) [OF assms(2)] by (auto simp: t' distinct_map intro: inj_on_subset)
    show "\<exists>g \<in> set (ip_groups t'). grp_id g = mem_group_id m \<and> grp_tenant_id g = mem_tenant_id m"
      if "m \<in> set (ip_group_members t')" for m
    proof -
      from that sub obtain g where g: "g \<in> set (ip_groups t)" "grp_id g = mem_group_id m" "grp_tenant_id g = mem_tenant_id m"
        using groups_okD(3) [OF assms(2)] by blast
      have "\<not> ?gone g"
      proof
        assume "?gone g"
        with g(1) have "filter ?gone (ip_groups t) \<noteq> []" by (auto simp: filter_empty_conv)
        with that g(2) \<open>?gone g\<close> show False by (simp add: t')
      qed
      with g show ?thesis by (auto simp: t')
    qed
  qed (meson sub subsetD groups_okD(4) [OF assms(2)])
qed

lemma DeleteIPGroup_ok:
  assumes "DeleteIPGroup tenantID groupID s = (r, t)" and "groups_ok (tab s)"
  shows "groups_ok (tab t)"
proof -
  have "maintains (invar_rel groups_ok) (DeleteIPGroup tenantID groupID)"
    unfolding DeleteIPGroup_def
    by (intro maintains_rules) (auto simp: invar_rel_def intro: delete_group_ok)
  from group_inv.invariant_run [OF this assms] show ?thesis .
qed

lemma reads_ok: "maintains (keeps (\<lambda>t. t)) m \<Longrightarrow> maintains (invar_rel groups_ok) m"
  by (simp add: maintains_def keeps_def invar_rel_def)

lemma fill_group_ok:
  assumes "groups_ok (tab u)" and "row \<in> set (ip_groups (tab u))" and "grp_tenant_id row = tenantID"
  shows "invar_rel groups_ok (tab u) (tab (snd (bnd (rejectExactDuplicateIPGroupMembersWith lib tenantID (grp_id row) members)
    (\<lambda>_. bnd (insertIPGroupMembers lib tenantID (grp_id row) members upsert) (\<lambda>_. ret x)) u)))"
proof (rule group_inv.related_bnd)
  show "invar_rel groups_ok (tab u) (tab (snd (rejectExactDuplicateIPGroupMembersWith lib tenantID (grp_id row) members u)))"
    by (intro group_inv.related_run reads_ok reject_reads)
next
  fix y u2
  assume rej: "rejectExactDuplicateIPGroupMembersWith lib tenantID (grp_id row) members u = (Inr y, u2)"
  note free = reject_duplicates_Inr [OF rej assms(1)]
  have "insertable lib tenantID (grp_id row) members (tab u2)"
    using assms(2,3) free unfolding insertable_def by fastforce
  then have "invar_rel groups_ok (tab u2) (tab (snd (insertIPGroupMembers lib tenantID (grp_id row) members upsert u2)))"
    unfolding invar_rel_def by (metis insert_members_ok prod.collapse)
  then show "invar_rel groups_ok (tab u2) (tab (snd (bnd (insertIPGroupMembers lib tenantID (grp_id row) members upsert)
      (\<lambda>_. ret x) u2)))"
    by (rule group_inv.related_bnd) (simp add: ret_def invar_rel_def)
qed

lemma scan_group_id: "ig_ID (scanIPGroup row) = grp_id row"
  by (simp add: scanIPGroup_def)

lemma ensureInline_ok:
  assumes "groups_ok (tab s)" and "draws s"
  shows "groups_ok (tab (snd (ensureInlineIPGroupWith lib tenantID cidrs s)))"
proof -
  have nil: "uuid_of s (uuid_ctr s) \<noteq> uuid_Nil" using assms(2) by (simp add: draws_def)
  have "invar_rel groups_ok (tab s) (tab (snd (bnd (insert_op (upsert_inline_sql lib tenantID name desc kind))
      (\<lambda>row. let grp = scanIPGroup row in
       bnd (rejectExactDuplicateIPGroupMembersWith lib tenantID (ig_ID grp) members) (\<lambda>_.
       bnd (insertIPGroupMembers lib tenantID (ig_ID grp) members True) (\<lambda>_.
       ret (grp\<lparr>ig_Members := withIPGroupID members (ig_ID grp)\<rparr>)))) s)))" (is "invar_rel _ _ (tab (snd (bnd ?upsert _ s)))")
    for members name desc kind
  proof (rule group_inv.related_bnd)
    obtain q u where run: "?upsert s = (q, u)" by fastforce
    show "invar_rel groups_ok (tab s) (tab (snd (?upsert s)))"
    proof (cases q)
      case (Inl e)
      with run atomic_insert show ?thesis unfolding atomic_on_error_def invar_rel_def by (metis snd_conv)
    next
      case (Inr row)
      with run have "?upsert s = (Inr row, u)" by simp
      from upsert_inline_ok [OF insert_Inr(1) [OF this] assms(1) nil] run show ?thesis by (simp add: invar_rel_def)
    qed
  next
    fix row u
    assume "?upsert s = (Inr row, u)"
    from upsert_inline_ok [OF insert_Inr(1) [OF this] assms(1) nil]
    show "invar_rel groups_ok (tab u) (tab (snd ((let grp = scanIPGroup row in
       bnd (rejectExactDuplicateIPGroupMembersWith lib tenantID (ig_ID grp) members) (\<lambda>_.
       bnd (insertIPGroupMembers lib tenantID (ig_ID grp) members True) (\<lambda>_.
       ret (grp\<lparr>ig_Members := withIPGroupID members (ig_ID grp)\<rparr>)))) u)))"
      unfolding Let_def scan_group_id by (elim conjE) (rule fill_group_ok)
  qed
  then have "invar_rel groups_ok (tab s) (tab (snd (ensureInlineIPGroupWith lib tenantID cidrs s)))"
    unfolding ensureInlineIPGroupWith_def
    by (cases "normalizeIPGroupMembers (map inline_member cidrs)")
       (auto simp: of_result_def bnd_def [of "ret _"] bnd_def [of "throw _"] throw_def ret_def invar_rel_def)
  with assms(1) show ?thesis by (simp add: invar_rel_def)
qed

lemma resolve_ok:
  assumes "resolvePolicyGroupRefWith lib tenantID explicit directCIDR s = (r, t)" and "groups_ok (tab s)" and "draws s"
  shows "groups_ok (tab t)"
proof (cases "explicit = None \<and> \<not> policyCIDRIsAny directCIDR")
  case True
  obtain q u where run: "ensureInlineIPGroupWith lib tenantID [directCIDR] s = (q, u)" by fastforce
  with assms(1) True have "tab t = tab u"
    by (cases q) (auto simp: resolvePolicyGroupRefWith_def bnd_def ret_def)
  with ensureInline_ok [OF assms(2,3), of lib tenantID "[directCIDR]"] run show ?thesis by simp
next
  case False
  have "maintains (keeps (\<lambda>t. t)) (resolvePolicyGroupRefWith lib tenantID explicit directCIDR)"
    unfolding resolvePolicyGroupRefWith_def by (intro maintains_rules) (use False in simp)
  from unchanged.frame_run [OF this assms(1)] assms(2) show ?thesis by simp
qed

inductive group_step :: "sql_lib \<Rightarrow> db \<Rightarrow> db \<Rightarrow> bool" for lib where
  create: "draws s \<Longrightarrow> CreateIPGroup lib grp s = (r, t) \<Longrightarrow> group_step lib s t"
| update: "draws s \<Longrightarrow> UpdateIPGroup lib grp s = (r, t) \<Longrightarrow> group_step lib s t"
| update_by_id: "draws s \<Longrightarrow> UpdateIPGroupByID lib tenantID groupID grp s = (r, t) \<Longrightarrow> group_step lib s t"
| delete: "draws s \<Longrightarrow> DeleteIPGroup tenantID groupID s = (r', t) \<Longrightarrow> group_step lib s t"
| ensure: "draws s \<Longrightarrow> EnsureInlineIPGroup lib tenantID cidrs s = (r, t) \<Longrightarrow> group_step lib s t"
| resolve: "draws s \<Longrightarrow> ResolvePolicyGroupRef lib tenantID explicit directCIDR s = (r'', t) \<Longrightarrow> group_step lib s t"
| elsewhere: "ip_groups (tab t) = ip_groups (tab s) \<Longrightarrow> ip_group_members (tab t) = ip_group_members (tab s) \<Longrightarrow> group_step lib s t"


lemma group_step_ok: "group_step lib s t \<Longrightarrow> groups_ok (tab s) \<Longrightarrow> groups_ok (tab t)"
proof (induction rule: group_step.induct)
  case (create s grp r t)
  then show ?case by (blast intro: CreateIPGroup_ok)
next
  case (update s grp r t)
  then show ?case
    by (cases grp) (auto simp: UpdateIPGroup_def UpdateIPGroupByID_def throw_def intro: commit_ok updateIPGroupWith_ok)
next
  case (update_by_id s tenantID groupID grp r t)
  then show ?case unfolding UpdateIPGroupByID_def by (blast intro: commit_ok updateIPGroupWith_ok)
next
  case (delete s tenantID groupID r' t)
  then show ?case by (blast intro: DeleteIPGroup_ok)
next
  case (ensure s tenantID cidrs r t)
  have step: "groups_ok (tab v)" if "ensureInlineIPGroupWith lib tenantID cidrs u = (Inr x, v)" "groups_ok (tab u)" "draws u" for u x v
    using ensureInline_ok [OF that(2,3), of lib tenantID cidrs] that(1) by simp
  from ensure(2) show ?case
    unfolding EnsureInlineIPGroup_def by (rule commit_ok [OF _ ensure(3,1) step])
next
  case (resolve s tenantID explicit directCIDR r'' t)
  then show ?case unfolding ResolvePolicyGroupRef_def by (blast intro: resolve_ok)
next
  case (elsewhere t s)
  from elsewhere(3) show ?case unfolding groups_ok_def elsewhere(1,2) .
qed

lemma group_steps_ok: "(group_step lib)\<^sup>*\<^sup>* s t \<Longrightarrow> groups_ok (tab s) \<Longrightarrow> groups_ok (tab t)"
  by (induction rule: rtranclp_induct) (auto intro: group_step_ok)

section \<open>What the operations do\<close>

text \<open>The rows that an insert of members appends.\<close>

lemma insert_member_new:
  "insert_member_sql lib False tenantID groupID cidr note i now t = Some (t', x) \<Longrightarrow>
     \<exists>c. sql_cidr lib cidr = Some c \<and> t' = t\<lparr>ip_group_members := ip_group_members t @ [\<lparr>mem_id = i, mem_tenant_id = tenantID,
       mem_group_id = groupID, mem_cidr = c, mem_note = Some note, mem_created_at = now\<rparr>]\<rparr>"
  by (simp add: insert_member_sql_def split: option.split_asm if_split_asm)

lemma insert_members_exact:
  assumes "insertIPGroupMembers lib tenantID groupID members False s = (Inr x, t)"
  obtains ms where "tab t = (tab s)\<lparr>ip_group_members := ip_group_members (tab s) @ ms\<rparr>" "same_env s t"
    "map (\<lambda>m. Some (mem_cidr m)) ms = map (\<lambda>m. sql_cidr lib (gm_CIDR m)) members"
    "map mem_note ms = map (\<lambda>m. Some (TrimSpace (gm_Note m))) members"
    "\<And>m. m \<in> set ms \<Longrightarrow> mem_tenant_id m = tenantID \<and> mem_group_id m = groupID"
  using assms unfolding insertIPGroupMembers_def
proof (induction members arbitrary: s thesis)
  case Nil
  from Nil(2) show ?case by (intro Nil(1) [of "[]"]) (auto simp: run_Inr)
next
  case (Cons a members)
  let ?insert = "\<lambda>member. insert_op (insert_member_sql lib False tenantID groupID (gm_CIDR member) (TrimSpace (gm_Note member)))"
  from Cons.prems(2) obtain u where i: "?insert a s = (Inr (), u)" and rest: "for_each ?insert members u = (Inr x, t)"
    by (auto simp: run_Inr)
  from insert_member_new [OF insert_Inr(1) [OF i]] obtain c r where r:
      "tab u = (tab s)\<lparr>ip_group_members := ip_group_members (tab s) @ [r]\<rparr>" "sql_cidr lib (gm_CIDR a) = Some c" "mem_cidr r = c" "mem_note r = Some (TrimSpace (gm_Note a))"
      "mem_tenant_id r = tenantID" "mem_group_id r = groupID"
    by (elim exE conjE) (erule (1) that, simp_all)
  obtain ms where ms: "tab t = (tab u)\<lparr>ip_group_members := ip_group_members (tab u) @ ms\<rparr>" "same_env u t"
    "map (\<lambda>m. Some (mem_cidr m)) ms = map (\<lambda>m. sql_cidr lib (gm_CIDR m)) members"
    "map mem_note ms = map (\<lambda>m. Some (TrimSpace (gm_Note m))) members"
    "\<And>m. m \<in> set ms \<Longrightarrow> mem_tenant_id m = tenantID \<and> mem_group_id m = groupID"
    by (rule Cons.IH [OF _ rest]) blast
  show ?case
    by (rule Cons.prems(1) [of "r # ms"]) (use ms r insert_Inr(2) [OF i] in \<open>auto dest: same_env_trans\<close>)
qed

lemma create_group_exact:
  assumes "CreateIPGroup lib (Some g) s = (Inr created, t)"
  obtains n row ms where "normalizeIPGroupForWrite g = Inr n"
    "tab t = (tab s)\<lparr>ip_groups := ip_groups (tab s) @ [row], ip_group_members := ip_group_members (tab s) @ ms\<rparr>"
    "grp_id row \<notin> grp_id ` set (ip_groups (tab s))" "grp_tenant_id row = ig_TenantID g"
    "created = (scanIPGroup row)\<lparr>ig_Members := withIPGroupID (ig_Members n) (grp_id row)\<rparr>"
    "map (\<lambda>m. Some (mem_cidr m)) ms = map (\<lambda>m. sql_cidr lib (gm_CIDR m)) (ig_Members n)"
    "map mem_note ms = map (\<lambda>m. Some (TrimSpace (gm_Note m))) (ig_Members n)"
    "\<And>m. m \<in> set ms \<Longrightarrow> mem_tenant_id m = ig_TenantID g \<and> mem_group_id m = grp_id row"
proof -
  from assms obtain n u where c: "checkNewIPGroup lib g s = (Inr n, u)" and st: "storeNewIPGroup lib n u = (Inr created, t)"
    by (auto simp: CreateIPGroup_def run_Inr)
  from c have n: "normalizeIPGroupForWrite g = Inr n" by (auto simp: checkNewIPGroup_def run_Inr)
  then have tenant: "ig_TenantID n = ig_TenantID g"
    by (auto simp: normalizeIPGroupForWrite_def Let_def split: if_split_asm option.split_asm sum.split_asm)
  have u: "tab u = tab s" using check_new_reads [OF c] .
  from st show ?thesis
    unfolding storeNewIPGroup_def
  proof (cases rule: transaction_Inr)
    case (committed v w)
    from committed(1) obtain row v1 where
        i: "insert_op (insert_group_sql lib (ig_TenantID n) (ig_Name n) (ig_Description n) (ig_Kind n) (ig_CreatedBy n)) v = (Inr row, v1)"
        and m: "insertIPGroupMembers lib (grp_tenant_id row) (grp_id row) (ig_Members n) False v1 = (Inr (), w)"
        and created: "created = (scanIPGroup row)\<lparr>ig_Members := withIPGroupID (ig_Members n) (grp_id row)\<rparr>"
      by (auto simp: run_Inr Let_def scanIPGroup_def)
    from insert_Inr(1) [OF i] have row: "tab v1 = (tab v)\<lparr>ip_groups := ip_groups (tab v) @ [row]\<rparr>"
        "grp_id row \<notin> grp_id ` set (ip_groups (tab v))" "grp_tenant_id row = ig_TenantID n"
      by (auto simp: insert_group_sql_def Let_def split: if_split_asm)
    obtain ms where ms: "tab w = (tab v1)\<lparr>ip_group_members := ip_group_members (tab v1) @ ms\<rparr>"
      "map (\<lambda>m. Some (mem_cidr m)) ms = map (\<lambda>m. sql_cidr lib (gm_CIDR m)) (ig_Members n)"
      "map mem_note ms = map (\<lambda>m. Some (TrimSpace (gm_Note m))) (ig_Members n)"
      "\<And>m. m \<in> set ms \<Longrightarrow> mem_tenant_id m = grp_tenant_id row \<and> mem_group_id m = grp_id row"
      by (rule insert_members_exact [OF m]) blast
    show ?thesis
      by (rule that [OF n _ _ _ created ms(2,3)]) (use row ms(1,4) committed(2,4) u tenant in auto)
  next
    case (returned v w)
    then show ?thesis by (auto simp: run_Inr Let_def)
  qed
qed

text \<open>
  (C8) Over any sequence of calls on the groups, one call after the other and whatever statements
  the database refuses, a range of a tenant is a member of one group only: the calls that make,
  change, delete and look up groups, the inline groups that a rule makes for a range written
  into it, and anything else that does not write groups.
\<close>

theorem cidr_in_one_group:
  assumes "(group_step lib)\<^sup>*\<^sup>* s t" and "ip_groups (tab s) = []" and "ip_group_members (tab s) = []"
    and "m \<in> set (ip_group_members (tab t))" and "m' \<in> set (ip_group_members (tab t))"
    and "mem_tenant_id m = mem_tenant_id m'" and "mem_cidr m = mem_cidr m'"
  shows "mem_group_id m = mem_group_id m'"
proof -
  have "groups_ok (tab s)" using assms(2,3) by (simp add: groups_ok_def)
  with assms(1) have "groups_ok (tab t)" by (rule group_steps_ok)
  from groups_okD(4) [OF this assms(4-7)] show ?thesis .
qed

definition plain_sql :: sql_lib where
  "plain_sql = \<lparr>sql_cidr = Some, sql_overlaps = (=), sql_masklen = length, sql_char_length = length, sql_collate = id\<rparr>"

definition group_sample :: db where
  "group_sample = \<lparr>db_now = 100, go_now = 100, faults = [], uuid_of = (\<lambda>n. [char_of (65 + n)]), uuid_ctr = 0,
     tab = empty_tables\<lparr>tenants := [\<lparr>tenant_id = ''t1'', tenant_name = ''one'', tenant_code = None, tenant_status = Some ''active'',
       tenant_resource_quota = None, tenant_created_at = 0, tenant_updated_at = 0\<rparr>]\<rparr>\<rparr>"

definition group_request :: "string \<Rightarrow> IPGroupRecord" where
  "group_request name = \<lparr>ig_ID = uuid_Nil, ig_TenantID = ''t1'', ig_Name = name, ig_Description = '''', ig_Kind = '''', ig_CreatedBy = None,
     ig_Members = [\<lparr>gm_ID = uuid_Nil, gm_GroupID = uuid_Nil, gm_CIDR = ''10.1.2.3/8'', gm_Note = '' lab ''\<rparr>], ig_Warnings = [],
     ig_CreatedAt = 0, ig_UpdatedAt = 0\<rparr>"

text \<open>
  The check for duplicates of \<^verbatim>\<open>CreateIPGroup\<close> runs before its transaction, so two calls at the
  same time put one range into two groups: both checks pass, both transactions commit.
\<close>

theorem create_group_race:
  "map_sum id (map (\<lambda>m. (mem_tenant_id m, mem_group_id m, mem_cidr m))) (fst (
     bnd (checkNewIPGroup plain_sql (group_request ''a'')) (\<lambda>first.
     bnd (checkNewIPGroup plain_sql (group_request ''b'')) (\<lambda>second.
     bnd (storeNewIPGroup plain_sql first) (\<lambda>_.
     bnd (storeNewIPGroup plain_sql second) (\<lambda>_.
     select_op (\<lambda>_ t. ip_group_members t))))) group_sample)) =
   Inr [(''t1'', ''A'', ''10.0.0.0/8''), (''t1'', ''C'', ''10.0.0.0/8'')]"
  by code_simp

text \<open>One after the other, the second call is refused.\<close>

lemma create_group_twice:
  "fst (bnd (CreateIPGroup plain_sql (Some (group_request ''a''))) (\<lambda>_. CreateIPGroup plain_sql (Some (group_request ''b''))) group_sample) =
   Inl (ErrMsg ''duplicate CIDR 10.0.0.0/8 already belongs to IP group a (A)'')"
  by code_simp

lemma group_sample_draws: "same_env group_sample s \<Longrightarrow> draws s"
  by (simp add: draws_def same_env_def group_sample_def uuid_Nil_def)

theorem cidr_in_one_group_witness:
  "\<exists>t m. (group_step plain_sql)\<^sup>*\<^sup>* group_sample t \<and> ip_group_members (tab t) = [m] \<and> mem_group_id m = mem_group_id m"
proof -
  let ?run = "CreateIPGroup plain_sql (Some (group_request ''a'')) group_sample"
  have len: "length (ip_group_members (tab (snd ?run))) = 1" by code_simp
  have step: "(group_step plain_sql)\<^sup>*\<^sup>* group_sample (snd ?run)"
    by (rule r_into_rtranclp) (rule group_step.create [OF group_sample_draws], simp, rule prod.collapse [symmetric])
  from len obtain m where m: "ip_group_members (tab (snd ?run)) = [m]" by (cases "ip_group_members (tab (snd ?run))") auto
  have empty: "ip_groups (tab group_sample) = []" "ip_group_members (tab group_sample) = []"
    by (simp_all add: group_sample_def empty_tables_def)
  have "mem_group_id m = mem_group_id m"
    by (rule cidr_in_one_group [OF step empty]) (simp_all add: m)
  with step m show ?thesis by blast
qed


lemma created_sample: "\<exists>x t. CreateIPGroup plain_sql (Some (group_request ''a'')) group_sample = (Inr x, t) \<and> faults t = []"
proof -
  have "\<not> isl (fst (CreateIPGroup plain_sql (Some (group_request ''a'')) group_sample)) \<and>
      faults (snd (CreateIPGroup plain_sql (Some (group_request ''a'')) group_sample)) = []"
    by code_simp
  then show ?thesis by (metis prod.collapse sum.collapse(2))
qed


text \<open>
  A deleted group is one that no rule of any tenant refers to, and it takes its members with it;
  the other groups and their members stay.
\<close>

theorem deleted_group_is_unreferenced:
  assumes "DeleteIPGroup tenantID groupID s = (Inr x, t)" and "groups_ok (tab s)"
  shows "(\<exists>g \<in> set (ip_groups (tab s)). grp_id g = groupID \<and> grp_tenant_id g = tenantID) \<and>
    (\<forall>r \<in> set (acl_rules (tab t)). ar_src_group_id r \<noteq> Some groupID \<and> ar_dst_group_id r \<noteq> Some groupID) \<and>
    (\<forall>r \<in> set (qos_rules (tab t)). qr_group_id r \<noteq> Some groupID) \<and>
    ip_groups (tab t) = filter (\<lambda>g. grp_id g \<noteq> groupID) (ip_groups (tab s)) \<and>
    ip_group_members (tab t) = filter (\<lambda>m. mem_group_id m \<noteq> groupID) (ip_group_members (tab s))"
  using assms(1) unfolding DeleteIPGroup_def
proof (cases rule: transaction_Inr)
  case (committed u v)
  from committed(1) obtain b w k k' y where sel: "select_op (\<lambda>_ t. referenced_group tenantID groupID t) u = (Inr b, w)"
      and d: "write_op (delete_group_sql tenantID groupID) w = (Inr k, y)" and c': "check_op k y = (Inr k', v)" "k' \<noteq> 0"
    by (auto simp: run_Inr split: if_split_asm)
  with check_Inr(1) [OF c'(1)] have c: "check_op k y = (Inr k, v)" "k \<noteq> 0" by simp_all
  have w: "tab w = tab s" using select_Inr(2) [OF sel] committed(2) by simp
  have t: "tab t = tab y" using check_Inr(2) [OF c(1)] committed(4) by simp
  let ?gone = "filter (\<lambda>r. grp_tenant_id r = tenantID \<and> grp_id r = groupID) (ip_groups (tab s))"
  have del: "delete_group_sql tenantID groupID (db_now w) (tab s) = Some (tab t, k)"
    using write_Inr(1) [OF d] w t by simp
  then have k: "k = length ?gone" by (auto simp: delete_group_sql_def Let_def split: if_split_asm)
  then obtain g where g: "g \<in> set (ip_groups (tab s))" "grp_tenant_id g = tenantID" "grp_id g = groupID"
    using c(2) by (metis (mono_tags, lifting) filter_False length_0_conv)
  from k c(2) have "?gone \<noteq> []" by auto
  with del have rules: "\<not> (\<exists>r \<in> set (acl_rules (tab s)). ar_src_group_id r = Some groupID \<or> ar_dst_group_id r = Some groupID)"
      "\<not> (\<exists>r \<in> set (qos_rules (tab s)). qr_group_id r = Some groupID)"
      and t': "tab t = (tab s)\<lparr>ip_groups := filter (\<lambda>r. \<not> (grp_tenant_id r = tenantID \<and> grp_id r = groupID)) (ip_groups (tab s)),
        ip_group_members := filter (\<lambda>m. mem_group_id m \<noteq> groupID) (ip_group_members (tab s))\<rparr>"
    by (simp_all add: delete_group_sql_def Let_def split: if_split_asm)
  have "grp_tenant_id r = tenantID" if "r \<in> set (ip_groups (tab s))" "grp_id r = groupID" for r
    using groups_okD(1) [OF assms(2)] g that by (auto simp: distinct_map dest: inj_onD)
  then have "filter (\<lambda>r. \<not> (grp_tenant_id r = tenantID \<and> grp_id r = groupID)) (ip_groups (tab s)) =
      filter (\<lambda>g. grp_id g \<noteq> groupID) (ip_groups (tab s))"
    by (intro filter_cong) auto
  with g rules show ?thesis unfolding t' by auto
qed (auto simp: run_Inr split: if_split_asm)

definition deletable_sample :: db where
  "deletable_sample = group_sample\<lparr>tab := (tab group_sample)\<lparr>
     ip_groups := [\<lparr>grp_id = ''g'', grp_tenant_id = ''t1'', grp_name = ''lab'', grp_description = None, grp_kind = ''custom'',
       grp_created_by = None, grp_created_at = 0, grp_updated_at = 0\<rparr>],
     ip_group_members := [\<lparr>mem_id = ''m'', mem_tenant_id = ''t1'', mem_group_id = ''g'', mem_cidr = ''10.0.0.0/8'', mem_note = None,
       mem_created_at = 0\<rparr>]\<rparr>\<rparr>"

theorem deleted_group_is_unreferenced_witness:
  "\<exists>t. DeleteIPGroup ''t1'' ''g'' deletable_sample = (Inr (), t) \<and> ip_groups (tab t) = [] \<and> ip_group_members (tab t) = []"
proof -
  have "fst (DeleteIPGroup ''t1'' ''g'' deletable_sample) = Inr ()" by code_simp
  then obtain t where run: "DeleteIPGroup ''t1'' ''g'' deletable_sample = (Inr (), t)" by (metis prod.collapse)
  have "groups_ok (tab deletable_sample)"
    by (simp add: groups_ok_def deletable_sample_def group_sample_def empty_tables_def uuid_Nil_def)
  from deleted_group_is_unreferenced [OF run this] run show ?thesis
    by (simp add: deletable_sample_def)
qed

text \<open>
  (C36) The page of references is the slice of all references that the limit (20 by default, at most
  100) and the offset ask for, and it says there is more exactly when references follow the slice.
\<close>

theorem references_page_exact:
  assumes "ListIPGroupReferences lib tenantID groupID limit offset s = (Inr pg, t)"
  shows "let n = nat (if limit \<le> 0 then 20 else min limit 100); k = nat offset;
      refs = group_references lib tenantID groupID (tab s) in
    rp_Items pg = take n (drop k refs) \<and> (rp_HasMore pg \<longleftrightarrow> k + n < length refs) \<and> tab t = tab s"
proof -
  define l where "l = (if limit \<le> 0 then 20 else min limit 100)"
  define q where "q = (\<lambda>(_ :: time) t. let refs = group_references lib tenantID groupID t in
      (take (nat l) (drop (nat (max 0 offset)) refs), int (length refs)))"
  have l: "(if (if limit \<le> 0 then 20 else limit) > 100 then 100 else if limit \<le> 0 then 20 else limit) = l"
      "(if offset < 0 then 0 else offset) = max 0 offset" "l > 0"
    by (auto simp: l_def)
  have q: "q = (\<lambda>_ t. (take (nat l) (drop (nat (max 0 offset)) (group_references lib tenantID groupID t)),
      int (length (group_references lib tenantID groupID t))))"
    by (simp add: q_def Let_def)
  from assms obtain items total u v where sel: "select_op q s = (Inr (items, total), u)"
      and c: "check_op () u = (Inr (), v)" "t = v"
      and pg: "pg = \<lparr>rp_Items = items, rp_Total = (if items = [] then 0 else total), rp_Limit = l, rp_Offset = max 0 offset,
          rp_HasMore = (max 0 offset + int (length items) < (if items = [] then 0 else total))\<rparr>"
    unfolding ListIPGroupReferences_def Let_def l q [symmetric]
    by (auto simp: run_Inr split: if_split_asm)
  note it = select_Inr [OF sel]
  have items: "items = take (nat l) (drop (nat offset) (group_references lib tenantID groupID (tab s)))"
      "total = int (length (group_references lib tenantID groupID (tab s)))"
    using it(1) by (simp_all add: q_def Let_def max_def)
  have "rp_HasMore pg \<longleftrightarrow> nat offset + nat l < length (group_references lib tenantID groupID (tab s))"
    using l(3) by (cases "items = []") (auto simp: pg items min_def max_def)
  with pg items it(2) check_Inr(2) [OF c(1)] c(2) show ?thesis by (simp add: l_def)
qed

theorem references_page_exact_witness:
  "\<exists>pg t. ListIPGroupReferences plain_sql ''t1'' ''g'' 0 (- 5) deletable_sample = (Inr pg, t) \<and> rp_Items pg = [] \<and> \<not> rp_HasMore pg"
proof -
  have "\<not> isl (fst (ListIPGroupReferences plain_sql ''t1'' ''g'' 0 (- 5) deletable_sample))" by code_simp
  then obtain pg t where run: "ListIPGroupReferences plain_sql ''t1'' ''g'' 0 (- 5) deletable_sample = (Inr pg, t)"
    by (rule run_succeeds)
  have "group_references plain_sql ''t1'' ''g'' (tab deletable_sample) = []" by code_simp
  with references_page_exact [OF run] run show ?thesis by simp
qed

end
