(* ===== verification/Policy_Rules.thy ===== *)
theory Policy_Rules
  imports Ip_Groups
begin

text \<open>
  The statements on the rule tables of \<^verbatim>\<open>pkg/controllerstorage/network_policy.go\<close> (ACL, QoS and
  blacklist rules of a node), the same operations inside a policy transaction and the update of
  an IP group together with the syncs of the nodes that use it (\<^verbatim>\<open>policy_sync.go\<close>).
\<close>

section \<open>Columns\<close>

text \<open>A text assigned to \<^verbatim>\<open>VARCHAR(n)\<close>: blanks beyond the limit are cut off, anything else is refused.\<close>

fun varchar :: "sql_lib \<Rightarrow> nat \<Rightarrow> string \<Rightarrow> string option" where
  "varchar lib n [] = Some []"
| "varchar lib n (c # cs) = (if sql_char_length lib (c # cs) \<le> n then Some (c # cs)
     else if last (c # cs) = CHR 0x20 then varchar lib n (butlast (c # cs)) else None)"

definition smallint :: "int \<Rightarrow> bool" where
  "smallint x \<longleftrightarrow> - 32768 \<le> x \<and> x \<le> 32767"

definition integer :: "int \<Rightarrow> bool" where
  "integer x \<longleftrightarrow> - 2147483648 \<le> x \<and> x \<le> 2147483647"

text \<open>\<^verbatim>\<open>NULLIF($n, '')::cidr\<close>: \<open>None\<close> when the text is refused.\<close>

definition cidr_column :: "sql_lib \<Rightarrow> string \<Rightarrow> string option option" where
  "cidr_column lib s = (if s = '''' then Some None else map_option Some (sql_cidr lib s))"

text \<open>\<^verbatim>\<open>ORDER BY key ASC\<close> puts the rows without a key at the end.\<close>

definition nulls_last :: "('r \<Rightarrow> int option) \<Rightarrow> 'r list \<Rightarrow> 'r list" where
  "nulls_last key rows = sort_key (\<lambda>r. the (key r)) (filter (\<lambda>r. key r \<noteq> None) rows) @ filter (\<lambda>r. key r = None) rows"

text \<open>The foreign keys of a rule.\<close>

definition rule_refs_ok :: "uuid \<Rightarrow> uuid \<Rightarrow> uuid option list \<Rightarrow> tables \<Rightarrow> bool" where
  "rule_refs_ok tenantID nodeID groups t \<longleftrightarrow>
     (\<exists>r \<in> set (tenants t). tenant_id r = tenantID) \<and> (\<exists>r \<in> set (nodes t). node_id r = nodeID) \<and>
     list_all (\<lambda>g. case g of None \<Rightarrow> True | Some i \<Rightarrow> \<exists>r \<in> set (ip_groups t). grp_id r = i) groups"

text \<open>\<^verbatim>\<open>result.RowsAffected()\<close>, then the new desired version of the node.\<close>

definition changed_rule :: "bool \<Rightarrow> uuid \<Rightarrow> uuid \<Rightarrow> nat \<Rightarrow> unit op" where
  "changed_rule bump tenantID nodeID n = bnd (check_op n) (\<lambda>rowsAffected.
     if rowsAffected = 0 then throw ErrNoRows
     else if bump then bumpNodeDesiredVersionWith tenantID nodeID else ret ())"

section \<open>ACL rules\<close>

definition scanACLRuleRecord :: "acl_rule_row \<Rightarrow> ACLRuleRecord" where
  "scanACLRuleRecord r = \<lparr>acl_ID = ar_id r, acl_TenantID = ar_tenant_id r, acl_NodeID = ar_node_id r,
     acl_Name = coalesce (ar_name r) '''', acl_Action = ar_action r,
     acl_SrcCIDR = coalesce (ar_src_cidr r) (ar_src_net r), acl_DstCIDR = coalesce (ar_dst_cidr r) (ar_dst_net r),
     acl_SrcGroupID = ar_src_group_id r, acl_DstGroupID = ar_dst_group_id r, acl_SrcGroup = None, acl_DstGroup = None,
     acl_DstPort = coalesce (ar_dst_port r) (if ar_min_port r = ar_max_port r then ar_max_port r else 0),
     acl_Protocol = ar_protocol r, acl_Direction = coalesce (ar_direction r) ''ingress'',
     acl_Ports = coalesce (ar_ports r)
       (if ar_min_port r > 0 \<and> ar_max_port r > 0 \<and> ar_min_port r \<noteq> ar_max_port r then Itoa (ar_min_port r) @ ''-'' @ Itoa (ar_max_port r)
        else if ar_min_port r > 0 then Itoa (ar_min_port r) else ''''),
     acl_Priority = ar_priority r, acl_Enabled = ar_enabled r, acl_Description = coalesce (ar_description r) '''',
     acl_CreatedAt = ar_created_at r, acl_UpdatedAt = ar_updated_at r\<rparr>"

definition acl_rules_of :: "uuid \<Rightarrow> uuid \<Rightarrow> bool \<Rightarrow> tables \<Rightarrow> acl_rule_row list" where
  "acl_rules_of tenantID nodeID enabledOnly t = sort_key ar_priority (sort_key ar_created_at
     (filter (\<lambda>r. ar_tenant_id r = tenantID \<and> ar_node_id r = nodeID \<and> (enabledOnly \<longrightarrow> ar_enabled r)) (acl_rules t)))"

definition listTenantNodeACLRules :: "uuid \<Rightarrow> uuid \<Rightarrow> bool \<Rightarrow> ACLRuleRecord list op" where
  "listTenantNodeACLRules tenantID nodeID enabledOnly =
     bnd (select_op (\<lambda>_ t. acl_rules_of tenantID nodeID enabledOnly t)) (\<lambda>rows. check_op (map scanACLRuleRecord rows))"

definition ListTenantNodeACLRules :: "uuid \<Rightarrow> uuid \<Rightarrow> ACLRuleRecord list op" where
  "ListTenantNodeACLRules tenantID nodeID = listTenantNodeACLRules tenantID nodeID False"

definition GetEnabledTenantNodeACLRules :: "uuid \<Rightarrow> uuid \<Rightarrow> ACLRuleRecord list op" where
  "GetEnabledTenantNodeACLRules tenantID nodeID = listTenantNodeACLRules tenantID nodeID True"

text \<open>The columns that an insert and an update write, \<open>None\<close> when one of the values is refused.\<close>

definition acl_columns :: "sql_lib \<Rightarrow> ACLRuleRecord \<Rightarrow> int option \<Rightarrow> string \<times> string \<Rightarrow> int \<times> int \<Rightarrow> acl_rule_row \<Rightarrow> acl_rule_row option" where
  "acl_columns lib rule dstPort nets ports r =
     (case (varchar lib 100 (acl_Name rule), varchar lib 10 (acl_Action rule), varchar lib 16 (acl_Direction rule),
        cidr_column lib (acl_SrcCIDR rule), cidr_column lib (acl_DstCIDR rule), sql_cidr lib (fst nets), sql_cidr lib (snd nets)) of
        (Some name, Some action, Some direction, Some src, Some dst, Some srcNet, Some dstNet) \<Rightarrow>
          if smallint (acl_Protocol rule) \<and> list_all integer [coalesce dstPort 0, acl_Priority rule, fst ports, snd ports]
          then Some (r\<lparr>ar_name := Some name, ar_action := action, ar_src_group_id := acl_SrcGroupID rule,
            ar_dst_group_id := acl_DstGroupID rule, ar_src_cidr := src, ar_dst_cidr := dst, ar_src_net := srcNet, ar_dst_net := dstNet,
            ar_dst_port := dstPort, ar_protocol := acl_Protocol rule, ar_min_port := fst ports, ar_max_port := snd ports,
            ar_direction := Some direction, ar_ports := Some (acl_Ports rule), ar_priority := acl_Priority rule,
            ar_enabled := acl_Enabled rule, ar_description := Some (acl_Description rule)\<rparr>)
          else None
      | _ \<Rightarrow> None)"

definition acl_nets :: "ACLRuleRecord \<Rightarrow> string \<times> string" where
  "acl_nets rule = (aclNetworkForSync (acl_SrcCIDR rule), aclNetworkForSync (acl_DstCIDR rule))"

definition new_acl_row :: "ACLRuleRecord \<Rightarrow> uuid \<Rightarrow> time \<Rightarrow> acl_rule_row" where
  "new_acl_row rule i now = \<lparr>ar_id = i, ar_tenant_id = acl_TenantID rule, ar_node_id = acl_NodeID rule, ar_name = None, ar_action = '''',
     ar_src_group_id = None, ar_dst_group_id = None, ar_src_cidr = None, ar_dst_cidr = None, ar_src_net = '''', ar_dst_net = '''',
     ar_dst_port = None, ar_protocol = 0, ar_min_port = 0, ar_max_port = 65535, ar_direction = None, ar_ports = None, ar_priority = 100,
     ar_enabled = True, ar_description = None, ar_created_at = now, ar_updated_at = now\<rparr>"

definition insert_acl_sql :: "sql_lib \<Rightarrow> ACLRuleRecord \<Rightarrow> uuid \<Rightarrow> time \<Rightarrow> tables \<Rightarrow> (tables \<times> acl_rule_row) option" where
  "insert_acl_sql lib rule i now t =
     (let stored = rule\<lparr>acl_Name := TrimSpace (acl_Name rule), acl_SrcCIDR := TrimSpace (acl_SrcCIDR rule),
        acl_DstCIDR := TrimSpace (acl_DstCIDR rule), acl_Description := TrimSpace (acl_Description rule)\<rparr> in
      case acl_columns lib stored (nullableInt (acl_DstPort rule)) (acl_nets rule) (aclPortRangeForSync (acl_DstPort rule)) (new_acl_row rule i now) of
        None \<Rightarrow> None
      | Some row \<Rightarrow>
          if (\<exists>r \<in> set (acl_rules t). ar_id r = i) \<or>
             \<not> rule_refs_ok (acl_TenantID rule) (acl_NodeID rule) [acl_SrcGroupID rule, acl_DstGroupID rule] t then None
          else Some (t\<lparr>acl_rules := acl_rules t @ [row]\<rparr>, row))"

definition createTenantNodeACLRule :: "sql_lib \<Rightarrow> ACLRuleRecord \<Rightarrow> bool \<Rightarrow> ACLRuleRecord op" where
  "createTenantNodeACLRule lib rule bumpDesiredVersion = (let rule = normalizeACLRuntimeFields rule in
     bnd (insert_op (insert_acl_sql lib rule)) (\<lambda>row.
     bnd (if bumpDesiredVersion then bumpNodeDesiredVersionWith (acl_TenantID rule) (acl_NodeID rule) else ret ()) (\<lambda>_.
     ret (scanACLRuleRecord row))))"

definition CreateTenantNodeACLRule :: "sql_lib \<Rightarrow> ACLRuleRecord \<Rightarrow> ACLRuleRecord op" where
  "CreateTenantNodeACLRule lib rule = createTenantNodeACLRule lib rule True"

definition acl_rule_is :: "uuid \<Rightarrow> uuid \<Rightarrow> uuid \<Rightarrow> acl_rule_row \<Rightarrow> bool" where
  "acl_rule_is tenantID nodeID ruleID r \<longleftrightarrow> ar_id r = ruleID \<and> ar_tenant_id r = tenantID \<and> ar_node_id r = nodeID"

definition deleteTenantNodeACLRuleByID :: "uuid \<Rightarrow> uuid \<Rightarrow> uuid \<Rightarrow> bool \<Rightarrow> unit op" where
  "deleteTenantNodeACLRuleByID tenantID nodeID ruleID bumpDesiredVersion =
     bnd (modify_op (\<lambda>_ t. (t\<lparr>acl_rules := filter (\<lambda>r. \<not> acl_rule_is tenantID nodeID ruleID r) (acl_rules t)\<rparr>,
       affected (acl_rule_is tenantID nodeID ruleID) (acl_rules t)))) (changed_rule bumpDesiredVersion tenantID nodeID)"

definition DeleteTenantNodeACLRuleByID :: "uuid \<Rightarrow> uuid \<Rightarrow> uuid \<Rightarrow> unit op" where
  "DeleteTenantNodeACLRuleByID tenantID nodeID ruleID = deleteTenantNodeACLRuleByID tenantID nodeID ruleID True"

definition GetTenantNodeACLRule :: "uuid \<Rightarrow> uuid \<Rightarrow> uuid \<Rightarrow> ACLRuleRecord op" where
  "GetTenantNodeACLRule tenantID nodeID ruleID =
     bnd (select_op (\<lambda>_ t. find (acl_rule_is tenantID nodeID ruleID) (acl_rules t))) (\<lambda>r. case r of
       None \<Rightarrow> throw ErrNoRows | Some r \<Rightarrow> ret (scanACLRuleRecord r))"

text \<open>
  An update writes the ranges, the port and the description as they come. The values are
  checked before the row is looked up, the references when a row changes.
\<close>

definition update_acl_sql :: "sql_lib \<Rightarrow> uuid \<Rightarrow> uuid \<Rightarrow> uuid \<Rightarrow> ACLRuleRecord \<Rightarrow> time \<Rightarrow> tables \<Rightarrow> (tables \<times> nat) option" where
  "update_acl_sql lib tenantID nodeID ruleID rule now t =
     (let change = acl_columns lib (rule\<lparr>acl_Name := TrimSpace (acl_Name rule)\<rparr>) (Some (acl_DstPort rule)) (acl_nets rule)
        (aclPortRangeForSync (acl_DstPort rule)); target = acl_rule_is tenantID nodeID ruleID in
      if change (new_acl_row rule ruleID now) = None then None
      else if list_ex target (acl_rules t) \<and> \<not> rule_refs_ok tenantID nodeID [acl_SrcGroupID rule, acl_DstGroupID rule] t then None
      else Some (t\<lparr>acl_rules := update_where target (\<lambda>r. (the (change r))\<lparr>ar_updated_at := now\<rparr>) (acl_rules t)\<rparr>,
        affected target (acl_rules t)))"

definition updateTenantNodeACLRule :: "sql_lib \<Rightarrow> uuid \<Rightarrow> uuid \<Rightarrow> uuid \<Rightarrow> ACLRuleRecord \<Rightarrow> bool \<Rightarrow> ACLRuleRecord op" where
  "updateTenantNodeACLRule lib tenantID nodeID ruleID rule bumpDesiredVersion = (let rule = normalizeACLRuntimeFields rule in
     bnd (write_op (update_acl_sql lib tenantID nodeID ruleID rule)) (\<lambda>n.
     bnd (changed_rule bumpDesiredVersion tenantID nodeID n) (\<lambda>_.
     bnd time_Now (\<lambda>now. ret (rule\<lparr>acl_ID := ruleID, acl_TenantID := tenantID, acl_NodeID := nodeID,
       acl_Name := TrimSpace (acl_Name rule), acl_UpdatedAt := now\<rparr>)))))"

definition UpdateTenantNodeACLRule :: "sql_lib \<Rightarrow> uuid \<Rightarrow> uuid \<Rightarrow> uuid \<Rightarrow> ACLRuleRecord \<Rightarrow> ACLRuleRecord op" where
  "UpdateTenantNodeACLRule lib tenantID nodeID ruleID rule = updateTenantNodeACLRule lib tenantID nodeID ruleID rule True"

section \<open>QoS rules\<close>

text \<open>A negative rate, which only a row without a rate can have, cannot be scanned into a \<^verbatim>\<open>uint64\<close>.\<close>

definition scanQoSRule :: "qos_rule_row \<Rightarrow> QoSRuleRecord option" where
  "scanQoSRule r =
     (let rate = coalesce (qr_rate_bps r) (qr_bandwidth_mbps r * 1000000); burst = coalesce (qr_burst_bytes r) (max (rate div 8 div 10) 1500) in
      if rate < 0 \<or> burst < 0 then None
      else Some \<lparr>qos_ID = qr_id r, qos_TenantID = qr_tenant_id r, qos_NodeID = qr_node_id r, qos_SrcCIDR = coalesce (qr_src_cidr r) '''',
        qos_DstCIDR = coalesce (qr_dst_cidr r) '''', qos_GroupID = qr_group_id r, qos_Group = None, qos_SrcPort = coalesce (qr_src_port r) 0,
        qos_DstPort = coalesce (qr_dst_port r) 0, qos_Protocol = coalesce (qr_protocol r) 0, qos_BandwidthMbps = qr_bandwidth_mbps r,
        qos_Direction = coalesce (qr_direction r) ''egress'', qos_RateBps = word_of_int rate, qos_BurstBytes = word_of_int burst,
        qos_Priority = coalesce (qr_priority r) 0, qos_Mode = coalesce (qr_mode r) ''auto'', qos_Enabled = qr_enabled r,
        qos_Description = coalesce (qr_description r) '''', qos_CreatedAt = qr_created_at r, qos_UpdatedAt = qr_updated_at r\<rparr>)"

definition scanned :: "'a option \<Rightarrow> 'a op" where
  "scanned r = (case r of None \<Rightarrow> throw DBError | Some x \<Rightarrow> ret x)"

definition qos_rules_of :: "uuid \<Rightarrow> uuid \<Rightarrow> bool \<Rightarrow> tables \<Rightarrow> qos_rule_row list" where
  "qos_rules_of tenantID nodeID enabledOnly t = nulls_last qr_priority (sort_key (\<lambda>r. - qr_created_at r)
     (filter (\<lambda>r. qr_tenant_id r = tenantID \<and> qr_node_id r = nodeID \<and> (enabledOnly \<longrightarrow> qr_enabled r)) (qos_rules t)))"

definition listTenantNodeQoSRules :: "uuid \<Rightarrow> uuid \<Rightarrow> bool \<Rightarrow> QoSRuleRecord list op" where
  "listTenantNodeQoSRules tenantID nodeID enabledOnly =
     bnd (select_op (\<lambda>_ t. qos_rules_of tenantID nodeID enabledOnly t)) (\<lambda>rows.
     bnd (for_collect (\<lambda>r. scanned (scanQoSRule r)) rows) check_op)"

definition ListTenantNodeQoSRules :: "uuid \<Rightarrow> uuid \<Rightarrow> QoSRuleRecord list op" where
  "ListTenantNodeQoSRules tenantID nodeID = listTenantNodeQoSRules tenantID nodeID False"

definition GetEnabledTenantNodeQoSRules :: "uuid \<Rightarrow> uuid \<Rightarrow> QoSRuleRecord list op" where
  "GetEnabledTenantNodeQoSRules tenantID nodeID = listTenantNodeQoSRules tenantID nodeID True"

text \<open>The driver refuses a \<^verbatim>\<open>uint64\<close> with the high bit set.\<close>

definition qos_columns :: "sql_lib \<Rightarrow> QoSRuleRecord \<Rightarrow> (int \<Rightarrow> int option) \<Rightarrow> qos_rule_row \<Rightarrow> qos_rule_row option" where
  "qos_columns lib rule null r =
     (case (varchar lib 16 (qos_Direction rule), varchar lib 16 (qos_Mode rule), cidr_column lib (qos_SrcCIDR rule), cidr_column lib (qos_DstCIDR rule)) of
        (Some direction, Some mode, Some src, Some dst) \<Rightarrow>
          if smallint (qos_Protocol rule) \<and> list_all integer [qos_SrcPort rule, qos_DstPort rule, qos_BandwidthMbps rule, qos_Priority rule] \<and>
             uint (qos_RateBps rule) < 2 ^ 63 \<and> uint (qos_BurstBytes rule) < 2 ^ 63
          then Some (r\<lparr>qr_group_id := qos_GroupID rule, qr_src_cidr := src, qr_dst_cidr := dst, qr_src_port := null (qos_SrcPort rule),
            qr_dst_port := null (qos_DstPort rule), qr_protocol := null (qos_Protocol rule), qr_bandwidth_mbps := qos_BandwidthMbps rule,
            qr_direction := Some direction, qr_rate_bps := Some (uint (qos_RateBps rule)), qr_burst_bytes := Some (uint (qos_BurstBytes rule)),
            qr_priority := Some (qos_Priority rule), qr_mode := Some mode, qr_enabled := qos_Enabled rule,
            qr_description := Some (qos_Description rule)\<rparr>)
          else None
      | _ \<Rightarrow> None)"

definition new_qos_row :: "QoSRuleRecord \<Rightarrow> uuid \<Rightarrow> time \<Rightarrow> qos_rule_row" where
  "new_qos_row rule i now = \<lparr>qr_id = i, qr_tenant_id = qos_TenantID rule, qr_node_id = qos_NodeID rule, qr_group_id = None, qr_src_cidr = None,
     qr_dst_cidr = None, qr_src_port = None, qr_dst_port = None, qr_protocol = None, qr_bandwidth_mbps = 0, qr_direction = None,
     qr_rate_bps = None, qr_burst_bytes = None, qr_priority = None, qr_mode = None, qr_enabled = True, qr_description = None,
     qr_created_at = now, qr_updated_at = now\<rparr>"

definition insert_qos_sql :: "sql_lib \<Rightarrow> QoSRuleRecord \<Rightarrow> uuid \<Rightarrow> time \<Rightarrow> tables \<Rightarrow> (tables \<times> qos_rule_row) option" where
  "insert_qos_sql lib rule i now t =
     (let stored = rule\<lparr>qos_SrcCIDR := TrimSpace (qos_SrcCIDR rule), qos_DstCIDR := TrimSpace (qos_DstCIDR rule),
        qos_Description := TrimSpace (qos_Description rule)\<rparr> in
      case qos_columns lib stored nullableInt (new_qos_row rule i now) of
        None \<Rightarrow> None
      | Some row \<Rightarrow>
          if (\<exists>r \<in> set (qos_rules t). qr_id r = i) \<or> \<not> rule_refs_ok (qos_TenantID rule) (qos_NodeID rule) [qos_GroupID rule] t then None
          else Some (t\<lparr>qos_rules := qos_rules t @ [row]\<rparr>, row))"

definition createTenantNodeQoSRule :: "sql_lib \<Rightarrow> QoSRuleRecord \<Rightarrow> bool \<Rightarrow> QoSRuleRecord op" where
  "createTenantNodeQoSRule lib rule bumpDesiredVersion = (let rule = normalizeQoSRuntimeFields rule in
     bnd (insert_op (insert_qos_sql lib rule)) (\<lambda>row.
     bnd (scanned (scanQoSRule row)) (\<lambda>created.
     bnd (if bumpDesiredVersion then bumpNodeDesiredVersionWith (qos_TenantID rule) (qos_NodeID rule) else ret ()) (\<lambda>_. ret created))))"

definition CreateTenantNodeQoSRule :: "sql_lib \<Rightarrow> QoSRuleRecord \<Rightarrow> QoSRuleRecord op" where
  "CreateTenantNodeQoSRule lib rule = createTenantNodeQoSRule lib rule True"

definition qos_rule_is :: "uuid \<Rightarrow> uuid \<Rightarrow> uuid \<Rightarrow> qos_rule_row \<Rightarrow> bool" where
  "qos_rule_is tenantID nodeID ruleID r \<longleftrightarrow> qr_id r = ruleID \<and> qr_tenant_id r = tenantID \<and> qr_node_id r = nodeID"

definition deleteTenantNodeQoSRule :: "uuid \<Rightarrow> uuid \<Rightarrow> uuid \<Rightarrow> bool \<Rightarrow> unit op" where
  "deleteTenantNodeQoSRule tenantID nodeID ruleID bumpDesiredVersion =
     bnd (modify_op (\<lambda>_ t. (t\<lparr>qos_rules := filter (\<lambda>r. \<not> qos_rule_is tenantID nodeID ruleID r) (qos_rules t)\<rparr>,
       affected (qos_rule_is tenantID nodeID ruleID) (qos_rules t)))) (changed_rule bumpDesiredVersion tenantID nodeID)"

definition DeleteTenantNodeQoSRule :: "uuid \<Rightarrow> uuid \<Rightarrow> uuid \<Rightarrow> unit op" where
  "DeleteTenantNodeQoSRule tenantID nodeID ruleID = deleteTenantNodeQoSRule tenantID nodeID ruleID True"

definition GetTenantNodeQoSRule :: "uuid \<Rightarrow> uuid \<Rightarrow> uuid \<Rightarrow> QoSRuleRecord op" where
  "GetTenantNodeQoSRule tenantID nodeID ruleID =
     bnd (select_op (\<lambda>_ t. find (qos_rule_is tenantID nodeID ruleID) (qos_rules t))) (\<lambda>r. case r of
       None \<Rightarrow> throw ErrNoRows | Some r \<Rightarrow> scanned (scanQoSRule r))"

definition update_qos_sql :: "sql_lib \<Rightarrow> uuid \<Rightarrow> uuid \<Rightarrow> uuid \<Rightarrow> QoSRuleRecord \<Rightarrow> time \<Rightarrow> tables \<Rightarrow> (tables \<times> nat) option" where
  "update_qos_sql lib tenantID nodeID ruleID rule now t =
     (let change = qos_columns lib rule Some; target = qos_rule_is tenantID nodeID ruleID in
      if change (new_qos_row rule ruleID now) = None then None
      else if list_ex target (qos_rules t) \<and> \<not> rule_refs_ok tenantID nodeID [qos_GroupID rule] t then None
      else Some (t\<lparr>qos_rules := update_where target (\<lambda>r. (the (change r))\<lparr>qr_updated_at := now\<rparr>) (qos_rules t)\<rparr>,
        affected target (qos_rules t)))"

definition updateTenantNodeQoSRule :: "sql_lib \<Rightarrow> uuid \<Rightarrow> uuid \<Rightarrow> uuid \<Rightarrow> QoSRuleRecord \<Rightarrow> bool \<Rightarrow> QoSRuleRecord op" where
  "updateTenantNodeQoSRule lib tenantID nodeID ruleID rule bumpDesiredVersion = (let rule = normalizeQoSRuntimeFields rule in
     bnd (write_op (update_qos_sql lib tenantID nodeID ruleID rule)) (\<lambda>n.
     bnd (changed_rule bumpDesiredVersion tenantID nodeID n) (\<lambda>_.
     bnd time_Now (\<lambda>now. ret (rule\<lparr>qos_ID := ruleID, qos_TenantID := tenantID, qos_NodeID := nodeID, qos_UpdatedAt := now\<rparr>)))))"

definition UpdateTenantNodeQoSRule :: "sql_lib \<Rightarrow> uuid \<Rightarrow> uuid \<Rightarrow> uuid \<Rightarrow> QoSRuleRecord \<Rightarrow> QoSRuleRecord op" where
  "UpdateTenantNodeQoSRule lib tenantID nodeID ruleID rule = updateTenantNodeQoSRule lib tenantID nodeID ruleID rule True"

section \<open>Blacklist rules\<close>

record BlacklistRuleRecord =
  bl_ID :: uuid
  bl_TenantID :: uuid
  bl_NodeID :: uuid
  bl_Scope :: string
  bl_CIDR :: string
  bl_Port :: int
  bl_Enabled :: bool
  bl_Description :: string
  bl_CreatedAt :: time
  bl_UpdatedAt :: time

abbreviation "BlacklistScopeSrc \<equiv> ''src''"
abbreviation "BlacklistScopeDst \<equiv> ''dst''"
abbreviation "BlacklistScopePorts \<equiv> ''ports''"

definition scanBlacklistRule :: "blacklist_row \<Rightarrow> BlacklistRuleRecord" where
  "scanBlacklistRule r = \<lparr>bl_ID = br_id r, bl_TenantID = br_tenant_id r, bl_NodeID = br_node_id r, bl_Scope = br_scope r,
     bl_CIDR = coalesce (br_cidr r) '''', bl_Port = coalesce (br_port r) 0, bl_Enabled = br_enabled r,
     bl_Description = coalesce (br_description r) '''', bl_CreatedAt = br_created_at r, bl_UpdatedAt = br_updated_at r\<rparr>"

definition ListTenantNodeBlacklistRules :: "uuid \<Rightarrow> uuid \<Rightarrow> string \<Rightarrow> BlacklistRuleRecord list op" where
  "ListTenantNodeBlacklistRules tenantID nodeID scope =
     bnd (select_op (\<lambda>_ t. sort_key (\<lambda>r. - br_created_at r)
       (filter (\<lambda>r. br_tenant_id r = tenantID \<and> br_node_id r = nodeID \<and> br_scope r = scope) (blacklist_rules t))))
       (\<lambda>rows. check_op (map scanBlacklistRule rows))"

definition insert_blacklist_sql :: "sql_lib \<Rightarrow> BlacklistRuleRecord \<Rightarrow> uuid \<Rightarrow> time \<Rightarrow> tables \<Rightarrow> (tables \<times> blacklist_row) option" where
  "insert_blacklist_sql lib rule i now t = (case cidr_column lib (TrimSpace (bl_CIDR rule)) of
       None \<Rightarrow> None
     | Some cidr \<Rightarrow>
         if bl_Scope rule \<notin> {BlacklistScopeSrc, BlacklistScopeDst, BlacklistScopePorts} \<or> \<not> integer (bl_Port rule) \<or>
            (\<exists>r \<in> set (blacklist_rules t). br_id r = i) \<or> \<not> rule_refs_ok (bl_TenantID rule) (bl_NodeID rule) [] t then None
         else let row = \<lparr>br_id = i, br_tenant_id = bl_TenantID rule, br_node_id = bl_NodeID rule, br_scope = bl_Scope rule, br_cidr = cidr,
                br_port = nullableInt (bl_Port rule), br_enabled = bl_Enabled rule, br_description = Some (TrimSpace (bl_Description rule)),
                br_created_at = now, br_updated_at = now\<rparr>
           in Some (t\<lparr>blacklist_rules := blacklist_rules t @ [row]\<rparr>, row))"

definition createTenantNodeBlacklistRule :: "sql_lib \<Rightarrow> BlacklistRuleRecord \<Rightarrow> bool \<Rightarrow> BlacklistRuleRecord op" where
  "createTenantNodeBlacklistRule lib rule bumpDesiredVersion =
     bnd (insert_op (insert_blacklist_sql lib rule)) (\<lambda>row.
     bnd (if bumpDesiredVersion then bumpNodeDesiredVersionWith (bl_TenantID rule) (bl_NodeID rule) else ret ()) (\<lambda>_.
     ret (scanBlacklistRule row)))"

definition CreateTenantNodeBlacklistRule :: "sql_lib \<Rightarrow> BlacklistRuleRecord \<Rightarrow> BlacklistRuleRecord op" where
  "CreateTenantNodeBlacklistRule lib rule = createTenantNodeBlacklistRule lib rule True"

definition deleteTenantNodeBlacklistRuleByID :: "uuid \<Rightarrow> uuid \<Rightarrow> string \<Rightarrow> uuid \<Rightarrow> bool \<Rightarrow> unit op" where
  "deleteTenantNodeBlacklistRuleByID tenantID nodeID scope ruleID bumpDesiredVersion =
     (let target = (\<lambda>r. br_id r = ruleID \<and> br_tenant_id r = tenantID \<and> br_node_id r = nodeID \<and> br_scope r = scope) in
      bnd (modify_op (\<lambda>_ t. (t\<lparr>blacklist_rules := filter (\<lambda>r. \<not> target r) (blacklist_rules t)\<rparr>, affected target (blacklist_rules t))))
        (changed_rule bumpDesiredVersion tenantID nodeID))"

definition DeleteTenantNodeBlacklistRuleByID :: "uuid \<Rightarrow> uuid \<Rightarrow> string \<Rightarrow> uuid \<Rightarrow> unit op" where
  "DeleteTenantNodeBlacklistRuleByID tenantID nodeID scope ruleID = deleteTenantNodeBlacklistRuleByID tenantID nodeID scope ruleID True"

definition DeleteTenantNodePortBlacklistRule :: "uuid \<Rightarrow> uuid \<Rightarrow> int \<Rightarrow> unit op" where
  "DeleteTenantNodePortBlacklistRule tenantID nodeID port =
     (let target = (\<lambda>r. br_tenant_id r = tenantID \<and> br_node_id r = nodeID \<and> br_scope r = BlacklistScopePorts \<and> br_port r = Some port) in
      if \<not> integer port then throw DBError
      else bnd (modify_op (\<lambda>_ t. (t\<lparr>blacklist_rules := filter (\<lambda>r. \<not> target r) (blacklist_rules t)\<rparr>, affected target (blacklist_rules t))))
        (changed_rule True tenantID nodeID))"

section \<open>The rules of a node by its key\<close>

text \<open>\<^verbatim>\<open>GetNode\<close> returns no error and no node for an unknown key; the code then dereferences nil.\<close>

definition of_node :: "string \<Rightarrow> (Node \<Rightarrow> 'a op) \<Rightarrow> 'a op" where
  "of_node publicKey f = bnd (GetNode publicKey) (\<lambda>n. case n of None \<Rightarrow> throw (GoPanic ''nil pointer dereference'') | Some node \<Rightarrow> f node)"

definition GetNodeQoSRulesByPublicKey :: "string \<Rightarrow> QoSRuleRecord list op" where
  "GetNodeQoSRulesByPublicKey publicKey = of_node publicKey (\<lambda>node. listTenantNodeQoSRules (nd_TenantID node) (nd_ID node) True)"

definition GetNodeACLRulesByPublicKey :: "string \<Rightarrow> ACLRuleRecord list op" where
  "GetNodeACLRulesByPublicKey publicKey = of_node publicKey (\<lambda>node. GetEnabledTenantNodeACLRules (nd_TenantID node) (nd_ID node))"

definition GetNodeBlacklistRulesByPublicKey :: "sql_lib \<Rightarrow> string \<Rightarrow> BlacklistRuleRecord list op" where
  "GetNodeBlacklistRulesByPublicKey lib publicKey = of_node publicKey (\<lambda>node.
     bnd (select_op (\<lambda>_ t. sort_key (\<lambda>r. sql_collate lib (br_scope r)) (sort_key br_created_at
       (filter (\<lambda>r. br_tenant_id r = nd_TenantID node \<and> br_node_id r = nd_ID node \<and> br_enabled r) (blacklist_rules t)))))
       (\<lambda>rows. check_op (map scanBlacklistRule rows)))"

section \<open>Inside a policy transaction\<close>

text \<open>The methods of \<^verbatim>\<open>PolicyMutationTx\<close>: the sync that follows writes the desired version.\<close>

definition tx_CreateTenantNodeACLRule :: "sql_lib \<Rightarrow> ACLRuleRecord \<Rightarrow> ACLRuleRecord op" where
  "tx_CreateTenantNodeACLRule lib rule = createTenantNodeACLRule lib rule False"

definition tx_UpdateTenantNodeACLRule :: "sql_lib \<Rightarrow> uuid \<Rightarrow> uuid \<Rightarrow> uuid \<Rightarrow> ACLRuleRecord \<Rightarrow> ACLRuleRecord op" where
  "tx_UpdateTenantNodeACLRule lib tenantID nodeID ruleID rule = updateTenantNodeACLRule lib tenantID nodeID ruleID rule False"

definition tx_DeleteTenantNodeACLRuleByID :: "uuid \<Rightarrow> uuid \<Rightarrow> uuid \<Rightarrow> unit op" where
  "tx_DeleteTenantNodeACLRuleByID tenantID nodeID ruleID = deleteTenantNodeACLRuleByID tenantID nodeID ruleID False"

definition tx_CreateTenantNodeQoSRule :: "sql_lib \<Rightarrow> QoSRuleRecord \<Rightarrow> QoSRuleRecord op" where
  "tx_CreateTenantNodeQoSRule lib rule = createTenantNodeQoSRule lib rule False"

definition tx_UpdateTenantNodeQoSRule :: "sql_lib \<Rightarrow> uuid \<Rightarrow> uuid \<Rightarrow> uuid \<Rightarrow> QoSRuleRecord \<Rightarrow> QoSRuleRecord op" where
  "tx_UpdateTenantNodeQoSRule lib tenantID nodeID ruleID rule = updateTenantNodeQoSRule lib tenantID nodeID ruleID rule False"

definition tx_DeleteTenantNodeQoSRule :: "uuid \<Rightarrow> uuid \<Rightarrow> uuid \<Rightarrow> unit op" where
  "tx_DeleteTenantNodeQoSRule tenantID nodeID ruleID = deleteTenantNodeQoSRule tenantID nodeID ruleID False"

definition tx_CreateTenantNodeBlacklistRule :: "sql_lib \<Rightarrow> BlacklistRuleRecord \<Rightarrow> BlacklistRuleRecord op" where
  "tx_CreateTenantNodeBlacklistRule lib rule = createTenantNodeBlacklistRule lib rule False"

definition tx_DeleteTenantNodeBlacklistRuleByID :: "uuid \<Rightarrow> uuid \<Rightarrow> string \<Rightarrow> uuid \<Rightarrow> unit op" where
  "tx_DeleteTenantNodeBlacklistRuleByID tenantID nodeID scope ruleID = deleteTenantNodeBlacklistRuleByID tenantID nodeID scope ruleID False"

definition UpdateTenantNodeRoutes :: "uuid \<Rightarrow> uuid \<Rightarrow> string list \<Rightarrow> unit op" where
  "UpdateTenantNodeRoutes nodeID tenantID routes = require_row (modify_op (update_nodes_sql
     (\<lambda>r. node_id r = nodeID \<and> node_tenant_id r = tenantID)
     (\<lambda>now r. r\<lparr>node_advertised_routes := routes, node_updated_at := now\<rparr>)))"

definition UpdateTenantNodeAdvertisedRoutes :: "uuid \<Rightarrow> uuid \<Rightarrow> string list \<Rightarrow> unit op" where
  "UpdateTenantNodeAdvertisedRoutes nodeID tenantID routes = require_row (modify_op (update_nodes_sql
     (\<lambda>r. node_id r = nodeID \<and> node_tenant_id r = tenantID \<and> live_row r)
     (\<lambda>now r. r\<lparr>node_advertised_routes := routes, node_updated_at := now\<rparr>)))"

text \<open>\<open>build\<close> is the caller's function; \<open>None\<close> is a nil builder.\<close>

definition UpdateIPGroupAndQueuePolicySyncs ::
    "sql_lib \<Rightarrow> uuid \<Rightarrow> uuid \<Rightarrow> IPGroupRecord option \<Rightarrow> (IPGroupRecord \<Rightarrow> Node list \<Rightarrow> PolicySyncRequest list op) option \<Rightarrow>
     (IPGroupRecord \<times> PolicySyncResult list) op" where
  "UpdateIPGroupAndQueuePolicySyncs lib tenantID groupID grp build =
     bnd (transaction (
       bnd (updateIPGroupWith lib tenantID groupID grp) (\<lambda>updated.
       bnd (listNodesReferencingIPGroupWith lib tenantID groupID) (\<lambda>nodes.
       bnd (case build of None \<Rightarrow> ret [] | Some f \<Rightarrow> f updated nodes) (\<lambda>requests.
       bnd (for_collect queuePolicySyncTx requests) (\<lambda>results.
       ret (TxCommit (requests, updated, results))))))))
     (\<lambda>(requests, updated, results).
       bnd (for_each (\<lambda>(req, result). recordCommandQueuedAudit req (rs_Command result)) (zip requests results)) (\<lambda>_.
       ret (updated, results)))"

section \<open>A rule operation keeps to its node\<close>

text \<open>The rules of every other node, tenant by tenant.\<close>

definition other_rules :: "uuid \<Rightarrow> uuid \<Rightarrow> tables \<Rightarrow> acl_rule_row list \<times> qos_rule_row list \<times> blacklist_row list" where
  "other_rules tenantID nodeID t =
     (filter (\<lambda>r. \<not> (ar_tenant_id r = tenantID \<and> ar_node_id r = nodeID)) (acl_rules t),
      filter (\<lambda>r. \<not> (qr_tenant_id r = tenantID \<and> qr_node_id r = nodeID)) (qos_rules t),
      filter (\<lambda>r. \<not> (br_tenant_id r = tenantID \<and> br_node_id r = nodeID)) (blacklist_rules t))"

interpretation rule_frame: table_frame "other_rules tenantID nodeID" for tenantID nodeID .

lemma filter_update_where_other:
  "(\<And>r. P r \<Longrightarrow> \<not> Q r \<and> \<not> Q (f r)) \<Longrightarrow> filter Q (update_where P f rows) = filter Q rows"
  by (induction rows) (simp_all add: update_where_def)

lemma filter_filter_other: "(\<And>r. \<not> P r \<Longrightarrow> \<not> Q r) \<Longrightarrow> filter Q (filter P rows) = filter Q rows"
  by (induction rows) auto

lemma keeps_without_control: "keeps without_control t u \<Longrightarrow> keeps (other_rules tenantID nodeID) t u"
  unfolding keeps_def without_control_def other_rules_def
  by (auto dest: arg_cong [where f = acl_rules] arg_cong [where f = qos_rules] arg_cong [where f = blacklist_rules])

lemma bump_keeps_rules: "maintains (keeps (other_rules tenantID nodeID)) (bumpNodeDesiredVersionWith tenant node)"
  by (rule maintains_mono [OF maintains_bump(1) keeps_without_control])

lemma changed_keeps_rules: "maintains (keeps (other_rules tenantID nodeID)) (changed_rule bump tenant node n)"
  unfolding changed_rule_def by (intro maintains_rules bump_keeps_rules)

lemma scanned_keeps: "maintains (keeps part) (scanned r)"
  by (cases r) (simp_all add: scanned_def maintains_def keeps_def ret_def throw_def)

lemma acl_columns_keys:
  "acl_columns lib rule p nets ports r = Some r' \<Longrightarrow> ar_id r' = ar_id r \<and> ar_tenant_id r' = ar_tenant_id r \<and> ar_node_id r' = ar_node_id r"
  by (auto simp: acl_columns_def split: option.split_asm if_split_asm)

lemma acl_columns_total:
  "acl_columns lib rule p nets ports r \<noteq> None \<Longrightarrow> \<exists>q. acl_columns lib rule p nets ports r2 = Some q"
  by (auto simp: acl_columns_def split: option.split_asm option.split if_split_asm)

lemma qos_columns_keys:
  "qos_columns lib rule null r = Some r' \<Longrightarrow> qr_id r' = qr_id r \<and> qr_tenant_id r' = qr_tenant_id r \<and> qr_node_id r' = qr_node_id r"
  by (auto simp: qos_columns_def split: option.split_asm if_split_asm)

lemma qos_columns_total:
  "qos_columns lib rule null r \<noteq> None \<Longrightarrow> \<exists>q. qos_columns lib rule null r2 = Some q"
  by (auto simp: qos_columns_def split: option.split_asm option.split if_split_asm)

lemma normal_rule_keys [simp]:
  "acl_TenantID (normalizeACLRuntimeFields rule) = acl_TenantID rule" "acl_NodeID (normalizeACLRuntimeFields rule) = acl_NodeID rule"
  by (simp_all add: normalizeACLRuntimeFields_def Let_def)

lemma normal_qos_keys [simp]:
  "qos_TenantID (normalizeQoSRuntimeFields q) = qos_TenantID q" "qos_NodeID (normalizeQoSRuntimeFields q) = qos_NodeID q"
  by (simp_all add: normalizeQoSRuntimeFields_def Let_def)

lemma insert_acl_row:
  assumes "insert_acl_sql lib rule i now t = Some (t', row)"
  shows "t' = t\<lparr>acl_rules := acl_rules t @ [row]\<rparr>" "ar_id row = i" "ar_tenant_id row = acl_TenantID rule" "ar_node_id row = acl_NodeID rule"
    "i \<notin> ar_id ` set (acl_rules t)"
  using assms by (auto simp: insert_acl_sql_def Let_def new_acl_row_def split: option.split_asm if_split_asm dest!: acl_columns_keys)

lemma insert_qos_row:
  assumes "insert_qos_sql lib rule i now t = Some (t', row)"
  shows "t' = t\<lparr>qos_rules := qos_rules t @ [row]\<rparr>" "qr_id row = i" "qr_tenant_id row = qos_TenantID rule" "qr_node_id row = qos_NodeID rule"
    "i \<notin> qr_id ` set (qos_rules t)"
  using assms by (auto simp: insert_qos_sql_def Let_def new_qos_row_def split: option.split_asm if_split_asm dest!: qos_columns_keys)

lemma update_acl_frame:
  assumes "update_acl_sql lib tenantID nodeID ruleID rule now t = Some (t', n)"
  shows "other_rules tenantID nodeID t' = other_rules tenantID nodeID t"
proof -
  let ?change = "acl_columns lib (rule\<lparr>acl_Name := TrimSpace (acl_Name rule)\<rparr>) (Some (acl_DstPort rule)) (acl_nets rule) (aclPortRangeForSync (acl_DstPort rule))"
  from assms have some: "?change (new_acl_row rule ruleID now) \<noteq> None"
      and t': "t' = t\<lparr>acl_rules := update_where (acl_rule_is tenantID nodeID ruleID) (\<lambda>r. (the (?change r))\<lparr>ar_updated_at := now\<rparr>) (acl_rules t)\<rparr>"
    by (auto simp: update_acl_sql_def Let_def split: if_split_asm)
  have "ar_tenant_id (the (?change r)) = ar_tenant_id r \<and> ar_node_id (the (?change r)) = ar_node_id r" for r
    using acl_columns_total [OF some, of r] acl_columns_keys by fastforce
  then have "filter (\<lambda>r. \<not> (ar_tenant_id r = tenantID \<and> ar_node_id r = nodeID)) (acl_rules t') =
      filter (\<lambda>r. \<not> (ar_tenant_id r = tenantID \<and> ar_node_id r = nodeID)) (acl_rules t)"
    unfolding t' by simp (rule filter_update_where_other, simp add: acl_rule_is_def)
  then show ?thesis by (simp add: other_rules_def t')
qed

lemma update_qos_frame:
  assumes "update_qos_sql lib tenantID nodeID ruleID rule now t = Some (t', n)"
  shows "other_rules tenantID nodeID t' = other_rules tenantID nodeID t"
proof -
  let ?change = "qos_columns lib rule Some"
  from assms have some: "?change (new_qos_row rule ruleID now) \<noteq> None"
      and t': "t' = t\<lparr>qos_rules := update_where (qos_rule_is tenantID nodeID ruleID) (\<lambda>r. (the (?change r))\<lparr>qr_updated_at := now\<rparr>) (qos_rules t)\<rparr>"
    by (auto simp: update_qos_sql_def Let_def split: if_split_asm)
  have "qr_tenant_id (the (?change r)) = qr_tenant_id r \<and> qr_node_id (the (?change r)) = qr_node_id r" for r
    using qos_columns_total [OF some, of r] qos_columns_keys by fastforce
  then have "filter (\<lambda>r. \<not> (qr_tenant_id r = tenantID \<and> qr_node_id r = nodeID)) (qos_rules t') =
      filter (\<lambda>r. \<not> (qr_tenant_id r = tenantID \<and> qr_node_id r = nodeID)) (qos_rules t)"
    unfolding t' by simp (rule filter_update_where_other, simp add: qos_rule_is_def)
  then show ?thesis by (simp add: other_rules_def t')
qed

lemma insert_frames:
  "insert_acl_sql lib acl i now t = Some (t', a) \<Longrightarrow> keeps (other_rules (acl_TenantID acl) (acl_NodeID acl)) t t'"
  "insert_qos_sql lib q i now t = Some (t', b) \<Longrightarrow> keeps (other_rules (qos_TenantID q) (qos_NodeID q)) t t'"
  "insert_blacklist_sql lib bl i now t = Some (t', c) \<Longrightarrow> keeps (other_rules (bl_TenantID bl) (bl_NodeID bl)) t t'"
  unfolding keeps_def other_rules_def
  subgoal using insert_acl_row [of lib acl i now t t' a] by simp
  subgoal using insert_qos_row [of lib q i now t t' b] by simp
  subgoal by (auto simp: insert_blacklist_sql_def Let_def split: option.split_asm if_split_asm)
  done

lemma delete_frames:
  "other_rules tenantID nodeID (t\<lparr>acl_rules := filter (\<lambda>r. \<not> acl_rule_is tenantID nodeID ruleID r) (acl_rules t)\<rparr>) = other_rules tenantID nodeID t"
  "other_rules tenantID nodeID (t\<lparr>qos_rules := filter (\<lambda>r. \<not> qos_rule_is tenantID nodeID ruleID r) (qos_rules t)\<rparr>) = other_rules tenantID nodeID t"
  "(\<And>r. P r \<Longrightarrow> br_tenant_id r = tenantID \<and> br_node_id r = nodeID) \<Longrightarrow>
     other_rules tenantID nodeID (t\<lparr>blacklist_rules := filter (\<lambda>r. \<not> P r) (blacklist_rules t)\<rparr>) = other_rules tenantID nodeID t"
  unfolding other_rules_def by (auto simp: acl_rule_is_def qos_rule_is_def intro!: filter_cong)

text \<open>Every operation, refused or served, keeps the rules of the other nodes.\<close>

lemma rule_ops_keep:
  "maintains (keeps (other_rules (acl_TenantID acl) (acl_NodeID acl))) (createTenantNodeACLRule lib acl bump)"
  "maintains (keeps (other_rules tenantID nodeID)) (updateTenantNodeACLRule lib tenantID nodeID ruleID acl bump)"
  "maintains (keeps (other_rules tenantID nodeID)) (deleteTenantNodeACLRuleByID tenantID nodeID ruleID bump)"
  "maintains (keeps (other_rules (qos_TenantID q) (qos_NodeID q))) (createTenantNodeQoSRule lib q bump)"
  "maintains (keeps (other_rules tenantID nodeID)) (updateTenantNodeQoSRule lib tenantID nodeID ruleID q bump)"
  "maintains (keeps (other_rules tenantID nodeID)) (deleteTenantNodeQoSRule tenantID nodeID ruleID bump)"
  "maintains (keeps (other_rules (bl_TenantID bl) (bl_NodeID bl))) (createTenantNodeBlacklistRule lib bl bump)"
  "maintains (keeps (other_rules tenantID nodeID)) (deleteTenantNodeBlacklistRuleByID tenantID nodeID scope ruleID bump)"
  "maintains (keeps (other_rules tenantID nodeID)) (DeleteTenantNodePortBlacklistRule tenantID nodeID port)"
proof -
  note rules = maintains_rules bump_keeps_rules changed_keeps_rules scanned_keeps
  show "maintains (keeps (other_rules (acl_TenantID acl) (acl_NodeID acl))) (createTenantNodeACLRule lib acl bump)"
    by (unfold createTenantNodeACLRule_def Let_def, intro rules) (frule insert_frames(1), simp)
  show "maintains (keeps (other_rules tenantID nodeID)) (updateTenantNodeACLRule lib tenantID nodeID ruleID acl bump)"
    by (unfold updateTenantNodeACLRule_def Let_def, intro rules) (simp add: keeps_def update_acl_frame)
  show "maintains (keeps (other_rules tenantID nodeID)) (deleteTenantNodeACLRuleByID tenantID nodeID ruleID bump)"
    by (unfold deleteTenantNodeACLRuleByID_def, intro rules) (simp add: keeps_def delete_frames(1))
  show "maintains (keeps (other_rules (qos_TenantID q) (qos_NodeID q))) (createTenantNodeQoSRule lib q bump)"
    by (unfold createTenantNodeQoSRule_def Let_def, intro rules) (frule insert_frames(2), simp)
  show "maintains (keeps (other_rules tenantID nodeID)) (updateTenantNodeQoSRule lib tenantID nodeID ruleID q bump)"
    by (unfold updateTenantNodeQoSRule_def Let_def, intro rules) (simp add: keeps_def update_qos_frame)
  show "maintains (keeps (other_rules tenantID nodeID)) (deleteTenantNodeQoSRule tenantID nodeID ruleID bump)"
    by (unfold deleteTenantNodeQoSRule_def, intro rules) (simp add: keeps_def delete_frames(2))
  show "maintains (keeps (other_rules (bl_TenantID bl) (bl_NodeID bl))) (createTenantNodeBlacklistRule lib bl bump)"
    by (unfold createTenantNodeBlacklistRule_def, intro rules) (erule insert_frames(3))
  show "maintains (keeps (other_rules tenantID nodeID)) (deleteTenantNodeBlacklistRuleByID tenantID nodeID scope ruleID bump)"
    by (unfold deleteTenantNodeBlacklistRuleByID_def Let_def, intro rules) (unfold keeps_def fst_conv, rule delete_frames(3), simp)
  show "maintains (keeps (other_rules tenantID nodeID)) (DeleteTenantNodePortBlacklistRule tenantID nodeID port)"
    by (unfold DeleteTenantNodePortBlacklistRule_def Let_def, intro rules) (unfold keeps_def fst_conv, rule delete_frames(3), simp)
qed

text \<open>
  (C10) Every operation on the rules of a node, refused or served, with or without a new desired
  version, leaves the rules of all other nodes and of all other tenants as they were.
\<close>

theorem rule_changes_stay_in_node:
  "other_rules (acl_TenantID acl) (acl_NodeID acl) (tab (snd (createTenantNodeACLRule lib acl bump s))) = other_rules (acl_TenantID acl) (acl_NodeID acl) (tab s) \<and>
   other_rules tenantID nodeID (tab (snd (updateTenantNodeACLRule lib tenantID nodeID ruleID acl bump s))) = other_rules tenantID nodeID (tab s) \<and>
   other_rules tenantID nodeID (tab (snd (deleteTenantNodeACLRuleByID tenantID nodeID ruleID bump s))) = other_rules tenantID nodeID (tab s) \<and>
   other_rules (qos_TenantID q) (qos_NodeID q) (tab (snd (createTenantNodeQoSRule lib q bump s))) = other_rules (qos_TenantID q) (qos_NodeID q) (tab s) \<and>
   other_rules tenantID nodeID (tab (snd (updateTenantNodeQoSRule lib tenantID nodeID ruleID q bump s))) = other_rules tenantID nodeID (tab s) \<and>
   other_rules tenantID nodeID (tab (snd (deleteTenantNodeQoSRule tenantID nodeID ruleID bump s))) = other_rules tenantID nodeID (tab s) \<and>
   other_rules (bl_TenantID bl) (bl_NodeID bl) (tab (snd (createTenantNodeBlacklistRule lib bl bump s))) = other_rules (bl_TenantID bl) (bl_NodeID bl) (tab s) \<and>
   other_rules tenantID nodeID (tab (snd (deleteTenantNodeBlacklistRuleByID tenantID nodeID scope ruleID bump s))) = other_rules tenantID nodeID (tab s) \<and>
   other_rules tenantID nodeID (tab (snd (DeleteTenantNodePortBlacklistRule tenantID nodeID port s))) = other_rules tenantID nodeID (tab s)"
  by (intro conjI rule_ops_keep [THEN rule_frame.frame_run [OF _ prod.collapse [symmetric]]])

section \<open>Rules read back\<close>

lemma bump_Inr:
  assumes "bumpNodeDesiredVersionWith tenant node s = (Inr x, t)"
  shows "acl_rules (tab t) = acl_rules (tab s) \<and> qos_rules (tab t) = qos_rules (tab s)"
  using maintainsD [OF maintains_bump(1) assms] unfolding keeps_def without_control_def
  by (auto dest: arg_cong [where f = acl_rules] arg_cong [where f = qos_rules])

lemma net_column:
  assumes "cidr_column lib (TrimSpace c) = Some x" and "sql_cidr lib (aclNetworkForSync c) = Some n"
  shows "coalesce x n = n"
  using assms by (cases "TrimSpace c = ''''") (auto simp: cidr_column_def aclNetworkForSync_def coalesce_def split: option.split_asm option.split)

lemma create_acl_exact:
  assumes "createTenantNodeACLRule lib rule bump s = (Inr created, t)"
  obtains row where "created = scanACLRuleRecord row" "acl_rules (tab t) = acl_rules (tab s) @ [row]"
    "insert_acl_sql lib (normalizeACLRuntimeFields rule) (uuid_of s (uuid_ctr s)) (db_now s) (tab s) = Some ((tab s)\<lparr>acl_rules := acl_rules (tab s) @ [row]\<rparr>, row)"
proof -
  let ?rule = "normalizeACLRuntimeFields rule"
  from assms obtain row u y where i: "insert_op (insert_acl_sql lib ?rule) s = (Inr row, u)"
      and b: "(if bump then bumpNodeDesiredVersionWith (acl_TenantID ?rule) (acl_NodeID ?rule) else ret ()) u = (Inr y, t)"
      and c: "created = scanACLRuleRecord row"
    by (auto simp: createTenantNodeACLRule_def Let_def run_Inr)
  from b have "acl_rules (tab t) = acl_rules (tab u)" by (auto simp: run_Inr split: if_split_asm dest: bump_Inr)
  moreover note ins = insert_Inr(1) [OF i] insert_acl_row(1) [OF insert_Inr(1) [OF i]]
  ultimately show ?thesis using that [OF c] by simp
qed


definition rule_sample :: db where
  "rule_sample = group_sample\<lparr>tab := (tab group_sample)\<lparr>nodes := [\<lparr>node_id = ''n1'', node_public_key = ''k1'', node_machine_id = '''',
     node_tenant_id = ''t1'', node_endpoint = '''', node_private_ip = '''', node_public_ip = '''', node_region = '''', node_vpc_id = '''',
     node_hostname = ''h'', node_assigned_ip = '''', node_ip_offset = 1, node_last_seen = 0, node_registered_at = 0, node_role = '''',
     node_runtime_mode = None, node_kernel_version = None, node_has_aesni = None, node_status = Some ''online'', node_offline_since = None,
     node_advertised_routes = [], node_enrolled_with_token = None, node_runtime_token_version = None, node_created_at = 0,
     node_updated_at = 0\<rparr>]\<rparr>\<rparr>"

definition rule_request :: ACLRuleRecord where
  "rule_request = \<lparr>acl_ID = uuid_Nil, acl_TenantID = ''t1'', acl_NodeID = ''n1'', acl_Name = ''web'', acl_Action = ''allow'', acl_SrcCIDR = '''',
     acl_DstCIDR = ''10.0.0.0/8'', acl_SrcGroupID = None, acl_DstGroupID = None, acl_SrcGroup = None, acl_DstGroup = None, acl_DstPort = 443,
     acl_Protocol = 6, acl_Direction = '''', acl_Ports = '''', acl_Priority = 10, acl_Enabled = True, acl_Description = '''', acl_CreatedAt = 0,
     acl_UpdatedAt = 0\<rparr>"


text \<open>
  Outside a policy transaction the rule and the new desired version are two statements: when the
  second one fails the call reports an error and the rule is stored.
\<close>

theorem rule_stored_without_version:
  "let run = CreateTenantNodeACLRule plain_sql rule_request (rule_sample\<lparr>faults := [False, True]\<rparr>) in
     fst run = Inl DBError \<and> length (acl_rules (tab (snd run))) = 1 \<and> node_control_states (tab (snd run)) = []"
  by code_simp

section \<open>A group changes together with the syncs of its nodes\<close>

lemma audits_total: "\<exists>t. for_each (\<lambda>(req, result). recordCommandQueuedAudit req (rs_Command result)) xs s = (Inr (), t)"
proof (induction xs arbitrary: s)
  case (Cons x xs)
  obtain u where "recordCommandQueuedAudit (fst x) (rs_Command (snd x)) s = (Inr (), u)" using recordAudit_total by blast
  with Cons [of u] show ?case by (simp add: bnd_def split_beta)
qed (simp add: ret_def)

lemma audits_keep: "maintains (keeps without_alerts) (for_each (\<lambda>(req, result). recordCommandQueuedAudit req (rs_Command result)) xs)"
  by (intro maintains_rules)

lemma queue_sync_ids:
  assumes "queuePolicySyncTx req s = (Inr res, t)"
  shows "cmd_id ` set (agent_commands (tab s)) \<subseteq> cmd_id ` set (agent_commands (tab t))"
    "ac_ID (rs_Command res) \<in> cmd_id ` set (agent_commands (tab t))"
proof -
  obtain req' c where c: "agent_commands (tab t) = synced_commands req' (db_now s) (tab s) @ [c]" "rs_Command res = scanAgentCommandRow c"
    by (rule queue_sync_Inr [OF assms])
  have "cmd_id ` set (synced_commands req' (db_now s) (tab s)) = cmd_id ` set (agent_commands (tab s))"
    using map_synced_id(1) [of req' "db_now s" "tab s"] by (metis set_map)
  then show "cmd_id ` set (agent_commands (tab s)) \<subseteq> cmd_id ` set (agent_commands (tab t))"
    "ac_ID (rs_Command res) \<in> cmd_id ` set (agent_commands (tab t))"
    by (auto simp: c scanAgentCommandRow_def)
qed

lemma queue_syncs_ids:
  assumes "for_collect queuePolicySyncTx reqs s = (Inr results, t)"
  shows "cmd_id ` set (agent_commands (tab s)) \<subseteq> cmd_id ` set (agent_commands (tab t)) \<and>
    (\<forall>r \<in> set results. ac_ID (rs_Command r) \<in> cmd_id ` set (agent_commands (tab t)))"
  using assms
proof (induction reqs arbitrary: s results)
  case (Cons q reqs)
  from Cons.prems obtain r u rs where q: "queuePolicySyncTx q s = (Inr r, u)"
      and rest: "for_collect queuePolicySyncTx reqs u = (Inr rs, t)" and results: "results = r # rs"
    by (auto simp: run_Inr)
  from Cons.IH [OF rest] queue_sync_ids [OF q] show ?case unfolding results by auto
qed (simp add: run_Inr)


definition sync_sample :: db where
  "sync_sample = rule_sample\<lparr>tab := (tab rule_sample)\<lparr>ip_groups := ip_groups (tab deletable_sample),
     ip_group_members := ip_group_members (tab deletable_sample)\<rparr>\<rparr>"

definition sync_request :: PolicySyncRequest where
  "sync_request = \<lparr>rq_TenantID = ''t1'', rq_NodeID = ''n1'', rq_NodePublicKey = ''k1'', rq_Domain = ''acl'', rq_Action = ''update'',
     rq_PolicyRef = ''r'', rq_PolicyName = '''', rq_DesiredStateVersion = ''v2'', rq_DesiredMetadata = [], rq_CommandParams = [],
     rq_DeliveryMetadata = [], rq_Priority = 0, rq_TimeoutSeconds = 0\<rparr>"


end
