(* ===== verification/Agent_Sync.thy ===== *)
theory Agent_Sync
  imports Agent_Service Policy_Rules Policy_Snapshot
begin

text \<open>
  The sync of an agent: the \<^verbatim>\<open>Sync\<close> call of \<^verbatim>\<open>grpc/server.go\<close> with the adapter it runs
  (\<^verbatim>\<open>processSync\<close> and \<^verbatim>\<open>createSyncAdapter\<close> of \<^verbatim>\<open>cli/controller_serve.go\<close>), and the answer to a
  registration over HTTP (\<^verbatim>\<open>HandleRegister\<close>, \<^verbatim>\<open>syncNode\<close>).
\<close>

text \<open>\<^verbatim>\<open>fmt.Errorf("msg: %w", err)\<close> around the error of a call; a panic is not an error.\<close>

definition wrapped :: "string \<Rightarrow> 'a op \<Rightarrow> 'a op" where
  "wrapped msg m = bnd (attempt m) (\<lambda>r. case r of
       Inr x \<Rightarrow> ret x
     | Inl e \<Rightarrow> (case e of GoPanic p \<Rightarrow> throw (GoPanic p) | _ \<Rightarrow> throw (ErrWrap msg e)))"

section \<open>Peers\<close>

definition nodeEligibleForSync :: "Node option \<Rightarrow> bool" where
  "nodeEligibleForSync node = (case node of None \<Rightarrow> False
     | Some n \<Rightarrow> ToLower (TrimSpace (nd_Status n)) \<notin> {''deleted'', ''suspended'', ''banned''})"

text \<open>
  The peers go through JSON and back; the texts of the database are valid UTF-8, so they come
  back as they were.
\<close>

record PeerInfo =
  pi_PublicKey :: string
  pi_Endpoint :: string
  pi_PrivateIp :: string
  pi_PublicIp :: string
  pi_Region :: string
  pi_VpcId :: string
  pi_Hostname :: string
  pi_AssignedIp :: string
  pi_Role :: string
  pi_AdvertisedRoutes :: "string list"

definition peer_of :: "Node \<Rightarrow> PeerInfo" where
  "peer_of n = \<lparr>pi_PublicKey = nd_PublicKey n, pi_Endpoint = nd_Endpoint n, pi_PrivateIp = nd_PrivateIP n, pi_PublicIp = nd_PublicIP n,
     pi_Region = nd_Region n, pi_VpcId = nd_VPCID n, pi_Hostname = nd_Hostname n, pi_AssignedIp = nd_AssignedIP n, pi_Role = nd_Role n,
     pi_AdvertisedRoutes = nd_AdvertisedRoutes n\<rparr>"

section \<open>ACL rules for the HTTP interface\<close>

record ACLRuleJSON =
  aj_ID :: string
  aj_SrcNet :: string
  aj_DstNet :: string
  aj_Protocol :: "8 word"
  aj_MinPort :: "16 word"
  aj_MaxPort :: "16 word"
  aj_Action :: string
  aj_Direction :: string
  aj_Ports :: string

text \<open>
  \<^verbatim>\<open>%d\<close> of \<^verbatim>\<open>fmt.Sscanf\<close> into a \<^verbatim>\<open>uint16\<close>: white space other than a newline is skipped, then a
  non-empty run of digits whose value fits is read. The rest of the text stays.
\<close>

definition scan_uint16 :: "string \<Rightarrow> (nat \<times> string) option" where
  "scan_uint16 s =
     (let rest = strip_head space_runes s; digits = takeWhile (\<lambda>c. char_digit c \<noteq> None) rest in
      if CHR 0x0A \<in> set (take (length s - length rest) s) then None
      else case parse_nat digits of
          None \<Rightarrow> None
        | Some n \<Rightarrow> if digits = '''' \<or> n > 65535 then None else Some (n, drop (length digits) rest))"

definition parsePortRange :: "string \<Rightarrow> 16 word \<times> 16 word" where
  "parsePortRange portStr =
     (if portStr = '''' then (0, 65535)
      else case scan_uint16 portStr of
          None \<Rightarrow> (0, 65535)
        | Some (minPort, rest) \<Rightarrow>
            (case rest of
               c # cs \<Rightarrow> (case if c = CHR ''-'' then scan_uint16 cs else None of
                   Some (maxPort, _) \<Rightarrow> (of_nat minPort, of_nat maxPort)
                 | None \<Rightarrow> (of_nat minPort, of_nat minPort))
             | [] \<Rightarrow> (of_nat minPort, of_nat minPort)))"

definition formatPortRange :: "16 word \<Rightarrow> 16 word \<Rightarrow> string" where
  "formatPortRange minPort maxPort =
     (if minPort = 0 \<and> maxPort = 65535 then ''''
      else if minPort = maxPort then Itoa (uint minPort)
      else Itoa (uint minPort) @ ''-'' @ Itoa (uint maxPort))"

definition aclPortsForSync :: "ACLRuleRecord option \<Rightarrow> 16 word \<times> 16 word" where
  "aclPortsForSync rule = (case rule of None \<Rightarrow> (0, 0) | Some rule \<Rightarrow>
     if 0 < acl_DstPort rule \<and> acl_DstPort rule \<le> 65535 then (word_of_int (acl_DstPort rule), word_of_int (acl_DstPort rule))
     else if TrimSpace (acl_Ports rule) = '''' then (0, 0)
     else parsePortRange (acl_Ports rule))"

definition defaultRegistrationACLAction :: "string \<Rightarrow> string" where
  "defaultRegistrationACLAction action = (let a = ToLower (TrimSpace action) in if a = '''' then ''allow'' else a)"

definition aclRuleRecordForSync :: "ACLRuleRecord \<Rightarrow> ACLRuleJSON" where
  "aclRuleRecordForSync rule = (case aclPortsForSync (Some rule) of (minPort, maxPort) \<Rightarrow>
     \<lparr>aj_ID = acl_ID rule, aj_SrcNet = acl_SrcCIDR rule, aj_DstNet = acl_DstCIDR rule, aj_Protocol = word_of_int (acl_Protocol rule),
       aj_MinPort = minPort, aj_MaxPort = maxPort, aj_Action = defaultRegistrationACLAction (acl_Action rule),
       aj_Direction = acl_Direction rule, aj_Ports = acl_Ports rule\<rparr>)"

definition aclSyncRuleHasPortFilter :: "ACLRuleJSON \<Rightarrow> bool" where
  "aclSyncRuleHasPortFilter rule = (let ports = TrimSpace (aj_Ports rule) in
     if ports \<noteq> '''' \<and> \<not> EqualFold ports ''all'' then True else aj_MinPort rule > 0 \<or> aj_MaxPort rule > 0)"

definition aclRuleRecordsForSync :: "ACLRuleRecord list \<Rightarrow> ACLRuleJSON list" where
  "aclRuleRecordsForSync rules = concat (map (\<lambda>rule.
     if \<not> acl_Enabled rule then []
     else let syncRule = aclRuleRecordForSync rule in
       if aj_Protocol syncRule = 0 \<and> aclSyncRuleHasPortFilter syncRule
       then [syncRule\<lparr>aj_Protocol := 6\<rparr>, syncRule\<lparr>aj_Protocol := 17\<rparr>] else [syncRule]) rules)"

section \<open>The adapter\<close>

definition processSync :: "string \<Rightarrow> (PeerInfo list \<times> string \<times> ACLRuleJSON list \<times> uuid) op" where
  "processSync publicKey =
     bnd (wrapped ''node not found'' (GetNode publicKey)) (\<lambda>n. case n of
       None \<Rightarrow> throw (GoPanic ''nil pointer dereference'')
     | Some node \<Rightarrow>
         bnd time_Now (\<lambda>now.
         bnd (wrapped ''failed to update node heartbeat'' (UpdateNodeHeartbeat (nd_ID node) (unix now))) (\<lambda>_.
         bnd (wrapped ''failed to get nodes'' (GetNodesByTenant (nd_TenantID node))) (\<lambda>tenantNodes.
         bnd (wrapped ''failed to get node ACL rules'' (GetEnabledTenantNodeACLRules (nd_TenantID node) (nd_ID node))) (\<lambda>aclRuleRecords.
         ret (map peer_of (filter (\<lambda>n. nodeEligibleForSync (Some n) \<and> nd_PublicKey n \<noteq> publicKey) tenantNodes),
           nd_AssignedIP node, aclRuleRecordsForSync aclRuleRecords, nd_TenantID node))))))"

definition createSyncAdapter :: "Controller \<Rightarrow> string \<Rightarrow> (PeerInfo list \<times> string \<times> ACLRuleJSON list \<times> string) op" where
  "createSyncAdapter c publicKey =
     bnd (processSync publicKey) (\<lambda>(peers, assignedIP, aclRules, tenantID).
     ret (peers, assignedIP, aclRules,
       if tenantID \<noteq> uuid_Nil then c_metricsPushGateway c @ ''?tenant='' @ tenantID else c_metricsPushGateway c))"

section \<open>The call of the agent\<close>

record SyncRequest =
  sy_NodeId :: string
  sy_PublicKey :: string
  sy_AppliedStateVersion :: string
  sy_ObservedState :: string
  sy_ObservedMessage :: string
  sy_PublicIp :: string
  sy_Endpoint :: string

record PbSyncResponse =
  sr_Peers :: "PeerInfo list"
  sr_AssignedIp :: string
  sr_LastUpdate :: int
  sr_AclRules :: "PbACLRule list"
  sr_MetricsPushGateway :: string
  sr_QosRules :: "PbQoSRule list"
  sr_BlacklistRules :: "PbBlacklistRule list"
  sr_IpGroups :: "PbIPGroup list"
  sr_DesiredStateVersion :: string
  sr_RuntimeToken :: string
  sr_RuntimeTokenExpiresAt :: int
  sr_SnapshotComplete :: bool
  sr_DomainVersions :: string_map

definition domainVersionsFromDesiredVersion :: "string \<Rightarrow> string_map" where
  "domainVersionsFromDesiredVersion version = (let version = TrimSpace version in
     if version = '''' then [] else map (\<lambda>d. (d, version)) [''peer'', ''acl'', ''qos'', ''route'', ''blacklist'', ''certificate''])"

definition generateRuntimeTokenForNode :: "ControllerServer \<Rightarrow> Node option \<Rightarrow> (string \<times> int) op" where
  "generateRuntimeTokenForNode s node = (case node of
       None \<Rightarrow> throw (ErrMsg ''node is required'')
     | Some node \<Rightarrow>
         bnd (if srv_store s then GetNodeRuntimeTokenVersion (nd_ID node) else ret 0) (\<lambda>tokenVersion.
         bnd (GenerateRuntimeTokenWithVersion (srv_jwt s) (srv_secret s) (nd_ID node) (nd_TenantID node) tokenVersion) (\<lambda>(token, expiresAt).
         ret (token, unix expiresAt))))"

definition reportRuntimeSyncState :: "ControllerServer \<Rightarrow> Node \<Rightarrow> SyncRequest \<Rightarrow> unit op" where
  "reportRuntimeSyncState s node req =
     (if \<not> srv_store s then ret ()
      else bnd time_Now (\<lambda>now.
        bnd (ReportNodeControlState (nd_TenantID node) (nd_ID node) \<lparr>rp_AppliedStateVersion = sy_AppliedStateVersion req,
          rp_ObservedState = sy_ObservedState req, rp_ObservedMessage = sy_ObservedMessage req, rp_LastSyncAt = Some now,
          rp_LastSyncError = (if sy_ObservedState req = ''error'' then sy_ObservedMessage req else '''')\<rparr>) (\<lambda>_.
        case NormalizeReportedNetwork (sy_PublicIp req) (sy_Endpoint req) of (publicIP, endpoint) \<Rightarrow>
          UpdateNodePublicIdentity (nd_ID node) publicIP endpoint)))"

definition ensureDesiredStateVersion :: "ControllerServer \<Rightarrow> Node \<Rightarrow> string op" where
  "ensureDesiredStateVersion s node =
     (if \<not> srv_store s then ret ''''
      else bnd (GetNodeControlState (nd_TenantID node) (nd_ID node)) (\<lambda>state.
        if \<exists>st \<in> set_option state. st_DesiredStateVersion st \<noteq> ''''
        then ret (st_DesiredStateVersion (the state))
        else bnd NewDesiredStateVersion (\<lambda>version.
          bnd (UpsertNodeDesiredState (nd_TenantID node) (nd_ID node) version [(''source'', VString ''sync-baseline'')]) (\<lambda>created.
          ret (st_DesiredStateVersion created)))))"

definition defaultACLAction :: "string \<Rightarrow> string" where
  "defaultACLAction action = (let a = ToLower (TrimSpace action) in if a = '''' then ''allow'' else a)"

definition protoUUIDString :: "uuid option \<Rightarrow> string" where
  "protoUUIDString value = (case value of None \<Rightarrow> '''' | Some u \<Rightarrow> u)"

text \<open>An error \<^verbatim>\<open>sql.ErrNoRows\<close> is an empty list.\<close>

definition none_if_no_rows :: "'a list op \<Rightarrow> 'a list op" where
  "none_if_no_rows m = bnd (attempt m) (\<lambda>r. case r of Inr x \<Rightarrow> ret x | Inl e \<Rightarrow> if e = ErrNoRows then ret [] else throw e)"

definition getQoSRules :: "ControllerServer \<Rightarrow> string \<Rightarrow> PbQoSRule list op" where
  "getQoSRules s publicKey =
     (if \<not> srv_store s then ret []
      else bnd (none_if_no_rows (GetNodeQoSRulesByPublicKey publicKey)) (\<lambda>rules. ret (map (\<lambda>rule.
        \<lparr>pq_Id = qos_ID rule, pq_SrcIp = qos_SrcCIDR rule, pq_DstIp = qos_DstCIDR rule, pq_SrcPort = word_of_int (qos_SrcPort rule),
          pq_DstPort = word_of_int (qos_DstPort rule), pq_Protocol = word_of_int (qos_Protocol rule),
          pq_BandwidthMbps = word_of_int (qos_BandwidthMbps rule), pq_Direction = qos_Direction rule, pq_RateBps = qos_RateBps rule,
          pq_BurstBytes = qos_BurstBytes rule, pq_Priority = word_of_int (qos_Priority rule), pq_Mode = qos_Mode rule,
          pq_GroupId = protoUUIDString (qos_GroupID rule)\<rparr>) rules)))"

definition getBlacklistRules :: "ControllerServer \<Rightarrow> sql_lib \<Rightarrow> string \<Rightarrow> PbBlacklistRule list op" where
  "getBlacklistRules s lib publicKey =
     (if \<not> srv_store s then ret []
      else bnd (none_if_no_rows (GetNodeBlacklistRulesByPublicKey lib publicKey)) (\<lambda>rules.
        ret (map (\<lambda>rule. \<lparr>pb_Scope = bl_Scope rule, pb_Cidr = bl_CIDR rule, pb_Port = word_of_int (bl_Port rule)\<rparr>) rules)))"

text \<open>What \<^verbatim>\<open>Sync\<close> reads of the policy of a node, and the snapshot it compiles from it.\<close>

definition sync_snapshot :: "ControllerServer \<Rightarrow> sql_lib \<Rightarrow> Node \<Rightarrow> agentPolicySnapshot op" where
  "sync_snapshot s lib node =
     bnd (wrapped ''failed to get ACL rules'' (GetEnabledTenantNodeACLRules (nd_TenantID node) (nd_ID node))) (\<lambda>aclRules.
     bnd (wrapped ''failed to get QoS rules'' (GetEnabledTenantNodeQoSRules (nd_TenantID node) (nd_ID node))) (\<lambda>qosRules.
     bnd (wrapped ''failed to get policy IP groups'' (ListIPGroupsForNodePolicySnapshot lib (nd_TenantID node) (nd_ID node))) (\<lambda>policyGroups.
     bnd (wrapped ''failed to get blacklist rules'' (getBlacklistRules s lib (nd_PublicKey node))) (\<lambda>blacklistRules.
     wrapped ''failed to compile policy snapshot'' (of_result (compileAgentPolicySnapshotWithGroups
       (map Some policyGroups) (map Some aclRules) (map Some qosRules) (map Some blacklistRules)))))))"

definition Sync :: "ControllerServer \<Rightarrow> sql_lib \<Rightarrow> (string \<Rightarrow> (PeerInfo list \<times> string \<times> ACLRuleJSON list \<times> string) op) \<Rightarrow>
    rpc_context \<Rightarrow> SyncRequest \<Rightarrow> PbSyncResponse op" where
  "Sync s lib syncHandler ctx req =
     bnd (resolveRuntimeNodeForRequest s ctx (sy_NodeId req) (sy_PublicKey req)) (\<lambda>node.
     bnd (wrapped ''failed to persist runtime sync state'' (reportRuntimeSyncState s node req)) (\<lambda>_.
     bnd (wrapped ''sync failed'' (syncHandler (nd_PublicKey node))) (\<lambda>(peers, assignedIP, _, metricsGateway).
     bnd (sync_snapshot s lib node) (\<lambda>snapshot.
     bnd (wrapped ''failed to determine desired state version'' (ensureDesiredStateVersion s node)) (\<lambda>desiredVersion.
     bnd (wrapped ''failed to refresh runtime token'' (generateRuntimeTokenForNode s (Some node))) (\<lambda>(runtimeToken, runtimeTokenExpiresAt).
     bnd time_Now (\<lambda>now.
     ret \<lparr>sr_Peers = peers, sr_AssignedIp = assignedIP, sr_LastUpdate = unix now, sr_AclRules = ps_ACLRules snapshot,
       sr_MetricsPushGateway = metricsGateway, sr_QosRules = ps_QoSRules snapshot, sr_BlacklistRules = ps_BlacklistRules snapshot, sr_IpGroups = ps_IPGroups snapshot,
       sr_DesiredStateVersion = desiredVersion, sr_RuntimeToken = runtimeToken, sr_RuntimeTokenExpiresAt = runtimeTokenExpiresAt,
       sr_SnapshotComplete = True, sr_DomainVersions = domainVersionsFromDesiredVersion desiredVersion\<rparr>)))))))"

section \<open>The answer to a registration over HTTP\<close>

record NodeInfo =
  ni_PublicKey :: string
  ni_Endpoint :: string
  ni_PrivateIP :: string
  ni_PublicIP :: string
  ni_Region :: string
  ni_VPCID :: string
  ni_Hostname :: string
  ni_LastSeen :: int
  ni_AssignedIP :: string
  ni_Role :: string
  ni_RuntimeMode :: string
  ni_KernelVersion :: string
  ni_Status :: string
  ni_AdvertisedRoutes :: "string list"
  ni_EnrolledWithToken :: string

record SyncResponse =
  sp_Peers :: "NodeInfo list"
  sp_AssignedIP :: string
  sp_LastUpdate :: int
  sp_ACLRules :: "ACLRuleJSON list"
  sp_MetricsPushGateway :: string
  sp_SnapshotComplete :: bool
  sp_DomainVersions :: string_map
  sp_CertificatePEM :: string
  sp_CertificateCA :: string
  sp_CertificateNotAfter :: int

definition registrationDomainVersionsFromDesiredVersion :: "string \<Rightarrow> string_map" where
  "registrationDomainVersionsFromDesiredVersion version = (let version = TrimSpace version in
     if version = '''' then [] else map (\<lambda>d. (d, version)) [''peer'', ''acl'', ''qos'', ''route'', ''blacklist'', ''certificate''])"

definition ensureRESTDesiredStateVersion :: "Node \<Rightarrow> string op" where
  "ensureRESTDesiredStateVersion node =
     (if nd_ID node = uuid_Nil \<or> nd_TenantID node = uuid_Nil then ret ''''
      else bnd (GetNodeControlState (nd_TenantID node) (nd_ID node)) (\<lambda>state.
        if \<exists>st \<in> set_option state. TrimSpace (st_DesiredStateVersion st) \<noteq> ''''
        then ret (st_DesiredStateVersion (the state))
        else bnd NewDesiredStateVersion (\<lambda>version.
          bnd (UpsertNodeDesiredState (nd_TenantID node) (nd_ID node) version [(''source'', VString ''sync-baseline'')]) (\<lambda>created.
          ret (st_DesiredStateVersion created)))))"

text \<open>Any error leaves the answer as it was.\<close>

definition attachNodeCertificateToSyncResponse :: "Controller \<Rightarrow> string \<Rightarrow> SyncResponse \<Rightarrow> SyncResponse op" where
  "attachNodeCertificateToSyncResponse c publicKey resp =
     (if c_certService c = None \<or> publicKey = '''' then ret resp
      else bnd (attempt (GetNode publicKey)) (\<lambda>g. case found g of
          None \<Rightarrow> ret resp
        | Some node \<Rightarrow> bnd (attempt (GetNodeCertificate (nd_ID node))) (\<lambda>r. case r of
              Inr (Some cert) \<Rightarrow>
                if ce_Status cert \<noteq> CertStatusIssued then ret resp
                else bnd time_Now (\<lambda>now.
                  if \<not> ce_NotAfter cert > now then ret resp
                  else ret (resp\<lparr>sp_CertificatePEM := ce_CertPEM cert, sp_CertificateCA := ce_CAPEM cert,
                    sp_CertificateNotAfter := unix (ce_NotAfter cert)\<rparr>))
            | _ \<Rightarrow> ret resp)))"

text \<open>
  The rows of a result set: a row that does not scan is left out, and an iteration that breaks
  off leaves out the rest, which the loop does not notice.
\<close>

fun scannable :: "node_row list \<Rightarrow> Node list op" where
  "scannable [] = ret []"
| "scannable (r # rs) = bnd (attempt (check_op (scanNodeRows r))) (\<lambda>x.
     bnd (scannable rs) (\<lambda>ns. ret (case x of Inl e \<Rightarrow> ns | Inr n \<Rightarrow> n # ns)))"

definition live_status :: "node_row \<Rightarrow> bool" where
  "live_status r \<longleftrightarrow> coalesce (node_status r) ''online'' \<notin> {''deleted'', ''suspended'', ''banned''}"

definition peer_info :: "Node \<Rightarrow> NodeInfo" where
  "peer_info peer = \<lparr>ni_PublicKey = nd_PublicKey peer, ni_Endpoint = nd_PublicIP peer @ '':51820'', ni_PrivateIP = nd_PrivateIP peer,
     ni_PublicIP = nd_PublicIP peer, ni_Region = nd_Region peer, ni_VPCID = nd_VPCID peer, ni_Hostname = nd_Hostname peer,
     ni_LastSeen = nd_LastSeen peer, ni_AssignedIP = nd_AssignedIP peer, ni_Role = (if nd_Role peer = '''' then ''spoke'' else nd_Role peer),
     ni_RuntimeMode = nd_RuntimeMode peer, ni_KernelVersion = nd_KernelVersion peer, ni_Status = '''', ni_AdvertisedRoutes = [],
     ni_EnrolledWithToken = ''''\<rparr>"

text \<open>The tenant of the answer: that of the token, or that of the node when the request has no token.\<close>

definition sync_tenant :: "RegisterRequest \<Rightarrow> uuid option op" where
  "sync_tenant req =
     bnd (attempt (GetTenantIDByToken (rr_Token req))) (\<lambda>r. case r of
         Inr tenant \<Rightarrow> ret (Some tenant)
       | Inl e \<Rightarrow> if rr_Token req = '''' then bnd (attempt (GetNode (rr_PublicKey req))) (\<lambda>g. ret (map_option nd_TenantID (found g)))
           else ret None)"

definition syncNode :: "Controller \<Rightarrow> RegisterRequest \<Rightarrow> string \<Rightarrow> SyncResponse reply op" where
  "syncNode c req assignedIP =
     bnd (sync_tenant req) (\<lambda>tenant. case tenant of
       None \<Rightarrow> ret (HttpError 500 ''Failed to get tenant information'')
     | Some nodeTenantID \<Rightarrow>
     bnd (attempt (select_op (\<lambda>_ t. filter (\<lambda>r. node_tenant_id r = nodeTenantID \<and> live_status r) (nodes t)))) (\<lambda>q. case q of
       Inl e \<Rightarrow> ret (HttpError 500 ''Failed to load tenant peers'')
     | Inr rows \<Rightarrow>
     bnd (scannable rows) (\<lambda>peers.
     case find (\<lambda>p. nd_PublicKey p = rr_PublicKey req) (rev peers) of
       None \<Rightarrow> ret (HttpError 500 ''Registered node not found in active peer set'')
     | Some requestingNode \<Rightarrow>
     bnd (attempt (GetEnabledTenantNodeACLRules nodeTenantID (nd_ID requestingNode))) (\<lambda>a. case a of
       Inl e \<Rightarrow> ret (HttpError 500 ''Failed to load ACL rules'')
     | Inr aclRules \<Rightarrow>
     bnd (attempt (ensureRESTDesiredStateVersion requestingNode)) (\<lambda>v. case v of
       Inl e \<Rightarrow> ret (HttpError 500 ''Failed to determine desired state version'')
     | Inr desiredVersion \<Rightarrow>
     bnd time_Now (\<lambda>now.
     bnd (attachNodeCertificateToSyncResponse c (rr_PublicKey req)
       \<lparr>sp_Peers = map peer_info (filter (\<lambda>p. nd_PublicKey p \<noteq> rr_PublicKey req) peers), sp_AssignedIP = assignedIP, sp_LastUpdate = unix now,
         sp_ACLRules = aclRuleRecordsForSync aclRules, sp_MetricsPushGateway = c_metricsPushGateway c, sp_SnapshotComplete = True,
         sp_DomainVersions = registrationDomainVersionsFromDesiredVersion desiredVersion, sp_CertificatePEM = '''', sp_CertificateCA = '''',
         sp_CertificateNotAfter = 0\<rparr>) (\<lambda>resp. ret (Reply resp))))))))"

text \<open>\<^verbatim>\<open>errors.As\<close> looks through the wrapped errors. The text of an error is that of \<open>err_Error\<close>.\<close>

fun as_auth_error :: "err \<Rightarrow> (int \<times> string) option" where
  "as_auth_error (RegistrationAuthError status message _) = Some (status, message)"
| "as_auth_error (ErrWrap _ e) = as_auth_error e"
| "as_auth_error _ = None"

fun is_route_conflict :: "err \<Rightarrow> bool" where
  "is_route_conflict (RouteConflict _) = True"
| "is_route_conflict (RegistrationAuthError _ _ _) = False"
| "is_route_conflict (ErrWrap _ e) = is_route_conflict e"
| "is_route_conflict _ = False"

definition Contains_text :: "string \<Rightarrow> string \<Rightarrow> bool" where
  "Contains_text s sub = list_ex (\<lambda>i. HasPrefix (drop i s) sub) [0..<Suc (length s)]"

definition writeRegistrationError :: "(err \<Rightarrow> string) \<Rightarrow> err \<Rightarrow> 'a reply" where
  "writeRegistrationError err_Error e = (case as_auth_error e of
       Some (status, message) \<Rightarrow> HttpError status message
     | None \<Rightarrow>
         if is_route_conflict e then HttpError 409 (err_Error e)
         else if Contains_text (err_Error e) ''invalid CIDR'' then HttpError 400 (err_Error e)
         else HttpError 500 ''Failed to register node'')"

text \<open>The body is the decoded request, or the text of the decoding error.\<close>

definition HandleRegister ::
    "Controller \<Rightarrow> (err \<Rightarrow> string) \<Rightarrow> string \<Rightarrow> http_request \<Rightarrow> string \<Rightarrow> string + RegisterRequest \<Rightarrow> SyncResponse reply op" where
  "HandleRegister c err_Error meth r remoteAddr body =
     (if meth \<noteq> ''POST'' then ret (HttpError 405 ''Method not allowed'')
      else case body of Inl e \<Rightarrow> ret (HttpError 400 e) | Inr req \<Rightarrow>
        if rr_PublicKey req = '''' then ret (HttpError 400 ''Public key required'')
        else
          let publicIP = (case SplitHostPort remoteAddr of Some (host, _) \<Rightarrow> host | None \<Rightarrow> remoteAddr);
              req = req\<lparr>rr_RuntimeToken := registrationRuntimeTokenFromRequest (Some r) (Some req)\<rparr>
          in bnd (attempt (processRegistration c req publicIP)) (\<lambda>p. case p of
              Inl (GoPanic m) \<Rightarrow> throw (GoPanic m)
            | Inl e \<Rightarrow> ret (writeRegistrationError err_Error e)
            | Inr assignedIP \<Rightarrow> syncNode c req assignedIP))"

section \<open>Port ranges\<close>

lemma char_digit_not_space:
  assumes "char_digit c \<noteq> None"
  shows "head_len space_runes (c # cs) = 0"
proof -
  have "list_all (\<lambda>r. char_digit (hd r) = None) space_runes" by code_simp
  with assms space_runes_nonempty(1) have "take (length r) (c # cs) \<noteq> r" if "r \<in> set space_runes" for r
    using that by (cases r) (auto simp: list_all_iff)
  then show ?thesis using head_len_zero_iff [OF space_runes_nonempty(1)] by blast
qed

lemma itoa_digits: "c \<in> set (itoa_nat n) \<Longrightarrow> char_digit c \<noteq> None"
proof (induction n rule: itoa_nat.induct)
  case (1 n)
  then show ?case
    by (cases "n < 10") (auto simp: itoa_nat.simps [of n] char_digit_digit_char)
qed

lemma scan_uint16_itoa:
  assumes "n \<le> 65535" and "\<And>c cs. rest = c # cs \<Longrightarrow> char_digit c = None"
  shows "scan_uint16 (itoa_nat n @ rest) = Some (n, rest)"
proof -
  obtain c cs where c: "itoa_nat n = c # cs" by (cases "itoa_nat n") auto
  then have "char_digit c \<noteq> None" using itoa_digits [of c n] by simp
  then have "head_len space_runes (c # cs @ rest) = 0" by (rule char_digit_not_space)
  then have strip: "strip_head space_runes (itoa_nat n @ rest) = itoa_nat n @ rest"
    by (simp add: c strip_head.simps)
  have "takeWhile (\<lambda>c. char_digit c \<noteq> None) (itoa_nat n @ rest) = itoa_nat n"
    using assms(2) itoa_digits [of _ n] by (cases rest) (simp_all add: takeWhile_append2 takeWhile_eq_all_conv del: not_None_eq)
  with assms(1) show ?thesis by (simp add: scan_uint16_def Let_def strip)
qed

text \<open>
  A range of ports that is printed for display reads back as the same range, the open range
  included, for every pair of 16-bit ports.
\<close>

theorem port_range_roundtrip: "parsePortRange (formatPortRange minPort maxPort) = (minPort, maxPort)"
proof -
  have port: "unat w \<le> 65535" for w :: "16 word"
  proof -
    have "unat w < 2 ^ LENGTH(16)" by (rule unsigned_less)
    then show ?thesis by simp
  qed
  have "char_digit CHR ''-'' = None" by code_simp
  then have two: "scan_uint16 (itoa_nat (unat minPort) @ CHR ''-'' # xs) = Some (unat minPort, CHR ''-'' # xs)" for xs
    by (intro scan_uint16_itoa) (auto simp: port)
  have one: "scan_uint16 (itoa_nat (unat w)) = Some (unat w, [])" for w :: "16 word"
    using scan_uint16_itoa [of "unat w" "[]"] port by simp
  show ?thesis
    by (simp add: parsePortRange_def formatPortRange_def Itoa_def one two)
qed

section \<open>Peers are nodes of the same tenant\<close>

lemma wrapped_Inr [run_Inr]: "wrapped msg m s = (Inr x, t) \<longleftrightarrow> m s = (Inr x, t)"
  by (auto simp: wrapped_def bnd_Inr attempt_Inr ret_Inr throw_Inr split: sum.split_asm err.split_asm)

definition node_ident :: "node_row \<Rightarrow> uuid \<times> string \<times> uuid" where
  "node_ident r = (node_id r, node_public_key r, node_tenant_id r)"

text \<open>Who the nodes are, and everything about the nodes other than \<open>i\<close>.\<close>

definition fleet :: "uuid \<Rightarrow> tables \<Rightarrow> (uuid \<times> string \<times> uuid) list \<times> node_row list" where
  "fleet i t = (map node_ident (nodes t), filter (\<lambda>n. node_id n \<noteq> i) (nodes t))"

interpretation fleet: table_frame "fleet i" for i .

lemma fleet_update:
  "(\<And>now r. node_ident (f now r) = node_ident r) \<Longrightarrow> keeps (fleet i) t (fst (update_nodes_sql (\<lambda>r. node_id r = i \<and> P r) f now t))"
  by (auto simp: keeps_def fleet_def update_nodes_sql_def node_ident_def update_where_def comp_def intro!: filter_update_other [unfolded update_where_def])

lemma fleet_reads: "maintains (keeps (\<lambda>t. t)) m \<Longrightarrow> maintains (keeps (fleet i)) m"
  by (erule maintains_mono) (auto simp: keeps_def)

lemma fleet_control: "maintains (keeps without_control) m \<Longrightarrow> maintains (keeps (fleet i)) m"
  by (erule maintains_mono) (auto simp: keeps_def fleet_def without_control_def dest: arg_cong [where f = nodes])

lemma fleet_report: "maintains (keeps (fleet (nd_ID node))) (reportRuntimeSyncState srv node req)"
  unfolding reportRuntimeSyncState_def UpdateNodePublicIdentity_def ReportNodeControlState_def Let_def
  by (intro maintains_rules fleet_control fleet_update) (auto simp: node_ident_def)

lemma fleet_heartbeat: "maintains (keeps (fleet i)) (UpdateNodeHeartbeat i seen)"
  unfolding UpdateNodeHeartbeat_def require_row_def by (intro maintains_rules fleet_update) (simp add: node_ident_def)

text \<open>The rows that are peers of a node with the public key \<open>pk\<close> in the tenant \<open>T\<close>.\<close>

definition is_peer :: "uuid \<Rightarrow> string \<Rightarrow> node_row \<Rightarrow> bool" where
  "is_peer T pk r \<longleftrightarrow> node_tenant_id r = T \<and> node_public_key r \<noteq> pk \<and>
     (case node_status r of None \<Rightarrow> False | Some st \<Rightarrow> ToLower (TrimSpace st) \<notin> {''deleted'', ''suspended'', ''banned''})"

lemma scanNode_Inr:
  assumes "scanNode P s = (Inr (Some node), t)"
  shows "\<exists>n \<in> set (nodes (tab s)). P n \<and> node = scanNodeRows n"
proof -
  from assms have "Some node = map_option scanNodeRows (find P (nodes (tab s)))"
    by (auto simp: scanNode_def run_Inr dest!: select_Inr(1))
  then obtain n where "find P (nodes (tab s)) = Some n" "node = scanNodeRows n"
    by (cases "find P (nodes (tab s))") auto
  then show ?thesis by (auto simp: find_Some_iff)
qed

lemma scanNode_reads: "maintains (keeps (\<lambda>t. t)) (scanNode P)"
  unfolding scanNode_def by (intro maintains_rules)

lemma GetNode_Inr:
  assumes "GetNode pk s = (Inr (Some node), t)"
  obtains n where "n \<in> set (nodes (tab s))" "node = scanNodeRows n" "node_public_key n = pk" "tab t = tab s"
  using scanNode_Inr [OF assms [unfolded GetNode_def]] unchanged.frame_run [OF reads_lookup(1) assms] that by blast

lemma lookup_or_nil_Inr:
  assumes "lookup_or_nil (scanNode P) s = (Inr x, t)"
  shows "tab t = tab s" "x = Some node \<Longrightarrow> \<exists>n \<in> set (nodes (tab s)). node = scanNodeRows n"
proof -
  from assms obtain r where r: "scanNode P s = (r, t)" "x = found r" by (auto simp: lookup_or_nil_def run_Inr)
  show "tab t = tab s" using unchanged.frame_run [OF scanNode_reads r(1)] .
  show "\<exists>n \<in> set (nodes (tab s)). node = scanNodeRows n" if "x = Some node"
    using that r scanNode_Inr [of P s node t] by (auto simp: found_def split: sum.split_asm)
qed

lemma resolved_by_lookup:
  assumes "resolveRuntimeNode srv i pk s = (Inr node, t)"
  shows "\<exists>n \<in> set (nodes (tab s)). node = scanNodeRows n"
proof -
  from assms obtain a b u v where a: "(if i \<noteq> '''' then (case srv_uuid_Parse srv i of
               None \<Rightarrow> ret None
             | Some parsedNodeID \<Rightarrow> lookup_or_nil (GetNodeByID parsedNodeID)) else ret None) s = (Inr a, u)"
      and b: "(if pk \<noteq> '''' then lookup_or_nil (GetNode pk) else ret None) u = (Inr b, v)"
      and node: "a = Some node \<or> b = Some node"
    unfolding resolveRuntimeNode_def
    by (auto simp: throw_Inr ret_Inr bnd_Inr [of "if P then m else q" for P m q] split: if_split_asm option.split_asm)
  have u: "tab u = tab s"
    using a by (auto simp: ret_Inr GetNodeByID_def dest: lookup_or_nil_Inr(1) split: if_split_asm option.split_asm)
  show ?thesis
    using node
  proof
    assume "a = Some node"
    with a show ?thesis by (auto simp: ret_Inr GetNodeByID_def dest: lookup_or_nil_Inr(2) split: if_split_asm option.split_asm)
  next
    assume "b = Some node"
    with b have "\<exists>n \<in> set (nodes (tab u)). node = scanNodeRows n"
      by (auto simp: ret_Inr GetNode_def dest: lookup_or_nil_Inr(2) split: if_split_asm)
    with u show ?thesis by simp
  qed
qed

lemma processSync_Inr:
  assumes run: "processSync pk s = (Inr (peers, ip, rules, T), t)"
  obtains n and u :: db where "n \<in> set (nodes (tab s))" "node_public_key n = pk" "T = node_tenant_id n"
    "fleet (node_id n) (tab u) = fleet (node_id n) (tab s)"
    "T \<noteq> uuid_Nil \<longrightarrow> set peers = (peer_of \<circ> scanNodeRows) ` {q \<in> set (nodes (tab u)). is_peer T pk q}"
proof -
  from run obtain node u now v w ns where g: "GetNode pk s = (Inr (Some node), u)"
      and h: "UpdateNodeHeartbeat (nd_ID node) now u = (Inr (), v)"
      and l: "GetNodesByTenant (nd_TenantID node) v = (Inr ns, w)"
      and out: "peers = map peer_of (filter (\<lambda>n. nodeEligibleForSync (Some n) \<and> nd_PublicKey n \<noteq> pk) ns)" "T = nd_TenantID node"
    by (auto simp: processSync_def run_Inr split: option.split_asm)
  from g obtain n where n: "n \<in> set (nodes (tab s))" "node = scanNodeRows n" "node_public_key n = pk" "tab u = tab s"
    by (rule GetNode_Inr)
  have "fleet (node_id n) (tab v) = fleet (node_id n) (tab s)"
    using fleet.frame_run [OF fleet_heartbeat h] n by (simp add: scanNodeRows_def)
  moreover have "set peers = (peer_of \<circ> scanNodeRows) ` {q \<in> set (nodes (tab v)). is_peer T pk q}" if "T \<noteq> uuid_Nil"
  proof -
    have listed: "listed (all_nodes_opts\<lparr>lo_TenantID := T, lo_Unbounded := True\<rparr>) = (\<lambda>r. node_tenant_id r = T \<and> status_is_not [''deleted''] r)"
      using that by (auto simp: listed_def all_nodes_opts_def fun_eq_iff)
    from l have ns: "ns = map scanNodeRows (newest_nodes (\<lambda>r. node_tenant_id r = T \<and> status_is_not [''deleted''] r) (tab v))"
      by (auto simp: GetNodesByTenant_def listNodes_def scanNodeListRows_def listed [unfolded out(2)] out(2) Let_def run_Inr dest!: select_Inr(1) check_Inr(1))
    have "nodeEligibleForSync (Some (scanNodeRows q)) \<and> nd_PublicKey (scanNodeRows q) \<noteq> pk \<and> node_tenant_id q = T \<and> status_is_not [''deleted''] q
        \<longleftrightarrow> is_peer T pk q" for q
    proof -
      have "ToLower (TrimSpace ''deleted'') = ''deleted''" by code_simp
      then show ?thesis
        by (auto simp: nodeEligibleForSync_def is_peer_def status_is_not_def scanNodeRows_def coalesce_def split: option.split)
    qed
    then show ?thesis unfolding out ns newest_nodes_def by (auto simp: image_iff)
  qed
  moreover have "T = node_tenant_id n" using n(2) out(2) by (simp add: scanNodeRows_def)
  ultimately show thesis using n by (intro that [of n v]) auto
qed

lemma bound_node_of_table:
  assumes "resolveRuntimeNodeForRequest srv ctx i pk s = (Inr node, t)"
  obtains n where "n \<in> set (nodes (tab s))" "node = scanNodeRows n" "tab t = tab s"
    "map_option (srv_uuid_Parse srv) (ctx_RuntimeNodeID ctx) = Some (Some (node_id n))"
proof -
  have same: "tab t = tab s" using unchanged.frame_run [OF reads_resolvers(3) assms] .
  from assms obtain j where j: "ctx_RuntimeNodeID ctx = Some j" "srv_uuid_Parse srv j = Some (nd_ID node)"
    unfolding resolveRuntimeNodeForRequest_def by (rule bound_node_Inr)
  from assms obtain u where "resolveRuntimeNode srv i pk s = (Inr node, u)"
    unfolding resolveRuntimeNodeForRequest_def bound_node_def by (auto simp: bnd_Inr ret_Inr)
  then obtain n where "n \<in> set (nodes (tab s))" "node = scanNodeRows n" using resolved_by_lookup by blast
  with same j show thesis by (intro that) (auto simp: scanNodeRows_def)
qed

text \<open>Rows that agree on the identities and on every node but one have the same peers of that one.\<close>

lemma fleet_peers:
  assumes "fleet (node_id n) t = fleet (node_id n) u" and "n \<in> set (nodes u)"
    and "distinct (map node_id (nodes u))" and "distinct (map node_public_key (nodes u))"
  shows "{q \<in> set (nodes t). is_peer T (node_public_key n) q} = {q \<in> set (nodes u). is_peer T (node_public_key n) q}"
proof -
  have same_key: "node_id q = node_id n \<longleftrightarrow> node_public_key q = node_public_key n" if "q \<in> set (nodes u)" for q
    using assms(2-4) that by (auto simp: distinct_map dest: inj_onD)
  from assms(1) have "map node_ident (nodes t) = map node_ident (nodes u)" by (simp add: fleet_def)
  from arg_cong [OF this, of set] have idents: "node_ident ` set (nodes t) = node_ident ` set (nodes u)" by simp
  have key: "node_id q = node_id n \<longleftrightarrow> node_public_key q = node_public_key n" if "q \<in> set (nodes t)" for q
  proof -
    from that idents have "node_ident q \<in> node_ident ` set (nodes u)" by blast
    then obtain q' where "q' \<in> set (nodes u)" "node_ident q = node_ident q'" by blast
    with same_key [of q'] show ?thesis by (simp add: node_ident_def)
  qed
  have "set (filter (\<lambda>q. node_id q \<noteq> node_id n) (nodes t)) = set (filter (\<lambda>q. node_id q \<noteq> node_id n) (nodes u))"
    using assms(1) by (simp add: fleet_def)
  then have "q \<in> set (nodes t) \<longleftrightarrow> q \<in> set (nodes u)" if "node_id q \<noteq> node_id n" for q using that by auto
  then show ?thesis using key same_key by (auto simp: is_peer_def)
qed

text \<open>
  (C9) The peers that a sync answers with are exactly the live nodes of the tenant of the calling
  node, itself left out, and the calling node is the one its runtime token was issued for. A node
  that is deleted, suspended or banned is never sent to an agent as a peer.
\<close>

theorem sync_peers_exact:
  assumes run: "Sync srv lib (createSyncAdapter c) ctx req s = (Inr resp, t)"
    and keys: "distinct (map node_id (nodes (tab s)))" "distinct (map node_public_key (nodes (tab s)))"
    and owned: "\<forall>n \<in> set (nodes (tab s)). node_tenant_id n \<noteq> uuid_Nil"
  shows "\<exists>n \<in> set (nodes (tab s)).
    map_option (srv_uuid_Parse srv) (ctx_RuntimeNodeID ctx) = Some (Some (node_id n)) \<and>
    set (sr_Peers resp) = (peer_of \<circ> scanNodeRows) ` {q \<in> set (nodes (tab s)). is_peer (node_tenant_id n) (node_public_key n) q}"
proof -
  from run obtain node and u v w :: db and ip rules T where node: "resolveRuntimeNodeForRequest srv ctx (sy_NodeId req) (sy_PublicKey req) s = (Inr node, u)"
      and r: "reportRuntimeSyncState srv node req u = (Inr (), v)"
      and p: "processSync (nd_PublicKey node) v = (Inr (sr_Peers resp, ip, rules, T), w)"
    by (auto simp: Sync_def createSyncAdapter_def run_Inr split: prod.split_asm)
  from node obtain n where n: "n \<in> set (nodes (tab s))" "node = scanNodeRows n" "tab u = tab s"
      and token: "map_option (srv_uuid_Parse srv) (ctx_RuntimeNodeID ctx) = Some (Some (node_id n))"
    by (rule bound_node_of_table)
  have id: "nd_ID node = node_id n" "nd_PublicKey node = node_public_key n" using n(2) by (simp_all add: scanNodeRows_def)
  have v: "fleet (node_id n) (tab v) = fleet (node_id n) (tab s)"
    using fleet.frame_run [OF fleet_report r] n(3) id by simp
  from p obtain m and x :: db where m: "m \<in> set (nodes (tab v))" "node_public_key m = node_public_key n" "T = node_tenant_id m"
      and x: "fleet (node_id m) (tab x) = fleet (node_id m) (tab v)"
      and peers: "T \<noteq> uuid_Nil \<longrightarrow> set (sr_Peers resp) = (peer_of \<circ> scanNodeRows) ` {q \<in> set (nodes (tab x)). is_peer T (node_public_key n) q}"
    unfolding id by (rule processSync_Inr)
  from v have "map node_ident (nodes (tab v)) = map node_ident (nodes (tab s))" by (simp add: fleet_def)
  then have "node_ident m \<in> node_ident ` set (nodes (tab s))" using m(1) by (metis image_eqI list.set_map)
  then obtain m' where m': "m' \<in> set (nodes (tab s))" "node_ident m = node_ident m'" by auto
  with m(2) keys(2) n(1) have "m' = n" by (auto simp: node_ident_def distinct_map dest: inj_onD)
  with m' m(3) have T: "node_id m = node_id n" "T = node_tenant_id n" by (simp_all add: node_ident_def)
  with x v have "fleet (node_id n) (tab x) = fleet (node_id n) (tab s)" by simp
  from fleet_peers [OF this n(1) keys] peers T owned n(1)
  have "set (sr_Peers resp) = (peer_of \<circ> scanNodeRows) ` {q \<in> set (nodes (tab s)). is_peer (node_tenant_id n) (node_public_key n) q}" by simp
  with n(1) token show ?thesis by blast
qed

lemma scannable_Inr: "scannable rows s = (Inr ns, t) \<Longrightarrow> set ns \<subseteq> scanNodeRows ` set rows"
proof (induction rows arbitrary: s ns t)
  case (Cons r rows)
  from Cons.prems obtain x u ms where x: "check_op (scanNodeRows r) s = (x, u)" and ms: "scannable rows u = (Inr ms, t)"
      and ns: "ns = (case x of Inl e \<Rightarrow> ms | Inr n \<Rightarrow> n # ms)"
    by (auto simp: run_Inr)
  show ?case using Cons.IH [OF ms] x ns by (cases x) (auto dest: check_Inr(1))
qed (simp add: ret_Inr)

text \<open>A handler that goes on to a reply took the successful branch at every step.\<close>

lemma replied_Inr:
  "bnd (attempt m) (\<lambda>r. case r of Inl e \<Rightarrow> ret (HttpError k msg) | Inr x \<Rightarrow> f x) s = (Inr (Reply y), t) \<longleftrightarrow>
     (\<exists>x u. m s = (Inr x, u) \<and> f x u = (Inr (Reply y), t))"
  "(case p of None \<Rightarrow> ret (HttpError k msg) | Some x \<Rightarrow> g x) s = (Inr (Reply y), t) \<longleftrightarrow> (\<exists>x. p = Some x \<and> g x s = (Inr (Reply y), t))"
  by (auto simp: bnd_def attempt_def ret_def split: sum.split_asm option.split_asm prod.split_asm)

lemma attach_Inr:
  assumes "attachNodeCertificateToSyncResponse c pk resp s = (Inr r, t)"
  shows "sp_Peers r = sp_Peers resp"
proof (cases "c_certService c = None \<or> pk = ''''")
  case True
  with assms show ?thesis by (simp add: attachNodeCertificateToSyncResponse_def ret_Inr)
next
  case False
  obtain g u where g: "GetNode pk s = (g, u)" by fastforce
  show ?thesis
  proof (cases "found g")
    case None
    with assms False g show ?thesis by (simp add: attachNodeCertificateToSyncResponse_def run_Inr)
  next
    case (Some node)
    obtain q v where q: "GetNodeCertificate (nd_ID node) u = (q, v)" by fastforce
    with assms False g Some show ?thesis
      by (cases q) (auto simp: attachNodeCertificateToSyncResponse_def run_Inr split: option.split_asm if_split_asm)
  qed
qed

text \<open>
  The answer to a registration over HTTP names, besides the registered node itself, only live
  nodes of the tenant the registered node belongs to, whatever token the request carries.
\<close>

theorem registration_answer_own_tenant:
  assumes "syncNode c req ip s = (Inr (Reply resp), t)"
  shows "\<exists>n \<in> set (nodes (tab s)). node_public_key n = rr_PublicKey req \<and> live_status n \<and>
    (\<forall>p \<in> set (sp_Peers resp). \<exists>q \<in> set (nodes (tab s)). p = peer_info (scanNodeRows q) \<and> live_status q \<and>
       node_tenant_id q = node_tenant_id n \<and> node_public_key q \<noteq> rr_PublicKey req)"
proof -
  have reads: "maintains (keeps (\<lambda>t. t)) (sync_tenant req)"
    unfolding sync_tenant_def GetTenantIDByToken_def by (intro maintains_rules)
  from assms obtain T u rows v peers w n resp' x where tenant: "sync_tenant req s = (Inr (Some T), u)"
      and sel: "select_op (\<lambda>_ t. filter (\<lambda>r. node_tenant_id r = T \<and> live_status r) (nodes t)) u = (Inr rows, v)"
      and peers: "scannable rows v = (Inr peers, w)"
      and n: "find (\<lambda>p. nd_PublicKey p = rr_PublicKey req) (rev peers) = Some n"
      and resp': "attachNodeCertificateToSyncResponse c (rr_PublicKey req) resp' x = (Inr resp, t)"
        "sp_Peers resp' = map peer_info (filter (\<lambda>p. nd_PublicKey p \<noteq> rr_PublicKey req) peers)"
    unfolding syncNode_def
    by (simp only: replied_Inr bnd_Inr [of "sync_tenant a" for a] bnd_Inr [of "scannable a" for a] bnd_Inr [of time_Now]
          bnd_Inr [of "attachNodeCertificateToSyncResponse a b d" for a b d] ret_Inr time_Now_Inr reply.inject sum.inject)
      (elim exE conjE, rule that, (assumption | simp)+)
  have rows: "set rows = {r \<in> set (nodes (tab s)). node_tenant_id r = T \<and> live_status r}"
    using select_Inr(1) [OF sel] unchanged.frame_run [OF reads tenant] by auto
  from n have "n \<in> set (rev peers) \<and> nd_PublicKey n = rr_PublicKey req" unfolding find_Some_iff by (metis nth_mem)
  then have "n \<in> set peers" "nd_PublicKey n = rr_PublicKey req" by simp_all
  with scannable_Inr [OF peers] obtain m where m: "m \<in> set rows" "node_public_key m = rr_PublicKey req"
    by (auto simp: scanNodeRows_def)
  have "\<exists>q \<in> set rows. p = peer_info (scanNodeRows q) \<and> node_public_key q \<noteq> rr_PublicKey req" if "p \<in> set (sp_Peers resp)" for p
  proof -
    from that attach_Inr [OF resp'(1)] resp'(2) obtain x where x: "x \<in> set peers" "p = peer_info x" "nd_PublicKey x \<noteq> rr_PublicKey req"
      by auto
    with scannable_Inr [OF peers] obtain q where "q \<in> set rows" "x = scanNodeRows q" by blast
    with x show ?thesis by (auto simp: scanNodeRows_def)
  qed
  with m rows show ?thesis by (intro bexI [of _ m]) auto
qed

definition sync_fleet :: db where
  "sync_fleet = sample_fleet\<lparr>go_now := 0, tab := (tab sample_fleet)\<lparr>nodes := [sample_node ''n1'' ''pk1'' ''online'', sample_node ''n2'' ''pk2'' ''stale'',
     sample_node ''n3'' ''pk3'' ''banned'', (sample_node ''n4'' ''pk4'' ''online'')\<lparr>node_tenant_id := ''t2''\<rparr>]\<rparr>\<rparr>"

definition sync_rpc :: rpc_context where
  "sync_rpc = sample_rpc\<lparr>ctx_RuntimeNodeID := Some ''n1'', ctx_RuntimeTenantID := Some ''t1''\<rparr>"

definition agent_sync_request :: SyncRequest where
  "agent_sync_request = \<lparr>sy_NodeId = ''n1'', sy_PublicKey = '''', sy_AppliedStateVersion = '''', sy_ObservedState = ''running'', sy_ObservedMessage = '''',
     sy_PublicIp = '''', sy_Endpoint = ''''\<rparr>"

theorem sync_peers_exact_witness:
  "\<exists>resp t. Sync sample_server plain_sql (createSyncAdapter join_controller) sync_rpc agent_sync_request sync_fleet = (Inr resp, t) \<and>
     map pi_PublicKey (sr_Peers resp) = [''pk2''] \<and>
     (\<exists>n \<in> set (nodes (tab sync_fleet)). set (sr_Peers resp) =
        (peer_of \<circ> scanNodeRows) ` {q \<in> set (nodes (tab sync_fleet)). is_peer (node_tenant_id n) (node_public_key n) q})"
proof -
  let ?run = "Sync sample_server plain_sql (createSyncAdapter join_controller) sync_rpc agent_sync_request sync_fleet"
  have "(case fst ?run of Inr resp \<Rightarrow> map pi_PublicKey (sr_Peers resp) = [''pk2''] | Inl _ \<Rightarrow> False)" by code_simp
  then obtain resp t where run: "?run = (Inr resp, t)" and pk: "map pi_PublicKey (sr_Peers resp) = [''pk2'']"
    by (cases ?run) (auto split: sum.split_asm)
  have keys: "distinct (map node_id (nodes (tab sync_fleet)))" "distinct (map node_public_key (nodes (tab sync_fleet)))" by code_simp+
  have "\<forall>n \<in> set (nodes (tab sync_fleet)). node_tenant_id n \<noteq> uuid_Nil" by code_simp
  from sync_peers_exact [OF run keys this] run pk show ?thesis by auto
qed

theorem registration_answer_own_tenant_witness:
  "\<exists>resp t. syncNode join_controller (join_request ''pk1'') ''100.64.0.5'' sync_fleet = (Inr (Reply resp), t) \<and>
     map ni_PublicKey (sp_Peers resp) = [''pk2''] \<and>
     (\<exists>n \<in> set (nodes (tab sync_fleet)). \<forall>p \<in> set (sp_Peers resp). \<exists>q \<in> set (nodes (tab sync_fleet)).
        p = peer_info (scanNodeRows q) \<and> live_status q \<and> node_tenant_id q = node_tenant_id n)"
proof -
  let ?run = "syncNode join_controller (join_request ''pk1'') ''100.64.0.5'' sync_fleet"
  have "(case fst ?run of Inr (Reply resp) \<Rightarrow> map ni_PublicKey (sp_Peers resp) = [''pk2''] | _ \<Rightarrow> False)" by code_simp
  then obtain resp t where run: "?run = (Inr (Reply resp), t)" and pk: "map ni_PublicKey (sp_Peers resp) = [''pk2'']"
    by (cases ?run) (auto split: sum.split_asm reply.split_asm)
  from registration_answer_own_tenant [OF run] run pk show ?thesis by (intro exI [of _ resp] exI [of _ t]) (simp, blast)
qed

end
