(* ===== verification/Rbac.thy ===== *)
theory Rbac
  imports Tenant_Scope Agent_Service Policy_Rules
begin

text \<open>
  Roles and permissions: the roles of a tenant (\<^verbatim>\<open>controllerstorage/rbac.go\<close>), the check of a
  permission in front of the handlers of the HTTP interface (\<^verbatim>\<open>api/v2/setup.go\<close>) and the handlers
  for roles (\<^verbatim>\<open>api/v2/roles.go\<close>).
\<close>

text \<open>
  What the handlers share: the reader of identifiers, the database functions, its \<^verbatim>\<open>LOWER\<close>, the
  environment variable \<^verbatim>\<open>RBAC_ENFORCEMENT\<close> and the texts of errors.
\<close>

record Router =
  ro_uuid_Parse :: "string \<Rightarrow> uuid option"
  ro_sql :: sql_lib
  ro_lower :: "string \<Rightarrow> string"
  ro_enforcement :: string
  ro_err_Error :: "err \<Rightarrow> string"

text \<open>\<^verbatim>\<open>errors.Is(err, sql.ErrNoRows)\<close>.\<close>

fun is_no_rows :: "err \<Rightarrow> bool" where
  "is_no_rows ErrNoRows = True"
| "is_no_rows (ErrWrap _ e) = is_no_rows e"
| "is_no_rows _ = False"

section \<open>Roles of a tenant\<close>

record Role =
  ro_ID :: uuid
  ro_TenantID :: uuid
  ro_Name :: string
  ro_Description :: string
  ro_IsSystem :: bool
  ro_Permissions :: "string list"
  ro_CreatedAt :: time
  ro_UpdatedAt :: time

abbreviation "SystemRoleAdmin \<equiv> ''admin''"
abbreviation "SystemRoleOperator \<equiv> ''operator''"
abbreviation "SystemRoleViewer \<equiv> ''viewer''"

definition AdminPermissions :: "string list" where
  "AdminPermissions = [''nodes:read'', ''nodes:write'', ''routes:read'', ''routes:write'', ''acls:read'', ''acls:write'',
     ''qos:read'', ''qos:write'', ''ip-groups:read'', ''ip-groups:write'', ''blacklist:read'', ''blacklist:write'',
     ''monitoring:read'', ''commands:write'', ''tokens:read'', ''tokens:write'', ''users:read'', ''users:write'',
     ''roles:read'', ''roles:write'', ''ai:use'', ''policies:read'', ''settings:read'', ''settings:write'']"

definition OperatorPermissions :: "string list" where
  "OperatorPermissions = [''nodes:read'', ''nodes:write'', ''routes:read'', ''routes:write'', ''acls:read'', ''acls:write'',
     ''qos:read'', ''qos:write'', ''ip-groups:read'', ''ip-groups:write'', ''blacklist:read'', ''blacklist:write'',
     ''monitoring:read'', ''commands:write'', ''ai:use'', ''policies:read'']"

definition ViewerPermissions :: "string list" where
  "ViewerPermissions = [''nodes:read'', ''routes:read'', ''acls:read'', ''qos:read'', ''ip-groups:read'', ''blacklist:read'',
     ''monitoring:read'', ''ai:use'', ''policies:read'']"

definition NormalizeRoleName :: "string \<Rightarrow> string" where
  "NormalizeRoleName role =
     (let roleName = TrimSpace role; lowerRoleName = ToLower roleName in
      if lowerRoleName = ''member'' then SystemRoleOperator
      else if lowerRoleName = ''owner'' then SystemRoleAdmin
      else if lowerRoleName \<in> {SystemRoleAdmin, SystemRoleOperator, SystemRoleViewer, ''super_admin''} then lowerRoleName
      else roleName)"

definition scan_role :: "role_row \<Rightarrow> Role" where
  "scan_role r = \<lparr>ro_ID = role_id r, ro_TenantID = role_tenant_id r, ro_Name = role_name r, ro_Description = role_description r,
     ro_IsSystem = role_is_system r, ro_Permissions = role_permissions r, ro_CreatedAt = role_created_at r, ro_UpdatedAt = role_updated_at r\<rparr>"

definition role_named :: "uuid \<Rightarrow> string \<Rightarrow> role_row \<Rightarrow> bool" where
  "role_named tenantID name r \<longleftrightarrow> role_tenant_id r = tenantID \<and> role_name r = name"

text \<open>\<^verbatim>\<open>ON CONFLICT (tenant_id, name) DO UPDATE\<close>.\<close>

definition upsert_role_sql :: "uuid \<Rightarrow> string \<Rightarrow> string \<Rightarrow> string list \<Rightarrow> uuid \<Rightarrow> time \<Rightarrow> tables \<Rightarrow> (tables \<times> unit) option" where
  "upsert_role_sql tenantID name desc permissions i now t =
     (if \<exists>r \<in> set (roles t). role_named tenantID name r then
        Some (t\<lparr>roles := update_where (role_named tenantID name)
          (\<lambda>r. r\<lparr>role_description := desc, role_is_system := True, role_permissions := permissions, role_updated_at := now\<rparr>) (roles t)\<rparr>, ())
      else if (\<exists>r \<in> set (roles t). role_id r = i) \<or> \<not> (\<exists>r \<in> set (tenants t). tenant_id r = tenantID) then None
      else Some (t\<lparr>roles := roles t @ [\<lparr>role_id = i, role_tenant_id = tenantID, role_name = name, role_description = desc,
        role_is_system = True, role_permissions = permissions, role_created_at = now, role_updated_at = now\<rparr>]\<rparr>, ()))"

definition systemRoles :: "(string \<times> string \<times> string list) list" where
  "systemRoles = [(SystemRoleAdmin, ''Full access to all resources'', AdminPermissions),
     (SystemRoleOperator, ''Network and policy management, no user management'', OperatorPermissions),
     (SystemRoleViewer, ''Read-only access to all resources'', ViewerPermissions)]"

definition createSystemRoles :: "uuid \<Rightarrow> unit op" where
  "createSystemRoles tenantID = for_each (\<lambda>(name, desc, permissions).
     bnd (attempt (insert_op (upsert_role_sql tenantID name desc permissions))) (\<lambda>r. case r of
         Inl e \<Rightarrow> throw (ErrWrap (''failed to create system role '' @ name) e)
       | Inr _ \<Rightarrow> ret ())) systemRoles"

definition CreateSystemRoles :: "uuid \<Rightarrow> unit op" where
  "CreateSystemRoles tenantID = createSystemRoles tenantID"

definition EnsureTenantRolesTx :: "uuid \<Rightarrow> unit op" where
  "EnsureTenantRolesTx tenantID = createSystemRoles tenantID"

definition EnsureTenantRoles :: "uuid \<Rightarrow> unit op" where
  "EnsureTenantRoles tenantID = CreateSystemRoles tenantID"

definition EnsureAllTenantRoles :: "unit op" where
  "EnsureAllTenantRoles =
     bnd (select_op (\<lambda>_ t. map tenant_id (tenants t))) (\<lambda>ids.
     bnd (for_each (\<lambda>i. bnd (check_op i) (\<lambda>tenantID.
       bnd (attempt (CreateSystemRoles tenantID)) (\<lambda>r. case r of
           Inl e \<Rightarrow> throw (ErrWrap (''failed to ensure roles for tenant '' @ tenantID) e)
         | Inr _ \<Rightarrow> ret ()))) ids) (\<lambda>_.
     check_op ()))"

text \<open>A lookup of one row, with the error of a missing row wrapped.\<close>

definition one_role :: "string \<Rightarrow> (role_row \<Rightarrow> bool) \<Rightarrow> Role op" where
  "one_role msg P = bnd (attempt (select_op (\<lambda>_ t. find P (roles t)))) (\<lambda>q. case q of
       Inl e \<Rightarrow> throw (ErrWrap msg e)
     | Inr None \<Rightarrow> throw (ErrWrap msg ErrNoRows)
     | Inr (Some r) \<Rightarrow> ret (scan_role r))"

definition GetRoleByName :: "uuid \<Rightarrow> string \<Rightarrow> Role op" where
  "GetRoleByName tenantID name =
     one_role (''role '' @ quoted name @ '' not found for tenant '' @ tenantID) (role_named tenantID name)"

definition GetRoleByID :: "uuid \<Rightarrow> uuid \<Rightarrow> Role op" where
  "GetRoleByID tenantID roleID = one_role ''role not found'' (\<lambda>r. role_tenant_id r = tenantID \<and> role_id r = roleID)"

definition ListRoles :: "sql_lib \<Rightarrow> uuid \<Rightarrow> Role list op" where
  "ListRoles lib tenantID =
     bnd (select_op (\<lambda>_ t. sort_key (\<lambda>r. \<not> role_is_system r) (sort_key (\<lambda>r. map (of_char :: char \<Rightarrow> nat) (sql_collate lib (role_name r)))
       (filter (\<lambda>r. role_tenant_id r = tenantID) (roles t))))) (\<lambda>rows. check_op (map scan_role rows))"

definition insert_role_sql :: "sql_lib \<Rightarrow> Role \<Rightarrow> uuid \<Rightarrow> time \<Rightarrow> tables \<Rightarrow> (tables \<times> role_row) option" where
  "insert_role_sql lib role i now t = (case varchar lib 64 (ro_Name role) of
       None \<Rightarrow> None
     | Some name \<Rightarrow>
         if (\<exists>r \<in> set (roles t). role_id r = i \<or> role_named (ro_TenantID role) name r) \<or>
            \<not> (\<exists>r \<in> set (tenants t). tenant_id r = ro_TenantID role) then None
         else let row = \<lparr>role_id = i, role_tenant_id = ro_TenantID role, role_name = name, role_description = ro_Description role,
                role_is_system = False, role_permissions = ro_Permissions role, role_created_at = now, role_updated_at = now\<rparr>
           in Some (t\<lparr>roles := roles t @ [row]\<rparr>, row))"

definition CreateRole :: "sql_lib \<Rightarrow> Role \<Rightarrow> Role op" where
  "CreateRole lib role = bnd (attempt (insert_op (insert_role_sql lib role))) (\<lambda>q. case q of
       Inl e \<Rightarrow> throw (ErrWrap ''failed to create role'' e)
     | Inr row \<Rightarrow> ret (scan_role row))"

definition custom_role :: "uuid \<Rightarrow> uuid \<Rightarrow> role_row \<Rightarrow> bool" where
  "custom_role tenantID roleID r \<longleftrightarrow> role_tenant_id r = tenantID \<and> role_id r = roleID \<and> \<not> role_is_system r"

definition update_role_sql :: "uuid \<Rightarrow> uuid \<Rightarrow> string \<Rightarrow> string list \<Rightarrow> time \<Rightarrow> tables \<Rightarrow> tables \<times> role_row option" where
  "update_role_sql tenantID roleID description permissions now t =
     (let rs = update_where (custom_role tenantID roleID)
        (\<lambda>r. r\<lparr>role_description := description, role_permissions := permissions, role_updated_at := now\<rparr>) (roles t)
      in (t\<lparr>roles := rs\<rparr>, find (custom_role tenantID roleID) rs))"

definition UpdateRole :: "uuid \<Rightarrow> uuid \<Rightarrow> string \<Rightarrow> string list \<Rightarrow> Role op" where
  "UpdateRole tenantID roleID description permissions =
     bnd (attempt (modify_op (update_role_sql tenantID roleID description permissions))) (\<lambda>q. case q of
         Inl e \<Rightarrow> throw (ErrWrap ''failed to update role (may be a system role)'' e)
       | Inr None \<Rightarrow> throw (ErrWrap ''failed to update role (may be a system role)'' ErrNoRows)
       | Inr (Some r) \<Rightarrow> ret (scan_role r))"

text \<open>An error of \<^verbatim>\<open>RowsAffected\<close> counts as no row.\<close>

definition DeleteRole :: "uuid \<Rightarrow> uuid \<Rightarrow> unit op" where
  "DeleteRole tenantID roleID =
     bnd (attempt (modify_op (\<lambda>_ t. (t\<lparr>roles := filter (\<lambda>r. \<not> custom_role tenantID roleID r) (roles t)\<rparr>,
         affected (custom_role tenantID roleID) (roles t))))) (\<lambda>q. case q of
       Inl e \<Rightarrow> throw (ErrWrap ''failed to delete role'' e)
     | Inr n \<Rightarrow> bnd (attempt (check_op n)) (\<lambda>a.
         if (case a of Inl e \<Rightarrow> 0 | Inr k \<Rightarrow> k) = 0 then throw (ErrMsg ''role not found or is a system role'') else ret ()))"

text \<open>
  The role of exactly that name, or else one that differs in case only; the database picks any of
  those, the model the first of the table.
\<close>

definition role_for :: "(string \<Rightarrow> string) \<Rightarrow> uuid \<Rightarrow> string \<Rightarrow> tables \<Rightarrow> role_row option" where
  "role_for lower tenantID roleName t =
     (let candidates = filter (\<lambda>r. role_tenant_id r = tenantID \<and> lower (role_name r) = lower roleName) (roles t)
      in case find (\<lambda>r. role_name r = roleName) candidates of
           Some r \<Rightarrow> Some r
         | None \<Rightarrow> (case candidates of [] \<Rightarrow> None | r # _ \<Rightarrow> Some r))"

definition GetRolePermissions :: "(string \<Rightarrow> string) \<Rightarrow> uuid \<Rightarrow> string \<Rightarrow> string list op" where
  "GetRolePermissions lower tenantID roleName =
     bnd (attempt (select_op (\<lambda>_ t. role_for lower tenantID roleName t))) (\<lambda>q. case q of
         Inl e \<Rightarrow> throw (ErrWrap (''failed to get permissions for role '' @ quoted roleName) e)
       | Inr None \<Rightarrow> throw (ErrWrap (''failed to get permissions for role '' @ quoted roleName) ErrNoRows)
       | Inr (Some r) \<Rightarrow> ret (role_permissions r))"

section \<open>What a request may do\<close>

definition authorizeTenant :: "Router \<Rightarrow> http_context \<Rightarrow> uuid \<Rightarrow> bool \<Rightarrow> unit reply op" where
  "authorizeTenant ro ctx targetTenantID requireAdmin = (case hc_UserRole ctx of
       None \<Rightarrow> ret (WriteError 401 ''UNAUTHORIZED'' ''Unauthorized'')
     | Some role \<Rightarrow>
         if role = ''super_admin'' then ret (Reply ())
         else case GetTenantID (ro_uuid_Parse ro) ctx of
           None \<Rightarrow> ret (WriteError 401 ''TENANT_CONTEXT_NOT_FOUND'' ''Tenant context missing'')
         | Some userTenantID \<Rightarrow>
             if userTenantID \<noteq> targetTenantID then ret (WriteError 403 ''ACCESS_DENIED'' ''Access denied to this tenant'')
             else bnd (attempt (GetTenantStatus targetTenantID)) (\<lambda>q. case q of
               Inl e \<Rightarrow> ret (if is_no_rows e then WriteError 404 ''TENANT_NOT_FOUND'' ''Tenant not found''
                          else WriteError 500 ''INTERNAL_ERROR'' ''Failed to verify tenant status'')
             | Inr status \<Rightarrow>
                 ret (if \<not> EqualFold status ''active'' then WriteError 403 ''ACCESS_DENIED'' ''Tenant is not active''
                      else if requireAdmin \<and> NormalizeRoleName role \<noteq> SystemRoleAdmin
                      then WriteError 403 ''ACCESS_DENIED'' ''Admin privileges required''
                      else Reply ())))"

definition authorizeTenantAdmin :: "Router \<Rightarrow> http_context \<Rightarrow> uuid \<Rightarrow> unit reply op" where
  "authorizeTenantAdmin ro ctx targetTenantID = authorizeTenant ro ctx targetTenantID True"

definition enforcement_mode :: "Router \<Rightarrow> string" where
  "enforcement_mode ro = (let mode = ToLower (TrimSpace (ro_enforcement ro)) in if mode = '''' then ''enforce'' else mode)"

text \<open>\<open>after a f\<close> goes on when the check \<open>a\<close> answered nothing.\<close>

definition after :: "unit reply op \<Rightarrow> 'a reply op \<Rightarrow> 'a reply op" where
  "after a m = bnd a (\<lambda>r. case r of Reply _ \<Rightarrow> m | WriteError k c msg \<Rightarrow> ret (WriteError k c msg) | HttpError k msg \<Rightarrow> ret (HttpError k msg))"

definition authorizeTenantPermission :: "Router \<Rightarrow> http_context \<Rightarrow> uuid \<Rightarrow> string \<Rightarrow> unit reply op" where
  "authorizeTenantPermission ro ctx targetTenantID permission =
     after (authorizeTenant ro ctx targetTenantID False) (
       if enforcement_mode ro = ''off'' \<or> permission = '''' then ret (Reply ())
       else let role = coalesce (hc_UserRole ctx) '''' in
         if role = ''super_admin'' then ret (Reply ())
         else bnd (attempt (GetRolePermissions (ro_lower ro) targetTenantID (NormalizeRoleName role))) (\<lambda>q. case q of
             Inl e \<Rightarrow> ret (WriteError 403 ''ACCESS_DENIED'' ''Role permission lookup failed'')
           | Inr permissions \<Rightarrow>
               if permission \<in> set permissions \<or> enforcement_mode ro = ''audit'' then ret (Reply ())
               else ret (WriteError 403 ''ACCESS_DENIED'' ''Insufficient permissions'')))"

definition authorizeTenantAnyPermission :: "Router \<Rightarrow> http_context \<Rightarrow> uuid \<Rightarrow> string list \<Rightarrow> unit reply op" where
  "authorizeTenantAnyPermission ro ctx targetTenantID permissions =
     after (authorizeTenant ro ctx targetTenantID False) (
       if enforcement_mode ro = ''off'' \<or> permissions = [] then ret (Reply ())
       else let role = coalesce (hc_UserRole ctx) '''' in
         if role = ''super_admin'' then ret (Reply ())
         else bnd (attempt (GetRolePermissions (ro_lower ro) targetTenantID (NormalizeRoleName role))) (\<lambda>q. case q of
             Inl e \<Rightarrow> ret (WriteError 403 ''ACCESS_DENIED'' ''Role permission lookup failed'')
           | Inr rolePermissions \<Rightarrow>
               if list_ex (\<lambda>p. TrimSpace p \<noteq> '''' \<and> p \<in> set rolePermissions) permissions \<or> enforcement_mode ro = ''audit''
               then ret (Reply ())
               else ret (WriteError 403 ''ACCESS_DENIED'' ''Insufficient permissions'')))"

section \<open>The handlers for roles\<close>

definition splitPath :: "string \<Rightarrow> string list" where
  "splitPath path = (let trimmed = Trim path ''/'' in if trimmed = '''' then [] else Split CHR ''/'' trimmed)"

definition splitTenantPath :: "string \<Rightarrow> (string \<times> string) option" where
  "splitTenantPath path = (let parts = splitPath path in
     if length parts < 4 \<or> take 3 parts \<noteq> [''api'', ''v2'', ''tenants''] then None
     else Some (parts ! 3, Join ''/'' (drop 4 parts)))"

definition withTenantContext :: "http_context \<Rightarrow> uuid \<Rightarrow> http_context" where
  "withTenantContext ctx tenantID = ctx\<lparr>hc_TenantID := Some (CtxString tenantID)\<rparr>"

definition allowedCustomRolePermissions :: "string set" where
  "allowedCustomRolePermissions = {''nodes:read'', ''nodes:write'', ''routes:read'', ''routes:write'', ''acls:read'', ''acls:write'',
     ''qos:read'', ''qos:write'', ''ip-groups:read'', ''ip-groups:write'', ''blacklist:read'', ''blacklist:write'', ''monitoring:read'',
     ''commands:write'', ''tokens:read'', ''tokens:write'', ''users:read'', ''users:write'', ''roles:read'', ''roles:write'', ''ai:use'',
     ''policies:read'', ''settings:read'', ''settings:write''}"

fun collect_permissions :: "string list \<Rightarrow> string list \<Rightarrow> err + string list" where
  "collect_permissions normalized [] = Inr normalized"
| "collect_permissions normalized (permission # raw) =
     (let permission = TrimSpace permission in
      if permission = '''' then collect_permissions normalized raw
      else if permission \<notin> allowedCustomRolePermissions then Inl (ErrMsg (''invalid permission '' @ double_quoted permission))
      else if permission \<in> set normalized then collect_permissions normalized raw
      else collect_permissions (normalized @ [permission]) raw)"

definition normalizeCustomRolePermissions :: "string list \<Rightarrow> err + string list" where
  "normalizeCustomRolePermissions raw = (case collect_permissions [] raw of
       Inl e \<Rightarrow> Inl e
     | Inr normalized \<Rightarrow> if normalized = [] then Inl (ErrMsg ''at least one permission is required'') else Inr normalized)"

datatype role_answer = RoleList "Role list" | RoleOne Role | RoleDeleted uuid

record role_body =
  rb_Name :: string
  rb_Description :: string
  rb_Permissions :: "string list"

definition listRoles :: "Router \<Rightarrow> uuid \<Rightarrow> role_answer reply op" where
  "listRoles ro tenantID = bnd (attempt (ListRoles (ro_sql ro) tenantID)) (\<lambda>q. ret (case q of
       Inl e \<Rightarrow> WriteError 500 ''INTERNAL_ERROR'' (''Failed to list roles: '' @ ro_err_Error ro e)
     | Inr rs \<Rightarrow> Reply (RoleList rs)))"

definition getRole :: "uuid \<Rightarrow> uuid \<Rightarrow> role_answer reply op" where
  "getRole tenantID roleID = bnd (attempt (GetRoleByID tenantID roleID)) (\<lambda>q. ret (case q of
       Inl e \<Rightarrow> WriteError 404 ''NOT_FOUND'' ''Role not found''
     | Inr role \<Rightarrow> Reply (RoleOne role)))"

definition createRole :: "Router \<Rightarrow> uuid \<Rightarrow> role_body option \<Rightarrow> role_answer reply op" where
  "createRole ro tenantID body = (case body of
       None \<Rightarrow> ret (WriteError 400 ''INVALID_REQUEST'' ''Invalid request body'')
     | Some body \<Rightarrow>
         let name = TrimSpace (rb_Name body) in
         if name = '''' then ret (WriteError 400 ''INVALID_REQUEST'' ''Role name is required'')
         else case normalizeCustomRolePermissions (rb_Permissions body) of
           Inl e \<Rightarrow> ret (WriteError 400 ''INVALID_REQUEST'' (ro_err_Error ro e))
         | Inr permissions \<Rightarrow>
             bnd (attempt (CreateRole (ro_sql ro) \<lparr>ro_ID = uuid_Nil, ro_TenantID = tenantID, ro_Name = name, ro_Description = rb_Description body,
               ro_IsSystem = False, ro_Permissions = permissions, ro_CreatedAt = 0, ro_UpdatedAt = 0\<rparr>)) (\<lambda>q. ret (case q of
                 Inl e \<Rightarrow> WriteError 500 ''INTERNAL_ERROR'' (''Failed to create role: '' @ ro_err_Error ro e)
               | Inr created \<Rightarrow> Reply (RoleOne created))))"

definition updateRole :: "Router \<Rightarrow> uuid \<Rightarrow> uuid \<Rightarrow> role_body option \<Rightarrow> role_answer reply op" where
  "updateRole ro tenantID roleID body = (case body of
       None \<Rightarrow> ret (WriteError 400 ''INVALID_REQUEST'' ''Invalid request body'')
     | Some body \<Rightarrow> (case normalizeCustomRolePermissions (rb_Permissions body) of
           Inl e \<Rightarrow> ret (WriteError 400 ''INVALID_REQUEST'' (ro_err_Error ro e))
         | Inr permissions \<Rightarrow>
             bnd (attempt (UpdateRole tenantID roleID (rb_Description body) permissions)) (\<lambda>q. ret (case q of
                 Inl e \<Rightarrow> WriteError 400 ''INVALID_REQUEST'' (''Failed to update role: '' @ ro_err_Error ro e)
               | Inr updated \<Rightarrow> Reply (RoleOne updated)))))"

definition deleteRole :: "Router \<Rightarrow> uuid \<Rightarrow> uuid \<Rightarrow> role_answer reply op" where
  "deleteRole ro tenantID roleID = bnd (attempt (DeleteRole tenantID roleID)) (\<lambda>q. ret (case q of
       Inl e \<Rightarrow> WriteError 400 ''INVALID_REQUEST'' (ro_err_Error ro e)
     | Inr _ \<Rightarrow> Reply (RoleDeleted roleID)))"

abbreviation method_not_allowed :: "'a reply" where
  "method_not_allowed \<equiv> WriteError 405 ''METHOD_NOT_ALLOWED'' ''Method not allowed''"

definition handleRoles :: "Router \<Rightarrow> string \<Rightarrow> uuid \<Rightarrow> role_body option \<Rightarrow> role_answer reply op" where
  "handleRoles ro meth tenantID body =
     (if meth = ''GET'' then listRoles ro tenantID
      else if meth = ''POST'' then createRole ro tenantID body
      else ret method_not_allowed)"

definition handleRoleDetail :: "Router \<Rightarrow> string \<Rightarrow> uuid \<Rightarrow> string \<Rightarrow> role_body option \<Rightarrow> role_answer reply op" where
  "handleRoleDetail ro meth tenantID roleIDStr body = (case ro_uuid_Parse ro roleIDStr of
       None \<Rightarrow> ret (WriteError 400 ''INVALID_REQUEST'' ''Invalid role ID'')
     | Some roleID \<Rightarrow>
         if meth = ''GET'' then getRole tenantID roleID
         else if meth = ''PUT'' then updateRole ro tenantID roleID body
         else if meth = ''DELETE'' then deleteRole ro tenantID roleID
         else ret method_not_allowed)"

definition roles_endpoint :: "Router \<Rightarrow> string \<Rightarrow> http_request \<Rightarrow> uuid \<Rightarrow> role_body option \<Rightarrow> role_answer reply op" where
  "roles_endpoint ro meth r tenantID body = (case dropWhile (\<lambda>p. p \<noteq> ''roles'') (splitPath (rq_URL_Path r)) of
       [] \<Rightarrow> ret (WriteError 404 ''ENDPOINT_NOT_FOUND'' ''Unknown roles endpoint'')
     | _ # rest \<Rightarrow> (case rest of
           roleID # _ \<Rightarrow> if roleID \<noteq> '''' then handleRoleDetail ro meth tenantID roleID body else handleRoles ro meth tenantID body
         | [] \<Rightarrow> handleRoles ro meth tenantID body))"

definition handleTenantRoles :: "Router \<Rightarrow> string \<Rightarrow> http_request \<Rightarrow> http_context \<Rightarrow> uuid \<Rightarrow> role_body option \<Rightarrow> role_answer reply op" where
  "handleTenantRoles ro meth r ctx tenantID body =
     after (authorizeTenantPermission ro ctx tenantID (if meth = ''GET'' then ''roles:read'' else ''roles:write''))
       (roles_endpoint ro meth r tenantID body)"

section \<open>Who changes a role, and which\<close>

lemma maintains_reply [maintains_rules]:
  assumes "\<And>x. r = Reply x \<Longrightarrow> maintains R (f x)" and "\<And>k c msg. maintains R (g k c msg)" and "\<And>k msg. maintains R (h k msg)"
  shows "maintains R (case r of Reply x \<Rightarrow> f x | WriteError k c msg \<Rightarrow> g k c msg | HttpError k msg \<Rightarrow> h k msg)"
  using assms by (cases r) simp_all

lemma reads_authorizeTenant: "maintains (keeps (\<lambda>t. t)) (authorizeTenant ro ctx T admin)"
  unfolding authorizeTenant_def GetTenantStatus_def by (intro maintains_rules)

lemma reads_GetRolePermissions: "maintains (keeps (\<lambda>t. t)) (GetRolePermissions lower T name)"
  unfolding GetRolePermissions_def by (intro maintains_rules)

lemma reads_permission:
  "maintains (keeps (\<lambda>t. t)) (authorizeTenantPermission ro ctx T p)"
  "maintains (keeps (\<lambda>t. t)) (authorizeTenantAnyPermission ro ctx T ps)"
  unfolding authorizeTenantPermission_def authorizeTenantAnyPermission_def after_def
  by (intro maintains_rules reads_authorizeTenant reads_GetRolePermissions)+

text \<open>What is in the tables when a check of a permission passes.\<close>

definition tenant_active :: "uuid \<Rightarrow> tables \<Rightarrow> bool" where
  "tenant_active T t \<longleftrightarrow> (\<exists>r st. find (\<lambda>r. tenant_id r = T) (tenants t) = Some r \<and> tenant_status r = Some st \<and> EqualFold (TrimSpace st) ''active'')"

definition permitted :: "Router \<Rightarrow> tables \<Rightarrow> http_context \<Rightarrow> uuid \<Rightarrow> string \<Rightarrow> bool" where
  "permitted ro t ctx T p \<longleftrightarrow> (\<exists>role. hc_UserRole ctx = Some role \<and> (role = ''super_admin'' \<or>
     GetTenantID (ro_uuid_Parse ro) ctx = Some T \<and> tenant_active T t \<and>
     (\<exists>r. role_for (ro_lower ro) T (NormalizeRoleName role) t = Some r \<and> p \<in> set (role_permissions r))))"

lemma GetTenantStatus_Inr:
  assumes "GetTenantStatus T s = (Inr st, t)"
  shows "\<exists>r st'. find (\<lambda>r. tenant_id r = T) (tenants (tab s)) = Some r \<and> tenant_status r = Some st' \<and> st = TrimSpace st'"
proof -
  from assms obtain x u where sel: "select_op (\<lambda>_ t. find (\<lambda>r. tenant_id r = T) (tenants t)) s = (Inr x, u)"
      and out: "(case x of None \<Rightarrow> throw ErrNoRows
        | Some r \<Rightarrow> (case tenant_status r of None \<Rightarrow> throw DBError | Some status \<Rightarrow> ret (TrimSpace status))) u = (Inr st, t)"
    unfolding GetTenantStatus_def by (auto simp: bnd_Inr)
  from out select_Inr(1) [OF sel] show ?thesis by (cases x) (auto simp: throw_Inr ret_Inr split: option.split_asm)
qed

lemma authorizeTenant_Reply:
  assumes "authorizeTenant ro ctx T False s = (Inr (Reply x), t)"
  obtains role where "hc_UserRole ctx = Some role"
    "role = ''super_admin'' \<or> GetTenantID (ro_uuid_Parse ro) ctx = Some T \<and> tenant_active T (tab s)"
proof (cases "hc_UserRole ctx")
  case None
  with assms show thesis by (simp add: authorizeTenant_def ret_Inr)
next
  case (Some role)
  show thesis
  proof (cases "role = ''super_admin''")
    case True
    with that [OF Some] show thesis by blast
  next
    case False
    with assms Some obtain i q u where i: "GetTenantID (ro_uuid_Parse ro) ctx = Some i" "i = T" and q: "GetTenantStatus T s = (q, u)"
        and out: "(case q of
               Inl e \<Rightarrow> ret (if is_no_rows e then WriteError 404 ''TENANT_NOT_FOUND'' ''Tenant not found''
                          else WriteError 500 ''INTERNAL_ERROR'' ''Failed to verify tenant status'')
             | Inr status \<Rightarrow>
                 ret (if \<not> EqualFold status ''active'' then WriteError 403 ''ACCESS_DENIED'' ''Tenant is not active'' else Reply ())) u = (Inr (Reply x), t)"
      by (auto simp: authorizeTenant_def ret_Inr bnd_Inr attempt_Inr split: option.split_asm if_split_asm)
    from out obtain st where "q = Inr st" "EqualFold st ''active''"
      by (cases q) (auto simp: ret_Inr split: if_split_asm)
    with GetTenantStatus_Inr [of T s st u] q i have "tenant_active T (tab s)" by (auto simp: tenant_active_def)
    with Some i show thesis by (intro that) simp_all
  qed
qed

lemma GetRolePermissions_Inr:
  assumes "GetRolePermissions lower T name s = (Inr ps, t)"
  shows "\<exists>r. role_for lower T name (tab s) = Some r \<and> ps = role_permissions r"
proof -
  obtain x u where sel: "select_op (\<lambda>_ t. role_for lower T name t) s = (x, u)" by fastforce
  show ?thesis
  proof (cases x)
    case (Inl e)
    with assms sel show ?thesis by (simp add: GetRolePermissions_def bnd_def attempt_def throw_def)
  next
    case (Inr y)
    with assms sel have "y = Some r \<Longrightarrow> ps = role_permissions r" and "y \<noteq> None" for r
      by (cases y; simp add: GetRolePermissions_def bnd_def attempt_def throw_def ret_def)+
    moreover from select_Inr(1) [OF sel [unfolded Inr]] have "y = role_for lower T name (tab s)" .
    ultimately show ?thesis by auto
  qed
qed

lemma after_Reply:
  assumes "after a m s = (Inr (Reply x), t)"
  obtains y u where "a s = (Inr (Reply y), u)" "m u = (Inr (Reply x), t)"
proof -
  from assms obtain r u where r: "a s = (Inr r, u)" and out: "(case r of Reply _ \<Rightarrow> m | WriteError k c msg \<Rightarrow> ret (WriteError k c msg)
      | HttpError k msg \<Rightarrow> ret (HttpError k msg)) u = (Inr (Reply x), t)"
    unfolding after_def by (auto simp: bnd_Inr)
  then show thesis by (cases r) (auto simp: ret_Inr intro: that)
qed

lemma authorizeTenantPermission_Reply:
  assumes "authorizeTenantPermission ro ctx T p s = (Inr (Reply x), t)"
    and "enforcement_mode ro \<notin> {''off'', ''audit''}" and "p \<noteq> ''''"
  shows "permitted ro (tab s) ctx T p"
proof -
  from assms(1) obtain y u where a: "authorizeTenant ro ctx T False s = (Inr (Reply y), u)"
      and m: "(if enforcement_mode ro = ''off'' \<or> p = '''' then ret (Reply ())
       else let role = coalesce (hc_UserRole ctx) '''' in
         if role = ''super_admin'' then ret (Reply ())
         else bnd (attempt (GetRolePermissions (ro_lower ro) T (NormalizeRoleName role))) (\<lambda>q. case q of
             Inl e \<Rightarrow> ret (WriteError 403 ''ACCESS_DENIED'' ''Role permission lookup failed'')
           | Inr permissions \<Rightarrow>
               if p \<in> set permissions \<or> enforcement_mode ro = ''audit'' then ret (Reply ())
               else ret (WriteError 403 ''ACCESS_DENIED'' ''Insufficient permissions''))) u = (Inr (Reply x), t)"
    unfolding authorizeTenantPermission_def by (rule after_Reply)
  have u: "tab u = tab s" using unchanged.frame_run [OF reads_authorizeTenant a] .
  from a obtain role where role: "hc_UserRole ctx = Some role"
      "role = ''super_admin'' \<or> GetTenantID (ro_uuid_Parse ro) ctx = Some T \<and> tenant_active T (tab s)"
    by (rule authorizeTenant_Reply)
  show ?thesis
  proof (cases "role = ''super_admin''")
    case True
    with role show ?thesis by (simp add: permitted_def)
  next
    case False
    with m assms(2,3) role(1) obtain q v where q: "GetRolePermissions (ro_lower ro) T (NormalizeRoleName role) u = (q, v)"
        and out: "(case q of
             Inl e \<Rightarrow> ret (WriteError 403 ''ACCESS_DENIED'' ''Role permission lookup failed'')
           | Inr permissions \<Rightarrow>
               if p \<in> set permissions then ret (Reply ())
               else ret (WriteError 403 ''ACCESS_DENIED'' ''Insufficient permissions'')) v = (Inr (Reply x), t)"
      by (auto simp: Let_def coalesce_def bnd_Inr attempt_Inr)
    from out obtain ps where "q = Inr ps" "p \<in> set ps" by (cases q) (auto simp: ret_Inr split: if_split_asm)
    with q GetRolePermissions_Inr [of "ro_lower ro" T "NormalizeRoleName role" u ps v] u role False
    show ?thesis by (auto simp: permitted_def)
  qed
qed

text \<open>Everything but the roles that the tenant \<open>T\<close> made itself.\<close>

definition beside_custom_roles :: "uuid \<Rightarrow> tables \<Rightarrow> role_row list \<times> tables" where
  "beside_custom_roles T t = (filter (\<lambda>r. role_tenant_id r \<noteq> T \<or> role_is_system r) (roles t), t\<lparr>roles := []\<rparr>)"

interpretation role_frame: table_frame "beside_custom_roles T" for T .

lemma filter_custom:
  "filter (\<lambda>r. role_tenant_id r = T \<longrightarrow> role_is_system r) (filter (\<lambda>r. \<not> custom_role T roleID r) rs) =
     filter (\<lambda>r. role_tenant_id r = T \<longrightarrow> role_is_system r) rs"
  by (induction rs) (auto simp: custom_role_def)

lemma role_frame_ops:
  "ro_TenantID role = T \<Longrightarrow> maintains (keeps (beside_custom_roles T)) (CreateRole lib role)"
  "maintains (keeps (beside_custom_roles T)) (UpdateRole T roleID d ps)"
  "maintains (keeps (beside_custom_roles T)) (DeleteRole T roleID)"
  "maintains (keeps (beside_custom_roles T)) (GetRoleByID T roleID)"
  "maintains (keeps (beside_custom_roles T)) (ListRoles lib T)"
proof -
  show "ro_TenantID role = T \<Longrightarrow> maintains (keeps (beside_custom_roles T)) (CreateRole lib role)"
    unfolding CreateRole_def
    by (intro maintains_rules) (auto simp: keeps_def beside_custom_roles_def insert_role_sql_def Let_def split: option.split_asm if_split_asm)
  show "maintains (keeps (beside_custom_roles T)) (UpdateRole T roleID d ps)"
    unfolding UpdateRole_def
    by (intro maintains_rules)
      (auto simp: keeps_def beside_custom_roles_def update_role_sql_def custom_role_def Let_def intro!: filter_update_other)
  show "maintains (keeps (beside_custom_roles T)) (DeleteRole T roleID)"
    unfolding DeleteRole_def
    by (intro maintains_rules) (simp add: keeps_def beside_custom_roles_def filter_custom del: filter_filter)
  show "maintains (keeps (beside_custom_roles T)) (GetRoleByID T roleID)"
    unfolding GetRoleByID_def one_role_def by (intro maintains_rules)
  show "maintains (keeps (beside_custom_roles T)) (ListRoles lib T)"
    unfolding ListRoles_def by (intro maintains_rules)
qed

lemma role_frame_endpoint: "maintains (keeps (beside_custom_roles T)) (roles_endpoint ro meth r T body)"
  unfolding roles_endpoint_def handleRoles_def handleRoleDetail_def listRoles_def createRole_def getRole_def updateRole_def deleteRole_def
  by (intro maintains_rules role_frame_ops; simp)

lemma reads_roles: "maintains (keeps (\<lambda>t. t)) (listRoles ro T)" "maintains (keeps (\<lambda>t. t)) (getRole T i)"
  unfolding listRoles_def getRole_def ListRoles_def GetRoleByID_def one_role_def by (intro maintains_rules)+

lemma reads_GET_roles: "maintains (keeps (\<lambda>t. t)) (roles_endpoint ro ''GET'' r T body)"
  unfolding roles_endpoint_def handleRoles_def handleRoleDetail_def by (intro maintains_rules reads_roles; simp)

lemma after_cases:
  assumes "after a m s = (res, t)" and "maintains (keeps (\<lambda>t. t)) a"
  obtains (stopped) "tab t = tab s" "\<And>y. res \<noteq> Inr (Reply y)" | (went_on) y u where "a s = (Inr (Reply y), u)" "tab u = tab s" "m u = (res, t)"
proof -
  obtain r u where r: "a s = (r, u)" by fastforce
  have u: "tab u = tab s" using unchanged.frame_run [OF assms(2) r] .
  show thesis
  proof (cases "\<exists>y. r = Inr (Reply y)")
    case True
    with r assms(1) u show thesis by (auto simp: after_def bnd_def intro: went_on)
  next
    case False
    with r assms(1) have "t = u" "res \<noteq> Inr (Reply y)" for y
      by (auto simp: after_def bnd_def ret_def split: sum.split_asm reply.split_asm)
    with u show thesis by (intro stopped) simp_all
  qed
qed

text \<open>
  (C11) With permissions enforced, a request to the handler for roles that changes the tables was
  made with a current session that is a super administrator's, or one of an active tenant's user
  whose role holds \<^verbatim>\<open>roles:write\<close>; and it changes nothing but roles this tenant made itself: the
  system roles and the other tenants stay as they are.
\<close>

theorem role_change_needs_permission:
  assumes run: "jwtAuthMiddleware lib secret (ro_uuid_Parse ro) (\<lambda>ctx. handleTenantRoles ro meth r ctx T body) True r s = (res, t)"
    and "enforcement_mode ro \<notin> {''off'', ''audit''}" and "hc_TenantID (rq_Context r) = None" and "tab t \<noteq> tab s"
  shows "beside_custom_roles T (tab t) = beside_custom_roles T (tab s) \<and>
    (\<exists>claims usr. ValidateToken lib secret (extractHTTPAuthorizationToken (rq_Header_Get r ''Authorization'')) s = (Inr claims, s) \<and>
       current_user (ro_uuid_Parse ro) (tab s) claims usr \<and>
       (cl_Role claims = ''super_admin'' \<or> ro_uuid_Parse ro (cl_TenantID claims) = Some T \<and> tenant_active T (tab s) \<and>
          (\<exists>role. role_for (ro_lower ro) T (NormalizeRoleName (cl_Role claims)) (tab s) = Some role \<and> ''roles:write'' \<in> set (role_permissions role))))"
  using run
proof (cases rule: jwtAuthMiddleware_cases)
  case (refused e)
  with assms(4) show ?thesis by simp
next
  case (served claims u tok)
  let ?ctx = "session_context (ro_uuid_Parse ro) claims r"
  let ?p = "if meth = ''GET'' then ''roles:read'' else ''roles:write''"
  have role: "hc_UserRole ?ctx = Some (cl_Role claims)" by (simp add: session_context_def with_claims_tenant_def Let_def split: option.split)
  from served(6) [unfolded handleTenantRoles_def] reads_permission(1) show ?thesis
  proof (cases rule: after_cases)
    case stopped
    with served(5) assms(4) show ?thesis by simp
  next
    case (went_on y v)
    from role_frame.frame_run [OF role_frame_endpoint went_on(3)] went_on(2) served(5)
    have frame: "beside_custom_roles T (tab t) = beside_custom_roles T (tab s)" by simp
    have "meth \<noteq> ''GET''"
      using unchanged.frame_run [OF reads_GET_roles, of ro r T body v res t] went_on(2,3) served(5) assms(4) by auto
    with authorizeTenantPermission_Reply [OF went_on(1) assms(2)] served(5)
    have perm: "permitted ro (tab s) ?ctx T ''roles:write''" by simp
    have "ro_uuid_Parse ro (cl_TenantID claims) = Some T" if "cl_Role claims \<noteq> ''super_admin''" "GetTenantID (ro_uuid_Parse ro) ?ctx = Some T"
      using that claims_tenant [OF that(1) assms(3), of "ro_uuid_Parse ro"] by (simp split: if_split_asm)
    with perm role have "cl_Role claims = ''super_admin'' \<or> ro_uuid_Parse ro (cl_TenantID claims) = Some T \<and> tenant_active T (tab s) \<and>
          (\<exists>role. role_for (ro_lower ro) T (NormalizeRoleName (cl_Role claims)) (tab s) = Some role \<and> ''roles:write'' \<in> set (role_permissions role))"
      by (auto simp: permitted_def)
    with frame served show ?thesis by blast
  qed
qed

definition role_router :: Router where
  "role_router = \<lparr>ro_uuid_Parse = Some, ro_sql = plain_sql, ro_lower = ToLower, ro_enforcement = '''', ro_err_Error = (\<lambda>_. ''error'')\<rparr>"

definition role_db :: db where
  "role_db = snd (EnsureTenantRoles ''t1'' (sample_tenant_db\<lparr>tab := (tab sample_tenant_db)\<lparr>roles :=
     [\<lparr>role_id = ''own'', role_tenant_id = ''t1'', role_name = ''owner'', role_description = '''', role_is_system = False,
        role_permissions = [''nodes:read''], role_created_at = 0, role_updated_at = 0\<rparr>]\<rparr>\<rparr>))"

definition role_request :: http_request where
  "role_request = sample_request\<lparr>rq_URL_Path := ''/api/v2/tenants/t1/roles''\<rparr>"

definition auditor :: role_body where
  "auditor = \<lparr>rb_Name = '' auditor '', rb_Description = '''', rb_Permissions = [''nodes:read'', '''', ''nodes:read'']\<rparr>"

theorem role_change_needs_permission_witness:
  "\<exists>res t. jwtAuthMiddleware session_lib (Some ''k'') (ro_uuid_Parse role_router)
       (\<lambda>ctx. handleTenantRoles role_router ''POST'' role_request ctx ''t1'' (Some auditor)) True role_request role_db = (res, t) \<and>
     map role_name (roles (tab t)) = [''owner'', ''admin'', ''operator'', ''viewer'', ''auditor''] \<and>
     beside_custom_roles ''t1'' (tab t) = beside_custom_roles ''t1'' (tab role_db)"
proof -
  let ?run = "jwtAuthMiddleware session_lib (Some ''k'') (ro_uuid_Parse role_router)
       (\<lambda>ctx. handleTenantRoles role_router ''POST'' role_request ctx ''t1'' (Some auditor)) True role_request role_db"
  have names: "map role_name (roles (tab (snd ?run))) = [''owner'', ''admin'', ''operator'', ''viewer'', ''auditor'']"
    "map role_name (roles (tab role_db)) = [''owner'', ''admin'', ''operator'', ''viewer'']"
    by code_simp+
  then have "tab (snd ?run) \<noteq> tab role_db" by auto
  moreover have "enforcement_mode role_router \<notin> {''off'', ''audit''}" "hc_TenantID (rq_Context role_request) = None" by code_simp+
  ultimately have "beside_custom_roles ''t1'' (tab (snd ?run)) = beside_custom_roles ''t1'' (tab role_db)"
    using role_change_needs_permission [of session_lib "Some ''k''" role_router "''POST''" role_request "''t1''" "Some auditor" role_db "fst ?run" "snd ?run"]
    by simp
  with names show ?thesis by (intro exI [of _ "fst ?run"] exI [of _ "snd ?run"]) simp
qed

text \<open>
  A role a tenant calls \<^verbatim>\<open>owner\<close> is not the role its users get: the name is read as the system
  role \<^verbatim>\<open>admin\<close>, and a user of it may do everything an administrator may.
\<close>

theorem owner_role_is_admin:
  "let ctx = \<lparr>hc_UserID = Some ''u2'', hc_Username = None, hc_UserRole = Some ''owner'', hc_TenantID = Some (CtxUUID ''t1'')\<rparr> in
     map role_permissions (filter (role_named ''t1'' ''owner'') (roles (tab role_db))) = [[''nodes:read'']] \<and>
     fst (authorizeTenantPermission role_router ctx ''t1'' ''users:write'' role_db) = Inr (Reply ())"
  by code_simp

end
