(* ===== verification/Accounts.thy ===== *)
theory Accounts
  imports Rbac
begin

text \<open>
  Accounts: login, refresh, logout, permissions and change of password (\<^verbatim>\<open>api/handlers/auth.go\<close>),
  the tenants and the users of a tenant (\<^verbatim>\<open>api/handlers/tenant.go\<close>), and the first super
  administrator and tenant (\<^verbatim>\<open>cli/controller_serve.go\<close>).
\<close>

text \<open>
  What the handlers share: the token library and its secret, the reader of identifiers, the
  database functions, bcrypt (\<open>aa_Compare\<close> a hash with a password, \<open>aa_Generate\<close> what a call of
  \<^verbatim>\<open>GenerateFromPassword\<close> returns) and the texts of errors. The database reads an identifier in a
  text as \<^verbatim>\<open>uuid.Parse\<close> does.
\<close>

record AuthAPI =
  aa_jwt :: "Claims jwt_lib"
  aa_secret :: "string option"
  aa_uuid_Parse :: "string \<Rightarrow> uuid option"
  aa_sql :: sql_lib
  aa_lower :: "string \<Rightarrow> string"
  aa_Compare :: "string \<Rightarrow> string \<Rightarrow> bool"
  aa_Generate :: "string \<Rightarrow> err + string"
  aa_err_Error :: "err \<Rightarrow> string"

section \<open>Sessions\<close>

definition normalizeAuthRole :: "string \<Rightarrow> string" where
  "normalizeAuthRole role = NormalizeRoleName role"

fun sanitize :: "string list \<Rightarrow> string list \<Rightarrow> string list" where
  "sanitize sanitized [] = sanitized"
| "sanitize sanitized (p # ps) = (let p = TrimSpace p in
     if p = '''' \<or> p = ''*'' \<or> p \<in> set sanitized then sanitize sanitized ps else sanitize (sanitized @ [p]) ps)"

definition sanitizeTenantPermissions :: "string list \<Rightarrow> string list" where
  "sanitizeTenantPermissions permissions = sanitize [] permissions"

definition errTenantInactive :: err where
  "errTenantInactive = ErrMsg ''tenant is not active''"

definition verifyTenantActive :: "AuthAPI \<Rightarrow> string \<Rightarrow> unit op" where
  "verifyTenantActive a tenantID = (let tenantID = TrimSpace tenantID in
     if tenantID = '''' then throw errTenantInactive
     else case aa_uuid_Parse a tenantID of
       None \<Rightarrow> throw (ErrMsg ''invalid UUID'')
     | Some parsedTenantID \<Rightarrow>
         bnd (GetTenantStatus parsedTenantID) (\<lambda>status.
         if EqualFold (TrimSpace status) ''active'' then ret () else throw errTenantInactive))"

definition writeTenantInactiveAuthError :: "err \<Rightarrow> 'a reply" where
  "writeTenantInactiveAuthError e =
     (if e = errTenantInactive \<or> is_no_rows e then WriteError 403 ''ACCESS_DENIED'' ''Tenant is not active''
      else WriteError 500 ''INTERNAL_ERROR'' ''Failed to verify tenant status'')"

definition extractAuthTokenFromHeader :: "string \<Rightarrow> string" where
  "extractAuthTokenFromHeader authHeader = extractHTTPAuthorizationToken authHeader"

record LoginRequest =
  lr_Username :: string
  lr_Password :: string

record login_answer =
  la_token :: string
  la_require_password_change :: bool
  la_user_id :: string
  la_username :: string
  la_role :: string
  la_tenant_id :: string

text \<open>A super administrator needs no tenant; every other role needs an active one.\<close>

definition needs_tenant :: "AuthAPI \<Rightarrow> string \<Rightarrow> string \<Rightarrow> 'a reply op \<Rightarrow> 'a reply op" where
  "needs_tenant a role tID m =
     (if normalizeAuthRole role = ''super_admin'' then m
      else bnd (attempt (verifyTenantActive a tID)) (\<lambda>v. case v of
          Inl e \<Rightarrow> ret (writeTenantInactiveAuthError e)
        | Inr _ \<Rightarrow> m))"

definition HandleLogin :: "AuthAPI \<Rightarrow> string \<Rightarrow> LoginRequest option \<Rightarrow> login_answer reply op" where
  "HandleLogin a meth body =
     (if meth \<noteq> ''POST'' then ret method_not_allowed
      else case body of None \<Rightarrow> ret (WriteError 400 ''INVALID_REQUEST'' ''Invalid request body'') | Some req \<Rightarrow>
      if lr_Username req = '''' \<or> lr_Password req = '''' then ret (WriteError 400 ''VALIDATION_FAILED'' ''Username and password are required'')
      else bnd (attempt (select_op (\<lambda>_ t. find (\<lambda>u. user_username u = lr_Username req) (users t)))) (\<lambda>q. case q of
          Inl e \<Rightarrow> ret (WriteError 500 ''DB_ERROR'' ''Database query failed'')
        | Inr None \<Rightarrow> ret (WriteError 401 ''INVALID_CREDENTIALS'' ''Invalid username or password'')
        | Inr (Some u) \<Rightarrow> (case user_role u of
            None \<Rightarrow> ret (WriteError 500 ''DB_ERROR'' ''Database query failed'')
          | Some role \<Rightarrow>
              if \<not> aa_Compare a (user_password_hash u) (lr_Password req)
              then ret (WriteError 401 ''INVALID_CREDENTIALS'' ''Invalid username or password'')
              else
                let tID = coalesce (user_tenant_id u) ''''; mustChangePassword = coalesce (user_must_change_password u) False in
                needs_tenant a role tID (
                bnd (attempt (GenerateTokenWithVersion (aa_jwt a) (aa_secret a) (user_id u) (lr_Username req) role tID
                    (coalesce (user_token_version u) 0) [mustChangePassword])) (\<lambda>g. ret (case g of
                  Inl e \<Rightarrow> WriteError 500 ''CREATE_TOKEN_FAILED'' ''Failed to generate authentication token''
                | Inr token \<Rightarrow> Reply \<lparr>la_token = token, la_require_password_change = mustChangePassword, la_user_id = user_id u,
                    la_username = lr_Username req, la_role = role, la_tenant_id = tID\<rparr>))))))"

text \<open>
  \<^verbatim>\<open>UPDATE users SET token_version = token_version + 1 WHERE id = $1 AND token_version = $2\<close>, with the
  new version when a row was found.
\<close>

definition next_version_sql :: "uuid \<Rightarrow> int \<Rightarrow> time \<Rightarrow> tables \<Rightarrow> tables \<times> int option" where
  "next_version_sql i version now t =
     (let mine = (\<lambda>u. user_id u = i \<and> coalesce (user_token_version u) 0 = version) in
      (t\<lparr>users := update_where mine (\<lambda>u. u\<lparr>user_token_version := Some (version + 1), user_updated_at := now\<rparr>) (users t)\<rparr>,
       if \<exists>u \<in> set (users t). mine u then Some (version + 1) else None))"

text \<open>What a refresh does once the token is valid and the row of its user was read.\<close>

definition refresh_session :: "AuthAPI \<Rightarrow> Claims \<Rightarrow> uuid \<Rightarrow> user_row \<Rightarrow> string \<Rightarrow> login_answer reply op" where
  "refresh_session a claims i u role =
     (let tID = coalesce (user_tenant_id u) ''''; mustChangePassword = coalesce (user_must_change_password u) False;
          tokenVersion = coalesce (user_token_version u) 0 in
      if cl_TokenVersion claims \<noteq> tokenVersion then ret (WriteError 401 ''INVALID_TOKEN'' ''Invalid token'')
      else needs_tenant a role tID (
        bnd (attempt (modify_op (next_version_sql i tokenVersion))) (\<lambda>n. case n of
            Inl e \<Rightarrow> ret (WriteError 500 ''DB_ERROR'' ''Failed to refresh token state'')
          | Inr ver \<Rightarrow> (case ver of
              None \<Rightarrow> ret (WriteError 401 ''INVALID_TOKEN'' ''User no longer exists'')
            | Some newTokenVersion \<Rightarrow>
                bnd (attempt (GenerateTokenWithVersion (aa_jwt a) (aa_secret a) (cl_UserID claims) (user_username u) role tID
                    newTokenVersion [mustChangePassword])) (\<lambda>g. ret (case g of
                  Inl e \<Rightarrow> WriteError 500 ''CREATE_TOKEN_FAILED'' ''Failed to refresh token''
                | Inr newToken \<Rightarrow> Reply \<lparr>la_token = newToken, la_require_password_change = mustChangePassword,
                    la_user_id = cl_UserID claims, la_username = user_username u, la_role = role, la_tenant_id = tID\<rparr>))))))"

definition HandleRefresh :: "AuthAPI \<Rightarrow> string \<Rightarrow> http_request \<Rightarrow> login_answer reply op" where
  "HandleRefresh a meth r =
     (if meth \<noteq> ''POST'' then ret method_not_allowed
      else let authHeader = rq_Header_Get r ''Authorization'' in
      if authHeader = '''' then ret (WriteError 401 ''AUTH_HEADER_REQUIRED'' ''Authorization header required'')
      else bnd (attempt (ValidateToken (aa_jwt a) (aa_secret a) (extractAuthTokenFromHeader authHeader))) (\<lambda>v. case v of
          Inl e \<Rightarrow> ret (WriteError 401 ''INVALID_TOKEN'' ''Invalid token'')
        | Inr claims \<Rightarrow> (case aa_uuid_Parse a (cl_UserID claims) of
            None \<Rightarrow> ret (WriteError 500 ''DB_ERROR'' ''Database query failed'')
          | Some i \<Rightarrow> bnd (attempt (select_op (\<lambda>_ t. find (\<lambda>u. user_id u = i) (users t)))) (\<lambda>q. case q of
              Inl e \<Rightarrow> ret (WriteError 500 ''DB_ERROR'' ''Database query failed'')
            | Inr q \<Rightarrow> (case q of
                None \<Rightarrow> ret (WriteError 401 ''INVALID_TOKEN'' ''User no longer exists'')
              | Some u \<Rightarrow> (case user_role u of
                  None \<Rightarrow> ret (WriteError 500 ''DB_ERROR'' ''Database query failed'')
                | Some role \<Rightarrow> refresh_session a claims i u role))))))"

definition HandleLogout :: "AuthAPI \<Rightarrow> string \<Rightarrow> http_request \<Rightarrow> unit reply op" where
  "HandleLogout a meth r =
     (if meth \<noteq> ''POST'' then ret method_not_allowed
      else let authHeader = rq_Header_Get r ''Authorization'' in
      if authHeader = '''' then ret (WriteError 401 ''AUTH_HEADER_REQUIRED'' ''Authorization header required'')
      else bnd (attempt (ValidateToken (aa_jwt a) (aa_secret a) (extractAuthTokenFromHeader authHeader))) (\<lambda>v. case v of
          Inl e \<Rightarrow> ret (WriteError 401 ''INVALID_TOKEN'' ''Invalid token'')
        | Inr claims \<Rightarrow> bnd (attempt (GetUserTokenVersion (aa_uuid_Parse a) (cl_UserID claims))) (\<lambda>q. case q of
            Inl e \<Rightarrow> ret (if is_no_rows e then WriteError 401 ''INVALID_TOKEN'' ''Invalid token''
                       else WriteError 500 ''DB_ERROR'' ''Failed to verify token state'')
          | Inr currentVersion \<Rightarrow>
              if cl_TokenVersion claims \<noteq> currentVersion then ret (WriteError 401 ''INVALID_TOKEN'' ''Invalid token'')
              else (case aa_uuid_Parse a (cl_UserID claims) of
                  None \<Rightarrow> ret (WriteError 500 ''DB_ERROR'' ''Failed to revoke token'')
                | Some i \<Rightarrow> bnd (attempt (bnd (modify_op (next_version_sql i currentVersion)) check_op)) (\<lambda>n. ret (case n of
                      Inl e \<Rightarrow> WriteError 500 ''DB_ERROR'' ''Failed to revoke token''
                    | Inr None \<Rightarrow> WriteError 401 ''INVALID_TOKEN'' ''Invalid token''
                    | Inr (Some _) \<Rightarrow> Reply ()))))))"

record PermissionsResponse =
  pr_Role :: string
  pr_TenantID :: string
  pr_Permissions :: "string list"

definition HandlePermissions :: "AuthAPI \<Rightarrow> string \<Rightarrow> http_context \<Rightarrow> PermissionsResponse reply op" where
  "HandlePermissions a meth ctx =
     (if meth \<noteq> ''GET'' then ret method_not_allowed
      else case hc_UserRole ctx of
        None \<Rightarrow> ret (WriteError 401 ''UNAUTHORIZED'' ''Unauthorized'')
      | Some role \<Rightarrow>
          let roleName = normalizeAuthRole role in
          if roleName = ''super_admin'' then ret (Reply \<lparr>pr_Role = roleName, pr_TenantID = '''', pr_Permissions = [''*'']\<rparr>)
          else case GetTenantID (aa_uuid_Parse a) ctx of
            None \<Rightarrow> ret (WriteError 401 ''TENANT_CONTEXT_NOT_FOUND'' ''Tenant context missing'')
          | Some tenantID \<Rightarrow>
              bnd (attempt (verifyTenantActive a tenantID)) (\<lambda>v. case v of
                  Inl e \<Rightarrow> ret (writeTenantInactiveAuthError e)
                | Inr _ \<Rightarrow> bnd (attempt (GetRolePermissions (aa_lower a) tenantID roleName)) (\<lambda>q. ret (case q of
                      Inl e \<Rightarrow> if is_no_rows e then WriteError 403 ''ACCESS_DENIED'' ''Role not found''
                               else WriteError 500 ''INTERNAL_ERROR'' ''Role permission lookup failed''
                    | Inr permissions \<Rightarrow> Reply \<lparr>pr_Role = roleName, pr_TenantID = tenantID,
                        pr_Permissions = sanitizeTenantPermissions permissions\<rparr>))))"

record ChangePasswordRequest =
  cp_OldPassword :: string
  cp_NewPassword :: string

text \<open>The update does not touch \<^verbatim>\<open>updated_at\<close>; no row is not an error.\<close>

definition change_password_sql :: "uuid \<Rightarrow> string \<Rightarrow> time \<Rightarrow> tables \<Rightarrow> tables \<times> unit" where
  "change_password_sql i hash now t = (t\<lparr>users := update_where (\<lambda>u. user_id u = i)
     (\<lambda>u. u\<lparr>user_password_hash := hash, user_must_change_password := Some False,
        user_token_version := Some (coalesce (user_token_version u) 0 + 1)\<rparr>) (users t)\<rparr>, ())"

definition HandleForceChangePassword :: "AuthAPI \<Rightarrow> string \<Rightarrow> http_request \<Rightarrow> ChangePasswordRequest option \<Rightarrow> unit reply op" where
  "HandleForceChangePassword a meth r body =
     (if meth \<noteq> ''POST'' then ret method_not_allowed
      else case body of None \<Rightarrow> ret (WriteError 400 ''INVALID_REQUEST'' ''Invalid request body'') | Some req \<Rightarrow>
      if length (cp_NewPassword req) < 6 then ret (WriteError 400 ''VALIDATION_FAILED'' ''Password must be at least 6 characters'')
      else let tokenString = extractAuthTokenFromHeader (rq_Header_Get r ''Authorization'') in
      if tokenString = '''' then ret (WriteError 401 ''INVALID_TOKEN'' ''Missing or malformed Authorization header'')
      else bnd (attempt (ValidateToken (aa_jwt a) (aa_secret a) tokenString)) (\<lambda>v. case v of
          Inl e \<Rightarrow> ret (WriteError 401 ''INVALID_TOKEN'' ''Invalid token'')
        | Inr claims \<Rightarrow> (case aa_uuid_Parse a (cl_UserID claims) of
            None \<Rightarrow> ret (WriteError 500 ''DB_ERROR'' ''Database query failed'')
          | Some i \<Rightarrow> bnd (attempt (select_op (\<lambda>_ t. find (\<lambda>u. user_id u = i) (users t)))) (\<lambda>q. case q of
              Inr (Some u) \<Rightarrow>
                if \<not> aa_Compare a (user_password_hash u) (cp_OldPassword req)
                then ret (WriteError 401 ''INVALID_CREDENTIALS'' ''Incorrect old password'')
                else (case aa_Generate a (cp_NewPassword req) of
                    Inl e \<Rightarrow> ret (WriteError 500 ''HASH_ERROR'' ''Failed to hash password'')
                  | Inr newHash \<Rightarrow> bnd (attempt (modify_op (change_password_sql i newHash))) (\<lambda>n. ret (case n of
                        Inl e \<Rightarrow> WriteError 500 ''DB_ERROR'' ''Failed to update password''
                      | Inr _ \<Rightarrow> Reply ())))
            | _ \<Rightarrow> ret (WriteError 500 ''DB_ERROR'' ''Database query failed'')))))"

section \<open>Tenants\<close>

text \<open>
  \<^verbatim>\<open>utf8.RuneCountInString\<close>: the length of the first rune of a text; a byte that starts no valid
  encoding counts as one.
\<close>

definition cont :: "nat \<Rightarrow> nat \<Rightarrow> nat \<Rightarrow> bool" where
  "cont lo hi b \<longleftrightarrow> lo \<le> b \<and> b \<le> hi"

definition rune_len :: "nat list \<Rightarrow> nat" where
  "rune_len s = (case s of
       a # b # rest \<Rightarrow>
         if cont 0xC2 0xDF a \<and> cont 0x80 0xBF b then 2
         else (case rest of
           c # rest' \<Rightarrow>
             if (a = 0xE0 \<and> cont 0xA0 0xBF b \<or> cont 0xE1 0xEC a \<and> cont 0x80 0xBF b \<or> a = 0xED \<and> cont 0x80 0x9F b \<or>
                 cont 0xEE 0xEF a \<and> cont 0x80 0xBF b) \<and> cont 0x80 0xBF c then 3
             else (case rest' of
               d # _ \<Rightarrow>
                 if (a = 0xF0 \<and> cont 0x90 0xBF b \<or> cont 0xF1 0xF3 a \<and> cont 0x80 0xBF b \<or> a = 0xF4 \<and> cont 0x80 0x8F b) \<and>
                    cont 0x80 0xBF c \<and> cont 0x80 0xBF d then 4 else 1
             | [] \<Rightarrow> 1)
         | [] \<Rightarrow> 1)
     | _ \<Rightarrow> 1)"

lemma rune_len_pos: "0 < rune_len s"
  by (auto simp: rune_len_def split: list.split)

function rune_count :: "nat list \<Rightarrow> nat" where
  "rune_count s = (if s = [] then 0 else Suc (rune_count (drop (rune_len s) s)))"
  by auto
termination
  by (relation "measure length") (simp_all add: rune_len_pos)

declare rune_count.simps [simp del]

definition RuneCountInString :: "string \<Rightarrow> nat" where
  "RuneCountInString s = rune_count (map of_char s)"

text \<open>The pattern \<^verbatim>\<open>^[a-z0-9][a-z0-9-]*[a-z0-9]$\<close>.\<close>

definition code_char :: "char \<Rightarrow> bool" where
  "code_char c \<longleftrightarrow> (let n = (of_char c :: nat) in 97 \<le> n \<and> n \<le> 122 \<or> 48 \<le> n \<and> n \<le> 57)"

definition tenantCodePattern :: "string \<Rightarrow> bool" where
  "tenantCodePattern s \<longleftrightarrow> 2 \<le> length s \<and> code_char (hd s) \<and> code_char (last s) \<and> list_all (\<lambda>c. code_char c \<or> c = CHR ''-'') s"

record TenantCreateRequest =
  tq_Name :: string
  tq_Code :: string
  tq_Email :: string
  tq_Phone :: string

definition validateTenantCreateRequest :: "TenantCreateRequest \<Rightarrow> err + TenantCreateRequest" where
  "validateTenantCreateRequest req =
     (let req = \<lparr>tq_Name = TrimSpace (tq_Name req), tq_Code = TrimSpace (tq_Code req), tq_Email = TrimSpace (tq_Email req),
            tq_Phone = TrimSpace (tq_Phone req)\<rparr>; nameLen = RuneCountInString (tq_Name req) in
      if nameLen < 2 \<or> nameLen > 50 then Inl (ErrMsg ''tenant name must be between 2 and 50 characters'')
      else if length (tq_Code req) < 2 \<or> length (tq_Code req) > 20 then Inl (ErrMsg ''tenant code must be between 2 and 20 characters'')
      else if \<not> tenantCodePattern (tq_Code req)
      then Inl (ErrMsg ''tenant code must start and end with a lowercase alphanumeric character and may contain hyphens'')
      else Inr req)"

record TenantResponse =
  tr_ID :: string
  tr_Name :: string
  tr_Code :: string
  tr_Email :: string
  tr_Phone :: string

text \<open>
  A transaction whose body answers the request: \<open>started\<close> is the answer when it cannot begin,
  \<open>committed\<close> when the commit fails.
\<close>

definition reply_tx :: "(err \<Rightarrow> 'a reply) \<Rightarrow> (err \<Rightarrow> 'a reply) \<Rightarrow> 'a reply tx op \<Rightarrow> 'a reply op" where
  "reply_tx started committed body = bnd (attempt (check_op ())) (\<lambda>b. case b of
       Inl e \<Rightarrow> ret (started e)
     | Inr _ \<Rightarrow> (\<lambda>s. case body s of
         (Inl e, s') \<Rightarrow> (Inl e, s'\<lparr>tab := tab s\<rparr>)
       | (Inr (TxReturn x), s') \<Rightarrow> (Inr x, s'\<lparr>tab := tab s\<rparr>)
       | (Inr (TxCommit x), s') \<Rightarrow> (case check_op () s' of
             (Inl e, s'') \<Rightarrow> (Inr (committed e), s''\<lparr>tab := tab s\<rparr>)
           | (Inr _, s'') \<Rightarrow> (Inr x, s''))))"

text \<open>\<open>None\<close>: a text too long for its column; \<open>Some False\<close>: a unique key is taken (code 23505).\<close>

definition insert_tenant_sql :: "sql_lib \<Rightarrow> uuid \<Rightarrow> TenantCreateRequest \<Rightarrow> time \<Rightarrow> tables \<Rightarrow> tables \<times> bool option" where
  "insert_tenant_sql lib i req now t =
     (case (varchar lib 100 (tq_Name req), varchar lib 50 (tq_Code req), varchar lib 100 (tq_Email req), varchar lib 32 (tq_Phone req)) of
        (Some name, Some code, Some _, Some _) \<Rightarrow>
          if \<exists>r \<in> set (tenants t). tenant_id r = i \<or> tenant_code r = Some code then (t, Some False)
          else (t\<lparr>tenants := tenants t @ [new_tenant i code name now]\<rparr>, Some True)
      | _ \<Rightarrow> (t, None))"

definition CreateTenant :: "AuthAPI \<Rightarrow> string \<Rightarrow> TenantCreateRequest option \<Rightarrow> TenantResponse reply op" where
  "CreateTenant a meth body =
     (let failed = (\<lambda>msg e. WriteError 500 ''CREATE_TENANT_FAILED'' (msg @ aa_err_Error a e)) in
      if meth \<noteq> ''POST'' then ret method_not_allowed
      else case body of None \<Rightarrow> ret (WriteError 400 ''INVALID_REQUEST'' ''Invalid request body'') | Some req \<Rightarrow>
      (case validateTenantCreateRequest req of
         Inl e \<Rightarrow> ret (WriteError 400 ''INVALID_REQUEST'' (aa_err_Error a e))
       | Inr req \<Rightarrow> bnd uuid_NewString (\<lambda>tenantID.
           reply_tx (failed ''Failed to start tenant transaction: '') (failed ''Failed to commit tenant: '') (
             bnd (attempt (modify_op (insert_tenant_sql (aa_sql a) tenantID req))) (\<lambda>i. case i of
                 Inl e \<Rightarrow> ret (TxReturn (failed ''Failed to create tenant: '' e))
               | Inr None \<Rightarrow> ret (TxReturn (failed ''Failed to create tenant: '' DBError))
               | Inr (Some False) \<Rightarrow> ret (TxReturn (WriteError 409 ''CONFLICT'' ''Tenant code already exists''))
               | Inr (Some True) \<Rightarrow> bnd (attempt (EnsureTenantRolesTx tenantID)) (\<lambda>r. case r of
                     Inl e \<Rightarrow> ret (TxReturn (failed ''Failed to create tenant roles: '' e))
                   | Inr _ \<Rightarrow> ret (TxCommit (Reply \<lparr>tr_ID = tenantID, tr_Name = tq_Name req, tr_Code = tq_Code req,
                       tr_Email = tq_Email req, tr_Phone = tq_Phone req\<rparr>))))))))"

definition GetTenant :: "AuthAPI \<Rightarrow> string \<Rightarrow> http_context \<Rightarrow> TenantResponse reply op" where
  "GetTenant a meth ctx =
     (if meth \<noteq> ''GET'' then ret method_not_allowed
      else case GetTenantID (aa_uuid_Parse a) ctx of
        None \<Rightarrow> ret (WriteError 401 ''TENANT_CONTEXT_NOT_FOUND'' ''Tenant context required'')
      | Some tenantID \<Rightarrow> bnd (attempt (GetTenantInfo tenantID)) (\<lambda>q. ret (case q of
            Inl e \<Rightarrow> WriteError 404 ''TENANT_NOT_FOUND'' ''Tenant not found''
          | Inr tenant \<Rightarrow> Reply \<lparr>tr_ID = ti_ID tenant, tr_Name = ti_Name tenant, tr_Code = ti_Code tenant, tr_Email = '''', tr_Phone = ''''\<rparr>)))"

section \<open>Users of a tenant\<close>

record UserResponse =
  ur_ID :: string
  ur_Username :: string
  ur_Email :: string
  ur_Role :: string

datatype user_answer = Users "UserResponse list" | OneUser UserResponse | UserUpdated string | UserDeleted

record user_body =
  ub_Username :: string
  ub_Password :: string
  ub_Email :: string
  ub_Role :: string

definition scan_user :: "user_row \<Rightarrow> UserResponse option" where
  "scan_user u = map_option (\<lambda>role. \<lparr>ur_ID = user_id u, ur_Username = user_username u, ur_Email = coalesce (user_email u) '''', ur_Role = role\<rparr>)
     (user_role u)"

definition ListUsers :: "uuid \<Rightarrow> user_answer reply op" where
  "ListUsers tenantID =
     bnd (attempt (select_op (\<lambda>_ t. sort_key (\<lambda>u. - user_created_at u) (filter (\<lambda>u. user_tenant_id u = Some tenantID) (users t))))) (\<lambda>q. case q of
       Inl e \<Rightarrow> ret (WriteError 500 ''LIST_USERS_FAILED'' ''Failed to list users'')
     | Inr rows \<Rightarrow>
         if \<not> list_all (\<lambda>u. scan_user u \<noteq> None) rows then ret (WriteError 500 ''LIST_USERS_FAILED'' ''Failed to scan users'')
         else bnd (attempt (check_op ())) (\<lambda>c. ret (case c of
             Inl e \<Rightarrow> WriteError 500 ''LIST_USERS_FAILED'' ''Failed to list users''
           | Inr _ \<Rightarrow> Reply (Users (List.map_filter scan_user rows)))))"

definition errPlatformRoleNotAssignable :: err where
  "errPlatformRoleNotAssignable = ErrMsg ''platform role cannot be assigned via tenant user APIs''"
definition errTenantRoleNotAssignable :: err where
  "errTenantRoleNotAssignable = ErrMsg ''tenant role does not exist''"

definition legacyTenantUserRoles :: "string set" where
  "legacyTenantUserRoles = {''member'', ''owner''}"

definition normalizeTenantUserRole :: "string \<Rightarrow> err + string" where
  "normalizeTenantUserRole role =
     (let roleName = TrimSpace role; lowerRoleName = ToLower roleName in
      if roleName = '''' then Inr ''member''
      else if lowerRoleName = ''super_admin'' then Inl errPlatformRoleNotAssignable
      else if lowerRoleName \<in> legacyTenantUserRoles then Inr lowerRoleName
      else if lowerRoleName \<in> {SystemRoleAdmin, SystemRoleOperator, SystemRoleViewer} then Inr lowerRoleName
      else Inr roleName)"

text \<open>\<^verbatim>\<open>ORDER BY CASE WHEN name = $2 THEN 0 ELSE 1 END, name LIMIT 1\<close>.\<close>

definition canonicalTenantRoleName :: "AuthAPI \<Rightarrow> uuid \<Rightarrow> string \<Rightarrow> string option op" where
  "canonicalTenantRoleName a tenantID role =
     select_op (\<lambda>_ t. let candidates = filter (\<lambda>r. role_tenant_id r = tenantID \<and> aa_lower a (role_name r) = aa_lower a role) (roles t) in
       case sort_key (\<lambda>r. role_name r \<noteq> role) (sort_key (\<lambda>r. map (of_char :: char \<Rightarrow> nat) (sql_collate (aa_sql a) (role_name r))) candidates) of
         [] \<Rightarrow> None
       | r # _ \<Rightarrow> Some (role_name r))"

definition normalizeAssignableTenantUserRole :: "AuthAPI \<Rightarrow> uuid \<Rightarrow> string \<Rightarrow> string op" where
  "normalizeAssignableTenantUserRole a tenantID role = (case normalizeTenantUserRole role of
       Inl e \<Rightarrow> throw e
     | Inr normalizedRole \<Rightarrow>
         if normalizedRole \<in> legacyTenantUserRoles then ret normalizedRole
         else bnd (attempt (canonicalTenantRoleName a tenantID normalizedRole)) (\<lambda>q. case q of
             Inl e \<Rightarrow> throw (ErrWrap ''failed to validate tenant role'' e)
           | Inr None \<Rightarrow> throw (ErrWrap normalizedRole errTenantRoleNotAssignable)
           | Inr (Some canonicalRole) \<Rightarrow> ret canonicalRole))"

text \<open>The answer to a role that cannot be assigned; \<^verbatim>\<open>"%w: %s"\<close> keeps the sentinel inside.\<close>

definition role_refused :: "AuthAPI \<Rightarrow> string \<Rightarrow> err \<Rightarrow> 'a reply" where
  "role_refused a code e =
     (if e = errPlatformRoleNotAssignable then WriteError 403 ''ACCESS_DENIED'' (aa_err_Error a e)
      else if (case e of ErrWrap _ e' \<Rightarrow> e' = errTenantRoleNotAssignable | _ \<Rightarrow> False) then WriteError 400 ''INVALID_REQUEST'' (aa_err_Error a e)
      else WriteError 500 code (''Failed to validate role: '' @ aa_err_Error a e))"

definition insert_user_sql :: "sql_lib \<Rightarrow> uuid \<Rightarrow> uuid \<Rightarrow> user_body \<Rightarrow> string \<Rightarrow> string \<Rightarrow> time \<Rightarrow> tables \<Rightarrow> (tables \<times> unit) option" where
  "insert_user_sql lib i tenantID req hash role now t =
     (case (varchar lib 64 (ub_Username req), varchar lib 255 hash, varchar lib 20 role, varchar lib 100 (ub_Email req)) of
        (Some username, Some hash, Some role, Some email) \<Rightarrow>
          if (\<exists>u \<in> set (users t). user_id u = i \<or> user_username u = username) \<or> \<not> (\<exists>r \<in> set (tenants t). tenant_id r = tenantID) then None
          else Some (t\<lparr>users := users t @ [\<lparr>user_id = i, user_username = username, user_password_hash = hash,
            user_tenant_id = Some tenantID, user_role = Some role, user_email = Some email, user_must_change_password = Some False,
            user_token_version = Some 0, user_created_at = now, user_updated_at = now\<rparr>]\<rparr>, ())
      | _ \<Rightarrow> None)"

text \<open>The rest of \<^verbatim>\<open>CreateUser\<close> once its role was looked up.\<close>

definition create_with_role :: "AuthAPI \<Rightarrow> uuid \<Rightarrow> user_body \<Rightarrow> err + string \<Rightarrow> user_answer reply op" where
  "create_with_role a tenantID req n = (case n of
       Inl e \<Rightarrow> ret (role_refused a ''CREATE_USER_FAILED'' e)
     | Inr role \<Rightarrow> (case aa_Generate a (ub_Password req) of
         Inl e \<Rightarrow> ret (WriteError 500 ''CREATE_USER_FAILED'' ''Failed to hash password'')
       | Inr hash \<Rightarrow> bnd uuid_NewString (\<lambda>userID.
           bnd (attempt (write_op (insert_user_sql (aa_sql a) userID tenantID req hash role))) (\<lambda>w. ret (case w of
               Inl e \<Rightarrow> WriteError 500 ''CREATE_USER_FAILED'' (''Failed to create user: '' @ aa_err_Error a e)
             | Inr _ \<Rightarrow> Reply (OneUser \<lparr>ur_ID = userID, ur_Username = ub_Username req, ur_Email = ub_Email req, ur_Role = role\<rparr>))))))"

definition CreateUser :: "AuthAPI \<Rightarrow> uuid \<Rightarrow> user_body option \<Rightarrow> user_answer reply op" where
  "CreateUser a tenantID body = (case body of
       None \<Rightarrow> ret (WriteError 400 ''INVALID_REQUEST'' ''Invalid request body'')
     | Some req \<Rightarrow>
         if ub_Username req = '''' \<or> ub_Password req = '''' then ret (WriteError 400 ''INVALID_REQUEST'' ''Username and password are required'')
         else bnd (attempt (normalizeAssignableTenantUserRole a tenantID (ub_Role req))) (create_with_role a tenantID req))"

definition update_user_sql :: "sql_lib \<Rightarrow> uuid \<Rightarrow> uuid \<Rightarrow> string option \<Rightarrow> string \<Rightarrow> string \<Rightarrow> time \<Rightarrow> tables \<Rightarrow> (tables \<times> nat) option" where
  "update_user_sql lib tenantID i hash role email now t =
     (let mine = (\<lambda>u. user_id u = i \<and> user_tenant_id u = Some tenantID) in
      case (varchar lib 20 role, varchar lib 100 email) of
        (Some role, Some email) \<Rightarrow> Some (t\<lparr>users := update_where mine (\<lambda>u. u\<lparr>user_password_hash := coalesce hash (user_password_hash u),
            user_role := (if role = '''' then user_role u else Some role), user_email := (if email = '''' then user_email u else Some email),
            user_updated_at := now\<rparr>) (users t)\<rparr>, affected mine (users t))
      | _ \<Rightarrow> if affected mine (users t) = 0 then Some (t, 0) else None)"

text \<open>The role an update asks for, and the rest of \<^verbatim>\<open>UpdateUser\<close> once it was looked up.\<close>

definition updated_role :: "AuthAPI \<Rightarrow> uuid \<Rightarrow> user_body \<Rightarrow> string op" where
  "updated_role a tenantID req =
     (if TrimSpace (ub_Role req) \<noteq> '''' then normalizeAssignableTenantUserRole a tenantID (ub_Role req) else ret (ub_Role req))"

definition update_with_role :: "AuthAPI \<Rightarrow> uuid \<Rightarrow> string \<Rightarrow> uuid \<Rightarrow> user_body \<Rightarrow> err + string \<Rightarrow> user_answer reply op" where
  "update_with_role a tenantID userID userUUID req n = (case n of
       Inl e \<Rightarrow> ret (role_refused a ''UPDATE_USER_FAILED'' e)
     | Inr role \<Rightarrow> (case (if ub_Password req = '''' then Inr None else map_sum id Some (aa_Generate a (ub_Password req))) of
         Inl e \<Rightarrow> ret (WriteError 500 ''UPDATE_USER_FAILED'' ''Failed to hash password'')
       | Inr hash \<Rightarrow>
           bnd (attempt (write_op (update_user_sql (aa_sql a) tenantID userUUID hash role (ub_Email req)))) (\<lambda>w. case w of
               Inl e \<Rightarrow> ret (WriteError 500 ''UPDATE_USER_FAILED'' (''Failed to update user: '' @ aa_err_Error a e))
             | Inr rowsAffected \<Rightarrow> bnd (attempt (check_op rowsAffected)) (\<lambda>c.
                 ret (if c = Inr 0 then WriteError 404 ''USER_NOT_FOUND'' ''User not found'' else Reply (UserUpdated userID))))))"

definition UpdateUser :: "AuthAPI \<Rightarrow> uuid \<Rightarrow> string \<Rightarrow> user_body option \<Rightarrow> user_answer reply op" where
  "UpdateUser a tenantID userID body = (case body of
       None \<Rightarrow> ret (WriteError 400 ''INVALID_REQUEST'' ''Invalid request body'')
     | Some req \<Rightarrow> (case aa_uuid_Parse a userID of
         None \<Rightarrow> ret (WriteError 400 ''INVALID_USER_ID'' ''Invalid user ID'')
       | Some userUUID \<Rightarrow> bnd (attempt (updated_role a tenantID req)) (update_with_role a tenantID userID userUUID req)))"

definition DeleteUser :: "AuthAPI \<Rightarrow> uuid \<Rightarrow> string \<Rightarrow> user_answer reply op" where
  "DeleteUser a tenantID userID = (case aa_uuid_Parse a userID of
       None \<Rightarrow> ret (WriteError 400 ''INVALID_USER_ID'' ''Invalid user ID'')
     | Some i \<Rightarrow>
         let mine = (\<lambda>u. user_id u = i \<and> user_tenant_id u = Some tenantID) in
         bnd (attempt (modify_op (\<lambda>_ t. (t\<lparr>users := filter (\<lambda>u. \<not> mine u) (users t)\<rparr>, affected mine (users t))))) (\<lambda>w. case w of
             Inl e \<Rightarrow> ret (WriteError 500 ''DELETE_USER_FAILED'' ''Failed to delete user'')
           | Inr n \<Rightarrow> bnd (attempt (check_op n)) (\<lambda>c.
               ret (if (case c of Inl e \<Rightarrow> 0 | Inr k \<Rightarrow> k) = 0 then WriteError 404 ''USER_NOT_FOUND'' ''User not found'' else Reply UserDeleted))))"

definition HandleTenantUsers :: "AuthAPI \<Rightarrow> string \<Rightarrow> http_request \<Rightarrow> http_context \<Rightarrow> user_body option \<Rightarrow> user_answer reply op" where
  "HandleTenantUsers a meth r ctx body = (case GetTenantID (aa_uuid_Parse a) ctx of
       None \<Rightarrow> ret (WriteError 401 ''TENANT_CONTEXT_NOT_FOUND'' ''Tenant context required'')
     | Some tenantID \<Rightarrow>
         let pathParts = Split CHR ''/'' (Trim (rq_URL_Path r) ''/'') in
         if length pathParts < 5 \<or> pathParts ! 4 \<noteq> ''users'' \<or> length pathParts > 6
         then ret (WriteError 404 ''ENDPOINT_NOT_FOUND'' ''Unknown users endpoint'')
         else if length pathParts = 6 \<and> pathParts ! 5 \<noteq> '''' then
           (if meth = ''PUT'' then UpdateUser a tenantID (pathParts ! 5) body
            else if meth = ''DELETE'' then DeleteUser a tenantID (pathParts ! 5)
            else ret method_not_allowed)
         else if meth = ''GET'' then ListUsers tenantID
         else if meth = ''POST'' then CreateUser a tenantID body
         else ret method_not_allowed)"

definition handleTenantUsers :: "Router \<Rightarrow> AuthAPI \<Rightarrow> string \<Rightarrow> http_request \<Rightarrow> http_context \<Rightarrow> uuid \<Rightarrow> user_body option \<Rightarrow> user_answer reply op" where
  "handleTenantUsers ro a meth r ctx tenantID body =
     after (authorizeTenantPermission ro ctx tenantID (if meth = ''GET'' then ''users:read'' else ''users:write'')) (
       let parts = splitPath (rq_URL_Path r) in
       if length parts = 6 \<and> meth = ''DELETE'' \<and> hc_UserID ctx = Some (parts ! 5)
       then ret (WriteError 403 ''ACCESS_DENIED'' ''You cannot delete your own account'')
       else HandleTenantUsers a meth r (withTenantContext ctx tenantID) body)"

section \<open>The first account\<close>

text \<open>The values of the environment: the name, the password when it is set, and the switch.\<close>

record admin_env =
  ae_super_admin :: string
  ae_password :: "string option"
  ae_sync :: string

definition envBool :: "string \<Rightarrow> bool" where
  "envBool value \<longleftrightarrow> ToLower (TrimSpace value) \<in> {''1'', ''true'', ''yes'', ''y'', ''on''}"

definition set_admin_sql :: "sql_lib \<Rightarrow> uuid \<Rightarrow> string \<Rightarrow> string \<Rightarrow> time \<Rightarrow> tables \<Rightarrow> (tables \<times> nat) option" where
  "set_admin_sql lib i username hash now t =
     (if affected (\<lambda>u. user_id u = i) (users t) = 0 then Some (t, 0)
      else case (varchar lib 64 username, varchar lib 255 hash) of
        (Some username, Some hash) \<Rightarrow>
          if \<exists>u \<in> set (users t). user_id u \<noteq> i \<and> user_username u = username then None
          else Some (t\<lparr>users := update_where (\<lambda>u. user_id u = i) (\<lambda>u. u\<lparr>user_username := username, user_password_hash := hash,
            user_must_change_password := Some True\<rparr>) (users t)\<rparr>, affected (\<lambda>u. user_id u = i) (users t))
      | _ \<Rightarrow> None)"

definition insert_admin_sql :: "sql_lib \<Rightarrow> string \<Rightarrow> string \<Rightarrow> uuid \<Rightarrow> time \<Rightarrow> tables \<Rightarrow> (tables \<times> unit) option" where
  "insert_admin_sql lib username hash i now t = (case (varchar lib 64 username, varchar lib 255 hash) of
       (Some username, Some hash) \<Rightarrow>
         if \<exists>u \<in> set (users t). user_id u = i \<or> user_username u = username then None
         else Some (t\<lparr>users := users t @ [\<lparr>user_id = i, user_username = username, user_password_hash = hash, user_tenant_id = None,
           user_role = Some ''super_admin'', user_email = None, user_must_change_password = Some True, user_token_version = Some 0,
           user_created_at = now, user_updated_at = now\<rparr>]\<rparr>, ())
     | _ \<Rightarrow> None)"

text \<open>An error of \<^verbatim>\<open>RowsAffected\<close> is passed over.\<close>

definition updated_row :: "string \<Rightarrow> nat \<Rightarrow> unit op" where
  "updated_row msg n = bnd (attempt (check_op n)) (\<lambda>c. if c = Inr 0 then throw (ErrMsg msg) else ret ())"

definition is_super_admin :: "user_row \<Rightarrow> bool" where
  "is_super_admin u \<longleftrightarrow> user_role u = Some ''super_admin''"

definition wrap_err :: "string \<Rightarrow> 'a op \<Rightarrow> 'a op" where
  "wrap_err msg m = bnd (attempt m) (\<lambda>r. case r of Inl e \<Rightarrow> throw (ErrWrap msg e) | Inr x \<Rightarrow> ret x)"

definition ensureSuperAdmin :: "AuthAPI \<Rightarrow> admin_env \<Rightarrow> unit op" where
  "ensureSuperAdmin a env =
     (let username = (if TrimSpace (ae_super_admin env) = '''' then ''sysadmin'' else TrimSpace (ae_super_admin env));
          password = TrimSpace (coalesce (ae_password env) ''''); passwordConfigured = (password \<noteq> '''');
          syncConfigured = envBool (ae_sync env) in
      bnd (wrap_err ''failed to check super admin user'' (select_op (\<lambda>_ t. find (\<lambda>u. user_username u = username \<and> is_super_admin u) (users t)))) (\<lambda>q. case q of
        Some existing \<Rightarrow>
          if \<not> passwordConfigured \<or> aa_Compare a (user_password_hash existing) password \<or> \<not> syncConfigured then ret ()
          else (case aa_Generate a password of
              Inl e \<Rightarrow> throw (ErrWrap ''failed to hash password'' e)
            | Inr hash \<Rightarrow>
                bnd (wrap_err ''failed to update super admin password'' (write_op (set_admin_sql (aa_sql a) (user_id existing) username hash)))
                  (updated_row (''failed to update super admin password: user '' @ username @ '' was not updated'')))
      | None \<Rightarrow>
          bnd (wrap_err ''failed to check super admin'' (select_op (\<lambda>_ t. affected is_super_admin (users t)))) (\<lambda>count.
          if count > 0 \<and> \<not> passwordConfigured then ret ()
          else if \<not> passwordConfigured then throw (ErrMsg ''ARIA_SUPER_ADMIN_PASSWORD is required when creating the initial super admin user'')
          else case aa_Generate a password of
            Inl e \<Rightarrow> throw (ErrWrap ''failed to hash password'' e)
          | Inr hash \<Rightarrow>
              if count = 1 then
                (if \<not> syncConfigured then ret ()
                 else bnd (wrap_err ''failed to load existing super admin for migration''
                     (bnd (select_op (\<lambda>_ t. case sort_key user_created_at (filter is_super_admin (users t)) of [] \<Rightarrow> None | u # _ \<Rightarrow> Some u))
                       (\<lambda>u. case u of None \<Rightarrow> throw ErrNoRows | Some u \<Rightarrow> ret u))) (\<lambda>old.
                   bnd (wrap_err ''failed to migrate super admin username'' (write_op (set_admin_sql (aa_sql a) (user_id old) username hash)))
                     (updated_row (''failed to migrate super admin username: user '' @ user_username old @ '' was not updated''))))
              else wrap_err ''failed to create super admin'' (insert_op (insert_admin_sql (aa_sql a) username hash)))))"

definition ensureDefaultTenant :: "unit op" where
  "ensureDefaultTenant =
     bnd (wrap_err ''failed to check tenants'' (select_op (\<lambda>_ t. length (tenants t)))) (\<lambda>count.
     if count > 0 then ret ()
     else bnd (wrap_err ''failed to create default tenant'' (GetOrCreateTenantByCode ''default'' ''Aria Default'')) (\<lambda>tenantID.
       wrap_err ''failed to create default tenant roles'' (EnsureTenantRoles tenantID)))"

section \<open>A session that was ended\<close>

lemma next_version_find:
  assumes "next_version_sql i version now t = (t', Some v)" and "find (\<lambda>u. user_id u = i) (users t) = Some u"
    and "coalesce (user_token_version u) 0 = version"
  shows "find (\<lambda>u. user_id u = i) (users t') = Some (u\<lparr>user_token_version := Some (version + 1), user_updated_at := now\<rparr>)"
proof -
  have "user_id u = i" using assms(2) by (simp add: find_Some_iff) blast
  then show ?thesis using assms by (auto simp: next_version_sql_def Let_def find_update_where)
qed

text \<open>A version was raised past the one the claims carry.\<close>

definition raised :: "AuthAPI \<Rightarrow> Claims \<Rightarrow> tables \<Rightarrow> bool" where
  "raised a claims t \<longleftrightarrow> (\<exists>i u. aa_uuid_Parse a (cl_UserID claims) = Some i \<and> find (\<lambda>u. user_id u = i) (users t) = Some u \<and>
     coalesce (user_token_version u) 0 = cl_TokenVersion claims + 1)"

lemma raised_next_version:
  assumes "modify_op (next_version_sql i (cl_TokenVersion claims)) s = (Inr (Some v), t)" and "aa_uuid_Parse a (cl_UserID claims) = Some i"
    and "find (\<lambda>u. user_id u = i) (users (tab s)) = Some u" and "coalesce (user_token_version u) 0 = cl_TokenVersion claims"
  shows "raised a claims (tab t)"
  using next_version_find [OF modify_Inr(1) [OF assms(1)] assms(3,4)] assms(2) by (auto simp: raised_def coalesce_def)

lemma needs_tenant_Reply:
  assumes "needs_tenant a role tID m s = (Inr (Reply x), t)"
  obtains u where "tab u = tab s" "m u = (Inr (Reply x), t)" "normalizeAuthRole role = ''super_admin'' \<or> verifyTenantActive a tID s = (Inr (), u)"
proof (cases "normalizeAuthRole role = ''super_admin''")
  case True
  with assms show thesis by (intro that [of s]) (simp_all add: needs_tenant_def)
next
  case False
  have reads: "maintains (keeps (\<lambda>t. t)) (verifyTenantActive a tID)"
    unfolding verifyTenantActive_def GetTenantStatus_def by (intro maintains_rules)
  from False assms obtain u where "verifyTenantActive a tID s = (Inr (), u)" "m u = (Inr (Reply x), t)"
    by (auto simp: needs_tenant_def attempt_case_Inr ret_Inr writeTenantInactiveAuthError_def split: if_split_asm)
  with unchanged.frame_run [OF reads this(1)] show thesis by (intro that) auto
qed

lemma option_Reply:
  "(case q of None \<Rightarrow> ret (WriteError k c m) | Some x \<Rightarrow> g x) s = (Inr (Reply y), t) \<longleftrightarrow> (\<exists>x. q = Some x \<and> g x s = (Inr (Reply y), t))"
  by (simp add: ret_def split: option.split)

lemma attempt_Reply:
  "bnd (attempt m) (\<lambda>r. case r of Inl e \<Rightarrow> ret (WriteError k c msg) | Inr x \<Rightarrow> g x) s = (Inr (Reply y), t) \<longleftrightarrow>
     (\<exists>x u. m s = (Inr x, u) \<and> g x u = (Inr (Reply y), t))"
  by (auto simp: attempt_case_Inr ret_Inr)

lemma written_Reply:
  "(case w of Inl e \<Rightarrow> WriteError k c m | Inr None \<Rightarrow> WriteError k' c' m' | Inr (Some v) \<Rightarrow> Reply (f v)) = Reply y \<longleftrightarrow>
     (\<exists>v. w = Inr (Some v) \<and> y = f v)"
  "Reply y = (case w of Inl e \<Rightarrow> WriteError k c m | Inr None \<Rightarrow> WriteError k' c' m' | Inr (Some v) \<Rightarrow> Reply (f v)) \<longleftrightarrow>
     (\<exists>v. w = Inr (Some v) \<and> y = f v)"
  by (auto split: sum.split option.split)

lemma GenerateTokenWithVersion_state: "GenerateTokenWithVersion lib secret i n r ti v m s = (x, t) \<Longrightarrow> t = s"
  by (auto simp: GenerateTokenWithVersion_def bnd_def time_Now_def ret_def throw_def Let_def split: sum.split_asm)

lemma refresh_session_raises:
  assumes "refresh_session a claims i usr role s = (Inr (Reply ans), t)" and "aa_uuid_Parse a (cl_UserID claims) = Some i"
    and "find (\<lambda>u. user_id u = i) (users (tab s)) = Some usr"
  shows "raised a claims (tab t)"
proof -
  from assms(1) have ver: "cl_TokenVersion claims = coalesce (user_token_version usr) 0"
    by (auto simp: refresh_session_def Let_def ret_Inr split: if_split_asm)
  obtain u n w where u: "tab u = tab s" and w: "modify_op (next_version_sql i (cl_TokenVersion claims)) u = (Inr (Some n), w)" and t: "t = w"
    using assms(1) unfolding refresh_session_def Let_def ver [symmetric]
    by (auto elim!: needs_tenant_Reply simp: attempt_case_Inr ret_Inr bnd_Inr [of "attempt (GenerateTokenWithVersion l k i n r ti v m)" for l k i n r ti v m]
        attempt_Inr dest!: GenerateTokenWithVersion_state split: option.split_asm)
  show ?thesis using raised_next_version [OF w assms(2)] assms(3) u ver t by simp
qed

lemma refresh_raises:
  assumes run: "HandleRefresh a meth r s = (Inr (Reply ans), t)"
    and tok: "ValidateToken (aa_jwt a) (aa_secret a) (extractHTTPAuthorizationToken (rq_Header_Get r ''Authorization'')) s = (Inr claims, s)"
  shows "raised a claims (tab t)"
proof -
  from run tok obtain i usr role u where i: "aa_uuid_Parse a (cl_UserID claims) = Some i"
      and q: "select_op (\<lambda>_ t. find (\<lambda>u. user_id u = i) (users t)) s = (Inr (Some usr), u)"
      and rest: "refresh_session a claims i usr role u = (Inr (Reply ans), t)"
    unfolding HandleRefresh_def extractAuthTokenFromHeader_def
    by (auto simp: attempt_case_Inr option_Reply ret_Inr Let_def split: if_split_asm)
  show ?thesis using refresh_session_raises [OF rest i] select_Inr [OF q] by simp
qed

lemma session_validated:
  assumes "HandleLogout a meth r s = (Inr (Reply ()), t) \<or> (\<exists>ans. HandleRefresh a meth r s = (Inr (Reply ans), t))"
  obtains claims where "ValidateToken (aa_jwt a) (aa_secret a) (extractHTTPAuthorizationToken (rq_Header_Get r ''Authorization'')) s = (Inr claims, s)"
proof -
  obtain claims u where "ValidateToken (aa_jwt a) (aa_secret a) (extractHTTPAuthorizationToken (rq_Header_Get r ''Authorization'')) s = (Inr claims, u)"
    using assms unfolding HandleLogout_def HandleRefresh_def extractAuthTokenFromHeader_def
    by (auto simp: attempt_Reply ret_Inr Let_def split: if_split_asm)
  with ValidateToken_state [OF this] show thesis by (intro that) simp
qed

lemma logout_raises:
  assumes strict: "uuid_strict (aa_uuid_Parse a)" and run: "HandleLogout a meth r s = (Inr (Reply ans), t)"
    and tok: "ValidateToken (aa_jwt a) (aa_secret a) (extractHTTPAuthorizationToken (rq_Header_Get r ''Authorization'')) s = (Inr claims, s)"
  shows "raised a claims (tab t)"
proof -
  from run tok obtain i u v n where i: "aa_uuid_Parse a (cl_UserID claims) = Some i"
      and ver: "GetUserTokenVersion (aa_uuid_Parse a) (cl_UserID claims) s = (Inr (cl_TokenVersion claims), u)"
      and upd: "bnd (modify_op (next_version_sql i (cl_TokenVersion claims))) check_op u = (Inr (Some n), t)"
    unfolding HandleLogout_def extractAuthTokenFromHeader_def
    by (auto simp: attempt_case_Inr bnd_Inr [of "attempt (bnd p q)" for p q] attempt_Inr option_Reply ret_Inr Let_def
        written_Reply split: if_split_asm)
  from upd obtain w where w: "modify_op (next_version_sql i (cl_TokenVersion claims)) u = (Inr (Some n), w)" and t: "tab t = tab w"
    by (auto simp: bnd_Inr dest!: check_InrD)
  from i strict have "TrimSpace (cl_UserID claims) = cl_UserID claims" by (auto simp: uuid_strict_def)
  with GetUserTokenVersion_cases [OF ver] i obtain usr where "find (\<lambda>u. user_id u = i) (users (tab u)) = Some usr"
      "cl_TokenVersion claims = coalesce (user_token_version usr) 0" by auto
  with raised_next_version [OF w i] t show ?thesis by simp
qed

text \<open>The claims of a token are those of its text, whenever it is parsed.\<close>

definition jwt_stable :: "Claims jwt_lib \<Rightarrow> bool" where
  "jwt_stable lib \<longleftrightarrow> (\<forall>now now' tok kf iss c c' v v'. lib_ParseWithClaims lib now tok kf iss = Inr (c, v) \<and>
     lib_ParseWithClaims lib now' tok kf iss = Inr (c', v') \<longrightarrow> c' = c)"

lemma ValidateToken_stable:
  assumes "jwt_stable lib" and "ValidateToken lib secret tok s = (Inr c, s')" and "ValidateToken lib secret tok u = (Inr c', u')"
  shows "c' = c"
proof -
  have "\<exists>v. lib_ParseWithClaims lib (go_now x) tok (hmac_only (getSecret secret)) jwtIssuer = Inr (d, v)"
    if "ValidateToken lib secret tok x = (Inr d, x')" for x x' d
    using that by (auto simp: ValidateToken_def bnd_def time_Now_def ret_def throw_def split: sum.split_asm if_split_asm)
  from this [OF assms(2)] this [OF assms(3)] assms(1) show ?thesis unfolding jwt_stable_def by blast
qed

lemma raised_refused:
  assumes "raised a claims (tab s)" and "uuid_strict (aa_uuid_Parse a)" and "current_user (aa_uuid_Parse a) (tab s) claims usr"
  shows False
  using assms by (auto simp: raised_def current_user_def uuid_strict_def)


section \<open>Users stay in their tenant\<close>

definition beside_users_of :: "uuid \<Rightarrow> tables \<Rightarrow> user_row list \<times> tables" where
  "beside_users_of T t = (filter (\<lambda>u. user_tenant_id u \<noteq> Some T) (users t), t\<lparr>users := []\<rparr>)"

interpretation user_frame: table_frame "beside_users_of T" for T .

lemma user_frame_sql:
  "insert_user_sql lib i T req hash role now t = Some (t', x) \<Longrightarrow> beside_users_of T t' = beside_users_of T t"
  "update_user_sql lib T i hash' role now' now t = Some (t', y) \<Longrightarrow> beside_users_of T t' = beside_users_of T t"
  by (auto simp: beside_users_of_def insert_user_sql_def update_user_sql_def Let_def intro!: filter_update_other
      split: option.split_asm if_split_asm)

lemma reads_assignable: "maintains (keeps (\<lambda>t. t)) (normalizeAssignableTenantUserRole a T role)"
  unfolding normalizeAssignableTenantUserRole_def canonicalTenantRoleName_def by (intro maintains_rules)

lemma user_frame_ops:
  "maintains (keeps (beside_users_of T)) (ListUsers T)"
  "maintains (keeps (beside_users_of T)) (CreateUser a T body)"
  "maintains (keeps (beside_users_of T)) (UpdateUser a T i body)"
  "maintains (keeps (beside_users_of T)) (DeleteUser a T i)"
proof -
  note reads = maintains_mono [OF reads_assignable, of "keeps (beside_users_of T)"]
  show "maintains (keeps (beside_users_of T)) (ListUsers T)"
    unfolding ListUsers_def by (intro maintains_rules)
  show "maintains (keeps (beside_users_of T)) (CreateUser a T body)"
    unfolding CreateUser_def create_with_role_def by (intro maintains_rules reads) (auto simp: keeps_def dest: user_frame_sql)
  show "maintains (keeps (beside_users_of T)) (UpdateUser a T i body)"
    unfolding UpdateUser_def updated_role_def update_with_role_def by (intro maintains_rules reads) (auto simp: keeps_def dest: user_frame_sql)
  show "maintains (keeps (beside_users_of T)) (DeleteUser a T i)"
    unfolding DeleteUser_def
    by (intro maintains_rules) (auto simp: keeps_def beside_users_of_def intro!: filter_cong)
qed

lemma user_frame_endpoint:
  "aa_uuid_Parse a T = Some T \<Longrightarrow> maintains (keeps (beside_users_of T)) (HandleTenantUsers a meth r (withTenantContext ctx T) body)"
  unfolding HandleTenantUsers_def by (cases "T = ''''") (auto simp: GetTenantID_def withTenantContext_def intro!: maintains_rules user_frame_ops)

lemma reads_ListUsers: "maintains (keeps (\<lambda>t. t)) (ListUsers T)"
  unfolding ListUsers_def by (intro maintains_rules)

lemma reads_users: "maintains (keeps (\<lambda>t. t)) (HandleTenantUsers a ''GET'' r ctx body)"
  unfolding HandleTenantUsers_def by (intro maintains_rules reads_ListUsers; simp)


section \<open>No platform role for a tenant's users\<close>

lemma varchar_spaces: "varchar lib n s = Some x \<Longrightarrow> \<exists>k. s = x @ replicate k CHR 0x20"
proof (induction lib n s rule: varchar.induct)
  case (2 lib n c cs)
  show ?case
  proof (cases "sql_char_length lib (c # cs) \<le> n")
    case True
    with 2(2) show ?thesis by (intro exI [of _ 0]) simp
  next
    case False
    with 2(2) have sp: "last (c # cs) = CHR 0x20" and v: "varchar lib n (butlast (c # cs)) = Some x"
      by (simp_all only: varchar.simps if_False option.distinct split: if_split_asm)
    from 2(1) [OF False sp v] obtain k where "butlast (c # cs) = x @ replicate k CHR 0x20" by blast
    then have "c # cs = x @ replicate (Suc k) CHR 0x20"
      using sp append_butlast_last_id [of "c # cs"] by (simp add: replicate_append_same)
    then show ?thesis by blast
  qed
qed simp

lemma strip_spaces: "strip_head (map rev space_runes) (replicate k CHR 0x20 @ s) = strip_head (map rev space_runes) s"
proof (induction k)
  case (Suc k)
  have "head_len (map rev space_runes) (CHR 0x20 # r) = 1" for r :: string
    by (simp add: head_len_def space_runes_def)
  with Suc show ?case by (simp add: strip_head.simps [of _ "CHR 0x20 # _"])
qed simp

lemma TrimSpace_padded: "TrimSpace (''super_admin'' @ replicate k CHR 0x20) = ''super_admin''"
proof -
  have "head_len space_runes (''super_admin'' @ r) = 0" for r :: string by (simp add: head_len_def space_runes_def)
  then have "strip_head space_runes (''super_admin'' @ replicate k CHR 0x20) = ''super_admin'' @ replicate k CHR 0x20"
    by (rule strip_head_id)
  moreover have "rev (''super_admin'' @ replicate k CHR 0x20) = replicate k CHR 0x20 @ rev ''super_admin''" by simp
  moreover have "strip_head (map rev space_runes) (rev ''super_admin'') = rev ''super_admin''"
    by (rule strip_head_id) (simp add: head_len_def space_runes_def)
  ultimately show ?thesis unfolding TrimSpace_def by (simp only: strip_spaces rev_rev_ident)
qed

lemma varchar_platform: "varchar lib n role = Some ''super_admin'' \<Longrightarrow> TrimSpace role = ''super_admin''"
  using varchar_spaces [of lib n role "''super_admin''"] TrimSpace_padded by auto

definition platform_users :: "uuid \<Rightarrow> tables \<Rightarrow> uuid set" where
  "platform_users T t = {user_id u | u. u \<in> set (users t) \<and> user_tenant_id u = Some T \<and> user_role u = Some ''super_admin''}"

definition no_more_platform :: "uuid \<Rightarrow> tables \<Rightarrow> tables \<Rightarrow> bool" where
  "no_more_platform T t t' \<longleftrightarrow> platform_users T t' \<subseteq> platform_users T t"

interpretation platform: table_relation "no_more_platform T" for T
  by unfold_locales (auto simp: no_more_platform_def)

lemma platform_sql:
  assumes "TrimSpace role \<noteq> ''super_admin''"
  shows "insert_user_sql lib i T' req hash role now t = Some (t', x) \<Longrightarrow> no_more_platform T t t'"
    and "update_user_sql lib T' i hash' role email now t = Some (t', y) \<Longrightarrow> no_more_platform T t t'"
proof -
  have neq: "varchar lib 20 role \<noteq> Some ''super_admin''" using varchar_platform assms by blast
  show "no_more_platform T t t'" if "insert_user_sql lib i T' req hash role now t = Some (t', x)"
    using that neq by (auto simp: no_more_platform_def platform_users_def insert_user_sql_def split: option.split_asm if_split_asm)
  show "no_more_platform T t t'" if "update_user_sql lib T' i hash' role email now t = Some (t', y)"
    using that neq
    by (auto simp: no_more_platform_def platform_users_def update_user_sql_def update_where_def Let_def split: option.split_asm if_split_asm) blast+
qed

text \<open>The names of a tenant's roles are trimmed, as \<^verbatim>\<open>createRole\<close> stores them.\<close>

definition trimmed_roles :: "uuid \<Rightarrow> tables \<Rightarrow> bool" where
  "trimmed_roles T t \<longleftrightarrow> (\<forall>r \<in> set (roles t). role_tenant_id r = T \<longrightarrow> TrimSpace (role_name r) = role_name r)"

text \<open>The database folds no other text to the platform role than \<^verbatim>\<open>strings.ToLower\<close> does.\<close>

definition folds_platform :: "(string \<Rightarrow> string) \<Rightarrow> bool" where
  "folds_platform lower \<longleftrightarrow> (\<forall>x. lower x = lower ''super_admin'' \<longrightarrow> ToLower x = ''super_admin'')"

lemma canonical_row:
  assumes "\<exists>v. canonicalTenantRoleName a T role s = (Inr (Some name), v)"
  obtains r where "r \<in> set (roles (tab s))" "role_tenant_id r = T" "aa_lower a (role_name r) = aa_lower a role" "name = role_name r"
proof -
  let ?cs = "filter (\<lambda>r. role_tenant_id r = T \<and> aa_lower a (role_name r) = aa_lower a role) (roles (tab s))"
  obtain r rs where "sort_key (\<lambda>r. role_name r \<noteq> role) (sort_key (\<lambda>r. map (of_char :: char \<Rightarrow> nat) (sql_collate (aa_sql a) (role_name r))) ?cs) = r # rs"
      "name = role_name r"
    using assms unfolding canonicalTenantRoleName_def by (auto simp: Let_def dest!: select_Inr(1) split: list.split_asm)
  moreover from arg_cong [OF this(1), of set] have "r \<in> set ?cs" by (simp add: set_eq_iff)
  ultimately show thesis by (intro that) auto
qed

lemma role_names:
  "ToLower ''member'' = ''member''" "ToLower ''owner'' = ''owner''" "ToLower SystemRoleAdmin = SystemRoleAdmin"
  "ToLower SystemRoleOperator = SystemRoleOperator" "ToLower SystemRoleViewer = SystemRoleViewer"
  "SystemRoleAdmin \<noteq> ''super_admin''" "SystemRoleOperator \<noteq> ''super_admin''" "SystemRoleViewer \<noteq> ''super_admin''"
  by code_simp+

lemma assignable_not_platform:
  assumes "normalizeAssignableTenantUserRole a T role s = (Inr role', u)" and "trimmed_roles T (tab s)" and "folds_platform (aa_lower a)"
  shows "TrimSpace role' \<noteq> ''super_admin''"
proof -
  from assms(1) obtain nr where nr: "normalizeTenantUserRole role = Inr nr" 
      and out: "nr \<in> legacyTenantUserRoles \<and> role' = nr \<or> (\<exists>v. canonicalTenantRoleName a T nr s = (Inr (Some role'), v))"
    unfolding normalizeAssignableTenantUserRole_def
    by (auto simp: attempt_case_Inr ret_Inr throw_Inr split: sum.split_asm if_split_asm option.split_asm)
  from nr have low: "ToLower nr \<noteq> ''super_admin''"
    unfolding normalizeTenantUserRole_def legacyTenantUserRoles_def
    by (auto simp: Let_def role_names split: if_split_asm)
  from out show ?thesis
  proof
    assume "nr \<in> legacyTenantUserRoles \<and> role' = nr"
    moreover have "TrimSpace ''member'' \<noteq> ''super_admin''" "TrimSpace ''owner'' \<noteq> ''super_admin''" by code_simp+
    ultimately show ?thesis by (auto simp: legacyTenantUserRoles_def)
  next
    assume "\<exists>v. canonicalTenantRoleName a T nr s = (Inr (Some role'), v)"
    then obtain r where "r \<in> set (roles (tab s))" "role_tenant_id r = T" "aa_lower a (role_name r) = aa_lower a nr" "role' = role_name r"
      by (rule canonical_row)
    with assms(2,3) low show ?thesis by (auto simp: trimmed_roles_def folds_platform_def)
  qed
qed

text \<open>An operation that reads a value first: the rest may rely on what was read.\<close>

lemma maintains_after_read:
  assumes "table_relation R" and "bnd (attempt m) f s = (res, t)" and "maintains (keeps (\<lambda>t. t)) m"
    and "\<And>x u. m s = (x, u) \<Longrightarrow> maintains R (f x)"
  shows "R (tab s) (tab t)"
proof -
  obtain x u where m: "m s = (x, u)" by fastforce
  then have "f x u = (res, t)" using assms(2) by (simp add: bnd_def attempt_def)
  with unchanged.frame_run [OF assms(3) m] maintainsD [OF assms(4) [OF m]] show ?thesis by metis
qed

lemma platform_writes:
  assumes "\<And>role. n = Inr role \<Longrightarrow> TrimSpace role \<noteq> ''super_admin''"
  shows "maintains (no_more_platform T) (create_with_role a T' req n)" "maintains (no_more_platform T) (update_with_role a T' i userUUID req n)"
  unfolding create_with_role_def update_with_role_def using assms
  by (cases n; auto intro!: maintains_rules intro: platform_sql)+

lemma updated_role_reads: "maintains (keeps (\<lambda>t. t)) (updated_role a T req)"
  unfolding updated_role_def by (intro maintains_rules reads_assignable)

lemma updated_role_not_platform:
  assumes "updated_role a T req s = (Inr role', u)" and "trimmed_roles T (tab s)" and "folds_platform (aa_lower a)"
  shows "TrimSpace role' \<noteq> ''super_admin''"
  using assms assignable_not_platform [OF _ assms(2,3)] by (auto simp: updated_role_def ret_Inr split: if_split_asm)

lemma platform_ops:
  assumes "trimmed_roles T (tab s)" and "folds_platform (aa_lower a)"
  shows "CreateUser a T body s = (res, t) \<Longrightarrow> no_more_platform T (tab s) (tab t)"
    and "UpdateUser a T i body s = (res, t) \<Longrightarrow> no_more_platform T (tab s) (tab t)"
    and "DeleteUser a T i s = (res, t) \<Longrightarrow> no_more_platform T (tab s) (tab t)"
proof -
  note after = maintains_after_read [OF platform.table_relation_axioms]
  note role = assignable_not_platform [OF _ assms] updated_role_not_platform [OF _ assms]
  show "no_more_platform T (tab s) (tab t)" if run: "CreateUser a T body s = (res, t)"
  proof (cases "tab t = tab s")
    case False
    with run obtain req where "bnd (attempt (normalizeAssignableTenantUserRole a T (ub_Role req))) (create_with_role a T req) s = (res, t)"
      by (auto simp: CreateUser_def ret_def split: option.split_asm if_split_asm)
    then show ?thesis by (rule after [OF _ reads_assignable]) (auto intro!: platform_writes dest: role(1))
  qed (simp add: platform.R_refl)
  show "no_more_platform T (tab s) (tab t)" if run: "UpdateUser a T i body s = (res, t)"
  proof (cases "tab t = tab s")
    case False
    with run obtain req j where "bnd (attempt (updated_role a T req)) (update_with_role a T i j req) s = (res, t)"
      by (auto simp: UpdateUser_def ret_def split: option.split_asm)
    then show ?thesis by (rule after [OF _ updated_role_reads]) (auto intro!: platform_writes dest: role(2))
  qed (simp add: platform.R_refl)
  have "maintains (no_more_platform T) (DeleteUser a T i)"
    unfolding DeleteUser_def by (intro maintains_rules) (auto simp: no_more_platform_def platform_users_def)
  then show "no_more_platform T (tab s) (tab t)" if "DeleteUser a T i s = (res, t)" using that by (rule maintainsD)
qed

text \<open>
  (C14) No request for the users of a tenant makes a super administrator of one, even when the tenant
  made itself a role of that name: where the names of its roles are trimmed and the database folds no
  other text to it than the program does, every user of the tenant with the platform role had it before.
\<close>

theorem tenant_users_never_platform:
  assumes "handleTenantUsers ro a meth r ctx T body s = (res, t)" and "aa_uuid_Parse a T = Some T"
    and "trimmed_roles T (tab s)" and "folds_platform (aa_lower a)"
  shows "platform_users T (tab t) \<subseteq> platform_users T (tab s)"
  using assms(1) [unfolded handleTenantUsers_def] reads_permission(1)
proof (cases rule: after_cases)
  case stopped
  then show ?thesis by (simp add: platform_users_def)
next
  case (went_on y v)
  let ?i = "Split CHR ''/'' (Trim (rq_URL_Path r) ''/'') ! 5"
  have "no_more_platform T (tab v) (tab t)"
  proof (cases "tab t = tab v")
    case False
    with went_on(3) have run: "HandleTenantUsers a meth r (withTenantContext ctx T) body v = (res, t)"
      by (auto simp: ret_def Let_def split: if_split_asm)
    have "GetTenantID (aa_uuid_Parse a) (withTenantContext ctx T) = Some T \<or> GetTenantID (aa_uuid_Parse a) (withTenantContext ctx T) = None"
      using assms(2) by (simp add: GetTenantID_def withTenantContext_def)
    with run False have "CreateUser a T body v = (res, t) \<or> UpdateUser a T ?i body v = (res, t) \<or> DeleteUser a T ?i v = (res, t) \<or>
        ListUsers T v = (res, t)"
      unfolding HandleTenantUsers_def by (auto simp: ret_def Let_def split: if_split_asm)
    moreover have "ListUsers T v = (res, t) \<Longrightarrow> tab t = tab v" by (rule unchanged.frame_run [OF reads_ListUsers])
    ultimately show ?thesis using platform_ops [of T v a] assms(3,4) went_on(2) False by auto
  qed (simp add: platform.R_refl)
  with went_on(2) show ?thesis by (simp add: no_more_platform_def)
qed

section \<open>A change of role and the sessions\<close>

definition session_part :: "tables \<Rightarrow> (uuid \<times> int option) list" where
  "session_part t = map (\<lambda>u. (user_id u, user_token_version u)) (users t)"

interpretation sessions: table_frame session_part .

lemma session_part_update: "maintains (keeps session_part) (UpdateUser a T i body)"
proof -
  have sql: "session_part t' = session_part t" if "update_user_sql lib T j hash role email now t = Some (t', n)" for lib j hash role email now t t' n
    using that by (auto simp: session_part_def update_user_sql_def update_where_def Let_def split: option.split_asm if_split_asm)
  show ?thesis unfolding UpdateUser_def update_with_role_def
    by (intro maintains_rules maintains_mono [OF updated_role_reads]) (auto simp: keeps_def dest: sql)
qed

lemma session_part_find:
  "map (\<lambda>u. (user_id u, user_token_version u)) us = map (\<lambda>u. (user_id u, user_token_version u)) vs \<Longrightarrow>
     map_option user_token_version (find (\<lambda>u. user_id u = i) us) = map_option user_token_version (find (\<lambda>u. user_id u = i) vs)"
  by (induction us arbitrary: vs) (auto simp: map_eq_Cons_conv Cons_eq_map_conv)

lemma GetUserTokenVersion_run:
  "faults s = [] \<Longrightarrow> fst (GetUserTokenVersion p i s) = (case p (TrimSpace i) of None \<Rightarrow> Inl (ErrMsg ''uuid'')
     | Some j \<Rightarrow> (case map_option user_token_version (find (\<lambda>u. user_id u = j) (users (tab s))) of
         None \<Rightarrow> Inl ErrNoRows | Some ver \<Rightarrow> Inr (coalesce ver 0)))"
  by (simp add: GetUserTokenVersion_def select_run bnd_def ret_def throw_def split: option.split)

lemma session_version_fst:
  "fst (session_version p True claims s) = Inr (case fst (GetUserTokenVersion p (cl_UserID claims) s) of
       Inl e \<Rightarrow> Some (if e = ErrNoRows then WriteError 401 ''INVALID_TOKEN'' ''Invalid token''
                    else WriteError 500 ''INTERNAL_ERROR'' ''Failed to verify token state'')
     | Inr v \<Rightarrow> if cl_TokenVersion claims \<noteq> v then Some (WriteError 401 ''INVALID_TOKEN'' ''Invalid token'') else None)"
  by (simp add: session_version_def bnd_def attempt_def ret_def split: sum.split prod.split)

text \<open>
  (C39) A change of a user by its administrator, a lower role or a new password included,
  ends no session: the check of a token's version answers as it did before, so a token that carries the
  old role is admitted until it expires.
\<close>

theorem user_update_keeps_sessions:
  assumes "UpdateUser a T i body s = (res, t)" and "tab u = tab s" and "tab v = tab t" and "faults u = []" and "faults v = []"
  shows "fst (session_version p True claims v) = fst (session_version p True claims u)"
proof -
  have "session_part (tab v) = session_part (tab u)" using sessions.frame_run [OF session_part_update assms(1)] assms(2,3) by simp
  from session_part_find [OF this [unfolded session_part_def]] assms(4,5) show ?thesis
    by (simp add: session_version_fst GetUserTokenVersion_run cong: option.case_cong)
qed

section \<open>Samples\<close>

definition account_api :: AuthAPI where
  "account_api = \<lparr>aa_jwt = session_lib, aa_secret = Some ''k'', aa_uuid_Parse = (\<lambda>x. if TrimSpace x = x then Some x else None),
     aa_sql = plain_sql, aa_lower = ToLower, aa_Compare = (=), aa_Generate = Inr, aa_err_Error = (\<lambda>_. ''error'')\<rparr>"

lemma account_api_contract:
  "uuid_strict (aa_uuid_Parse account_api)" "jwt_stable (aa_jwt account_api)" "folds_platform (aa_lower account_api)"
  "aa_uuid_Parse account_api ''t1'' = Some ''t1''"
proof -
  have low: "ToLower ''super_admin'' = ''super_admin''" by code_simp
  show "uuid_strict (aa_uuid_Parse account_api)" by (auto simp: uuid_strict_def account_api_def split: if_split_asm)
  show "jwt_stable (aa_jwt account_api)"
    by (auto simp: jwt_stable_def account_api_def session_lib_def one_token_lib_def split: if_split_asm sum.splits option.splits)
  show "folds_platform (aa_lower account_api)" unfolding folds_platform_def account_api_def by (simp only: AuthAPI.select_convs low) blast
  show "aa_uuid_Parse account_api ''t1'' = Some ''t1''" by code_simp
qed


definition new_user :: user_body where
  "new_user = \<lparr>ub_Username = ''kim'', ub_Password = ''secret'', ub_Email = '''', ub_Role = '' Operator ''\<rparr>"

definition users_request :: http_request where
  "users_request = sample_request\<lparr>rq_URL_Path := ''/api/v2/tenants/t1/users''\<rparr>"

definition admin_context :: http_context where
  "admin_context = \<lparr>hc_UserID = Some ''u1'', hc_Username = None, hc_UserRole = Some ''admin'', hc_TenantID = Some (CtxUUID ''t1'')\<rparr>"


theorem tenant_users_never_platform_witness:
  "\<exists>res t. handleTenantUsers role_router account_api ''POST'' users_request admin_context ''t1'' (Some new_user) role_db = (res, t) \<and>
     map user_role (users (tab t)) = map user_role (users (tab role_db)) @ [Some ''operator''] \<and>
     platform_users ''t1'' (tab t) \<subseteq> platform_users ''t1'' (tab role_db)"
proof -
  let ?run = "handleTenantUsers role_router account_api ''POST'' users_request admin_context ''t1'' (Some new_user) role_db"
  have roles: "map user_role (users (tab (snd ?run))) = map user_role (users (tab role_db)) @ [Some ''operator'']" by code_simp
  have trimmed: "trimmed_roles ''t1'' (tab role_db)" by code_simp
  have "?run = (fst ?run, snd ?run)" by simp
  from tenant_users_never_platform [OF this account_api_contract(4) trimmed account_api_contract(3)] roles show ?thesis
    by (intro exI [of _ "fst ?run"] exI [of _ "snd ?run"]) simp
qed

text \<open>The user of the sample session is made a viewer, and the session goes on.\<close>

theorem user_update_keeps_sessions_witness:
  "\<exists>t. UpdateUser account_api ''t1'' ''u1'' (Some \<lparr>ub_Username = '''', ub_Password = ''other'', ub_Email = '''', ub_Role = ''viewer''\<rparr>) role_db
       = (Inr (Reply (UserUpdated ''u1'')), t) \<and>
     map user_role (filter (\<lambda>u. user_id u = ''u1'') (users (tab t))) = [Some ''viewer''] \<and>
     fst (session_version Some True sample_session t) = (fst (session_version Some True sample_session role_db) :: err + unit reply option)"
proof -
  let ?run = "UpdateUser account_api ''t1'' ''u1'' (Some \<lparr>ub_Username = '''', ub_Password = ''other'', ub_Email = '''', ub_Role = ''viewer''\<rparr>) role_db"
  have "fst ?run = Inr (Reply (UserUpdated ''u1''))" by code_simp
  then have run: "?run = (Inr (Reply (UserUpdated ''u1'')), snd ?run)" by (metis prod.collapse)
  have ok: "faults role_db = []" "faults (snd ?run) = []" by code_simp+
  have role: "map user_role (filter (\<lambda>u. user_id u = ''u1'') (users (tab (snd ?run)))) = [Some ''viewer'']" by code_simp
  have "fst (session_version Some True sample_session (snd ?run)) = (fst (session_version Some True sample_session role_db) :: err + unit reply option)"
    by (rule user_update_keeps_sessions [OF run refl refl ok])
  with run role show ?thesis by (intro exI [of _ "snd ?run"] conjI)
qed

end
