(* ===== verification/Command_Api.thy ===== *)
theory Command_Api
  imports Rbac
begin

text \<open>
  The HTTP handlers for the commands of agents (\<^verbatim>\<open>api/v2/operations.go\<close>) and the lookup of a node
  of a tenant they share with the other handlers (\<^verbatim>\<open>api/v2/setup.go\<close>).
\<close>

section \<open>The node of a request\<close>

text \<open>\<^verbatim>\<open>strings.Contains\<close>.\<close>

definition contains_text :: "string \<Rightarrow> string \<Rightarrow> bool" where
  "contains_text s sub \<longleftrightarrow> list_ex (\<lambda>i. HasPrefix (drop i s) sub) [0..<Suc (length s)]"

definition getTenantNodeRecord :: "Router \<Rightarrow> string \<Rightarrow> uuid \<Rightarrow> Node op" where
  "getTenantNodeRecord ro nodeID tenantID = (case ro_uuid_Parse ro nodeID of
       None \<Rightarrow> throw (ErrWrap ''invalid node id'' (ErrMsg ''invalid UUID''))
     | Some nodeUUID \<Rightarrow> bnd (GetNodeByID nodeUUID) (\<lambda>q. case q of
         None \<Rightarrow> throw ErrNoRows
       | Some node \<Rightarrow>
           if nd_TenantID node \<noteq> tenantID then throw ErrNoRows
           else if EqualFold (TrimSpace (nd_Status node)) ''deleted'' then throw ErrNoRows
           else ret node))"

definition writeNodeLookupError :: "Router \<Rightarrow> err \<Rightarrow> 'a reply" where
  "writeNodeLookupError ro e =
     (if e = ErrNoRows then WriteError 404 ''NODE_NOT_FOUND'' ''Node not found''
      else if contains_text (ro_err_Error ro e) ''invalid node id'' then WriteError 400 ''INVALID_REQUEST'' ''Invalid node ID''
      else WriteError 500 ''GET_NODES_FAILED'' ''Failed to load node'')"

definition with_node :: "Router \<Rightarrow> string \<Rightarrow> uuid \<Rightarrow> (Node \<Rightarrow> 'a reply op) \<Rightarrow> 'a reply op" where
  "with_node ro nodeID tenantID f = bnd (attempt (getTenantNodeRecord ro nodeID tenantID)) (\<lambda>q. case q of
       Inl e \<Rightarrow> ret (writeNodeLookupError ro e)
     | Inr node \<Rightarrow> f node)"

section \<open>What is known of a node\<close>

text \<open>A time in an answer: nothing, seconds since 1970, or a timestamp.\<close>

datatype stamp = NoTime | UnixSeconds int | At time

definition stamp_of :: "time option \<Rightarrow> stamp" where
  "stamp_of t = (case t of None \<Rightarrow> NoTime | Some x \<Rightarrow> At x)"

definition stopped_statuses :: "string list" where
  "stopped_statuses = [''deleted'', ''suspended'', ''banned'']"

definition nodeAvailabilityStatus :: "Node \<Rightarrow> time \<Rightarrow> string" where
  "nodeAvailabilityStatus node now =
     (let status = ToLower (TrimSpace (nd_Status node)) in
      if status \<in> set stopped_statuses then status
      else if nd_LastSeen node \<le> 0 then ''unknown''
      else if unix now - nd_LastSeen node \<le> 60 then ''online''
      else ''offline'')"

definition monitoringRuntimeEligibleNode :: "Node option \<Rightarrow> bool" where
  "monitoringRuntimeEligibleNode node = (case node of
       None \<Rightarrow> False
     | Some node \<Rightarrow> ToLower (TrimSpace (nd_Status node)) \<notin> set stopped_statuses)"

definition filterMonitoringRuntimeEligibleNodes :: "Node option list \<Rightarrow> Node option list" where
  "filterMonitoringRuntimeEligibleNodes ns = filter monitoringRuntimeEligibleNode ns"

definition maxInt64 :: "int \<Rightarrow> int \<Rightarrow> int" where
  "maxInt64 a b = (if a > b then a else b)"

definition nodeUptimeSeconds :: "Node \<Rightarrow> time \<Rightarrow> int" where
  "nodeUptimeSeconds node now = (if nd_RegisteredAt node \<le> 0 then 0 else maxInt64 0 (unix now - nd_RegisteredAt node))"

definition lastCommandTimestamp :: "AgentCommand option \<Rightarrow> stamp" where
  "lastCommandTimestamp cmd = (case cmd of
       None \<Rightarrow> NoTime
     | Some c \<Rightarrow>
         if ac_CompletedAt c \<noteq> None then stamp_of (ac_CompletedAt c)
         else if ac_AcknowledgedAt c \<noteq> None then stamp_of (ac_AcknowledgedAt c)
         else if ac_SentAt c \<noteq> None then stamp_of (ac_SentAt c)
         else At (ac_CreatedAt c))"

definition lastAppliedTimestamp :: "AgentCommand option \<Rightarrow> stamp" where
  "lastAppliedTimestamp cmd = (case cmd of
       None \<Rightarrow> NoTime
     | Some c \<Rightarrow>
         if ac_Status c \<noteq> AgentCommandStatusCompleted then NoTime
         else if ac_CompletedAt c \<noteq> None then stamp_of (ac_CompletedAt c)
         else At (ac_UpdatedAt c))"

definition valueOrEmpty :: "AgentCommand option \<Rightarrow> (AgentCommand \<Rightarrow> string) \<Rightarrow> string" where
  "valueOrEmpty cmd getter = (case cmd of None \<Rightarrow> '''' | Some c \<Rightarrow> getter c)"

definition lastCommandError :: "AgentCommand option \<Rightarrow> string" where
  "lastCommandError cmd = (case cmd of
       None \<Rightarrow> ''''
     | Some c \<Rightarrow> if ac_Status c \<noteq> AgentCommandStatusFailed then '''' else ac_Message c)"

definition deriveConfigurationStatus :: "NodeControlState option \<Rightarrow> AgentCommand option \<Rightarrow> nat \<Rightarrow> string" where
  "deriveConfigurationStatus controlState lastCommand pendingCmds =
     (let in_flight = (\<lambda>c. ac_Status c \<in> {AgentCommandStatusSent, AgentCommandStatusAcknowledged});
          by_command = (case lastCommand of
              None \<Rightarrow> ''idle''
            | Some c \<Rightarrow>
                if ac_Status c = AgentCommandStatusCompleted then ''applied''
                else if ac_Status c = AgentCommandStatusFailed then ''error''
                else if ac_Status c = AgentCommandStatusStale then ''stale''
                else if in_flight c then ''in_progress''
                else ''idle'')
      in if pendingCmds > 0 then
           (case lastCommand of
              None \<Rightarrow> ''pending''
            | Some c \<Rightarrow> if in_flight c then ''in_progress'' else ''pending'')
         else case controlState of
           None \<Rightarrow> by_command
         | Some cs \<Rightarrow>
             if st_LastSyncError cs \<noteq> '''' \<or> st_ObservedState cs = ''error'' then ''error''
             else if st_DesiredStateVersion cs \<noteq> '''' \<and> st_DesiredStateVersion cs = st_AppliedStateVersion cs then ''applied''
             else if st_DesiredStateVersion cs \<noteq> '''' \<and> st_AppliedStateVersion cs \<noteq> st_DesiredStateVersion cs then ''pending''
             else if st_ObservedState cs = ''healthy'' then ''applied''
             else by_command)"

definition stateConvergenceStatus :: "Node \<Rightarrow> time \<Rightarrow> NodeControlState option \<Rightarrow> string \<Rightarrow> ConvergenceStatus" where
  "stateConvergenceStatus node now controlState configurationStatus =
     (let isOnline = (nodeAvailabilityStatus node now = ''online'') in
      case controlState of
        None \<Rightarrow> if isOnline then StatusConverged else StatusOffline
      | Some cs \<Rightarrow>
          let status = GetConvergenceStatus cs isOnline in
          if status = StatusConverged \<and> configurationStatus = ''in_progress'' then StatusPending else status)"

fun firstNonEmptyString :: "string list \<Rightarrow> string" where
  "firstNonEmptyString [] = ''''"
| "firstNonEmptyString (v # vs) = (if v \<noteq> '''' then v else firstNonEmptyString vs)"

text \<open>The summary of a node, with the fields its map has; \<open>ns_convergence\<close> is \<open>None\<close> for \<^verbatim>\<open>idle\<close>.\<close>

record NodeSummary =
  ns_node :: Node
  ns_status :: string
  ns_configuration_status :: string
  ns_last_sync_at :: stamp
  ns_pending_cmds :: nat
  ns_uptime :: int
  ns_last_command :: "AgentCommand option"
  ns_last_command_status :: string
  ns_last_command_message :: string
  ns_last_command_error :: string
  ns_last_command_at :: stamp
  ns_last_applied_at :: stamp
  ns_desired_state_version :: string
  ns_desired_state_updated_at :: stamp
  ns_applied_state_version :: string
  ns_applied_state_updated_at :: stamp
  ns_observed_state :: string
  ns_observed_message :: string
  ns_observed_at :: stamp
  ns_last_sync_error :: string
  ns_convergence :: "ConvergenceStatus option"

definition buildNodeOperationsSummary :: "Node \<Rightarrow> NodeSummary op" where
  "buildNodeOperationsSummary node =
     bnd (CountIncompleteAgentCommands (nd_PublicKey node)) (\<lambda>pendingCmds.
     bnd (GetLastAgentCommand (nd_PublicKey node)) (\<lambda>lastCommand.
     bnd (GetNodeControlState (nd_TenantID node) (nd_ID node)) (\<lambda>controlState.
     bnd time_Now (\<lambda>now.
     let configurationStatus = deriveConfigurationStatus controlState lastCommand pendingCmds;
         text = (\<lambda>f. case controlState of None \<Rightarrow> '''' | Some cs \<Rightarrow> f cs);
         at_time = (\<lambda>f. case controlState of None \<Rightarrow> NoTime | Some cs \<Rightarrow> stamp_of (f cs))
     in ret \<lparr>ns_node = node, ns_status = nodeAvailabilityStatus node now, ns_configuration_status = configurationStatus,
          ns_last_sync_at = (if at_time st_LastSyncAt \<noteq> NoTime then at_time st_LastSyncAt else UnixSeconds (nd_LastSeen node)),
          ns_pending_cmds = pendingCmds, ns_uptime = nodeUptimeSeconds node now, ns_last_command = lastCommand,
          ns_last_command_status = valueOrEmpty lastCommand ac_Status, ns_last_command_message = valueOrEmpty lastCommand ac_Message,
          ns_last_command_error = lastCommandError lastCommand, ns_last_command_at = lastCommandTimestamp lastCommand,
          ns_last_applied_at = (if at_time st_AppliedStateUpdatedAt \<noteq> NoTime then at_time st_AppliedStateUpdatedAt
            else lastAppliedTimestamp lastCommand),
          ns_desired_state_version = text st_DesiredStateVersion, ns_desired_state_updated_at = at_time st_DesiredStateUpdatedAt,
          ns_applied_state_version = text st_AppliedStateVersion, ns_applied_state_updated_at = at_time st_AppliedStateUpdatedAt,
          ns_observed_state = (case controlState of None \<Rightarrow> configurationStatus
            | Some cs \<Rightarrow> firstNonEmptyString [st_ObservedState cs, configurationStatus]),
          ns_observed_message = text st_ObservedMessage, ns_observed_at = at_time st_ObservedAt,
          ns_last_sync_error = text st_LastSyncError,
          ns_convergence = map_option (\<lambda>_. stateConvergenceStatus node now controlState configurationStatus) controlState\<rparr>))))"

text \<open>An error of the clean-up is logged.\<close>

definition failTimedOutNodeCommands :: "Node \<Rightarrow> unit op" where
  "failTimedOutNodeCommands node =
     (if TrimSpace (nd_PublicKey node) = '''' then ret ()
      else bnd (attempt (FailTimedOutAgentCommandsForNode (nd_PublicKey node))) (\<lambda>_. ret ()))"

section \<open>Queueing commands\<close>

record v2AgentCommandRequest =
  cr_Command :: string
  cr_Params :: params
  cr_Timeout :: int
  cr_Priority :: int

record v2BatchAgentCommandRequest =
  br_NodeIDs :: "string list"
  br_Command :: v2AgentCommandRequest

text \<open>
  \<open>sprint\<close> is what \<^verbatim>\<open>fmt.Sprint\<close> makes of a value that is neither nil, a string nor a bool, of which the
  model keeps the JSON text only.
\<close>

definition commandContextString :: "(string option \<Rightarrow> string) \<Rightarrow> params \<Rightarrow> string \<Rightarrow> string" where
  "commandContextString sprint params key = (case map_of params key of
       None \<Rightarrow> ''''
     | Some VNil \<Rightarrow> ''''
     | Some (VString typed) \<Rightarrow> TrimSpace typed
     | Some (VBool b) \<Rightarrow> if b then ''true'' else ''false''
     | Some (VOther json) \<Rightarrow> TrimSpace (sprint json))"

definition inactiveCommandTargetMessage :: "Node option \<Rightarrow> string" where
  "inactiveCommandTargetMessage node = (case node of
       None \<Rightarrow> ''Node is not available for commands''
     | Some node \<Rightarrow>
         let status = ToLower (TrimSpace (nd_Status node)) in
         if status \<in> set stopped_statuses then ''Node status '' @ status @ '' does not allow commands'' else '''')"

definition buildAgentCommandQueuedAuditEvent ::
    "(string option \<Rightarrow> string) \<Rightarrow> http_context \<Rightarrow> Node \<Rightarrow> AgentCommand \<Rightarrow> AuditEvent option" where
  "buildAgentCommandQueuedAuditEvent sprint ctx node cmd =
     (if nd_ID node = uuid_Nil \<or> nd_TenantID node = uuid_Nil then None
      else
        let username = TrimSpace (coalesce (hc_Username ctx) '''');
            actor = (if username \<noteq> '''' then username else ''user'');
            arg = commandContextString sprint (ac_RawParams cmd);
            related = arg ''command_id'';
            detail = [(''command_id'', VString (ac_ID cmd)), (''command'', VString (ac_Command cmd)),
                (''source'', VString (if arg ''source'' \<noteq> '''' then arg ''source'' else ''api.v2'')),
                (''priority'', VOther (Some (Itoa (ac_Priority cmd)))), (''timeout_seconds'', VOther (Some (Itoa (ac_TimeoutSeconds cmd))))]
              @ List.map_filter (\<lambda>key. if arg key \<noteq> '''' then Some (key, VString (arg key)) else None)
                  [''alert_id'', ''event_type'', ''policy_ref'', ''policy_domain'']
              @ (if related \<noteq> '''' \<and> related \<noteq> ac_ID cmd then [(''related_command_id'', VString related)] else [])
        in Some \<lparr>ae_TenantID = nd_TenantID node, ae_NodeID = Some (nd_ID node), ae_EventType = ''command.queued'', ae_Actor = actor,
             ae_Summary = ''Command queued: '' @ ac_Command cmd, ae_Detail = detail\<rparr>)"

definition recordAgentCommandQueuedAudit :: "(string option \<Rightarrow> string) \<Rightarrow> http_context \<Rightarrow> Node \<Rightarrow> AgentCommand \<Rightarrow> unit op" where
  "recordAgentCommandQueuedAudit sprint ctx node cmd = (case buildAgentCommandQueuedAuditEvent sprint ctx node cmd of
       None \<Rightarrow> ret ()
     | Some event \<Rightarrow> bnd (attempt (CreateAuditEvent event)) (\<lambda>_. ret ()))"

text \<open>The answers: a command that was queued, the commands of a node, its summary, the results of a batch.\<close>

datatype batch_result = Queued Node AgentCommand | NotQueued Node string

datatype command_answer = CommandQueued Node AgentCommand | Commands Node "AgentCommand list" | AgentStatus NodeSummary
  | Batch "batch_result list"

text \<open>The checks of a command that was asked for: its trimmed name and its timeout.\<close>

definition checked_command :: "v2AgentCommandRequest \<Rightarrow> 'a reply + v2AgentCommandRequest" where
  "checked_command body =
     (if cr_Command body = '''' then Inl (WriteError 400 ''BAD_REQUEST'' ''command is required'')
      else let command = TrimSpace (cr_Command body) in
        if \<not> IsAllowedAgentCommand command then Inl (WriteError 400 ''BAD_REQUEST'' ''unsupported command'')
        else Inr (body\<lparr>cr_Command := command, cr_Timeout := (if cr_Timeout body = 0 then 30 else cr_Timeout body)\<rparr>))"

text \<open>A body that cannot be decoded is given by the text of the error.\<close>

definition handleTenantNodeAgentCommand ::
    "Router \<Rightarrow> (string option \<Rightarrow> string) \<Rightarrow> string \<Rightarrow> http_context \<Rightarrow> Node \<Rightarrow> string + v2AgentCommandRequest \<Rightarrow> command_answer reply op" where
  "handleTenantNodeAgentCommand ro sprint meth ctx node body =
     (if meth \<noteq> ''POST'' then ret method_not_allowed
      else case body of
        Inl msg \<Rightarrow> ret (WriteError 400 ''BAD_REQUEST'' (''Invalid request body: '' @ msg))
      | Inr body \<Rightarrow> (case checked_command body of
          Inl refusal \<Rightarrow> ret refusal
        | Inr body \<Rightarrow>
            let message = inactiveCommandTargetMessage (Some node) in
            if message \<noteq> '''' then ret (WriteError 409 ''CONFLICT'' message)
            else bnd (attempt (QueueAgentCommand (nd_PublicKey node) (cr_Command body) (cr_Params body) (cr_Priority body) (cr_Timeout body))) (\<lambda>q. case q of
                Inl e \<Rightarrow> ret (WriteError 500 ''COMMAND_DISPATCH_FAILED'' (''Failed to queue command: '' @ ro_err_Error ro e))
              | Inr cmd \<Rightarrow> bnd (recordAgentCommandQueuedAudit sprint ctx node cmd) (\<lambda>_. ret (Reply (CommandQueued node cmd))))))"

definition handleTenantNodeAgentStatus :: "Router \<Rightarrow> Node \<Rightarrow> command_answer reply op" where
  "handleTenantNodeAgentStatus ro node =
     bnd (failTimedOutNodeCommands node) (\<lambda>_.
     bnd (attempt (buildNodeOperationsSummary node)) (\<lambda>q. ret (case q of
         Inl e \<Rightarrow> WriteError 500 ''COMMAND_DISPATCH_FAILED'' (''Failed to query agent status: '' @ ro_err_Error ro e)
       | Inr summary \<Rightarrow> Reply (AgentStatus summary))))"

text \<open>The limit of a listing: the parameter when it is a number from 1 to 100, else 10.\<close>

definition command_limit :: "string \<Rightarrow> int" where
  "command_limit rawLimit = (case Atoi rawLimit of Some parsed \<Rightarrow> if rawLimit \<noteq> '''' \<and> 0 < parsed \<and> parsed \<le> 100 then parsed else 10 | None \<Rightarrow> 10)"

definition handleTenantNodeAgentCommands :: "Router \<Rightarrow> string \<Rightarrow> string \<Rightarrow> Node \<Rightarrow> command_answer reply op" where
  "handleTenantNodeAgentCommands ro meth rawLimit node =
     (if meth \<noteq> ''GET'' then ret method_not_allowed
      else bnd (failTimedOutNodeCommands node) (\<lambda>_.
        bnd (attempt (ListRecentAgentCommands (nd_PublicKey node) (command_limit rawLimit))) (\<lambda>q. ret (case q of
            Inl e \<Rightarrow> WriteError 500 ''COMMAND_DISPATCH_FAILED'' (''Failed to load agent commands: '' @ ro_err_Error ro e)
          | Inr cmds \<Rightarrow> Reply (Commands node cmds)))))"

text \<open>The results of a batch in the order of its nodes, from the commands queued for the active ones.\<close>

fun batch_results :: "Node list \<Rightarrow> AgentCommand list \<Rightarrow> batch_result list" where
  "batch_results [] cmds = []"
| "batch_results (node # ns) cmds =
     (let message = inactiveCommandTargetMessage (Some node) in
      if message \<noteq> '''' then NotQueued node message # batch_results ns cmds
      else case cmds of
        [] \<Rightarrow> NotQueued node ''Failed to queue command'' # batch_results ns []
      | c # cs \<Rightarrow> Queued node c # batch_results ns cs)"

definition batch_failed :: "string \<Rightarrow> Node \<Rightarrow> batch_result" where
  "batch_failed msg node =
     (let message = inactiveCommandTargetMessage (Some node) in NotQueued node (if message \<noteq> '''' then message else ''Failed to queue command: '' @ msg))"

definition maxBatchAgentCommandTargets :: int where "maxBatchAgentCommandTargets = 1000"

definition batch_targets :: "Router \<Rightarrow> uuid \<Rightarrow> string list \<Rightarrow> Node list reply op" where
  "batch_targets ro tenantID nodeIDs =
     (if nodeIDs = [] then bnd (attempt (GetNodesByTenantPage tenantID maxBatchAgentCommandTargets 0)) (\<lambda>q. ret (case q of
          Inl e \<Rightarrow> WriteError 500 ''GET_NODES_FAILED'' ''Failed to load tenant nodes''
        | Inr ns \<Rightarrow> Reply ns))
      else bnd (attempt (for_collect (\<lambda>i. getTenantNodeRecord ro i tenantID) nodeIDs)) (\<lambda>q. ret (case q of
          Inl e \<Rightarrow> writeNodeLookupError ro e
        | Inr ns \<Rightarrow> Reply ns)))"

definition batch_queue ::
    "Router \<Rightarrow> (string option \<Rightarrow> string) \<Rightarrow> http_context \<Rightarrow> v2AgentCommandRequest \<Rightarrow> Node list \<Rightarrow> batch_result list op" where
  "batch_queue ro sprint ctx body ns =
     (let active = filter (\<lambda>n. inactiveCommandTargetMessage (Some n) = '''') ns in
      if active = [] then ret (batch_results ns [])
      else bnd (attempt (QueueAgentCommands (map nd_PublicKey active) (cr_Command body) (cr_Params body) (cr_Priority body) (cr_Timeout body))) (\<lambda>q. case q of
          Inl e \<Rightarrow> ret (map (batch_failed (ro_err_Error ro e)) ns)
        | Inr cmds \<Rightarrow>
            bnd (attempt (CreateAuditEvents (map (\<lambda>(n, c). buildAgentCommandQueuedAuditEvent sprint ctx n c) (zip active cmds)))) (\<lambda>_.
            ret (batch_results ns cmds))))"

definition handleTenantBatchAgentCommand ::
    "Router \<Rightarrow> (string option \<Rightarrow> string) \<Rightarrow> http_context \<Rightarrow> uuid \<Rightarrow> string + v2BatchAgentCommandRequest \<Rightarrow> command_answer reply op" where
  "handleTenantBatchAgentCommand ro sprint ctx tenantID body = (case body of
       Inl msg \<Rightarrow> ret (WriteError 400 ''BAD_REQUEST'' (''Invalid request body: '' @ msg))
     | Inr body \<Rightarrow> (case checked_command (br_Command body) of
         Inl refusal \<Rightarrow> ret refusal
       | Inr command \<Rightarrow> bnd (batch_targets ro tenantID (br_NodeIDs body)) (\<lambda>q. case q of
             Reply ns \<Rightarrow>
               if ns = [] then ret (WriteError 404 ''NODE_NOT_FOUND'' ''No nodes found'')
               else bnd (batch_queue ro sprint ctx command ns) (\<lambda>results. ret (Reply (Batch results)))
           | WriteError k c m \<Rightarrow> ret (WriteError k c m)
           | HttpError k m \<Rightarrow> ret (HttpError k m))))"

definition handleTenantAgents ::
    "Router \<Rightarrow> (string option \<Rightarrow> string) \<Rightarrow> string \<Rightarrow> http_request \<Rightarrow> http_context \<Rightarrow> uuid \<Rightarrow> string + v2BatchAgentCommandRequest \<Rightarrow> command_answer reply op" where
  "handleTenantAgents ro sprint meth r ctx tenantID body =
     after (authorizeTenantPermission ro ctx tenantID ''commands:write'') (
       let parts = splitPath (rq_URL_Path r) in
       if length parts = 6 \<and> parts ! 4 = ''agents'' \<and> parts ! 5 = ''command'' \<and> meth = ''POST''
       then handleTenantBatchAgentCommand ro sprint ctx tenantID body
       else ret (WriteError 400 ''INVALID_PATH'' ''Invalid agent path''))"

text \<open>The node is looked up before the request is authorised.\<close>

definition handleTenantNodeAgent ::
    "Router \<Rightarrow> (string option \<Rightarrow> string) \<Rightarrow> string \<Rightarrow> http_context \<Rightarrow> uuid \<Rightarrow> string list \<Rightarrow> string \<Rightarrow> string + v2AgentCommandRequest \<Rightarrow>
     command_answer reply op" where
  "handleTenantNodeAgent ro sprint meth ctx tenantID parts rawLimit body =
     (if length parts \<noteq> 8 then ret (WriteError 400 ''INVALID_PATH'' ''Invalid node agent path'')
      else with_node ro (parts ! 5) tenantID (\<lambda>node.
        let allowed = (\<lambda>p. after (authorizeTenantPermission ro ctx tenantID p)) in
        if parts ! 7 = ''command'' then allowed ''commands:write'' (handleTenantNodeAgentCommand ro sprint meth ctx node body)
        else if parts ! 7 = ''commands'' then allowed ''monitoring:read'' (handleTenantNodeAgentCommands ro meth rawLimit node)
        else if parts ! 7 = ''status'' then allowed ''monitoring:read'' (handleTenantNodeAgentStatus ro node)
        else ret (WriteError 404 ''ENDPOINT_NOT_FOUND'' ''Unknown node agent endpoint'')))"

section \<open>Whom a command reaches\<close>

lemma reads_node: "maintains (keeps (\<lambda>t. t)) (getTenantNodeRecord ro i T)"
  unfolding getTenantNodeRecord_def GetNodeByID_def scanNode_def by (intro maintains_rules)

text \<open>The queue only grows, by pending commands of an allowed kind for nodes with keys in \<open>K\<close>.\<close>

definition queue_grows :: "string set \<Rightarrow> tables \<Rightarrow> tables \<Rightarrow> bool" where
  "queue_grows K t t' \<longleftrightarrow> (\<exists>new. agent_commands t' = agent_commands t @ new \<and>
     (\<forall>c \<in> set new. cmd_status c = AgentCommandStatusPending \<and> IsAllowedAgentCommand (cmd_command c) \<and> cmd_node_public_key c \<in> K))"

interpretation grows: table_relation "queue_grows K" for K
proof
  show "queue_grows K t t" for t by (auto simp: queue_grows_def)
  show "queue_grows K t v" if "queue_grows K t u" "queue_grows K u v" for t u v
    using that unfolding queue_grows_def by (metis Un_iff append.assoc set_append)
qed

lemma grows_unchanged: "agent_commands t' = agent_commands t \<Longrightarrow> queue_grows K t t'"
  by (auto simp: queue_grows_def)

lemma grows_insert:
  assumes "IsAllowedAgentCommand command" and "pk \<in> K" and "insert_command_sql command ps p timeout pk i now t = Some (t', x)"
  shows "queue_grows K t t'"
  using assms by (auto simp: queue_grows_def insert_command_sql_def Let_def split: if_split_asm)

lemma insert_loop_cong: "(\<And>x. x \<in> set xs \<Longrightarrow> f x = g x) \<Longrightarrow> insert_loop f xs s = insert_loop g xs s"
  by (induction xs arbitrary: s) (auto split: option.split)

lemma insert_many_cong: "(\<And>x. x \<in> set xs \<Longrightarrow> f x = g x) \<Longrightarrow> insert_many_op f xs = insert_many_op g xs"
  unfolding insert_many_op_def by (simp add: insert_loop_cong [of xs f g])

lemma grows_queue:
  assumes "IsAllowedAgentCommand command" and "set pks \<subseteq> K"
  shows "pk \<in> K \<Longrightarrow> maintains (queue_grows K) (QueueAgentCommand pk command ps pr timeout)"
    and "maintains (queue_grows K) (QueueAgentCommands pks command ps pr timeout)"
proof -
  have trimmed: "IsAllowedAgentCommand (TrimSpace command)" using assms(1) by (simp add: IsAllowedAgentCommand_def)
  show "maintains (queue_grows K) (QueueAgentCommand pk command ps pr timeout)" if "pk \<in> K"
    unfolding QueueAgentCommand_def queueAgentCommand_def check_command_def
    by (intro maintains_rules) (auto intro: grows_insert [OF trimmed that])
  let ?f = "insert_command_sql (TrimSpace command) ps pr (default_timeout timeout)"
  have "insert_many_op ?f pks = insert_many_op (\<lambda>pk. if pk \<in> K then ?f pk else (\<lambda>_ _ _. None)) pks"
    using assms(2) by (intro insert_many_cong) auto
  moreover have "maintains (queue_grows K) (insert_many_op (\<lambda>pk. if pk \<in> K then ?f pk else (\<lambda>_ _ _. None)) pks)"
    by (intro maintains_rules) (auto intro: grows_insert [OF trimmed] split: if_split_asm)
  ultimately have many: "maintains (queue_grows K) (insert_many_op ?f pks)" by simp
  show "maintains (queue_grows K) (QueueAgentCommands pks command ps pr timeout)"
    unfolding QueueAgentCommands_def check_command_def Let_def by (rule many | rule maintains_rules)+
qed

lemma grows_audit:
  "maintains (queue_grows K) (CreateAuditEvent e)" "maintains (queue_grows K) (CreateAuditEvents es)"
  unfolding CreateAuditEvent_def CreateAuditEvents_def
  by (intro maintains_rules; auto simp: insert_audit_sql_def intro!: grows_unchanged split: if_split_asm)+

lemma grows_batch:
  assumes "IsAllowedAgentCommand (cr_Command body)"
    and "\<And>n. n \<in> set ns \<Longrightarrow> inactiveCommandTargetMessage (Some n) = '''' \<Longrightarrow> nd_PublicKey n \<in> K"
  shows "maintains (queue_grows K) (batch_queue ro sprint ctx body ns)"
proof -
  have "set (map nd_PublicKey (filter (\<lambda>n. inactiveCommandTargetMessage (Some n) = '''') ns)) \<subseteq> K" using assms(2) by auto
  note many = grows_queue(2) [OF assms(1) this]
  show ?thesis unfolding batch_queue_def Let_def by (intro maintains_rules many grows_audit)
qed

lemma grows_command:
  assumes "inactiveCommandTargetMessage (Some node) = '''' \<Longrightarrow> nd_PublicKey node \<in> K"
  shows "maintains (queue_grows K) (handleTenantNodeAgentCommand ro sprint meth ctx node body)"
proof -
  have "IsAllowedAgentCommand (cr_Command b')" if "checked_command b = Inr b'" for b b' :: v2AgentCommandRequest
    using that by (auto simp: checked_command_def Let_def split: if_split_asm)
  note queue = grows_queue(1) [OF this]
  show ?thesis unfolding handleTenantNodeAgentCommand_def recordAgentCommandQueuedAudit_def Let_def
    by (intro maintains_rules queue [where pks = "[]"] grows_audit) (auto intro: assms)
qed


lemma getTenantNodeRecord_Inr:
  assumes "getTenantNodeRecord ro i T s = (Inr node, t)"
  shows "\<exists>n \<in> set (nodes (tab s)). node_tenant_id n = T \<and> node = scanNodeRows n"
proof -
  from assms obtain j u where j: "ro_uuid_Parse ro i = Some j" and q: "GetNodeByID j s = (Inr (Some node), u)" and T: "nd_TenantID node = T"
    by (auto simp: getTenantNodeRecord_def bnd_Inr throw_Inr ret_Inr split: option.split_asm if_split_asm)
  from q have "Some node = map_option scanNodeRows (find (\<lambda>r. node_id r = j) (nodes (tab s)))"
    by (auto simp: GetNodeByID_def scanNode_def run_Inr dest!: select_Inr(1))
  then obtain n where "find (\<lambda>r. node_id r = j) (nodes (tab s)) = Some n" "node = scanNodeRows n"
    by (cases "find (\<lambda>r. node_id r = j) (nodes (tab s))") auto
  with T show ?thesis by (auto simp: find_Some_iff scanNodeRows_def intro!: bexI [of _ n])
qed

lemma for_collect_nodes:
  "for_collect (\<lambda>i. getTenantNodeRecord ro i T) ids s = (Inr ns, t) \<Longrightarrow> node \<in> set ns \<Longrightarrow>
     \<exists>n \<in> set (nodes (tab s)). node_tenant_id n = T \<and> node = scanNodeRows n"
proof (induction ids arbitrary: s ns)
  case (Cons i ids)
  then obtain x u xs where x: "getTenantNodeRecord ro i T s = (Inr x, u)" and xs: "for_collect (\<lambda>i. getTenantNodeRecord ro i T) ids u = (Inr xs, t)"
      and ns: "ns = x # xs" by (auto simp: bnd_Inr ret_Inr)
  show ?case using Cons.IH [OF xs] Cons.prems(2) ns getTenantNodeRecord_Inr [OF x] unchanged.frame_run [OF reads_node x] by auto
qed (simp add: ret_Inr)

text \<open>The keys of the nodes of a tenant that take commands.\<close>

definition live_keys :: "uuid \<Rightarrow> tables \<Rightarrow> string set" where
  "live_keys T t = {node_public_key n | n. n \<in> set (nodes t) \<and> node_tenant_id n = T \<and>
     ToLower (TrimSpace (coalesce (node_status n) ''online'')) \<notin> set stopped_statuses}"

lemma live_target:
  "n \<in> set (nodes t) \<Longrightarrow> node_tenant_id n = T \<Longrightarrow> inactiveCommandTargetMessage (Some (scanNodeRows n)) = '''' \<Longrightarrow>
     nd_PublicKey (scanNodeRows n) \<in> live_keys T t"
  by (auto simp: live_keys_def inactiveCommandTargetMessage_def scanNodeRows_def Let_def split: if_split_asm)

lemma listed_tenant: "T \<noteq> uuid_Nil \<Longrightarrow> listed \<lparr>lo_TenantID = T, lo_IncludeDeleted = d, lo_Limit = l, lo_Offset = off, lo_Unbounded = u\<rparr> n \<Longrightarrow> node_tenant_id n = T"
  by (simp add: listed_def)

lemma batch_targets_Reply:
  assumes "batch_targets ro T ids s = (Inr (Reply ns), t)" and "T \<noteq> uuid_Nil" and "node \<in> set ns"
  shows "\<exists>n \<in> set (nodes (tab s)). node_tenant_id n = T \<and> node = scanNodeRows n"
proof (cases "ids = []")
  case True
  with assms(1) obtain u where "GetNodesByTenantPage T maxBatchAgentCommandTargets 0 s = (Inr ns, u)"
    by (cases "fst (GetNodesByTenantPage T maxBatchAgentCommandTargets 0 s)")
      (auto simp: batch_targets_def bnd_def attempt_def ret_def split: prod.split_asm)
  then have "set ns \<subseteq> scanNodeRows ` {n \<in> set (nodes (tab s)). node_tenant_id n = T}"
    by (auto simp: GetNodesByTenantPage_def listNodes_def scanNodeListRows_def all_nodes_opts_def newest_nodes_def bnd_Inr
        dest!: check_Inr(1) select_Inr(1) in_set_takeD intro!: imageI) (erule listed_tenant [OF assms(2)])
  with assms(3) show ?thesis by auto
next
  case False
  with assms(1) obtain u where "for_collect (\<lambda>i. getTenantNodeRecord ro i T) ids s = (Inr ns, u)"
    by (cases "fst (for_collect (\<lambda>i. getTenantNodeRecord ro i T) ids s)")
      (auto simp: batch_targets_def bnd_def attempt_def ret_def writeNodeLookupError_def split: prod.split_asm if_split_asm)
  from for_collect_nodes [OF this assms(3)] show ?thesis .
qed

lemma reads_targets: "maintains (keeps (\<lambda>t. t)) (batch_targets ro T ids)"
  unfolding batch_targets_def GetNodesByTenantPage_def listNodes_def scanNodeListRows_def Let_def
  by (intro maintains_rules reads_node)

lemma grows_batch_request:
  assumes run: "handleTenantBatchAgentCommand ro sprint ctx T body s = (res, t)" and "T \<noteq> uuid_Nil"
  shows "queue_grows (live_keys T (tab s)) (tab s) (tab t)"
proof (cases "tab t = tab s")
  case False
  from run False obtain b command where b: "body = Inr b" "checked_command (br_Command b) = (Inr command :: command_answer reply + v2AgentCommandRequest)"
    by (auto simp: handleTenantBatchAgentCommand_def ret_def split: sum.split_asm)
  obtain q u where q: "batch_targets ro T (br_NodeIDs b) s = (q, u)" by fastforce
  have u: "tab u = tab s" by (rule unchanged.frame_run [OF reads_targets q])
  with run q b False obtain ns where ns: "q = Inr (Reply ns)"
      and rest: "bnd (batch_queue ro sprint ctx command ns) (\<lambda>results. ret (Reply (Batch results))) u = (res, t)"
    by (auto simp: handleTenantBatchAgentCommand_def bnd_def [of "batch_targets ro T (br_NodeIDs b)"] ret_def
        split: sum.split_asm reply.split_asm if_split_asm)
  have allowed: "IsAllowedAgentCommand (cr_Command command)"
    using b(2) by (auto simp: checked_command_def Let_def split: if_split_asm)
  have "nd_PublicKey n \<in> live_keys T (tab s)" if "n \<in> set ns" "inactiveCommandTargetMessage (Some n) = ''''" for n
    using batch_targets_Reply [OF q [unfolded ns] assms(2) that(1)] that(2) live_target by auto
  note batch = grows_batch [OF allowed this]
  have "maintains (queue_grows (live_keys T (tab s))) (bnd (batch_queue ro sprint ctx command ns) (\<lambda>results. ret (Reply (Batch results))))"
    by (intro maintains_rules batch)
  from maintainsD [OF this rest] u show ?thesis by simp
qed (simp add: grows.R_refl)


lemma grows_node_command:
  assumes run: "with_node ro i T (\<lambda>node. after (authorizeTenantPermission ro ctx T p) (handleTenantNodeAgentCommand ro sprint meth ctx node body)) s = (res, t)"
  shows "queue_grows (live_keys T (tab s)) (tab s) (tab t)"
proof -
  obtain q u where q: "getTenantNodeRecord ro i T s = (q, u)" by fastforce
  have u: "tab u = tab s" by (rule unchanged.frame_run [OF reads_node q])
  show ?thesis
  proof (cases q)
    case (Inl e)
    with run q u show ?thesis by (simp add: with_node_def bnd_def attempt_def ret_def grows_unchanged)
  next
    case (Inr node)
    with run q have rest: "after (authorizeTenantPermission ro ctx T p) (handleTenantNodeAgentCommand ro sprint meth ctx node body) u = (res, t)"
      by (simp add: with_node_def bnd_def attempt_def)
    have "inactiveCommandTargetMessage (Some node) = '''' \<Longrightarrow> nd_PublicKey node \<in> live_keys T (tab s)"
      using getTenantNodeRecord_Inr [OF q [unfolded Inr]] live_target by auto
    note command = grows_command [OF this]
    from rest reads_permission(1) show ?thesis
    proof (cases rule: after_cases)
      case stopped
      with u show ?thesis by (simp add: grows_unchanged)
    next
      case (went_on y v)
      from maintainsD [OF command went_on(3)] went_on(2) u show ?thesis by simp
    qed
  qed
qed

lemma permitted_node_command:
  assumes "with_node ro i T (\<lambda>node. after (authorizeTenantPermission ro ctx T p) (f node)) s = (res, t)" and "tab t \<noteq> tab s"
    and "enforcement_mode ro \<notin> {''off'', ''audit''}" and "p \<noteq> ''''"
  shows "permitted ro (tab s) ctx T p"
proof -
  obtain q u where q: "getTenantNodeRecord ro i T s = (q, u)" by fastforce
  have u: "tab u = tab s" by (rule unchanged.frame_run [OF reads_node q])
  with assms(1,2) q obtain node where "after (authorizeTenantPermission ro ctx T p) (f node) u = (res, t)"
    by (cases q) (auto simp: with_node_def bnd_def attempt_def ret_def)
  from this reads_permission(1) show ?thesis
  proof (cases rule: after_cases)
    case stopped
    with assms(2) u show ?thesis by simp
  next
    case (went_on y v)
    from authorizeTenantPermission_Reply [OF went_on(1) assms(3,4)] u show ?thesis by simp
  qed
qed

text \<open>
  (C15) A command asked for over HTTP, for one node or a batch, is queued only with
  the permission \<^verbatim>\<open>commands:write\<close>, only for nodes of the tenant that are neither deleted, suspended nor
  banned, and only when its kind is allowed; the commands that were queued before stay as they are.
\<close>

theorem http_commands_reach_live_nodes:
  assumes "handleTenantAgents ro sprint meth r ctx T batch s = (res, t) \<or>
      handleTenantNodeAgent ro sprint meth ctx T parts rawLimit body s = (res, t) \<and> parts ! 7 = ''command''"
    and "T \<noteq> uuid_Nil" and "enforcement_mode ro \<notin> {''off'', ''audit''}" and "tab t \<noteq> tab s"
  shows "queue_grows (live_keys T (tab s)) (tab s) (tab t) \<and> permitted ro (tab s) ctx T ''commands:write''"
  using assms(1)
proof
  assume "handleTenantAgents ro sprint meth r ctx T batch s = (res, t)"
  from this [unfolded handleTenantAgents_def] reads_permission(1) show ?thesis
  proof (cases rule: after_cases)
    case stopped
    with assms(4) show ?thesis by simp
  next
    case (went_on y v)
    with assms(4) have run: "handleTenantBatchAgentCommand ro sprint ctx T batch v = (res, t)"
      by (auto simp: ret_def Let_def split: if_split_asm)
    from grows_batch_request [OF run assms(2)] authorizeTenantPermission_Reply [OF went_on(1) assms(3)] went_on(2)
    show ?thesis by simp
  qed
next
  assume "handleTenantNodeAgent ro sprint meth ctx T parts rawLimit body s = (res, t) \<and> parts ! 7 = ''command''"
  then have run: "handleTenantNodeAgent ro sprint meth ctx T parts rawLimit body s = (res, t)" and arm: "parts ! 7 = ''command''" by auto
  with assms(4) have "length parts = 8" by (auto simp: handleTenantNodeAgent_def ret_def split: if_split_asm)
  with run have "with_node ro (parts ! 5) T (\<lambda>node. after (authorizeTenantPermission ro ctx T ''commands:write'')
      (handleTenantNodeAgentCommand ro sprint meth ctx node body)) s = (res, t)"
    by (simp add: handleTenantNodeAgent_def arm)
  from grows_node_command [OF this] permitted_node_command [OF this assms(4,3)] show ?thesis by simp
qed

definition operator_context :: http_context where
  "operator_context = \<lparr>hc_UserID = Some ''u1'', hc_Username = None, hc_UserRole = Some ''operator'', hc_TenantID = Some (CtxUUID ''t1'')\<rparr>"

definition sync_both :: v2BatchAgentCommandRequest where
  "sync_both = \<lparr>br_NodeIDs = [''n1'', ''n2''],
     br_Command = \<lparr>cr_Command = '' sync '', cr_Params = [], cr_Timeout = 0, cr_Priority = 0\<rparr>\<rparr>"

definition agents_request :: http_request where
  "agents_request = sample_request\<lparr>rq_URL_Path := ''/api/v2/tenants/t1/agents/command''\<rparr>"

theorem http_commands_reach_live_nodes_witness:
  "\<exists>res t. handleTenantAgents role_router (\<lambda>_. '''') ''POST'' agents_request operator_context ''t1'' (Inr sync_both) role_db = (res, t) \<and>
     map (\<lambda>c. (cmd_node_public_key c, cmd_command c)) (agent_commands (tab t)) = [(''pk1'', ''sync''), (''pk1'', ''sync'')] \<and>
     queue_grows (live_keys ''t1'' (tab role_db)) (tab role_db) (tab t)"
proof -
  let ?run = "handleTenantAgents role_router (\<lambda>_. '''') ''POST'' agents_request operator_context ''t1'' (Inr sync_both) role_db"
  have queued: "map (\<lambda>c. (cmd_node_public_key c, cmd_command c)) (agent_commands (tab (snd ?run))) = [(''pk1'', ''sync''), (''pk1'', ''sync'')]"
    "map (\<lambda>c. (cmd_node_public_key c, cmd_command c)) (agent_commands (tab role_db)) = [(''pk1'', ''sync'')]" by code_simp+
  then have "tab (snd ?run) \<noteq> tab role_db" by auto
  moreover have "enforcement_mode role_router \<notin> {''off'', ''audit''}" "''t1'' \<noteq> uuid_Nil" by code_simp+
  ultimately have "queue_grows (live_keys ''t1'' (tab role_db)) (tab role_db) (tab (snd ?run))"
    using http_commands_reach_live_nodes [of role_router "\<lambda>_. ''''" "''POST''" agents_request operator_context "''t1''" "Inr sync_both"
        role_db "fst ?run" "snd ?run"] by simp
  with queued show ?thesis by (intro exI [of _ "fst ?run"] exI [of _ "snd ?run"]) simp
qed

section \<open>Two views of the configuration of a node\<close>

text \<open>
  The two statuses of a summary agree as far as they go: where the configuration is called applied on a
  node that is online, the state is called converged.
\<close>

theorem applied_is_converged:
  assumes "deriveConfigurationStatus (Some cs) lastCommand pendingCmds = ''applied''" and "nodeAvailabilityStatus node now = ''online''"
  shows "stateConvergenceStatus node now (Some cs) (deriveConfigurationStatus (Some cs) lastCommand pendingCmds) = StatusConverged"
  using assms by (auto simp: deriveConfigurationStatus_def stateConvergenceStatus_def GetConvergenceStatus_def Let_def
      split: if_split_asm option.split_asm)

definition seen_node :: Node where
  "seen_node = scanNodeRows ((sample_node ''n1'' ''pk1'' ''online'')\<lparr>node_last_seen := 90\<rparr>)"

definition settled_state :: NodeControlState where
  "settled_state = \<lparr>st_TenantID = ''t1'', st_NodeID = ''n1'', st_DesiredStateVersion = ''v1'', st_DesiredStateMetadata = [],
     st_DesiredStateUpdatedAt = None, st_AppliedStateVersion = ''v1'', st_AppliedStateUpdatedAt = None, st_ObservedState = '''',
     st_ObservedMessage = '''', st_ObservedAt = None, st_LastSyncAt = None, st_LastSyncError = '''', st_CreatedAt = 0, st_UpdatedAt = 0\<rparr>"

theorem applied_is_converged_witness:
  "deriveConfigurationStatus (Some settled_state) None 0 = ''applied'' \<and>
   stateConvergenceStatus seen_node (secs 100) (Some settled_state) (deriveConfigurationStatus (Some settled_state) None 0) = StatusConverged"
proof -
  have "deriveConfigurationStatus (Some settled_state) None 0 = ''applied''" "nodeAvailabilityStatus seen_node (secs 100) = ''online''" by code_simp+
  then show ?thesis using applied_is_converged [of settled_state None 0 seen_node "secs 100"] by simp
qed

text \<open>
  But not the other way round: with a command of the node still waiting to be sent the configuration is
  called pending and the state converged, where the code means to lower it to pending for every command
  that is not complete.
\<close>

theorem waiting_command_called_converged:
  assumes "st_DesiredStateVersion cs = st_AppliedStateVersion cs" and "st_LastSyncError cs = ''''"
    and "ac_Status c = AgentCommandStatusPending" and "pendingCmds > 0" and "nodeAvailabilityStatus node now = ''online''"
  shows "deriveConfigurationStatus (Some cs) (Some c) pendingCmds = ''pending'' \<and>
    stateConvergenceStatus node now (Some cs) (deriveConfigurationStatus (Some cs) (Some c) pendingCmds) = StatusConverged"
  using assms by (simp add: deriveConfigurationStatus_def stateConvergenceStatus_def GetConvergenceStatus_def)

theorem waiting_command_called_converged_witness:
  "\<exists>c. deriveConfigurationStatus (Some settled_state) (Some c) 1 = ''pending'' \<and>
     stateConvergenceStatus seen_node (secs 100) (Some settled_state) (deriveConfigurationStatus (Some settled_state) (Some c) 1) = StatusConverged"
proof -
  let ?c = "scanAgentCommandRow (sample_command ''c1'' ''pending'' 0 1)"
  have "st_DesiredStateVersion settled_state = st_AppliedStateVersion settled_state" "st_LastSyncError settled_state = ''''"
    "ac_Status ?c = AgentCommandStatusPending" "nodeAvailabilityStatus seen_node (secs 100) = ''online''" by code_simp+
  then show ?thesis using waiting_command_called_converged [of settled_state ?c 1 seen_node "secs 100"] by auto
qed

end
