(* ===== verification/Node_Api.thy ===== *)
theory Node_Api
  imports Accounts Command_Api
begin

text \<open>
  The HTTP handlers for nodes and their advertised routes (\<^verbatim>\<open>api/v2/setup.go\<close>), with the writer of
  policy changes that the routes share with the rules of \<^verbatim>\<open>api/v2/security.go\<close>: a change of a policy
  and the sync of its node in one transaction.
\<close>

section \<open>Changes of a policy\<close>

text \<open>\<^verbatim>\<open>errors.Is\<close> on a chain of wrapped errors.\<close>

fun wraps :: "err \<Rightarrow> err \<Rightarrow> bool" where
  "wraps target (ErrWrap m e) \<longleftrightarrow> ErrWrap m e = target \<or> wraps target e"
| "wraps target e \<longleftrightarrow> e = target"

definition clonePolicyMetadata :: "params \<Rightarrow> params" where
  "clonePolicyMetadata m = m"

fun firstNonEmpty :: "string list \<Rightarrow> string" where
  "firstNonEmpty [] = ''''"
| "firstNonEmpty (v # vs) = (if v \<noteq> '''' then v else firstNonEmpty vs)"

definition containsString :: "string list \<Rightarrow> string \<Rightarrow> bool" where
  "containsString values s \<longleftrightarrow> s \<in> set values"

text \<open>The first key whose value is a text that is not empty.\<close>

fun first_text :: "params \<Rightarrow> string list \<Rightarrow> string" where
  "first_text m [] = ''''"
| "first_text m (key # keys) = (case map_of m key of
       Some (VString val) \<Rightarrow> if val \<noteq> '''' then val else first_text m keys
     | _ \<Rightarrow> first_text m keys)"

definition inferPolicyDeliveryIdentity :: "params \<Rightarrow> params \<Rightarrow> string \<times> string" where
  "inferPolicyDeliveryIdentity data metadata =
     (let pick = (\<lambda>keys. firstNonEmpty [first_text data keys, first_text metadata keys]) in
      (pick [''id'', ''rule_id'', ''policy_ref'', ''cidr'', ''route''], pick [''name'', ''rule_name'', ''policy_name'', ''description'']))"

definition buildPolicySyncRequest :: "Node \<Rightarrow> string \<Rightarrow> string \<Rightarrow> string \<Rightarrow> string \<Rightarrow> params \<Rightarrow> PolicySyncRequest op" where
  "buildPolicySyncRequest node domain action policyRef policyName metadata =
     bnd NewDesiredStateVersion (\<lambda>desiredVersion.
     let policyRef = TrimSpace policyRef; policyName = TrimSpace policyName;
         desiredMetadata = merge_detail (clonePolicyMetadata metadata)
           ([(''domain'', VString domain), (''action'', VString action), (''policy_ref'', VString policyRef)]
            @ (if policyName \<noteq> '''' then [(''policy_name'', VString policyName)] else []));
         params = merge_detail [(''domain'', VString domain), (''action'', VString action), (''node_id'', VString (nd_ID node)),
           (''hostname'', VString (nd_Hostname node)), (''desired_state_version'', VString desiredVersion)] metadata;
         deliveryMetadata = merge_detail (clonePolicyMetadata metadata)
           [(''domain'', VString domain), (''action'', VString action), (''command'', VString ''sync''),
            (''desired_state_version'', VString desiredVersion)]
     in ret \<lparr>rq_TenantID = nd_TenantID node, rq_NodeID = nd_ID node, rq_NodePublicKey = nd_PublicKey node, rq_Domain = domain,
          rq_Action = action, rq_PolicyRef = policyRef, rq_PolicyName = policyName, rq_DesiredStateVersion = desiredVersion,
          rq_DesiredMetadata = desiredMetadata, rq_CommandParams = params, rq_DeliveryMetadata = deliveryMetadata,
          rq_Priority = 1, rq_TimeoutSeconds = 60\<rparr>)"

definition inactivePolicyMutationMessage :: "Node option \<Rightarrow> string" where
  "inactivePolicyMutationMessage node = (case node of
       None \<Rightarrow> ''Node is not available for policy changes''
     | Some node \<Rightarrow>
         let status = ToLower (TrimSpace (nd_Status node)) in
         if status \<in> set stopped_statuses then ''Node status '' @ status @ '' does not allow policy changes'' else '''')"

text \<open>The check that stops a change with an answer.\<close>

definition writeInactivePolicyMutationError :: "Node \<Rightarrow> 'a reply op \<Rightarrow> 'a reply op" where
  "writeInactivePolicyMutationError node m =
     (let message = inactivePolicyMutationMessage (Some node) in
      if message \<noteq> '''' then ret (WriteError 409 ''CONFLICT'' message) else m)"

definition recordPolicyChangedAudit :: "Node \<Rightarrow> string \<Rightarrow> string \<Rightarrow> string \<Rightarrow> string \<Rightarrow> PolicySyncResult \<Rightarrow> unit op" where
  "recordPolicyChangedAudit node domain action policyRef policyName result =
     (if nd_ID node = uuid_Nil \<or> nd_TenantID node = uuid_Nil then ret ()
      else let name = TrimSpace policyName;
          detail = [(''policy_domain'', VString (TrimSpace domain)), (''policy_ref'', VString (TrimSpace policyRef)),
              (''action'', VString (TrimSpace action)), (''source'', VString ''api.v2'')]
            @ (if name \<noteq> '''' then [(''policy_name'', VString name)] else [])
            @ [(''desired_state_version'', VString (rs_DesiredStateVersion result)), (''command_id'', VString (ac_ID (rs_Command result)))]
        in bnd (attempt (CreateAuditEvent \<lparr>ae_TenantID = nd_TenantID node, ae_NodeID = Some (nd_ID node), ae_EventType = ''policy.changed'',
             ae_Actor = ''user'', ae_Summary = ''Policy changed'', ae_Detail = detail\<rparr>)) (\<lambda>_. ret ()))"

text \<open>
  What a change returns to the writer: the answer, the entries of its map that name the policy, and
  the metadata, to which the change may have added entries.
\<close>

record 'a policy_data =
  mu_answer :: 'a
  mu_data :: params
  mu_metadata :: params

text \<open>The answer to a change: its data, what was queued, and the last command of the node when it could be read.\<close>

record 'a policy_answer =
  pa_data :: 'a
  pa_dispatch :: PolicySyncResult
  pa_summary :: "NodeSummary option"

definition policy_mutation :: "Node \<Rightarrow> string \<Rightarrow> string \<Rightarrow> 'a policy_data op \<Rightarrow> ('a \<times> string \<times> string \<times> PolicySyncRequest) op" where
  "policy_mutation node domain action mutate =
     bnd mutate (\<lambda>d.
     let (policyRef, policyName) = inferPolicyDeliveryIdentity (mu_data d) (mu_metadata d) in
     bnd (buildPolicySyncRequest node domain action policyRef policyName (mu_metadata d)) (\<lambda>req.
     ret (mu_answer d, policyRef, policyName, req)))"

text \<open>
  \<^verbatim>\<open>MutatePolicyAndQueueSync\<close> with the variables the mutation sets: the transaction of \<open>Policy_Sync\<close> whose
  body also returns them.
\<close>

definition mutate_and_queue :: "('a \<times> string \<times> string \<times> PolicySyncRequest) op \<Rightarrow> ('a \<times> string \<times> string \<times> PolicySyncResult) op" where
  "mutate_and_queue mutate =
     bnd (transaction (bnd mutate (\<lambda>(a, policyRef, policyName, req). bnd (queuePolicySyncTx req) (\<lambda>r. ret (TxCommit (a, policyRef, policyName, req, r))))))
       (\<lambda>(a, policyRef, policyName, req, result).
     bnd (recordCommandQueuedAudit req (rs_Command result)) (\<lambda>_. ret (a, policyRef, policyName, result)))"

definition writeTransactionalPolicyMutationSuccess ::
    "Router \<Rightarrow> Node \<Rightarrow> string \<Rightarrow> string \<Rightarrow> string \<Rightarrow> 'a policy_data op \<Rightarrow> 'a policy_answer reply op" where
  "writeTransactionalPolicyMutationSuccess ro node domain action message mutate =
     writeInactivePolicyMutationError node (
     bnd (attempt (mutate_and_queue (policy_mutation node domain action mutate))) (\<lambda>q. case q of
         Inl e \<Rightarrow> ret (if is_no_rows e then WriteError 404 ''NOT_FOUND'' ''Policy item not found''
                    else if wraps ErrAmbiguousPolicyConflict e then WriteError 409 ''CONFLICT'' (ro_err_Error ro e)
                    else WriteError 500 ''INTERNAL_ERROR'' (message @ '': policy dispatch failed''))
       | Inr (a, policyRef, policyName, result) \<Rightarrow>
           bnd (recordPolicyChangedAudit node domain action policyRef policyName result) (\<lambda>_.
           bnd (attempt (buildNodeOperationsSummary node)) (\<lambda>summary.
           ret (Reply \<lparr>pa_data = a, pa_dispatch = result,
             pa_summary = (case summary of Inl e \<Rightarrow> None | Inr x \<Rightarrow> Some x)\<rparr>)))))"

text \<open>The wrapper \<^verbatim>\<open>fmt.Errorf("...: %w", err)\<close> around an operation.\<close>

definition failing :: "string \<Rightarrow> 'a op \<Rightarrow> 'a op" where
  "failing msg m = bnd (attempt m) (\<lambda>r. case r of Inl e \<Rightarrow> throw (ErrWrap msg e) | Inr x \<Rightarrow> ret x)"

section \<open>Advertised routes of a node\<close>

text \<open>\<^verbatim>\<open>sort.Strings\<close> orders by bytes.\<close>

definition sort_Strings :: "string list \<Rightarrow> string list" where
  "sort_Strings xs = sort_key (map (of_char :: char \<Rightarrow> nat)) xs"

fun collect_routes :: "string list \<Rightarrow> string list \<Rightarrow> err + string list" where
  "collect_routes result [] = Inr result"
| "collect_routes result (r # rs) =
     (let trimmed = TrimSpace r; add = (\<lambda>x. collect_routes (if x \<in> set result then result else result @ [x]) rs) in
      if trimmed = '''' then collect_routes result rs
      else if ParseCIDR trimmed \<noteq> None then add trimmed
      else case ParseIP trimmed of
        None \<Rightarrow> Inl (ErrMsg (''invalid CIDR or IP: '' @ trimmed))
      | Some ip \<Rightarrow>
          if Contains trimmed CHR ''/'' then add trimmed
          else add (trimmed @ (if To4 ip \<noteq> None then ''/32'' else ''/128'')))"

definition normalizeRoutes :: "string list \<Rightarrow> err + string list" where
  "normalizeRoutes routes = map_sum id sort_Strings (collect_routes [] routes)"

text \<open>A conflict with the routes of another region stops the request; \<open>None\<close> lets it go on.\<close>

definition validateTenantAdvertisedRouteConflicts :: "Router \<Rightarrow> uuid \<Rightarrow> Node \<Rightarrow> string \<Rightarrow> string list \<Rightarrow> 'a reply option op" where
  "validateTenantAdvertisedRouteConflicts ro tenantID node targetRegion routes =
     bnd (attempt (FindTenantAdvertisedRouteConflict (sql_collate (ro_sql ro)) tenantID (nd_PublicKey node) targetRegion routes)) (\<lambda>q. ret (case q of
         Inl e \<Rightarrow> Some (WriteError 400 ''BAD_REQUEST'' (ro_err_Error ro e))
       | Inr (Some conflict) \<Rightarrow> Some (WriteError 409 ''BAD_REQUEST'' (RouteConflictError_Error conflict))
       | Inr None \<Rightarrow> None))"

definition unless_conflict :: "Router \<Rightarrow> uuid \<Rightarrow> Node \<Rightarrow> string \<Rightarrow> string list \<Rightarrow> 'a reply op \<Rightarrow> 'a reply op" where
  "unless_conflict ro tenantID node targetRegion routes m =
     bnd (validateTenantAdvertisedRouteConflicts ro tenantID node targetRegion routes) (\<lambda>c. case c of Some refusal \<Rightarrow> ret refusal | None \<Rightarrow> m)"

text \<open>The body of a request for a route: its fields \<^verbatim>\<open>cidr\<close> and \<^verbatim>\<open>route\<close>.\<close>

definition decodeRouteBody :: "(string \<times> string) option \<Rightarrow> err + string" where
  "decodeRouteBody body = (case body of
       None \<Rightarrow> Inl (ErrMsg ''invalid request body'')
     | Some (cidr, route) \<Rightarrow>
         let route = TrimSpace (firstNonEmpty [cidr, route]) in
         if route = '''' then Inl (ErrMsg ''route CIDR is required'') else Inr route)"

text \<open>A policy in a list with the deliveries it had, the newest first.\<close>

record policy_item =
  it_ref :: string
  it_history :: "PolicyDelivery list"
  it_status :: string
  it_pending :: nat

datatype route_answer = RouteExists string | RouteStored string | RouteReplaced string string | RouteDeleted string
  | OneRoute string | RouteList "policy_item list" "NodeSummary option"

definition route_data :: "route_answer \<Rightarrow> params \<Rightarrow> params \<Rightarrow> unit op \<Rightarrow> route_answer policy_data op" where
  "route_data answer data metadata m = bnd m (\<lambda>_. ret \<lparr>mu_answer = answer, mu_data = data, mu_metadata = metadata\<rparr>)"

text \<open>An answer of the writer, or an answer without a change.\<close>

datatype 'a answered = Changed "'a policy_answer" | Unchanged 'a

definition changed :: "'a policy_answer reply op \<Rightarrow> 'a answered reply op" where
  "changed m = bnd m (\<lambda>r. ret (case r of Reply x \<Rightarrow> Reply (Changed x) | WriteError k c msg \<Rightarrow> WriteError k c msg | HttpError k msg \<Rightarrow> HttpError k msg))"

definition invalid_request :: "Router \<Rightarrow> err \<Rightarrow> 'a reply op" where
  "invalid_request ro e = ret (WriteError 400 ''INVALID_REQUEST'' (ro_err_Error ro e))"

definition addTenantNodeRoute :: "Router \<Rightarrow> (string \<times> string) option \<Rightarrow> uuid \<Rightarrow> Node \<Rightarrow> route_answer answered reply op" where
  "addTenantNodeRoute ro body tenantID node = (case decodeRouteBody body of
       Inl e \<Rightarrow> invalid_request ro e
     | Inr route \<Rightarrow> writeInactivePolicyMutationError node (case normalizeRoutes (nd_AdvertisedRoutes node @ [route]) of
         Inl e \<Rightarrow> invalid_request ro e
       | Inr normalized \<Rightarrow>
           if containsString (nd_AdvertisedRoutes node) route then ret (Reply (Unchanged (RouteExists route)))
           else unless_conflict ro tenantID node (nd_Region node) normalized (
             changed (writeTransactionalPolicyMutationSuccess ro node ''route'' ''create'' ''Route created successfully'' (
               route_data (RouteStored route) [(''id'', VString route), (''cidr'', VString route), (''node_id'', VString (nd_ID node))]
                 [(''node_id'', VString (nd_ID node)), (''route'', VString route)]
                 (failing ''failed to add route'' (UpdateTenantNodeRoutes (nd_ID node) tenantID normalized)))))))"

definition replaceTenantNodeRoute :: "Router \<Rightarrow> (string \<times> string) option \<Rightarrow> uuid \<Rightarrow> string \<Rightarrow> string \<Rightarrow> route_answer answered reply op" where
  "replaceTenantNodeRoute ro body tenantID nodeID routeID = with_node ro nodeID tenantID (\<lambda>node.
     if \<not> containsString (nd_AdvertisedRoutes node) routeID then ret (WriteError 404 ''ENDPOINT_NOT_FOUND'' ''Route not found'')
     else case decodeRouteBody body of
       Inl e \<Rightarrow> invalid_request ro e
     | Inr newRoute \<Rightarrow> writeInactivePolicyMutationError node (
         case normalizeRoutes (map (\<lambda>route. if route = routeID then newRoute else route) (nd_AdvertisedRoutes node)) of
           Inl e \<Rightarrow> invalid_request ro e
         | Inr normalized \<Rightarrow> unless_conflict ro tenantID node (nd_Region node) normalized (
             changed (writeTransactionalPolicyMutationSuccess ro node ''route'' ''update'' ''Route updated successfully'' (
               route_data (RouteReplaced newRoute routeID) [(''id'', VString newRoute), (''cidr'', VString newRoute), (''node_id'', VString (nd_ID node)),
                   (''previous'', VString routeID)]
                 [(''node_id'', VString (nd_ID node)), (''new_route'', VString newRoute), (''old_route'', VString routeID)]
                 (failing ''failed to update route'' (UpdateTenantNodeRoutes (nd_ID node) tenantID normalized)))))))"

definition deleteTenantNodeRoute :: "Router \<Rightarrow> uuid \<Rightarrow> string \<Rightarrow> string \<Rightarrow> route_answer answered reply op" where
  "deleteTenantNodeRoute ro tenantID nodeID routeID = with_node ro nodeID tenantID (\<lambda>node.
     if \<not> containsString (nd_AdvertisedRoutes node) routeID then ret (WriteError 404 ''ENDPOINT_NOT_FOUND'' ''Route not found'')
     else writeInactivePolicyMutationError node (
       changed (writeTransactionalPolicyMutationSuccess ro node ''route'' ''delete'' ''Route deleted successfully'' (
         route_data (RouteDeleted routeID) [(''id'', VString routeID), (''status'', VString ''deleted''), (''node_id'', VString (nd_ID node))]
           [(''node_id'', VString (nd_ID node)), (''route'', VString routeID)]
           (failing ''failed to delete route'' (UpdateTenantNodeRoutes (nd_ID node) tenantID
             (filter (\<lambda>route. route \<noteq> routeID) (nd_AdvertisedRoutes node))))))))"

definition getTenantNodeRoute :: "Router \<Rightarrow> uuid \<Rightarrow> string \<Rightarrow> string \<Rightarrow> route_answer answered reply op" where
  "getTenantNodeRoute ro tenantID nodeID routeID = with_node ro nodeID tenantID (\<lambda>node.
     ret (if \<not> containsString (nd_AdvertisedRoutes node) routeID then WriteError 404 ''ENDPOINT_NOT_FOUND'' ''Route not found''
          else Reply (Unchanged (OneRoute routeID))))"

definition mapCommandStatusToPolicyStatus :: "string \<Rightarrow> string" where
  "mapCommandStatusToPolicyStatus status =
     (if status = AgentCommandStatusPending then ''pending''
      else if status \<in> {AgentCommandStatusSent, AgentCommandStatusAcknowledged} then ''in_progress''
      else if status = AgentCommandStatusCompleted then ''applied''
      else if status = AgentCommandStatusFailed then ''error''
      else if status = AgentCommandStatusStale then ''stale''
      else ''idle'')"

definition pendingCountForCommandStatus :: "string \<Rightarrow> nat" where
  "pendingCountForCommandStatus status =
     (if status \<in> {AgentCommandStatusPending, AgentCommandStatusSent, AgentCommandStatusAcknowledged} then 1 else 0)"

text \<open>An item without a name has no deliveries; a delivery without one belongs to no item.\<close>

definition attachPolicyDeliveriesToItems :: "uuid \<Rightarrow> uuid \<Rightarrow> string \<Rightarrow> string list \<Rightarrow> policy_item list op" where
  "attachPolicyDeliveriesToItems tenantID nodeID domain refs =
     (if refs = [] then ret []
      else bnd (ListPolicyDeliveriesByNodeAndDomain tenantID nodeID domain 100) (\<lambda>deliveries.
        ret (map (\<lambda>ref.
          let history = (if ref = '''' then [] else filter (\<lambda>d. TrimSpace (dl_PolicyRef d) = ref) deliveries)
          in \<lparr>it_ref = ref, it_history = history,
               it_status = (if ref = '''' then '''' else case history of [] \<Rightarrow> ''idle'' | d # _ \<Rightarrow> mapCommandStatusToPolicyStatus (dl_CommandStatus d)),
               it_pending = sum_list (map (\<lambda>d. pendingCountForCommandStatus (dl_CommandStatus d)) history)\<rparr>) refs)))"

definition listTenantNodeRoutes :: "uuid \<Rightarrow> Node \<Rightarrow> route_answer answered reply op" where
  "listTenantNodeRoutes tenantID node =
     bnd (attempt (attachPolicyDeliveriesToItems tenantID (nd_ID node) ''route'' (nd_AdvertisedRoutes node))) (\<lambda>q. case q of
         Inl e \<Rightarrow> ret (WriteError 500 ''GET_NODES_FAILED'' ''Failed to load route delivery history'')
       | Inr items \<Rightarrow> bnd (attempt (buildNodeOperationsSummary node)) (\<lambda>s.
           ret (Reply (Unchanged (RouteList items (case s of Inl e \<Rightarrow> None | Inr summary \<Rightarrow> Some summary))))))"

definition handleTenantNodeRoutes ::
    "Router \<Rightarrow> string \<Rightarrow> http_context \<Rightarrow> uuid \<Rightarrow> string list \<Rightarrow> (string \<times> string) option \<Rightarrow> route_answer answered reply op" where
  "handleTenantNodeRoutes ro meth ctx tenantID parts body =
     (if length parts < 7 \<or> parts ! 6 \<noteq> ''routes'' then ret (WriteError 400 ''INVALID_PATH'' ''Invalid route path'')
      else after (authorizeTenantPermission ro ctx tenantID (if meth \<noteq> ''GET'' then ''routes:write'' else ''routes:read'')) (
        let nodeID = parts ! 5; routeID = Join ''/'' (drop 7 parts) in
        with_node ro nodeID tenantID (\<lambda>node.
          if routeID = '''' then
            (if meth = ''GET'' then listTenantNodeRoutes tenantID node
             else if meth = ''POST'' then addTenantNodeRoute ro body tenantID node
             else ret method_not_allowed)
          else if meth = ''GET'' then getTenantNodeRoute ro tenantID nodeID routeID
          else if meth = ''PUT'' then replaceTenantNodeRoute ro body tenantID nodeID routeID
          else if meth = ''DELETE'' then deleteTenantNodeRoute ro tenantID nodeID routeID
          else ret method_not_allowed)))"

section \<open>Nodes\<close>

definition isControlRune :: "char \<Rightarrow> bool" where
  "isControlRune c \<longleftrightarrow> (of_char c :: nat) < 0x20 \<or> (of_char c :: nat) = 0x7f"

text \<open>A field of an update, trimmed and checked; a control rune is one byte of its text.\<close>

definition checked_field :: "string \<Rightarrow> nat \<Rightarrow> string \<Rightarrow> err + string" where
  "checked_field name maximum v =
     (let normalized = TrimSpace v in
      if normalized = '''' then Inr normalized
      else if RuneCountInString normalized > maximum then Inl (ErrMsg (name @ '' must be at most '' @ Itoa (int maximum) @ '' characters''))
      else if list_ex isControlRune normalized then Inl (ErrMsg (name @ '' cannot contain control characters''))
      else Inr normalized)"

definition normalizeAndValidateNodeUpdateFields :: "string \<Rightarrow> string \<Rightarrow> string \<Rightarrow> err + string \<times> string \<times> string" where
  "normalizeAndValidateNodeUpdateFields hostname region vpcID = (case checked_field ''hostname'' 100 hostname of
       Inl e \<Rightarrow> Inl e
     | Inr hostname \<Rightarrow> (case checked_field ''region'' 50 region of
         Inl e \<Rightarrow> Inl e
       | Inr region \<Rightarrow> (case checked_field ''vpc_id'' 50 vpcID of
           Inl e \<Rightarrow> Inl e
         | Inr vpcID \<Rightarrow> Inr (hostname, region, vpcID))))"

record node_update =
  nu_Hostname :: string
  nu_Endpoint :: string
  nu_PrivateIP :: string
  nu_PublicIP :: string
  nu_Region :: string
  nu_VPCID :: string
  nu_Role :: string
  nu_AdvertisedRoutes :: "string list option"

text \<open>\<^verbatim>\<open>COALESCE(NULLIF($1, ''), column)\<close> for a column of at most so many characters; \<open>None\<close> is a text too long for it.\<close>

definition kept_or :: "sql_lib \<Rightarrow> nat \<Rightarrow> string \<Rightarrow> string \<Rightarrow> string option" where
  "kept_or lib n v old = (if v = '''' then Some old else varchar lib n v)"

definition updated_node :: "sql_lib \<Rightarrow> node_update \<Rightarrow> string \<Rightarrow> time \<Rightarrow> node_row \<Rightarrow> node_row option" where
  "updated_node lib body role now r =
     (case (kept_or lib 100 (nu_Hostname body) (node_hostname r), kept_or lib 100 (nu_Endpoint body) (node_endpoint r),
        kept_or lib 45 (nu_PrivateIP body) (node_private_ip r), kept_or lib 45 (nu_PublicIP body) (node_public_ip r),
        kept_or lib 50 (nu_Region body) (node_region r), kept_or lib 50 (nu_VPCID body) (node_vpc_id r), varchar lib 20 role) of
        (Some h, Some e, Some pri, Some pub, Some reg, Some vpc, Some ro) \<Rightarrow>
          Some (r\<lparr>node_hostname := h, node_endpoint := e, node_private_ip := pri, node_public_ip := pub, node_region := reg,
            node_vpc_id := vpc, node_role := ro, node_updated_at := now\<rparr>)
      | _ \<Rightarrow> None)"

definition update_node_sql :: "sql_lib \<Rightarrow> uuid \<Rightarrow> uuid \<Rightarrow> node_update \<Rightarrow> string \<Rightarrow> time \<Rightarrow> tables \<Rightarrow> (tables \<times> nat) option" where
  "update_node_sql lib nodeID tenantID body role now t =
     (let mine = (\<lambda>r. node_id r = nodeID \<and> node_tenant_id r = tenantID) in
      if list_ex (\<lambda>r. mine r \<and> updated_node lib body role now r = None) (nodes t) then None
      else Some (t\<lparr>nodes := update_where mine (\<lambda>r. coalesce (updated_node lib body role now r) r) (nodes t)\<rparr>, affected mine (nodes t)))"

datatype node_answer = NodeUpdated uuid string "string list" | NodeDeleted string

definition updateTenantNode :: "Router \<Rightarrow> node_update option \<Rightarrow> uuid \<Rightarrow> string \<Rightarrow> node_answer reply op" where
  "updateTenantNode ro body tenantID nodeID = with_node ro nodeID tenantID (\<lambda>node. case body of
       None \<Rightarrow> ret (WriteError 400 ''INVALID_REQUEST'' ''Invalid request body'')
     | Some body \<Rightarrow>
         if nu_AdvertisedRoutes body \<noteq> None then ret (WriteError 400 ''INVALID_REQUEST'' ''Use the node route API to update advertised routes'')
         else case normalizeAndValidateNodeUpdateFields (nu_Hostname body) (nu_Region body) (nu_VPCID body) of
           Inl e \<Rightarrow> invalid_request ro e
         | Inr (hostname, region, vpcID) \<Rightarrow> (case normalizeRoutes (nd_AdvertisedRoutes node) of
             Inl e \<Rightarrow> invalid_request ro e
           | Inr normalizedRoutes \<Rightarrow>
               let body = body\<lparr>nu_Hostname := hostname, nu_Region := region, nu_VPCID := vpcID\<rparr>;
                   role = (if nu_Role body = '''' then nd_Role node else nu_Role body);
                   targetRegion = firstNonEmpty [region, nd_Region node];
                   update = bnd (attempt (write_op (update_node_sql (ro_sql ro) (nd_ID node) tenantID body role))) (\<lambda>w. ret (case w of
                       Inl e \<Rightarrow> WriteError 500 ''UPDATE_NODE_FAILED'' ''Failed to update node''
                     | Inr _ \<Rightarrow> Reply (NodeUpdated (nd_ID node) role normalizedRoutes)))
               in if TrimSpace region \<noteq> '''' then unless_conflict ro tenantID node targetRegion normalizedRoutes update else update))"

definition deleteTenantNode :: "Router \<Rightarrow> uuid \<Rightarrow> string \<Rightarrow> node_answer reply op" where
  "deleteTenantNode ro tenantID nodeID = with_node ro nodeID tenantID (\<lambda>node.
     bnd (attempt (ApplyNodeLifecycleTransition (nd_PublicKey node) \<lparr>nt_TargetStatus = ''deleted'', nt_RevokeReason = ''node deleted via API'',
         nt_AuditEventType = ''node_deleted'', nt_AuditActor = ''user'', nt_AuditSummary = ''Node deleted via API'',
         nt_AuditDetail = [(''node_id'', VString (nd_ID node))]\<rparr>)) (\<lambda>q. ret (case q of
       Inl e \<Rightarrow> WriteError 500 ''UPDATE_NODE_FAILED'' (''Failed to delete node: '' @ ro_err_Error ro e)
     | Inr _ \<Rightarrow> Reply (NodeDeleted nodeID))))"

section \<open>What is told about a node\<close>

definition tokenSecretPreview :: "string \<Rightarrow> string" where
  "tokenSecretPreview tokenStr =
     (let tokenStr = TrimSpace tokenStr in
      if tokenStr = '''' then ''''
      else if length tokenStr \<le> 10 then ''redacted''
      else take 6 tokenStr @ ''...'' @ drop (length tokenStr - 4) tokenStr)"

definition onboardingObservedMessageIsError :: "string \<Rightarrow> string \<Rightarrow> string \<Rightarrow> bool" where
  "onboardingObservedMessageIsError observedState configurationStatus observedMessage =
     (let observed = ToLower (TrimSpace observedState) in
      if TrimSpace observedMessage = '''' then False
      else if observed \<in> {''failed'', ''error'', ''degraded''} then True
      else if observed \<in> {''applied'', ''healthy'', ''ok''} then False
      else ToLower (TrimSpace configurationStatus) \<in> {''failed'', ''degraded''})"

datatype onboarding_phase = Degraded | Syncing | FirstSync | Online | Registered

record Onboarding =
  ob_phase :: onboarding_phase
  ob_last_error :: string
  ob_token_preview :: string
  ob_first_seen_at :: stamp
  ob_last_sync_at :: stamp

text \<open>
  \<open>Syncing\<close> and \<open>FirstSync\<close> are both the phase \<^verbatim>\<open>syncing\<close>, with another text for the next action.
\<close>

definition buildNodeOnboardingStatus :: "Node \<Rightarrow> time \<Rightarrow> NodeSummary option \<Rightarrow> Onboarding" where
  "buildNodeOnboardingStatus node now summary =
     (let text = (\<lambda>f. case summary of None \<Rightarrow> '''' | Some s \<Rightarrow> TrimSpace (f s));
          observedState = ToLower (text ns_observed_state); configurationStatus = ToLower (text ns_configuration_status);
          observedMessage = text ns_observed_message;
          observedError = (if onboardingObservedMessageIsError observedState configurationStatus observedMessage then observedMessage else '''');
          lastError = firstNonEmptyString [text ns_last_sync_error, text ns_last_command_error, observedError];
          desiredVersion = text ns_desired_state_version; appliedVersion = text ns_applied_state_version;
          online = (nodeAvailabilityStatus node now = ''online'')
      in \<lparr>ob_phase = (if TrimSpace lastError \<noteq> '''' then Degraded
            else if desiredVersion \<noteq> '''' \<and> appliedVersion \<noteq> '''' \<and> desiredVersion \<noteq> appliedVersion then Syncing
            else if online \<and> (appliedVersion \<noteq> '''' \<or> observedState \<in> {''healthy'', ''applied''} \<or> configurationStatus = ''applied'') then Online
            else if online then FirstSync
            else Registered),
          ob_last_error = lastError, ob_token_preview = tokenSecretPreview (nd_EnrolledWithToken node),
          ob_first_seen_at = (if nd_RegisteredAt node > 0 then UnixSeconds (nd_RegisteredAt node) else At (nd_CreatedAt node)),
          ob_last_sync_at = (case summary of None \<Rightarrow> NoTime | Some s \<Rightarrow> ns_last_sync_at s)\<rparr>)"

text \<open>A node as it is listed: its record, its availability, its summary and convergence.\<close>

record NodeResponse =
  nr_node :: Node
  nr_availability :: string
  nr_operations :: "NodeSummary option"
  nr_convergence :: "ConvergenceStatus option"
  nr_onboarding :: Onboarding

definition buildTenantNodeResponse :: "Node \<Rightarrow> NodeResponse op" where
  "buildTenantNodeResponse node = bnd (attempt (buildNodeOperationsSummary node)) (\<lambda>q. bnd time_Now (\<lambda>now.
     let summary = (case q of Inl e \<Rightarrow> None | Inr s \<Rightarrow> Some s); availability = nodeAvailabilityStatus node now
     in ret \<lparr>nr_node = node, nr_availability = availability, nr_operations = summary,
          nr_convergence = (case summary of Some s \<Rightarrow> ns_convergence s
            | None \<Rightarrow> Some (if availability = ''online'' then StatusConverged else StatusOffline)),
          nr_onboarding = buildNodeOnboardingStatus node now summary\<rparr>))"

definition getTenantNodeByID :: "Router \<Rightarrow> uuid \<Rightarrow> string \<Rightarrow> NodeResponse reply op" where
  "getTenantNodeByID ro tenantID nodeID = with_node ro nodeID tenantID (\<lambda>node. bnd (buildTenantNodeResponse node) (\<lambda>x. ret (Reply x)))"

definition parseNodeListPagination :: "string \<Rightarrow> string \<Rightarrow> int \<times> int" where
  "parseNodeListPagination rawLimit rawOffset =
     (let positive = (\<lambda>raw default. case Atoi raw of Some parsed \<Rightarrow> if raw \<noteq> '''' \<and> parsed > 0 then parsed else default | None \<Rightarrow> default);
          limit = positive rawLimit 200
      in (if limit > 1000 then 1000 else limit, positive rawOffset 0))"

definition listTenantNodes :: "uuid \<Rightarrow> string \<Rightarrow> string \<Rightarrow> (NodeResponse list \<times> int \<times> int) reply op" where
  "listTenantNodes tenantID rawLimit rawOffset =
     (let (limit, offset) = parseNodeListPagination rawLimit rawOffset in
      bnd (attempt (GetNodesByTenantPage tenantID limit offset)) (\<lambda>q. case q of
          Inl e \<Rightarrow> ret (WriteError 500 ''GET_NODES_FAILED'' ''Failed to get nodes'')
        | Inr ns \<Rightarrow> bnd (for_collect buildTenantNodeResponse ns) (\<lambda>items. ret (Reply (items, limit, offset)))))"

datatype node_status = StatusMissing uuid | StatusOf NodeSummary

text \<open>The status of one node of a request; \<open>Inl\<close> is the answer that ends the request.\<close>

definition node_status_of :: "Router \<Rightarrow> uuid \<Rightarrow> string \<Rightarrow> (node_status list reply + node_status) op" where
  "node_status_of ro tenantID rawNodeID =
     (let nodeID = TrimSpace rawNodeID in
      case ro_uuid_Parse ro nodeID of
        None \<Rightarrow> ret (Inl (WriteError 400 ''INVALID_REQUEST'' ''node_id must be a valid UUID''))
      | Some parsedNodeID \<Rightarrow> bnd (attempt (getTenantNodeRecord ro nodeID tenantID)) (\<lambda>q. case q of
            Inl e \<Rightarrow> ret (if is_no_rows e then Inr (StatusMissing parsedNodeID) else Inl (writeNodeLookupError ro e))
          | Inr node \<Rightarrow> bnd (failTimedOutNodeCommands node) (\<lambda>_.
              bnd (attempt (buildNodeOperationsSummary node)) (\<lambda>s. ret (case s of
                  Inl e \<Rightarrow> Inl (WriteError 500 ''INTERNAL_ERROR'' ''Failed to load node status'')
                | Inr summary \<Rightarrow> Inr (StatusOf summary))))))"

fun node_statuses :: "Router \<Rightarrow> uuid \<Rightarrow> string list \<Rightarrow> node_status list \<Rightarrow> node_status list reply op" where
  "node_statuses ro tenantID [] items = ret (Reply items)"
| "node_statuses ro tenantID (i # ids) items = bnd (node_status_of ro tenantID i) (\<lambda>r. case r of
       Inl refusal \<Rightarrow> ret refusal
     | Inr item \<Rightarrow> node_statuses ro tenantID ids (items @ [item]))"

definition handleTenantNodeStatus :: "Router \<Rightarrow> string \<Rightarrow> http_context \<Rightarrow> uuid \<Rightarrow> string + string list \<Rightarrow> node_status list reply op" where
  "handleTenantNodeStatus ro meth ctx tenantID body =
     (if meth \<noteq> ''POST'' then ret method_not_allowed
      else after (authorizeTenantPermission ro ctx tenantID ''nodes:read'') (case body of
          Inl msg \<Rightarrow> ret (WriteError 400 ''BAD_REQUEST'' (''Invalid request body: '' @ msg))
        | Inr nodeIDs \<Rightarrow>
            if nodeIDs = [] \<or> length nodeIDs > 100 then ret (WriteError 400 ''INVALID_REQUEST'' ''node_ids must contain 1-100 entries'')
            else node_statuses ro tenantID nodeIDs []))"


section \<open>Normal routes\<close>

text \<open>The text of an address without a zone has no slash.\<close>

lemma slash_digits: "char_digit CHR ''/'' = None" "hex_digit CHR ''/'' = None"
  by code_simp+

lemma parse4_slash: "parse4 prev v n fs s = Some bs \<Longrightarrow> CHR ''/'' \<notin> set s"
  by (induction prev v n fs s rule: parse4.induct) (auto simp: slash_digits split: option.split_asm if_split_asm)

lemma scan_hex_slash: "scan_hex off acc s = Some (n, v, r) \<Longrightarrow> CHR ''/'' \<in> set s \<Longrightarrow> CHR ''/'' \<in> set r"
  by (induction off acc s rule: scan_hex.induct) (auto simp: slash_digits split: option.split_asm if_split_asm)

lemma parse6_slash: "parse6 e ip s = Some (e', ip', r) \<Longrightarrow> CHR ''/'' \<in> set s \<Longrightarrow> CHR ''/'' \<in> set r"
proof (induction e ip s rule: parse6.induct)
  case (1 e ip s)
  show ?case
  proof (cases "16 \<le> length ip")
    case True
    with "1.prems" show ?thesis by (simp add: parse6.simps [of e ip s])
  next
    case False
    with "1.prems"(1) obtain off acc q where q: "scan_hex 0 0 s = Some (off, acc, q)" "off \<noteq> 0"
      by (auto simp: parse6.simps [of e ip s] split: option.split_asm if_split_asm)
    have sl: "CHR ''/'' \<in> set q" by (rule scan_hex_slash [OF q(1) "1.prems"(2)])
    show ?thesis
    proof (cases "take 1 q = ''.''")
      case True
      with False q "1.prems" show ?thesis
        by (auto simp: parse6.simps [of e ip s] parseIPv4Fields_def dest: parse4_slash split: if_split_asm)
    next
      case dot: False
      from sl obtain c q' where c: "q = c # q'" by (cases q) auto
      from False q dot c "1.prems"(1) have colon: "c = CHR '':''" "q' \<noteq> []"
        by (auto simp: parse6.simps [of e ip s] Let_def split: if_split_asm)
      from sl c colon have sl': "CHR ''/'' \<in> set q'" by auto
      show ?thesis
      proof (cases "hd q' = CHR '':''")
        case True
        with sl' colon have tl: "CHR ''/'' \<in> set (tl q')" "tl q' \<noteq> []" by (cases q'; auto)+
        with False q dot c colon True "1.prems"(1)
        have "parse6 (Some (length (ip @ [acc div 256, acc mod 256]))) (ip @ [acc div 256, acc mod 256]) (tl q') = Some (e', ip', r)" "e = None"
          by (auto simp: parse6.simps [of e ip s] Let_def split: if_split_asm)
        with "1.IH"(1) [OF False q(1) refl refl q(2) dot refl c] colon True tl show ?thesis by simp
      next
        case go: False
        with False q dot c colon "1.prems"(1)
        have "parse6 e (ip @ [acc div 256, acc mod 256]) q' = Some (e', ip', r)"
          by (auto simp: parse6.simps [of e ip s] Let_def split: if_split_asm)
        with "1.IH"(2) [OF False q(1) refl refl q(2) dot refl c] colon go sl' show ?thesis by simp
      qed
    qed
  qed
qed

lemma parseIPv6_zone:
  assumes "parseIPv6 s = Some a" and "Index CHR ''%'' s = Some i"
  shows "Zone a = drop (Suc i) s \<and> drop (Suc i) s \<noteq> ''''"
proof (cases "drop (Suc i) s = ''''")
  case True
  with assms show ?thesis unfolding parseIPv6_def by (simp only: option.case prod.case Let_def) simp
next
  case False
  with assms show ?thesis unfolding parseIPv6_def
    by (simp only: option.case prod.case Let_def if_False not_False_eq_True split: if_split_asm)
       (force simp: bind_eq_Some_conv)+
qed

lemma ParseIP_slash:
  assumes "ParseIP s = Some ip"
  shows "CHR ''/'' \<notin> set s"
proof
  assume sl: "CHR ''/'' \<in> set s"
  from assms have ip: "ParseAddr s = Some ip" "Zone ip = ''''" by (auto simp: ParseIP_def split: option.split_asm if_split_asm)
  have "\<not> parseIPv4 s = Some ip" using sl by (auto simp: parseIPv4_def parseIPv4Fields_def dest: parse4_slash)
  with ip(1) have v6: "parseIPv6 s = Some ip" by (auto simp: ParseAddr_def split: option.split_asm if_split_asm)
  show False
  proof (cases "Index CHR ''%'' s")
    case None
    let ?body = "if take 2 s = ''::'' then drop 2 s else s"
    have "CHR ''/'' \<in> set (take 2 s) \<union> set (drop 2 s)" using sl by (metis append_take_drop_id set_append)
    then have body: "CHR ''/'' \<in> set ?body" using sl by auto
    then have "?body \<noteq> []" by auto
    with v6 None obtain e ip' r bs where "parse6 (if take 2 s = ''::'' then Some 0 else None) [] ?body = Some (e, ip', r)"
        "expand_ellipsis (e, ip', r) = Some bs"
      by (auto simp: parseIPv6_def Let_def bind_eq_Some_conv split: if_split_asm)
    with parse6_slash [OF this(1) body] show False by (auto simp: expand_ellipsis_def split: if_split_asm)
  next
    case (Some i)
    from parseIPv6_zone [OF v6 Some] ip(2) show False by simp
  qed
qed

lemma sort_Strings_set [simp]: "set (sort_Strings xs) = set xs" "distinct (sort_Strings xs) \<longleftrightarrow> distinct xs"
  by (simp_all add: sort_Strings_def)

lemma sort_Strings_idem [simp]: "sort_Strings (sort_Strings xs) = sort_Strings xs"
  by (simp add: sort_Strings_def sort_key_id_if_sorted)

text \<open>A text the normal form keeps: trimmed, and a CIDR block.\<close>

definition normal_route :: "string \<Rightarrow> bool" where
  "normal_route r \<longleftrightarrow> TrimSpace r = r \<and> ParseCIDR r \<noteq> None"

lemma ParseCIDR_host:
  assumes "ParseIP s = Some ip" and "parse_nat d = Some n" and "int n \<le> BitLen ip"
  shows "ParseCIDR (s @ CHR ''/'' # d) \<noteq> None"
proof -
  from assms(1) have ip: "ParseAddr s = Some ip" "Zone ip = ''''" by (auto simp: ParseIP_def split: option.split_asm if_split_asm)
  show ?thesis
    using ip assms(2,3) Index_first [OF ParseIP_slash [OF assms(1)], of d] ParseAddr_nonzero [OF ip(1)]
    by (cases ip) (simp_all add: ParseCIDR_def Let_def)
qed

lemma trimmed_host:
  assumes "TrimSpace s = s" and "visible c"
  shows "TrimSpace (s @ CHR ''/'' # d @ [c]) = s @ CHR ''/'' # d @ [c]"
proof (rule TrimSpace_id)
  have head: "head_len space_runes s = 0"
    by (metis assms(1) TrimSpace_def head_len_strip_head head_len_take [OF space_runes_nonempty(1)] strip_head_suffix rev_drop rev_rev_ident)
  have sl: "CHR ''/'' \<notin> set r" if "r \<in> set space_runes" for r
    using that visible_no_space [of "CHR ''/''"] by (auto simp: visible_def)
  show "head_len space_runes (s @ CHR ''/'' # d @ [c]) = 0"
    unfolding head_len_zero_iff [OF space_runes_nonempty(1)]
  proof
    fix r assume r: "r \<in> set space_runes"
    with head have ne: "take (length r) s \<noteq> r" by (simp add: head_len_zero_iff space_runes_nonempty)
    show "take (length r) (s @ CHR ''/'' # d @ [c]) \<noteq> r"
    proof (cases "length r \<le> length s")
      case True
      with ne show ?thesis by simp
    next
      case False
      then have "CHR ''/'' \<in> set (take (length r) (s @ CHR ''/'' # d @ [c]))" by (simp add: take_Cons' )
      with sl [OF r] show ?thesis by metis
    qed
  qed
  have runes: "r \<noteq> [] \<and> set r \<subseteq> \<Union> (set ` set space_runes)" if "r \<in> set (map rev space_runes)" for r
    using that space_runes_nonempty(1) by auto
  have "head_len (map rev space_runes) (c # rev d @ CHR ''/'' # rev s) = 0" by (rule head_len_visible [OF assms(2) runes])
  then show "head_len (map rev space_runes) (rev (s @ CHR ''/'' # d @ [c])) = 0" by simp
qed

lemma normal_host:
  assumes "ParseIP s = Some ip" and "TrimSpace s = s"
  shows "normal_route (s @ (if To4 ip \<noteq> None then ''/32'' else ''/128''))"
proof -
  have "parse_nat ''32'' = Some 32" "parse_nat ''128'' = Some 128" "visible CHR ''2''" "visible CHR ''8''" by code_simp+
  moreover have "ip \<noteq> AddrZero" using assms(1) ParseAddr_nonzero by (auto simp: ParseIP_def split: option.split_asm if_split_asm)
  then have "32 \<le> BitLen ip" "To4 ip = None \<Longrightarrow> 128 \<le> BitLen ip" by (cases ip; simp)+
  ultimately show ?thesis
    using ParseCIDR_host [OF assms(1), of "''32''" 32] ParseCIDR_host [OF assms(1), of "''128''" 128]
      trimmed_host [OF assms(2), of "CHR ''2''" "''3''"] trimmed_host [OF assms(2), of "CHR ''8''" "''12''"]
    by (simp add: normal_route_def)
qed

lemma ParseCIDR_empty [simp]: "ParseCIDR [] = None" by code_simp

lemma collect_routes_Inr:
  "collect_routes acc rs = Inr out \<Longrightarrow> distinct acc \<Longrightarrow> list_all normal_route acc \<Longrightarrow> distinct out \<and> list_all normal_route out"
proof (induction rs arbitrary: acc)
  case (Cons r rs)
  have add: "?case" if "collect_routes (if x \<in> set acc then acc else acc @ [x]) rs = Inr out" "normal_route x" for x
    using Cons.IH [OF that(1)] Cons.prems(2,3) that(2) by simp
  show ?case
  proof (cases "TrimSpace r = ''''")
    case True
    with Cons show ?thesis by simp
  next
    case False
    show ?thesis
    proof (cases "ParseCIDR (TrimSpace r)")
      case None
      with False Cons.prems(1) obtain ip where ip: "ParseIP (TrimSpace r) = Some ip" by (auto simp: Let_def split: option.split_asm)
      with None False Cons.prems(1) ParseIP_slash [OF ip] show ?thesis
        by (intro add [OF _ normal_host [OF ip]]) (simp_all add: Let_def Contains_def)
    next
      case (Some n)
      with False Cons.prems(1) show ?thesis by (intro add [of "TrimSpace r"]) (simp_all add: Let_def normal_route_def)
    qed
  qed
qed simp

lemma collect_normal:
  "list_all normal_route rs \<Longrightarrow> distinct (acc @ rs) \<Longrightarrow> collect_routes acc rs = Inr (acc @ rs)"
  by (induction rs arbitrary: acc) (auto simp: normal_route_def Let_def)

text \<open>
  (C37) The routes that are stored are sorted and distinct CIDR blocks, and to normalise them again
  changes nothing.
\<close>

theorem normalized_routes_are_normal:
  assumes "normalizeRoutes routes = Inr out"
  shows "sorted (map (map (of_char :: char \<Rightarrow> nat)) out) \<and> distinct out \<and> list_all (\<lambda>r. ParseCIDR r \<noteq> None) out \<and>
    normalizeRoutes out = Inr out"
proof -
  from assms obtain xs where xs: "collect_routes [] routes = Inr xs" "out = sort_Strings xs"
    by (cases "collect_routes [] routes") (auto simp: normalizeRoutes_def)
  from collect_routes_Inr [OF xs(1)] have normal: "distinct out" "list_all normal_route out" by (simp_all add: xs(2) list_all_iff)
  with collect_normal [of out "[]"] have "normalizeRoutes out = Inr out" by (simp add: normalizeRoutes_def xs(2))
  with normal show ?thesis by (auto simp: xs(2) sort_Strings_def normal_route_def list_all_iff)
qed

theorem normalized_routes_are_normal_witness:
  "normalizeRoutes ['' 10.1.0.0/16 '', ''10.0.0.7'', '''', ''10.1.0.0/16''] = Inr [''10.0.0.7/32'', ''10.1.0.0/16''] \<and>
   normalizeRoutes [''10.0.0.7/32'', ''10.1.0.0/16''] = Inr [''10.0.0.7/32'', ''10.1.0.0/16'']"
proof -
  have "normalizeRoutes ['' 10.1.0.0/16 '', ''10.0.0.7'', '''', ''10.1.0.0/16''] = Inr [''10.0.0.7/32'', ''10.1.0.0/16'']" by code_simp
  with normalized_routes_are_normal [OF this] show ?thesis by simp
qed


section \<open>Changes of routes\<close>

lemma mutate_and_queue_Inl:
  assumes "mutate_and_queue m s = (Inl e, t)"
  shows "tab t = tab s"
proof -
  let ?x = "transaction (bnd m (\<lambda>(a, policyRef, policyName, req). bnd (queuePolicySyncTx req) (\<lambda>r. ret (TxCommit (a, policyRef, policyName, req, r)))))"
  obtain q u where q: "?x s = (q, u)" by fastforce
  show ?thesis
  proof (cases q)
    case (Inl e')
    with assms q show ?thesis using transaction_atomic unfolding atomic_on_error_def by (fastforce simp: mutate_and_queue_def bnd_def [of ?x])
  next
    case (Inr y)
    obtain a b c req r where "y = (a, b, c, req, r)" by (cases y) auto
    with assms q Inr recordAudit_total [of req "rs_Command r" u] show ?thesis
      by (auto simp: mutate_and_queue_def bnd_def [of ?x] bnd_def [of "recordCommandQueuedAudit _ _"] ret_def)
  qed
qed

lemma mutate_and_queue_Inr:
  assumes "mutate_and_queue m s = (Inr (a, pr, pn, res), t)"
  obtains u v w req where "m u = (Inr (a, pr, pn, req), v)" "tab u = tab s" "queuePolicySyncTx req v = (Inr res, w)"
    "without_alerts (tab t) = without_alerts (tab w)"
proof -
  from assms obtain req x where tx: "transaction (bnd m (\<lambda>(a, pr, pn, req). bnd (queuePolicySyncTx req) (\<lambda>r. ret (TxCommit (a, pr, pn, req, r))))) s
        = (Inr (a, pr, pn, req, res), x)" and audit: "recordCommandQueuedAudit req (rs_Command res) x = (Inr (), t)"
    by (auto simp: mutate_and_queue_def bnd_Inr ret_Inr)
  have frame: "without_alerts (tab t) = without_alerts (tab x)" by (rule alerts_frame.frame_run [OF maintains_recordAudit audit])
  from tx show ?thesis
    by (cases rule: transaction_Inr) (auto simp: bnd_Inr ret_Inr frame intro!: that)
qed

lemma buildPolicySyncRequest_Inr:
  assumes "buildPolicySyncRequest node domain action policyRef policyName metadata s = (Inr req, t)"
  shows "tab t = tab s" "rq_TenantID req = nd_TenantID node" "rq_NodeID req = nd_ID node" "rq_NodePublicKey req = nd_PublicKey node"
  using assms by (auto simp: buildPolicySyncRequest_def NewDesiredStateVersion_def Let_def run_Inr uuid_NewString_def)

lemma policy_mutation_Inr:
  assumes "policy_mutation node domain action mutate s = (Inr (a, pr, pn, req), t)"
  obtains d u where "mutate s = (Inr d, u)" "a = mu_answer d" "tab t = tab u" "rq_TenantID req = nd_TenantID node"
    "rq_NodeID req = nd_ID node" "rq_NodePublicKey req = nd_PublicKey node"
proof -
  from assms obtain d :: "'a policy_data" and u where d: "mutate s = (Inr d, u)"
      and rest: "(let (policyRef, policyName) = inferPolicyDeliveryIdentity (mu_data d) (mu_metadata d) in
         bnd (buildPolicySyncRequest node domain action policyRef policyName (mu_metadata d)) (\<lambda>req.
         ret (mu_answer d, policyRef, policyName, req))) u = (Inr (a, pr, pn, req), t)"
    unfolding policy_mutation_def bnd_Inr by blast
  obtain r n where rn: "inferPolicyDeliveryIdentity (mu_data d) (mu_metadata d) = (r, n)" by fastforce
  from rest obtain q v where q: "buildPolicySyncRequest node domain action r n (mu_metadata d) u = (Inr q, v)"
      and out: "a = mu_answer d" "req = q" "t = v"
    by (auto simp: rn bnd_Inr ret_Inr)
  show ?thesis using buildPolicySyncRequest_Inr [OF q] out by (intro that [OF d]) simp_all
qed

lemma after_write_frame:
  "maintains (keeps without_alerts) (recordPolicyChangedAudit node domain action pr pn r)"
  "maintains (keeps (\<lambda>t. t)) (buildNodeOperationsSummary node)"
  unfolding recordPolicyChangedAudit_def buildNodeOperationsSummary_def CountIncompleteAgentCommands_def GetLastAgentCommand_def
    GetNodeControlState_def Let_def
  by (intro maintains_rules)+

text \<open>
  A change of a policy either leaves the tables as they are and answers with an error, or it
  stores what the change does and the sync of the node.
\<close>

lemma policy_write_cases:
  assumes run: "writeTransactionalPolicyMutationSuccess ro node domain action msg mutate s = (res, t)"
  obtains (refused) "tab t = tab s" "\<And>a. res \<noteq> Inr (Reply a)"
    | (stored) a d u v x w req where "res = Inr (Reply a)" "inactivePolicyMutationMessage (Some node) = ''''"
      "mutate u = (Inr d, v)" "tab u = tab s" "pa_data a = mu_answer d"
      "tab x = tab v" "queuePolicySyncTx req x = (Inr (pa_dispatch a), w)" "without_alerts (tab t) = without_alerts (tab w)"
      "rq_TenantID req = nd_TenantID node" "rq_NodeID req = nd_ID node" "rq_NodePublicKey req = nd_PublicKey node"
proof (cases "inactivePolicyMutationMessage (Some node) = ''''")
  case False
  with run show ?thesis by (intro refused) (auto simp: writeTransactionalPolicyMutationSuccess_def writeInactivePolicyMutationError_def Let_def ret_def)
next
  case live: True
  let ?m = "mutate_and_queue (policy_mutation node domain action mutate)"
  obtain q y where q: "?m s = (q, y)" by fastforce
  show ?thesis
  proof (cases q)
    case (Inl e)
    with run live q mutate_and_queue_Inl [of _ s e y] show ?thesis
      by (intro refused) (auto simp: writeTransactionalPolicyMutationSuccess_def writeInactivePolicyMutationError_def Let_def ret_def
          bnd_def [of "attempt ?m"] attempt_def [of ?m] split: if_split_asm)
  next
    case (Inr z)
    obtain a pr pn r where z: "z = (a, pr, pn, r)" by (cases z) auto
    obtain q1 y1 where audit: "recordPolicyChangedAudit node domain action pr pn r y = (q1, y1)" by fastforce
    obtain q2 y2 where sum: "buildNodeOperationsSummary node y1 = (q2, y2)" by fastforce
    from audit have q1: "q1 = Inr ()"
      by (auto simp: recordPolicyChangedAudit_def Let_def bnd_def attempt_def ret_def split: if_split_asm prod.split_asm)
    from run live q Inr z audit q1 sum
    have out: "res = Inr (Reply \<lparr>pa_data = a, pa_dispatch = r, pa_summary = (case q2 of Inl e \<Rightarrow> None | Inr x \<Rightarrow> Some x)\<rparr>)" "t = y2"
      by (auto simp: writeTransactionalPolicyMutationSuccess_def writeInactivePolicyMutationError_def Let_def ret_def
          bnd_def [of "attempt ?m"] attempt_def [of ?m] bnd_def [of "recordPolicyChangedAudit node domain action pr pn r"]
          bnd_def [of "attempt (buildNodeOperationsSummary node)"] attempt_def [of "buildNodeOperationsSummary node"])
    have frame: "without_alerts (tab t) = without_alerts (tab y)"
      using alerts_frame.frame_run [OF after_write_frame(1) audit] unchanged.frame_run [OF after_write_frame(2) sum] out(2) by simp
    from q [unfolded Inr z] obtain u v w req where m: "policy_mutation node domain action mutate u = (Inr (a, pr, pn, req), v)"
        "tab u = tab s" "queuePolicySyncTx req v = (Inr r, w)" "without_alerts (tab y) = without_alerts (tab w)"
      by (rule mutate_and_queue_Inr)
    from m(1) obtain d u' where "mutate u = (Inr d, u')" "a = mu_answer d" "tab v = tab u'" "rq_TenantID req = nd_TenantID node"
        "rq_NodeID req = nd_ID node" "rq_NodePublicKey req = nd_PublicKey node" by (rule policy_mutation_Inr)
    with m frame live show ?thesis by (intro stored [OF out(1), of u d u' v req w]) simp_all
  qed
qed

interpretation nodes_frame: table_frame nodes .

lemma sync_keeps_nodes: "maintains (keeps nodes) (queuePolicySyncTx req)"
  unfolding queuePolicySyncTx_def upsertNodeDesiredState_def markSupersededPolicySyncsTx_def queueAgentCommand_def check_command_def
    createPolicyDelivery_def normalizePolicySyncRequest_def NewDesiredStateVersion_def Let_def
  by (intro maintains_rules)
    (auto simp: keeps_def insert_command_sql_def insert_delivery_sql_def stale_commands_sql_def stale_deliveries_sql_def
      upsert_desired_sql_def upsert_control_state_def Let_def split: if_split_asm option.split)

text \<open>A pending sync of the node with this key, the one that was returned.\<close>

definition sync_queued :: "string \<Rightarrow> PolicySyncResult \<Rightarrow> tables \<Rightarrow> bool" where
  "sync_queued key r t = list_ex (\<lambda>c. cmd_id c = ac_ID (rs_Command r) \<and> cmd_status c = ''pending'' \<and>
     cmd_node_public_key c = TrimSpace key \<and> cmd_command c = ''sync'') (agent_commands t)"

definition set_routes :: "uuid \<Rightarrow> uuid \<Rightarrow> string list \<Rightarrow> time \<Rightarrow> node_row list \<Rightarrow> node_row list" where
  "set_routes i T routes now ns = update_where (\<lambda>r. node_id r = i \<and> node_tenant_id r = T)
     (\<lambda>r. r\<lparr>node_advertised_routes := routes, node_updated_at := now\<rparr>) ns"

definition routes_stored :: "uuid \<Rightarrow> Node \<Rightarrow> string list \<Rightarrow> PolicySyncResult \<Rightarrow> tables \<Rightarrow> tables \<Rightarrow> bool" where
  "routes_stored T node routes r t t' \<longleftrightarrow> ToLower (TrimSpace (nd_Status node)) \<notin> {''deleted'', ''suspended'', ''banned''} \<and> sync_queued (nd_PublicKey node) r t' \<and>
     (\<exists>now. nodes t' = set_routes (nd_ID node) T routes now (nodes t))"

text \<open>An answer that tells of a change, or any other outcome.\<close>

definition route_outcome :: "(PolicySyncResult \<Rightarrow> bool) \<Rightarrow> bool \<Rightarrow> err + route_answer answered reply \<Rightarrow> bool" where
  "route_outcome P Q res = (case res of Inr (Reply (Changed a)) \<Rightarrow> P (pa_dispatch a) | _ \<Rightarrow> Q)"

lemma outcome_other: "Q \<Longrightarrow> (\<And>a. res \<noteq> Inr (Reply (Changed a))) \<Longrightarrow> route_outcome P Q res"
  by (auto simp: route_outcome_def split: sum.split reply.split answered.split)

lemma outcome_mono: "route_outcome P Q res \<Longrightarrow> (\<And>r. P r \<Longrightarrow> P' r) \<Longrightarrow> (Q \<Longrightarrow> Q') \<Longrightarrow> route_outcome P' Q' res"
  by (auto simp: route_outcome_def split: sum.splits reply.splits answered.splits)

lemma failing_Inr [run_Inr]: "failing text m s = (Inr x, t) \<longleftrightarrow> m s = (Inr x, t)"
  by (auto simp: failing_def bnd_def attempt_def throw_def ret_def split: prod.splits sum.splits)

lemma UpdateTenantNodeRoutes_Inr:
  assumes "UpdateTenantNodeRoutes i T routes s = (Inr (), t)"
  shows "\<exists>now. nodes (tab t) = set_routes i T routes now (nodes (tab s))"
proof -
  from assms obtain n u m v where "modify_op (update_nodes_sql (\<lambda>r. node_id r = i \<and> node_tenant_id r = T)
        (\<lambda>now r. r\<lparr>node_advertised_routes := routes, node_updated_at := now\<rparr>)) s = (Inr n, u)" "check_op n u = (Inr m, v)"
      "(if m = 0 then throw ErrNoRows else ret ()) v = (Inr (), t)"
    unfolding UpdateTenantNodeRoutes_def require_row_def bnd_Inr by blast
  from modify_Inr(1) [OF this(1)] check_Inr [OF this(2)] this(3)
  have "tab u = (tab s)\<lparr>nodes := set_routes i T routes (db_now s) (nodes (tab s))\<rparr>" "tab t = tab u"
    by (auto simp: update_nodes_sql_def set_routes_def throw_Inr ret_Inr split: if_split_asm)
  then show ?thesis by auto
qed

lemma without_alerts_nodes: "without_alerts u = without_alerts t \<Longrightarrow> nodes u = nodes t"
  by (auto simp: without_alerts_def dest: arg_cong [where f = nodes])

lemma queued_sync:
  assumes "queuePolicySyncTx req s = (Inr r, t)"
  shows "sync_queued (rq_NodePublicKey req) r (tab t)"
  using assms
proof (rule queue_sync_Inr, goal_cases)
  case (1 req' c ds)
  then have "cmd_node_public_key c = TrimSpace (rq_NodePublicKey req)" by (auto simp: trim_request_def)
  with 1(2,4,6,8) show ?case by (simp add: sync_queued_def scanAgentCommandRow_def)
qed

lemma live_node:
  "inactivePolicyMutationMessage (Some node) = '''' \<Longrightarrow> ToLower (TrimSpace (nd_Status node)) \<notin> {''deleted'', ''suspended'', ''banned''}"
  by (auto simp: inactivePolicyMutationMessage_def stopped_statuses_def Let_def split: if_split_asm)

lemma route_write:
  assumes run: "changed (writeTransactionalPolicyMutationSuccess ro node domain action msg
      (route_data answer data metadata (failing text (UpdateTenantNodeRoutes (nd_ID node) T routes)))) s = (res, t)"
  shows "route_outcome (\<lambda>r. routes_stored T node routes r (tab s) (tab t)) (tab t = tab s) res"
proof -
  let ?m = "writeTransactionalPolicyMutationSuccess ro node domain action msg
      (route_data answer data metadata (failing text (UpdateTenantNodeRoutes (nd_ID node) T routes)))"
  obtain q where q: "?m s = (q, t)" and res: "res = map_sum id (\<lambda>r. case r of Reply x \<Rightarrow> Reply (Changed x)
      | WriteError k c msg \<Rightarrow> WriteError k c msg | HttpError k msg \<Rightarrow> HttpError k msg) q"
    using run by (cases "?m s"; cases "fst (?m s)") (auto simp: changed_def bnd_def ret_def)
  from q show ?thesis
  proof (cases rule: policy_write_cases)
    case refused
    with res show ?thesis by (intro outcome_other) (cases q; auto split: reply.split_asm)+
  next
    case (stored a d u v x w req)
    from stored(3) have "UpdateTenantNodeRoutes (nd_ID node) T routes u = (Inr (), v)"
      by (simp add: route_data_def bnd_Inr ret_Inr failing_Inr)
    from UpdateTenantNodeRoutes_Inr [OF this] stored(4)
    have "\<exists>now. nodes (tab v) = set_routes (nd_ID node) T routes now (nodes (tab s))" by simp
    moreover have "nodes (tab w) = nodes (tab v)" using nodes_frame.frame_run [OF sync_keeps_nodes stored(7)] stored(6) by simp
    moreover have "nodes (tab t) = nodes (tab w)" "agent_commands (tab t) = agent_commands (tab w)"
      using without_alerts_nodes [OF stored(8)] without_alerts_fields(1) [OF stored(8)] .
    moreover have "sync_queued (nd_PublicKey node) (pa_dispatch a) (tab w)" using queued_sync [OF stored(7)] by (simp add: stored(11))
    moreover note live_node [OF stored(2)]
    ultimately show ?thesis using stored(1) res by (simp add: route_outcome_def routes_stored_def sync_queued_def)
  qed
qed

section \<open>The request for a change\<close>

text \<open>The routes a request asks for.\<close>

definition new_routes :: "string \<Rightarrow> (string \<times> string) option \<Rightarrow> string \<Rightarrow> string list \<Rightarrow> err + string list" where
  "new_routes meth body routeID old =
     (if meth = ''DELETE'' then Inr (filter (\<lambda>route. route \<noteq> routeID) old)
      else case decodeRouteBody body of
        Inl e \<Rightarrow> Inl e
      | Inr route \<Rightarrow> normalizeRoutes (if meth = ''POST'' then old @ [route] else map (\<lambda>x. if x = routeID then route else x) old))"

text \<open>No route meets one of an active node of the tenant in another region.\<close>

definition no_rival :: "uuid \<Rightarrow> Node \<Rightarrow> string list \<Rightarrow> tables \<Rightarrow> bool" where
  "no_rival T node routes t \<longleftrightarrow> (\<forall>n \<in> set (nodes t). route_rival T (nd_PublicKey node) (nd_Region node) n \<longrightarrow>
     (\<forall>r' \<in> set (node_advertised_routes n). \<forall>c \<in> set routes. \<not> routes_meet c r'))"

lemma reads_conflict: "maintains (keeps (\<lambda>t. t)) (FindTenantAdvertisedRouteConflict collate T key region routes)"
  unfolding FindTenantAdvertisedRouteConflict_def Let_def by (intro maintains_rules)

lemma unless_conflict_cases:
  assumes run: "unless_conflict ro T node (nd_Region node) routes m s = (res, t)"
  obtains (refused) "tab t = tab s" "\<And>a. res \<noteq> Inr (Reply a)"
    | (went_on) u where "m u = (res, t)" "tab u = tab s" "no_rival T node routes (tab s)"
proof -
  let ?f = "FindTenantAdvertisedRouteConflict (sql_collate (ro_sql ro)) T (nd_PublicKey node) (nd_Region node) routes"
  obtain q u where q: "?f s = (q, u)" by fastforce
  have u: "tab u = tab s" by (rule unchanged.frame_run [OF reads_conflict q])
  have step: "unless_conflict ro T node (nd_Region node) routes m s = (case q of
       Inl e \<Rightarrow> (Inr (WriteError 400 ''BAD_REQUEST'' (ro_err_Error ro e)), u)
     | Inr (Some conflict) \<Rightarrow> (Inr (WriteError 409 ''BAD_REQUEST'' (RouteConflictError_Error conflict)), u)
     | Inr None \<Rightarrow> m u)"
    using q by (simp add: unless_conflict_def validateTenantAdvertisedRouteConflicts_def bnd_def attempt_def ret_def split: sum.split option.split)
  show ?thesis
  proof (cases q)
    case (Inl e)
    with run step u show ?thesis by (intro refused) auto
  next
    case (Inr c)
    show ?thesis
    proof (cases c)
      case None
      with run step Inr have "m u = (res, t)" by simp
      moreover from FindTenant_None_iff [OF q [unfolded Inr]] None have "no_rival T node routes (tab s)" by (simp add: no_rival_def)
      ultimately show ?thesis using u by (intro went_on)
    next
      case (Some conflict)
      with run step Inr u show ?thesis by (intro refused) auto
    qed
  qed
qed

lemma with_node_cases:
  assumes run: "with_node ro i T f s = (res, t)"
  obtains (missing) "tab t = tab s" "\<And>a. res \<noteq> Inr (Reply a)"
    | (got) n u where "f (scanNodeRows n) u = (res, t)" "tab u = tab s" "n \<in> set (nodes (tab s))" "node_tenant_id n = T"
proof -
  obtain q u where q: "getTenantNodeRecord ro i T s = (q, u)" by fastforce
  have u: "tab u = tab s" by (rule unchanged.frame_run [OF reads_node q])
  show ?thesis
  proof (cases q)
    case (Inl e)
    with run q u show ?thesis
      by (intro missing) (auto simp: with_node_def bnd_def attempt_def ret_def writeNodeLookupError_def split: if_split_asm)
  next
    case (Inr node)
    from getTenantNodeRecord_Inr [OF q [unfolded Inr]] obtain n where "n \<in> set (nodes (tab s))" "node_tenant_id n = T" "node = scanNodeRows n"
      by blast
    with run q Inr u show ?thesis by (intro got [of n u]) (simp_all add: with_node_def bnd_def attempt_def)
  qed
qed

lemma scanned_routes [simp]:
  "nd_AdvertisedRoutes (scanNodeRows n) = node_advertised_routes n" "nd_ID (scanNodeRows n) = node_id n"
  "nd_PublicKey (scanNodeRows n) = node_public_key n" "nd_Region (scanNodeRows n) = node_region n"
  by (simp_all add: scanNodeRows_def)

text \<open>The outcome of a change of the routes of a node that was found.\<close>

definition node_outcome :: "uuid \<Rightarrow> string \<Rightarrow> (string \<times> string) option \<Rightarrow> string \<Rightarrow> Node \<Rightarrow> tables \<Rightarrow> tables \<Rightarrow> err + route_answer answered reply \<Rightarrow> bool" where
  "node_outcome T meth body routeID node t t' res = route_outcome (\<lambda>r. \<exists>routes. new_routes meth body routeID (nd_AdvertisedRoutes node) = Inr routes \<and>
       routes_stored T node routes r t t' \<and> (meth \<noteq> ''DELETE'' \<longrightarrow> no_rival T node routes t)) (t' = t) res"

lemma node_outcome_other: "tab t = tab s \<Longrightarrow> (\<And>a. res \<noteq> Inr (Reply (Changed a))) \<Longrightarrow> node_outcome T meth body routeID node (tab s) (tab t) res"
  unfolding node_outcome_def by (rule outcome_other)

text \<open>The part the handlers share: the new routes are checked and stored.\<close>

lemma checked_write:
  assumes "new_routes meth body routeID (nd_AdvertisedRoutes node) = Inr routes"
    and run: "unless_conflict ro T node (nd_Region node) routes (changed (writeTransactionalPolicyMutationSuccess ro node domain action msg
      (route_data answer data metadata (failing text (UpdateTenantNodeRoutes (nd_ID node) T routes))))) s = (res, t)"
  shows "node_outcome T meth body routeID node (tab s) (tab t) res"
  using run
proof (cases rule: unless_conflict_cases)
  case refused
  then show ?thesis by (intro node_outcome_other)
next
  case (went_on u)
  from route_write [OF went_on(1)] show ?thesis
    unfolding node_outcome_def by (rule outcome_mono) (use assms(1) went_on(2,3) in auto)
qed

lemma inactive_cases:
  assumes "writeInactivePolicyMutationError node m s = (res, t)"
  obtains "tab t = tab s" "\<And>a. res \<noteq> Inr (Reply a)" | "m s = (res, t)"
  using assms by (auto simp: writeInactivePolicyMutationError_def Let_def ret_def split: if_split_asm)

lemma add_route:
  assumes run: "addTenantNodeRoute ro body T node s = (res, t)"
  shows "node_outcome T ''POST'' body '''' node (tab s) (tab t) res"
proof (cases "decodeRouteBody body")
  case (Inl e)
  with run show ?thesis by (intro node_outcome_other) (auto simp: addTenantNodeRoute_def invalid_request_def ret_def)
next
  case (Inr route)
  note decoded = this
  from run [unfolded addTenantNodeRoute_def, simplified decoded sum.case] show ?thesis
  proof (cases rule: inactive_cases)
    case 1
    then show ?thesis by (intro node_outcome_other)
  next
    case 2
    show ?thesis
    proof (cases "normalizeRoutes (nd_AdvertisedRoutes node @ [route])")
      case (Inl e)
      with 2 show ?thesis by (intro node_outcome_other) (auto simp: invalid_request_def ret_def)
    next
      case (Inr routes)
      show ?thesis
      proof (cases "containsString (nd_AdvertisedRoutes node) route")
        case True
        with 2 Inr show ?thesis by (intro node_outcome_other) (auto simp: ret_def)
      next
        case False
        have new: "new_routes ''POST'' body '''' (nd_AdvertisedRoutes node) = Inr routes"
          using decoded Inr by (simp add: new_routes_def)
        from 2 Inr False show ?thesis by (intro checked_write [OF new]) simp
      qed
    qed
  qed
qed

lemma replace_route:
  assumes run: "replaceTenantNodeRoute ro body T i routeID s = (res, t)"
  shows "(tab t = tab s \<and> (\<forall>a. res \<noteq> Inr (Reply (Changed a)))) \<or>
    (\<exists>n \<in> set (nodes (tab s)). node_tenant_id n = T \<and> node_outcome T ''PUT'' body routeID (scanNodeRows n) (tab s) (tab t) res)"
  using run [unfolded replaceTenantNodeRoute_def]
proof (cases rule: with_node_cases)
  case missing
  then show ?thesis by blast
next
  case (got n u)
  have "node_outcome T ''PUT'' body routeID (scanNodeRows n) (tab u) (tab t) res"
  proof (cases "containsString (node_advertised_routes n) routeID")
    case False
    with got(1) show ?thesis by (intro node_outcome_other) (auto simp: ret_def)
  next
    case True
    show ?thesis
    proof (cases "decodeRouteBody body")
      case (Inl e)
      with True got(1) show ?thesis by (intro node_outcome_other) (auto simp: invalid_request_def ret_def)
    next
      case (Inr route)
      note decoded = this
      from got(1) [simplified True decoded sum.case scanned_routes not_True_eq_False if_False] show ?thesis
      proof (cases rule: inactive_cases)
        case 1
        then show ?thesis by (intro node_outcome_other)
      next
        case 2
        show ?thesis
        proof (cases "normalizeRoutes (map (\<lambda>x. if x = routeID then route else x) (node_advertised_routes n))")
          case (Inl e)
          with 2 show ?thesis by (intro node_outcome_other) (auto simp: invalid_request_def ret_def)
        next
          case (Inr routes)
          have new: "new_routes ''PUT'' body routeID (nd_AdvertisedRoutes (scanNodeRows n)) = Inr routes"
            using decoded Inr by (simp add: new_routes_def)
          from 2 Inr show ?thesis by (intro checked_write [OF new]) simp
        qed
      qed
    qed
  qed
  with got(2-4) show ?thesis by auto
qed

lemma delete_route:
  assumes run: "deleteTenantNodeRoute ro T i routeID s = (res, t)"
  shows "(tab t = tab s \<and> (\<forall>a. res \<noteq> Inr (Reply (Changed a)))) \<or>
    (\<exists>n \<in> set (nodes (tab s)). node_tenant_id n = T \<and> node_outcome T ''DELETE'' body routeID (scanNodeRows n) (tab s) (tab t) res)"
  using run [unfolded deleteTenantNodeRoute_def]
proof (cases rule: with_node_cases)
  case missing
  then show ?thesis by blast
next
  case (got n u)
  have "node_outcome T ''DELETE'' body routeID (scanNodeRows n) (tab u) (tab t) res"
  proof (cases "containsString (node_advertised_routes n) routeID")
    case False
    with got(1) show ?thesis by (intro node_outcome_other) (auto simp: ret_def)
  next
    case True
    from got(1) [simplified True scanned_routes not_True_eq_False if_False] show ?thesis
    proof (cases rule: inactive_cases)
      case 1
      then show ?thesis by (intro node_outcome_other)
    next
      case 2
      then have "route_outcome (\<lambda>r. routes_stored T (scanNodeRows n) (filter (\<lambda>route. route \<noteq> routeID) (node_advertised_routes n)) r (tab u) (tab t))
          (tab t = tab u) res"
        by (intro route_write) simp
      then show ?thesis unfolding node_outcome_def by (rule outcome_mono) (auto simp: new_routes_def)
    qed
  qed
  with got(2-4) show ?thesis by auto
qed

lemma reads_list: "maintains (keeps (\<lambda>t. t)) (listTenantNodeRoutes T node)"
  unfolding listTenantNodeRoutes_def attachPolicyDeliveriesToItems_def ListPolicyDeliveriesByNodeAndDomain_def Let_def
  by (intro maintains_rules after_write_frame(2))

lemma list_outcome:
  assumes "listTenantNodeRoutes T node s = (res, t)"
  shows "tab t = tab s \<and> (\<forall>a. res \<noteq> Inr (Reply (Changed a)))"
proof -
  let ?m = "attachPolicyDeliveriesToItems T (nd_ID node) ''route'' (nd_AdvertisedRoutes node)"
  have "res \<noteq> Inr (Reply (Changed a))" for a
    using assms by (cases "fst (?m s)") (auto simp: listTenantNodeRoutes_def bnd_def attempt_def ret_def split: prod.split_asm)
  with unchanged.frame_run [OF reads_list assms] show ?thesis by simp
qed

lemma get_outcome:
  assumes "getTenantNodeRoute ro T i routeID s = (res, t)"
  shows "tab t = tab s \<and> (\<forall>a. res \<noteq> Inr (Reply (Changed a)))"
  using assms [unfolded getTenantNodeRoute_def]
  by (cases rule: with_node_cases) (auto simp: ret_def split: if_split_asm)

text \<open>
  (C16) A request for the routes of a node that is answered with a change was permitted
  \<^verbatim>\<open>routes:write\<close>; the routes of one node of the tenant that is not stopped, and no other column of any node but
  the time of the update, are then the ones the request asks for, none of them meets a
  route of an active node in another region, and a sync of the node is waiting in the queue. Every
  other answer leaves the tables as they were.
\<close>

theorem route_change_with_sync:
  assumes run: "handleTenantNodeRoutes ro meth ctx T parts body s = (res, t)" and "enforcement_mode ro \<notin> {''off'', ''audit''}"
  shows "route_outcome (\<lambda>r. permitted ro (tab s) ctx T ''routes:write'' \<and> (\<exists>n \<in> set (nodes (tab s)). node_tenant_id n = T \<and>
      (\<exists>routes. new_routes meth body (Join ''/'' (drop 7 parts)) (node_advertised_routes n) = Inr routes \<and>
         routes_stored T (scanNodeRows n) routes r (tab s) (tab t) \<and>
         (meth \<noteq> ''DELETE'' \<longrightarrow> no_rival T (scanNodeRows n) routes (tab s))))) (tab t = tab s) res"
proof (cases "length parts < 7 \<or> parts ! 6 \<noteq> ''routes''")
  case True
  with run show ?thesis by (intro outcome_other) (auto simp: handleTenantNodeRoutes_def ret_def)
next
  case False
  let ?p = "if meth \<noteq> ''GET'' then ''routes:write'' else ''routes:read''" and ?id = "Join ''/'' (drop 7 parts)"
  note path = run [unfolded handleTenantNodeRoutes_def if_not_P [OF False] Let_def]
  from path reads_permission(1) show ?thesis
  proof (cases rule: after_cases)
    case stopped
    then show ?thesis by (intro outcome_other)
  next
    case (went_on y v)
    have p: "permitted ro (tab s) ctx T ?p" by (rule authorizeTenantPermission_Reply [OF went_on(1) assms(2)]) simp
    have goal: ?thesis if "n \<in> set (nodes (tab s))" "node_tenant_id n = T" "meth \<noteq> ''GET''"
        "node_outcome T meth body ?id (scanNodeRows n) (tab s) (tab t) res" for n
      using that(4) [unfolded node_outcome_def] by (rule outcome_mono) (use p that(1-3) in \<open>auto\<close>)
    from went_on(3) show ?thesis
    proof (cases rule: with_node_cases)
      case missing
      with went_on(2) show ?thesis by (intro outcome_other) simp_all
    next
      case (got n u)
      have u: "tab u = tab s" using got(2) went_on(2) by simp
      consider (list) "listTenantNodeRoutes T (scanNodeRows n) u = (res, t)" | (get) "getTenantNodeRoute ro T (parts ! 5) ?id u = (res, t)"
        | (add) "meth = ''POST''" "?id = ''''" "addTenantNodeRoute ro body T (scanNodeRows n) u = (res, t)"
        | (replace) "meth = ''PUT''" "replaceTenantNodeRoute ro body T (parts ! 5) ?id u = (res, t)"
        | (delete) "meth = ''DELETE''" "deleteTenantNodeRoute ro T (parts ! 5) ?id u = (res, t)"
        | (none) "ret method_not_allowed u = (res, t)"
        using got(1) by (simp split: if_split_asm)
      then show ?thesis
      proof cases
        case list
        from list_outcome [OF this] u show ?thesis by (intro outcome_other) simp_all
      next
        case get
        from get_outcome [OF this] u show ?thesis by (intro outcome_other) simp_all
      next
        case add
        with add_route [OF add(3)] u got(3,4) went_on(2) show ?thesis by (intro goal [of n]) simp_all
      next
        case replace
        from replace_route [OF replace(2)] show ?thesis
        proof
          assume "\<exists>n \<in> set (nodes (tab u)). node_tenant_id n = T \<and> node_outcome T ''PUT'' body ?id (scanNodeRows n) (tab u) (tab t) res"
          with u replace(1) goal show ?thesis by auto
        qed (use u in \<open>intro outcome_other; simp\<close>)
      next
        case delete
        from delete_route [OF delete(2), of body] show ?thesis
        proof
          assume "\<exists>n \<in> set (nodes (tab u)). node_tenant_id n = T \<and> node_outcome T ''DELETE'' body ?id (scanNodeRows n) (tab u) (tab t) res"
          with u delete(1) goal show ?thesis by auto
        qed (use u in \<open>intro outcome_other; simp\<close>)
      next
        case none
        with u show ?thesis by (intro outcome_other) (auto simp: ret_def)
      qed
    qed
  qed
qed

theorem route_change_with_sync_witness:
  "\<exists>a t. handleTenantNodeRoutes role_router ''POST'' admin_context ''t1'' [''api'', ''v2'', ''tenants'', ''t1'', ''nodes'', ''n1'', ''routes'']
       (Some ('' 10.0.0.7 '', '''')) role_db = (Inr (Reply (Changed a)), t) \<and>
     map node_advertised_routes (nodes (tab t)) = [[''10.0.0.7/32''], []] \<and> permitted role_router (tab role_db) admin_context ''t1'' ''routes:write''"
proof -
  let ?run = "handleTenantNodeRoutes role_router ''POST'' admin_context ''t1'' [''api'', ''v2'', ''tenants'', ''t1'', ''nodes'', ''n1'', ''routes'']
       (Some ('' 10.0.0.7 '', '''')) role_db"
  have ran: "(case ?run of (Inr (Reply (Changed a)), t) \<Rightarrow> map node_advertised_routes (nodes (tab t)) = [[''10.0.0.7/32''], []] | _ \<Rightarrow> False)"
    by code_simp
  then obtain a t where run: "?run = (Inr (Reply (Changed a)), t)" "map node_advertised_routes (nodes (tab t)) = [[''10.0.0.7/32''], []]"
    by (auto split: prod.split_asm sum.split_asm reply.split_asm answered.split_asm)
  have "enforcement_mode role_router \<notin> {''off'', ''audit''}" by code_simp
  from route_change_with_sync [OF run(1) this] have "permitted role_router (tab role_db) admin_context ''t1'' ''routes:write''"
    by (simp add: route_outcome_def)
  with run show ?thesis by (intro exI [of _ a] exI [of _ t] conjI)
qed

end
