(* ===== verification/Spec2Isabelle.thy ===== *)
theory Spec2Isabelle
  imports Controller_Run Policy_Snapshot Go_Sha256 Enrollment Controller_Jobs Agent_Sync Node_Api
begin

text \<open>
  Aria is an SD-WAN controller written in Go. A controller process keeps tenants, nodes, policies
  and a queue of commands in PostgreSQL (\<^verbatim>\<open>src/pkg/controllerstorage\<close>); agents on the nodes poll
  it over gRPC, fetch the next command and the policy of their node, and report back; operators
  work through an HTTP API. Devices join with a join token (\<^verbatim>\<open>src/internal/token\<close>). This library
  models the storage layer operation by operation, with the rules that decide which policy
  applies and which addresses are trusted, and proves the properties the rest of the program
  relies on.

  \<^bold>\<open>How the code is modelled.\<close> A table is a list of rows, a row a record with the columns the
  code reads or writes, NULL an option. \<open>Storage_Model\<close> has the tables, the state of one call
  (the tables, a clock, an oracle that may fail any statement, a supply of ids) and the operations
  \<open>'a op\<close> that thread this state and return an error or a value. A statement is a function on
  tables (\<open>update_where\<close>, \<open>affected\<close>, an insert that fails on a duplicate key); \<open>transaction\<close>
  runs a body on the tables and puts the old tables back unless the body asks to commit and the
  commit succeeds. Every statement, every row scan and every commit may fail, so a theorem about
  an operation covers every error path. Strings are Isabelle strings, Go's \<^verbatim>\<open>int\<close> columns are
  \<open>int\<close>, \<^verbatim>\<open>uint64\<close> rates are \<open>64 word\<close>, addresses are words of 32 and 128 bits.

  \<^bold>\<open>The theories.\<close>
  \<^item> \<open>Prelude\<close>: Go's string functions (trimming, case, splitting, decimal numbers) and the errors.
  \<^item> \<open>Storage_Model\<close>, \<open>Storage_Logic\<close>: the storage state and the logic of operations: what an
    operation maintains on every outcome and preserves on success, as a locale over a relation of
    tables, interpreted for each invariant.
  \<^item> \<open>Token_Store\<close>: \<^verbatim>\<open>internal/token\<close> (store, validator, generator). A token is never used more
    often than its limit over any interleaving of statements; what is admitted and why not.
  \<^item> \<open>Messages\<close>, \<open>Alerts\<close>: audit events, alerts, the alert generators.
  \<^item> \<open>Control_State\<close>: desired, applied and observed state of a node, convergence.
  \<^item> \<open>Agent_Commands\<close>: the command queue: queueing, delivery, reports, time-outs. The status of
    a command follows a state machine; a report is atomic and only for its own node.
  \<^item> \<open>Policy_Sync\<close>: policy deliveries and the transaction that changes a policy, supersedes the
    open syncs of a node and queues the new one.
  \<^item> \<open>Certificates\<close>, \<open>Node_Lifecycle\<close>: certificates, and stopping nodes and tenants in one
    transaction.
  \<^item> \<open>Controller_Run\<close>: the calls of these components as one step relation, with the
    invariants over every reachable state.
  \<^item> \<open>Go_Netip\<close>, \<open>Go_Netip6\<close>: the parts of Go's \<^verbatim>\<open>net/netip\<close> and \<^verbatim>\<open>net\<close> the code uses: parsing
    and printing of IPv4 and IPv6 addresses and prefixes with their round trips, masks,
    containment.
  \<^item> \<open>Policy_Cidr\<close>: the ranges of policies (\<^verbatim>\<open>network_policy.go\<close>, \<^verbatim>\<open>ip_groups.go\<close>): the comparison
    of two ranges decides inclusion of sets of addresses; normalising is idempotent and keeps the
    addresses.
  \<^item> \<open>Policy_Conflict\<close>: rule records, defaults and the detection of ambiguous rules, sound and
    complete against the packets a rule matches.
  \<^item> \<open>Public_Network\<close>: \<^verbatim>\<open>internal/nodeidentity\<close>: which reported addresses are kept.
  \<^item> \<open>Node_Store\<close>: \<^verbatim>\<open>postgres.go\<close>: tenants, nodes, heartbeats, clean-up, the offsets from which overlay
    addresses are made. Two offsets drawn in a row differ and a free one is found.
  \<^item> \<open>Routes\<close>: \<^verbatim>\<open>routes.go\<close>: the overlap of advertised routes, exact on sets of addresses.
  \<^item> \<open>Auth_Tokens\<close>, \<open>Tenant_Scope\<close>: \<^verbatim>\<open>internal/auth\<close>, the gRPC interceptors and the HTTP session
    middleware. The JWT library is a parameter with two hypotheses (\<open>jwt_sound\<close>: a parsed token was
    signed with the secret; \<open>jwt_round_trip\<close>: a signed token parses). Who is let through, and that
    stopping a tenant ends every session and every runtime token of it.
  \<^item> \<open>Policy_Snapshot\<close>: \<^verbatim>\<open>grpc/policy_snapshot.go\<close>: the rules and groups sent to an agent. A snapshot is
    well formed; a compiled rule matches the packets of its record, the relation of \<open>Policy_Conflict\<close>.
  \<^item> \<open>Registration\<close>, \<open>Enrollment\<close>: \<^verbatim>\<open>cli/controller_serve.go\<close> and \<^verbatim>\<open>security/certissuance\<close>: how a device is
    admitted, gets its address and its certificate. An unknown device spends one use of a join
    token. X.509 is a parameter.
  \<^item> \<open>Controller_Jobs\<close>: the routine of \<^verbatim>\<open>controller_serve.go\<close> that marks silent nodes offline, raises and resolves
    alerts and expires certificates. The alert for a node that goes offline is never raised.
  \<^item> \<open>Agent_Service\<close>: \<^verbatim>\<open>grpc/server.go\<close> and \<^verbatim>\<open>node_policy_stats.go\<close>: registration, metrics and the command
    stream, turn by turn and interleaved with the other calls on the queue. A call acts on the node
    its token was issued for; a stream sends commands of its node only and ends when it is stopped.
  \<^item> \<open>Ip_Groups\<close>: \<^verbatim>\<open>ip_groups.go\<close>, \<^verbatim>\<open>ip_group_references.go\<close>: groups of ranges and the rules that refer to
    them. A range is in one group of its tenant, as long as the calls do not overlap.
  \<^item> \<open>Policy_Rules\<close>: \<^verbatim>\<open>network_policy.go\<close>, \<^verbatim>\<open>policy_sync.go\<close>: the ACL, QoS and blacklist rules of a node in the
    tables, and their change inside the transaction of a policy sync. A change stays within its node;
    a group and the syncs of the nodes that use it change together.
  \<^item> \<open>Agent_Sync\<close>: the \<^verbatim>\<open>Sync\<close> call of \<^verbatim>\<open>grpc/server.go\<close> with its adapter, and the registration over HTTP of
    \<^verbatim>\<open>cli/controller_serve.go\<close>. The peers an agent gets are exactly the live nodes of its own tenant.
  \<^item> \<open>Rbac\<close>: \<^verbatim>\<open>rbac.go\<close>, \<^verbatim>\<open>api/v2/roles.go\<close> and the authorisation of \<^verbatim>\<open>api/v2/setup.go\<close>: the roles of a tenant, the
    check of a permission and the handlers for roles. Roles change only for a permitted session, and
    system roles never.
  \<^item> \<open>Accounts\<close>: \<^verbatim>\<open>api/handlers/auth.go\<close>, \<^verbatim>\<open>api/handlers/tenant.go\<close> and the first account of
    \<^verbatim>\<open>controller_serve.go\<close>: login, refresh, logout, change of password, tenants and their users. A session that
    was ended is refused; the users of a tenant change within it and never become super administrators;
    a lower role does not end a session. bcrypt is a parameter; of the JWT library \<open>jwt_stable\<close> is used (a
    token carries the same claims whenever it is parsed), and of the database \<open>folds_platform\<close>.
  \<^item> \<open>Command_Api\<close>: \<^verbatim>\<open>api/v2/operations.go\<close>: the summary of a node and the handlers that queue commands for one
    node or a batch and list them. Only live nodes of the tenant get a command, only with permission and
    only of an allowed kind. \<^verbatim>\<open>fmt.Sprint\<close> is a parameter.
  \<^item> \<open>Node_Api\<close>: \<^verbatim>\<open>api/v2/setup.go\<close>: the handlers for nodes and their advertised routes, with the writer that
    changes a policy and queues the sync of its node in one transaction. Stored routes are sorted, distinct
    CIDR blocks; a change of routes is permitted, stays in one node, conflicts with no other region and is
    queued as a sync, or changes nothing. A host given as a mapped address becomes a block.
  \<^item> \<open>Go_Sha256\<close>: SHA-256 on words of 32 bits, for the fingerprints of policies.

  \<^bold>\<open>Assumptions of the model.\<close> A call runs alone between two statements of other calls only where
  the theorem says so (runs of \<open>Token_Store\<close> interleave single statements; \<open>SKIP LOCKED\<close> takes
  the set of locked rows as an argument). Identifiers come from a supply that may repeat; a
  repeated key makes the insert fail as in the database. JSON texts are values with a flag whether
  they can be marshalled. No definition needs fuel: every loop is over a list or a text.

  \<^bold>\<open>Not modelled.\<close> Schema migrations, monitoring queries, Redis,
  the handlers of the HTTP API other than those for roles, accounts, registration, commands, nodes and routes, X.509 signing, the chat assistant, the command line,
  logging and generated code.
\<close>

end
